(* ===== verification/Governor.thy ===== *)
theory Governor
  imports Prelude
begin

text \<open>
  The process-local concurrency governor of \<^verbatim>\<open>workflow/governor.py\<close>: slot counters per
  process, workflow and provider, two priority queues of waiters, and a token bucket
  per provider. Every critical section of the class is one function on the record
  \<open>governor\<close>; the clock is read once per critical section and passed in as \<open>now\<close>.
  A blocking \<open>acquire\<close> is the sequence of its critical sections: \<open>acquire_begin\<close>
  up to the first wait on the condition variable, then one \<open>acquire_wake\<close> per wake-up.
\<close>

section \<open>Data\<close>

definition abs_ceiling :: int where "abs_ceiling = 4096"
definition default_queue :: int where "default_queue = 256"
definition retry_bucket_rate :: rat where "retry_bucket_rate = 1"
definition retry_bucket_burst :: rat where "retry_bucket_burst = 1"

datatype run_priority = INTERACTIVE | BATCH

definition priority_value :: "run_priority \<Rightarrow> int" where
  "priority_value p = (case p of INTERACTIVE \<Rightarrow> 0 | BATCH \<Rightarrow> 1)"

instantiation run_priority :: linorder
begin

definition less_eq_run_priority :: "run_priority \<Rightarrow> run_priority \<Rightarrow> bool" where
  "p \<le> q \<longleftrightarrow> priority_value p \<le> priority_value q"

definition less_run_priority :: "run_priority \<Rightarrow> run_priority \<Rightarrow> bool" where
  "p < q \<longleftrightarrow> priority_value p < priority_value q"

instance
  by standard
    (auto simp: less_eq_run_priority_def less_run_priority_def priority_value_def
      split: run_priority.splits)

end

record waiter =
  w_priority :: int
  w_seq :: nat
  w_workflow :: string
  w_provider :: "string option"
  w_event :: bool
  w_granted :: bool

record bucket =
  tokens :: rat
  updated :: rat
  rate :: rat
  burst :: rat

record governor =
  max_concurrency :: int
  global_limit :: int
  per_workflow_limit :: "int option"
  per_provider_limit :: "int option"
  queue_bound :: int
  provider_rate :: "rat option"
  provider_burst :: "rat option"
  global_used :: int
  wf_used :: "string \<Rightarrow> int"
  prov_used :: "string \<Rightarrow> int"
  interactive :: "waiter list"
  batch :: "waiter list"
  queued :: int
  gov_seq :: nat
  shut_down :: bool
  retry_until :: "(string \<times> rat) list"
  buckets :: "string \<rightharpoonup> bucket"
  hooks :: "nat list"
  granted_waiters :: "waiter list"
    \<comment> \<open>waiters granted by another thread whose own thread has not run yet\<close>

text \<open>Errors of \<^verbatim>\<open>GovernorShutdown\<close> and \<^verbatim>\<open>GovernorBackpressure\<close>.\<close>

datatype gov_error = GovernorShutdown | QueueFull int | AcquireTimedOut

datatype acquired = Acquired | Waiting nat "rat option" | Refused gov_error

section \<open>Construction and configuration\<close>

definition hard_concurrency_ceiling :: "string option \<Rightarrow> string option \<Rightarrow> int" where
  "hard_concurrency_ceiling raw env =
     (let txt = (case raw of Some t \<Rightarrow> t | None \<Rightarrow> (case env of Some t \<Rightarrow> t | None \<Rightarrow> []));
          val = (if strip txt = [] then abs_ceiling
                 else (case py_int txt of None \<Rightarrow> abs_ceiling | Some n \<Rightarrow> n))
      in max 1 (min val abs_ceiling))"

definition clamp_limit :: "int option \<Rightarrow> int \<Rightarrow> int option" where
  "clamp_limit l g = (case l of None \<Rightarrow> None | Some n \<Rightarrow> Some (max 1 (min n g)))"

definition new_governor ::
  "int option \<Rightarrow> int option \<Rightarrow> int option \<Rightarrow> int \<Rightarrow> rat option \<Rightarrow> rat option \<Rightarrow> int option
   \<Rightarrow> string option \<Rightarrow> governor" where
  "new_governor glimit wlimit plimit qbound prate pburst maxc env =
     (let ceil = (case maxc of Some m \<Rightarrow> max 1 (min m abs_ceiling)
                            | None \<Rightarrow> hard_concurrency_ceiling None env);
          requested = (case glimit of None \<Rightarrow> ceil | Some n \<Rightarrow> n);
          gl = max 1 (min requested ceil);
          pr = (case prate of None \<Rightarrow> None | Some r \<Rightarrow> Some (max 0 r));
          pb = (case pburst of Some b \<Rightarrow> Some b
                | None \<Rightarrow> (case pr of None \<Rightarrow> None | Some r \<Rightarrow> Some (max 1 r)))
      in \<lparr>max_concurrency = ceil, global_limit = gl,
          per_workflow_limit = clamp_limit wlimit gl,
          per_provider_limit = clamp_limit plimit gl,
          queue_bound = max 1 qbound, provider_rate = pr,
          provider_burst = (case pb of None \<Rightarrow> None | Some b \<Rightarrow> Some (max 0 b)),
          global_used = 0, wf_used = (\<lambda>_. 0), prov_used = (\<lambda>_. 0),
          interactive = [], batch = [], queued = 0, gov_seq = 0, shut_down = False,
          retry_until = [], buckets = Map.empty, hooks = [], granted_waiters = []\<rparr>)"

definition configure ::
  "int option \<Rightarrow> int option \<Rightarrow> int option \<Rightarrow> rat option \<Rightarrow> rat option \<Rightarrow> governor \<Rightarrow> governor" where
  "configure glimit wlimit plimit prate pburst g =
     (let g1 = (case glimit of None \<Rightarrow> g
                | Some n \<Rightarrow> g\<lparr>global_limit := max 1 (min n (max_concurrency g))\<rparr>);
          g2 = (case wlimit of None \<Rightarrow> g1
                | Some n \<Rightarrow> g1\<lparr>per_workflow_limit := Some (max 1 (min n (global_limit g1)))\<rparr>);
          g3 = (case plimit of None \<Rightarrow> g2
                | Some n \<Rightarrow> g2\<lparr>per_provider_limit := Some (max 1 (min n (global_limit g2)))\<rparr>);
          g4 = (case prate of None \<Rightarrow> g3 | Some r \<Rightarrow> g3\<lparr>provider_rate := Some (max 0 r)\<rparr>)
      in (case pburst of None \<Rightarrow> g4 | Some b \<Rightarrow> g4\<lparr>provider_burst := Some (max 0 b)\<rparr>))"

definition on_shutdown :: "nat \<Rightarrow> governor \<Rightarrow> governor" where
  "on_shutdown h g = g\<lparr>hooks := hooks g @ [h]\<rparr>"

text \<open>Returns the hooks to call after the lock is dropped: none on a second request.\<close>

definition request_shutdown :: "governor \<Rightarrow> nat list \<times> governor" where
  "request_shutdown g =
     (if shut_down g then ([], g)
      else (hooks g,
            g\<lparr>shut_down := True,
              interactive := List.map (\<lambda>w. w\<lparr>w_event := True\<rparr>) (interactive g),
              batch := List.map (\<lambda>w. w\<lparr>w_event := True\<rparr>) (batch g)\<rparr>))"

definition provider_key :: "string option \<Rightarrow> string option" where
  "provider_key p =
     (case p of None \<Rightarrow> None
      | Some t \<Rightarrow> (let k = lower (strip t) in if k = [] then None else Some k))"

section \<open>Token buckets\<close>

definition until_of :: "governor \<Rightarrow> string \<Rightarrow> rat" where
  "until_of g p = dget_or (retry_until g) p 0"

definition blocked_until :: "governor \<Rightarrow> string option \<Rightarrow> rat" where
  "blocked_until g p = until_of g (case provider_key p of None \<Rightarrow> [] | Some k \<Rightarrow> k)"

definition has_bucket :: "governor \<Rightarrow> string \<Rightarrow> bool" where
  "has_bucket g p = (buckets g p \<noteq> None \<or> provider_rate g \<noteq> None)"

definition get_bucket :: "rat \<Rightarrow> string \<Rightarrow> governor \<Rightarrow> bucket \<times> governor" where
  "get_bucket now p g =
     (case buckets g p of
        Some b \<Rightarrow> (b, g)
      | None \<Rightarrow>
          (let bu = (case provider_burst g of Some x \<Rightarrow> x | None \<Rightarrow> 1);
               ra = (case provider_rate g of Some x \<Rightarrow> x | None \<Rightarrow> retry_bucket_rate);
               b = \<lparr>tokens = bu, updated = now, rate = ra, burst = bu\<rparr>
           in (b, g\<lparr>buckets := (buckets g)(p \<mapsto> b)\<rparr>)))"

definition refill_bucket :: "rat \<Rightarrow> bucket \<Rightarrow> bucket" where
  "refill_bucket now b =
     b\<lparr>tokens := min (burst b) (tokens b + rate b * max 0 (now - updated b)), updated := now\<rparr>"

definition refill :: "rat \<Rightarrow> string \<Rightarrow> governor \<Rightarrow> governor" where
  "refill now p g =
     (if \<not> has_bucket g p then g
      else (let (b, g1) = get_bucket now p g
            in g1\<lparr>buckets := (buckets g1)(p \<mapsto> refill_bucket now b)\<rparr>))"

definition tokens_ready :: "rat \<Rightarrow> string option \<Rightarrow> governor \<Rightarrow> bool \<times> governor" where
  "tokens_ready now prov g =
     (case prov of
        None \<Rightarrow> (\<forall>(k, u) \<in> set (retry_until g). u \<le> now, g)
      | Some p \<Rightarrow>
          if p = [] then (\<forall>(k, u) \<in> set (retry_until g). u \<le> now, g)
          else if now < until_of g p then (False, g)
          else if \<not> has_bucket g p then (True, g)
          else (let g1 = refill now p g; (b, g2) = get_bucket now p g1
                in (1 \<le> tokens b, g2)))"

definition consume_token :: "rat \<Rightarrow> string option \<Rightarrow> governor \<Rightarrow> governor" where
  "consume_token now prov g =
     (case prov of
        None \<Rightarrow> g
      | Some p \<Rightarrow>
          if p = [] \<or> \<not> has_bucket g p then g
          else (let g1 = refill now p g; (b, g2) = get_bucket now p g1
                in g2\<lparr>buckets := (buckets g2)(p \<mapsto> b\<lparr>tokens := max 0 (tokens b - 1)\<rparr>)\<rparr>))"

definition note_retry_after :: "rat \<Rightarrow> string \<Rightarrow> rat \<Rightarrow> governor \<Rightarrow> governor" where
  "note_retry_after now provider seconds g =
     (let name = lower (strip provider) in
      if name = [] then g
      else
        (let til = now + max 0 seconds;
             g1 = (if until_of g name < til then g\<lparr>retry_until := dset name til (retry_until g)\<rparr> else g);
             ra = (case provider_rate g of Some x \<Rightarrow> if x = 0 then retry_bucket_rate else x
                                         | None \<Rightarrow> retry_bucket_rate);
             bu = (case provider_burst g of Some x \<Rightarrow> if x = 0 then retry_bucket_burst else x
                                          | None \<Rightarrow> retry_bucket_burst);
             b = (case buckets g name of
                    None \<Rightarrow> \<lparr>tokens = 1, updated = til, rate = ra, burst = bu\<rparr>
                  | Some b \<Rightarrow> b\<lparr>tokens := 1, updated := til,
                               rate := (if rate b \<le> 0 then ra else rate b)\<rparr>)
         in g1\<lparr>buckets := (buckets g1)(name \<mapsto> b)\<rparr>))"

definition next_wake_delay :: "rat \<Rightarrow> string option \<Rightarrow> governor \<Rightarrow> rat option \<times> governor" where
  "next_wake_delay now prov g =
     (let (ds1, g1) =
        (case prov of
           None \<Rightarrow> ([], g)
         | Some p \<Rightarrow>
             if p = [] then ([], g)
             else
               (let d0 = (if now < until_of g p then [until_of g p - now] else [])
                in if has_bucket g p then
                     (let ga = refill now p g; (b, gb) = get_bucket now p ga
                      in (if tokens b < 1 \<and> 0 < rate b then d0 @ [(1 - tokens b) / rate b] else d0, gb))
                   else (d0, g)));
          ds2 = List.map (\<lambda>(k, u). u - now) (filter (\<lambda>(k, u). now < u) (retry_until g1));
          ds = ds1 @ ds2
      in (case ds of [] \<Rightarrow> None | d # rest \<Rightarrow> Some (max (1 / 100) (fold min rest d)), g1))"

section \<open>Slots and queues\<close>

definition fits :: "governor \<Rightarrow> string \<Rightarrow> string option \<Rightarrow> bool" where
  "fits g wfl prov =
     (\<not> global_limit g \<le> global_used g
      \<and> \<not> (case per_workflow_limit g of None \<Rightarrow> False | Some l \<Rightarrow> l \<le> wf_used g wfl)
      \<and> \<not> (case prov of
              None \<Rightarrow> False
            | Some p \<Rightarrow> p \<noteq> [] \<and> (case per_provider_limit g of None \<Rightarrow> False | Some l \<Rightarrow> l \<le> prov_used g p)))"

definition enter :: "string \<Rightarrow> string option \<Rightarrow> governor \<Rightarrow> governor" where
  "enter wfl prov g =
     (let g1 = g\<lparr>global_used := global_used g + 1, wf_used := (wf_used g)(wfl := wf_used g wfl + 1)\<rparr>
      in (case prov of
            None \<Rightarrow> g1
          | Some p \<Rightarrow> if p = [] then g1
                     else g1\<lparr>prov_used := (prov_used g1)(p := prov_used g1 p + 1)\<rparr>))"

fun remove_waiter :: "nat \<Rightarrow> waiter list \<Rightarrow> waiter list" where
  "remove_waiter s [] = []"
| "remove_waiter s (w # ws) = (if w_seq w = s then ws else w # remove_waiter s ws)"

definition drop_waiter :: "nat \<Rightarrow> governor \<Rightarrow> governor" where
  "drop_waiter s g =
     (if s \<in> w_seq ` set (interactive g) then
        g\<lparr>interactive := remove_waiter s (interactive g), queued := max 0 (queued g - 1)\<rparr>
      else if s \<in> w_seq ` set (batch g) then
        g\<lparr>batch := remove_waiter s (batch g), queued := max 0 (queued g - 1)\<rparr>
      else g)"

text \<open>
  The inner loop over one queue: the waiters passed over (with their events set when the
  governor is shutting down) and the first waiter that can be granted, if any.
\<close>

fun scan_queue :: "rat \<Rightarrow> waiter list \<Rightarrow> governor \<Rightarrow> waiter list \<times> waiter option \<times> governor" where
  "scan_queue now [] g = ([], None, g)"
| "scan_queue now (w # ws) g =
     (if w_granted w then
        (let (ws', r, g') = scan_queue now ws g in (w # ws', r, g'))
      else if shut_down g then
        (let (ws', r, g') = scan_queue now ws g in (w\<lparr>w_event := True\<rparr> # ws', r, g'))
      else if fits g (w_workflow w) (w_provider w) then
        (let (ok, g1) = tokens_ready now (w_provider w) g
         in if ok then (ws, Some w, g1)
            else (let (ws', r, g') = scan_queue now ws g1 in (w # ws', r, g')))
      else (let (ws', r, g') = scan_queue now ws g in (w # ws', r, g')))"

definition admit :: "rat \<Rightarrow> waiter \<Rightarrow> governor \<Rightarrow> governor" where
  "admit now w g =
     (let g1 = g\<lparr>queued := max 0 (queued g - 1)\<rparr>;
          g2 = consume_token now (w_provider w) (enter (w_workflow w) (w_provider w) g1)
      in g2\<lparr>granted_waiters := granted_waiters g2 @ [w\<lparr>w_event := True, w_granted := True\<rparr>]\<rparr>)"

definition grant_once :: "rat \<Rightarrow> governor \<Rightarrow> bool \<times> governor" where
  "grant_once now g =
     (let (qi, ri, g1) = scan_queue now (interactive g) g; g2 = g1\<lparr>interactive := qi\<rparr> in
      case ri of
        Some w \<Rightarrow> (True, admit now w g2)
      | None \<Rightarrow>
          (let (qb, rb, g3) = scan_queue now (batch g2) g2; g4 = g3\<lparr>batch := qb\<rparr> in
           case rb of Some w \<Rightarrow> (True, admit now w g4) | None \<Rightarrow> (False, g4)))"


lemma scan_queue_length:
  "scan_queue now ws g = (ws', r, g') \<Longrightarrow>
     length ws = length ws' + (case r of None \<Rightarrow> 0 | Some _ \<Rightarrow> 1)"
  by (induction now ws g arbitrary: ws' r g' rule: scan_queue.induct)
    (auto split: if_splits prod.splits option.splits)

text \<open>
  The bucket operations write the field \<open>buckets\<close> only: \<open>bk g g'\<close> says that \<open>g'\<close> is
  \<open>g\<close> up to its buckets.
\<close>

definition bk :: "governor \<Rightarrow> governor \<Rightarrow> bool" where
  "bk g g' = (\<exists>B. g' = g\<lparr>buckets := B\<rparr>)"

lemma bk_refl [simp, intro]: "bk g g"
  unfolding bk_def by (rule exI [of _ "buckets g"]) simp

lemma bk_trans: "bk g g' \<Longrightarrow> bk g' g'' \<Longrightarrow> bk g g''"
  by (auto simp: bk_def)

lemma bk_update [simp, intro]: "bk g g' \<Longrightarrow> bk g (g'\<lparr>buckets := B\<rparr>)"
  by (auto simp: bk_def)

lemma bk_fields:
  assumes "bk g g'"
  shows "max_concurrency g' = max_concurrency g" "global_limit g' = global_limit g"
    "per_workflow_limit g' = per_workflow_limit g" "per_provider_limit g' = per_provider_limit g"
    "queue_bound g' = queue_bound g" "global_used g' = global_used g" "wf_used g' = wf_used g"
    "prov_used g' = prov_used g" "interactive g' = interactive g" "batch g' = batch g"
    "queued g' = queued g" "gov_seq g' = gov_seq g" "shut_down g' = shut_down g"
    "retry_until g' = retry_until g" "granted_waiters g' = granted_waiters g"
    "provider_rate g' = provider_rate g" "provider_burst g' = provider_burst g"
    "hooks g' = hooks g"
  using assms by (auto simp: bk_def)

lemma bk_get_bucket [simp]: "bk g (snd (get_bucket now p g))"
  by (simp add: get_bucket_def Let_def split: option.split)

lemma bk_refill [simp]: "bk g (refill now p g)"
  by (simp add: refill_def Let_def case_prod_unfold)

lemma bk_get_refill [simp]: "bk g (snd (get_bucket now p (refill now p g)))"
  by (rule bk_trans [OF bk_refill bk_get_bucket])

lemma bk_tokens_ready: "bk g (snd (tokens_ready now prov g))"
  by (simp add: tokens_ready_def Let_def case_prod_unfold split: option.split)

lemma bk_consume_token: "bk g (consume_token now prov g)"
  by (simp add: consume_token_def Let_def case_prod_unfold split: option.split)

lemma bk_next_wake_delay: "bk g (snd (next_wake_delay now prov g))"
  by (simp add: next_wake_delay_def Let_def case_prod_unfold split: option.split)

lemma bk_scan_queue: "scan_queue now ws g = (ws', r, g') \<Longrightarrow> bk g g'"
proof (induction now ws g arbitrary: ws' r g' rule: scan_queue.induct)
  case (1 now g)
  then show ?case by simp
next
  case (2 now w ws g)
  have t: "bk g (snd (tokens_ready now (w_provider w) g))" by (rule bk_tokens_ready)
  obtain ok g1 where tr: "tokens_ready now (w_provider w) g = (ok, g1)" by fastforce
  from "2.prems" show ?case
    using "2.IH"(1,2,4) "2.IH"(3) [OF _ _ _ tr [symmetric]] t tr
    by (auto split: if_splits prod.splits) (metis bk_trans)
qed

lemma fits_bk: "bk g g' \<Longrightarrow> fits g' wfl prov = fits g wfl prov"
  by (simp add: fits_def bk_fields cong: option.case_cong)

lemma admit_queues [gov_simps]:
  "interactive (admit now w g) = interactive g"
  "batch (admit now w g) = batch g"
  by (simp_all add: admit_def Let_def enter_def bk_fields [OF bk_consume_token] split: option.splits)

text \<open>The two outcomes of one pass: a grant from either queue, or nothing to grant.\<close>

lemma grant_once_cases:
  assumes "grant_once now g = (b, g')"
  obtains (interactive) qi w g1 where "scan_queue now (interactive g) g = (qi, Some w, g1)" "b"
      "g' = admit now w (g1\<lparr>interactive := qi\<rparr>)"
  | (batch) qi g1 qb w g3 where "scan_queue now (interactive g) g = (qi, None, g1)"
      "scan_queue now (batch g) (g1\<lparr>interactive := qi\<rparr>) = (qb, Some w, g3)" "b"
      "g' = admit now w (g3\<lparr>batch := qb\<rparr>)"
  | (none) qi g1 qb g3 where "scan_queue now (interactive g) g = (qi, None, g1)"
      "scan_queue now (batch g) (g1\<lparr>interactive := qi\<rparr>) = (qb, None, g3)" "\<not> b"
      "g' = g3\<lparr>batch := qb\<rparr>"
proof -
  obtain qi ri g1 where i: "scan_queue now (interactive g) g = (qi, ri, g1)"
    by (cases "scan_queue now (interactive g) g") auto
  have bg: "batch g1 = batch g" by (rule bk_fields(10) [OF bk_scan_queue [OF i]])
  show ?thesis
  proof (cases ri)
    case (Some w)
    with assms i interactive show ?thesis by (simp add: grant_once_def)
  next
    case None
    obtain qb rb g3 where bq: "scan_queue now (batch g) (g1\<lparr>interactive := qi\<rparr>) = (qb, rb, g3)"
      by (cases "scan_queue now (batch g) (g1\<lparr>interactive := qi\<rparr>)") auto
    from assms i bg bq None batch none show ?thesis
      by (cases rb) (auto simp: grant_once_def Let_def)
  qed
qed

lemma grant_once_decreases:
  assumes "grant_once now g = (True, g')"
  shows "length (interactive g') + length (batch g') < length (interactive g) + length (batch g)"
  using assms
proof (cases rule: grant_once_cases)
  case (interactive qi w g1)
  then show ?thesis
    using scan_queue_length [OF interactive(1)] bk_fields(10) [OF bk_scan_queue [OF interactive(1)]]
    by (simp add: gov_simps)
next
  case (batch qi g1 qb w g3)
  then show ?thesis
    using scan_queue_length [OF batch(1)] scan_queue_length [OF batch(2)]
      bk_fields(9) [OF bk_scan_queue [OF batch(2)]]
    by (simp add: gov_simps)
qed simp

function grant_waiters :: "rat \<Rightarrow> governor \<Rightarrow> governor" where
  "grant_waiters now g =
     (let (progressed, g') = grant_once now g in if progressed then grant_waiters now g' else g')"
  by pat_completeness auto
termination
  by (relation "measure (\<lambda>(now, g). length (interactive g) + length (batch g))")
    (auto dest: grant_once_decreases sym)

declare grant_waiters.simps [simp del]

section \<open>Acquiring and releasing\<close>

definition expired :: "rat \<Rightarrow> rat option \<Rightarrow> bool" where
  "expired now deadline = (case deadline of None \<Rightarrow> False | Some d \<Rightarrow> d - now \<le> 0)"

definition deadline_of :: "rat \<Rightarrow> rat option \<Rightarrow> rat option" where
  "deadline_of now timeout = (case timeout of None \<Rightarrow> None | Some t \<Rightarrow> Some (now + max 0 t))"

text \<open>The end of an iteration: time out, or wait for the computed delay.\<close>

definition acquire_poll ::
  "rat \<Rightarrow> nat \<Rightarrow> string option \<Rightarrow> rat option \<Rightarrow> governor \<Rightarrow> acquired \<times> governor" where
  "acquire_poll now s prov deadline g =
     (if expired now deadline then (Refused AcquireTimedOut, drop_waiter s g)
      else
        (let (d, g1) = next_wake_delay now prov g;
             delay = (case deadline of None \<Rightarrow> d
                      | Some dl \<Rightarrow> (case d of None \<Rightarrow> Some (dl - now) | Some x \<Rightarrow> Some (min x (dl - now))))
         in (Waiting s delay, g1)))"

definition take_granted :: "nat \<Rightarrow> governor \<Rightarrow> governor" where
  "take_granted s g = g\<lparr>granted_waiters := remove_waiter s (granted_waiters g)\<rparr>"

definition enqueue :: "waiter \<Rightarrow> governor \<Rightarrow> governor" where
  "enqueue w g =
     (let g1 = (if w_priority w \<le> priority_value INTERACTIVE
                then g\<lparr>interactive := interactive g @ [w]\<rparr>
                else g\<lparr>batch := batch g @ [w]\<rparr>)
      in g1\<lparr>queued := queued g1 + 1\<rparr>)"

definition acquire_begin ::
  "rat \<Rightarrow> string \<Rightarrow> string option \<Rightarrow> int \<Rightarrow> rat option \<Rightarrow> governor \<Rightarrow> acquired \<times> governor" where
  "acquire_begin now wfl prov prio deadline g =
     (if shut_down g then (Refused GovernorShutdown, g)
      else
        (let (ready, g1) =
           (if queued g = 0 \<and> fits g wfl prov then tokens_ready now prov g else (False, g))
         in if ready then (Acquired, consume_token now prov (enter wfl prov g1))
            else if queue_bound g1 \<le> queued g1 then (Refused (QueueFull (queue_bound g1)), g1)
            else
              (let s = gov_seq g1 + 1;
                   w = \<lparr>w_priority = prio, w_seq = s, w_workflow = wfl, w_provider = prov,
                        w_event = False, w_granted = False\<rparr>;
                   g2 = grant_waiters now (enqueue w (g1\<lparr>gov_seq := s\<rparr>))
               in if s \<in> w_seq ` set (granted_waiters g2) then (Acquired, take_granted s g2)
                  else acquire_poll now s prov deadline g2)))"

definition acquire_wake ::
  "rat \<Rightarrow> nat \<Rightarrow> string option \<Rightarrow> rat option \<Rightarrow> governor \<Rightarrow> acquired \<times> governor" where
  "acquire_wake now s prov deadline g =
     (let g1 = grant_waiters now g; granted = (s \<in> w_seq ` set (granted_waiters g1)) in
      if shut_down g1 \<and> \<not> granted then (Refused GovernorShutdown, drop_waiter s g1)
      else if granted then (Acquired, take_granted s g1)
      else acquire_poll now s prov deadline g1)"

definition release_slot :: "rat \<Rightarrow> string \<Rightarrow> string option \<Rightarrow> governor \<Rightarrow> governor" where
  "release_slot now wfl prov g =
     (let key = provider_key prov;
          g1 = g\<lparr>global_used := max 0 (global_used g - 1),
                 wf_used := (wf_used g)(wfl := max 0 (wf_used g wfl - 1))\<rparr>;
          g2 = (case key of None \<Rightarrow> g1
                | Some k \<Rightarrow> g1\<lparr>prov_used := (prov_used g1)(k := max 0 (prov_used g1 k - 1))\<rparr>)
      in grant_waiters now g2)"

text \<open>
  The lease of a thread. \<open>depth\<close> is the thread-local nesting depth: a thread that holds a
  lease acquires again without a slot.
\<close>

record lease =
  l_workflow :: string
  l_provider :: "string option"
  l_nested :: bool
  l_released :: bool

definition lease_of :: "string \<Rightarrow> string option \<Rightarrow> bool \<Rightarrow> lease" where
  "lease_of wfl prov nested =
     \<lparr>l_workflow = wfl, l_provider = prov, l_nested = nested, l_released = False\<rparr>"

definition acquire ::
  "rat \<Rightarrow> nat \<Rightarrow> string \<Rightarrow> string option \<Rightarrow> int \<Rightarrow> rat option \<Rightarrow> governor
   \<Rightarrow> (nat \<times> lease) option \<times> acquired \<times> governor" where
  "acquire now depth wfl prov prio timeout g =
     (if 0 < depth then (Some (depth + 1, lease_of wfl prov True), Acquired, g)
      else
        (let name = (if wfl = [] then ''-'' else wfl);
             (r, g1) = acquire_begin now name (provider_key prov) prio (deadline_of now timeout) g
         in case r of
              Acquired \<Rightarrow> (Some (1, lease_of name prov False), r, g1)
            | _ \<Rightarrow> (None, r, g1)))"

definition release :: "rat \<Rightarrow> nat \<Rightarrow> lease \<Rightarrow> governor \<Rightarrow> nat \<times> lease \<times> governor" where
  "release now depth l g =
     (if l_released l then (depth, l, g)
      else
        (let depth' = (if 0 < depth then depth - 1 else depth); l' = l\<lparr>l_released := True\<rparr>
         in if l_nested l then (depth', l', g)
            else (depth', l', release_slot now (l_workflow l) (l_provider l) g)))"

text \<open>One pass of the loop of \<open>wait_drain\<close>: a verdict, or the time to wait.\<close>

definition drain_check :: "rat \<Rightarrow> rat option \<Rightarrow> governor \<Rightarrow> bool + rat option" where
  "drain_check now deadline g =
     (if global_used g \<le> 0 then Inl True
      else (case deadline of
              None \<Rightarrow> Inr None
            | Some d \<Rightarrow> if d - now \<le> 0 then Inl False else Inr (Some (d - now))))"

end
