(* ===== verification/GovernorSafety.thy ===== *)
theory GovernorSafety
  imports Governor
begin

text \<open>
  Safety of the governor: the counters agree with the outstanding leases, the ceiling and
  the queue bound hold in every reachable state, the grant loop respects priorities and
  leaves no waiter that could run. The ghost state of the step relation is the multiset of
  slots (workflow, provider) held by threads; a waiter granted but not yet resumed holds a
  slot as well.
\<close>

section \<open>What the grant loop keeps\<close>

text \<open>Readiness of a provider's tokens is stable under the refills of the same instant.\<close>

definition ready :: "rat \<Rightarrow> governor \<Rightarrow> string option \<Rightarrow> bool" where
  "ready now g prov = fst (tokens_ready now prov g)"

definition effective_tokens :: "rat \<Rightarrow> governor \<Rightarrow> string \<Rightarrow> rat" where
  "effective_tokens now g p = tokens (refill_bucket now (fst (get_bucket now p g)))"

lemma refill_bucket_idem [simp]: "refill_bucket now (refill_bucket now b) = refill_bucket now b"
  by (simp add: refill_bucket_def)

lemma refill_buckets:
  "has_bucket g p \<Longrightarrow>
     buckets (refill now p g) = (buckets g)(p \<mapsto> refill_bucket now (fst (get_bucket now p g)))"
  by (auto simp: refill_def get_bucket_def Let_def case_prod_unfold split: option.splits)

lemma ready_eq:
  "ready now g prov =
     (case prov of
        None \<Rightarrow> \<forall>(k, u) \<in> set (retry_until g). u \<le> now
      | Some p \<Rightarrow>
          if p = [] then \<forall>(k, u) \<in> set (retry_until g). u \<le> now
          else until_of g p \<le> now \<and> (has_bucket g p \<longrightarrow> 1 \<le> effective_tokens now g p))"
  by (auto simp: ready_def tokens_ready_def Let_def case_prod_unfold refill_buckets
      effective_tokens_def get_bucket_def[where p=p and g="refill now p g" for p g] split: option.splits)

lemma get_bucket_other:
  "q \<noteq> p \<Longrightarrow> bk g g' \<Longrightarrow> buckets g' q = buckets g q \<Longrightarrow>
     fst (get_bucket now q g') = fst (get_bucket now q g)"
  by (simp add: get_bucket_def Let_def bk_fields split: option.splits)

definition same_readiness :: "rat \<Rightarrow> governor \<Rightarrow> governor \<Rightarrow> bool" where
  "same_readiness now g g' = (bk g g' \<and> (\<forall>prov. ready now g' prov = ready now g prov))"

lemma same_readiness_refl [simp]: "same_readiness now g g"
  by (simp add: same_readiness_def)

lemma same_readiness_trans:
  "same_readiness now g g' \<Longrightarrow> same_readiness now g' g'' \<Longrightarrow> same_readiness now g g''"
  by (auto simp: same_readiness_def intro: bk_trans)

lemma same_readiness_refill: "same_readiness now g (refill now p g)"
proof (cases "has_bucket g p")
  case False
  then show ?thesis by (simp add: refill_def)
next
  case True
  let ?g = "refill now p g"
  have bk: "bk g ?g" by simp
  have "effective_tokens now ?g q = effective_tokens now g q" for q
  proof (cases "q = p")
    case True
    with \<open>has_bucket g p\<close> show ?thesis
      by (simp add: effective_tokens_def get_bucket_def [of now p ?g] refill_buckets)
  next
    case False
    then show ?thesis
      using get_bucket_other [OF False bk] True by (simp add: effective_tokens_def refill_buckets)
  qed
  moreover have "has_bucket ?g q = has_bucket g q" for q
    using True bk_fields(16) [OF bk] by (auto simp: has_bucket_def refill_buckets [OF True])
  moreover have "until_of ?g q = until_of g q" for q
    by (simp add: until_of_def bk_fields [OF bk])
  ultimately have "ready now ?g prov = ready now g prov" for prov
    by (simp add: ready_eq bk_fields [OF bk] split: option.split)
  with bk show ?thesis by (simp add: same_readiness_def)
qed

lemma same_readiness_tokens_ready: "same_readiness now g (snd (tokens_ready now prov g))"
proof -
  have "snd (tokens_ready now prov g) = g
        \<or> (\<exists>p. has_bucket g p \<and> snd (tokens_ready now prov g) = refill now p g)"
  proof (cases prov)
    case (Some p)
    have "snd (get_bucket now p (refill now p g)) = refill now p g" if "has_bucket g p"
      using that by (simp add: get_bucket_def refill_buckets)
    with Some show ?thesis
      by (auto simp: tokens_ready_def Let_def case_prod_unfold)
  qed (simp add: tokens_ready_def)
  then show ?thesis by (auto intro: same_readiness_refill)
qed

definition grantable :: "rat \<Rightarrow> governor \<Rightarrow> waiter \<Rightarrow> bool" where
  "grantable now g w =
     (\<not> w_granted w \<and> fits g (w_workflow w) (w_provider w) \<and> ready now g (w_provider w))"

lemma grantable_cong:
  "same_readiness now g g' \<Longrightarrow> grantable now g' w = grantable now g w"
  by (auto simp: grantable_def same_readiness_def fits_bk)

text \<open>A waiter up to its event flag.\<close>

definition core :: "waiter \<Rightarrow> waiter" where
  "core w = w\<lparr>w_event := True\<rparr>"

lemma core_simps [simp]:
  "w_seq (core w) = w_seq w" "w_workflow (core w) = w_workflow w"
  "w_provider (core w) = w_provider w" "w_granted (core w) = w_granted w"
  "w_priority (core w) = w_priority w" "core (w\<lparr>w_event := b\<rparr>) = core w"
  by (simp_all add: core_def)

lemma grantable_core [simp]: "grantable now g (core w) = grantable now g w"
  by (simp add: grantable_def)

text \<open>The specification of one scan.\<close>

definition scan_ok ::
  "rat \<Rightarrow> waiter list \<Rightarrow> governor \<Rightarrow> waiter list \<Rightarrow> waiter option \<Rightarrow> governor \<Rightarrow> bool" where
  "scan_ok now ws g ws' r g' =
     (same_readiness now g g' \<and>
      (case r of
         None \<Rightarrow> List.map core ws' = List.map core ws
               \<and> (\<not> shut_down g \<longrightarrow> (\<forall>w \<in> set ws. \<not> grantable now g w))
       | Some w \<Rightarrow> \<not> shut_down g \<and> grantable now g w
               \<and> (\<exists>pre post. ws = pre @ w # post \<and> ws' = pre @ post
                   \<and> (\<forall>v \<in> set pre. \<not> grantable now g v))))"

lemma scan_ok_Cons:
  assumes ok: "scan_ok now ws g1 ws1 r g'" and sr: "same_readiness now g g1"
    and c: "core w' = core w" and n: "\<not> shut_down g \<Longrightarrow> w' = w \<and> \<not> grantable now g w"
  shows "scan_ok now (w # ws) g (w' # ws1) r g'"
proof -
  have sd: "shut_down g1 = shut_down g" using sr by (simp add: same_readiness_def bk_fields)
  note gc = grantable_cong [OF sr]
  show ?thesis
  proof (cases r)
    case None
    with ok sr c n sd gc show ?thesis
      by (auto simp: scan_ok_def intro: same_readiness_trans)
  next
    case (Some v)
    with ok obtain pre post where "ws = pre @ v # post" "ws1 = pre @ post"
      "\<forall>u \<in> set pre. \<not> grantable now g1 u" "\<not> shut_down g" "grantable now g v"
      using sd gc by (auto simp: scan_ok_def)
    moreover from this n have "w # ws = (w # pre) @ v # post \<and> w' # ws1 = (w # pre) @ post
        \<and> (\<forall>u \<in> set (w # pre). \<not> grantable now g u)" by (simp add: gc)
    then have "\<exists>pre post. w # ws = pre @ v # post \<and> w' # ws1 = pre @ post
        \<and> (\<forall>u \<in> set pre. \<not> grantable now g u)" by blast
    ultimately show ?thesis
      using Some ok same_readiness_trans [OF sr] by (simp add: scan_ok_def)
  qed
qed

lemma scan_queue_spec:
  "scan_queue now ws g = (ws', r, g') \<Longrightarrow> scan_ok now ws g ws' r g'"
proof (induction now ws g arbitrary: ws' r g' rule: scan_queue.induct)
  case (1 now g)
  then show ?case by (simp add: scan_ok_def)
next
  case (2 now w ws g)
  obtain ok g1 where tr: "tokens_ready now (w_provider w) g = (ok, g1)" by fastforce
  have sr: "same_readiness now g g1"
    using same_readiness_tokens_ready [of now g "w_provider w"] tr by simp
  have ok: "ok = ready now g (w_provider w)" by (simp add: ready_def tr)
  obtain wa ra ga where a: "scan_queue now ws g = (wa, ra, ga)"
    by (cases "scan_queue now ws g") auto
  obtain wb rb gb where b: "scan_queue now ws g1 = (wb, rb, gb)"
    by (cases "scan_queue now ws g1") auto
  show ?case
  proof (cases "w_granted w")
    case True
    with "2.prems" a have "ws' = w # wa" "r = ra" "g' = ga" by simp_all
    with "2.IH"(1) [OF True a] True show ?thesis
      by (auto intro: scan_ok_Cons simp: grantable_def)
  next
    case ng: False
    show ?thesis
    proof (cases "shut_down g")
      case True
      with "2.prems" a ng have "ws' = w\<lparr>w_event := True\<rparr> # wa" "r = ra" "g' = ga" by simp_all
      with "2.IH"(2) [OF ng True a] True show ?thesis by (auto intro: scan_ok_Cons)
    next
      case up: False
      show ?thesis
      proof (cases "fits g (w_workflow w) (w_provider w)")
        case fit: True
        show ?thesis
        proof (cases ok)
          case True
          with "2.prems" tr fit ng up have "ws' = ws" "r = Some w" "g' = g1" by simp_all
          moreover have "\<exists>pre post. w # ws = pre @ w # post \<and> ws = pre @ post
              \<and> (\<forall>v \<in> set pre. \<not> grantable now g v)"
            by (intro exI [of _ "[]"] exI [of _ ws]) simp
          ultimately show ?thesis
            using True ok sr up ng fit by (simp add: scan_ok_def grantable_def)
        next
          case False
          with "2.prems" tr fit ng up b have "ws' = w # wb" "r = rb" "g' = gb" by simp_all
          with "2.IH"(3) [OF ng up fit tr [symmetric] refl False b] sr False ok show ?thesis
            by (auto intro!: scan_ok_Cons simp: grantable_def)
        qed
      next
        case False
        with "2.prems" a ng up have "ws' = w # wa" "r = ra" "g' = ga" by simp_all
        with "2.IH"(4) [OF ng up False a] False show ?thesis
          by (auto intro: scan_ok_Cons simp: grantable_def)
      qed
    qed
  qed
qed


section \<open>Counters and slots\<close>

type_synonym slot = "string \<times> string option"

definition wslot :: "waiter \<Rightarrow> slot" where
  "wslot w = (w_workflow w, w_provider w)"

text \<open>The counters of \<open>g\<close> count exactly the slots in \<open>S\<close>.\<close>

definition counts :: "governor \<Rightarrow> slot multiset \<Rightarrow> bool" where
  "counts g S =
     (global_used g = int (size S)
      \<and> (\<forall>f. wf_used g f = int (size {#s \<in># S. fst s = f#}))
      \<and> (\<forall>p. prov_used g p = int (size {#s \<in># S. snd s = Some p#}))
      \<and> (\<forall>s \<in># S. snd s \<noteq> Some []))"

lemma counts_bk: "bk g g' \<Longrightarrow> counts g' S = counts g S"
  by (simp add: counts_def bk_fields)

lemma counts_frame [simp]:
  "counts (g\<lparr>interactive := qi\<rparr>) S = counts g S" "counts (g\<lparr>batch := qb\<rparr>) S = counts g S"
  "counts (g\<lparr>queued := n\<rparr>) S = counts g S" "counts (g\<lparr>granted_waiters := ws\<rparr>) S = counts g S"
  "counts (g\<lparr>gov_seq := m\<rparr>) S = counts g S" "counts (g\<lparr>shut_down := b\<rparr>) S = counts g S"
  by (simp_all add: counts_def)

lemma counts_enter:
  "counts g S \<Longrightarrow> p \<noteq> Some [] \<Longrightarrow> counts (enter f p g) (add_mset (f, p) S)"
  by (auto simp: counts_def enter_def Let_def split: option.splits)

definition leave :: "string \<Rightarrow> string option \<Rightarrow> governor \<Rightarrow> governor" where
  "leave f key g =
     (let g1 = g\<lparr>global_used := max 0 (global_used g - 1),
                 wf_used := (wf_used g)(f := max 0 (wf_used g f - 1))\<rparr>
      in (case key of None \<Rightarrow> g1
          | Some k \<Rightarrow> g1\<lparr>prov_used := (prov_used g1)(k := max 0 (prov_used g1 k - 1))\<rparr>))"

lemma release_slot_leave: "release_slot now f p g = grant_waiters now (leave f (provider_key p) g)"
  by (simp add: release_slot_def leave_def Let_def)

lemma counts_leave: "counts g (add_mset (f, k) S) \<Longrightarrow> counts (leave f k g) S"
  by (auto simp: counts_def leave_def Let_def split: option.splits)

lemma provider_key_idem [simp]: "provider_key (provider_key p) = provider_key p"
  by (auto simp: provider_key_def Let_def strip_lower split: option.splits)

lemma provider_key_nonempty [simp]: "provider_key p \<noteq> Some []"
  by (auto simp: provider_key_def Let_def split: option.splits)

lemma leave_enter:
  assumes "counts g S" and "p \<noteq> Some []"
  shows "leave f p (enter f p g) = g"
  using assms by (auto simp: counts_def leave_def enter_def Let_def fun_upd_idem split: option.splits)


section \<open>The invariant\<close>

definition outstanding :: "governor \<Rightarrow> slot multiset \<Rightarrow> slot multiset" where
  "outstanding g H = H + image_mset wslot (mset (granted_waiters g))"

definition limits_ok :: "governor \<Rightarrow> bool" where
  "limits_ok g =
     (1 \<le> global_limit g \<and> global_limit g \<le> max_concurrency g
      \<and> max_concurrency g \<le> abs_ceiling \<and> global_used g \<le> max_concurrency g)"

definition queue_ok :: "governor \<Rightarrow> bool" where
  "queue_ok g =
     (queued g = int (length (interactive g) + length (batch g)) \<and> queued g \<le> queue_bound g)"

definition waiters_ok :: "governor \<Rightarrow> bool" where
  "waiters_ok g =
     (distinct (List.map w_seq (interactive g @ batch g @ granted_waiters g))
      \<and> (\<forall>w \<in> set (interactive g @ batch g @ granted_waiters g).
           w_seq w \<le> gov_seq g \<and> w_provider w \<noteq> Some [])
      \<and> (\<forall>w \<in> set (interactive g @ batch g). \<not> w_granted w))"

definition gov_inv :: "governor \<Rightarrow> slot multiset \<Rightarrow> bool" where
  "gov_inv g H = (limits_ok g \<and> counts g (outstanding g H) \<and> queue_ok g \<and> waiters_ok g)"

lemmas gov_inv_defs = gov_inv_def limits_ok_def queue_ok_def waiters_ok_def outstanding_def

lemma gov_inv_bk: "bk g g' \<Longrightarrow> gov_inv g' H = gov_inv g H"
  by (simp add: gov_inv_defs counts_bk bk_fields)

text \<open>Event flags do not matter to the invariant.\<close>

lemma core_map_eq:
  assumes "List.map core ws' = List.map core ws"
  shows "List.map w_seq ws' = List.map w_seq ws" "length ws' = length ws"
    "(\<forall>w \<in> set ws'. P (core w)) = (\<forall>w \<in> set ws. P (core w))"
proof -
  have "List.map w_seq ws' = List.map w_seq (List.map core ws')" by (simp add: comp_def)
  also have "\<dots> = List.map w_seq ws" by (simp add: assms comp_def)
  finally show "List.map w_seq ws' = List.map w_seq ws" .
  show "length ws' = length ws" using assms by (metis length_map)
  have "(\<forall>w \<in> set xs. P (core w)) = list_all P (List.map core xs)" for xs
    by (simp add: list_all_iff)
  then show "(\<forall>w \<in> set ws'. P (core w)) = (\<forall>w \<in> set ws. P (core w))" by (simp add: assms)
qed

lemma gov_inv_queues:
  assumes "gov_inv g H" "List.map core qi = List.map core (interactive g)"
    "List.map core qb = List.map core (batch g)"
  shows "gov_inv (g\<lparr>interactive := qi, batch := qb\<rparr>) H"
proof -
  note i = core_map_eq [OF assms(2)] and b = core_map_eq [OF assms(3)]
  have "waiters_ok (g\<lparr>interactive := qi, batch := qb\<rparr>)"
  proof -
    have s: "distinct (List.map w_seq (qi @ qb @ granted_waiters g))"
      using assms(1) by (simp add: gov_inv_defs i(1) b(1) flip: set_map)
    have q: "\<forall>w \<in> set (qi @ qb). w_seq w \<le> gov_seq g \<and> w_provider w \<noteq> Some [] \<and> \<not> w_granted w"
      using assms(1) i(3) [of "\<lambda>w. w_seq w \<le> gov_seq g \<and> w_provider w \<noteq> Some [] \<and> \<not> w_granted w"]
        b(3) [of "\<lambda>w. w_seq w \<le> gov_seq g \<and> w_provider w \<noteq> Some [] \<and> \<not> w_granted w"]
      by (auto simp: gov_inv_defs)
    from s q assms(1) show ?thesis by (auto simp: gov_inv_defs)
  qed
  with assms(1) i(2) b(2) show ?thesis
    by (simp add: gov_inv_def limits_ok_def queue_ok_def counts_def outstanding_def)
qed

definition admit_core :: "waiter \<Rightarrow> governor \<Rightarrow> governor" where
  "admit_core w g =
     (enter (w_workflow w) (w_provider w) (g\<lparr>queued := max 0 (queued g - 1)\<rparr>))
       \<lparr>granted_waiters := granted_waiters g @ [w\<lparr>w_event := True, w_granted := True\<rparr>]\<rparr>"

lemma bk_granted: "bk g g' \<Longrightarrow> bk (g\<lparr>granted_waiters := W\<rparr>) (g'\<lparr>granted_waiters := W\<rparr>)"
  unfolding bk_def by (erule exE) (rule_tac x = B in exI, simp)

lemma enter_granted [simp]: "granted_waiters (enter f p g) = granted_waiters g"
  by (simp add: enter_def Let_def split: option.split)

lemma bk_admit: "bk (admit_core w g) (admit now w g)"
  by (simp add: admit_def admit_core_def Let_def bk_fields [OF bk_consume_token] bk_granted
      bk_consume_token)

lemma enter_fields [simp]:
  "max_concurrency (enter f p g) = max_concurrency g" "global_limit (enter f p g) = global_limit g"
  "global_used (enter f p g) = global_used g + 1" "queued (enter f p g) = queued g"
  "interactive (enter f p g) = interactive g" "batch (enter f p g) = batch g"
  "queue_bound (enter f p g) = queue_bound g" "gov_seq (enter f p g) = gov_seq g"
  "shut_down (enter f p g) = shut_down g" "retry_until (enter f p g) = retry_until g"
  by (simp_all add: enter_def Let_def split: option.split)

lemma admit_inv:
  assumes inv: "gov_inv g H" and fit: "fits g (w_workflow w) (w_provider w)"
    and q: "(interactive g = pre @ w # post \<and> qi = pre @ post \<and> qb = batch g)
          \<or> (batch g = pre @ w # post \<and> qb = pre @ post \<and> qi = interactive g)"
  shows "gov_inv (admit_core w (g\<lparr>interactive := qi, batch := qb\<rparr>)) H"
proof -
  let ?g = "g\<lparr>interactive := qi, batch := qb\<rparr>"
  have lt: "global_used g < global_limit g" using fit by (simp add: fits_def)
  have wp: "w_provider w \<noteq> Some []" using inv q by (auto simp: gov_inv_defs)
  have "counts (?g\<lparr>queued := max 0 (queued g - 1)\<rparr>) (outstanding g H)"
    using inv by (simp add: gov_inv_def)
  from counts_enter [OF this wp, of "w_workflow w"]
  have "counts (admit_core w ?g) (outstanding (admit_core w ?g) H)"
    by (simp add: outstanding_def admit_core_def wslot_def)
  moreover have "limits_ok (admit_core w ?g)"
    using inv lt by (simp add: gov_inv_defs admit_core_def)
  moreover have "queue_ok (admit_core w ?g)"
    using inv q by (auto simp: gov_inv_defs admit_core_def)
  moreover have "waiters_ok (admit_core w ?g)"
  proof -
    let ?w = "w\<lparr>w_event := True, w_granted := True\<rparr>"
    let ?old = "interactive g @ batch g @ granted_waiters g"
    let ?new = "qi @ qb @ granted_waiters g @ [?w]"
    have "mset (List.map w_seq ?new) = mset (List.map w_seq ?old)" using q by auto
    moreover have "distinct (List.map w_seq ?old)" using inv by (simp add: gov_inv_defs)
    ultimately have "distinct (List.map w_seq ?new)" by (rule mset_eq_imp_distinct_iff [THEN iffD2])
    have sub: "set (qi @ qb) \<subseteq> set (interactive g @ batch g)"
      and wi: "w \<in> set (interactive g @ batch g)" using q by auto
    have old: "\<And>v. v \<in> set ?old \<Longrightarrow> w_seq v \<le> gov_seq g \<and> w_provider v \<noteq> Some []"
      and ng: "\<And>v. v \<in> set (interactive g @ batch g) \<Longrightarrow> \<not> w_granted v"
      using inv by (simp_all add: gov_inv_defs)
    have new: "\<forall>v \<in> set ?new. w_seq v \<le> gov_seq g \<and> w_provider v \<noteq> Some []"
    proof
      fix v assume "v \<in> set ?new"
      then consider "v \<in> set ?old" | "v = ?w" using sub by auto
      then show "w_seq v \<le> gov_seq g \<and> w_provider v \<noteq> Some []"
        using old [of v] old [of w] wi by cases auto
    qed
    have ng': "\<forall>v \<in> set (qi @ qb). \<not> w_granted v" using sub ng by blast
    have "interactive (admit_core w ?g) @ batch (admit_core w ?g) @ granted_waiters (admit_core w ?g) = ?new"
      and "interactive (admit_core w ?g) @ batch (admit_core w ?g) = qi @ qb"
      and "gov_seq (admit_core w ?g) = gov_seq g" by (simp_all add: admit_core_def)
    with \<open>distinct (List.map w_seq ?new)\<close> new ng' show ?thesis by (simp only: waiters_ok_def simp_thms)
  qed
  ultimately show ?thesis by (simp add: gov_inv_def)
qed

lemma grant_once_inv:
  assumes inv: "gov_inv g H" and step: "grant_once now g = (b, g')"
  shows "gov_inv g' H"
  using step
proof (cases rule: grant_once_cases)
  case (interactive qi w g1)
  note sp = scan_queue_spec [OF interactive(1), unfolded scan_ok_def]
  then obtain pre post where q: "governor.interactive g = pre @ w # post" "qi = pre @ post" by auto
  have bk: "bk g g1" using sp by (simp add: same_readiness_def)
  have inv1: "gov_inv g1 H" using inv gov_inv_bk [OF bk] by simp
  have "fits g1 (w_workflow w) (w_provider w)"
    using sp by (simp add: grantable_def fits_bk [OF bk])
  from admit_inv [OF inv1 this, of pre post qi "governor.batch g1"] q interactive(3)
  show ?thesis by (simp add: bk_fields [OF bk] gov_inv_bk [OF bk_admit] flip: bk_fields(10) [OF bk])
next
  case (batch qi g1 qb w g3)
  note si = scan_queue_spec [OF batch(1), unfolded scan_ok_def]
  note sb = scan_queue_spec [OF batch(2), unfolded scan_ok_def]
  have bk: "bk g g1" using si by (simp add: same_readiness_def)
  have bk3: "bk (g1\<lparr>interactive := qi\<rparr>) g3" using sb by (simp add: same_readiness_def)
  obtain pre post where q: "governor.batch g = pre @ w # post" "qb = pre @ post" using sb by auto
  have "gov_inv (g1\<lparr>interactive := qi, batch := governor.batch g1\<rparr>) H"
    using inv si gov_inv_bk [OF bk] by (intro gov_inv_queues) (simp_all add: bk_fields [OF bk])
  then have inv3: "gov_inv g3 H" using gov_inv_bk [OF bk3] by simp
  have fit: "fits g3 (w_workflow w) (w_provider w)"
    using sb by (simp add: grantable_def fits_bk [OF bk3])
  have "g3\<lparr>interactive := governor.interactive g3, batch := qb\<rparr> = g3\<lparr>batch := qb\<rparr>" by simp
  moreover have "governor.batch g3 = governor.batch g"
    by (simp add: bk_fields [OF bk3] bk_fields [OF bk])
  ultimately show ?thesis
    using admit_inv [OF inv3 fit, of pre post "governor.interactive g3" qb] q batch(4)
    by (simp only: gov_inv_bk [OF bk_admit] simp_thms)
next
  case (none qi g1 qb g3)
  note si = scan_queue_spec [OF none(1), unfolded scan_ok_def]
  note sb = scan_queue_spec [OF none(2), unfolded scan_ok_def]
  have bk: "bk g g1" using si by (simp add: same_readiness_def)
  have bk3: "bk (g1\<lparr>interactive := qi\<rparr>) g3" using sb by (simp add: same_readiness_def)
  have "gov_inv (g1\<lparr>interactive := qi, batch := governor.batch g1\<rparr>) H"
    using inv si gov_inv_bk [OF bk] by (intro gov_inv_queues) (simp_all add: bk_fields [OF bk])
  then have inv3: "gov_inv g3 H" using gov_inv_bk [OF bk3] by simp
  have "g3\<lparr>interactive := governor.interactive g3, batch := qb\<rparr> = g3\<lparr>batch := qb\<rparr>" by simp
  moreover have "governor.batch g3 = governor.batch g"
    by (simp add: bk_fields [OF bk3] bk_fields [OF bk])
  ultimately show ?thesis
    using gov_inv_queues [OF inv3, of "governor.interactive g3" qb] sb none(4) by (simp only: simp_thms option.case)
qed

lemma grant_waiters_inv: "gov_inv g H \<Longrightarrow> gov_inv (grant_waiters now g) H"
proof (induction now g rule: grant_waiters.induct)
  case (1 now g)
  obtain b g' where st: "grant_once now g = (b, g')" by fastforce
  have "gov_inv g' H" by (rule grant_once_inv [OF "1.prems" st])
  with "1.IH" [OF st [symmetric]] st show ?case
    by (subst grant_waiters.simps) simp
qed


section \<open>Waiters keep their identity\<close>

definition ident :: "waiter \<Rightarrow> nat \<times> slot" where
  "ident w = (w_seq w, wslot w)"

definition idents :: "governor \<Rightarrow> (nat \<times> slot) multiset" where
  "idents g = mset (List.map ident (interactive g @ batch g @ granted_waiters g))"

lemma ident_simps [simp]:
  "ident (core w) = ident w" "ident (w\<lparr>w_event := b\<rparr>) = ident w"
  "ident (w\<lparr>w_event := b, w_granted := c\<rparr>) = ident w"
  by (simp_all add: ident_def wslot_def)

lemma ident_core_map:
  assumes "List.map core ws' = List.map core ws"
  shows "mset (List.map ident ws') = mset (List.map ident ws)"
proof -
  have "List.map ident ws' = List.map ident (List.map core ws')" by (simp add: comp_def)
  also have "\<dots> = List.map ident ws" by (simp add: assms comp_def)
  finally show ?thesis by (rule arg_cong)
qed

lemma ident_core_image:
  "List.map core ws' = List.map core ws \<Longrightarrow> image_mset ident (mset ws') = image_mset ident (mset ws)"
  by (drule ident_core_map) simp

lemma idents_bk:
  assumes "bk g g'"
  shows "idents g' = idents g"
  by (simp add: idents_def bk_fields [OF assms])

lemma idents_admit: "idents (admit now w g) = add_mset (ident w) (idents g)"
  unfolding idents_bk [OF bk_admit] by (simp add: idents_def admit_core_def)

lemma idents_grant_once:
  assumes "grant_once now g = (b, g')"
  shows "idents g' = idents g"
  using assms
proof (cases rule: grant_once_cases)
  case (interactive qi w g1)
  note sp = scan_queue_spec [OF interactive(1), unfolded scan_ok_def]
  then have bk: "bk g g1" by (simp add: same_readiness_def)
  from sp interactive(3) show ?thesis
    by (auto simp: idents_admit) (simp add: idents_def bk_fields [OF bk])
next
  case (batch qi g1 qb w g3)
  note si = scan_queue_spec [OF batch(1), unfolded scan_ok_def]
  note sb = scan_queue_spec [OF batch(2), unfolded scan_ok_def]
  have bk: "bk g g1" using si by (simp add: same_readiness_def)
  have bk3: "bk (g1\<lparr>interactive := qi\<rparr>) g3" using sb by (simp add: same_readiness_def)
  have qi: "image_mset ident (mset qi) = image_mset ident (mset (governor.interactive g))"
    using si by (intro ident_core_image) simp
  have "image_mset ident (mset (governor.batch g)) = add_mset (ident w) (image_mset ident (mset qb))"
    using sb by auto
  with qi batch(4) show ?thesis
    by (simp add: idents_admit) (simp add: idents_def bk_fields [OF bk] bk_fields [OF bk3])
next
  case (none qi g1 qb g3)
  note si = scan_queue_spec [OF none(1), unfolded scan_ok_def]
  note sb = scan_queue_spec [OF none(2), unfolded scan_ok_def]
  have bk: "bk g g1" using si by (simp add: same_readiness_def)
  have bk3: "bk (g1\<lparr>interactive := qi\<rparr>) g3" using sb by (simp add: same_readiness_def)
  have "image_mset ident (mset qi) = image_mset ident (mset (governor.interactive g))"
    "image_mset ident (mset qb) = image_mset ident (mset (governor.batch g))"
    using si sb by (auto intro: ident_core_image)
  with none(4) show ?thesis
    by (simp add: idents_def bk_fields [OF bk] bk_fields [OF bk3])
qed

lemma idents_grant_waiters [simp]: "idents (grant_waiters now g) = idents g"
proof (induction now g rule: grant_waiters.induct)
  case (1 now g)
  obtain b g' where st: "grant_once now g = (b, g')" by fastforce
  with "1.IH" [OF st [symmetric]] idents_grant_once [OF st] show ?case
    by (subst grant_waiters.simps) simp
qed

section \<open>The operations keep the invariant\<close>

lemma enter_inv:
  assumes "gov_inv g H" "fits g f p" "p \<noteq> Some []"
  shows "gov_inv (enter f p g) (add_mset (f, p) H)"
  using assms counts_enter [of g "outstanding g H" p f]
  by (simp add: gov_inv_def limits_ok_def queue_ok_def waiters_ok_def outstanding_def fits_def)

lemma enqueue_inv:
  assumes "gov_inv g H" "queued g < queue_bound g" "w_seq w = gov_seq g + 1"
    "w_provider w \<noteq> Some []" "\<not> w_granted w"
  shows "gov_inv (enqueue w (g\<lparr>gov_seq := w_seq w\<rparr>)) H"
proof -
  have le: "\<And>v. v \<in> set (interactive g @ batch g @ granted_waiters g) \<Longrightarrow> w_seq v \<le> gov_seq g"
    using assms(1) by (simp add: gov_inv_defs)
  have new: "w_seq w \<notin> w_seq ` set (interactive g @ batch g @ granted_waiters g)"
    using le assms(3) by (metis Suc_eq_plus1 Suc_n_not_le_n imageE)
  from assms have "limits_ok (enqueue w (g\<lparr>gov_seq := w_seq w\<rparr>))"
    and "queue_ok (enqueue w (g\<lparr>gov_seq := w_seq w\<rparr>))"
    and "counts (enqueue w (g\<lparr>gov_seq := w_seq w\<rparr>)) (outstanding (enqueue w (g\<lparr>gov_seq := w_seq w\<rparr>)) H)"
    by (simp_all add: gov_inv_defs enqueue_def Let_def)
  moreover have "waiters_ok (enqueue w (g\<lparr>gov_seq := w_seq w\<rparr>))"
    using assms new le
    by (auto simp: waiters_ok_def gov_inv_def enqueue_def Let_def intro: le_SucI)
  ultimately show ?thesis by (simp add: gov_inv_def)
qed

lemma remove_waiter_absent: "s \<notin> w_seq ` set ws \<Longrightarrow> remove_waiter s ws = ws"
  by (induction ws) auto

lemma mset_remove_waiter:
  "w \<in> set ws \<Longrightarrow> distinct (List.map w_seq ws) \<Longrightarrow> mset ws = add_mset w (mset (remove_waiter (w_seq w) ws))"
  by (induction ws) (auto simp: image_iff)

lemma set_remove_waiter: "set (remove_waiter s ws) \<subseteq> set ws"
  by (induction ws) auto

lemma distinct_remove_waiter:
  "distinct (List.map w_seq ws) \<Longrightarrow> distinct (List.map w_seq (remove_waiter s ws))"
  by (induction ws) (use set_remove_waiter in \<open>auto simp: image_iff subset_iff\<close>)

lemma length_remove_waiter:
  "s \<in> w_seq ` set ws \<Longrightarrow> length ws = Suc (length (remove_waiter s ws))"
  by (induction ws) auto

lemma waiters_ok_sub:
  assumes w: "waiters_ok g" and i: "set qi \<subseteq> set (interactive g)" "distinct (List.map w_seq qi)"
    and b: "set qb \<subseteq> set (batch g)" "distinct (List.map w_seq qb)"
  shows "waiters_ok (g\<lparr>interactive := qi, batch := qb\<rparr>)"
proof -
  have ii: "w_seq ` set qi \<subseteq> w_seq ` set (interactive g)"
    and bi: "w_seq ` set qb \<subseteq> w_seq ` set (batch g)" using i(1) b(1) by (simp_all add: image_mono)
  let ?I = "w_seq ` set (interactive g)" and ?B = "w_seq ` set (batch g)"
    and ?G = "w_seq ` set (granted_waiters g)"
  have dG: "distinct (List.map w_seq (granted_waiters g))" and dB: "?B \<inter> ?G = {}" and dI: "?I \<inter> (?B \<union> ?G) = {}"
    using w by (simp_all add: waiters_ok_def image_Un)
  have "w_seq ` set qb \<inter> ?G \<subseteq> ?B \<inter> ?G" by (rule Int_mono [OF bi subset_refl])
  moreover have "w_seq ` set qi \<inter> (w_seq ` set qb \<union> ?G) \<subseteq> ?I \<inter> (?B \<union> ?G)"
    by (rule Int_mono [OF ii Un_mono [OF bi subset_refl]])
  ultimately have "distinct (List.map w_seq (qi @ qb @ granted_waiters g))"
    using dG dB dI i(2) b(2) by (simp add: image_Un)
  moreover have "\<forall>v \<in> set (qi @ qb @ granted_waiters g). w_seq v \<le> gov_seq g \<and> w_provider v \<noteq> Some []"
    "\<forall>v \<in> set (qi @ qb). \<not> w_granted v"
    using w i(1) b(1) unfolding waiters_ok_def set_append by blast+
  ultimately show ?thesis unfolding waiters_ok_def by simp
qed

lemma drop_waiter_inv:
  assumes inv: "gov_inv g H"
  shows "gov_inv (drop_waiter s g) H"
proof -
  note i = set_remove_waiter [of s "interactive g"] length_remove_waiter [of s "interactive g"]
    and b = set_remove_waiter [of s "batch g"] length_remove_waiter [of s "batch g"]
  have "queue_ok (drop_waiter s g)"
    using inv i(2) b(2) unfolding gov_inv_def queue_ok_def drop_waiter_def
    by (cases "s \<in> w_seq ` set (interactive g)"; cases "s \<in> w_seq ` set (batch g)") simp_all
  moreover have "limits_ok (drop_waiter s g)"
    and "counts (drop_waiter s g) (outstanding (drop_waiter s g) H)"
    using inv i(2) b(2) by (simp_all add: gov_inv_defs drop_waiter_def)
  moreover have "waiters_ok (drop_waiter s g)"
  proof -
    have w: "waiters_ok g" using inv by (simp add: gov_inv_def)
    then have d: "distinct (List.map w_seq (interactive g))" "distinct (List.map w_seq (batch g))"
      by (simp_all add: waiters_ok_def)
    have "waiters_ok (g\<lparr>interactive := remove_waiter s (interactive g), batch := batch g\<rparr>)"
      "waiters_ok (g\<lparr>interactive := interactive g, batch := remove_waiter s (batch g)\<rparr>)"
      by (rule waiters_ok_sub [OF w i(1) distinct_remove_waiter [OF d(1)] subset_refl d(2)],
          rule waiters_ok_sub [OF w subset_refl d(1) b(1) distinct_remove_waiter [OF d(2)]])
    with w show ?thesis by (simp add: waiters_ok_def drop_waiter_def)
  qed
  ultimately show ?thesis by (simp add: gov_inv_def)
qed

lemma take_granted_inv:
  assumes inv: "gov_inv g H" and w: "w \<in> set (granted_waiters g)"
  shows "gov_inv (take_granted (w_seq w) g) (add_mset (wslot w) H)"
proof -
  have d: "distinct (List.map w_seq (granted_waiters g))" using inv by (simp add: gov_inv_defs)
  have "outstanding (take_granted (w_seq w) g) (add_mset (wslot w) H) = outstanding g H"
    by (simp add: outstanding_def take_granted_def mset_remove_waiter [OF w d])
  with inv set_remove_waiter [of "w_seq w" "granted_waiters g"] show ?thesis
    by (auto simp: gov_inv_def limits_ok_def queue_ok_def waiters_ok_def take_granted_def
        distinct_remove_waiter subset_iff)
qed

lemma granted_ident:
  assumes inv: "gov_inv g H" and s: "s \<in> w_seq ` set (granted_waiters g)" and i: "(s, sl) \<in># idents g"
  obtains w where "w \<in> set (granted_waiters g)" "w_seq w = s" "wslot w = sl"
proof -
  obtain w where w: "w \<in> set (granted_waiters g)" "w_seq w = s" using s by auto
  obtain v where v: "v \<in> set (interactive g @ batch g @ granted_waiters g)" "ident v = (s, sl)"
  proof -
    have "(s, sl) \<in> ident ` set (interactive g @ batch g @ granted_waiters g)"
      using i by (simp add: idents_def image_Un)
    then show ?thesis using that by force
  qed
  have "distinct (List.map w_seq (interactive g @ batch g @ granted_waiters g))"
    using inv by (simp add: gov_inv_defs)
  then have "inj_on w_seq (set (interactive g @ batch g @ granted_waiters g))"
    by (rule distinct_map [THEN iffD1, THEN conjunct2])
  moreover have "w_seq v = w_seq w" using v w by (simp add: ident_def)
  ultimately have "v = w" using v(1) w(1) by (auto dest: inj_onD)
  with w v(2) that show ?thesis by (simp add: ident_def)
qed

lemma acquire_poll_inv:
  assumes "gov_inv g H" "acquire_poll now s p dl g = (r, g')"
  shows "gov_inv g' H \<and> r \<noteq> Acquired"
proof -
  have "gov_inv (snd (next_wake_delay now p g)) H"
    using assms(1) gov_inv_bk [OF bk_next_wake_delay] by simp
  with assms drop_waiter_inv [OF assms(1), of s] show ?thesis
    by (auto simp: acquire_poll_def Let_def split: if_splits prod.splits)
qed

lemma granted_acquire_inv:
  assumes inv: "gov_inv g H" and i: "(s, sl) \<in># idents g"
  shows "gov_inv (grant_waiters now g) H"
    and "s \<in> w_seq ` set (granted_waiters (grant_waiters now g)) \<Longrightarrow>
      gov_inv (take_granted s (grant_waiters now g)) (add_mset sl H)"
proof -
  show gi: "gov_inv (grant_waiters now g) H" by (rule grant_waiters_inv [OF inv])
  assume s: "s \<in> w_seq ` set (granted_waiters (grant_waiters now g))"
  have "(s, sl) \<in># idents (grant_waiters now g)" using i by simp
  from granted_ident [OF gi s this] obtain w where
    "w \<in> set (granted_waiters (grant_waiters now g))" "w_seq w = s" "wslot w = sl" .
  with take_granted_inv [OF gi] show "gov_inv (take_granted s (grant_waiters now g)) (add_mset sl H)"
    by auto
qed


lemma idents_enqueue: "idents (enqueue w (g\<lparr>gov_seq := n\<rparr>)) = add_mset (ident w) (idents g)"
  by (simp add: idents_def enqueue_def Let_def)

lemma acquire_begin_inv:
  assumes inv: "gov_inv g H" and p: "p \<noteq> Some []"
    and st: "acquire_begin now f p prio dl g = (r, g')"
  shows "gov_inv g' (if r = Acquired then add_mset (f, p) H else H)"
proof (cases "shut_down g")
  case True
  with inv st show ?thesis by (auto simp: acquire_begin_def)
next
  case up: False
  obtain ready g1 where tr:
    "(if queued g = 0 \<and> fits g f p then tokens_ready now p g else (False, g)) = (ready, g1)" by fastforce
  have bk: "bk g g1"
    using tr bk_tokens_ready [of g now p] by (auto split: if_splits)
  have inv1: "gov_inv g1 H" using inv gov_inv_bk [OF bk] by simp
  show ?thesis
  proof (cases ready)
    case True
    then have "fits g1 f p" using tr by (auto simp: fits_bk [OF bk] split: if_splits)
    from enter_inv [OF inv1 this p] True up st tr show ?thesis
      by (auto simp: acquire_begin_def gov_inv_bk [OF bk_consume_token])
  next
    case nr: False
    show ?thesis
    proof (cases "queue_bound g1 \<le> queued g1")
      case True
      with nr up st tr inv1 show ?thesis by (auto simp: acquire_begin_def)
    next
      case False
      let ?s = "gov_seq g1 + 1"
      let ?w = "\<lparr>w_priority = prio, w_seq = ?s, w_workflow = f, w_provider = p,
                 w_event = False, w_granted = False\<rparr>"
      let ?e = "enqueue ?w (g1\<lparr>gov_seq := ?s\<rparr>)"
      have inve: "gov_inv ?e H" using enqueue_inv [OF inv1, of ?w] False p by simp
      have i: "(?s, (f, p)) \<in># idents ?e" by (simp add: idents_enqueue ident_def wslot_def)
      note gi = granted_acquire_inv [OF inve i, of now]
      show ?thesis
      proof (cases "?s \<in> w_seq ` set (granted_waiters (grant_waiters now ?e))")
        case True
        with gi(2) nr up st tr False show ?thesis by (auto simp: acquire_begin_def Let_def)
      next
        case ng: False
        have "acquire_poll now ?s p dl (grant_waiters now ?e) = (r, g')"
          using ng nr up st tr False by (auto simp: acquire_begin_def Let_def)
        with acquire_poll_inv [OF gi(1)] show ?thesis by auto
      qed
    qed
  qed
qed

lemma acquire_wake_inv:
  assumes inv: "gov_inv g H" and i: "(s, sl) \<in># idents g"
    and st: "acquire_wake now s p dl g = (r, g')"
  shows "gov_inv g' (if r = Acquired then add_mset sl H else H)"
proof -
  note gi = granted_acquire_inv [OF inv i, of now]
  show ?thesis
  proof (cases "s \<in> w_seq ` set (granted_waiters (grant_waiters now g))")
    case True
    with gi(2) st show ?thesis by (auto simp: acquire_wake_def Let_def)
  next
    case ng: False
    show ?thesis
    proof (cases "shut_down (grant_waiters now g)")
      case True
      with ng st drop_waiter_inv [OF gi(1)] show ?thesis by (auto simp: acquire_wake_def Let_def)
    next
      case False
      with ng st have "acquire_poll now s p dl (grant_waiters now g) = (r, g')"
        by (auto simp: acquire_wake_def Let_def)
      with acquire_poll_inv [OF gi(1)] show ?thesis by auto
    qed
  qed
qed

lemma leave_inv:
  assumes "gov_inv g H" "(f, k) \<in># H"
  shows "gov_inv (leave f k g) (H - {#(f, k)#})"
proof -
  have "outstanding g H = add_mset (f, k) (outstanding g (H - {#(f, k)#}))"
    using assms(2) by (simp add: outstanding_def)
  then have "counts g (add_mset (f, k) (outstanding g (H - {#(f, k)#})))"
    using assms(1) by (simp add: gov_inv_def)
  from counts_leave [OF this] assms(1) show ?thesis
    by (auto simp: gov_inv_def limits_ok_def queue_ok_def waiters_ok_def outstanding_def leave_def Let_def
        abs_ceiling_def split: option.splits)
qed

lemma release_slot_inv:
  "gov_inv g H \<Longrightarrow> (f, provider_key p) \<in># H \<Longrightarrow>
     gov_inv (release_slot now f p g) (H - {#(f, provider_key p)#})"
  by (simp add: release_slot_leave grant_waiters_inv leave_inv)


lemma configure_inv: "gov_inv g H \<Longrightarrow> gov_inv (configure a b c d e g) H"
  by (cases a; cases b; cases c; cases d; cases e)
    (simp_all add: configure_def Let_def gov_inv_def limits_ok_def queue_ok_def waiters_ok_def
      outstanding_def counts_def)

lemma note_retry_after_inv: "gov_inv g H \<Longrightarrow> gov_inv (note_retry_after now p x g) H"
  by (simp add: note_retry_after_def Let_def gov_inv_def limits_ok_def queue_ok_def waiters_ok_def
      outstanding_def counts_def)

lemma on_shutdown_inv: "gov_inv g H \<Longrightarrow> gov_inv (on_shutdown h g) H"
  by (simp add: on_shutdown_def gov_inv_def limits_ok_def queue_ok_def waiters_ok_def
      outstanding_def counts_def)

lemma gov_inv_shut_down: "gov_inv (g\<lparr>shut_down := b\<rparr>) H = gov_inv g H"
  by (simp add: gov_inv_def limits_ok_def queue_ok_def waiters_ok_def outstanding_def counts_def)

lemma request_shutdown_inv:
  assumes "gov_inv g H"
  shows "gov_inv (snd (request_shutdown g)) H"
proof -
  let ?e = "List.map (\<lambda>w. w\<lparr>w_event := True\<rparr>)"
  have "List.map core (?e ws) = List.map core ws" for ws
    by (simp add: comp_def)
  from gov_inv_queues [OF assms this this]
  have "gov_inv ((g\<lparr>interactive := ?e (interactive g), batch := ?e (batch g)\<rparr>)\<lparr>shut_down := True\<rparr>) H"
    by (simp only: gov_inv_shut_down)
  moreover have "(g\<lparr>interactive := ?e (interactive g), batch := ?e (batch g)\<rparr>)\<lparr>shut_down := True\<rparr>
      = g\<lparr>shut_down := True, interactive := ?e (interactive g), batch := ?e (batch g)\<rparr>" by simp
  ultimately have "gov_inv (g\<lparr>shut_down := True, interactive := ?e (interactive g),
      batch := ?e (batch g)\<rparr>) H" by (simp only:)
  with assms show ?thesis by (simp add: request_shutdown_def)
qed

lemma new_governor_inv: "gov_inv (new_governor a b c q r s m env) {#}"
proof -
  let ?c = "case m of Some n \<Rightarrow> max 1 (min n abs_ceiling) | None \<Rightarrow> hard_concurrency_ceiling None env"
  have c: "1 \<le> ?c \<and> ?c \<le> abs_ceiling"
    by (cases m) (simp_all add: hard_concurrency_ceiling_def Let_def abs_ceiling_def)
  let ?g = "new_governor a b c q r s m env"
  have "max_concurrency ?g = ?c" "global_limit ?g = max 1 (min (case a of None \<Rightarrow> ?c | Some n \<Rightarrow> n) ?c)"
    "queue_bound ?g = max 1 q" "global_used ?g = 0" "wf_used ?g = (\<lambda>_. 0)" "prov_used ?g = (\<lambda>_. 0)"
    "interactive ?g = []" "batch ?g = []" "queued ?g = 0" "granted_waiters ?g = []"
    by (simp_all only: new_governor_def Let_def governor.simps)
  with c show ?thesis
    by (simp add: gov_inv_def limits_ok_def queue_ok_def waiters_ok_def outstanding_def counts_def)
qed

section \<open>Reachable states\<close>

text \<open>
  A system state is a governor and the slots its threads hold. A waiting thread is one of
  the waiters of the governor; it may wake at any time, at any clock reading.
\<close>

inductive gov_step :: "governor \<times> slot multiset \<Rightarrow> governor \<times> slot multiset \<Rightarrow> bool" where
  begin_acquire: "acquire_begin now f (provider_key p) prio dl g = (r, g') \<Longrightarrow>
    gov_step (g, H) (g', if r = Acquired then add_mset (f, provider_key p) H else H)"
| wake: "w \<in> set (interactive g @ batch g @ granted_waiters g) \<Longrightarrow>
    acquire_wake now (w_seq w) (w_provider w) dl g = (r, g') \<Longrightarrow>
    gov_step (g, H) (g', if r = Acquired then add_mset (wslot w) H else H)"
| release_lease: "(f, provider_key p) \<in># H \<Longrightarrow>
    gov_step (g, H) (release_slot now f p g, H - {#(f, provider_key p)#})"
| set_limits: "gov_step (g, H) (configure a b c d e g, H)"
| retry_after: "gov_step (g, H) (note_retry_after now q x g, H)"
| add_hook: "gov_step (g, H) (on_shutdown h g, H)"
| shutdown: "gov_step (g, H) (snd (request_shutdown g), H)"

inductive gov_reachable :: "governor \<times> slot multiset \<Rightarrow> bool" where
  start: "gov_reachable (new_governor a b c q r s m env, {#})"
| step: "gov_reachable s \<Longrightarrow> gov_step s t \<Longrightarrow> gov_reachable t"

lemma gov_step_inv:
  assumes "gov_step (g, H) (g', H')" and inv: "gov_inv g H"
  shows "gov_inv g' H'"
  using assms(1)
proof (cases rule: gov_step.cases)
  case (begin_acquire now f p prio dl r)
  with acquire_begin_inv [OF inv _ begin_acquire(2)] show ?thesis by simp
next
  case (wake w now dl r)
  then have "(w_seq w, wslot w) \<in># idents g" by (auto simp: idents_def ident_def)
  from acquire_wake_inv [OF inv this wake(3)] wake(1) show ?thesis by simp
next
  case (release_lease f p now)
  with release_slot_inv [OF inv] show ?thesis by simp
qed (use inv in \<open>simp_all add: configure_inv note_retry_after_inv on_shutdown_inv request_shutdown_inv\<close>)

lemma gov_reachable_inv: "gov_reachable s \<Longrightarrow> gov_inv (fst s) (snd s)"
proof (induction rule: gov_reachable.induct)
  case (start a b c q r s m env)
  then show ?case by (simp add: new_governor_inv)
next
  case (step s t)
  then show ?case by (metis gov_step_inv prod.collapse)
qed



text \<open>
  The wait queue is bounded: in every reachable state the counter \<open>queued\<close> is the number
  of waiters in the two queues and does not exceed the configured bound.
\<close>

theorem governor_queue_bound:
  assumes "gov_reachable (g, H)"
  shows "queued g = int (length (interactive g) + length (batch g)) \<and> queued g \<le> queue_bound g
       \<and> distinct (List.map w_seq (interactive g @ batch g @ granted_waiters g))"
  using gov_reachable_inv [OF assms] by (simp add: gov_inv_def queue_ok_def waiters_ok_def)

section \<open>Priorities and progress\<close>

text \<open>
  A grant goes to the first waiter of its queue that fits and has tokens, and to the
  batch queue only if no interactive waiter could run.
\<close>

theorem grant_respects_priority:
  assumes "grant_once now g = (True, g')"
  shows "\<exists>q pre w post.
     (q = interactive g \<or> q = batch g \<and> (\<forall>v \<in> set (interactive g). \<not> grantable now g v))
   \<and> q = pre @ w # post \<and> grantable now g w \<and> (\<forall>v \<in> set pre. \<not> grantable now g v)
   \<and> granted_waiters g' = granted_waiters g @ [w\<lparr>w_event := True, w_granted := True\<rparr>]"
  using assms
proof (cases rule: grant_once_cases)
  case (interactive qi w g1)
  note sp = scan_queue_spec [OF interactive(1), unfolded scan_ok_def]
  then have bk: "bk g g1" by (simp add: same_readiness_def)
  have "granted_waiters g' = granted_waiters g @ [w\<lparr>w_event := True, w_granted := True\<rparr>]"
    unfolding interactive(3) by (simp add: bk_fields [OF bk_admit] admit_core_def bk_fields [OF bk])
  with sp show ?thesis by auto
next
  case (batch qi g1 qb w g3)
  note si = scan_queue_spec [OF batch(1), unfolded scan_ok_def]
  note sb = scan_queue_spec [OF batch(2), unfolded scan_ok_def]
  have bk: "bk g g1" using si by (simp add: same_readiness_def)
  have bk3: "bk (g1\<lparr>interactive := qi\<rparr>) g3" using sb by (simp add: same_readiness_def)
  have cong: "grantable now (g1\<lparr>interactive := qi\<rparr>) v = grantable now g v" for v
  proof -
    have "grantable now (g1\<lparr>interactive := qi\<rparr>) v = grantable now g1 v"
      by (simp add: grantable_def fits_def ready_eq until_of_def has_bucket_def effective_tokens_def
          get_bucket_def Let_def split: option.split)
    also have "\<dots> = grantable now g v" using si by (intro grantable_cong) simp
    finally show ?thesis .
  qed
  have "\<not> shut_down g" using sb bk_fields(13) [OF bk] by simp
  then have "\<forall>v \<in> set (governor.interactive g). \<not> grantable now g v" using si by simp
  moreover have "granted_waiters g' = granted_waiters g @ [w\<lparr>w_event := True, w_granted := True\<rparr>]"
    unfolding batch(4)
    by (simp add: bk_fields [OF bk_admit] admit_core_def bk_fields [OF bk3] bk_fields [OF bk])
  ultimately show ?thesis using sb cong by auto
qed simp


theorem governor_queue_bound_witness:
  "queued (new_governor None None None 3 None None None None) \<le> 3"
  using governor_queue_bound [OF gov_reachable.start [of None None None 3 None None None None]]
  by (simp add: new_governor_def Let_def)

lemma grantable_queue_update [simp]:
  "grantable now (g\<lparr>interactive := qi\<rparr>) w = grantable now g w"
  "grantable now (g\<lparr>batch := qb\<rparr>) w = grantable now g w"
  by (simp_all add: grantable_def fits_def ready_eq until_of_def has_bucket_def effective_tokens_def
      get_bucket_def Let_def split: option.split)

lemma core_ball: "List.map core ws' = List.map core ws \<Longrightarrow>
   (\<forall>w \<in> set ws'. \<not> grantable now g w) = (\<forall>w \<in> set ws. \<not> grantable now g w)"
  using core_map_eq(3) [of ws' ws "\<lambda>w. \<not> grantable now g w"] by simp

lemma grant_once_shut_down:
  "grant_once now g = (b, g') \<Longrightarrow> shut_down g' = shut_down g"
proof (erule grant_once_cases, goal_cases)
  case (1 qi w g1)
  then show ?case
    by (simp add: bk_fields [OF bk_admit] admit_core_def bk_fields [OF bk_scan_queue [OF 1(1)]])
next
  case (2 qi g1 qb w g3)
  then show ?case
    by (simp add: bk_fields [OF bk_admit] admit_core_def bk_fields [OF bk_scan_queue [OF 2(1)]]
        bk_fields [OF bk_scan_queue [OF 2(2)]])
next
  case (3 qi g1 qb g3)
  then show ?case
    by (simp add: bk_fields [OF bk_scan_queue [OF 3(1)]] bk_fields [OF bk_scan_queue [OF 3(2)]])
qed

lemma grant_once_quiet:
  assumes "grant_once now g = (False, g')" and up: "\<not> shut_down g"
  shows "\<forall>w \<in> set (interactive g' @ batch g'). \<not> grantable now g' w"
  using assms(1)
proof (cases rule: grant_once_cases)
  case (none qi g1 qb g3)
  note si = scan_queue_spec [OF none(1), unfolded scan_ok_def]
  note sb = scan_queue_spec [OF none(2), unfolded scan_ok_def]
  have bk: "bk g g1" using si by (simp add: same_readiness_def)
  have bk3: "bk (g1\<lparr>interactive := qi\<rparr>) g3" using sb by (simp add: same_readiness_def)
  have c: "grantable now g3 w = grantable now g w" for w
    using grantable_cong [of now "g1\<lparr>interactive := qi\<rparr>" g3 w] grantable_cong [of now g g1 w] si sb
    by simp
  have "\<forall>w \<in> set qi. \<not> grantable now g w" using si up core_ball [of qi "interactive g"] by simp
  moreover have "\<forall>w \<in> set qb. \<not> grantable now g w"
    using sb up core_ball [of qb "batch g"] si grantable_cong [of now g g1] bk_fields(13) [OF bk] by simp
  ultimately show ?thesis by (auto simp: none(4) bk_fields [OF bk3] c)
qed simp_all

text \<open>
  The grant loop is work conserving: when it stops no waiter is left that has a free
  slot in every limit and a ready token bucket (unless the governor is shutting down, when
  nothing is granted).
\<close>

theorem grant_waiters_work_conserving:
  assumes "\<not> shut_down g"
  shows "\<forall>w \<in> set (interactive (grant_waiters now g) @ batch (grant_waiters now g)).
           \<not> grantable now (grant_waiters now g) w"
  using assms
proof (induction now g rule: grant_waiters.induct)
  case (1 now g)
  obtain b g' where st: "grant_once now g = (b, g')" by fastforce
  have "\<not> shut_down g'" using grant_once_shut_down [OF st] "1.prems" by simp
  with "1.IH" [OF st [symmetric]] st grant_once_quiet "1.prems" show ?case
    by (cases b) (simp_all add: grant_waiters.simps [of now g])
qed

lemma grant_waiters_down: "shut_down g \<Longrightarrow> granted_waiters (grant_waiters now g) = granted_waiters g
   \<and> shut_down (grant_waiters now g)"
proof (induction now g rule: grant_waiters.induct)
  case (1 now g)
  obtain b g' where st: "grant_once now g = (b, g')" by fastforce
  from st have "\<not> b \<and> granted_waiters g' = granted_waiters g"
  proof (cases rule: grant_once_cases)
    case (interactive qi w g1)
    with scan_queue_spec [OF interactive(1)] "1.prems" show ?thesis by (simp add: scan_ok_def)
  next
    case (batch qi g1 qb w g3)
    with scan_queue_spec [OF batch(2)] "1.prems" bk_fields(13) [OF bk_scan_queue [OF batch(1)]]
    show ?thesis by (simp add: scan_ok_def)
  next
    case (none qi g1 qb g3)
    then show ?thesis
      by (simp add: bk_fields [OF bk_scan_queue [OF none(1)]] bk_fields [OF bk_scan_queue [OF none(2)]])
  qed
  with st "1.prems" grant_once_shut_down [OF st] show ?case
    by (simp add: grant_waiters.simps [of now g])
qed

lemma acquire_poll_not_acquired: "fst (acquire_poll now s p dl g) \<noteq> Acquired"
  by (simp add: acquire_poll_def Let_def split: prod.split)

text \<open>
  After a shutdown request nothing new starts: a new acquire is refused and leaves the
  governor unchanged, and a waiter that wakes obtains its slot exactly if it had been
  granted before; otherwise it is refused.
\<close>

theorem shutdown_refuses_new_work:
  assumes "shut_down g"
  shows "acquire_begin now f p prio dl g = (Refused GovernorShutdown, g)
       \<and> fst (acquire_wake now s p dl g) =
           (if s \<in> w_seq ` set (granted_waiters g) then Acquired else Refused GovernorShutdown)"
  using assms grant_waiters_down [OF assms, of now]
  by (simp add: acquire_begin_def acquire_wake_def Let_def)

theorem shutdown_refuses_new_work_witness:
  "fst (acquire_begin 0 ''flow'' None 0 None
     (snd (request_shutdown (new_governor None None None 4 None None None None))))
   = Refused GovernorShutdown"
proof -
  have "shut_down (snd (request_shutdown (new_governor None None None 4 None None None None)))"
    by (simp add: request_shutdown_def new_governor_def Let_def)
  from shutdown_refuses_new_work [OF this] show ?thesis by simp
qed

section \<open>Token buckets\<close>

text \<open>Successive admissions of one provider, each at its own clock reading.\<close>

fun rate_limited_run :: "string \<Rightarrow> rat list \<Rightarrow> governor \<Rightarrow> governor option" where
  "rate_limited_run p [] g = Some g"
| "rate_limited_run p (now # ts) g =
     (let (ok, g1) = tokens_ready now (Some p) g
      in if ok then rate_limited_run p ts (consume_token now (Some p) g1) else None)"

lemma admission_bucket:
  assumes p: "p \<noteq> []" and b: "buckets g p = Some b" and ok: "tokens_ready now (Some p) g = (True, g1)"
  shows "\<exists>b'. buckets (consume_token now (Some p) g1) p = Some b' \<and> updated b' = now
     \<and> rate b' = rate b \<and> burst b' = burst b \<and> 0 \<le> tokens b'
     \<and> tokens b' \<le> tokens b + rate b * max 0 (now - updated b) - 1"
proof -
  have hb: "has_bucket g p" using b by (simp add: has_bucket_def)
  have rb: "buckets (refill now p g) p = Some (refill_bucket now b)"
    using hb b by (simp add: refill_buckets get_bucket_def)
  from ok p hb rb have g1: "g1 = refill now p g" and t: "1 \<le> tokens (refill_bucket now b)"
    by (auto simp: tokens_ready_def Let_def get_bucket_def split: if_splits)
  have hb1: "has_bucket g1 p" by (simp add: has_bucket_def g1 rb)
  have "buckets (refill now p g1) p = Some (refill_bucket now b)"
    using hb1 by (simp add: refill_buckets get_bucket_def g1 rb)
  then have "buckets (consume_token now (Some p) g1) p =
      Some (refill_bucket now b\<lparr>tokens := max 0 (tokens (refill_bucket now b) - 1)\<rparr>)"
    using p hb1 by (simp add: consume_token_def Let_def get_bucket_def)
  with t show ?thesis by (auto simp: refill_bucket_def)
qed


section \<open>Concrete instances\<close>

definition demo_waiter :: "int \<Rightarrow> nat \<Rightarrow> waiter" where
  "demo_waiter prio s = \<lparr>w_priority = prio, w_seq = s, w_workflow = ''flow'',
     w_provider = Some ''openai'', w_event = False, w_granted = False\<rparr>"

definition demo_governor :: governor where
  "demo_governor = enqueue (demo_waiter 0 2) (enqueue (demo_waiter 1 1)
     (new_governor (Some 1) None None 8 (Some 2) None (Some 4) None))"

lemma demo_grant: "grant_once 0 demo_governor =
   (True, snd (grant_once 0 demo_governor))
   \<and> List.map w_seq (granted_waiters (snd (grant_once 0 demo_governor))) = [2]"
  by (simp add: grant_once_def demo_governor_def demo_waiter_def enqueue_def new_governor_def Let_def
     priority_value_def abs_ceiling_def clamp_limit_def fits_def tokens_ready_def until_of_def dget_or_def has_bucket_def refill_def get_bucket_def refill_bucket_def admit_def enter_def consume_token_def)

theorem grant_respects_priority_witness:
  "\<exists>q pre w post.
     (q = interactive demo_governor
      \<or> q = batch demo_governor \<and> list_all (\<lambda>v. \<not> grantable 0 demo_governor v) (interactive demo_governor))
   \<and> q = pre @ w # post \<and> grantable 0 demo_governor w"
  using grant_respects_priority [OF conjunct1 [OF demo_grant]] unfolding list_all_iff by blast

theorem grant_waiters_work_conserving_witness:
  "list_all (\<lambda>w. \<not> grantable 0 (grant_waiters 0 demo_governor) w)
     (interactive (grant_waiters 0 demo_governor) @ batch (grant_waiters 0 demo_governor))"
  unfolding list_all_iff
proof (rule grant_waiters_work_conserving)
  show "\<not> shut_down demo_governor"
    by (simp add: demo_governor_def enqueue_def new_governor_def Let_def)
qed

definition demo_bucket :: governor where
  "demo_bucket = snd (get_bucket 0 ''openai''
     (new_governor None None None 8 (Some 2) (Some 2) (Some 4) None))"


end
