(* ===== verification/Values.thy ===== *)
theory Values
  imports Prelude
begin

text \<open>
  Values of JSON and YAML documents as Python holds them (\<open>None\<close>, \<open>bool\<close>, \<open>int\<close>, \<open>float\<close>,
  \<open>str\<close>, \<open>list\<close>, \<open>dict\<close> with text keys), with the conversions the program applies to them:
  truth, \<open>int()\<close>, \<open>float()\<close>, \<open>str()\<close>, equality. The decimal text of a float and the parser
  of float literals belong to the interpreter and are arguments (\<open>fr\<close>, \<open>pf\<close>).
\<close>

datatype pyval =
    PNone
  | PBool bool
  | PInt int
  | PFloat rat
  | PStr string
  | PList "pyval list"
  | PDict "(string \<times> pyval) list"

type_synonym pydict = "(string \<times> pyval) list"

section \<open>Truth and conversion\<close>

fun py_truth :: "pyval \<Rightarrow> bool" where
  "py_truth PNone = False"
| "py_truth (PBool b) = b"
| "py_truth (PInt n) = (n \<noteq> 0)"
| "py_truth (PFloat x) = (x \<noteq> 0)"
| "py_truth (PStr s) = (s \<noteq> [])"
| "py_truth (PList xs) = (xs \<noteq> [])"
| "py_truth (PDict d) = (d \<noteq> [])"

text \<open>\<open>math.trunc\<close>, which \<open>int()\<close> applies to a float.\<close>

definition trunc :: "rat \<Rightarrow> int" where
  "trunc x = (if 0 \<le> x then \<lfloor>x\<rfloor> else \<lceil>x\<rceil>)"

text \<open>\<open>int(v)\<close>; \<open>None\<close> stands for \<open>TypeError\<close> and \<open>ValueError\<close>.\<close>

fun to_int :: "pyval \<Rightarrow> int option" where
  "to_int (PBool b) = Some (if b then 1 else 0)"
| "to_int (PInt n) = Some n"
| "to_int (PFloat x) = Some (trunc x)"
| "to_int (PStr s) = py_int s"
| "to_int _ = None"

fun to_float :: "(string \<Rightarrow> rat option) \<Rightarrow> pyval \<Rightarrow> rat option" where
  "to_float pf (PBool b) = Some (if b then 1 else 0)"
| "to_float pf (PInt n) = Some (of_int n)"
| "to_float pf (PFloat x) = Some x"
| "to_float pf (PStr s) = pf s"
| "to_float pf _ = None"

text \<open>The numeric value a bool, int or float has in a comparison.\<close>

fun num_of :: "pyval \<Rightarrow> rat option" where
  "num_of (PBool b) = Some (if b then 1 else 0)"
| "num_of (PInt n) = Some (of_int n)"
| "num_of (PFloat x) = Some x"
| "num_of _ = None"

text \<open>
  \<open>a == b\<close>: numbers compare by value across types, lists element by element, dictionaries
  by key whatever their order, and values of unrelated types are different.
\<close>

fun py_eq :: "pyval \<Rightarrow> pyval \<Rightarrow> bool"
and py_eq_list :: "pyval list \<Rightarrow> pyval list \<Rightarrow> bool"
and py_eq_dict :: "pydict \<Rightarrow> pydict \<Rightarrow> bool" where
  "py_eq PNone b = (b = PNone)"
| "py_eq (PStr s) b = (b = PStr s)"
| "py_eq (PBool x) b = (num_of b = Some (if x then 1 else 0))"
| "py_eq (PInt n) b = (num_of b = Some (of_int n))"
| "py_eq (PFloat x) b = (num_of b = Some x)"
| "py_eq (PList xs) b = (case b of PList ys \<Rightarrow> py_eq_list xs ys | _ \<Rightarrow> False)"
| "py_eq (PDict d) b =
     (case b of PDict e \<Rightarrow> length d = length e \<and> py_eq_dict d e | _ \<Rightarrow> False)"
| "py_eq_list [] ys = (ys = [])"
| "py_eq_list (x # xs) ys =
     (case ys of [] \<Rightarrow> False | y # ys' \<Rightarrow> py_eq x y \<and> py_eq_list xs ys')"
| "py_eq_dict [] e = True"
| "py_eq_dict ((k, x) # d) e =
     (case map_of e k of None \<Rightarrow> False | Some y \<Rightarrow> py_eq x y \<and> py_eq_dict d e)"

text \<open>\<open>d.get(k)\<close>: a missing key reads as \<open>None\<close>.\<close>

definition vget :: "pydict \<Rightarrow> string \<Rightarrow> pyval" where
  "vget d k = (case map_of d k of None \<Rightarrow> PNone | Some v \<Rightarrow> v)"

lemma vget_Nil [simp]: "vget [] k = PNone"
  and vget_Cons [simp]: "vget ((k', v) # d) k = (if k = k' then v else vget d k)"
  by (simp_all add: vget_def)

lemma vget_dset [simp]: "vget (dset k v d) k' = (if k = k' then v else vget d k')"
  by (simp add: vget_def)

fun is_str :: "pyval \<Rightarrow> bool" where
  "is_str (PStr _) = True"
| "is_str _ = False"

fun is_dict :: "pyval \<Rightarrow> bool" where
  "is_dict (PDict _) = True"
| "is_dict _ = False"

text \<open>\<open>_as_int\<close> of several modules: \<open>None\<close> and unreadable values count as zero.\<close>

definition as_int :: "pyval \<Rightarrow> int" where
  "as_int v = (case to_int v of None \<Rightarrow> 0 | Some n \<Rightarrow> n)"

lemma as_int_simps [simp]:
  "as_int PNone = 0"
  "as_int (PInt n) = n"
  "as_int (PBool b) = (if b then 1 else 0)"
  by (simp_all add: as_int_def)

section \<open>Text of a value\<close>

definition digit_char :: "nat \<Rightarrow> char" where
  "digit_char n = char_of (48 + n)"

function nat_text :: "nat \<Rightarrow> string" where
  "nat_text n = (if n < 10 then [digit_char n] else nat_text (n div 10) @ [digit_char (n mod 10)])"
  by auto
termination by (relation "measure id") auto

declare nat_text.simps [simp del]

definition int_text :: "int \<Rightarrow> string" where
  "int_text i = (if i < 0 then CHR ''-'' # nat_text (nat (- i)) else nat_text (nat i))"

lemma nat_text_not_Nil [simp]: "nat_text n \<noteq> []"
  by (subst nat_text.simps) simp

lemma is_digit_digit_char: "d < 10 \<Longrightarrow> is_digit (digit_char d)"
  by (simp add: is_digit_def digit_char_def Let_def of_char_of)

lemma digit_char_value: "d < 10 \<Longrightarrow> (of_char (digit_char d) :: nat) - 48 = d"
  by (simp add: digit_char_def of_char_of)

lemma nat_text_digits: "\<forall>c \<in> set (nat_text n). is_digit c"
  by (induction n rule: nat_text.induct, subst nat_text.simps) (auto simp: is_digit_digit_char)

lemma digits_value_append:
  "\<forall>c \<in> set xs. is_digit c \<Longrightarrow> xs \<noteq> [] \<Longrightarrow>
     digits_value acc p (xs @ ys) =
       digits_value (foldl (\<lambda>a c. 10 * a + ((of_char c :: nat) - 48)) acc xs) True ys"
proof (induction xs arbitrary: acc p)
  case Nil
  then show ?case by simp
next
  case (Cons c cs)
  then show ?case by (cases "cs = []") auto
qed

lemma nat_text_value:
  "foldl (\<lambda>a c. 10 * a + ((of_char c :: nat) - 48)) 0 (nat_text n) = n"
proof (induction n rule: nat_text.induct)
  case (1 n)
  show ?case
  proof (cases "n < 10")
    case True
    then show ?thesis by (subst nat_text.simps) (simp add: digit_char_value)
  next
    case False
    have "(of_char (digit_char (n mod 10)) :: nat) - 48 = n mod 10"
      by (rule digit_char_value) simp
    with 1 [OF False] False show ?thesis
      by (subst nat_text.simps) simp
  qed
qed

lemma digit_not_space: "is_digit c \<Longrightarrow> \<not> is_space c"
  by (auto simp: is_digit_def is_space_def Let_def)

lemma strip_no_space: "\<forall>c \<in> set s. \<not> is_space c \<Longrightarrow> strip s = s"
proof -
  assume a: "\<forall>c \<in> set s. \<not> is_space c"
  have id: "dropWhile is_space t = t" if "\<forall>c \<in> set t. \<not> is_space c" for t
    using that by (cases t) auto
  show ?thesis using a by (simp add: strip_def lstrip_def rstrip_def id)
qed

lemma digits_value_nat_text: "digits_value 0 False (nat_text n) = Some n"
  using digits_value_append [OF nat_text_digits nat_text_not_Nil, of 0 False n "[]"]
  by (simp add: nat_text_value)

lemma py_int_int_text [simp]: "py_int (int_text i) = Some i"
proof -
  have ns: "\<forall>c \<in> set (nat_text n). \<not> is_space c" for n
    using nat_text_digits digit_not_space by blast
  show ?thesis
  proof (cases "i < 0")
    case True
    have "\<not> is_space (CHR ''-'')" by (simp add: is_space_def)
    with ns have "strip (CHR ''-'' # nat_text (nat (- i))) = CHR ''-'' # nat_text (nat (- i))"
      by (intro strip_no_space) auto
    with True show ?thesis by (simp add: py_int_def int_text_def digits_value_nat_text)
  next
    case False
    obtain c cs where c: "nat_text (nat i) = c # cs" by (cases "nat_text (nat i)") auto
    have d: "is_digit c" using nat_text_digits [of "nat i"] c by simp
    then have "c \<noteq> CHR ''-''" "c \<noteq> CHR ''+''" by (auto simp: is_digit_def)
    moreover have "strip (nat_text (nat i)) = nat_text (nat i)"
      by (rule strip_no_space [OF ns])
    ultimately show ?thesis
      using False c digits_value_nat_text [of "nat i"] by (simp add: py_int_def int_text_def)
  qed
qed

text \<open>
  \<open>repr\<close> of a text: single quotes unless the text holds one and no double quote, with the
  escapes of control characters.
\<close>

definition hex_char :: "nat \<Rightarrow> char" where
  "hex_char n = (if n < 10 then char_of (48 + n) else char_of (87 + n))"

definition esc_char :: "char \<Rightarrow> char \<Rightarrow> string" where
  "esc_char q c =
     (let n = (of_char c :: nat) in
      if c = q \<or> n = 92 then [char_of (92 :: nat), c]
      else if n = 10 then [char_of (92 :: nat), CHR ''n'']
      else if n = 13 then [char_of (92 :: nat), CHR ''r'']
      else if n = 9 then [char_of (92 :: nat), CHR ''t'']
      else if n < 32 \<or> (127 \<le> n \<and> n \<le> 160) \<or> n = 173
        then [char_of (92 :: nat), CHR ''x'', hex_char (n div 16), hex_char (n mod 16)]
      else [c])"

definition repr_str :: "string \<Rightarrow> string" where
  "repr_str s =
     (let q = (if CHR 0x27 \<in> set s \<and> CHR 0x22 \<notin> set s then CHR 0x22 else CHR 0x27)
      in q # concat (List.map (esc_char q) s) @ [q])"

fun py_repr :: "(rat \<Rightarrow> string) \<Rightarrow> pyval \<Rightarrow> string" where
  "py_repr fr PNone = ''None''"
| "py_repr fr (PBool b) = (if b then ''True'' else ''False'')"
| "py_repr fr (PInt n) = int_text n"
| "py_repr fr (PFloat x) = fr x"
| "py_repr fr (PStr s) = repr_str s"
| "py_repr fr (PList xs) = ''['' @ join_with '', '' (List.map (py_repr fr) xs) @ '']''"
| "py_repr fr (PDict d) =
     ''{'' @ join_with '', '' (List.map (\<lambda>(k, v). repr_str k @ '': '' @ py_repr fr v) d) @ ''}''"

definition py_str :: "(rat \<Rightarrow> string) \<Rightarrow> pyval \<Rightarrow> string" where
  "py_str fr v = (case v of PStr s \<Rightarrow> s | _ \<Rightarrow> py_repr fr v)"

lemma py_str_simps [simp]:
  "py_str fr (PStr s) = s"
  "py_str fr (PInt n) = int_text n"
  "py_str fr PNone = ''None''"
  by (simp_all add: py_str_def)

text \<open>\<open>list(v)\<close>: the items of a list, the characters of a text, the keys of a dictionary.\<close>

fun py_list :: "pyval \<Rightarrow> pyval list option" where
  "py_list (PList xs) = Some xs"
| "py_list (PStr s) = Some (List.map (\<lambda>c. PStr [c]) s)"
| "py_list (PDict d) = Some (List.map (PStr \<circ> fst) d)"
| "py_list _ = None"

definition opt_int :: "pyval \<Rightarrow> int option" where
  "opt_int v = (if v = PNone \<or> v = PStr [] then None else to_int v)"

definition opt_float :: "(string \<Rightarrow> rat option) \<Rightarrow> pyval \<Rightarrow> rat option" where
  "opt_float pf v = (if v = PNone \<or> v = PStr [] then None else to_float pf v)"

definition of_opt_int :: "int option \<Rightarrow> pyval" where
  "of_opt_int x = (case x of None \<Rightarrow> PNone | Some n \<Rightarrow> PInt n)"

definition of_opt_str :: "string option \<Rightarrow> pyval" where
  "of_opt_str x = (case x of None \<Rightarrow> PNone | Some s \<Rightarrow> PStr s)"

definition of_opt_float :: "rat option \<Rightarrow> pyval" where
  "of_opt_float x = (case x of None \<Rightarrow> PNone | Some r \<Rightarrow> PFloat r)"

lemma of_opt_str_simps [simp]:
  "of_opt_str None = PNone" "of_opt_str (Some s) = PStr s"
  "of_opt_str x = PNone \<longleftrightarrow> x = None"
  by (auto simp: of_opt_str_def split: option.split)

lemma opt_roundtrip [simp]:
  "opt_int (of_opt_int x) = x"
  "opt_float pf (of_opt_float y) = y"
  by (auto simp: opt_int_def of_opt_int_def opt_float_def of_opt_float_def split: option.splits)

text \<open>\<open>v or w\<close>, \<open>str(v or d)\<close>, \<open>str(v) if v else None\<close>.\<close>

definition or_val :: "pyval \<Rightarrow> pyval \<Rightarrow> pyval" where
  "or_val v w = (if py_truth v then v else w)"

definition text_or :: "(rat \<Rightarrow> string) \<Rightarrow> pyval \<Rightarrow> string \<Rightarrow> string" where
  "text_or fr v d = (if py_truth v then py_str fr v else d)"

lemma text_or_PStr [simp]: "text_or fr (PStr s) d = (if s = [] then d else s)"
  by (simp add: text_or_def)

definition opt_text :: "(rat \<Rightarrow> string) \<Rightarrow> pyval \<Rightarrow> string option" where
  "opt_text fr v = (if py_truth v then Some (py_str fr v) else None)"

end
