(* ===== verification/Prices.thy ===== *)
theory Prices
  imports Values
begin

text \<open>
  The model price table, \<open>cost/prices.py\<close>: rates, quotes, the exact / bare-id / longest
  prefix match, the cost of a call in millionths of a dollar and the validation of a table
  file. \<open>bundled_table\<close> is the file \<open>cost/prices.json\<close> shipped with the package. The
  readers of ISO timestamps belong to the standard library and are arguments
  (\<open>clock_lib\<close>); reading the file itself is left out.
\<close>

section \<open>Data\<close>

record rate =
  in_rate :: rat
  out_rate :: rat

definition mk_rate :: "rat \<Rightarrow> rat \<Rightarrow> rate" where
  "mk_rate i out = \<lparr>in_rate = i, out_rate = out\<rparr>"

record price_quote =
  q_model :: string
  q_priced :: bool
  q_match :: string
  q_rate :: "rate option"
  q_unpriced_reason :: "string option"

record price_table =
  pt_version :: int
  pt_updated_at :: string
  pt_currency :: string
  pt_unit :: string
  pt_invoice_authoritative :: bool
  pt_warn_after_days :: int
  pt_models :: "(string \<times> rate) list"
  pt_prefixes :: "(string \<times> rate) list"
  pt_stale :: bool

text \<open>
  \<open>iso_instant\<close> is \<open>datetime.fromisoformat\<close> with a naive result read as UTC, and
  \<open>ymd_instant\<close> is \<open>strptime\<close> with format \<open>%Y-%m-%d\<close> in UTC, both as seconds since the epoch.
\<close>

record clock_lib =
  iso_instant :: "string \<Rightarrow> rat option"
  ymd_instant :: "string \<Rightarrow> rat option"

section \<open>Quotes\<close>

text \<open>\<open>PriceQuote.cost_micros\<close>.\<close>

definition quote_cost :: "price_quote \<Rightarrow> int \<Rightarrow> int \<Rightarrow> int option" where
  "quote_cost q prompt completion =
     (if \<not> q_priced q then None
      else case q_rate q of
        None \<Rightarrow> None
      | Some r \<Rightarrow>
          (let usd = (of_int (max 0 prompt) / 1000000) * in_rate r
                   + (of_int (max 0 completion) / 1000000) * out_rate r
           in Some (round_half_even (usd * 1000000))))"

definition longest_prefix :: "string \<Rightarrow> (string \<times> 'r) list \<Rightarrow> (string \<times> 'r) option" where
  "longest_prefix model prefixes =
     (let hits = filter (\<lambda>(key, r). key \<noteq> [] \<and> starts_with model key) prefixes
      in case sort_key (\<lambda>h. - int (length (fst h))) hits of [] \<Rightarrow> None | h # _ \<Rightarrow> Some h)"

definition priced_quote :: "string \<Rightarrow> string \<Rightarrow> rate \<Rightarrow> price_quote" where
  "priced_quote ref match r =
     \<lparr>q_model = ref, q_priced = True, q_match = match, q_rate = Some r, q_unpriced_reason = None\<rparr>"

definition unpriced_quote :: "string \<Rightarrow> string \<Rightarrow> string \<Rightarrow> price_quote" where
  "unpriced_quote ref match why =
     \<lparr>q_model = ref, q_priced = False, q_match = match, q_rate = None, q_unpriced_reason = Some why\<rparr>"

definition quote_prefix :: "price_table \<Rightarrow> string \<Rightarrow> price_quote" where
  "quote_prefix t ref =
     (case longest_prefix ref (pt_prefixes t) of
        Some (key, r) \<Rightarrow> priced_quote ref (''prefix:'' @ key) r
      | None \<Rightarrow> unpriced_quote ref ''unpriced'' ''no exact or provider-prefix match'')"

definition quote_model :: "price_table \<Rightarrow> string \<Rightarrow> price_quote" where
  "quote_model t model =
     (let ref = strip model in
      if ref = [] then unpriced_quote ref ''empty'' ''empty model identifier''
      else case dget (pt_models t) ref of
        Some r \<Rightarrow> priced_quote ref ''exact'' r
      | None \<Rightarrow>
          (if CHR '':'' \<in> set ref then
             (let bare = strip (after_char CHR '':'' ref) in
              if bare \<noteq> [] then
                (case dget (pt_models t) bare of
                   Some r \<Rightarrow> priced_quote ref ''exact-id'' r
                 | None \<Rightarrow> quote_prefix t ref)
              else quote_prefix t ref)
           else quote_prefix t ref))"

text \<open>The price of a call, as the meter and the route budgets ask for it.\<close>

definition table_cost :: "price_table \<Rightarrow> string \<Rightarrow> int \<Rightarrow> int \<Rightarrow> int option" where
  "table_cost t model prompt completion = quote_cost (quote_model t model) prompt completion"

section \<open>Validation of a table file\<close>

datatype price_error =
    UnsupportedVersion
  | UpdatedAtRequired
  | UpdatedAtNotIso
  | WarnAfterNotInteger
  | WarnAfterNegative
  | ModelsNotObject
  | TooManyModelKeys
  | PrefixesNotObject
  | RateNotObject string
  | RateNotNumeric string
  | RateNegative string

definition SUPPORTED_VERSION :: int where "SUPPORTED_VERSION = 1"
definition MAX_MODEL_KEYS :: nat where "MAX_MODEL_KEYS = 10000"

definition parse_updated_at :: "clock_lib \<Rightarrow> string \<Rightarrow> rat option" where
  "parse_updated_at lib v =
     (let s = strip v;
          s' = (if ends_with s ''Z'' then butlast s @ ''+00:00'' else s)
      in case iso_instant lib s' of
           Some x \<Rightarrow> Some x
         | None \<Rightarrow> ymd_instant lib (take 10 (strip v)))"

definition is_stale :: "clock_lib \<Rightarrow> rat \<Rightarrow> price_table \<Rightarrow> bool" where
  "is_stale lib now t =
     (if pt_warn_after_days t \<le> 0 then False
      else case parse_updated_at lib (pt_updated_at t) of
        None \<Rightarrow> True
      | Some parsed \<Rightarrow> pt_warn_after_days t < \<lfloor>(now - parsed) / 86400\<rfloor>)"

definition read_rate :: "(string \<Rightarrow> rat option) \<Rightarrow> string \<Rightarrow> pyval \<Rightarrow> price_error + rate" where
  "read_rate pf whr raw =
     (case raw of
        PDict d \<Rightarrow>
          (case (Option.bind (map_of d ''input'') (to_float pf),
                 Option.bind (map_of d ''output'') (to_float pf)) of
             (Some i, Some out) \<Rightarrow>
               if i < 0 \<or> out < 0 then Inl (RateNegative whr) else Inr (mk_rate i out)
           | _ \<Rightarrow> Inl (RateNotNumeric whr))
      | _ \<Rightarrow> Inl (RateNotObject whr))"

fun read_rates :: "(string \<Rightarrow> rat option) \<Rightarrow> string \<Rightarrow> pydict \<Rightarrow>
    price_error + (string \<times> rate) list" where
  "read_rates pf whr [] = Inr []"
| "read_rates pf whr ((k, v) # d) =
     rbind (read_rate pf (whr @ ''.'' @ k) v)
       (\<lambda>r. rbind (read_rates pf whr d) (\<lambda>rs. Inr ((k, r) # rs)))"

definition validate_models :: "(string \<Rightarrow> rat option) \<Rightarrow> pydict \<Rightarrow>
    price_error + (string \<times> rate) list" where
  "validate_models pf data =
     (case vget data ''models'' of
        PDict models_raw \<Rightarrow>
          if MAX_MODEL_KEYS < length models_raw then Inl TooManyModelKeys
          else read_rates pf ''models'' models_raw
      | _ \<Rightarrow> Inl ModelsNotObject)"

definition validate_prefixes :: "(string \<Rightarrow> rat option) \<Rightarrow> pydict \<Rightarrow>
    price_error + (string \<times> rate) list" where
  "validate_prefixes pf data =
     (case or_val (vget data ''prefixes'') (PDict []) of
        PDict prefixes_raw \<Rightarrow> read_rates pf ''prefixes'' prefixes_raw
      | _ \<Rightarrow> Inl PrefixesNotObject)"

definition validate_warn_days :: "pydict \<Rightarrow> price_error + int" where
  "validate_warn_days data =
     (case to_int (case map_of data ''warn_after_days'' of None \<Rightarrow> PInt 90 | Some v \<Rightarrow> v) of
        None \<Rightarrow> Inl WarnAfterNotInteger
      | Some warn_days \<Rightarrow> if warn_days < 0 then Inl WarnAfterNegative else Inr warn_days)"

definition validate_updated_at :: "clock_lib \<Rightarrow> pydict \<Rightarrow> price_error + string" where
  "validate_updated_at lib data =
     (case vget data ''updated_at'' of
        PStr updated \<Rightarrow>
          if strip updated = [] then Inl UpdatedAtRequired
          else if parse_updated_at lib updated = None then Inl UpdatedAtNotIso
          else Inr updated
      | _ \<Rightarrow> Inl UpdatedAtRequired)"

text \<open>\<open>_validate\<close>, check by check, on the decoded JSON object.\<close>

definition validate_table :: "clock_lib \<Rightarrow> (string \<Rightarrow> rat option) \<Rightarrow> (rat \<Rightarrow> string) \<Rightarrow> rat \<Rightarrow> pydict \<Rightarrow>
    price_error + price_table" where
  "validate_table lib pf fr now data =
     (if \<not> py_eq (vget data ''version'') (PInt SUPPORTED_VERSION) then Inl UnsupportedVersion
      else rbind (validate_updated_at lib data) (\<lambda>updated.
        rbind (validate_warn_days data) (\<lambda>warn_days.
        rbind (validate_models pf data) (\<lambda>models.
        rbind (validate_prefixes pf data) (\<lambda>prefixes.
          let t = \<lparr>pt_version = as_int (vget data ''version''),
                   pt_updated_at = strip updated,
                   pt_currency = py_str fr (or_val (vget data ''currency'') (PStr ''USD'')),
                   pt_unit = py_str fr (or_val (vget data ''unit'') (PStr ''per_million_tokens'')),
                   pt_invoice_authoritative =
                     (case map_of data ''invoice_authoritative'' of None \<Rightarrow> True | Some v \<Rightarrow> py_truth v),
                   pt_warn_after_days = warn_days,
                   pt_models = models, pt_prefixes = prefixes, pt_stale = False\<rparr>
          in Inr (t\<lparr>pt_stale := is_stale lib now t\<rparr>))))))"

section \<open>The bundled table\<close>

definition bundled_models :: "(string \<times> rate) list" where
  "bundled_models =
    [(''openai:gpt-4o-mini'', mk_rate (3 / 20) (3 / 5)),
     (''gpt-4o-mini'', mk_rate (3 / 20) (3 / 5)),
     (''openai:gpt-4o'', mk_rate (5 / 2) (10)),
     (''gpt-4o'', mk_rate (5 / 2) (10)),
     (''openai:gpt-4.1'', mk_rate (2) (8)),
     (''gpt-4.1'', mk_rate (2) (8)),
     (''openai:gpt-4.1-mini'', mk_rate (2 / 5) (8 / 5)),
     (''gpt-4.1-mini'', mk_rate (2 / 5) (8 / 5)),
     (''openai:o3-mini'', mk_rate (11 / 10) (22 / 5)),
     (''o3-mini'', mk_rate (11 / 10) (22 / 5)),
     (''anthropic:claude-sonnet-4-5'', mk_rate (3) (15)),
     (''claude-sonnet-4-5'', mk_rate (3) (15)),
     (''anthropic:claude-3-5-sonnet'', mk_rate (3) (15)),
     (''claude-3-5-sonnet'', mk_rate (3) (15)),
     (''anthropic:claude-3-5-haiku'', mk_rate (4 / 5) (4)),
     (''claude-3-5-haiku'', mk_rate (4 / 5) (4)),
     (''anthropic:claude-opus-4'', mk_rate (15) (75)),
     (''claude-opus-4'', mk_rate (15) (75)),
     (''groq:llama-3.1-8b-instant'', mk_rate (1 / 20) (2 / 25)),
     (''llama-3.1-8b-instant'', mk_rate (1 / 20) (2 / 25)),
     (''gemini:gemini-2.0-flash'', mk_rate (1 / 10) (2 / 5)),
     (''gemini-2.0-flash'', mk_rate (1 / 10) (2 / 5)),
     (''gemini:gemini-1.5-pro'', mk_rate (5 / 4) (5)),
     (''gemini-1.5-pro'', mk_rate (5 / 4) (5)),
     (''bedrock:amazon.nova-lite-v1:0'', mk_rate (3 / 50) (6 / 25)),
     (''amazon.nova-lite-v1:0'', mk_rate (3 / 50) (6 / 25)),
     (''bedrock:anthropic.claude-sonnet-4-5'', mk_rate (3) (15)),
     (''vertex:gemini-2.0-flash'', mk_rate (1 / 10) (2 / 5)),
     (''vertex:gemini-1.5-pro'', mk_rate (5 / 4) (5)),
     (''ollama:llama3'', mk_rate (0) (0)),
     (''ollama:llama3.2'', mk_rate (0) (0)),
     (''typesafe:jev-1.13.0'', mk_rate (21 / 500) (0)),
     (''jev-1.13.0'', mk_rate (21 / 500) (0)),
     (''typesafe:jev-latest'', mk_rate (21 / 500) (0)),
     (''typesafe:jev-preview'', mk_rate (21 / 500) (0))]"

definition bundled_prefixes :: "(string \<times> rate) list" where
  "bundled_prefixes =
    [(''openai:'', mk_rate (5 / 2) (10)),
     (''anthropic:'', mk_rate (3) (15)),
     (''groq:'', mk_rate (1 / 20) (2 / 25)),
     (''gemini:'', mk_rate (1 / 10) (2 / 5)),
     (''bedrock:'', mk_rate (3) (15)),
     (''vertex:'', mk_rate (1 / 10) (2 / 5)),
     (''ollama:'', mk_rate (0) (0))]"

definition bundled_table :: price_table where
  "bundled_table =
     \<lparr>pt_version = 1, pt_updated_at = ''2026-09-19T00:00:00Z'', pt_currency = ''USD'',
      pt_unit = ''per_million_tokens'', pt_invoice_authoritative = True, pt_warn_after_days = 90,
      pt_models = bundled_models, pt_prefixes = bundled_prefixes, pt_stale = False\<rparr>"

section \<open>Well-formed tables\<close>

definition rate_ok :: "rate \<Rightarrow> bool" where
  "rate_ok r = (0 \<le> in_rate r \<and> 0 \<le> out_rate r)"

definition table_ok :: "price_table \<Rightarrow> bool" where
  "table_ok t = (list_all (rate_ok \<circ> snd) (pt_models t) \<and> list_all (rate_ok \<circ> snd) (pt_prefixes t))"

lemma read_rate_ok: "read_rate pf whr v = Inr r \<Longrightarrow> rate_ok r"
  by (auto simp: read_rate_def rate_ok_def mk_rate_def split: pyval.splits option.splits if_splits)

lemma read_rates_ok: "read_rates pf whr d = Inr rs \<Longrightarrow> list_all (rate_ok \<circ> snd) rs"
  by (induction pf whr d arbitrary: rs rule: read_rates.induct) (auto intro: read_rate_ok)

lemma read_rates_keys: "read_rates pf whr d = Inr rs \<Longrightarrow> List.map fst rs = List.map fst d"
  by (induction pf whr d arbitrary: rs rule: read_rates.induct) auto

lemma bundled_table_ok: "table_ok bundled_table"
  by (simp add: table_ok_def bundled_table_def bundled_models_def bundled_prefixes_def
      rate_ok_def mk_rate_def)

subsection \<open>The prefix match\<close>

lemma longest_prefix_None:
  "longest_prefix m ps = None \<longleftrightarrow> (\<forall>(k, r) \<in> set ps. k = [] \<or> \<not> starts_with m k)"
proof -
  let ?h = "filter (\<lambda>(key, r). key \<noteq> [] \<and> starts_with m key) ps"
  have "longest_prefix m ps = None \<longleftrightarrow> sort_key (\<lambda>h. - int (length (fst h))) ?h = []"
    by (simp add: longest_prefix_def split: list.splits)
  also have "\<dots> \<longleftrightarrow> ?h = []"
    by (simp only: set_empty [symmetric] set_sort)
  finally show ?thesis by (auto simp: filter_empty_conv)
qed

lemma longest_prefix_Some:
  assumes "longest_prefix m ps = Some (k, r)"
  shows "(k, r) \<in> set ps" "k \<noteq> []" "starts_with m k"
    "\<And>k' r'. (k', r') \<in> set ps \<Longrightarrow> starts_with m k' \<Longrightarrow> length k' \<le> length k"
proof -
  let ?h = "filter (\<lambda>(key, r). key \<noteq> [] \<and> starts_with m key) ps"
  let ?s = "sort_key (\<lambda>h. - int (length (fst h))) ?h"
  from assms obtain rest where s: "?s = (k, r) # rest"
    by (auto simp: longest_prefix_def Let_def split: list.splits)
  have "(k, r) \<in> set ?s" by (simp add: s)
  then have mem: "(k, r) \<in> set ?h" by (simp only: set_sort)
  then show "(k, r) \<in> set ps" "k \<noteq> []" "starts_with m k" by auto
  fix k' r' assume k': "(k', r') \<in> set ps" "starts_with m k'"
  show "length k' \<le> length k"
  proof (cases "k' = []")
    case False
    with k' have "(k', r') \<in> set ?s" by (auto simp only: set_sort set_filter)
    moreover have "sorted (List.map (\<lambda>h. - int (length (fst h))) ?s)" by (rule sorted_sort_key)
    ultimately show ?thesis by (auto simp: s)
  qed simp
qed

subsection \<open>Costs\<close>

lemma quote_prefix_rate_ok:
  "table_ok t \<Longrightarrow> q_rate (quote_prefix t ref) = Some r \<Longrightarrow> rate_ok r"
  by (auto simp: quote_prefix_def priced_quote_def unpriced_quote_def table_ok_def list_all_iff
      dest!: longest_prefix_Some(1) split: option.splits)

lemma models_rate_ok: "table_ok t \<Longrightarrow> dget (pt_models t) k = Some r \<Longrightarrow> rate_ok r"
  by (auto simp: table_ok_def list_all_iff dest!: map_of_SomeD)

lemma quote_rate_ok: "table_ok t \<Longrightarrow> q_rate (quote_model t m) = Some r \<Longrightarrow> rate_ok r"
  unfolding quote_model_def Let_def
  by (auto simp: priced_quote_def unpriced_quote_def
      dest: models_rate_ok quote_prefix_rate_ok split: if_splits option.splits)

lemma priced_iff_rate: "q_priced (quote_model t m) \<longleftrightarrow> q_rate (quote_model t m) \<noteq> None"
  by (auto simp: quote_model_def quote_prefix_def priced_quote_def unpriced_quote_def Let_def
      split: option.splits)

lemma table_cost_None [simp]: "table_cost t m p c = None \<longleftrightarrow> \<not> q_priced (quote_model t m)"
  using priced_iff_rate [of t m] by (auto simp: table_cost_def quote_cost_def Let_def)

lemma per_million: "(a / 1000000 * i + b / 1000000 * k) * 1000000 = a * i + b * (k :: rat)"
  by (simp add: field_simps)

lemma table_cost_Some:
  "table_cost t m p c = Some x \<longleftrightarrow>
     (\<exists>r. q_rate (quote_model t m) = Some r \<and>
       x = round_half_even (of_int (max 0 p) * in_rate r + of_int (max 0 c) * out_rate r))"
  using priced_iff_rate [of t m]
  by (auto simp: table_cost_def quote_cost_def Let_def per_million split: option.splits)

lemma table_cost_nonneg: "table_ok t \<Longrightarrow> table_cost t m p c = Some x \<Longrightarrow> 0 \<le> x"
  by (auto simp: table_cost_Some rate_ok_def dest!: quote_rate_ok intro!: round_half_even_nonneg)

lemma table_cost_mono:
  assumes "table_ok t" "p \<le> p'" "c \<le> c'"
    and "table_cost t m p c = Some x" "table_cost t m p' c' = Some y"
  shows "x \<le> y"
proof -
  from assms obtain r where r: "q_rate (quote_model t m) = Some r"
    and x: "x = round_half_even (of_int (max 0 p) * in_rate r + of_int (max 0 c) * out_rate r)"
    and y: "y = round_half_even (of_int (max 0 p') * in_rate r + of_int (max 0 c') * out_rate r)"
    by (auto simp: table_cost_Some)
  have "rate_ok r" using assms(1) r by (rule quote_rate_ok)
  then have "of_int (max 0 p) * in_rate r + of_int (max 0 c) * out_rate r
      \<le> of_int (max 0 p') * in_rate r + of_int (max 0 c') * out_rate r"
    using assms(2,3) by (intro add_mono mult_right_mono) (auto simp: rate_ok_def)
  then show ?thesis unfolding x y by (rule round_half_even_mono)
qed

lemma table_cost_zero: "table_cost t m 0 0 = Some x \<Longrightarrow> x = 0"
  using round_half_even_int [of 0] by (auto simp: table_cost_Some)

lemma validate_rates_ok:
  "validate_models pf data = Inr rs \<Longrightarrow> list_all (rate_ok \<circ> snd) rs"
  "validate_prefixes pf data = Inr rs \<Longrightarrow> list_all (rate_ok \<circ> snd) rs"
  by (auto simp: validate_models_def validate_prefixes_def dest: read_rates_ok
      split: pyval.splits if_splits)

lemma validate_table_ok: "validate_table lib pf fr now data = Inr t \<Longrightarrow> table_ok t"
  unfolding validate_table_def Let_def
  by (auto simp: table_ok_def dest: validate_rates_ok split: if_splits)

section \<open>Properties\<close>

text \<open>
  A model is priced by its exact entry, else by the entry of the name after the
  provider, else by the longest prefix of the table that starts its reference; when none
  of them exists the quote is unpriced and has no cost at all, never a cost of zero.
\<close>

theorem quote_model_resolution:
  fixes model :: string
  defines "ref \<equiv> strip model"
  defines "bare \<equiv> (if CHR '':'' \<in> set ref then strip (after_char CHR '':'' ref) else [])"
  shows "case q_rate (quote_model t model) of
      Some r \<Rightarrow> ref \<noteq> [] \<and>
        (dget (pt_models t) ref = Some r \<or>
         dget (pt_models t) ref = None \<and> bare \<noteq> [] \<and> dget (pt_models t) bare = Some r \<or>
         dget (pt_models t) ref = None \<and> (bare = [] \<or> dget (pt_models t) bare = None) \<and>
         (\<exists>k. (k, r) \<in> set (pt_prefixes t) \<and> k \<noteq> [] \<and> starts_with ref k \<and>
            (\<forall>(k', r') \<in> set (pt_prefixes t). starts_with ref k' \<longrightarrow> length k' \<le> length k)))
    | None \<Rightarrow>
        (ref = [] \<or>
         dget (pt_models t) ref = None \<and> (bare = [] \<or> dget (pt_models t) bare = None) \<and>
         (\<forall>(k, r) \<in> set (pt_prefixes t). k = [] \<or> \<not> starts_with ref k)) \<and>
        (\<forall>p c. table_cost t model p c = None)"
proof -
  have prefix: "case q_rate (quote_prefix t ref) of
      Some r \<Rightarrow> \<exists>k. (k, r) \<in> set (pt_prefixes t) \<and> k \<noteq> [] \<and> starts_with ref k \<and>
            (\<forall>(k', r') \<in> set (pt_prefixes t). starts_with ref k' \<longrightarrow> length k' \<le> length k)
    | None \<Rightarrow> \<forall>(k, r) \<in> set (pt_prefixes t). k = [] \<or> \<not> starts_with ref k"
  proof (cases "longest_prefix ref (pt_prefixes t)")
    case None
    then show ?thesis using longest_prefix_None [of ref "pt_prefixes t"]
      by (simp add: quote_prefix_def unpriced_quote_def)
  next
    case (Some h)
    obtain k r where h: "h = (k, r)" by (cases h)
    then show ?thesis using Some longest_prefix_Some [of ref "pt_prefixes t" k r]
      by (auto simp: quote_prefix_def priced_quote_def)
  qed
  have cost: "q_rate (quote_model t model) = None \<Longrightarrow> table_cost t model p c = None" for p c
    by (simp add: priced_iff_rate)
  have "q_rate (quote_model t model) =
      (if ref = [] then None
       else case dget (pt_models t) ref of Some r \<Rightarrow> Some r
       | None \<Rightarrow> if bare \<noteq> [] \<and> dget (pt_models t) bare \<noteq> None then dget (pt_models t) bare
                else q_rate (quote_prefix t ref))"
    unfolding quote_model_def ref_def [symmetric] Let_def
    by (auto simp: bare_def priced_quote_def unpriced_quote_def split: option.split)
  then show ?thesis using prefix cost
    by (cases "ref = []"; cases "dget (pt_models t) ref"; cases "bare = []";
        cases "dget (pt_models t) bare"; cases "q_rate (quote_prefix t ref)") simp_all
qed

theorem quote_model_resolution_witness:
  "q_rate (quote_model bundled_table ''local:phi'') = None \<and>
   table_cost bundled_table ''local:phi'' 5 7 = None"
proof -
  have none: "q_rate (quote_model bundled_table ''local:phi'') = None"
    by (simp add: quote_model_def bundled_table_def bundled_models_def bundled_prefixes_def strip_def
        lstrip_def rstrip_def is_space_def after_char_def quote_prefix_def longest_prefix_def
        unpriced_quote_def Let_def)
  with quote_model_resolution [of "''local:phi''" bundled_table] show ?thesis by simp
qed

text \<open>
  Every rate of a table that passes validation is non-negative, so in a validated table
  the cost of a call is non-negative and never falls when tokens are added.
\<close>

theorem validated_costs_monotone:
  assumes "validate_table lib pf fr now data = Inr t"
    and "p \<le> p'" "c \<le> c'" "table_cost t model p c = Some x" "table_cost t model p' c' = Some y"
  shows "0 \<le> x \<and> x \<le> y"
  using validate_table_ok [OF assms(1)] assms(2-5) table_cost_nonneg table_cost_mono by blast

definition demo_clock :: clock_lib where
  "demo_clock = \<lparr>iso_instant = (\<lambda>s. Some 0), ymd_instant = (\<lambda>s. None)\<rparr>"

definition demo_price_file :: pydict where
  "demo_price_file =
    [(''version'', PInt 1), (''updated_at'', PStr ''2026-01-01''),
     (''models'', PDict [(''m'', PDict [(''input'', PInt 3), (''output'', PFloat (1 / 2))])])]"

definition demo_table :: price_table where
  "demo_table =
     \<lparr>pt_version = 1, pt_updated_at = ''2026-01-01'', pt_currency = ''USD'',
      pt_unit = ''per_million_tokens'', pt_invoice_authoritative = True, pt_warn_after_days = 90,
      pt_models = [(''m'', mk_rate 3 (1 / 2))], pt_prefixes = [], pt_stale = False\<rparr>"

lemma demo_validates:
  "validate_table demo_clock (\<lambda>_. None) (\<lambda>_. []) 0 demo_price_file = Inr demo_table"
  by (simp add: validate_table_def validate_models_def validate_prefixes_def validate_warn_days_def
      validate_updated_at_def demo_price_file_def demo_table_def demo_clock_def
      parse_updated_at_def is_stale_def read_rate_def SUPPORTED_VERSION_def MAX_MODEL_KEYS_def
      or_val_def strip_def lstrip_def rstrip_def is_space_def ends_with_def Let_def)

theorem validated_costs_monotone_witness:
  "(0::int) \<le> 30 \<and> (30::int) \<le> 62"
  by (rule validated_costs_monotone [OF demo_validates, of 10 20 0 4 "''m''"])
    (simp_all add: table_cost_def quote_cost_def quote_model_def demo_table_def priced_quote_def
      mk_rate_def round_half_even_def strip_def lstrip_def rstrip_def is_space_def Let_def)

end
