(* ===== verification/Meter.thy ===== *)
theory Meter
  imports Prices
begin

text \<open>
  The run-scoped spend meter of \<open>cost/meter.py\<close>: the cross-run \<open>SharedBudget\<close>, the
  \<open>SpendMeter\<close> with its caps, its reservations and its usage counters, and the snapshot a
  run record keeps. Every method of the code takes the meter's lock for its whole
  critical section, so each is one state transformer here; an operation that raises
  returns the error beside the state it leaves. The shared budget is an object several
  meters alias, so it is threaded beside the meter. The clocks, the price table that
  \<open>load_price_table()\<close> returns and \<open>datetime.fromisoformat\<close> are in \<open>meter_env\<close>.
\<close>

section \<open>Data\<close>

datatype meter_error =
    BudgetExceeded string int int string
  | RunawayGuard string int int

record shared_budget =
  sb_max :: int
  sb_cost :: int
  sb_reserved :: int

record model_usage =
  mu_prompt :: int
  mu_completion :: int
  mu_total :: int
  mu_cost :: int

record spend_meter =
  max_spend_micros :: "int option"
  max_tokens :: "int option"
  max_model_calls :: "int option"
  max_tool_rounds :: "int option"
  max_wall_seconds :: "rat option"
  m_table :: "price_table option"
  m_started_at :: "string option"
  m_started_mono :: rat
  m_prompt :: int
  m_completion :: int
  m_total :: int
  m_cost :: int
  m_unpriced :: bool
  m_unpriced_models :: "string list"
  m_model_calls :: int
  m_tool_rounds :: int
  m_cache_hits :: int
  m_cache_misses :: int
  m_cache_savings :: int
  m_by_model :: "(string \<times> model_usage) list"
  m_reserved_tokens :: int
  m_reserved_cost :: int

record meter_env =
  load_table :: price_table
  utc_now :: rat
  mono_now :: rat
  from_iso :: "string \<Rightarrow> rat option"

section \<open>The shared budget\<close>

definition new_shared :: "int \<Rightarrow> shared_budget" where
  "new_shared cap = \<lparr>sb_max = max 0 cap, sb_cost = 0, sb_reserved = 0\<rparr>"

definition remaining_micros :: "shared_budget \<Rightarrow> int" where
  "remaining_micros b = max 0 (sb_max b - sb_cost b - sb_reserved b)"

definition shared_reserve :: "int option \<Rightarrow> shared_budget \<Rightarrow> shared_budget \<times> meter_error option" where
  "shared_reserve est b =
     (case est of
        None \<Rightarrow> (b, Some (BudgetExceeded ''cost_micros'' (sb_cost b) (sb_max b) ''unpriced''))
      | Some e \<Rightarrow>
          (let cost = max 0 e; in_flight = sb_cost b + sb_reserved b; projected = in_flight + cost
           in if sb_max b \<le> in_flight \<or> sb_max b < projected
              then (b, Some (BudgetExceeded ''cost_micros'' projected (sb_max b) ''before_call''))
              else (b\<lparr>sb_reserved := sb_reserved b + cost\<rparr>, None)))"

definition shared_release :: "int \<Rightarrow> shared_budget \<Rightarrow> shared_budget" where
  "shared_release reserved b = b\<lparr>sb_reserved := max 0 (sb_reserved b - max 0 reserved)\<rparr>"

definition shared_commit :: "int \<Rightarrow> int \<Rightarrow> shared_budget \<Rightarrow> shared_budget" where
  "shared_commit actual reserved b =
     b\<lparr>sb_reserved := max 0 (sb_reserved b - max 0 reserved), sb_cost := sb_cost b + max 0 actual\<rparr>"

section \<open>The meter\<close>

definition new_meter :: "meter_env \<Rightarrow> int option \<Rightarrow> int option \<Rightarrow> int option \<Rightarrow> int option \<Rightarrow>
    rat option \<Rightarrow> price_table option \<Rightarrow> string option \<Rightarrow> spend_meter" where
  "new_meter e spend tokens calls rounds wall table started =
     \<lparr>max_spend_micros = spend, max_tokens = tokens, max_model_calls = calls,
      max_tool_rounds = rounds, max_wall_seconds = wall, m_table = table,
      m_started_at = started, m_started_mono = mono_now e,
      m_prompt = 0, m_completion = 0, m_total = 0, m_cost = 0,
      m_unpriced = False, m_unpriced_models = [], m_model_calls = 0, m_tool_rounds = 0,
      m_cache_hits = 0, m_cache_misses = 0, m_cache_savings = 0, m_by_model = [],
      m_reserved_tokens = 0, m_reserved_cost = 0\<rparr>"

definition has_spend_cap :: "spend_meter \<Rightarrow> bool" where
  "has_spend_cap m = (max_spend_micros m \<noteq> None \<or> max_tokens m \<noteq> None)"

definition has_runaway_cap :: "spend_meter \<Rightarrow> bool" where
  "has_runaway_cap m =
     (max_model_calls m \<noteq> None \<or> max_tool_rounds m \<noteq> None \<or> max_wall_seconds m \<noteq> None)"

definition meter_table :: "meter_env \<Rightarrow> spend_meter \<Rightarrow> price_table" where
  "meter_table e m = (case m_table m of None \<Rightarrow> load_table e | Some t \<Rightarrow> t)"

definition zulu_to_offset :: "string \<Rightarrow> string" where
  "zulu_to_offset s = concat (List.map (\<lambda>c. if c = CHR ''Z'' then ''+00:00'' else [c]) s)"

definition elapsed_seconds :: "meter_env \<Rightarrow> spend_meter \<Rightarrow> rat" where
  "elapsed_seconds e m =
     (let mono = max 0 (mono_now e - m_started_mono m)
      in if truthy (m_started_at m) then
           (case from_iso e (zulu_to_offset (the (m_started_at m))) of
              Some began \<Rightarrow> max 0 (utc_now e - began)
            | None \<Rightarrow> mono)
         else mono)"

definition check_wall :: "meter_env \<Rightarrow> spend_meter \<Rightarrow> meter_error option" where
  "check_wall e m =
     (case max_wall_seconds m of
        None \<Rightarrow> None
      | Some w \<Rightarrow>
          (let elapsed = elapsed_seconds e m
           in if w \<le> elapsed then Some (RunawayGuard ''wall_seconds'' (trunc elapsed) (trunc w))
              else None))"

subsection \<open>Before a model call\<close>

text \<open>The token cap (lines 138-148): check, then reserve.\<close>

definition reserve_tokens :: "int \<Rightarrow> spend_meter \<Rightarrow> spend_meter \<times> meter_error option" where
  "reserve_tokens est m =
     (case max_tokens m of
        None \<Rightarrow> (m, None)
      | Some cap \<Rightarrow>
          (let in_flight = m_total m + m_reserved_tokens m; projected = in_flight + est
           in if cap \<le> in_flight \<or> cap < projected
              then (m, Some (BudgetExceeded ''tokens'' projected cap ''before_call''))
              else (m\<lparr>m_reserved_tokens := m_reserved_tokens m + est\<rparr>, None)))"

definition note_unpriced :: "string \<Rightarrow> spend_meter \<Rightarrow> spend_meter" where
  "note_unpriced model m =
     m\<lparr>m_unpriced := True, m_unpriced_models := add_new model (m_unpriced_models m)\<rparr>"

text \<open>The spend cap (lines 149-172): an unpriced model fails closed.\<close>

definition reserve_cost :: "price_quote \<Rightarrow> string \<Rightarrow> int option \<Rightarrow> spend_meter \<Rightarrow>
    spend_meter \<times> meter_error option" where
  "reserve_cost q model est m =
     (case max_spend_micros m of
        None \<Rightarrow> (m, None)
      | Some cap \<Rightarrow>
          (case (q_priced q, est) of
             (True, Some cost) \<Rightarrow>
               (let in_flight = m_cost m + m_reserved_cost m; projected = in_flight + cost
                in if cap \<le> in_flight \<or> cap < projected
                   then (m, Some (BudgetExceeded ''cost_micros'' projected cap ''before_call''))
                   else (m\<lparr>m_reserved_cost := m_reserved_cost m + cost\<rparr>, None))
           | _ \<Rightarrow> (note_unpriced model m,
                   Some (BudgetExceeded ''cost_micros'' (m_cost m) cap ''unpriced''))))"

text \<open>The rollback of lines 178-184, when the shared budget refuses the call.\<close>

definition rollback_reservation :: "int \<Rightarrow> int option \<Rightarrow> spend_meter \<Rightarrow> spend_meter" where
  "rollback_reservation tokens cost m =
     (let m1 = (if max_tokens m \<noteq> None
                then m\<lparr>m_reserved_tokens := max 0 (m_reserved_tokens m - tokens)\<rparr> else m);
          m2 = (case cost of
                  Some x \<Rightarrow> if max_spend_micros m \<noteq> None \<and> x \<noteq> 0
                    then m1\<lparr>m_reserved_cost := max 0 (m_reserved_cost m1 - x)\<rparr> else m1
                | None \<Rightarrow> m1)
      in m2\<lparr>m_model_calls := max 0 (m_model_calls m2 - 1)\<rparr>)"

definition check_calls :: "spend_meter \<Rightarrow> meter_error option" where
  "check_calls m =
     (case max_model_calls m of
        None \<Rightarrow> None
      | Some n \<Rightarrow>
          if n \<le> m_model_calls m then Some (RunawayGuard ''model_calls'' (m_model_calls m) n) else None)"

text \<open>The call is counted, then the shared budget asked (lines 173-184).\<close>

definition reserve_shared :: "price_quote \<Rightarrow> int \<Rightarrow> int option \<Rightarrow> spend_meter \<Rightarrow>
    shared_budget option \<Rightarrow> (spend_meter \<times> shared_budget option) \<times> meter_error option" where
  "reserve_shared q est_tokens est_cost m sb =
     (let m' = m\<lparr>m_model_calls := m_model_calls m + 1\<rparr>
      in case sb of
        None \<Rightarrow> ((m', None), None)
      | Some b \<Rightarrow>
          (case shared_reserve (if q_priced q then est_cost else None) b of
             (b', None) \<Rightarrow> ((m', Some b'), None)
           | (b', Some err) \<Rightarrow> ((rollback_reservation est_tokens est_cost m', Some b'), Some err)))"

definition consult_before_call :: "meter_env \<Rightarrow> string \<Rightarrow> int \<Rightarrow> int \<Rightarrow>
    spend_meter \<times> shared_budget option \<Rightarrow>
    (spend_meter \<times> shared_budget option) \<times> meter_error option" where
  "consult_before_call e model prompt_tokens completion_tokens st =
     (let (m, sb) = st;
          q = quote_model (meter_table e m) model;
          prompt = max 0 prompt_tokens; completion = max 0 completion_tokens;
          est_tokens = prompt + completion;
          est_cost = quote_cost q prompt completion
      in case (case check_wall e m of None \<Rightarrow> check_calls m | Some err \<Rightarrow> Some err) of
        Some err \<Rightarrow> (st, Some err)
      | None \<Rightarrow>
          (case reserve_tokens est_tokens m of
             (m1, Some err) \<Rightarrow> ((m1, sb), Some err)
           | (m1, None) \<Rightarrow>
               (case reserve_cost q model est_cost m1 of
                  (m2, Some err) \<Rightarrow> ((m2, sb), Some err)
                | (m2, None) \<Rightarrow> reserve_shared q est_tokens est_cost m2 sb)))"

subsection \<open>After a model call\<close>

text \<open>\<open>release_reservation\<close> prices the empty model name, as the code does (line 195).\<close>

definition drop_reserved_cost :: "int option \<Rightarrow> spend_meter \<Rightarrow> spend_meter" where
  "drop_reserved_cost cost m =
     (let m1 = (case cost of
                  Some x \<Rightarrow> if x \<noteq> 0 then m\<lparr>m_reserved_cost := max 0 (m_reserved_cost m - x)\<rparr> else m
                | None \<Rightarrow> m)
      in if m_reserved_tokens m1 = 0 then m1\<lparr>m_reserved_cost := 0\<rparr> else m1)"

definition or_zero :: "int option \<Rightarrow> int" where
  "or_zero x = (case x of None \<Rightarrow> 0 | Some n \<Rightarrow> n)"

definition release_reservation :: "meter_env \<Rightarrow> int \<Rightarrow> int \<Rightarrow>
    spend_meter \<times> shared_budget option \<Rightarrow> spend_meter \<times> shared_budget option" where
  "release_reservation e prompt_tokens completion_tokens st =
     (let (m, sb) = st;
          tokens = max 0 prompt_tokens + max 0 completion_tokens;
          m1 = m\<lparr>m_reserved_tokens := max 0 (m_reserved_tokens m - tokens)\<rparr>;
          priced = quote_cost (quote_model (meter_table e m) [])
                     (max 0 prompt_tokens) (max 0 completion_tokens);
          reserved_cost = or_zero priced
      in (drop_reserved_cost priced m1,
          (case sb of
             Some b \<Rightarrow> if reserved_cost \<noteq> 0 then Some (shared_release reserved_cost b) else Some b
           | None \<Rightarrow> None)))"

definition zero_usage :: model_usage where
  "zero_usage = \<lparr>mu_prompt = 0, mu_completion = 0, mu_total = 0, mu_cost = 0\<rparr>"

definition add_usage :: "int \<Rightarrow> int \<Rightarrow> int \<Rightarrow> int \<Rightarrow> model_usage \<Rightarrow> model_usage" where
  "add_usage p c t x u =
     \<lparr>mu_prompt = mu_prompt u + p, mu_completion = mu_completion u + c,
      mu_total = mu_total u + t, mu_cost = mu_cost u + x\<rparr>"

definition usage_total :: "pydict \<Rightarrow> int" where
  "usage_total usage =
     (let t = as_int (vget usage ''total_tokens'')
      in if t \<noteq> 0 then t
         else as_int (vget usage ''prompt_tokens'') + as_int (vget usage ''completion_tokens''))"

text \<open>The state of the meter and of the shared budget after \<open>record_usage\<close>, and the extras it returns.\<close>

definition record_usage :: "meter_env \<Rightarrow> string \<Rightarrow> pydict \<Rightarrow> int \<Rightarrow> int \<Rightarrow>
    spend_meter \<times> shared_budget option \<Rightarrow>
    (spend_meter \<times> shared_budget option) \<times> (string \<times> int) list" where
  "record_usage e model usage reserved_prompt reserved_completion st =
     (let (m, sb) = st;
          q = quote_model (meter_table e m) model;
          prompt = as_int (vget usage ''prompt_tokens'');
          completion = as_int (vget usage ''completion_tokens'');
          total = usage_total usage;
          priced = quote_cost q prompt completion;
          reserved = max 0 reserved_prompt + max 0 reserved_completion;
          reserved_cost = quote_cost q reserved_prompt reserved_completion;
          m1 = m\<lparr>m_prompt := m_prompt m + prompt, m_completion := m_completion m + completion,
                 m_total := m_total m + total,
                 m_reserved_tokens := max 0 (m_reserved_tokens m - reserved)\<rparr>;
          m2 = drop_reserved_cost reserved_cost m1;
          (m3, extras) = (case (q_priced q, priced) of
             (True, Some x) \<Rightarrow> (m2\<lparr>m_cost := m_cost m2 + x\<rparr>, [(''priced_cost_micros'', x)])
           | _ \<Rightarrow> (note_unpriced model m2, []));
          sb' = map_option (shared_commit (or_zero priced) (or_zero reserved_cost)) sb;
          key = (if model = [] then ''unknown'' else model);
          bucket = dget_or (m_by_model m3) key zero_usage
      in ((m3\<lparr>m_by_model :=
               dset key (add_usage prompt completion total (or_zero priced) bucket) (m_by_model m3)\<rparr>,
           sb'), extras))"

definition record_cache_hit :: "meter_env \<Rightarrow> string \<Rightarrow> pydict \<Rightarrow> spend_meter \<Rightarrow> spend_meter \<times> int" where
  "record_cache_hit e model usage m =
     (let priced = or_zero (quote_cost (quote_model (meter_table e m) model)
                     (as_int (vget usage ''prompt_tokens'')) (as_int (vget usage ''completion_tokens'')))
      in (m\<lparr>m_cache_hits := m_cache_hits m + 1, m_cache_savings := m_cache_savings m + priced\<rparr>, priced))"

definition record_cache_miss :: "spend_meter \<Rightarrow> spend_meter" where
  "record_cache_miss m = m\<lparr>m_cache_misses := m_cache_misses m + 1\<rparr>"

definition check_rounds :: "spend_meter \<Rightarrow> meter_error option" where
  "check_rounds m =
     (case max_tool_rounds m of
        None \<Rightarrow> None
      | Some n \<Rightarrow> if n \<le> m_tool_rounds m then Some (RunawayGuard ''tool_rounds'' (m_tool_rounds m) n)
                  else None)"

definition record_tool_round :: "spend_meter \<Rightarrow> meter_error + spend_meter" where
  "record_tool_round m =
     (case check_rounds m of
        Some err \<Rightarrow> Inl err
      | None \<Rightarrow> Inr (m\<lparr>m_tool_rounds := m_tool_rounds m + 1\<rparr>))"

definition consult_tool_round :: "meter_env \<Rightarrow> spend_meter \<Rightarrow> meter_error option" where
  "consult_tool_round e m = (case check_wall e m of Some err \<Rightarrow> Some err | None \<Rightarrow> check_rounds m)"

definition cache_usage_delta :: "spend_meter \<Rightarrow> (string \<times> int) list" where
  "cache_usage_delta m =
     filter (\<lambda>(k, n). n \<noteq> 0)
       [(''cache_hits'', m_cache_hits m), (''cache_misses'', m_cache_misses m),
        (''cache_savings_micros'', m_cache_savings m)]"

subsection \<open>Snapshots\<close>

definition usage_row :: "model_usage \<Rightarrow> pyval" where
  "usage_row u = PDict [(''prompt_tokens'', PInt (mu_prompt u)),
     (''completion_tokens'', PInt (mu_completion u)), (''total_tokens'', PInt (mu_total u)),
     (''cost_micros'', PInt (mu_cost u))]"

definition snapshot :: "spend_meter \<Rightarrow> pydict" where
  "snapshot m =
    [(''prompt_tokens'', PInt (m_prompt m)), (''completion_tokens'', PInt (m_completion m)),
     (''total_tokens'', PInt (m_total m)), (''cost_micros'', PInt (m_cost m)),
     (''unpriced'', PBool (m_unpriced m)),
     (''unpriced_models'', PList (List.map PStr (m_unpriced_models m))),
     (''model_calls'', PInt (m_model_calls m)), (''tool_rounds'', PInt (m_tool_rounds m)),
     (''cache_hits'', PInt (m_cache_hits m)), (''cache_misses'', PInt (m_cache_misses m)),
     (''cache_savings_micros'', PInt (m_cache_savings m)),
     (''by_model'', PDict (List.map (\<lambda>(k, u). (k, usage_row u)) (m_by_model m))),
     (''max_spend_micros'', of_opt_int (max_spend_micros m)),
     (''max_tokens'', of_opt_int (max_tokens m)),
     (''max_model_calls'', of_opt_int (max_model_calls m)),
     (''max_tool_rounds'', of_opt_int (max_tool_rounds m)),
     (''max_wall_seconds'', of_opt_float (max_wall_seconds m)),
     (''started_at'', of_opt_str (m_started_at m))]"

definition read_usage_row :: "pydict \<Rightarrow> model_usage" where
  "read_usage_row v =
     \<lparr>mu_prompt = as_int (vget v ''prompt_tokens''), mu_completion = as_int (vget v ''completion_tokens''),
      mu_total = as_int (vget v ''total_tokens''), mu_cost = as_int (vget v ''cost_micros'')\<rparr>"

fun read_by_model :: "pydict \<Rightarrow> (string \<times> model_usage) list" where
  "read_by_model [] = []"
| "read_by_model ((k, v) # d) =
     (case v of PDict u \<Rightarrow> (k, read_usage_row u) # read_by_model d | _ \<Rightarrow> read_by_model d)"

text \<open>\<open>from_snapshot\<close>; \<open>None\<close> is the \<open>TypeError\<close> of a list of unpriced models that is no iterable.\<close>

definition from_snapshot :: "meter_env \<Rightarrow> (string \<Rightarrow> rat option) \<Rightarrow> (rat \<Rightarrow> string) \<Rightarrow>
    price_table option \<Rightarrow> pydict \<Rightarrow> spend_meter option" where
  "from_snapshot e pf fr table row =
     (let started = vget row ''started_at'';
          m = new_meter e (opt_int (vget row ''max_spend_micros'')) (opt_int (vget row ''max_tokens''))
                (opt_int (vget row ''max_model_calls'')) (opt_int (vget row ''max_tool_rounds''))
                (opt_float pf (vget row ''max_wall_seconds'')) table
                (if py_truth started then Some (py_str fr started) else None);
          models = vget row ''unpriced_models'';
          by_model = vget row ''by_model''
      in case py_list (if py_truth models then models else PList []) of
        None \<Rightarrow> None
      | Some ms \<Rightarrow> Some
          (m\<lparr>m_prompt := as_int (vget row ''prompt_tokens''),
             m_completion := as_int (vget row ''completion_tokens''),
             m_total := as_int (vget row ''total_tokens''), m_cost := as_int (vget row ''cost_micros''),
             m_unpriced := py_truth (vget row ''unpriced''),
             m_unpriced_models := List.map (py_str fr) ms,
             m_model_calls := as_int (vget row ''model_calls''),
             m_tool_rounds := as_int (vget row ''tool_rounds''),
             m_cache_hits := as_int (vget row ''cache_hits''),
             m_cache_misses := as_int (vget row ''cache_misses''),
             m_cache_savings := as_int (vget row ''cache_savings_micros''),
             m_by_model := (case (if py_truth by_model then by_model else PDict []) of
                PDict d \<Rightarrow> read_by_model d | _ \<Rightarrow> [])\<rparr>))"

lemma read_by_model_rows [simp]:
  "read_by_model (List.map (\<lambda>(k, u). (k, usage_row u)) d) = d"
  by (induction d) (auto simp: usage_row_def read_usage_row_def)

end
