(* ===== verification/MeterSafety.thy ===== *)
theory MeterSafety
  imports Meter
begin

text \<open>
  What the spend meter promises. A client of the meter relies on prices only through the
  laws of the locale \<open>pricing\<close> (costs are never negative, never fall when tokens are added,
  a call without tokens is free, a model is priced for every call or for none); validated
  tables provide them, the bundled one among them. \<open>meter_run\<close> interleaves the operations
  of parallel branches on one meter, with the calls in flight as a ghost list.
\<close>

section \<open>The pricing interface\<close>

type_synonym call = "string \<times> int \<times> int"

fun call_tokens :: "call \<Rightarrow> int" where
  "call_tokens (m, p, c) = max 0 p + max 0 c"

fun call_cost :: "(string \<Rightarrow> int \<Rightarrow> int \<Rightarrow> int option) \<Rightarrow> call \<Rightarrow> int" where
  "call_cost cost (m, p, c) = or_zero (cost m p c)"

definition inflight_tokens :: "call list \<Rightarrow> int" where
  "inflight_tokens fl = sum_list (List.map call_tokens fl)"

definition inflight_cost :: "(string \<Rightarrow> int \<Rightarrow> int \<Rightarrow> int option) \<Rightarrow> call list \<Rightarrow> int" where
  "inflight_cost cost fl = sum_list (List.map (call_cost cost) fl)"

lemma or_zero_simps [simp]: "or_zero None = 0" "or_zero (Some x) = x"
  by (simp_all add: or_zero_def)

lemma call_tokens_nonneg [simp]: "0 \<le> call_tokens k"
  by (cases k) auto

lemma inflight_tokens_simps [simp]:
  "inflight_tokens [] = 0"
  "inflight_tokens (k # fl) = call_tokens k + inflight_tokens fl"
  by (simp_all add: inflight_tokens_def)

lemma inflight_tokens_nonneg [simp]: "0 \<le> inflight_tokens fl"
  by (induction fl) auto

lemma inflight_tokens_remove:
  "k \<in> set fl \<Longrightarrow> inflight_tokens (remove1 k fl) = inflight_tokens fl - call_tokens k"
  by (simp add: inflight_tokens_def sum_list_map_remove1)

lemma inflight_cost_simps [simp]:
  "inflight_cost cost [] = 0"
  "inflight_cost cost (k # fl) = call_cost cost k + inflight_cost cost fl"
  by (simp_all add: inflight_cost_def)

lemma inflight_cost_remove:
  "k \<in> set fl \<Longrightarrow> inflight_cost cost (remove1 k fl) = inflight_cost cost fl - call_cost cost k"
  by (simp add: inflight_cost_def sum_list_map_remove1)

locale pricing =
  fixes cost :: "string \<Rightarrow> int \<Rightarrow> int \<Rightarrow> int option"
  assumes nonneg: "cost m p c = Some x \<Longrightarrow> 0 \<le> x"
    and mono: "p \<le> p' \<Longrightarrow> c \<le> c' \<Longrightarrow> cost m p c = Some x \<Longrightarrow> cost m p' c' = Some y \<Longrightarrow> x \<le> y"
    and zero: "cost m 0 0 = Some x \<Longrightarrow> x = 0"
    and total: "cost m p c = None \<Longrightarrow> cost m p' c' = None"
begin

lemma free_without_tokens: "p \<le> 0 \<Longrightarrow> c \<le> 0 \<Longrightarrow> or_zero (cost m p c) = 0"
proof (cases "cost m p c")
  case (Some x)
  assume "p \<le> 0" "c \<le> 0"
  with Some obtain z where z: "cost m 0 0 = Some z"
    using total [of m 0 0 p c] by (cases "cost m 0 0") auto
  with Some have "x \<le> z" using mono [OF \<open>p \<le> 0\<close> \<open>c \<le> 0\<close>] by blast
  with zero [OF z] nonneg [OF Some] show ?thesis by (simp add: Some)
qed simp

lemma call_cost_nonneg: "0 \<le> call_cost cost k"
  using nonneg by (cases k) (auto simp: or_zero_def split: option.split)

lemma inflight_cost_nonneg: "0 \<le> inflight_cost cost fl"
  using call_cost_nonneg by (induction fl) (auto simp: add_nonneg_nonneg)

lemma call_cost_le_inflight: "k \<in> set fl \<Longrightarrow> call_cost cost k \<le> inflight_cost cost fl"
  using inflight_cost_nonneg [of "remove1 k fl"] by (simp add: inflight_cost_remove)

lemma idle_without_tokens: "inflight_tokens fl = 0 \<Longrightarrow> inflight_cost cost fl = 0"
proof (induction fl)
  case (Cons k fl)
  have "call_tokens k = 0" "inflight_tokens fl = 0"
    using Cons.prems call_tokens_nonneg [of k] inflight_tokens_nonneg [of fl]
    by (simp_all del: call_tokens_nonneg inflight_tokens_nonneg)
  moreover obtain m p c where "k = (m, p, c)" by (cases k)
  ultimately show ?case using Cons.IH free_without_tokens [of p c m] by auto
qed simp

lemma actual_within_reserved:
  "p' \<le> p \<Longrightarrow> c' \<le> c \<Longrightarrow> or_zero (cost m p' c') \<le> call_cost cost (m, p, c)"
  using mono [of p' p c' c m] total [of m p c p' c'] total [of m p' c' p c]
  by (cases "cost m p' c'"; cases "cost m p c") auto

end

lemma table_pricing: "table_ok t \<Longrightarrow> pricing (table_cost t)"
proof
  fix m p c x
  assume ok: "table_ok t"
  show "0 \<le> x" if "table_cost t m p c = Some x" using ok that by (rule table_cost_nonneg)
  show "x \<le> y" if "p \<le> p'" "c \<le> c'" "table_cost t m p c = Some x" "table_cost t m p' c' = Some y"
    for p' c' y using ok that by (rule table_cost_mono)
  show "x = 0" if "table_cost t m 0 0 = Some x" using that by (rule table_cost_zero)
  show "table_cost t m p' c' = None" if "table_cost t m p c = None" for p' c' using that by simp
qed

interpretation bundled: pricing "table_cost bundled_table"
  by (rule table_pricing [OF bundled_table_ok])

section \<open>Effects of the operations on the accounts\<close>

text \<open>The part of a meter the caps speak of.\<close>

definition caps :: "spend_meter \<Rightarrow> int option \<times> int option \<times> int option \<times> price_table option" where
  "caps m = (max_spend_micros m, max_tokens m, max_model_calls m, m_table m)"

definition accounts :: "spend_meter \<Rightarrow> int \<times> int \<times> int \<times> int \<times> int" where
  "accounts m = (m_total m, m_reserved_tokens m, m_cost m, m_reserved_cost m, m_model_calls m)"

lemma reserve_tokens_cases:
  assumes "reserve_tokens est m = (m', r)"
  shows "(\<exists>err. r = Some err \<and> m' = m) \<or>
     (r = None \<and> max_tokens m = None \<and> m' = m) \<or>
     (\<exists>cap. r = None \<and> max_tokens m = Some cap \<and> m_total m + m_reserved_tokens m + est \<le> cap \<and>
       m' = m\<lparr>m_reserved_tokens := m_reserved_tokens m + est\<rparr>)"
  using assms unfolding reserve_tokens_def Let_def by (simp split: option.splits if_splits; blast)

lemma reserve_cost_cases:
  assumes "reserve_cost q model est m = (m', r)"
  shows "(\<exists>err. r = Some err \<and> (m' = m \<or> m' = note_unpriced model m)) \<or>
     (r = None \<and> max_spend_micros m = None \<and> m' = m) \<or>
     (\<exists>cap x. r = None \<and> max_spend_micros m = Some cap \<and> q_priced q \<and> est = Some x \<and>
       m_cost m + m_reserved_cost m + x \<le> cap \<and>
       m' = m\<lparr>m_reserved_cost := m_reserved_cost m + x\<rparr>)"
  using assms unfolding reserve_cost_def Let_def
  by (simp split: option.splits if_splits bool.splits; blast)

lemma note_unpriced_frame [simp]:
  "accounts (note_unpriced model m) = accounts m"
  "caps (note_unpriced model m) = caps m"
  by (simp_all add: accounts_def caps_def note_unpriced_def)

section \<open>Interleaved runs of one meter\<close>

text \<open>
  \<open>solvent m tok\<close>: the accounts respect the caps of \<open>m\<close>, where \<open>tok\<close> and \<open>cst\<close> are the tokens
  and the cost of the calls in flight, which the reservations have to cover.
\<close>

definition solvent :: "spend_meter \<Rightarrow> int \<Rightarrow> int \<Rightarrow> bool" where
  "solvent m tok cst \<longleftrightarrow>
     0 \<le> m_reserved_tokens m \<and> 0 \<le> m_reserved_cost m \<and> 0 \<le> m_model_calls m \<and>
     (\<forall>n. max_model_calls m = Some n \<longrightarrow> m_model_calls m \<le> max 0 n) \<and>
     (\<forall>T. max_tokens m = Some T \<longrightarrow>
        tok \<le> m_reserved_tokens m \<and> m_total m + m_reserved_tokens m \<le> max 0 T) \<and>
     (\<forall>T B. max_tokens m = Some T \<longrightarrow> max_spend_micros m = Some B \<longrightarrow>
        cst \<le> m_reserved_cost m \<and> m_cost m + m_reserved_cost m \<le> max 0 B)"

lemma solvent_new: "solvent (new_meter e spend tokens calls rounds wall table started) 0 0"
  by (simp add: solvent_def new_meter_def)

lemma solvent_cong:
  "accounts m' = accounts m \<Longrightarrow> caps m' = caps m \<Longrightarrow> solvent m' tok cst = solvent m tok cst"
  by (simp add: solvent_def accounts_def caps_def)

lemma note_unpriced_solvent [simp]: "solvent (note_unpriced model m) tok cst = solvent m tok cst"
  by (rule solvent_cong) simp_all

lemma reserve_tokens_solvent:
  assumes "reserve_tokens est m = (m', r)" "solvent m tok cst" "0 \<le> est"
  shows "solvent m' tok cst \<and> caps m' = caps m \<and> m_model_calls m' = m_model_calls m
    \<and> (r = None \<longrightarrow> solvent m' (tok + est) cst)"
  using reserve_tokens_cases [OF assms(1)] assms(2,3)
  by (elim disjE exE conjE) (simp_all add: solvent_def caps_def)

lemma reserve_cost_solvent:
  assumes "reserve_cost q model est m = (m', r)" "solvent m tok cst" "0 \<le> or_zero est"
  shows "solvent m' tok cst \<and> caps m' = caps m \<and> m_model_calls m' = m_model_calls m
    \<and> (r = None \<longrightarrow> solvent m' tok (cst + or_zero est))"
  using reserve_cost_cases [OF assms(1)] assms(2,3)
  by (elim disjE exE conjE) (auto simp: solvent_def caps_def note_unpriced_def)

lemma rollback_undoes:
  assumes "solvent m' (tok + t) (cst + or_zero est)" "0 \<le> t" "0 \<le> or_zero est" "0 \<le> tok" "0 \<le> cst"
    and "m_model_calls m' = k" "0 \<le> k"
  shows "solvent (rollback_reservation t est (m'\<lparr>m_model_calls := k + 1\<rparr>)) tok cst"
  using assms
  by (cases "max_tokens m'"; cases "max_spend_micros m'"; cases est)
    (auto simp: solvent_def rollback_reservation_def Let_def)

lemma rollback_caps [simp]: "caps (rollback_reservation t est m) = caps m"
  by (auto simp: rollback_reservation_def caps_def Let_def split: option.split)

lemma quote_cost_clip [simp]: "quote_cost q (max 0 p) (max 0 c) = quote_cost q p c"
  by (simp only: quote_cost_def max.left_idem)

lemma shared_reserve_error_frame: "shared_reserve est b = (b', Some err) \<Longrightarrow> b' = b"
  by (auto simp: shared_reserve_def Let_def split: option.splits if_splits)

text \<open>A consult that is refused, or that is admitted, after each of its four stages.\<close>

lemma consult_cases:
  assumes "consult_before_call e model p c (m, sb) = ((m', sb'), r)"
    and "q = quote_model (meter_table e m) model" "est = quote_cost q p c" "t = max 0 p + max 0 c"
  shows "(\<exists>err. r = Some err \<and> m' = m) \<or>
    (\<exists>err. r = Some err \<and> reserve_tokens t m = (m', Some err)) \<or>
    (\<exists>err m1. r = Some err \<and> reserve_tokens t m = (m1, None) \<and> reserve_cost q model est m1 = (m', Some err)) \<or>
    (\<exists>err m1 m2. r = Some err \<and> reserve_tokens t m = (m1, None) \<and> reserve_cost q model est m1 = (m2, None) \<and>
       m' = rollback_reservation t est (m2\<lparr>m_model_calls := m_model_calls m2 + 1\<rparr>)) \<or>
    (\<exists>m1 m2. r = None \<and> check_calls m = None \<and> reserve_tokens t m = (m1, None) \<and>
       reserve_cost q model est m1 = (m2, None) \<and> m' = m2\<lparr>m_model_calls := m_model_calls m2 + 1\<rparr>)"
proof -
  have c: "consult_before_call e model p c (m, sb) =
     (case (case check_wall e m of None \<Rightarrow> check_calls m | Some err \<Rightarrow> Some err) of
        Some err \<Rightarrow> ((m, sb), Some err)
      | None \<Rightarrow>
          (case reserve_tokens t m of
             (m1, Some err) \<Rightarrow> ((m1, sb), Some err)
           | (m1, None) \<Rightarrow>
               (case reserve_cost q model est m1 of
                  (m2, Some err) \<Rightarrow> ((m2, sb), Some err)
                | (m2, None) \<Rightarrow> reserve_shared q t est m2 sb)))"
    by (simp only: consult_before_call_def Let_def assms(2-4) quote_cost_clip prod.case)
  show ?thesis
  proof (cases "case check_wall e m of None \<Rightarrow> check_calls m | Some err \<Rightarrow> Some err")
    case (Some err)
    then have "r = Some err" "m' = m" using assms(1) unfolding c by simp_all
    then show ?thesis by blast
  next
    case calls: None
    then have calls': "check_calls m = None" by (cases "check_wall e m") auto
    obtain m1 r1 where 1: "reserve_tokens t m = (m1, r1)" by (cases "reserve_tokens t m")
    show ?thesis
    proof (cases r1)
      case (Some err)
      then have "r = Some err" "m' = m1" using assms(1) unfolding c by (simp_all add: calls 1)
      with 1 Some show ?thesis by blast
    next
      case r1: None
      obtain m2 r2 where 2: "reserve_cost q model est m1 = (m2, r2)"
        by (cases "reserve_cost q model est m1")
      show ?thesis
      proof (cases r2)
        case (Some err)
        then have "r = Some err" "m' = m2" using assms(1) unfolding c by (simp_all add: calls 1 2 r1)
        with 1 2 r1 Some show ?thesis by blast
      next
        case r2: None
        show ?thesis using assms(1) unfolding c
          by (auto simp: calls calls' 1 2 r1 r2 reserve_shared_def Let_def
              split: option.splits prod.splits)
      qed
    qed
  qed
qed

lemma calls_checked:
  "check_calls m = None \<Longrightarrow> max_model_calls m = Some n \<Longrightarrow> m_model_calls m + 1 \<le> max 0 n"
  by (auto simp: check_calls_def split: if_splits)

lemma caps_calls [simp]: "caps (m\<lparr>m_model_calls := k\<rparr>) = caps m"
  by (simp add: caps_def)

lemma solvent_call:
  "solvent m tok cst \<Longrightarrow> \<forall>n. max_model_calls m = Some n \<longrightarrow> m_model_calls m + 1 \<le> max 0 n \<Longrightarrow>
     solvent (m\<lparr>m_model_calls := m_model_calls m + 1\<rparr>) tok cst"
  by (simp add: solvent_def)

lemma consult_solvent:
  assumes c: "consult_before_call e model p c (m, sb) = ((m', sb'), r)"
    and inv: "solvent m tok cst" "0 \<le> tok" "0 \<le> cst"
    and pos: "0 \<le> call_cost (table_cost (meter_table e m)) (model, p, c)"
  shows "caps m' = caps m \<and> (\<forall>err. r = Some err \<longrightarrow> solvent m' tok cst) \<and>
    (r = None \<longrightarrow> solvent m' (tok + call_tokens (model, p, c))
           (cst + call_cost (table_cost (meter_table e m)) (model, p, c)))"
proof -
  define q where "q = quote_model (meter_table e m) model"
  define t where "t = max 0 p + max 0 c"
  define est where "est = quote_cost q p c"
  have t: "call_tokens (model, p, c) = t" "0 \<le> t" by (simp_all add: t_def)
  have x: "call_cost (table_cost (meter_table e m)) (model, p, c) = or_zero est" "0 \<le> or_zero est"
    using pos by (simp_all add: est_def q_def table_cost_def)
  note tok = reserve_tokens_solvent [OF _ inv(1) t(2)]
  note cost = reserve_cost_solvent [OF _ _ x(2)]
  have calls: "0 \<le> m_model_calls m" using inv(1) by (simp add: solvent_def)
  from consult_cases [OF c q_def est_def t_def] show ?thesis unfolding t x
  proof (elim disjE exE conjE)
    fix err m1 m2
    assume r: "r = Some err" and 1: "reserve_tokens t m = (m1, None)"
      and 2: "reserve_cost q model est m1 = (m2, None)"
      and m': "m' = rollback_reservation t est (m2\<lparr>m_model_calls := m_model_calls m2 + 1\<rparr>)"
    have s1: "solvent m1 (tok + t) cst" "caps m1 = caps m" "m_model_calls m1 = m_model_calls m"
      using tok [OF 1] by simp_all
    have s2: "solvent m2 (tok + t) (cst + or_zero est)" "caps m2 = caps m1"
      "m_model_calls m2 = m_model_calls m"
      using cost [OF 2 s1(1)] s1 by simp_all
    have "solvent m' tok cst" unfolding m'
      using rollback_undoes [OF s2(1) t(2) x(2) inv(2,3) refl] s2(3) calls by simp
    moreover have "caps m' = caps m" using s1 s2 by (simp add: m')
    ultimately show "caps m' = caps m \<and> (\<forall>err. r = Some err \<longrightarrow> solvent m' tok cst) \<and>
      (r = None \<longrightarrow> solvent m' (tok + t) (cst + or_zero est))" using r by simp
  next
    fix m1 m2
    assume r: "r = None" and k: "check_calls m = None" and 1: "reserve_tokens t m = (m1, None)"
      and 2: "reserve_cost q model est m1 = (m2, None)"
      and m': "m' = m2\<lparr>m_model_calls := m_model_calls m2 + 1\<rparr>"
    have s1: "solvent m1 (tok + t) cst" "caps m1 = caps m" "m_model_calls m1 = m_model_calls m"
      using tok [OF 1] by simp_all
    have s2: "solvent m2 (tok + t) (cst + or_zero est)" "caps m2 = caps m1"
      "m_model_calls m2 = m_model_calls m"
      using cost [OF 2 s1(1)] s1 by simp_all
    have "max_model_calls m2 = max_model_calls m" using s1 s2 by (simp add: caps_def)
    then have "solvent m' (tok + t) (cst + or_zero est)" unfolding m'
      using calls_checked [OF k] s2(3) by (intro solvent_call [OF s2(1)]) simp
    moreover have "caps m' = caps m" using s1 s2 by (simp add: m')
    ultimately show "caps m' = caps m \<and> (\<forall>err. r = Some err \<longrightarrow> solvent m' tok cst) \<and>
      (r = None \<longrightarrow> solvent m' (tok + t) (cst + or_zero est))" using r by simp
  next
    fix err m1
    assume r: "r = Some err" and 1: "reserve_tokens t m = (m1, None)"
      and 2: "reserve_cost q model est m1 = (m', Some err)"
    then show "caps m' = caps m \<and> (\<forall>err. r = Some err \<longrightarrow> solvent m' tok cst) \<and>
      (r = None \<longrightarrow> solvent m' (tok + t) (cst + or_zero est))"
      using tok [OF 1] cost [OF 2, of tok cst] by simp
  next
    fix err
    assume r: "r = Some err" and 1: "reserve_tokens t m = (m', Some err)"
    then show "caps m' = caps m \<and> (\<forall>err. r = Some err \<longrightarrow> solvent m' tok cst) \<and>
      (r = None \<longrightarrow> solvent m' (tok + t) (cst + or_zero est))"
      using tok [OF 1] by simp
  qed (use inv in simp)
qed

subsection \<open>Settling a call\<close>

lemma drop_reserved_cost_fields [simp]:
  "caps (drop_reserved_cost x m) = caps m"
  "m_total (drop_reserved_cost x m) = m_total m"
  "m_reserved_tokens (drop_reserved_cost x m) = m_reserved_tokens m"
  "m_cost (drop_reserved_cost x m) = m_cost m"
  "m_model_calls (drop_reserved_cost x m) = m_model_calls m"
  by (auto simp: drop_reserved_cost_def caps_def Let_def split: option.split)

lemma drop_reserved_cost_reserved:
  "0 \<le> m_reserved_cost m \<Longrightarrow> m_reserved_cost (drop_reserved_cost x m) =
     (if m_reserved_tokens m = 0 then 0 else max 0 (m_reserved_cost m - or_zero x))"
  by (auto simp: drop_reserved_cost_def Let_def split: option.split)

lemma record_usage_fields:
  assumes "record_usage e model usage p c (m, sb) = ((m', sb'), x)" "0 \<le> m_reserved_cost m"
    and "q = quote_model (meter_table e m) model"
    and "actual = quote_cost q (as_int (vget usage ''prompt_tokens'')) (as_int (vget usage ''completion_tokens''))"
  shows "caps m' = caps m" "m_model_calls m' = m_model_calls m"
    "m_total m' = m_total m + usage_total usage" "m_cost m' = m_cost m + or_zero actual"
    "m_reserved_tokens m' = max 0 (m_reserved_tokens m - (max 0 p + max 0 c))"
    "m_reserved_cost m' = (if m_reserved_tokens m' = 0 then 0
       else max 0 (m_reserved_cost m - or_zero (quote_cost q p c)))"
proof -
  define m1 where "m1 = m\<lparr>m_prompt := m_prompt m + as_int (vget usage ''prompt_tokens''),
    m_completion := m_completion m + as_int (vget usage ''completion_tokens''),
    m_total := m_total m + usage_total usage,
    m_reserved_tokens := max 0 (m_reserved_tokens m - (max 0 p + max 0 c))\<rparr>"
  define m2 where "m2 = drop_reserved_cost (quote_cost q p c) m1"
  define m3 where "m3 = (case (q_priced q, actual) of
             (True, Some x) \<Rightarrow> m2\<lparr>m_cost := m_cost m2 + x\<rparr> | _ \<Rightarrow> note_unpriced model m2)"
  have up: "\<not> q_priced q \<Longrightarrow> actual = None" by (simp add: assms(4) quote_cost_def)
  have "\<exists>bm. m' = m3\<lparr>m_by_model := bm\<rparr>"
    using assms(1) unfolding record_usage_def Let_def prod.case assms(3) [symmetric]
      m1_def [symmetric] m2_def [symmetric] assms(4) [symmetric]
    by (auto simp: m3_def split: bool.splits option.splits)
  then obtain bm where m': "m' = m3\<lparr>m_by_model := bm\<rparr>" ..
  have m3: "caps m3 = caps m2" "m_model_calls m3 = m_model_calls m2" "m_total m3 = m_total m2"
    "m_cost m3 = m_cost m2 + or_zero actual" "m_reserved_tokens m3 = m_reserved_tokens m2"
    "m_reserved_cost m3 = m_reserved_cost m2"
    using up by (auto simp: m3_def caps_def note_unpriced_def split: bool.split option.split)
  show "caps m' = caps m" "m_model_calls m' = m_model_calls m"
    "m_total m' = m_total m + usage_total usage" "m_cost m' = m_cost m + or_zero actual"
    "m_reserved_tokens m' = max 0 (m_reserved_tokens m - (max 0 p + max 0 c))"
    using m3 by (simp_all add: m' caps_def m2_def drop_reserved_cost_fields [unfolded caps_def])
      (simp_all add: m1_def)
  show "m_reserved_cost m' = (if m_reserved_tokens m' = 0 then 0
       else max 0 (m_reserved_cost m - or_zero (quote_cost q p c)))"
    using m3 assms(2) by (simp add: m' m2_def drop_reserved_cost_reserved m1_def)
qed

lemma record_solvent:
  assumes "record_usage e model usage p c (m, sb) = ((m', sb'), x)"
    and inv: "solvent m tok cst"
    and t: "t = call_tokens (model, p, c)" "t \<le> tok" "usage_total usage \<le> t"
    and k: "k = call_cost (table_cost (meter_table e m)) (model, p, c)" "k \<le> cst"
      "or_zero (table_cost (meter_table e m) model (as_int (vget usage ''prompt_tokens''))
         (as_int (vget usage ''completion_tokens''))) \<le> k"
    and idle: "tok = t \<Longrightarrow> cst = k"
  shows "caps m' = caps m \<and> solvent m' (tok - t) (cst - k)"
proof -
  have rc: "0 \<le> m_reserved_cost m" using inv by (simp add: solvent_def)
  note f = record_usage_fields [OF assms(1) rc refl refl, folded table_cost_def]
  have k': "or_zero (table_cost (meter_table e m) model p c) = k" using k(1) by simp
  have t': "max 0 p + max 0 c = t" using t(1) by simp
  show ?thesis
    using inv t(2,3) k(2,3) idle f(1-5) f(6) unfolding k' t'
    by (auto simp: solvent_def caps_def)
qed

lemma empty_model_unpriced: "quote_cost (quote_model t []) p c = None"
  by (simp add: quote_model_def quote_cost_def unpriced_quote_def)

lemma release_fields:
  assumes "release_reservation e p c (m, sb) = (m', sb')"
  shows "m' = drop_reserved_cost None
      (m\<lparr>m_reserved_tokens := max 0 (m_reserved_tokens m - (max 0 p + max 0 c))\<rparr>)" "sb' = sb"
  using assms by (simp_all add: release_reservation_def Let_def empty_model_unpriced split: option.splits)

lemma release_solvent:
  assumes "release_reservation e p c (m, sb) = (m', sb')" and inv: "solvent m tok cst"
    and t: "t = call_tokens (model, p, c)" "t \<le> tok" and k: "0 \<le> k" "k \<le> cst"
    and idle: "tok = t \<Longrightarrow> cst = k"
  shows "caps m' = caps m \<and> solvent m' (tok - t) (cst - k)"
proof -
  define m1 where "m1 = m\<lparr>m_reserved_tokens := max 0 (m_reserved_tokens m - t)\<rparr>"
  have m': "m' = drop_reserved_cost None m1" using release_fields [OF assms(1)] t(1) by (simp add: m1_def)
  have rc: "m_reserved_cost m' = (if m_reserved_tokens m1 = 0 then 0 else m_reserved_cost m)"
    using inv unfolding m' by (subst drop_reserved_cost_reserved) (auto simp: m1_def solvent_def)
  have f: "caps m' = caps m" "m_total m' = m_total m" "m_cost m' = m_cost m"
    "m_reserved_tokens m' = max 0 (m_reserved_tokens m - t)" "m_model_calls m' = m_model_calls m"
    by (simp_all add: m') (simp_all add: m1_def caps_def)
  have "0 \<le> t" unfolding t(1) by (rule call_tokens_nonneg)
  then show ?thesis using inv t(2) k idle f rc by (auto simp: solvent_def caps_def m1_def)
qed

section \<open>Runs\<close>

text \<open>
  The operations that parallel branches of a run interleave on one meter whose table is
  \<open>t\<close>. The list holds the calls admitted and not yet settled. The clock and the shared
  budget (which other meters change too) are arbitrary at every step. A call is settled
  by the usage of its answer, within what it reserved, or by a failed call's release.
\<close>

definition usage_within :: "pydict \<Rightarrow> int \<Rightarrow> int \<Rightarrow> bool" where
  "usage_within usage p c =
     (as_int (vget usage ''prompt_tokens'') \<le> p \<and> as_int (vget usage ''completion_tokens'') \<le> c \<and>
      usage_total usage \<le> max 0 p + max 0 c)"

inductive meter_run :: "price_table \<Rightarrow> spend_meter \<Rightarrow> call list \<Rightarrow> bool" for t where
  fresh: "meter_run t (new_meter e spend tokens calls rounds wall table started) []"
| admitted: "meter_run t m fl \<Longrightarrow> meter_table e m = t \<Longrightarrow>
    consult_before_call e model p c (m, sb) = ((m', sb'), None) \<Longrightarrow>
    meter_run t m' ((model, p, c) # fl)"
| refused: "meter_run t m fl \<Longrightarrow> meter_table e m = t \<Longrightarrow>
    consult_before_call e model p c (m, sb) = ((m', sb'), Some err) \<Longrightarrow> meter_run t m' fl"
| answered: "meter_run t m fl \<Longrightarrow> meter_table e m = t \<Longrightarrow> (model, p, c) \<in> set fl \<Longrightarrow>
    usage_within usage p c \<Longrightarrow> record_usage e model usage p c (m, sb) = ((m', sb'), x) \<Longrightarrow>
    meter_run t m' (remove1 (model, p, c) fl)"
| failed: "meter_run t m fl \<Longrightarrow> meter_table e m = t \<Longrightarrow> (model, p, c) \<in> set fl \<Longrightarrow>
    release_reservation e p c (m, sb) = (m', sb') \<Longrightarrow> meter_run t m' (remove1 (model, p, c) fl)"
| tool_round: "meter_run t m fl \<Longrightarrow> record_tool_round m = Inr m' \<Longrightarrow> meter_run t m' fl"
| cache_hit: "meter_run t m fl \<Longrightarrow> record_cache_hit e model usage m = (m', x) \<Longrightarrow> meter_run t m' fl"
| cache_miss: "meter_run t m fl \<Longrightarrow> meter_run t (record_cache_miss m) fl"

lemma tool_round_frame: "record_tool_round m = Inr m' \<Longrightarrow> accounts m' = accounts m \<and> caps m' = caps m"
  by (auto simp: record_tool_round_def accounts_def caps_def split: option.splits)

lemma cache_hit_frame:
  "record_cache_hit e model usage m = (m', x) \<Longrightarrow> accounts m' = accounts m \<and> caps m' = caps m"
  by (auto simp: record_cache_hit_def Let_def accounts_def caps_def)

lemma cache_miss_frame: "accounts (record_cache_miss m) = accounts m \<and> caps (record_cache_miss m) = caps m"
  by (auto simp: record_cache_miss_def accounts_def caps_def)

context pricing
begin

lemma idle_rest:
  assumes "k \<in> set fl" "inflight_tokens fl = call_tokens k"
  shows "inflight_cost cost fl = call_cost cost k"
  using idle_without_tokens [of "remove1 k fl"] assms
  by (simp add: inflight_tokens_remove inflight_cost_remove)

lemma call_tokens_le_inflight: "k \<in> set fl \<Longrightarrow> call_tokens k \<le> inflight_tokens fl"
  using inflight_tokens_nonneg [of "remove1 k fl"]
  by (simp add: inflight_tokens_remove del: inflight_tokens_nonneg)

theorem meter_run_solvent:
  assumes "meter_run t m fl" "cost = table_cost t"
  shows "solvent m (inflight_tokens fl) (inflight_cost cost fl)"
  using assms(1)
proof induction
  case fresh
  then show ?case by (simp add: solvent_new)
next
  case (admitted m fl e model p c sb m' sb')
  with consult_solvent [OF admitted(3) admitted.IH] show ?case
    by (simp add: assms(2) [symmetric] call_cost_nonneg inflight_cost_nonneg add.commute
        del: call_tokens.simps call_cost.simps)
next
  case (refused m fl e model p c sb m' sb' err)
  with consult_solvent [OF refused(3) refused.IH] show ?case
    by (simp add: assms(2) [symmetric] call_cost_nonneg inflight_cost_nonneg
        del: call_tokens.simps call_cost.simps)
next
  case (answered m fl e model p c usage sb m' sb' x)
  let ?k = "(model, p, c)"
  have "or_zero (cost model (as_int (vget usage ''prompt_tokens''))
      (as_int (vget usage ''completion_tokens''))) \<le> call_cost cost ?k"
    using answered.hyps(4) by (intro actual_within_reserved) (auto simp: usage_within_def)
  then have "solvent m' (inflight_tokens fl - call_tokens ?k) (inflight_cost cost fl - call_cost cost ?k)"
    using record_solvent [OF answered(5) answered.IH refl call_tokens_le_inflight [OF answered(3)] _ refl]
      answered(2,4) call_cost_le_inflight [OF answered(3)] idle_rest [OF answered(3)]
    by (simp add: assms(2) [symmetric] usage_within_def)
  then show ?case by (simp add: inflight_tokens_remove inflight_cost_remove answered(3)
        del: call_tokens.simps call_cost.simps)
next
  case (failed m fl e model p c sb m' sb')
  let ?k = "(model, p, c)"
  have "solvent m' (inflight_tokens fl - call_tokens ?k) (inflight_cost cost fl - call_cost cost ?k)"
    using release_solvent [OF failed(4) failed.IH refl call_tokens_le_inflight [OF failed(3)]
        call_cost_nonneg [of ?k] call_cost_le_inflight [OF failed(3)] idle_rest [OF failed(3)]]
    by blast
  then show ?case by (simp add: inflight_tokens_remove inflight_cost_remove failed(3)
        del: call_tokens.simps call_cost.simps)
qed (use tool_round_frame cache_hit_frame cache_miss_frame solvent_cong in metis)+

end

section \<open>A concrete meter\<close>

definition demo_env :: meter_env where
  "demo_env = \<lparr>load_table = bundled_table, utc_now = 0, mono_now = 0, from_iso = (\<lambda>s. None)\<rparr>"

definition demo_meter :: "int option \<Rightarrow> int option \<Rightarrow> spend_meter" where
  "demo_meter spend tokens = new_meter demo_env spend tokens None None None None None"

lemma demo_quote:
  "quote_model bundled_table ''gpt-4o'' = priced_quote ''gpt-4o'' ''exact'' (mk_rate (5 / 2) 10)"
  by (simp add: quote_model_def bundled_table_def bundled_models_def strip_def lstrip_def rstrip_def
      is_space_def Let_def)

lemma demo_run_fresh: "meter_run bundled_table (demo_meter spend tokens) []"
  unfolding demo_meter_def by (rule fresh)

lemmas demo_simps = demo_env_def demo_quote priced_quote_def mk_rate_def quote_cost_def meter_table_def
  consult_before_call_def check_wall_def check_calls_def reserve_tokens_def reserve_cost_def
  reserve_shared_def round_half_even_def Let_def

text \<open>A call of \<open>n\<close> prompt tokens, admitted, answered with \<open>n\<close> tokens, or failed.\<close>

definition demo_admit :: "int \<Rightarrow> spend_meter \<Rightarrow> spend_meter" where
  "demo_admit n m = fst (fst (consult_before_call demo_env ''gpt-4o'' n 0 (m, None)))"

definition demo_answer :: "int \<Rightarrow> spend_meter \<Rightarrow> spend_meter" where
  "demo_answer n m =
     fst (fst (record_usage demo_env ''gpt-4o'' [(''prompt_tokens'', PInt n)] n 0 (m, None)))"

definition demo_fail :: "int \<Rightarrow> spend_meter \<Rightarrow> spend_meter" where
  "demo_fail n m = fst (release_reservation demo_env n 0 (m, None))"

lemma consult_no_shared:
  "consult_before_call e model p c (m, None) = ((m', sb'), r) \<Longrightarrow> sb' = None"
  by (auto simp: consult_before_call_def reserve_shared_def Let_def split: option.splits prod.splits)

lemma demo_run_admit:
  assumes "meter_run bundled_table m fl" "m_table m = None"
    "snd (consult_before_call demo_env ''gpt-4o'' n 0 (m, None)) = None"
  shows "meter_run bundled_table (demo_admit n m) ((''gpt-4o'', n, 0) # fl)"
proof -
  obtain m' sb' r where c: "consult_before_call demo_env ''gpt-4o'' n 0 (m, None) = ((m', sb'), r)"
    by (cases "consult_before_call demo_env ''gpt-4o'' n 0 (m, None)") auto
  have "meter_table demo_env m = bundled_table" by (simp add: meter_table_def assms(2) demo_env_def)
  then show ?thesis using admitted [OF assms(1)] c assms(3) by (simp add: demo_admit_def)
qed

lemma demo_run_answer:
  assumes "meter_run bundled_table m fl" "m_table m = None" "(''gpt-4o'', n, 0) \<in> set fl" "0 \<le> n"
  shows "meter_run bundled_table (demo_answer n m) (remove1 (''gpt-4o'', n, 0) fl)"
proof -
  obtain m' sb' x where c: "record_usage demo_env ''gpt-4o'' [(''prompt_tokens'', PInt n)] n 0 (m, None)
      = ((m', sb'), x)"
    by (cases "record_usage demo_env ''gpt-4o'' [(''prompt_tokens'', PInt n)] n 0 (m, None)") auto
  have "meter_table demo_env m = bundled_table" by (simp add: meter_table_def assms(2) demo_env_def)
  then show ?thesis using answered [OF assms(1) _ assms(3) _ c] assms(4)
    by (simp add: demo_answer_def c usage_within_def usage_total_def)
qed

lemma demo_run_fail:
  assumes "meter_run bundled_table m fl" "m_table m = None" "(''gpt-4o'', n, 0) \<in> set fl"
  shows "meter_run bundled_table (demo_fail n m) (remove1 (''gpt-4o'', n, 0) fl)"
proof -
  obtain m' sb' where c: "release_reservation demo_env n 0 (m, None) = (m', sb')"
    by (cases "release_reservation demo_env n 0 (m, None)")
  have "meter_table demo_env m = bundled_table" by (simp add: meter_table_def assms(2) demo_env_def)
  then show ?thesis using failed [OF assms(1) _ assms(3) c] by (simp add: demo_fail_def c)
qed

section \<open>Admission\<close>

lemma reserve_tokens_admits:
  "snd (reserve_tokens t m) = None \<longleftrightarrow>
     (\<forall>T. max_tokens m = Some T \<longrightarrow>
        m_total m + m_reserved_tokens m < T \<and> m_total m + m_reserved_tokens m + t \<le> T)"
  by (auto simp: reserve_tokens_def Let_def split: option.split)

lemma reserve_cost_admits:
  "snd (reserve_cost q model est m) = None \<longleftrightarrow>
     (\<forall>B. max_spend_micros m = Some B \<longrightarrow> q_priced q \<and>
        (\<exists>x. est = Some x \<and> m_cost m + m_reserved_cost m < B \<and> m_cost m + m_reserved_cost m + x \<le> B))"
  by (cases "max_spend_micros m"; cases "q_priced q"; cases est) (auto simp: reserve_cost_def Let_def)

lemma shared_reserve_admits:
  "snd (shared_reserve est b) = None \<longleftrightarrow>
     (\<exists>x. est = Some x \<and> sb_cost b + sb_reserved b < sb_max b \<and>
        sb_cost b + sb_reserved b + max 0 x \<le> sb_max b)"
  by (auto simp: shared_reserve_def Let_def split: option.split)

lemma reserve_tokens_accounts:
  "reserve_tokens t m = (m', None) \<Longrightarrow>
     max_spend_micros m' = max_spend_micros m \<and> m_cost m' = m_cost m \<and> m_reserved_cost m' = m_reserved_cost m"
  using reserve_tokens_cases [of t m m' None] by auto

lemma check_calls_admits:
  "check_calls m = None \<longleftrightarrow> (\<forall>n. max_model_calls m = Some n \<longrightarrow> m_model_calls m < n)"
  by (auto simp: check_calls_def split: option.split)

lemma reserve_shared_admits:
  "snd (reserve_shared q t est m sb) = None \<longleftrightarrow>
     (\<forall>b. sb = Some b \<longrightarrow> snd (shared_reserve (if q_priced q then est else None) b) = None)"
  by (auto simp: reserve_shared_def Let_def split: option.split prod.split)

section \<open>Properties\<close>

text \<open>
  The token cap and the call cap hold in every interleaving of parallel branches: the
  tokens used and the tokens of the calls in flight together stay within the token cap,
  and the calls admitted within the call cap, when answers stay within what was reserved.
\<close>

theorem meter_token_and_call_caps:
  assumes "table_ok t" "meter_run t m fl"
  shows "(\<forall>T. max_tokens m = Some T \<longrightarrow> m_total m + inflight_tokens fl \<le> max 0 T) \<and>
    (\<forall>n. max_model_calls m = Some n \<longrightarrow> m_model_calls m \<le> max 0 n)"
  using pricing.meter_run_solvent [OF table_pricing [OF assms(1)] assms(2) refl]
  by (fastforce simp: solvent_def)

theorem meter_token_and_call_caps_witness:
  "m_total (demo_admit 100 (demo_meter None (Some 250))) +
     inflight_tokens [(''gpt-4o'', 100, 0)] \<le> max 0 250"
proof -
  let ?m = "demo_admit 100 (demo_meter None (Some 250))"
  have "meter_run bundled_table ?m [(''gpt-4o'', 100, 0)]"
    by (rule demo_run_admit [OF demo_run_fresh]) (simp_all add: demo_meter_def new_meter_def demo_simps)
  moreover have "max_tokens ?m = Some 250"
    by (simp add: demo_admit_def demo_meter_def new_meter_def demo_simps)
  ultimately show ?thesis using meter_token_and_call_caps [OF bundled_table_ok] by blast
qed



text \<open>
  Without a token cap the spend cap does not survive parallel calls. Reserved tokens are
  counted only under a token cap, so they stay zero, and settling or failing any one call
  then resets the whole reserved cost, the reservations of the calls still in flight
  included: two calls of 200 tokens fill a cap of 1000 micro-dollars, the failure of one
  makes room for a call of 400 tokens, and the meter ends at 1500 micro-dollars.
\<close>

theorem spend_cap_exceeded_without_token_cap:
  "\<exists>m. meter_run bundled_table m [] \<and> max_spend_micros m = Some 1000 \<and> max_tokens m = None \<and>
     m_cost m = 1500"
proof -
  let ?a = "demo_meter (Some 1000) None"
  let ?b = "demo_admit 200 ?a" let ?c = "demo_admit 200 ?b" let ?d = "demo_fail 200 ?c"
  let ?e = "demo_admit 400 ?d" let ?f = "demo_answer 200 ?e" let ?g = "demo_answer 400 ?f"
  have b: "?b = ?a\<lparr>m_reserved_cost := 500, m_model_calls := 1\<rparr>"
    "snd (consult_before_call demo_env ''gpt-4o'' 200 0 (?a, None)) = None"
    by (simp_all add: demo_admit_def demo_meter_def new_meter_def demo_simps)
  have c: "?c = ?a\<lparr>m_reserved_cost := 1000, m_model_calls := 2\<rparr>"
    "snd (consult_before_call demo_env ''gpt-4o'' 200 0 (?b, None)) = None"
    unfolding b by (simp_all add: demo_admit_def demo_meter_def new_meter_def demo_simps)
  have d: "?d = ?a\<lparr>m_model_calls := 2\<rparr>"
    unfolding c by (simp add: demo_fail_def release_reservation_def empty_model_unpriced
        drop_reserved_cost_def demo_meter_def new_meter_def Let_def)
  have e: "?e = ?a\<lparr>m_reserved_cost := 1000, m_model_calls := 3\<rparr>"
    "snd (consult_before_call demo_env ''gpt-4o'' 400 0 (?d, None)) = None"
    unfolding d by (simp_all add: demo_admit_def demo_meter_def new_meter_def demo_simps)
  have f: "m_cost ?f = 500" "m_table ?f = None"
    unfolding e by (simp_all add: demo_answer_def record_usage_def usage_total_def demo_meter_def
        new_meter_def drop_reserved_cost_def demo_simps)
  have g: "m_cost ?g = 1500" "max_spend_micros ?g = Some 1000" "max_tokens ?g = None"
    unfolding e by (simp_all add: demo_answer_def record_usage_def usage_total_def demo_meter_def
        new_meter_def drop_reserved_cost_def demo_simps)
  have t: "m_table ?a = None" by (simp add: demo_meter_def new_meter_def)
  have "meter_run bundled_table ?b [(''gpt-4o'', 200, 0)]"
    by (rule demo_run_admit [OF demo_run_fresh t b(2)])
  then have "meter_run bundled_table ?c [(''gpt-4o'', 200, 0), (''gpt-4o'', 200, 0)]"
    by (rule demo_run_admit) (simp add: b t, rule c(2))
  then have "meter_run bundled_table ?d (remove1 (''gpt-4o'', 200, 0)
      [(''gpt-4o'', 200, 0), (''gpt-4o'', 200, 0)])"
    by (rule demo_run_fail) (simp_all add: c t)
  then have "meter_run bundled_table ?e
      ((''gpt-4o'', 400, 0) # remove1 (''gpt-4o'', 200, 0) [(''gpt-4o'', 200, 0), (''gpt-4o'', 200, 0)])"
    by (rule demo_run_admit) (simp add: d t, rule e(2))
  then have "meter_run bundled_table ?e [(''gpt-4o'', 400, 0), (''gpt-4o'', 200, 0)]" by simp
  then have "meter_run bundled_table ?f (remove1 (''gpt-4o'', 200, 0)
      [(''gpt-4o'', 400, 0), (''gpt-4o'', 200, 0)])"
    by (rule demo_run_answer) (simp_all add: e t)
  then have "meter_run bundled_table ?f [(''gpt-4o'', 400, 0)]" by simp
  then have "meter_run bundled_table ?g (remove1 (''gpt-4o'', 400, 0) [(''gpt-4o'', 400, 0)])"
    by (rule demo_run_answer) (simp_all add: f)
  then have "meter_run bundled_table ?g []" by simp
  with g show ?thesis by blast
qed

text \<open>
  A model call is admitted exactly when the wall clock and the number of calls leave
  room, what is spent and reserved is below each cap and stays within it with the estimate
  added, and, where money is capped by the run or the batch, the model has a price.
\<close>

theorem consult_admission:
  "snd (consult_before_call e model p c (m, sb)) = None \<longleftrightarrow>
     check_wall e m = None \<and>
     (\<forall>n. max_model_calls m = Some n \<longrightarrow> m_model_calls m < n) \<and>
     (\<forall>T. max_tokens m = Some T \<longrightarrow> m_total m + m_reserved_tokens m < T \<and>
        m_total m + m_reserved_tokens m + (max 0 p + max 0 c) \<le> T) \<and>
     (\<forall>B. max_spend_micros m = Some B \<longrightarrow>
        (\<exists>x. table_cost (meter_table e m) model p c = Some x \<and> m_cost m + m_reserved_cost m < B \<and>
           m_cost m + m_reserved_cost m + x \<le> B)) \<and>
     (\<forall>b. sb = Some b \<longrightarrow>
        (\<exists>x. table_cost (meter_table e m) model p c = Some x \<and> sb_cost b + sb_reserved b < sb_max b \<and>
           sb_cost b + sb_reserved b + max 0 x \<le> sb_max b))"
proof -
  let ?q = "quote_model (meter_table e m) model" and ?t = "max 0 p + max 0 c"
  let ?est = "quote_cost ?q p c"
  obtain m1 r1 where 1: "reserve_tokens ?t m = (m1, r1)" by (cases "reserve_tokens ?t m")
  obtain m2 r2 where 2: "reserve_cost ?q model ?est m1 = (m2, r2)"
    by (cases "reserve_cost ?q model ?est m1")
  have priced: "?est = Some x \<Longrightarrow> q_priced ?q" for x by (simp add: quote_cost_def split: if_splits)
  have "snd (consult_before_call e model p c (m, sb)) = None \<longleftrightarrow>
      check_wall e m = None \<and> check_calls m = None \<and> r1 = None \<and> r2 = None \<and>
      snd (reserve_shared ?q ?t ?est m2 sb) = None"
    unfolding consult_before_call_def Let_def prod.case quote_cost_clip 1
    by (cases "check_wall e m"; cases "check_calls m"; cases r1; cases r2) (simp_all add: 2)
  then show ?thesis
    using reserve_tokens_admits [of ?t m] reserve_cost_admits [of ?q model ?est m1]
      reserve_tokens_accounts [of ?t m m1] priced
    unfolding 1 2 snd_conv check_calls_admits reserve_shared_admits shared_reserve_admits table_cost_def
    by (cases r1) auto
qed

theorem consult_admission_witness:
  "snd (consult_before_call demo_env ''gpt-4o'' 100 0 (demo_meter (Some 600) None, None)) = None"
  unfolding consult_admission
  by (simp add: demo_meter_def new_meter_def demo_simps table_cost_def)

text \<open>
  A call that is admitted under a shared budget and then fails gives nothing back: the
  release prices the empty model name, which has no price, so the shared budget keeps the
  reservation of the failed call.
\<close>

theorem failed_call_keeps_shared_reservation:
  assumes "consult_before_call e model p c (m, Some b) = ((m', sb'), None)"
    and "table_cost (meter_table e m) model p c = Some x" "0 \<le> x"
    and "release_reservation e' p c (m', sb') = (m'', sb'')"
  shows "sb'' = Some (b\<lparr>sb_reserved := sb_reserved b + x\<rparr>)"
proof -
  have "sb' = Some (b\<lparr>sb_reserved := sb_reserved b + x\<rparr>)"
    using assms(1-3)
    by (auto simp: consult_before_call_def table_cost_def reserve_shared_def shared_reserve_def
        quote_cost_clip Let_def split: option.splits prod.splits if_splits)
  then show ?thesis using release_fields(2) [OF assms(4)] by simp
qed

theorem failed_call_keeps_shared_reservation_witness:
  "\<exists>m'. snd (release_reservation demo_env 100 0 (m', Some (new_shared 1000\<lparr>sb_reserved := 250\<rparr>))) =
     Some (new_shared 1000\<lparr>sb_reserved := 0 + 250\<rparr>)"
proof -
  obtain m' sb' r where c: "consult_before_call demo_env ''gpt-4o'' 100 0
      (demo_meter None None, Some (new_shared 1000)) = ((m', sb'), r)"
    by (cases "consult_before_call demo_env ''gpt-4o'' 100 0 (demo_meter None None, Some (new_shared 1000))")
      auto
  have r: "r = None" and sb: "sb' = Some (new_shared 1000\<lparr>sb_reserved := 250\<rparr>)"
    using c by (simp_all add: demo_meter_def new_meter_def demo_simps new_shared_def shared_reserve_def)
  have x: "table_cost (meter_table demo_env (demo_meter None None)) ''gpt-4o'' 100 0 = Some 250"
    by (simp add: demo_meter_def new_meter_def demo_simps table_cost_def)
  obtain m'' sb'' where rel: "release_reservation demo_env 100 0 (m', sb') = (m'', sb'')"
    by (cases "release_reservation demo_env 100 0 (m', sb')")
  have "sb'' = Some (new_shared 1000\<lparr>sb_reserved := sb_reserved (new_shared 1000) + 250\<rparr>)"
    by (rule failed_call_keeps_shared_reservation [OF c [unfolded r] x _ rel]) simp
  then show ?thesis using rel sb by (intro exI [of _ m']) (simp add: new_shared_def)
qed

text \<open>
  A meter restored from its snapshot has the caps, the counters and the per-model usage
  of the original; reservations, which the snapshot leaves out, restart at zero.
\<close>

theorem snapshot_roundtrip:
  assumes "m_started_at m \<noteq> Some []"
  shows "from_snapshot e pf fr table (snapshot m) =
    Some (m\<lparr>m_table := table, m_started_mono := mono_now e, m_reserved_tokens := 0, m_reserved_cost := 0\<rparr>)"
proof -
  have id: "py_str fr \<circ> PStr = id" by (rule ext) simp
  show ?thesis using assms
    by (cases m; cases "m_started_at m")
      (simp_all add: from_snapshot_def snapshot_def new_meter_def Let_def id of_opt_str_def)
qed

theorem snapshot_roundtrip_witness:
  "from_snapshot demo_env (\<lambda>_. None) (\<lambda>_. []) None (snapshot (demo_meter (Some 5) None)) =
    Some (demo_meter (Some 5) None\<lparr>m_table := None, m_started_mono := mono_now demo_env,
      m_reserved_tokens := 0, m_reserved_cost := 0\<rparr>)"
  by (rule snapshot_roundtrip) (simp add: demo_meter_def new_meter_def)

end
