(* ===== verification/Gates.thy ===== *)
theory Gates
  imports Values
begin

text \<open>
  The approval gate of \<open>approvals/gate.py\<close>: votes, the pause a gate keeps in the run record,
  its evaluation (expiry, rejection, quorum, roles), eligibility and escalation. Times are
  rationals, seconds since the epoch in UTC; \<open>datetime.fromisoformat\<close> and \<open>strftime\<close> of
  the standard library are the two functions of \<open>time_lib\<close>.
\<close>

section \<open>Clock texts and durations\<close>

record time_lib =
  tl_parse :: "string \<Rightarrow> rat option"
  tl_format :: "rat \<Rightarrow> string"

definition normalize_actor :: "string option \<Rightarrow> string" where
  "normalize_actor actor = lower (strip (case actor of None \<Rightarrow> [] | Some s \<Rightarrow> s))"

abbreviation norm :: "string \<Rightarrow> string" where
  "norm s \<equiv> normalize_actor (Some s)"

definition duration_units :: "(string \<times> int) list" where
  "duration_units =
    [(''s'', 1), (''sec'', 1), (''secs'', 1), (''second'', 1), (''seconds'', 1),
     (''m'', 60), (''min'', 60), (''mins'', 60), (''h'', 3600), (''hr'', 3600), (''hrs'', 3600),
     (''d'', 86400), (''day'', 86400), (''days'', 86400)]"

text \<open>
  \<open>parse_expires_in\<close>: the pattern is digits, optional white space and one of the unit names in
  any case; \<open>None\<close> is the \<open>ConfigError\<close>. The result is in seconds.
\<close>

definition parse_expires_in :: "string \<Rightarrow> rat option" where
  "parse_expires_in text =
     (let raw = strip text;
          digits = takeWhile is_digit raw;
          unit = lower (lstrip (dropWhile is_digit raw))
      in if digits = [] then None
         else case (py_int digits, map_of duration_units unit) of
           (Some amount, Some u) \<Rightarrow> Some (of_int (amount * u))
         | _ \<Rightarrow> None)"

definition parse_clock :: "time_lib \<Rightarrow> string option \<Rightarrow> rat option" where
  "parse_clock lib v =
     (if \<not> truthy v then None
      else let text = strip (the v)
           in tl_parse lib (if ends_with text ''Z'' then butlast text @ ''+00:00'' else text))"

section \<open>Votes and pauses\<close>

datatype gate_status = Pending | Approved | Rejected | Expired | Escalated

record vote =
  v_actor :: string
  v_decision :: string
  v_at :: string
  v_role :: "string option"
  v_reason :: "string option"
  v_signature_status :: string
  v_delegated_from :: "string option"
  v_override :: bool

record gate_outcome =
  go_status :: gate_status
  go_reason :: "string option"
  go_elapsed :: "rat option"
  go_expires_at :: "string option"
  go_clock_source :: string

record pause_state =
  approvals_required :: int
  approvals_received :: "vote list"
  distinct_actors :: bool
  deny_actor :: "string list"
  approver_roles :: "string list"
  require :: string
  eligible_actors :: "string list"
  expires_at :: "string option"
  on_expire :: "string option"
  escalated_to :: "string list"
  paused_at :: "string option"
  reject_short_circuit :: bool
  require_reason :: bool
  recommendation :: "string option"
  clock_source :: string
  is_expired :: bool
  escalated_at :: "string option"

text \<open>The approval fields of a workflow node (\<open>NodeSpec\<close>).\<close>

record approval_node =
  an_id :: string
  an_prompt :: string
  an_next :: "string option"
  an_then :: "string option"
  an_else :: "string option"
  an_approvals_required :: "int option"
  an_distinct_actors :: "bool option"
  an_deny_actor :: "string list"
  an_approver_roles :: "string list"
  an_require :: "string option"
  an_expires_in :: "string option"
  an_on_expire :: "string option"
  an_escalate_to :: "string list"
  an_require_reason :: bool
  an_reject_short_circuit :: bool
  an_recommendation :: "string option"
  an_notify :: "string list"

definition strs :: "string list \<Rightarrow> pyval" where
  "strs xs = PList (List.map PStr xs)"

definition vote_dict :: "vote \<Rightarrow> pyval" where
  "vote_dict v = PDict
     [(''actor'', PStr (v_actor v)), (''role'', of_opt_str (v_role v)),
      (''decision'', PStr (v_decision v)), (''reason'', of_opt_str (v_reason v)),
      (''at'', PStr (v_at v)), (''signature_status'', PStr (v_signature_status v)),
      (''delegated_from'', of_opt_str (v_delegated_from v)), (''override'', PBool (v_override v))]"

definition pause_dict :: "pause_state \<Rightarrow> pydict" where
  "pause_dict p =
     [(''approvals_required'', PInt (approvals_required p)),
      (''approvals_received'', PList (List.map vote_dict (approvals_received p))),
      (''distinct_actors'', PBool (distinct_actors p)),
      (''deny_actor'', strs (deny_actor p)),
      (''approver_roles'', strs (approver_roles p)),
      (''require'', PStr (require p)),
      (''eligible_actors'', strs (eligible_actors p)),
      (''expires_at'', of_opt_str (expires_at p)),
      (''on_expire'', of_opt_str (on_expire p)),
      (''escalated_to'', strs (escalated_to p)),
      (''paused_at'', of_opt_str (paused_at p)),
      (''reject_short_circuit'', PBool (reject_short_circuit p)),
      (''require_reason'', PBool (require_reason p)),
      (''recommendation'', of_opt_str (recommendation p)),
      (''clock_source'', PStr (clock_source p)),
      (''expired'', PBool (is_expired p)),
      (''escalated_at'', of_opt_str (escalated_at p))]"

subsection \<open>Reading a pause from the run record\<close>

definition text_list :: "(rat \<Rightarrow> string) \<Rightarrow> pyval \<Rightarrow> string list option" where
  "text_list fr v =
     map_option (List.map (py_str fr)) (py_list (if py_truth v then v else PList []))"

definition vote_from_dict :: "(rat \<Rightarrow> string) \<Rightarrow> pydict \<Rightarrow> vote" where
  "vote_from_dict fr d =
     \<lparr>v_actor = text_or fr (vget d ''actor'') [],
      v_decision = lower (strip (text_or fr (vget d ''decision'') [])),
      v_at = text_or fr (vget d ''at'') [],
      v_role = opt_text fr (vget d ''role''),
      v_reason = opt_text fr (vget d ''reason''),
      v_signature_status = text_or fr (vget d ''signature_status'') ''unsigned'',
      v_delegated_from = opt_text fr (vget d ''delegated_from''),
      v_override = py_truth (vget d ''override'')\<rparr>"

fun votes_from :: "(rat \<Rightarrow> string) \<Rightarrow> pyval list \<Rightarrow> vote list" where
  "votes_from fr [] = []"
| "votes_from fr (x # xs) =
     (case x of PDict d \<Rightarrow> vote_from_dict fr d # votes_from fr xs | _ \<Rightarrow> votes_from fr xs)"

text \<open>A key that is missing or \<open>None\<close> falls back to the node's field.\<close>

definition from_node :: "pyval \<Rightarrow> approval_node option \<Rightarrow> (approval_node \<Rightarrow> pyval) \<Rightarrow> pyval" where
  "from_node v node f = (if v = PNone then (case node of None \<Rightarrow> PNone | Some n \<Rightarrow> f n) else v)"

definition key_or :: "pydict \<Rightarrow> string \<Rightarrow> bool \<Rightarrow> bool" where
  "key_or d k b = (case map_of d k of None \<Rightarrow> b | Some v \<Rightarrow> py_truth v)"

text \<open>
  The fields of \<open>pause_from_pending\<close> that can fail; \<open>None\<close> stands for the \<open>TypeError\<close> or
  \<open>ValueError\<close> of a record whose fields are no numbers or lists.
\<close>

definition pause_required :: "pydict \<Rightarrow> approval_node option \<Rightarrow> int option" where
  "pause_required data node =
     (let required = from_node (vget data ''approvals_required'') node
            (\<lambda>n. of_opt_int (an_approvals_required n))
      in to_int (if required = PNone then PInt 1 else required))"

definition pause_votes :: "(rat \<Rightarrow> string) \<Rightarrow> pydict \<Rightarrow> vote list option" where
  "pause_votes fr data =
     (let votes_raw = vget data ''approvals_received''
      in map_option (votes_from fr) (py_list (if py_truth votes_raw then votes_raw else PList [])))"

definition pause_deny :: "(rat \<Rightarrow> string) \<Rightarrow> pydict \<Rightarrow> approval_node option \<Rightarrow> string list option" where
  "pause_deny fr data node =
     text_list fr (from_node (vget data ''deny_actor'') node (\<lambda>n. strs (an_deny_actor n)))"

definition pause_roles :: "(rat \<Rightarrow> string) \<Rightarrow> pydict \<Rightarrow> approval_node option \<Rightarrow> string list option" where
  "pause_roles fr data node =
     text_list fr (from_node (vget data ''approver_roles'') node (\<lambda>n. strs (an_approver_roles n)))"

definition pause_distinct :: "pydict \<Rightarrow> approval_node option \<Rightarrow> int \<Rightarrow> bool" where
  "pause_distinct data node required =
     (let distinct = from_node (vget data ''distinct_actors'') node
            (\<lambda>n. case an_distinct_actors n of None \<Rightarrow> PNone | Some b \<Rightarrow> PBool b)
      in if distinct = PNone then 1 < required else py_truth distinct)"

definition pause_require :: "(rat \<Rightarrow> string) \<Rightarrow> pydict \<Rightarrow> approval_node option \<Rightarrow> string" where
  "pause_require fr data node =
     (let req = from_node (vget data ''require'') node (\<lambda>n. of_opt_str (an_require n));
          text = lower (strip (text_or fr req ''any''))
      in if text = [] then ''any'' else text)"

definition pause_on_expire :: "(rat \<Rightarrow> string) \<Rightarrow> pydict \<Rightarrow> approval_node option \<Rightarrow> string option" where
  "pause_on_expire fr data node =
     map_option (\<lambda>s. lower (strip s))
       (opt_text fr (from_node (vget data ''on_expire'') node (\<lambda>n. of_opt_str (an_on_expire n))))"

definition pause_recommendation :: "(rat \<Rightarrow> string) \<Rightarrow> pydict \<Rightarrow> approval_node option \<Rightarrow>
    string option" where
  "pause_recommendation fr data node =
     (let rec = vget data ''recommendation''
      in if py_truth rec then Some (py_str fr rec)
         else (case node of None \<Rightarrow> None | Some n \<Rightarrow> an_recommendation n))"

definition pause_from_pending :: "(rat \<Rightarrow> string) \<Rightarrow> pydict \<Rightarrow> approval_node option \<Rightarrow>
    pause_state option" where
  "pause_from_pending fr data node =
     (case (pause_required data node, pause_votes fr data, pause_deny fr data node,
            pause_roles fr data node, text_list fr (vget data ''eligible_actors''),
            text_list fr (vget data ''escalated_to'')) of
        (Some required, Some votes, Some deny, Some roles, Some eligible, Some escalated) \<Rightarrow> Some
          \<lparr>approvals_required = max 1 required,
           approvals_received = votes,
           distinct_actors = pause_distinct data node required,
           deny_actor = deny,
           approver_roles = roles,
           require = pause_require fr data node,
           eligible_actors = eligible,
           expires_at = opt_text fr (vget data ''expires_at''),
           on_expire = pause_on_expire fr data node,
           escalated_to = escalated,
           paused_at = opt_text fr (vget data ''paused_at''),
           reject_short_circuit = key_or data ''reject_short_circuit''
             (case node of None \<Rightarrow> True | Some n \<Rightarrow> an_reject_short_circuit n),
           require_reason = key_or data ''require_reason''
             (case node of None \<Rightarrow> False | Some n \<Rightarrow> an_require_reason n),
           recommendation = pause_recommendation fr data node,
           clock_source = text_or fr (vget data ''clock_source'') ''host'',
           is_expired = py_truth (vget data ''expired''),
           escalated_at = opt_text fr (vget data ''escalated_at'')\<rparr>
      | _ \<Rightarrow> None)"

lemma pause_from_pending_fields:
  assumes "pause_from_pending fr data node = Some p"
  shows "\<exists>k. pause_required data node = Some k \<and> approvals_required p = max 1 k"
    and "pause_votes fr data = Some (approvals_received p)"
    and "pause_deny fr data node = Some (deny_actor p)"
    and "pause_roles fr data node = Some (approver_roles p)"
    and "expires_at p = opt_text fr (vget data ''expires_at'')"
    and "paused_at p = opt_text fr (vget data ''paused_at'')"
    and "escalated_at p = opt_text fr (vget data ''escalated_at'')"
  using assms unfolding pause_from_pending_def by (auto split: option.splits)

definition enterprise_fields_set :: "approval_node option \<Rightarrow> bool" where
  "enterprise_fields_set node =
     (case node of
        None \<Rightarrow> False
      | Some n \<Rightarrow>
          an_approvals_required n \<noteq> None \<or> an_distinct_actors n \<noteq> None \<or> an_deny_actor n \<noteq> [] \<or>
          an_approver_roles n \<noteq> [] \<or> truthy (an_expires_in n) \<or> truthy (an_on_expire n) \<or>
          an_escalate_to n \<noteq> [] \<or> an_require_reason n \<or> an_notify n \<noteq> [] \<or>
          an_require n \<notin> {None, Some ''any''} \<or> truthy (an_recommendation n) \<or>
          \<not> an_reject_short_circuit n)"

definition legacy_pause :: "pydict \<Rightarrow> bool" where
  "legacy_pause pending =
     (map_of pending ''approvals_required'' = None \<and> map_of pending ''approvals_received'' = None)"

section \<open>Evaluation\<close>

definition ON_EXPIRE :: "string list" where
  "ON_EXPIRE = [''reject'', ''escalate'', ''fail'']"

text \<open>The first vote of every actor, in order (lines 325-333).\<close>

fun unique_votes :: "string list \<Rightarrow> vote list \<Rightarrow> vote list" where
  "unique_votes seen [] = []"
| "unique_votes seen (v # vs) =
     (if norm (v_actor v) \<in> set seen then unique_votes seen vs
      else v # unique_votes (norm (v_actor v) # seen) vs)"

definition vote_role_key :: "vote \<Rightarrow> string" where
  "vote_role_key v = norm (if truthy (v_role v) then the (v_role v) else v_actor v)"

definition counted_approvals :: "pause_state \<Rightarrow> vote list" where
  "counted_approvals p =
     (let approves = filter (\<lambda>v. v_decision v = ''approve'') (approvals_received p)
      in if distinct_actors p then unique_votes [] approves else approves)"

definition roles_covered :: "pause_state \<Rightarrow> vote list \<Rightarrow> bool" where
  "roles_covered p approves =
     (\<forall>r \<in> set (approver_roles p). norm r \<in> vote_role_key ` set approves)"

definition expiry_policy :: "pause_state \<Rightarrow> string" where
  "expiry_policy p =
     (let s = lower (strip (if truthy (on_expire p) then the (on_expire p) else ''reject''))
      in if s \<in> set ON_EXPIRE then s else ''reject'')"

definition expired_status :: "pause_state \<Rightarrow> gate_status" where
  "expired_status p =
     (if expiry_policy p = ''escalate'' \<and> \<not> truthy (escalated_at p) then Escalated
      else if expiry_policy p = ''fail'' \<or> (expiry_policy p = ''escalate'' \<and> truthy (escalated_at p))
        then Expired
      else Rejected)"

definition past_deadline :: "time_lib \<Rightarrow> pause_state \<Rightarrow> rat \<Rightarrow> bool" where
  "past_deadline lib p now = (case parse_clock lib (expires_at p) of None \<Rightarrow> False | Some t \<Rightarrow> t \<le> now)"

text \<open>Status and reason of the votes once the deadline does not decide (lines 313-374).\<close>

definition vote_status :: "pause_state \<Rightarrow> gate_status \<times> string option" where
  "vote_status p =
     (let rejects = filter (\<lambda>v. v_decision v = ''reject'') (approvals_received p);
          approves = counted_approvals p
      in if rejects \<noteq> [] \<and> reject_short_circuit p then (Rejected, Some ''rejected'')
      else if require p = ''all'' \<and> approver_roles p \<noteq> [] \<and> \<not> roles_covered p approves then
        (if rejects \<noteq> [] \<and> \<not> reject_short_circuit p then (Rejected, Some ''rejected'') else (Pending, None))
      else if approvals_required p \<le> int (length approves) then (Approved, None)
      else if rejects \<noteq> [] \<and> \<not> reject_short_circuit p \<and>
              approvals_required p \<le> int (length (approvals_received p))
        then (Rejected, Some ''rejected'')
      else (Pending, None))"

definition evaluate_gate :: "time_lib \<Rightarrow> pause_state \<Rightarrow> rat \<Rightarrow> bool \<Rightarrow> gate_outcome" where
  "evaluate_gate lib p now ignore_expiry =
     (let elapsed = map_option (\<lambda>t. max 0 (now - t)) (parse_clock lib (paused_at p));
          (status, reason) =
            (if \<not> ignore_expiry \<and> past_deadline lib p now then (expired_status p, Some ''expired'')
             else vote_status p)
      in \<lparr>go_status = status, go_reason = reason, go_elapsed = elapsed,
          go_expires_at = expires_at p, go_clock_source = clock_source p\<rparr>)"

section \<open>Eligibility and escalation\<close>

definition eligible_labels :: "string list \<Rightarrow> string list" where
  "eligible_labels roles =
     (if roles = [] then [''*''] else List.map (\<lambda>r. ''role:'' @ r) roles)"

definition actor_is_eligible :: "string option \<Rightarrow> pause_state \<Rightarrow> string list \<Rightarrow> string option \<Rightarrow> bool" where
  "actor_is_eligible actor p roles delegated_role =
     (let who = normalize_actor actor;
          held = norm ` set roles \<union> (if truthy delegated_role then {norm (the delegated_role)} else {})
                 \<union> {who}
      in if who = [] then False
         else if who \<in> norm ` set (deny_actor p) then False
         else if approver_roles p = [] \<or> eligible_actors p = [''*''] then True
         else held \<inter> norm ` set (approver_roles p) \<noteq> {})"

definition apply_escalation :: "time_lib \<Rightarrow> rat \<Rightarrow> string list \<Rightarrow> pause_state \<Rightarrow> pause_state" where
  "apply_escalation lib now targets p =
     p\<lparr>escalated_to := targets, escalated_at := Some (tl_format lib now),
       eligible_actors := eligible_labels targets, approver_roles := targets\<rparr>"

text \<open>\<open>expires_at_for\<close>: the outer \<open>None\<close> is the \<open>ConfigError\<close> of an unreadable duration.\<close>

definition expires_at_for :: "time_lib \<Rightarrow> approval_node \<Rightarrow> rat \<Rightarrow> string option option" where
  "expires_at_for lib n paused =
     (if \<not> truthy (an_expires_in n) then Some None
      else map_option (\<lambda>s. Some (tl_format lib (paused + s))) (parse_expires_in (the (an_expires_in n))))"

end
