(* ===== verification/Delegations.thy ===== *)
theory Delegations
  imports Gates
begin

text \<open>
  Delegations of approval authority (\<open>approvals/delegate.py\<close>) and the approvals queue
  (\<open>approvals/queue.py\<close>). The store is the decoded content of \<open>delegations.json\<close>: \<open>None\<close> when
  the file does not exist, else its JSON value; writing it is atomic in the code, so an
  operation here returns the new content. The identifier \<open>uuid4\<close> draws is an argument.
\<close>

section \<open>The store\<close>

record delegation =
  d_id :: string
  d_from :: string
  d_to :: string
  d_until :: string
  d_scope :: "string option"
  d_revoked :: bool
  d_created_at :: string

datatype delegate_error =
    StoreMalformed
  | MissingActor
  | SelfDelegation
  | UntilNotTimestamp
  | UntilNotFuture
  | ChainRefused
  | Overlapping
  | WidensScope
  | DelegationNotFound

type_synonym store = "pyval option"

definition delegation_dict :: "delegation \<Rightarrow> pyval" where
  "delegation_dict d = PDict
     [(''id'', PStr (d_id d)), (''from'', PStr (d_from d)), (''to'', PStr (d_to d)),
      (''until'', PStr (d_until d)), (''scope'', of_opt_str (d_scope d)),
      (''revoked'', PBool (d_revoked d)), (''created_at'', PStr (d_created_at d))]"

definition read_delegation :: "(rat \<Rightarrow> string) \<Rightarrow> pydict \<Rightarrow> delegation" where
  "read_delegation fr row =
     \<lparr>d_id = text_or fr (vget row ''id'') [], d_from = text_or fr (vget row ''from'') [],
      d_to = text_or fr (vget row ''to'') [], d_until = text_or fr (vget row ''until'') [],
      d_scope = opt_text fr (vget row ''scope''), d_revoked = py_truth (vget row ''revoked''),
      d_created_at = text_or fr (vget row ''created_at'') []\<rparr>"

fun read_rows :: "(rat \<Rightarrow> string) \<Rightarrow> pyval list \<Rightarrow> delegate_error + delegation list" where
  "read_rows fr [] = Inr []"
| "read_rows fr (x # xs) =
     (case x of
        PDict row \<Rightarrow> rbind (read_rows fr xs) (\<lambda>ds. Inr (read_delegation fr row # ds))
      | _ \<Rightarrow> Inl StoreMalformed)"

definition STORE_VERSION :: int where "STORE_VERSION = 1"

definition load_delegations :: "(rat \<Rightarrow> string) \<Rightarrow> store \<Rightarrow> delegate_error + delegation list" where
  "load_delegations fr s =
     (case s of
        None \<Rightarrow> Inr []
      | Some (PDict data) \<Rightarrow>
          if \<not> py_eq (vget data ''version'') (PInt STORE_VERSION) then Inl StoreMalformed
          else (case vget data ''items'' of PList items \<Rightarrow> read_rows fr items | _ \<Rightarrow> Inl StoreMalformed)
      | Some _ \<Rightarrow> Inl StoreMalformed)"

definition save_delegations :: "delegation list \<Rightarrow> store" where
  "save_delegations ds =
     Some (PDict [(''version'', PInt STORE_VERSION), (''items'', PList (List.map delegation_dict ds))])"

section \<open>Operations\<close>

definition same_scope :: "string option \<Rightarrow> string option \<Rightarrow> bool" where
  "same_scope l r =
     (if \<not> truthy l \<and> \<not> truthy r then True
      else if \<not> truthy l \<or> \<not> truthy r then False
      else normalize_actor l = normalize_actor r)"

definition active :: "time_lib \<Rightarrow> rat \<Rightarrow> delegation \<Rightarrow> bool" where
  "active lib now d =
     (\<not> d_revoked d \<and> (case parse_clock lib (Some (d_until d)) of None \<Rightarrow> False | Some t \<Rightarrow> now < t))"

text \<open>The checks of lines 150-166 against one stored delegation.\<close>

definition conflict :: "time_lib \<Rightarrow> rat \<Rightarrow> string \<Rightarrow> string \<Rightarrow> string option \<Rightarrow> delegation \<Rightarrow>
    delegate_error option" where
  "conflict lib now source dest scope d =
     (if \<not> active lib now d then None
      else if norm (d_to d) = source then Some ChainRefused
      else if norm (d_from d) = source \<and> norm (d_to d) = dest then
        (if same_scope (d_scope d) scope \<or> d_scope d = None then Some Overlapping
         else if scope = None then Some WidensScope
         else None)
      else None)"

fun first_conflict :: "time_lib \<Rightarrow> rat \<Rightarrow> string \<Rightarrow> string \<Rightarrow> string option \<Rightarrow> delegation list \<Rightarrow>
    delegate_error option" where
  "first_conflict lib now source dest scope [] = None"
| "first_conflict lib now source dest scope (d # ds) =
     (case conflict lib now source dest scope d of
        Some err \<Rightarrow> Some err
      | None \<Rightarrow> first_conflict lib now source dest scope ds)"

definition add_delegation :: "time_lib \<Rightarrow> (rat \<Rightarrow> string) \<Rightarrow> rat \<Rightarrow> string \<Rightarrow>
    string \<Rightarrow> string \<Rightarrow> string \<Rightarrow> string option \<Rightarrow> store \<Rightarrow> delegate_error + store \<times> delegation" where
  "add_delegation lib fr now fresh from_actor to_actor until scope s =
     (let source = strip from_actor; dest = strip to_actor in
      if source = [] \<or> dest = [] then Inl MissingActor
      else if norm source = norm dest then Inl SelfDelegation
      else case parse_clock lib (Some until) of
        None \<Rightarrow> Inl UntilNotTimestamp
      | Some stamp \<Rightarrow>
          if stamp \<le> now then Inl UntilNotFuture
          else rbind (load_delegations fr s) (\<lambda>items.
            let scope' = (if truthy scope then Some (strip (the scope)) else None)
            in case first_conflict lib now (norm source) (norm dest) scope' items of
                 Some err \<Rightarrow> Inl err
               | None \<Rightarrow>
                   (let entry = \<lparr>d_id = fresh, d_from = source, d_to = dest,
                                 d_until = tl_format lib stamp, d_scope = scope',
                                 d_revoked = False, d_created_at = tl_format lib now\<rparr>
                    in Inr (save_delegations (items @ [entry]), entry))))"

fun revoke_first :: "string \<Rightarrow> delegation list \<Rightarrow> (delegation list \<times> delegation) option" where
  "revoke_first token [] = None"
| "revoke_first token (d # ds) =
     (if d_id d = token then Some (d\<lparr>d_revoked := True\<rparr> # ds, d\<lparr>d_revoked := True\<rparr>)
      else map_option (\<lambda>(ds', x). (d # ds', x)) (revoke_first token ds))"

definition revoke_delegation :: "(rat \<Rightarrow> string) \<Rightarrow> string \<Rightarrow> store \<Rightarrow>
    delegate_error + store \<times> delegation" where
  "revoke_delegation fr delegation_id s =
     rbind (load_delegations fr s) (\<lambda>items.
       case revoke_first (strip delegation_id) items of
         None \<Rightarrow> Inl DelegationNotFound
       | Some (items', d) \<Rightarrow> Inr (save_delegations items', d))"

definition grants :: "time_lib \<Rightarrow> rat \<Rightarrow> string \<Rightarrow> string set \<Rightarrow> delegation \<Rightarrow> bool" where
  "grants lib now dest wanted d =
     (\<not> d_revoked d \<and> norm (d_to d) = dest \<and> active lib now d \<and>
      \<not> (truthy (d_scope d) \<and> wanted \<noteq> {} \<and> normalize_actor (d_scope d) \<notin> wanted))"

definition find_delegation :: "time_lib \<Rightarrow> (rat \<Rightarrow> string) \<Rightarrow> rat \<Rightarrow> string option \<Rightarrow> string list \<Rightarrow>
    store \<Rightarrow> delegate_error + delegation option" where
  "find_delegation lib fr now actor roles s =
     (let dest = normalize_actor actor;
          wanted = norm ` set (filter (\<lambda>r. r \<noteq> []) roles)
      in if dest = [] then Inr None
         else rbind (load_delegations fr s) (\<lambda>items. Inr (find (grants lib now dest wanted) items)))"

section \<open>The queue\<close>

text \<open>The fields of a run record the queue reads (\<open>RunState\<close>).\<close>

record queued_run =
  qr_run_id :: string
  qr_workflow :: string
  qr_status :: string
  qr_pending :: pyval
  qr_pending_node :: "string option"

definition pending_type :: "(rat \<Rightarrow> string) \<Rightarrow> pyval \<Rightarrow> string" where
  "pending_type fr pending =
     (case pending of
        PDict d \<Rightarrow> (if vget d ''type'' = PNone then [] else py_str fr (vget d ''type''))
      | _ \<Rightarrow> [])"

definition is_approval_pause :: "(rat \<Rightarrow> string) \<Rightarrow> queued_run \<Rightarrow> bool" where
  "is_approval_pause fr run =
     (qr_status run = ''paused'' \<and> pending_type fr (qr_pending run) = ''approval'')"

definition visible :: "time_lib \<Rightarrow> (rat \<Rightarrow> string) \<Rightarrow> rat \<Rightarrow> store \<Rightarrow> pause_state \<Rightarrow>
    string option \<Rightarrow> string option \<Rightarrow> delegate_error + bool" where
  "visible lib fr now s p actor role =
     (if \<not> truthy actor \<and> \<not> truthy role then Inr True
      else
        (let roles = (if truthy role then [the role] else []) in
         rbind (if truthy actor then find_delegation lib fr now actor (approver_roles p @ roles) s
                else Inr None)
           (\<lambda>grant.
              let delegated = Option.bind grant d_scope;
                  who = (if truthy actor then actor else role)
              in if actor_is_eligible who p roles delegated then Inr True
                 else if truthy role \<and> \<not> truthy actor then
                   (let declared = norm ` set (approver_roles p)
                    in if declared = {} \<or> eligible_actors p = [''*''] then Inr True
                       else Inr (normalize_actor role \<in> declared))
                 else Inr False)))"

record queue_row =
  qw_run_id :: string
  qw_workflow :: string
  qw_node_id :: pyval
  qw_prompt :: pyval
  qw_required :: int
  qw_received :: nat
  qw_eligible :: "string list"
  qw_expires_at :: "string option"
  qw_on_expire :: "string option"
  qw_status :: gate_status
  qw_elapsed :: "rat option"

datatype queue_error = BadDuration | BadPause | QueueStore delegate_error

definition queue_row_of :: "time_lib \<Rightarrow> rat \<Rightarrow> queued_run \<Rightarrow> pydict \<Rightarrow> pause_state \<Rightarrow> queue_row" where
  "queue_row_of lib now run pending p =
     (let outcome = evaluate_gate lib p now False in
      \<lparr>qw_run_id = qr_run_id run, qw_workflow = qr_workflow run,
       qw_node_id = (if py_truth (vget pending ''node_id'') then vget pending ''node_id''
                     else of_opt_str (qr_pending_node run)),
       qw_prompt = (if py_truth (vget pending ''prompt'') then vget pending ''prompt'' else PStr []),
       qw_required = approvals_required p, qw_received = length (approvals_received p),
       qw_eligible = eligible_actors p, qw_expires_at = expires_at p, qw_on_expire = on_expire p,
       qw_status = go_status outcome, qw_elapsed = go_elapsed outcome\<rparr>)"

text \<open>One round of the loop of \<open>list_approvals\<close>: the row of a run, when it is listed.\<close>

definition queue_entry :: "time_lib \<Rightarrow> (rat \<Rightarrow> string) \<Rightarrow> rat \<Rightarrow> store \<Rightarrow> string option \<Rightarrow> string option \<Rightarrow>
    rat option \<Rightarrow> queued_run \<Rightarrow> queue_error + queue_row option" where
  "queue_entry lib fr now s actor role horizon run =
     (if \<not> is_approval_pause fr run then Inr None
      else case qr_pending run of
        PDict pending \<Rightarrow>
          (case pause_from_pending fr pending None of
             None \<Rightarrow> Inl BadPause
           | Some p \<Rightarrow>
               (case visible lib fr now s p actor role of
                  Inl err \<Rightarrow> Inl (QueueStore err)
                | Inr seen \<Rightarrow>
                    if \<not> seen then Inr None
                    else if (case horizon of None \<Rightarrow> False | Some h \<Rightarrow>
                               (case parse_clock lib (expires_at p) of None \<Rightarrow> True | Some t \<Rightarrow> h < t))
                      then Inr None
                    else Inr (Some (queue_row_of lib now run pending p))))
      | _ \<Rightarrow> Inr None)"

fun queue_rows :: "(queued_run \<Rightarrow> queue_error + queue_row option) \<Rightarrow> queued_run list \<Rightarrow>
    queue_error + queue_row list" where
  "queue_rows f [] = Inr []"
| "queue_rows f (run # runs) =
     rbind (f run) (\<lambda>row. rbind (queue_rows f runs) (\<lambda>rows.
       Inr (case row of None \<Rightarrow> rows | Some r \<Rightarrow> r # rows)))"

definition list_approvals :: "time_lib \<Rightarrow> (rat \<Rightarrow> string) \<Rightarrow> rat \<Rightarrow> store \<Rightarrow> string option \<Rightarrow> string option \<Rightarrow>
    string option \<Rightarrow> queued_run list \<Rightarrow> queue_error + queue_row list" where
  "list_approvals lib fr now s actor role expiring_within runs =
     (if truthy expiring_within then
        (case parse_expires_in (the expiring_within) of
           None \<Rightarrow> Inl BadDuration
         | Some d \<Rightarrow> queue_rows (queue_entry lib fr now s actor role (Some (now + d))) runs)
      else queue_rows (queue_entry lib fr now s actor role None) runs)"

end
