(* ===== verification/ApprovalNode.thy ===== *)
theory ApprovalNode
  imports Delegations
begin

text \<open>
  The approval node of \<open>workflow/nodes.py\<close>: the classic one-decision gate, the enterprise gate
  with quorum, expiry, escalation, roles and delegation, the check of the prompt an
  approver has seen, and the pending record the engine keeps when the node pauses the run
  (\<open>workflow/engine.py\<close>). Audit events, persisted records and notifications are appended
  to the world the step works on. The SHA-256 digest of a prompt is the argument \<open>sha\<close>;
  the feedback capture of a node with a \<open>feedback\<close> block is left out.
\<close>

section \<open>Data\<close>

record verified_actor =
  va_identified :: bool
  va_subject :: "string option"
  va_issuer :: "string option"
  va_method :: string
  va_roles :: "string list"

record approval_ctx =
  ac_run_id :: string
  ac_actor :: "string option"
  ac_initiator :: "string option"
  ac_consume_decisions :: bool
  ac_authorizer :: "(string option \<Rightarrow> string \<Rightarrow> string \<Rightarrow> bool) option"
  ac_roles_for :: "(string option \<Rightarrow> string list) option"
  ac_verified :: "verified_actor option"
  ac_vote_reasons :: "(string \<times> string) list"
  ac_signature_status :: string
  ac_store :: store

record approval_world =
  aw_pending :: "pydict"
  aw_pending_node :: "string option"
  aw_decisions :: "(string \<times> string) list"
  aw_persisted :: "pydict list"
  aw_audit :: "(string \<times> pydict) list"
  aw_notified :: "(bool \<times> string list) list"

datatype approval_result =
    Output pydict
  | ApprovalRequired string "pause_state option"
  | ReapprovalRequired string string
  | UnknownDecision string
  | NotAuthorized string
  | GateExpiredError
  | BadPendingRecord
  | BadExpiresIn

definition APPROVE_VALUES :: "string list" where
  "APPROVE_VALUES = [''approve'', ''approved'', ''yes'', ''true'', ''accept'', ''ok'']"

definition REJECT_VALUES :: "string list" where
  "REJECT_VALUES = [''reject'', ''rejected'', ''deny'', ''denied'', ''no'', ''false'']"

section \<open>Effects\<close>

text \<open>An audit event: its name, then run, node and actor, then the fields of its own.\<close>

definition audit :: "approval_node \<Rightarrow> approval_ctx \<Rightarrow> string \<Rightarrow> pydict \<Rightarrow> approval_world \<Rightarrow>
    approval_world" where
  "audit n c action extra w =
     w\<lparr>aw_audit := aw_audit w @
        [(action, [(''run_id'', PStr (ac_run_id c)), (''node_id'', PStr (an_id n)),
                   (''actor'', of_opt_str (ac_actor c))] @ extra)]\<rparr>"

definition refuse :: "approval_node \<Rightarrow> approval_ctx \<Rightarrow> string \<Rightarrow> approval_world \<Rightarrow> approval_world" where
  "refuse n c reason w = audit n c ''decision_refused'' [(''reason'', PStr reason)] w"

text \<open>\<open>dict.update\<close>.\<close>

fun dict_update :: "pydict \<Rightarrow> pydict \<Rightarrow> pydict" where
  "dict_update d [] = d"
| "dict_update d ((k, v) # e) = dict_update (dset k v d) e"

definition persist_pause :: "pause_state \<Rightarrow> approval_world \<Rightarrow> approval_world" where
  "persist_pause p w =
     (let d = dset ''type'' (PStr ''approval'') (dict_update (aw_pending w) (pause_dict p));
          node = (if truthy (aw_pending_node w) then of_opt_str (aw_pending_node w)
                  else vget d ''node_id'');
          d' = dset ''node_id'' node d
      in w\<lparr>aw_pending := d', aw_persisted := aw_persisted w @ [d']\<rparr>)"

definition record_expiry :: "approval_node \<Rightarrow> approval_ctx \<Rightarrow> pause_state \<Rightarrow> gate_outcome \<Rightarrow>
    approval_world \<Rightarrow> approval_world" where
  "record_expiry n c p outcome w =
     audit n c ''gate_expired''
       [(''elapsed_seconds'', of_opt_float (go_elapsed outcome)), (''on_expire'', of_opt_str (on_expire p)),
        (''clock_source'', PStr (clock_source p))]
       (persist_pause (p\<lparr>is_expired := True\<rparr>) w)"

definition notify_enterprise :: "approval_node \<Rightarrow> pause_state \<Rightarrow> bool \<Rightarrow> approval_world \<Rightarrow>
    approval_world" where
  "notify_enterprise n p first w =
     (if an_notify n = [] then w
      else w\<lparr>aw_notified := aw_notified w @ [(first, eligible_actors p)]\<rparr>)"

definition approval_output :: "approval_node \<Rightarrow> approval_ctx \<Rightarrow> string \<Rightarrow> bool \<Rightarrow> pause_state option \<Rightarrow>
    pydict" where
  "approval_output n c prompt approved pause =
     [(''approved'', PBool approved),
      (''decision'', PStr (if approved then ''approve'' else ''reject'')),
      (''prompt'', PStr prompt),
      (''next'', of_opt_str (if approved then (if truthy (an_then n) then an_then n else an_next n)
                             else an_else n)),
      (''actor'', of_opt_str (ac_actor c))]
     @ (case pause of
          None \<Rightarrow> []
        | Some p \<Rightarrow>
            [(''approvals_received'', PList (List.map vote_dict (approvals_received p))),
             (''approvals_required'', PInt (approvals_required p))]
            @ (if list_ex v_override (approvals_received p) then [(''override'', PBool True)] else []))
     @ (case ac_verified c of
          None \<Rightarrow> []
        | Some v \<Rightarrow>
            [(''identified'', PBool (va_identified v)), (''subject'', of_opt_str (va_subject v)),
             (''issuer'', of_opt_str (va_issuer v)), (''method'', PStr (va_method v))])"

section \<open>Decisions\<close>

text \<open>\<open>decision_for\<close>: an empty decision counts as none, and an MCP run consumes what it reads.\<close>

definition decision_for :: "approval_ctx \<Rightarrow> string \<Rightarrow> approval_world \<Rightarrow> string option \<times> approval_world" where
  "decision_for c node w =
     (let value = dget (aw_decisions w) node in
      if truthy value then
        (value, if ac_consume_decisions c then w\<lparr>aw_decisions := AList.delete node (aw_decisions w)\<rparr> else w)
      else (None, w))"

definition check_digest :: "(string \<Rightarrow> string) \<Rightarrow> (rat \<Rightarrow> string) \<Rightarrow> approval_node \<Rightarrow> approval_ctx \<Rightarrow>
    string \<Rightarrow> approval_world \<Rightarrow> approval_world + approval_world \<times> approval_result" where
  "check_digest sha fr n c prompt w =
     (let pending = aw_pending w; expected = vget pending ''prompt_sha256'' in
      if (case dget (aw_decisions w) (an_id n) of None \<Rightarrow> True | Some d \<Rightarrow> d \<notin> set APPROVE_VALUES)
        then Inl w
      else if vget pending ''node_id'' \<noteq> PStr (an_id n) \<or> vget pending ''type'' \<noteq> PStr ''approval''
        then Inl w
      else if \<not> py_truth expected then Inl w
      else if expected = PStr (sha prompt) then Inl w
      else Inr (audit n c ''decision_refused''
                  [(''reason'', PStr ''reapprove_required''), (''expected_sha256'', expected),
                   (''actual_sha256'', PStr (sha prompt))] w,
                ReapprovalRequired (py_str fr expected) (sha prompt)))"

definition identity_fields :: "approval_ctx \<Rightarrow> pydict" where
  "identity_fields c =
     (case ac_verified c of
        None \<Rightarrow> []
      | Some v \<Rightarrow>
          [(''subject'', of_opt_str (va_subject v)), (''issuer'', of_opt_str (va_issuer v)),
           (''method'', PStr (va_method v)), (''identified'', PBool (va_identified v)),
           (''roles'', strs (va_roles v))])"

definition run_classic :: "(string \<Rightarrow> string) \<Rightarrow> approval_node \<Rightarrow> approval_ctx \<Rightarrow> string \<Rightarrow> approval_world \<Rightarrow>
    approval_world \<times> approval_result" where
  "run_classic sha n c prompt w =
     (case decision_for c (an_id n) w of
        (None, w1) \<Rightarrow> (w1, ApprovalRequired prompt None)
      | (Some raw, w1) \<Rightarrow>
          if raw \<notin> set APPROVE_VALUES \<and> raw \<notin> set REJECT_VALUES then (w1, UnknownDecision raw)
          else
            (let approved = (raw \<in> set APPROVE_VALUES);
                 action = (if approved then ''approve'' else ''reject'')
             in if (case ac_authorizer c of None \<Rightarrow> False | Some check \<Rightarrow> \<not> check (ac_actor c) action (an_id n))
                then (w1, NotAuthorized action)
                else (audit n c ''decision''
                        ([(''decision'', PStr action), (''prompt_sha256'', PStr (sha prompt))]
                         @ identity_fields c) w1,
                      Output (approval_output n c prompt approved None))))"

section \<open>The enterprise gate\<close>

definition initiator_names :: "string list" where
  "initiator_names = [''$initiator'', ''initiator'']"

definition bind_initiator :: "string \<Rightarrow> pause_state \<Rightarrow> pause_state" where
  "bind_initiator who p =
     (if who \<noteq> [] \<and> norm who \<notin> norm ` set (deny_actor p)
      then p\<lparr>deny_actor := List.map (\<lambda>item. if norm item \<in> set initiator_names then who else item)
                            (deny_actor p)\<rparr>
      else p)"

definition or_now :: "rat option \<Rightarrow> rat \<Rightarrow> rat" where
  "or_now x now = (case x of None \<Rightarrow> now | Some t \<Rightarrow> t)"

definition fill_eligible :: "approval_node \<Rightarrow> pause_state \<Rightarrow> pause_state" where
  "fill_eligible n p =
     (if eligible_actors p \<noteq> [] then p
      else p\<lparr>eligible_actors :=
        eligible_labels (if escalated_to p \<noteq> [] then escalated_to p else an_approver_roles n)\<rparr>)"

definition fill_on_expire :: "approval_node \<Rightarrow> pause_state \<Rightarrow> pause_state" where
  "fill_on_expire n p =
     (if \<not> truthy (on_expire p) \<and> truthy (an_on_expire n) then p\<lparr>on_expire := an_on_expire n\<rparr> else p)"

definition fill_deny :: "approval_node \<Rightarrow> pause_state \<Rightarrow> pause_state" where
  "fill_deny n p =
     (if an_deny_actor n \<noteq> [] \<and> deny_actor p = [] then p\<lparr>deny_actor := an_deny_actor n\<rparr> else p)"

definition fill_deadline :: "time_lib \<Rightarrow> approval_node \<Rightarrow> rat \<Rightarrow> pause_state \<Rightarrow> pause_state option" where
  "fill_deadline lib n now p =
     (if truthy (expires_at p) then Some p
      else map_option (\<lambda>deadline. p\<lparr>expires_at := deadline\<rparr>)
             (expires_at_for lib n (or_now (parse_clock lib (paused_at p)) now)))"

text \<open>Lines 1128-1152: the pause of the record, completed from the node.\<close>

definition open_pause :: "time_lib \<Rightarrow> (rat \<Rightarrow> string) \<Rightarrow> approval_node \<Rightarrow> approval_ctx \<Rightarrow> rat \<Rightarrow>
    pydict \<Rightarrow> approval_result + pause_state" where
  "open_pause lib fr n c now pending =
     (case pause_from_pending fr (if vget pending ''node_id'' = PStr (an_id n) then pending else []) (Some n) of
        None \<Rightarrow> Inl BadPendingRecord
      | Some p0 \<Rightarrow>
          (let p1 = (if truthy (paused_at p0) then p0 else p0\<lparr>paused_at := Some (tl_format lib now)\<rparr>)
           in case fill_deadline lib n now p1 of
                None \<Rightarrow> Inl BadExpiresIn
              | Some p2 \<Rightarrow>
                  Inr (bind_initiator (case ac_initiator c of None \<Rightarrow> [] | Some s \<Rightarrow> s)
                    (fill_deny n (fill_on_expire n (fill_eligible n p2))))))"

text \<open>Lines 1154-1172: a gate past its deadline is escalated once, on this very touch.\<close>

definition settle_expiry :: "time_lib \<Rightarrow> approval_node \<Rightarrow> approval_ctx \<Rightarrow> rat \<Rightarrow> pause_state \<Rightarrow>
    approval_world \<Rightarrow> pause_state \<times> bool \<times> gate_outcome \<times> approval_world" where
  "settle_expiry lib n c now p w =
     (let outcome = evaluate_gate lib p now False in
      if go_status outcome = Escalated then
        (let targets = (if an_escalate_to n \<noteq> [] then an_escalate_to n else approver_roles p);
             p' = apply_escalation lib now targets p;
             w' = notify_enterprise n p' False
                    (audit n c ''gate_escalated''
                      [(''elapsed_seconds'', of_opt_float (go_elapsed outcome)),
                       (''escalated_to'', strs (escalated_to p')),
                       (''clock_source'', PStr (clock_source p'))]
                      (persist_pause p' w))
         in (p', True, evaluate_gate lib p' now True, w'))
      else (p, False, outcome, w))"

definition held_roles :: "approval_ctx \<Rightarrow> string list" where
  "held_roles c =
     (case ac_verified c of None \<Rightarrow> [] | Some v \<Rightarrow> va_roles v)
     @ (case ac_roles_for c of None \<Rightarrow> [] | Some f \<Rightarrow> f (ac_actor c))"

text \<open>The delegation in force for the voter (lines 1234-1255); a failing lookup counts as none.\<close>

definition voter_grant :: "time_lib \<Rightarrow> (rat \<Rightarrow> string) \<Rightarrow> rat \<Rightarrow> approval_ctx \<Rightarrow> pause_state \<Rightarrow>
    delegation option" where
  "voter_grant lib fr now c p =
     (case find_delegation lib fr now (ac_actor c) (approver_roles p @ held_roles c) (ac_store c) of
        Inl err \<Rightarrow> None
      | Inr g \<Rightarrow> g)"

definition voter_roles :: "approval_ctx \<Rightarrow> pause_state \<Rightarrow> delegation option \<Rightarrow> string list" where
  "voter_roles c p grant =
     held_roles c
     @ (case grant of
          None \<Rightarrow> []
        | Some g \<Rightarrow> if truthy (d_scope g) then [the (d_scope g)] else approver_roles p)"

definition overrides :: "pause_state \<Rightarrow> string \<Rightarrow> bool" where
  "overrides p action =
     (let rec = (if truthy (recommendation p) then lower (strip (the (recommendation p))) else [])
      in rec \<noteq> [] \<and> rec \<noteq> ''none'' \<and> rec \<noteq> action)"

definition cast_vote :: "time_lib \<Rightarrow> rat \<Rightarrow> approval_ctx \<Rightarrow> pause_state \<Rightarrow> delegation option \<Rightarrow>
    string \<Rightarrow> string option \<Rightarrow> vote" where
  "cast_vote lib now c p grant action reason =
     (let roles = voter_roles c p grant;
          declared = norm ` set (approver_roles p);
          delegated = Option.bind grant d_scope;
          matched0 = find (\<lambda>r. norm r \<in> declared) roles;
          matched = (if matched0 = None \<and> truthy delegated \<and> normalize_actor delegated \<in> declared
                     then delegated else matched0)
      in \<lparr>v_actor = (case ac_actor c of None \<Rightarrow> [] | Some s \<Rightarrow> s), v_decision = action,
          v_at = tl_format lib now,
          v_role = (if truthy matched then matched else (case roles of [] \<Rightarrow> None | r # _ \<Rightarrow> Some r)),
          v_reason = (if truthy reason then Some (strip (the reason)) else None),
          v_signature_status = ac_signature_status c,
          v_delegated_from = map_option d_from grant,
          v_override = overrides p action\<rparr>)"

text \<open>Lines 1229-1344: eligibility, the one vote of an actor, the vote recorded.\<close>

definition vote_step :: "(string \<Rightarrow> string) \<Rightarrow> time_lib \<Rightarrow> (rat \<Rightarrow> string) \<Rightarrow> approval_node \<Rightarrow> approval_ctx \<Rightarrow> string \<Rightarrow> rat \<Rightarrow>
    string \<Rightarrow> string option \<Rightarrow> pause_state \<Rightarrow> approval_world \<Rightarrow>
    approval_world \<times> pause_state \<times> approval_result option" where
  "vote_step sha lib fr n c prompt now action reason p w =
     (let grant = voter_grant lib fr now c p;
          roles = voter_roles c p grant
      in if \<not> actor_is_eligible (ac_actor c) p roles (Option.bind grant d_scope)
         then (refuse n c ''ineligible'' w, p, Some (ApprovalRequired prompt (Some p)))
         else case find (\<lambda>v. norm (v_actor v) = normalize_actor (ac_actor c)) (approvals_received p) of
           Some existing \<Rightarrow>
             if v_decision existing \<noteq> action
             then (refuse n c ''duplicate_actor'' w, p, Some (ApprovalRequired prompt (Some p)))
             else (w, p, None)
         | None \<Rightarrow>
             (let vote = cast_vote lib now c p grant action reason;
                  p' = p\<lparr>approvals_received := approvals_received p @ [vote]\<rparr>;
                  w' = audit n c ''decision''
                         [(''decision'', PStr action), (''prompt_sha256'', PStr (sha prompt)),
                          (''delegated_from'', of_opt_str (v_delegated_from vote)),
                          (''override'', PBool (v_override vote)),
                          (''signature_status'', PStr (v_signature_status vote)),
                          (''reason'', of_opt_str (v_reason vote))]
                         (persist_pause p' w)
              in (w', p', None)))"

text \<open>Lines 1346-1364: what the gate says once the vote is in.\<close>

definition conclude :: "time_lib \<Rightarrow> approval_node \<Rightarrow> approval_ctx \<Rightarrow> string \<Rightarrow> rat \<Rightarrow> bool \<Rightarrow> pause_state \<Rightarrow>
    approval_world \<Rightarrow> approval_world \<times> approval_result" where
  "conclude lib n c prompt now just_escalated p w =
     (let outcome = evaluate_gate lib p now just_escalated in
      case go_status outcome of
        Pending \<Rightarrow> (w, ApprovalRequired prompt (Some p))
      | Approved \<Rightarrow> (w, Output (approval_output n c prompt True (Some p)))
      | Escalated \<Rightarrow>
          (let p' = apply_escalation lib now (an_escalate_to n) p
           in (persist_pause p' w, ApprovalRequired prompt (Some p')))
      | Expired \<Rightarrow>
          if go_reason outcome = Some ''expired'' then (record_expiry n c p outcome w, GateExpiredError)
          else (w, Output (approval_output n c prompt False (Some p)))
      | Rejected \<Rightarrow>
          if go_reason outcome = Some ''expired''
          then (record_expiry n c p outcome w,
                Output (approval_output n c prompt False (Some (p\<lparr>is_expired := True\<rparr>))))
          else (w, Output (approval_output n c prompt False (Some p))))"

text \<open>Lines 1186-1364: the decision, its checks, the vote and the outcome.\<close>

definition decide_step :: "(string \<Rightarrow> string) \<Rightarrow> time_lib \<Rightarrow> (rat \<Rightarrow> string) \<Rightarrow> approval_node \<Rightarrow> approval_ctx \<Rightarrow> string \<Rightarrow> rat \<Rightarrow>
    bool \<Rightarrow> pause_state \<Rightarrow> approval_world \<Rightarrow> approval_world \<times> approval_result" where
  "decide_step sha lib fr n c prompt now just_escalated p w =
     (case decision_for c (an_id n) w of
        (None, w1) \<Rightarrow>
          (let w2 = persist_pause p w1
           in (if approvals_received p = [] then notify_enterprise n p True w2 else w2,
               ApprovalRequired prompt (Some p)))
      | (Some raw, w1) \<Rightarrow>
          if raw \<notin> set APPROVE_VALUES \<and> raw \<notin> set REJECT_VALUES then (w1, UnknownDecision raw)
          else
            (let action = (if raw \<in> set APPROVE_VALUES then ''approve'' else ''reject'');
                 reason = dget (ac_vote_reasons c) (an_id n)
             in if (case ac_authorizer c of None \<Rightarrow> False | Some check \<Rightarrow> \<not> check (ac_actor c) action (an_id n))
                then (refuse n c ''unauthorized'' w1, ApprovalRequired prompt (Some p))
                else if require_reason p \<and> \<not> (truthy reason \<and> strip (the reason) \<noteq> [])
                then (refuse n c ''missing_reason'' w1, ApprovalRequired prompt (Some p))
                else (case vote_step sha lib fr n c prompt now action reason p w1 of
                        (w2, p2, Some r) \<Rightarrow> (w2, r)
                      | (w2, p2, None) \<Rightarrow> conclude lib n c prompt now just_escalated p2 w2)))"

definition run_enterprise :: "(string \<Rightarrow> string) \<Rightarrow> time_lib \<Rightarrow> (rat \<Rightarrow> string) \<Rightarrow> approval_node \<Rightarrow> approval_ctx \<Rightarrow> string \<Rightarrow> rat \<Rightarrow>
    approval_world \<Rightarrow> approval_world \<times> approval_result" where
  "run_enterprise sha lib fr n c prompt now w =
     (case open_pause lib fr n c now (aw_pending w) of
        Inl r \<Rightarrow> (w, r)
      | Inr p0 \<Rightarrow>
          (case settle_expiry lib n c now p0 w of (p, just_escalated, outcome, w1) \<Rightarrow>
             (case go_status outcome of
                Expired \<Rightarrow> (record_expiry n c p outcome w1, GateExpiredError)
              | Approved \<Rightarrow> (w1, Output (approval_output n c prompt True (Some p)))
              | Rejected \<Rightarrow>
                  if go_reason outcome = Some ''expired''
                  then (record_expiry n c p outcome w1,
                        Output (approval_output n c prompt False (Some (p\<lparr>is_expired := True\<rparr>))))
                  else (w1, Output (approval_output n c prompt False (Some p)))
              | _ \<Rightarrow> decide_step sha lib fr n c prompt now just_escalated p w1)))"

text \<open>\<open>_run_approval\<close>, after the prompt has been rendered.\<close>

definition run_approval :: "(string \<Rightarrow> string) \<Rightarrow> time_lib \<Rightarrow> (rat \<Rightarrow> string) \<Rightarrow> approval_node \<Rightarrow>
    approval_ctx \<Rightarrow> string \<Rightarrow> rat \<Rightarrow> approval_world \<Rightarrow> approval_world \<times> approval_result" where
  "run_approval sha lib fr n c prompt now w =
     (case check_digest sha fr n c prompt w of
        Inr stop \<Rightarrow> stop
      | Inl w1 \<Rightarrow>
          if enterprise_fields_set (Some n) \<or>
             (vget (aw_pending w1) ''node_id'' = PStr (an_id n) \<and> \<not> legacy_pause (aw_pending w1))
          then run_enterprise sha lib fr n c prompt now w1
          else run_classic sha n c prompt w1)"

text \<open>
  The engine's handler of \<open>ApprovalRequired\<close>: the pending record is rebuilt from the node and
  the exception, with the digest of the prompt just shown, and the pause copied over it.
\<close>

definition pause_run :: "(string \<Rightarrow> string) \<Rightarrow> string \<Rightarrow> approval_node \<Rightarrow> string \<Rightarrow> pause_state option \<Rightarrow>
    approval_world \<Rightarrow> approval_world" where
  "pause_run sha run_id n prompt pause w =
     (let base = [(''node_id'', PStr (an_id n)), (''type'', PStr ''approval''), (''prompt'', PStr prompt),
            (''prompt_sha256'', PStr (sha prompt)), (''then'', of_opt_str (an_then n)),
            (''else'', of_opt_str (an_else n)),
            (''resume'', PStr (''readyagents resume '' @ run_id @ '' --approve '' @ an_id n)),
            (''decide'', PStr (''readyagents decide '' @ run_id @ '' --node '' @ an_id n @
               '' --decision approve''))];
          extra = (case pause of None \<Rightarrow> [] | Some p \<Rightarrow>
                     filter (\<lambda>(k, v). k \<noteq> ''node_id'' \<and> k \<noteq> ''type'') (pause_dict p))
      in w\<lparr>aw_pending := dict_update base extra, aw_pending_node := Some (an_id n)\<rparr>)"

end
