(* ===== verification/ApprovalSafety.thy ===== *)
theory ApprovalSafety
  imports ApprovalNode
begin

text \<open>
  What the approval gates promise: the meaning of an approval (deadline, rejections, roles,
  quorum), one vote per actor in every sequence of resumes, no vote of a denied actor, the
  round trip of a pause through the run record, the check of the prompt, the delegations
  a decision may rest on and the visibility of the queue.
\<close>

section \<open>Counting votes\<close>

abbreviation voters :: "vote list \<Rightarrow> string set" where
  "voters vs \<equiv> (\<lambda>v. norm (v_actor v)) ` set vs"

lemma unique_votes_subset: "set (unique_votes seen vs) \<subseteq> set vs"
  by (induction seen vs rule: unique_votes.induct) auto

lemma unique_votes_voters: "voters (unique_votes seen vs) = voters vs - set seen"
  by (induction seen vs rule: unique_votes.induct) auto

lemma unique_votes_distinct: "distinct (List.map (\<lambda>v. norm (v_actor v)) (unique_votes seen vs))"
proof (induction seen vs rule: unique_votes.induct)
  case (2 seen v vs)
  then show ?case using unique_votes_voters [of "norm (v_actor v) # seen" vs] by auto
qed simp

lemma unique_votes_length: "length (unique_votes [] vs) = card (voters vs)"
  using distinct_card [OF unique_votes_distinct [of "[]" vs]] unique_votes_voters [of "[]" vs]
  by simp

definition approvals :: "pause_state \<Rightarrow> vote list" where
  "approvals p = filter (\<lambda>v. v_decision v = ''approve'') (approvals_received p)"

lemma length_counted:
  "length (counted_approvals p) = (if distinct_actors p then card (voters (approvals p)) else length (approvals p))"
  by (simp add: counted_approvals_def approvals_def unique_votes_length)

lemma set_counted: "set (counted_approvals p) \<subseteq> set (approvals p)"
  by (auto simp: counted_approvals_def approvals_def Let_def dest!: subsetD [OF unique_votes_subset])

lemma filter_rejects [simp]:
  "filter (\<lambda>v. v_decision v = ''reject'') vs \<noteq> [] \<longleftrightarrow> (\<exists>v \<in> set vs. v_decision v = ''reject'')"
  "filter (\<lambda>v. v_decision v = ''reject'') vs = [] \<longleftrightarrow> (\<forall>v \<in> set vs. v_decision v \<noteq> ''reject'')"
  by (auto simp: filter_empty_conv)

lemma vote_status_Approved:
  "fst (vote_status p) = Approved \<longleftrightarrow>
     \<not> (reject_short_circuit p \<and> (\<exists>v \<in> set (approvals_received p). v_decision v = ''reject'')) \<and>
     (require p = ''all'' \<and> approver_roles p \<noteq> [] \<longrightarrow> roles_covered p (counted_approvals p)) \<and>
     approvals_required p \<le> int (length (counted_approvals p))"
  by (auto simp: vote_status_def Let_def)

lemma expired_status_not_approved: "expired_status p \<noteq> Approved" "expired_status p \<noteq> Pending"
  by (auto simp: expired_status_def)

lemma gate_status_cases:
  "go_status (evaluate_gate lib p now ig) =
     (if \<not> ig \<and> past_deadline lib p now then expired_status p else fst (vote_status p))"
  by (auto simp: evaluate_gate_def Let_def split: prod.split)

lemma gate_reason_cases:
  "go_reason (evaluate_gate lib p now ig) =
     (if \<not> ig \<and> past_deadline lib p now then Some ''expired'' else snd (vote_status p))"
  by (auto simp: evaluate_gate_def Let_def split: prod.split)

text \<open>
  C26. A gate is approved exactly when its deadline has not passed, no vote rejected it under
  the short circuit, every declared role is covered where all are required, and enough
  approvals came in, counted by distinct normalized actors where actors must be distinct.
\<close>

theorem gate_approved_iff:
  "go_status (evaluate_gate lib p now ig) = Approved \<longleftrightarrow>
     (ig \<or> \<not> past_deadline lib p now) \<and>
     \<not> (reject_short_circuit p \<and> (\<exists>v \<in> set (approvals_received p). v_decision v = ''reject'')) \<and>
     (require p = ''all'' \<and> approver_roles p \<noteq> [] \<longrightarrow> roles_covered p (counted_approvals p)) \<and>
     approvals_required p \<le>
       int (if distinct_actors p then card (voters (approvals p)) else length (approvals p))"
  unfolding gate_status_cases
  using vote_status_Approved [of p] expired_status_not_approved [of p]
  by (simp add: length_counted)

section \<open>Reading back a pause\<close>

definition opt_ok :: "string option \<Rightarrow> bool" where
  "opt_ok x = (x \<noteq> Some [])"

definition vote_ok :: "vote \<Rightarrow> bool" where
  "vote_ok v =
     (lower (strip (v_decision v)) = v_decision v \<and> opt_ok (v_role v) \<and> opt_ok (v_reason v) \<and>
      v_signature_status v \<noteq> [] \<and> opt_ok (v_delegated_from v))"

lemma opt_text_of_opt_str [simp]: "opt_ok x \<Longrightarrow> opt_text fr (of_opt_str x) = x"
  by (auto simp: opt_text_def of_opt_str_def opt_ok_def split: option.split)

lemma text_list_strs [simp]: "text_list fr (strs xs) = Some xs"
proof -
  have "py_str fr \<circ> PStr = id" by (rule ext) simp
  then show ?thesis by (auto simp: text_list_def strs_def)
qed

lemma vote_roundtrip: "vote_ok v \<Longrightarrow> \<exists>d. vote_dict v = PDict d \<and> vote_from_dict fr d = v"
  by (cases v) (auto simp: vote_dict_def vote_from_dict_def vote_ok_def)

lemma votes_roundtrip: "\<forall>v \<in> set vs. vote_ok v \<Longrightarrow> votes_from fr (List.map vote_dict vs) = vs"
proof (induction vs)
  case (Cons v vs)
  then show ?case using vote_roundtrip [of v fr] by auto
qed simp

lemma strs_not_None [simp]: "strs xs \<noteq> PNone"
  by (simp add: strs_def)

text \<open>The pauses the gate keeps: normalized texts, and nothing the node would fill in again.\<close>

definition pause_ok :: "approval_node option \<Rightarrow> pause_state \<Rightarrow> bool" where
  "pause_ok node p =
     (1 \<le> approvals_required p \<and> (\<forall>v \<in> set (approvals_received p). vote_ok v) \<and>
      require p \<noteq> [] \<and> lower (strip (require p)) = require p \<and>
      opt_ok (expires_at p) \<and> opt_ok (paused_at p) \<and> opt_ok (escalated_at p) \<and> clock_source p \<noteq> [] \<and>
      (case on_expire p of
         None \<Rightarrow> (case node of None \<Rightarrow> True | Some n \<Rightarrow> \<not> truthy (an_on_expire n))
       | Some s \<Rightarrow> s \<noteq> [] \<and> lower (strip s) = s) \<and>
      (truthy (recommendation p) \<or>
       recommendation p = (case node of None \<Rightarrow> None | Some n \<Rightarrow> an_recommendation n)))"

lemma vget_pause_dict:
  "vget (pause_dict p) ''approvals_required'' = PInt (approvals_required p)"
  "vget (pause_dict p) ''approvals_received'' = PList (List.map vote_dict (approvals_received p))"
  "vget (pause_dict p) ''distinct_actors'' = PBool (distinct_actors p)"
  "vget (pause_dict p) ''deny_actor'' = strs (deny_actor p)"
  "vget (pause_dict p) ''approver_roles'' = strs (approver_roles p)"
  "vget (pause_dict p) ''require'' = PStr (require p)"
  "vget (pause_dict p) ''eligible_actors'' = strs (eligible_actors p)"
  "vget (pause_dict p) ''expires_at'' = of_opt_str (expires_at p)"
  "vget (pause_dict p) ''on_expire'' = of_opt_str (on_expire p)"
  "vget (pause_dict p) ''escalated_to'' = strs (escalated_to p)"
  "vget (pause_dict p) ''paused_at'' = of_opt_str (paused_at p)"
  "vget (pause_dict p) ''recommendation'' = of_opt_str (recommendation p)"
  "vget (pause_dict p) ''clock_source'' = PStr (clock_source p)"
  "vget (pause_dict p) ''expired'' = PBool (is_expired p)"
  "vget (pause_dict p) ''escalated_at'' = of_opt_str (escalated_at p)"
  "key_or (pause_dict p) ''reject_short_circuit'' b = reject_short_circuit p"
  "key_or (pause_dict p) ''require_reason'' b = require_reason p"
  by (simp_all add: pause_dict_def key_or_def)

text \<open>
  A pause written to the run record and read back on resume is the same pause: votes,
  quorum, deadline, escalation and flags survive the pause of the process.
\<close>

theorem pause_roundtrip:
  assumes "pause_ok node p"
  shows "pause_from_pending fr (pause_dict p) node = Some p"
proof -
  have votes: "pause_votes fr (pause_dict p) = Some (approvals_received p)"
    using assms votes_roundtrip [of "approvals_received p" fr]
    by (auto simp: pause_ok_def pause_votes_def vget_pause_dict Let_def)
  have expire: "pause_on_expire fr (pause_dict p) node = on_expire p"
    using assms
    by (cases "on_expire p"; cases node; cases "an_on_expire (the node)")
      (auto simp: pause_on_expire_def vget_pause_dict pause_ok_def from_node_def opt_text_def)
  have recd: "pause_recommendation fr (pause_dict p) node = recommendation p"
    using assms
    by (cases "recommendation p") (auto simp: pause_recommendation_def vget_pause_dict pause_ok_def)
  have rest: "pause_required (pause_dict p) node = Some (approvals_required p)"
    "pause_deny fr (pause_dict p) node = Some (deny_actor p)"
    "pause_roles fr (pause_dict p) node = Some (approver_roles p)"
    "pause_distinct (pause_dict p) node k = distinct_actors p" for k
    by (simp_all add: pause_required_def pause_deny_def pause_roles_def pause_distinct_def
        vget_pause_dict from_node_def)
  have req: "pause_require fr (pause_dict p) node = require p"
  proof -
    have "lower (strip (require p)) = require p" "require p \<noteq> []"
      using assms by (simp_all add: pause_ok_def)
    moreover from this have "strip (require p) \<noteq> []" by (metis lower_Nil)
    ultimately show ?thesis by (simp add: pause_require_def vget_pause_dict from_node_def)
  qed
  have "max 1 (approvals_required p) = approvals_required p" using assms by (simp add: pause_ok_def)
  then show ?thesis
    using assms unfolding pause_from_pending_def votes expire recd rest req vget_pause_dict text_list_strs
    by (simp add: pause_ok_def)
qed

section \<open>The gate over many resumes\<close>

lemma map_of_dict_update:
  "map_of (dict_update d e) k = (case map_of (rev e) k of Some v \<Rightarrow> Some v | None \<Rightarrow> map_of d k)"
  by (induction d e rule: dict_update.induct) (auto simp: map_add_def split: option.splits)

lemma vget_dict_update:
  "vget (dict_update d e) k = (case map_of (rev e) k of Some v \<Rightarrow> v | None \<Rightarrow> vget d k)"
  by (simp add: vget_def map_of_dict_update split: option.splits)

definition denied_actors :: "approval_node \<Rightarrow> string set" where
  "denied_actors n = norm ` set (an_deny_actor n) - set initiator_names"

definition quorum :: "approval_node \<Rightarrow> int" where
  "quorum n = max 1 (case an_approvals_required n of None \<Rightarrow> 1 | Some k \<Rightarrow> k)"

definition votes_ok :: "approval_node \<Rightarrow> vote list \<Rightarrow> bool" where
  "votes_ok n vs =
     (distinct (List.map (\<lambda>v. norm (v_actor v)) vs) \<and>
      (\<forall>v \<in> set vs. norm (v_actor v) \<noteq> [] \<and> norm (v_actor v) \<notin> denied_actors n \<and>
         v_decision v \<in> {''approve'', ''reject''}))"

definition pause_inv :: "approval_node \<Rightarrow> pause_state \<Rightarrow> bool" where
  "pause_inv n p =
     (votes_ok n (approvals_received p) \<and> denied_actors n \<subseteq> norm ` set (deny_actor p) \<and>
      approvals_required p = quorum n)"

definition pending_inv :: "approval_node \<Rightarrow> pydict \<Rightarrow> bool" where
  "pending_inv n d =
     ((vget d ''approvals_received'' = PNone \<or>
       (\<exists>vs. vget d ''approvals_received'' = PList (List.map vote_dict vs) \<and> votes_ok n vs)) \<and>
      (vget d ''deny_actor'' = PNone \<or>
       (\<exists>xs. vget d ''deny_actor'' = strs xs \<and> denied_actors n \<subseteq> norm ` set xs)) \<and>
      vget d ''approvals_required'' \<in> {PNone, PInt (quorum n)})"

lemma vote_dict_read:
  "\<exists>d. vote_dict v = PDict d \<and> v_actor (vote_from_dict fr d) = v_actor v \<and>
     v_decision (vote_from_dict fr d) = lower (strip (v_decision v))"
  by (cases v) (auto simp: vote_dict_def vote_from_dict_def)

lemma votes_ok_read: "votes_ok n vs \<Longrightarrow> votes_ok n (votes_from fr (List.map vote_dict vs))"
proof (induction vs)
  case (Cons v vs)
  obtain d where d: "vote_dict v = PDict d" "v_actor (vote_from_dict fr d) = v_actor v"
    "v_decision (vote_from_dict fr d) = lower (strip (v_decision v))"
    using vote_dict_read [of v fr] by blast
  have actors: "List.map v_actor (votes_from fr (List.map vote_dict us)) = List.map v_actor us" for us
  proof (induction us)
    case (Cons u us)
    then show ?case using vote_dict_read [of u fr] by auto
  qed simp
  have vo: "voters us = norm ` set (List.map v_actor us)" for us by auto
  have "voters (votes_from fr (List.map vote_dict vs)) = voters vs"
    unfolding vo actors ..
  moreover have "lower (strip (v_decision v)) \<in> {''approve'', ''reject''}"
    if "v_decision v \<in> {''approve'', ''reject''}"
    using that by (auto simp: lower_def lower_char_def is_upper_def strip_def lstrip_def rstrip_def is_space_def)
  moreover have "votes_from fr (List.map vote_dict (v # vs))
      = vote_from_dict fr d # votes_from fr (List.map vote_dict vs)" by (simp add: d(1))
  moreover have "votes_ok n vs" "norm (v_actor v) \<notin> voters vs" "norm (v_actor v) \<noteq> []"
    "norm (v_actor v) \<notin> denied_actors n" "v_decision v \<in> {''approve'', ''reject''}"
    using Cons.prems unfolding votes_ok_def by simp_all
  ultimately show ?case using Cons.IH d(2,3) by (simp add: votes_ok_def)
qed simp

lemma pause_inv_read:
  assumes "pending_inv n d" "pause_from_pending fr d (Some n) = Some p"
  shows "votes_ok n (approvals_received p)" "approvals_required p = quorum n"
    "denied_actors n \<subseteq> norm ` set (deny_actor p)"
proof -
  note f = pause_from_pending_fields [OF assms(2)]
  show "votes_ok n (approvals_received p)"
  proof (cases "vget d ''approvals_received'' = PNone")
    case True
    then show ?thesis using f(2) by (simp add: pause_votes_def votes_ok_def)
  next
    case False
    then obtain vs where vs: "vget d ''approvals_received'' = PList (List.map vote_dict vs)" "votes_ok n vs"
      using assms(1) unfolding pending_inv_def by blast
    have "approvals_received p = votes_from fr (List.map vote_dict vs)"
      using f(2) by (cases vs) (simp_all add: pause_votes_def vs(1))
    with votes_ok_read [OF vs(2)] show ?thesis by simp
  qed
  obtain k where k: "pause_required d (Some n) = Some k" "approvals_required p = max 1 k"
    using f(1) by blast
  show "approvals_required p = quorum n"
  proof (cases "vget d ''approvals_required'' = PNone")
    case True
    then show ?thesis using k
      by (cases "an_approvals_required n")
        (simp_all add: pause_required_def quorum_def from_node_def of_opt_int_def)
  next
    case False
    then have "vget d ''approvals_required'' = PInt (quorum n)"
      using assms(1) unfolding pending_inv_def by blast
    then show ?thesis using k by (simp add: pause_required_def from_node_def quorum_def)
  qed
  show "denied_actors n \<subseteq> norm ` set (deny_actor p)"
  proof (cases "vget d ''deny_actor'' = PNone")
    case True
    then show ?thesis using f(3) by (auto simp: pause_deny_def from_node_def denied_actors_def)
  next
    case False
    then obtain xs where "vget d ''deny_actor'' = strs xs" "denied_actors n \<subseteq> norm ` set xs"
      using assms(1) unfolding pending_inv_def by blast
    then show ?thesis using f(3) by (simp add: pause_deny_def from_node_def)
  qed
qed

lemma pending_inv_pause:
  assumes "pause_inv n p"
    and "vget d ''approvals_received'' = vget (pause_dict p) ''approvals_received''"
    and "vget d ''deny_actor'' = vget (pause_dict p) ''deny_actor''"
    and "vget d ''approvals_required'' = vget (pause_dict p) ''approvals_required''"
  shows "pending_inv n d"
  using assms unfolding pending_inv_def pause_inv_def vget_pause_dict by auto

lemma persist_pause_inv: "pause_inv n p \<Longrightarrow> pending_inv n (aw_pending (persist_pause p w))"
  by (rule pending_inv_pause)
    (simp_all add: persist_pause_def Let_def vget_dict_update pause_dict_def)

lemma pause_run_inv:
  "(\<And>p. pause = Some p \<Longrightarrow> pause_inv n p) \<Longrightarrow> pending_inv n (aw_pending (pause_run sha rid n prompt pause w))"
proof (cases pause)
  case None
  then show ?thesis by (simp add: pause_run_def pending_inv_def)
next
  case (Some p)
  assume "\<And>p. pause = Some p \<Longrightarrow> pause_inv n p"
  then have "pause_inv n p" using Some by simp
  then show ?thesis
    by (rule pending_inv_pause) (simp_all add: Some pause_run_def vget_dict_update pause_dict_def)
qed

lemma world_frames [simp]:
  "aw_pending (audit n c a extra w) = aw_pending w"
  "aw_pending (refuse n c a w) = aw_pending w"
  "aw_pending (notify_enterprise n p first w) = aw_pending w"
  by (simp_all add: audit_def refuse_def notify_enterprise_def)

lemma decision_for_pending: "decision_for c k w = (v, w') \<Longrightarrow> aw_pending w' = aw_pending w"
  by (auto simp: decision_for_def Let_def split: if_splits)

lemma pause_inv_cong:
  "approvals_received q = approvals_received p \<Longrightarrow> deny_actor q = deny_actor p \<Longrightarrow>
     approvals_required q = approvals_required p \<Longrightarrow> pause_inv n q = pause_inv n p"
  by (simp add: pause_inv_def)

lemma pause_inv_escalation [simp]: "pause_inv n (apply_escalation lib now ts p) = pause_inv n p"
  by (rule pause_inv_cong) (simp_all add: apply_escalation_def)

lemma pause_inv_expired [simp]: "pause_inv n (p\<lparr>is_expired := b\<rparr>) = pause_inv n p"
  by (rule pause_inv_cong) simp_all

lemma bind_initiator_inv: "pause_inv n p \<Longrightarrow> pause_inv n (bind_initiator who p)"
  by (auto simp: pause_inv_def bind_initiator_def denied_actors_def)

lemma fill_frames [simp]:
  "approvals_received (fill_eligible n p) = approvals_received p"
  "approvals_required (fill_eligible n p) = approvals_required p"
  "deny_actor (fill_eligible n p) = deny_actor p"
  "approvals_received (fill_on_expire n p) = approvals_received p"
  "approvals_required (fill_on_expire n p) = approvals_required p"
  "deny_actor (fill_on_expire n p) = deny_actor p"
  by (simp_all add: fill_eligible_def fill_on_expire_def)

lemma fill_deny_inv: "pause_inv n p \<Longrightarrow> pause_inv n (fill_deny n p)"
  by (auto simp: pause_inv_def fill_deny_def denied_actors_def)

lemma fill_deadline_inv: "fill_deadline lib n now p = Some q \<Longrightarrow> pause_inv n q = pause_inv n p"
  by (auto simp: fill_deadline_def pause_inv_def split: if_splits)

lemma pause_inv_start [simp]: "pause_inv n (p\<lparr>paused_at := x\<rparr>) = pause_inv n p"
  by (rule pause_inv_cong) simp_all

lemma open_pause_inv:
  assumes "pending_inv n pending" "open_pause lib fr n c now pending = Inr p"
  shows "pause_inv n p"
proof -
  let ?d = "if vget pending ''node_id'' = PStr (an_id n) then pending else []"
  have d: "pending_inv n ?d" using assms(1) by (simp add: pending_inv_def)
  obtain p0 where p0: "pause_from_pending fr ?d (Some n) = Some p0"
    using assms(2) by (cases "pause_from_pending fr ?d (Some n)") (simp_all add: open_pause_def)
  have inv0: "pause_inv n p0" using pause_inv_read [OF d p0] by (simp add: pause_inv_def)
  let ?p1 = "if truthy (paused_at p0) then p0 else p0\<lparr>paused_at := Some (tl_format lib now)\<rparr>"
  obtain p2 where p2: "fill_deadline lib n now ?p1 = Some p2"
    and p: "p = bind_initiator (case ac_initiator c of None \<Rightarrow> [] | Some s \<Rightarrow> s)
      (fill_deny n (fill_on_expire n (fill_eligible n p2)))"
    using assms(2) unfolding open_pause_def p0 Let_def option.case
    by (cases "fill_deadline lib n now ?p1") simp_all
  have "pause_inv n p2" using fill_deadline_inv [OF p2] inv0 by (simp split: if_splits)
  then have "pause_inv n (fill_on_expire n (fill_eligible n p2))"
    by (subst pause_inv_cong [of _ p2]) simp_all
  then show ?thesis unfolding p by (intro bind_initiator_inv fill_deny_inv)
qed

lemma settle_expiry_inv:
  assumes "settle_expiry lib n c now p w = (p', je, outcome, w')" "pause_inv n p"
    "pending_inv n (aw_pending w)"
  shows "pause_inv n p' \<and> pending_inv n (aw_pending w') \<and> outcome = evaluate_gate lib p' now je"
  using assms by (auto simp: settle_expiry_def Let_def persist_pause_inv split: if_splits)

lemma eligible_voter:
  "actor_is_eligible actor p roles del \<Longrightarrow>
     normalize_actor actor \<noteq> [] \<and> normalize_actor actor \<notin> norm ` set (deny_actor p)"
  by (auto simp: actor_is_eligible_def Let_def split: if_splits)

lemma vote_step_inv:
  assumes "vote_step sha lib fr n c prompt now action reason p w = (w', p', r)"
    and "pause_inv n p" "pending_inv n (aw_pending w)" "action \<in> {''approve'', ''reject''}"
  shows "pause_inv n p' \<and> pending_inv n (aw_pending w') \<and>
    (\<forall>x. r = Some x \<longrightarrow> x = ApprovalRequired prompt (Some p))"
proof -
  let ?g = "voter_grant lib fr now c p"
  let ?me = "normalize_actor (ac_actor c)"
  let ?old = "find (\<lambda>v. norm (v_actor v) = ?me) (approvals_received p)"
  let ?vote = "cast_vote lib now c p ?g action reason"
  let ?p' = "p\<lparr>approvals_received := approvals_received p @ [?vote]\<rparr>"
  show ?thesis
  proof (cases "actor_is_eligible (ac_actor c) p (voter_roles c p ?g) (Option.bind ?g d_scope)")
    case False
    then show ?thesis using assms by (auto simp: vote_step_def)
  next
    case True
    show ?thesis
    proof (cases ?old)
      case (Some e)
      then show ?thesis using assms True by (auto simp: vote_step_def split: if_splits)
    next
      case None
      have who: "norm (v_actor ?vote) = ?me" "v_decision ?vote = action"
        by (simp_all add: cast_vote_def Let_def normalize_actor_def split: option.split)
      have "?me \<notin> voters (approvals_received p)" using None by (auto simp: find_None_iff)
      then have "pause_inv n ?p'"
        using assms(2,4) eligible_voter [OF True] who
        by (auto simp: pause_inv_def votes_ok_def)
      moreover have "p' = ?p' \<and> r = None \<and> aw_pending w' = aw_pending (persist_pause ?p' w)"
        using assms(1) True None by (auto simp: vote_step_def Let_def)
      ultimately show ?thesis using persist_pause_inv by auto
    qed
  qed
qed

text \<open>What a result of the node says of the votes behind it.\<close>

definition result_inv :: "time_lib \<Rightarrow> rat \<Rightarrow> approval_node \<Rightarrow> approval_result \<Rightarrow> bool" where
  "result_inv lib now n r =
     ((\<forall>prompt p. r = ApprovalRequired prompt (Some p) \<longrightarrow> pause_inv n p) \<and>
      (\<forall>out. r = Output out \<longrightarrow> dget out ''approved'' = Some (PBool True) \<longrightarrow>
        (\<exists>p je. pause_inv n p \<and> go_status (evaluate_gate lib p now je) = Approved \<and>
           dget out ''approvals_received'' = Some (PList (List.map vote_dict (approvals_received p))))))"

lemma approval_output_fields [simp]:
  "dget (approval_output n c prompt b pause) ''approved'' = Some (PBool b)"
  "dget (approval_output n c prompt b (Some p)) ''approvals_received'' =
     Some (PList (List.map vote_dict (approvals_received p)))"
  by (simp_all add: approval_output_def)

lemma result_inv_simps [simp]:
  "result_inv lib now n (ApprovalRequired prompt (Some p)) = pause_inv n p"
  "result_inv lib now n (ApprovalRequired prompt None)"
  "result_inv lib now n (Output (approval_output n c prompt False pause))"
  "result_inv lib now n (UnknownDecision raw)"
  "result_inv lib now n (NotAuthorized raw)"
  "result_inv lib now n (ReapprovalRequired x y)"
  "result_inv lib now n GateExpiredError"
  "result_inv lib now n BadPendingRecord"
  "result_inv lib now n BadExpiresIn"
  by (simp_all add: result_inv_def)

lemma result_inv_approved:
  "pause_inv n p \<Longrightarrow> go_status (evaluate_gate lib p now je) = Approved \<Longrightarrow>
     result_inv lib now n (Output (approval_output n c prompt True (Some p)))"
  unfolding result_inv_def by auto

lemma record_expiry_inv: "pause_inv n p \<Longrightarrow> pending_inv n (aw_pending (record_expiry n c p outcome w))"
  by (simp add: record_expiry_def persist_pause_inv)

lemma conclude_inv:
  assumes "conclude lib n c prompt now je p w = (w', r)" "pause_inv n p" "pending_inv n (aw_pending w)"
  shows "pending_inv n (aw_pending w') \<and> result_inv lib now n r"
  using assms result_inv_approved [OF assms(2), of lib now je]
  unfolding conclude_def Let_def
  by (auto simp: persist_pause_inv record_expiry_inv split: gate_status.splits if_splits)

lemma decide_step_inv:
  assumes "decide_step sha lib fr n c prompt now je p w = (w', r)" "pause_inv n p"
    "pending_inv n (aw_pending w)"
  shows "pending_inv n (aw_pending w') \<and> result_inv lib now n r"
proof -
  obtain d w1 where d: "decision_for c (an_id n) w = (d, w1)" by (cases "decision_for c (an_id n) w")
  have w1: "pending_inv n (aw_pending w1)" using decision_for_pending [OF d] assms(3) by simp
  show ?thesis
  proof (cases d)
    case None
    then show ?thesis using assms(1,2) d
      by (auto simp: decide_step_def Let_def persist_pause_inv)
  next
    case (Some raw)
    let ?action = "if raw \<in> set APPROVE_VALUES then ''approve'' else ''reject''"
    let ?reason = "dget (ac_vote_reasons c) (an_id n)"
    obtain w2 p2 r2 where v: "vote_step sha lib fr n c prompt now ?action ?reason p w1 = (w2, p2, r2)"
      by (cases "vote_step sha lib fr n c prompt now ?action ?reason p w1") auto
    have v2: "pause_inv n p2" "pending_inv n (aw_pending w2)" "\<forall>x. r2 = Some x \<longrightarrow> x = ApprovalRequired prompt (Some p)"
      using vote_step_inv [OF v assms(2) w1] by simp_all
    let ?unauth = "case ac_authorizer c of None \<Rightarrow> False | Some check \<Rightarrow> \<not> check (ac_actor c) ?action (an_id n)"
    let ?mute = "require_reason p \<and> \<not> (truthy ?reason \<and> strip (the ?reason) \<noteq> [])"
    have step: "(w', r) = (if raw \<notin> set APPROVE_VALUES \<and> raw \<notin> set REJECT_VALUES then (w1, UnknownDecision raw)
        else if ?unauth then (refuse n c ''unauthorized'' w1, ApprovalRequired prompt (Some p))
        else if ?mute then (refuse n c ''missing_reason'' w1, ApprovalRequired prompt (Some p))
        else (case r2 of Some x \<Rightarrow> (w2, x) | None \<Rightarrow> conclude lib n c prompt now je p2 w2))"
      using assms(1) unfolding decide_step_def d Some Let_def prod.case option.case v by (cases r2) simp_all
    have last: "pending_inv n (aw_pending w') \<and> result_inv lib now n r"
      if "(w', r) = (case r2 of Some x \<Rightarrow> (w2, x) | None \<Rightarrow> conclude lib n c prompt now je p2 w2)"
      using that v2 conclude_inv [of lib n c prompt now je p2 w2 w' r] assms(2) by (cases r2) auto
    show ?thesis
    proof (cases "raw \<notin> set APPROVE_VALUES \<and> raw \<notin> set REJECT_VALUES")
      case True
      then show ?thesis using step w1 by simp
    next
      case known: False
      show ?thesis
      proof (cases "?unauth \<or> ?mute")
        case True
        then have "aw_pending w' = aw_pending w1 \<and> r = ApprovalRequired prompt (Some p)"
          using step known by (simp split: if_splits)
        then show ?thesis using w1 assms(2) by simp
      next
        case False
        then have u: "\<not> ?unauth" and m: "\<not> ?mute" by blast+
        show ?thesis
          by (rule last) (rule step [unfolded if_not_P [OF known] if_not_P [OF u] if_not_P [OF m]])
      qed
    qed
  qed
qed

lemma run_enterprise_inv:
  assumes "run_enterprise sha lib fr n c prompt now w = (w', r)" "pending_inv n (aw_pending w)"
  shows "pending_inv n (aw_pending w') \<and> result_inv lib now n r"
proof (cases "open_pause lib fr n c now (aw_pending w)")
  case (Inl x)
  then have "x = BadPendingRecord \<or> x = BadExpiresIn"
    by (auto simp: open_pause_def Let_def split: option.splits)
  with Inl show ?thesis using assms by (auto simp: run_enterprise_def)
next
  case (Inr p0)
  obtain p je outcome w1 where s: "settle_expiry lib n c now p0 w = (p, je, outcome, w1)"
    by (cases "settle_expiry lib n c now p0 w") auto
  note inv = settle_expiry_inv [OF s open_pause_inv [OF assms(2) Inr] assms(2)]
  show ?thesis
    using assms(1) inv decide_step_inv [of sha lib fr n c prompt now je p w1 w' r]
      result_inv_approved [of n p lib now je]
    unfolding run_enterprise_def Inr s sum.case prod.case
    by (auto simp: record_expiry_inv split: gate_status.splits if_splits)
qed

lemma check_digest_pending:
  "check_digest sha fr n c prompt w = Inl w1 \<Longrightarrow> w1 = w"
  "check_digest sha fr n c prompt w = Inr (w1, r) \<Longrightarrow>
     aw_pending w1 = aw_pending w \<and> (\<exists>x y. r = ReapprovalRequired x y)"
  by (auto simp: check_digest_def Let_def split: if_splits)

text \<open>
  The gate of one node over many resumes: fresh, then at every resume other decisions,
  another actor, prompt and clock, the result handled as the engine does. An output ends
  the visit and clears the pending record.
\<close>

inductive gate_reach :: "(string \<Rightarrow> string) \<Rightarrow> time_lib \<Rightarrow> (rat \<Rightarrow> string) \<Rightarrow> approval_node \<Rightarrow>
    approval_world \<Rightarrow> bool" for sha lib fr n where
  fresh: "aw_pending w = [] \<Longrightarrow> gate_reach sha lib fr n w"
| paused: "gate_reach sha lib fr n w \<Longrightarrow> aw_pending w0 = aw_pending w \<Longrightarrow>
    run_approval sha lib fr n c prompt now w0 = (w1, ApprovalRequired shown p) \<Longrightarrow>
    gate_reach sha lib fr n (pause_run sha (ac_run_id c) n shown p w1)"
| reapprove: "gate_reach sha lib fr n w \<Longrightarrow> aw_pending w0 = aw_pending w \<Longrightarrow>
    run_approval sha lib fr n c prompt now w0 = (w1, ReapprovalRequired x y) \<Longrightarrow>
    gate_reach sha lib fr n (pause_run sha (ac_run_id c) n prompt None w1)"
| other: "gate_reach sha lib fr n w \<Longrightarrow> aw_pending w0 = aw_pending w \<Longrightarrow>
    run_approval sha lib fr n c prompt now w0 = (w1, r) \<Longrightarrow> gate_reach sha lib fr n w1"

lemma run_classic_inv:
  assumes "run_classic sha n c prompt w = (w', r)" "pending_inv n (aw_pending w)"
  shows "pending_inv n (aw_pending w') \<and> (\<forall>x p. r = ApprovalRequired x (Some p) \<longrightarrow> pause_inv n p)"
proof -
  obtain d w1 where d: "decision_for c (an_id n) w = (d, w1)" by (cases "decision_for c (an_id n) w")
  show ?thesis using assms decision_for_pending [OF d]
    by (auto simp: run_classic_def d Let_def split: option.splits if_splits)
qed

lemma run_approval_inv:
  assumes "run_approval sha lib fr n c prompt now w = (w', r)" "pending_inv n (aw_pending w)"
  shows "pending_inv n (aw_pending w') \<and> (\<forall>x p. r = ApprovalRequired x (Some p) \<longrightarrow> pause_inv n p)"
proof (cases "check_digest sha fr n c prompt w")
  case (Inr s)
  then show ?thesis using assms check_digest_pending(2) [of sha fr n c prompt w w' r]
    by (cases s) (auto simp: run_approval_def)
next
  case (Inl w1)
  then have w1: "w1 = w" by (rule check_digest_pending(1))
  show ?thesis
    using assms run_enterprise_inv [of sha lib fr n c prompt now w w' r]
      run_classic_inv [of sha n c prompt w w' r]
    unfolding run_approval_def Inl w1 sum.case by (auto simp: result_inv_def split: if_splits)
qed

lemma gate_reach_inv: "gate_reach sha lib fr n w \<Longrightarrow> pending_inv n (aw_pending w)"
proof (induction rule: gate_reach.induct)
  case (fresh w)
  then show ?case by (simp add: pending_inv_def)
next
  case (paused w w0 c prompt now w1 shown p)
  then show ?case using run_approval_inv [OF paused(3)] by (intro pause_run_inv) auto
next
  case (reapprove w w0 c prompt now w1 x y)
  then show ?case by (intro pause_run_inv) simp
next
  case (other w w0 c prompt now w1 r)
  then show ?case using run_approval_inv [OF other(3)] by simp
qed

section \<open>Properties of the approval node\<close>

text \<open>
  However often a gate is resumed, with whatever decisions, actors and prompts, the
  pause it reads back holds at most one vote per normalized actor, only approve or reject
  votes, no vote of an anonymous or a denied actor, and the quorum the node declares.
\<close>

theorem one_vote_per_actor:
  assumes "gate_reach sha lib fr n w" "pause_from_pending fr (aw_pending w) (Some n) = Some p"
  shows "distinct (List.map (\<lambda>v. norm (v_actor v)) (approvals_received p)) \<and>
    (\<forall>v \<in> set (approvals_received p). norm (v_actor v) \<noteq> [] \<and> norm (v_actor v) \<notin> denied_actors n \<and>
       v_decision v \<in> {''approve'', ''reject''}) \<and>
    approvals_required p = quorum n"
  using pause_inv_read [OF gate_reach_inv [OF assms(1)] assms(2)] by (simp add: votes_ok_def)

text \<open>
  C25. The enterprise gate lets a run continue as approved only when at least the declared
  quorum of different actors approved it, none of them denied, with the deadline not
  passed or the gate just escalated, and no reject under the short circuit.
\<close>

theorem approval_needs_quorum:
  assumes "gate_reach sha lib fr n w" "aw_pending w0 = aw_pending w"
    and "run_enterprise sha lib fr n c prompt now w0 = (w', Output out)"
    and "dget out ''approved'' = Some (PBool True)"
  shows "\<exists>p je. dget out ''approvals_received'' = Some (PList (List.map vote_dict (approvals_received p))) \<and>
    quorum n \<le> int (card (voters (approvals p))) \<and> voters (approvals p) \<inter> denied_actors n = {} \<and>
    (je \<or> \<not> past_deadline lib p now) \<and>
    \<not> (reject_short_circuit p \<and> (\<exists>v \<in> set (approvals_received p). v_decision v = ''reject''))"
proof -
  have "pending_inv n (aw_pending w0)" using gate_reach_inv [OF assms(1)] assms(2) by simp
  from run_enterprise_inv [OF assms(3) this] assms(4)
  obtain p je where p: "pause_inv n p" "go_status (evaluate_gate lib p now je) = Approved"
      "dget out ''approvals_received'' = Some (PList (List.map vote_dict (approvals_received p)))"
    unfolding result_inv_def by blast
  have d: "distinct (List.map (\<lambda>v. norm (v_actor v)) (approvals p))"
    using p(1) by (simp add: pause_inv_def votes_ok_def approvals_def distinct_map_filter)
  then have card: "length (approvals p) = card (voters (approvals p))"
    using distinct_card [OF d] by simp
  have q: "quorum n = approvals_required p" and no: "voters (approvals p) \<inter> denied_actors n = {}"
    using p(1) by (auto simp: pause_inv_def votes_ok_def approvals_def)
  show ?thesis using p(2,3) no unfolding gate_approved_iff q card by auto
qed

text \<open>
  An approval given on a prompt that differs from the one the run paused on is refused:
  no vote is recorded and the run stays paused, with the refusal in the audit.
\<close>

theorem stale_prompt_refused:
  assumes "dget (aw_decisions w) (an_id n) = Some d" "d \<in> set APPROVE_VALUES"
    and "vget (aw_pending w) ''node_id'' = PStr (an_id n)" "vget (aw_pending w) ''type'' = PStr ''approval''"
    and "vget (aw_pending w) ''prompt_sha256'' = PStr h" "h \<noteq> []" "sha prompt \<noteq> h"
  shows "run_approval sha lib fr n c prompt now w =
    (w\<lparr>aw_audit := aw_audit w @ [(''decision_refused'',
        [(''run_id'', PStr (ac_run_id c)), (''node_id'', PStr (an_id n)), (''actor'', of_opt_str (ac_actor c)),
         (''reason'', PStr ''reapprove_required''), (''expected_sha256'', PStr h),
         (''actual_sha256'', PStr (sha prompt))])]\<rparr>,
     ReapprovalRequired h (sha prompt))"
  using assms by (simp add: run_approval_def check_digest_def audit_def Let_def)

text \<open>
  The refusal of an approval of a changed prompt forgets the gate: the record it leaves has neither the votes nor the
  deadline, so the next touch opens a gate with no vote, started then, and a deadline
  counted from then, even when the old deadline had passed or votes had been given.
\<close>

theorem reapproval_restarts_gate:
  assumes "run_approval sha lib fr n c prompt now w = (w1, ReapprovalRequired h h')"
    and "w2 = pause_run sha (ac_run_id c) n prompt None w1"
    and "open_pause lib fr n c' now' (aw_pending w2) = Inr p" "tl_format lib now' \<noteq> []"
  shows "approvals_received p = [] \<and> paused_at p = Some (tl_format lib now') \<and>
    (truthy (an_expires_in n) \<longrightarrow> (\<exists>s. parse_expires_in (the (an_expires_in n)) = Some s \<and>
       expires_at p = Some (tl_format lib (or_now (parse_clock lib (paused_at p)) now' + s))))"
proof -
  let ?d = "aw_pending w2"
  have d: "vget ?d ''node_id'' = PStr (an_id n)" "vget ?d ''approvals_received'' = PNone"
    "vget ?d ''paused_at'' = PNone" "vget ?d ''expires_at'' = PNone"
    by (simp_all add: assms(2) pause_run_def)
  obtain p0 where p0: "pause_from_pending fr ?d (Some n) = Some p0"
    using assms(3) d(1) by (cases "pause_from_pending fr ?d (Some n)") (simp_all add: open_pause_def)
  have f: "approvals_received p0 = []" "paused_at p0 = None" "expires_at p0 = None"
    using pause_from_pending_fields [OF p0] d by (simp_all add: pause_votes_def opt_text_def)
  let ?p1 = "p0\<lparr>paused_at := Some (tl_format lib now')\<rparr>"
  obtain p2 where p2: "fill_deadline lib n now' ?p1 = Some p2"
    and p: "p = bind_initiator (case ac_initiator c' of None \<Rightarrow> [] | Some s \<Rightarrow> s)
      (fill_deny n (fill_on_expire n (fill_eligible n p2)))"
    using assms(3) d(1) f unfolding open_pause_def p0 Let_def
    by (cases "fill_deadline lib n now' ?p1") (simp_all add: p0)
  have frame: "approvals_received p = approvals_received p2" "paused_at p = paused_at p2"
    "expires_at p = expires_at p2"
    by (simp_all add: p bind_initiator_def fill_deny_def fill_on_expire_def fill_eligible_def)
  show ?thesis unfolding frame
    using p2 f by (auto simp: fill_deadline_def expires_at_for_def split: if_splits)
qed

section \<open>A concrete gate\<close>

definition demo_time :: time_lib where
  "demo_time = \<lparr>tl_parse = (\<lambda>s. if s = ''soon'' then Some 10 else if s = ''late'' then Some 90 else None),
                tl_format = (\<lambda>t. if t < 50 then ''soon'' else ''late'')\<rparr>"

definition demo_node :: approval_node where
  "demo_node = \<lparr>an_id = ''gate'', an_prompt = ''Ship?'', an_next = Some ''ship'', an_then = None,
     an_else = None, an_approvals_required = Some 2, an_distinct_actors = None,
     an_deny_actor = [''mallory''], an_approver_roles = [], an_require = None, an_expires_in = None,
     an_on_expire = None, an_escalate_to = [], an_require_reason = False,
     an_reject_short_circuit = True, an_recommendation = None, an_notify = []\<rparr>"

definition demo_ctx :: "string \<Rightarrow> approval_ctx" where
  "demo_ctx who = \<lparr>ac_run_id = ''r1'', ac_actor = Some who, ac_initiator = None,
     ac_consume_decisions = False, ac_authorizer = None, ac_roles_for = None, ac_verified = None,
     ac_vote_reasons = [], ac_signature_status = ''unsigned'', ac_store = None\<rparr>"

definition demo_world :: approval_world where
  "demo_world = \<lparr>aw_pending = [], aw_pending_node = None, aw_decisions = [], aw_persisted = [],
     aw_audit = [], aw_notified = []\<rparr>"

definition demo_touch :: "string \<Rightarrow> string \<Rightarrow> (string \<times> string) list \<Rightarrow> approval_world \<Rightarrow>
    approval_world \<times> approval_result" where
  "demo_touch who prompt ds w =
     run_approval id demo_time (\<lambda>_. []) demo_node (demo_ctx who) prompt 20 (w\<lparr>aw_decisions := ds\<rparr>)"

definition demo_again :: "approval_node \<Rightarrow> string \<Rightarrow> approval_world \<times> approval_result \<Rightarrow> approval_world" where
  "demo_again n prompt x =
     (case snd x of
        ApprovalRequired shown p \<Rightarrow> pause_run id ''r1'' n shown p (fst x)
      | ReapprovalRequired _ _ \<Rightarrow> pause_run id ''r1'' n prompt None (fst x)
      | _ \<Rightarrow> fst x)"

definition demo_first :: approval_world where
  "demo_first = demo_again demo_node ''Ship 1.0?''
     (demo_touch ''Alice'' ''Ship 1.0?'' [(''gate'', ''approve'')] demo_world)"

lemma demo_reach:
  assumes "gate_reach id demo_time (\<lambda>_. []) demo_node w"
  shows "gate_reach id demo_time (\<lambda>_. []) demo_node (demo_again demo_node prompt (demo_touch who prompt ds w))"
proof -
  obtain w1 r where t: "demo_touch who prompt ds w = (w1, r)" by (cases "demo_touch who prompt ds w")
  have s: "aw_pending (w\<lparr>aw_decisions := ds\<rparr>) = aw_pending w" by simp
  have c: "ac_run_id (demo_ctx who) = ''r1''" by (simp add: demo_ctx_def)
  note t' = t [unfolded demo_touch_def]
  show ?thesis
  proof (cases r)
    case (ApprovalRequired shown p)
    then show ?thesis using gate_reach.paused [OF assms s t' [unfolded ApprovalRequired]] t
      by (simp add: demo_again_def c)
  next
    case (ReapprovalRequired x y)
    then show ?thesis using gate_reach.reapprove [OF assms s t' [unfolded ReapprovalRequired]] t
      by (simp add: demo_again_def c)
  qed (use gate_reach.other [OF assms s t'] t in \<open>simp_all add: demo_again_def\<close>)
qed

lemma demo_first_reach: "gate_reach id demo_time (\<lambda>_. []) demo_node demo_first"
  unfolding demo_first_def
  by (rule demo_reach [OF gate_reach.fresh]) (simp add: demo_world_def)

definition demo_pause :: pause_state where
  "demo_pause = the (pause_from_pending (\<lambda>_. []) (aw_pending demo_first) (Some demo_node))"

lemma demo_pause_read:
  "pause_from_pending (\<lambda>_. []) (aw_pending demo_first) (Some demo_node) = Some demo_pause"
proof -
  have "\<not> Option.is_none (pause_from_pending (\<lambda>_. []) (aw_pending demo_first) (Some demo_node))"
    by code_simp
  then show ?thesis unfolding demo_pause_def
    by (cases "pause_from_pending (\<lambda>_. []) (aw_pending demo_first) (Some demo_node)") simp_all
qed

theorem one_vote_per_actor_witness:
  "distinct (List.map (\<lambda>v. norm (v_actor v)) (approvals_received demo_pause)) \<and>
    approvals_required demo_pause = quorum demo_node"
  using one_vote_per_actor [OF demo_first_reach demo_pause_read] by blast

definition output_of :: "approval_result \<Rightarrow> pydict" where
  "output_of r = (case r of Output out \<Rightarrow> out | _ \<Rightarrow> [])"

lemma output_of_nonempty: "output_of r \<noteq> [] \<Longrightarrow> r = Output (output_of r)"
  by (cases r) (simp_all add: output_of_def)

definition demo_final :: "approval_world \<times> approval_result" where
  "demo_final = run_enterprise id demo_time (\<lambda>_. []) demo_node (demo_ctx ''Bob'') ''Ship 1.0?'' 20
     (demo_first\<lparr>aw_decisions := [(''gate'', ''yes'')]\<rparr>)"

lemma demo_final_output:
  "demo_final = (fst demo_final, Output (output_of (snd demo_final)))"
  "dget (output_of (snd demo_final)) ''approved'' = Some (PBool True)"
proof -
  show a: "dget (output_of (snd demo_final)) ''approved'' = Some (PBool True)" by code_simp
  then have "output_of (snd demo_final) \<noteq> []" by auto
  from output_of_nonempty [OF this] show "demo_final = (fst demo_final, Output (output_of (snd demo_final)))"
    by (metis prod.collapse)
qed

theorem approval_needs_quorum_witness:
  "\<exists>p je. dget (output_of (snd demo_final)) ''approvals_received'' =
      Some (PList (List.map vote_dict (approvals_received p))) \<and>
    quorum demo_node \<le> int (card (voters (approvals p))) \<and>
    voters (approvals p) \<inter> denied_actors demo_node = {}"
  using approval_needs_quorum [OF demo_first_reach _ demo_final_output(1) [unfolded demo_final_def]
      demo_final_output(2) [unfolded demo_final_def]]
  unfolding demo_final_def by auto

theorem stale_prompt_refused_witness:
  "snd (demo_touch ''Bob'' ''Ship 2.0?'' [(''gate'', ''ok'')] demo_first) =
     ReapprovalRequired ''Ship 1.0?'' (id ''Ship 2.0?'')"
proof -
  let ?w = "demo_first\<lparr>aw_decisions := [(''gate'', ''ok'')]\<rparr>"
  have p: "vget (aw_pending ?w) ''node_id'' = PStr (an_id demo_node)"
    "vget (aw_pending ?w) ''type'' = PStr ''approval''"
    "vget (aw_pending ?w) ''prompt_sha256'' = PStr ''Ship 1.0?''" by code_simp+
  have d: "dget (aw_decisions ?w) (an_id demo_node) = Some ''ok''" "''ok'' \<in> set APPROVE_VALUES"
    by (simp_all add: demo_node_def APPROVE_VALUES_def)
  show ?thesis unfolding demo_touch_def
    using stale_prompt_refused [OF d p, of id "''Ship 2.0?''" demo_time "\<lambda>_. []" "demo_ctx ''Bob''" 20]
    by simp
qed

definition demo_restarted :: approval_world where
  "demo_restarted = demo_again demo_node ''Ship 2.0?''
     (demo_touch ''Bob'' ''Ship 2.0?'' [(''gate'', ''ok'')] demo_first)"

theorem reapproval_restarts_gate_witness:
  "\<exists>p. open_pause demo_time (\<lambda>_. []) demo_node (demo_ctx ''Bob'') 60 (aw_pending demo_restarted) = Inr p \<and>
     approvals_received p = [] \<and> paused_at p = Some ''late''"
proof -
  obtain w1 where t: "demo_touch ''Bob'' ''Ship 2.0?'' [(''gate'', ''ok'')] demo_first =
      (w1, ReapprovalRequired ''Ship 1.0?'' ''Ship 2.0?'')"
    using stale_prompt_refused_witness
    by (cases "demo_touch ''Bob'' ''Ship 2.0?'' [(''gate'', ''ok'')] demo_first") simp
  have r: "demo_restarted = pause_run id (ac_run_id (demo_ctx ''Bob'')) demo_node ''Ship 2.0?'' None w1"
    by (simp add: demo_restarted_def demo_again_def t demo_ctx_def)
  have "isl (open_pause demo_time (\<lambda>_. []) demo_node (demo_ctx ''Bob'') 60 (aw_pending demo_restarted)) = False"
    by code_simp
  then obtain p where p: "open_pause demo_time (\<lambda>_. []) demo_node (demo_ctx ''Bob'') 60
      (aw_pending demo_restarted) = Inr p"
    by (cases "open_pause demo_time (\<lambda>_. []) demo_node (demo_ctx ''Bob'') 60 (aw_pending demo_restarted)") auto
  have "tl_format demo_time 60 \<noteq> []" "tl_format demo_time 60 = ''late''" by (simp_all add: demo_time_def)
  with reapproval_restarts_gate [OF t [unfolded demo_touch_def] r p] p show ?thesis by auto
qed

definition demo_second :: approval_world where
  "demo_second = demo_again demo_node ''Ship 2.0?'' (demo_touch ''Alice'' ''Ship 2.0?'' [] demo_first)"

definition decision_digests :: "approval_world \<Rightarrow> pyval list" where
  "decision_digests w =
     List.map (\<lambda>(a, extra). vget extra ''prompt_sha256'') (filter (\<lambda>(a, extra). a = ''decision'') (aw_audit w))"

text \<open>
  The votes of a quorum need not be on one prompt: resuming the run without a decision
  adopts the new prompt and keeps the votes given on the old one, so two approvals of two
  different prompts make a quorum of two (with a digest that separates all prompts).
\<close>

theorem quorum_mixes_prompts:
  "\<exists>w w1 out. gate_reach id demo_time (\<lambda>_. []) demo_node w \<and> quorum demo_node = 2 \<and>
     demo_touch ''Bob'' ''Ship 2.0?'' [(''gate'', ''approve'')] w = (w1, Output out) \<and>
     dget out ''approved'' = Some (PBool True) \<and>
     decision_digests w1 = [PStr ''Ship 1.0?'', PStr ''Ship 2.0?'']"
proof -
  let ?t = "demo_touch ''Bob'' ''Ship 2.0?'' [(''gate'', ''approve'')] demo_second"
  have reach: "gate_reach id demo_time (\<lambda>_. []) demo_node demo_second"
    unfolding demo_second_def by (rule demo_reach [OF demo_first_reach])
  have a: "dget (output_of (snd ?t)) ''approved'' = Some (PBool True)" by code_simp
  have digests: "decision_digests (fst ?t) = [PStr ''Ship 1.0?'', PStr ''Ship 2.0?'']" by code_simp
  have "output_of (snd ?t) \<noteq> []" using a by auto
  from output_of_nonempty [OF this] have "?t = (fst ?t, Output (output_of (snd ?t)))"
    by (metis prod.collapse)
  moreover have "quorum demo_node = 2" by (simp add: quorum_def demo_node_def)
  ultimately show ?thesis using reach a digests by blast
qed

theorem pause_roundtrip_witness:
  "pause_from_pending (\<lambda>_. []) (pause_dict demo_pause) (Some demo_node) = Some demo_pause"
proof (rule pause_roundtrip)
  show "pause_ok (Some demo_node) demo_pause" by code_simp
qed

definition demo_vote :: "string \<Rightarrow> vote" where
  "demo_vote who = \<lparr>v_actor = who, v_decision = ''approve'', v_at = ''soon'', v_role = None,
     v_reason = None, v_signature_status = ''unsigned'', v_delegated_from = None, v_override = False\<rparr>"

theorem gate_approved_iff_witness:
  "go_status (evaluate_gate demo_time (demo_pause\<lparr>approvals_received := [demo_vote ''Ann'', demo_vote '' ann'']\<rparr>)
     20 False) \<noteq> Approved"
proof -
  let ?p = "demo_pause\<lparr>approvals_received := [demo_vote ''Ann'', demo_vote '' ann'']\<rparr>"
  have "norm ''Ann'' = ''ann''" "norm '' ann'' = ''ann''" by code_simp+
  then have "voters (approvals ?p) = {''ann''}" by (simp add: approvals_def demo_vote_def)
  moreover have "approvals_required ?p = 2 \<and> distinct_actors ?p" by code_simp
  ultimately show ?thesis using gate_approved_iff [of demo_time ?p 20 False] by simp
qed

end
