(* ===== verification/DelegationSafety.thy ===== *)
theory DelegationSafety
  imports ApprovalNode
begin

text \<open>
  What delegations and the approvals queue promise: a delegation in use is valid, a revoked
  one is never used again, what an unscoped one lends, which chains are refused, and whom
  the queue shows a paused run to.
\<close>

section \<open>The store\<close>

text \<open>A delegation as the store gives it back: an empty scope is no scope.\<close>

definition stored :: "delegation \<Rightarrow> delegation" where
  "stored d = d\<lparr>d_scope := (if truthy (d_scope d) then d_scope d else None)\<rparr>"

lemma stored_fields [simp]:
  "d_id (stored d) = d_id d" "d_revoked (stored d) = d_revoked d" "d_to (stored d) = d_to d"
  "d_until (stored d) = d_until d" "d_from (stored d) = d_from d"
  by (simp_all add: stored_def)

lemma read_rows_dicts: "read_rows fr (List.map delegation_dict ds) = Inr (List.map stored ds)"
proof (induction ds)
  case (Cons d ds)
  have "\<exists>row. delegation_dict d = PDict row \<and> read_delegation fr row = stored d"
    by (cases d; cases "d_scope d")
      (auto simp: delegation_dict_def read_delegation_def stored_def opt_text_def)
  then show ?case using Cons by auto
qed simp

lemma load_saved: "load_delegations fr (save_delegations ds) = Inr (List.map stored ds)"
  by (simp add: load_delegations_def save_delegations_def STORE_VERSION_def read_rows_dicts)

lemma revoke_first_spec:
  assumes "revoke_first token ds = Some (ds', d)"
  shows "List.map d_id ds' = List.map d_id ds \<and> d_id d = token \<and> d_revoked d \<and> d \<in> set ds'"
  using assms
  by (induction token ds arbitrary: ds' rule: revoke_first.induct) (auto split: if_splits)

lemma valid_delegation:
  assumes "find_delegation lib fr now actor roles s = Inr (Some d)"
  shows "(\<exists>items. load_delegations fr s = Inr items \<and> d \<in> set items) \<and> \<not> d_revoked d \<and>
    norm (d_to d) = normalize_actor actor \<and>
    (\<exists>t. parse_clock lib (Some (d_until d)) = Some t \<and> now < t) \<and>
    (truthy (d_scope d) \<longrightarrow> (\<exists>r \<in> set roles. r \<noteq> []) \<longrightarrow>
       normalize_actor (d_scope d) \<in> norm ` {r \<in> set roles. r \<noteq> []})"
proof -
  obtain items where items: "load_delegations fr s = Inr items"
    and f: "find (grants lib now (normalize_actor actor) (norm ` set (filter (\<lambda>r. r \<noteq> []) roles))) items = Some d"
    using assms by (auto simp: find_delegation_def Let_def split: if_splits)
  have "d \<in> set items" and g: "grants lib now (normalize_actor actor) (norm ` set (filter (\<lambda>r. r \<noteq> []) roles)) d"
    using f by (auto simp: find_Some_iff)
  with items show ?thesis by (auto simp: grants_def active_def split: option.splits)
qed

section \<open>Properties of delegations\<close>

text \<open>
  A delegation a decision rests on is stored, unrevoked, addressed to the voter, not yet
  over, and, where it is scoped and roles are asked for, scoped to one of those roles.
\<close>

theorem found_delegation_is_valid:
  assumes "find_delegation lib fr now actor roles s = Inr (Some d)"
  shows "(\<exists>items. load_delegations fr s = Inr items \<and> d \<in> set items) \<and> \<not> d_revoked d \<and>
    norm (d_to d) = normalize_actor actor \<and>
    (\<exists>t. parse_clock lib (Some (d_until d)) = Some t \<and> now < t) \<and>
    (truthy (d_scope d) \<longrightarrow> (\<exists>r \<in> set roles. r \<noteq> []) \<longrightarrow>
       normalize_actor (d_scope d) \<in> norm ` {r \<in> set roles. r \<noteq> []})"
  by (rule valid_delegation [OF assms])

text \<open>
  A delegation without a scope lends the whole list of approver roles of the gate, from
  whoever it comes: its receiver is eligible for every gate that does not deny him, and
  nothing is asked of the roles of the actor who delegated.
\<close>

theorem unscoped_delegation_lends_every_role:
  assumes "voter_grant lib fr now c p = Some g" "\<not> truthy (d_scope g)"
    and "normalize_actor (ac_actor c) \<noteq> []" "normalize_actor (ac_actor c) \<notin> norm ` set (deny_actor p)"
  shows "actor_is_eligible (ac_actor c) p (voter_roles c p (voter_grant lib fr now c p))
    (Option.bind (voter_grant lib fr now c p) d_scope)"
  using assms(3,4) unfolding assms(1)
  by (cases "approver_roles p") (auto simp: actor_is_eligible_def voter_roles_def assms(2) Let_def)

text \<open>
  Once a delegation is revoked no lookup returns it again, for any voter, time or role,
  as long as the identifiers of the store differ.
\<close>

theorem revoked_delegation_never_found:
  assumes "load_delegations fr s = Inr items" "distinct (List.map d_id items)"
    and "revoke_delegation fr token s = Inr (s', d)"
    and "find_delegation lib fr now actor roles s' = Inr (Some g)"
  shows "d_id g \<noteq> strip token"
proof
  assume id: "d_id g = strip token"
  obtain items' where r: "revoke_first (strip token) items = Some (items', d)"
    and s': "s' = save_delegations items'"
    using assms(1,3) by (auto simp: revoke_delegation_def split: option.splits)
  note spec = revoke_first_spec [OF r]
  have "g \<in> set (List.map stored items')" "\<not> d_revoked g"
    using valid_delegation [OF assms(4)] by (auto simp: s' load_saved)
  then obtain e where e: "e \<in> set items'" "g = stored e" by auto
  have "inj_on d_id (set items')" using assms(2) spec by (metis distinct_map)
  then have "e = d" using e id spec by (auto simp: inj_on_def)
  then show False using \<open>\<not> d_revoked g\<close> e spec by simp
qed

text \<open>
  An actor who lists the queue sees a run only when it is paused on an approval whose
  gate would accept him: he is not denied and holds, himself or by a valid delegation, one
  of the roles the gate asks for. A run he may not decide looks like a run that is absent.
\<close>

theorem queue_shows_only_decidable:
  assumes "list_approvals lib fr now s (Some actor) role soon runs = Inr rows" "actor \<noteq> []"
    and "row \<in> set rows"
  shows "\<exists>run \<in> set runs. \<exists>pending p grant.
    qw_run_id row = qr_run_id run \<and> is_approval_pause fr run \<and> qr_pending run = PDict pending \<and>
    pause_from_pending fr pending None = Some p \<and>
    find_delegation lib fr now (Some actor) (approver_roles p @ (if truthy role then [the role] else [])) s =
      Inr grant \<and>
    actor_is_eligible (Some actor) p (if truthy role then [the role] else []) (Option.bind grant d_scope)"
proof -
  have rows: "queue_rows f runs = Inr rows \<Longrightarrow> row \<in> set rows \<Longrightarrow> \<exists>run \<in> set runs. f run = Inr (Some row)"
    for f by (induction runs arbitrary: rows) (auto split: option.splits)
  obtain horizon where "queue_rows (queue_entry lib fr now s (Some actor) role horizon) runs = Inr rows"
    using assms(1) unfolding list_approvals_def by (auto split: if_splits option.splits)
  from rows [OF this assms(3)] obtain run where run: "run \<in> set runs"
      "queue_entry lib fr now s (Some actor) role horizon run = Inr (Some row)" by blast
  then obtain pending p where p: "is_approval_pause fr run" "qr_pending run = PDict pending"
      "pause_from_pending fr pending None = Some p" "visible lib fr now s p (Some actor) role = Inr True"
      "row = queue_row_of lib now run pending p"
    unfolding queue_entry_def by (auto split: if_splits pyval.splits option.splits sum.splits)
  let ?roles = "if truthy role then [the role] else []"
  obtain grant where "find_delegation lib fr now (Some actor) (approver_roles p @ ?roles) s = Inr grant"
      "actor_is_eligible (Some actor) p ?roles (Option.bind grant d_scope)"
    using p(4) assms(2) unfolding visible_def Let_def by (auto split: if_splits)
  then show ?thesis using run(1) p by (auto simp: queue_row_of_def Let_def)
qed

section \<open>Concrete stores\<close>

definition demo_clock :: time_lib where
  "demo_clock = \<lparr>tl_parse = (\<lambda>s. if s = ''soon'' then Some 10 else if s = ''late'' then Some 90 else None),
                tl_format = (\<lambda>t. if t < 50 then ''soon'' else ''late'')\<rparr>"

definition demo_add :: "string \<Rightarrow> string \<Rightarrow> string \<Rightarrow> string option \<Rightarrow> store \<Rightarrow> delegate_error + store \<times> delegation" where
  "demo_add i a b scope s = add_delegation demo_clock (\<lambda>_. []) 20 i a b ''late'' scope s"

definition grant_of :: "string \<Rightarrow> string \<Rightarrow> string \<Rightarrow> string option \<Rightarrow> delegation" where
  "grant_of i a b scope = \<lparr>d_id = i, d_from = a, d_to = b, d_until = ''late'', d_scope = scope,
     d_revoked = False, d_created_at = ''soon''\<rparr>"

definition demo_store :: store where
  "demo_store = save_delegations [grant_of ''1'' ''Ann'' ''Bob'' None]"

definition demo_voter :: approval_ctx where
  "demo_voter = \<lparr>ac_run_id = ''r1'', ac_actor = Some ''bob'', ac_initiator = None,
     ac_consume_decisions = False, ac_authorizer = None, ac_roles_for = None, ac_verified = None,
     ac_vote_reasons = [], ac_signature_status = ''unsigned'', ac_store = demo_store\<rparr>"

definition demo_gate :: pause_state where
  "demo_gate = \<lparr>approvals_required = 1, approvals_received = [], distinct_actors = False,
     deny_actor = [], approver_roles = [''finance''], require = ''any'',
     eligible_actors = [''role:finance''], expires_at = None, on_expire = None, escalated_to = [],
     paused_at = None, reject_short_circuit = True, require_reason = False, recommendation = None,
     clock_source = ''host'', is_expired = False, escalated_at = None\<rparr>"

lemma demo_found:
  "find_delegation demo_clock (\<lambda>_. []) 20 (Some ''bob'') [''finance''] demo_store =
     Inr (Some (grant_of ''1'' ''Ann'' ''Bob'' None))"
  by code_simp

theorem found_delegation_is_valid_witness:
  "\<not> d_revoked (grant_of ''1'' ''Ann'' ''Bob'' None) \<and> norm ''Bob'' = normalize_actor (Some ''bob'')"
  using found_delegation_is_valid [OF demo_found] by (simp add: grant_of_def)

theorem unscoped_delegation_lends_every_role_witness:
  "actor_is_eligible (Some ''bob'') demo_gate
     (voter_roles demo_voter demo_gate (voter_grant demo_clock (\<lambda>_. []) 20 demo_voter demo_gate))
     (Option.bind (voter_grant demo_clock (\<lambda>_. []) 20 demo_voter demo_gate) d_scope)"
proof -
  have g: "voter_grant demo_clock (\<lambda>_. []) 20 demo_voter demo_gate = Some (grant_of ''1'' ''Ann'' ''Bob'' None)"
    by code_simp
  have a: "ac_actor demo_voter = Some ''bob''" by (simp add: demo_voter_def)
  show ?thesis using unscoped_delegation_lends_every_role [OF g]
    by (simp add: a grant_of_def demo_gate_def normalize_actor_def strip_def lstrip_def rstrip_def is_space_def)
qed

theorem revoked_delegation_never_found_witness:
  "\<exists>s' d g. revoke_delegation (\<lambda>_. []) ''2'' (save_delegations [grant_of ''1'' ''Ann'' ''Bob'' None,
      grant_of ''2'' ''Cy'' ''Bob'' None]) = Inr (s', d) \<and>
    find_delegation demo_clock (\<lambda>_. []) 20 (Some ''bob'') [] s' = Inr (Some g) \<and> d_id g \<noteq> strip ''2''"
proof -
  let ?ds = "[grant_of ''1'' ''Ann'' ''Bob'' None, grant_of ''2'' ''Cy'' ''Bob'' None]"
  let ?ds' = "[grant_of ''1'' ''Ann'' ''Bob'' None, grant_of ''2'' ''Cy'' ''Bob'' None\<lparr>d_revoked := True\<rparr>]"
  have l: "load_delegations (\<lambda>_. []) (save_delegations ?ds) = Inr ?ds"
    by (simp add: load_saved stored_def grant_of_def)
  have r: "revoke_delegation (\<lambda>_. []) ''2'' (save_delegations ?ds) =
      Inr (save_delegations ?ds', grant_of ''2'' ''Cy'' ''Bob'' None\<lparr>d_revoked := True\<rparr>)"
    by (simp add: revoke_delegation_def l)
      (simp add: grant_of_def strip_def lstrip_def rstrip_def is_space_def)
  have f: "find_delegation demo_clock (\<lambda>_. []) 20 (Some ''bob'') [] (save_delegations ?ds') =
      Inr (Some (grant_of ''1'' ''Ann'' ''Bob'' None))"
    by code_simp
  have "d_id (grant_of ''1'' ''Ann'' ''Bob'' None) \<noteq> strip ''2''"
    by (rule revoked_delegation_never_found [OF l _ r f]) (simp add: grant_of_def)
  with r f show ?thesis by blast
qed

text \<open>
  Chains are refused in one direction only: with Ann's delegation to Bob in force, Bob
  cannot delegate on, but Cy can still delegate to Ann, which leaves both links of the
  chain from Cy over Ann to Bob in force.
\<close>

theorem delegation_chain_accepted:
  "demo_add ''2'' ''Bob'' ''Dan'' None demo_store = Inl ChainRefused \<and>
   (\<exists>s' d. demo_add ''2'' ''Cy'' ''Ann'' None demo_store = Inr (s', d) \<and>
     find_delegation demo_clock (\<lambda>_. []) 20 (Some ''Ann'') [] s' = Inr (Some (grant_of ''2'' ''Cy'' ''Ann'' None)) \<and>
     find_delegation demo_clock (\<lambda>_. []) 20 (Some ''Bob'') [] s' = Inr (Some (grant_of ''1'' ''Ann'' ''Bob'' None)))"
proof -
  let ?s' = "save_delegations [grant_of ''1'' ''Ann'' ''Bob'' None, grant_of ''2'' ''Cy'' ''Ann'' None]"
  have "demo_add ''2'' ''Bob'' ''Dan'' None demo_store = Inl ChainRefused" by code_simp
  moreover have "demo_add ''2'' ''Cy'' ''Ann'' None demo_store = Inr (?s', grant_of ''2'' ''Cy'' ''Ann'' None)"
    by code_simp
  moreover have "find_delegation demo_clock (\<lambda>_. []) 20 (Some ''Ann'') [] ?s' =
      Inr (Some (grant_of ''2'' ''Cy'' ''Ann'' None))" by code_simp
  moreover have "find_delegation demo_clock (\<lambda>_. []) 20 (Some ''Bob'') [] ?s' =
      Inr (Some (grant_of ''1'' ''Ann'' ''Bob'' None))" by code_simp
  ultimately show ?thesis by blast
qed

definition demo_queued :: queued_run where
  "demo_queued = \<lparr>qr_run_id = ''r1'', qr_workflow = ''w'', qr_status = ''paused'',
     qr_pending = PDict [(''type'', PStr ''approval''), (''node_id'', PStr ''gate''),
       (''approver_roles'', PList [PStr ''bob''])], qr_pending_node = None\<rparr>"

definition demo_row :: queue_row where
  "demo_row = \<lparr>qw_run_id = ''r1'', qw_workflow = ''w'', qw_node_id = PStr ''gate'', qw_prompt = PStr [],
     qw_required = 1, qw_received = 0, qw_eligible = [], qw_expires_at = None, qw_on_expire = None,
     qw_status = Pending, qw_elapsed = None\<rparr>"

theorem queue_shows_only_decidable_witness:
  "list_approvals demo_clock (\<lambda>_. []) 20 None (Some ''Bob'') None None [demo_queued] = Inr [demo_row] \<and>
   (\<exists>p (grant :: delegation option). actor_is_eligible (Some ''Bob'') p [] (Option.bind grant d_scope))"
proof -
  have l: "list_approvals demo_clock (\<lambda>_. []) 20 None (Some ''Bob'') None None [demo_queued] = Inr [demo_row]"
    by code_simp
  from queue_shows_only_decidable [OF l, of demo_row] obtain p and grant :: "delegation option" where
    "actor_is_eligible (Some ''Bob'') p [] (Option.bind grant d_scope)" by auto
  with l show ?thesis by blast
qed

end
