(* ===== verification/RunStates.thy ===== *)
theory RunStates
  imports Values
begin

text \<open>
  Run state and run records, \<open>workflow/state.py\<close>: results of nodes, the template namespace,
  usage, the record a run is persisted as and read back from, the directory of records
  (prefix lookup, listing, garbage collection), and the parsers of decisions and inputs.
  A directory is the list of its files, stem and decoded JSON, in the order \<open>glob\<close> yields;
  a file that is no JSON is \<open>None\<close>. Clock readings are arguments.
\<close>

section \<open>Data\<close>

type_synonym usage = "(string \<times> int) list"

record node_result =
  nr_node_id :: string
  nr_type :: string
  nr_status :: string
  nr_output :: pyval
  nr_error :: "string option"
  nr_attempts :: int
  nr_started_at :: string
  nr_finished_at :: string
  nr_usage :: usage
  nr_tool_rounds :: "pydict list"
  nr_ttft_ms :: "int option"
  nr_total_ms :: "int option"
  nr_inter_token_ms :: "rat option"
  nr_route :: "pydict option"

record run_state =
  rs_run_id :: string
  rs_workflow_name :: string
  rs_inputs :: pydict
  rs_node_outputs :: pydict
  rs_output_keys :: pydict
  rs_results :: "node_result list"
  rs_metadata :: pydict
  rs_errors :: "string list"
  rs_status :: string
  rs_pending_node :: "string option"
  rs_pending :: "pydict option"
  rs_usage :: usage
  rs_provenance :: "(string \<times> pydict) list"
  rs_started_at :: string
  rs_finished_at :: "string option"
  rs_last_node_usage :: usage

definition start_run :: "string \<Rightarrow> string \<Rightarrow> pydict \<Rightarrow> pydict \<Rightarrow> string \<Rightarrow> run_state" where
  "start_run run_id workflow inputs metadata now =
     \<lparr>rs_run_id = run_id, rs_workflow_name = workflow, rs_inputs = inputs, rs_node_outputs = [],
      rs_output_keys = [], rs_results = [], rs_metadata = metadata, rs_errors = [],
      rs_status = ''running'', rs_pending_node = None, rs_pending = None, rs_usage = [],
      rs_provenance = [], rs_started_at = now, rs_finished_at = None, rs_last_node_usage = []\<rparr>"

section \<open>The template namespace\<close>

text \<open>\<open>dict.update\<close>.\<close>

fun update_all :: "('k \<times> 'v) list \<Rightarrow> ('k \<times> 'v) list \<Rightarrow> ('k \<times> 'v) list" where
  "update_all d [] = d"
| "update_all d ((k, v) # e) = update_all (dset k v d) e"

definition mapping :: "run_state \<Rightarrow> pydict" where
  "mapping s =
     (let ns = update_all [] (rs_metadata s);
          ns = update_all ns (rs_inputs s);
          ns = update_all ns (rs_node_outputs s);
          ns = update_all ns (rs_output_keys s);
          ns = dset ''inputs'' (PDict (rs_inputs s)) ns;
          ns = dset ''outputs'' (PDict (rs_node_outputs s)) ns
      in dset ''run_id'' (PStr (rs_run_id s)) ns)"

section \<open>Recording\<close>

definition record_node :: "string \<Rightarrow> pyval \<Rightarrow> string \<Rightarrow> string option \<Rightarrow> node_result \<Rightarrow> run_state \<Rightarrow>
    run_state" where
  "record_node node_id output node_type output_key r s =
     s\<lparr>rs_node_outputs := dset node_id output (rs_node_outputs s),
       rs_output_keys := (if truthy output_key \<and> nr_status r = ''ok''
                          then dset (the output_key) output (rs_output_keys s) else rs_output_keys s),
       rs_results := rs_results s @
         [r\<lparr>nr_node_id := node_id, nr_type := node_type, nr_output := output,
            nr_route := (case nr_route r of Some d \<Rightarrow> if d = [] then None else Some d | None \<Rightarrow> None)\<rparr>]\<rparr>"

definition blank_result :: node_result where
  "blank_result =
     \<lparr>nr_node_id = [], nr_type = [], nr_status = ''ok'', nr_output = PNone, nr_error = None,
      nr_attempts = 1, nr_started_at = [], nr_finished_at = [], nr_usage = [], nr_tool_rounds = [],
      nr_ttft_ms = None, nr_total_ms = None, nr_inter_token_ms = None, nr_route = None\<rparr>"

definition record_error :: "string \<Rightarrow> string \<Rightarrow> string \<Rightarrow> int \<Rightarrow> string \<Rightarrow> run_state \<Rightarrow> run_state" where
  "record_error node_id node_type message attempts now s =
     s\<lparr>rs_errors := rs_errors s @ [message],
       rs_results := rs_results s @
         [blank_result\<lparr>nr_node_id := node_id, nr_type := node_type, nr_status := ''error'',
            nr_error := Some message, nr_attempts := attempts, nr_finished_at := now\<rparr>]\<rparr>"

definition finish :: "string \<Rightarrow> string \<Rightarrow> run_state \<Rightarrow> run_state" where
  "finish status now s = s\<lparr>rs_status := status, rs_finished_at := Some now\<rparr>"

definition mark_cancelled :: "string \<Rightarrow> run_state \<Rightarrow> run_state" where
  "mark_cancelled now s = finish ''cancelled'' now s"

subsection \<open>Usage\<close>

fun clean_usage :: "pydict \<Rightarrow> usage" where
  "clean_usage [] = []"
| "clean_usage ((k, v) # d) =
     (case to_int v of Some n \<Rightarrow> (k, n) # clean_usage d | None \<Rightarrow> clean_usage d)"

fun add_usage_into :: "usage \<Rightarrow> usage \<Rightarrow> usage" where
  "add_usage_into target [] = target"
| "add_usage_into target ((k, n) # amounts) =
     add_usage_into (dset k (dget_or target k 0 + n) target) amounts"

definition add_run_usage :: "pydict \<Rightarrow> run_state \<Rightarrow> run_state" where
  "add_run_usage amounts s =
     (let cleaned = clean_usage amounts
      in if cleaned = [] then s else s\<lparr>rs_usage := add_usage_into (rs_usage s) cleaned\<rparr>)"

definition note_node_usage :: "pydict \<Rightarrow> bool \<Rightarrow> run_state \<Rightarrow> run_state" where
  "note_node_usage amounts rollup s =
     (let cleaned = clean_usage amounts
      in if cleaned = [] then s
         else s\<lparr>rs_last_node_usage := add_usage_into (rs_last_node_usage s) cleaned,
                rs_usage := (if rollup then add_usage_into (rs_usage s) cleaned else rs_usage s)\<rparr>)"

definition take_node_usage :: "run_state \<Rightarrow> usage \<times> run_state" where
  "take_node_usage s = (rs_last_node_usage s, s\<lparr>rs_last_node_usage := []\<rparr>)"

section \<open>Records\<close>

definition usage_value :: "usage \<Rightarrow> pyval" where
  "usage_value u = PDict (List.map (\<lambda>(k, n). (k, PInt n)) u)"

definition result_row :: "node_result \<Rightarrow> pydict" where
  "result_row r =
     [(''node_id'', PStr (nr_node_id r)), (''type'', PStr (nr_type r)), (''status'', PStr (nr_status r)),
      (''output'', nr_output r), (''error'', of_opt_str (nr_error r)),
      (''attempts'', PInt (nr_attempts r)), (''started_at'', PStr (nr_started_at r)),
      (''finished_at'', PStr (nr_finished_at r)), (''usage'', usage_value (nr_usage r)),
      (''tool_rounds'', PList (List.map PDict (nr_tool_rounds r)))]
     @ (case nr_ttft_ms r of None \<Rightarrow> [] | Some n \<Rightarrow> [(''ttft_ms'', PInt n)])
     @ (case nr_total_ms r of None \<Rightarrow> [] | Some n \<Rightarrow> [(''total_ms'', PInt n)])
     @ (case nr_inter_token_ms r of None \<Rightarrow> [] | Some x \<Rightarrow> [(''inter_token_ms'', PFloat x)])
     @ (case nr_route r of None \<Rightarrow> [] | Some d \<Rightarrow> if d = [] then [] else [(''route'', PDict d)])"

definition to_record :: "run_state \<Rightarrow> pydict" where
  "to_record s =
     [(''record_version'', PInt 1), (''run_id'', PStr (rs_run_id s)),
      (''workflow'', PStr (rs_workflow_name s)), (''status'', PStr (rs_status s)),
      (''started_at'', PStr (rs_started_at s)), (''finished_at'', of_opt_str (rs_finished_at s)),
      (''pending_node'', of_opt_str (rs_pending_node s)),
      (''pending'', (case rs_pending s of None \<Rightarrow> PNone | Some d \<Rightarrow> if d = [] then PNone else PDict d)),
      (''inputs'', PDict (rs_inputs s)),
      (''outputs'', PDict (if rs_output_keys s \<noteq> [] then rs_output_keys s else rs_node_outputs s)),
      (''output_keys'', PDict (rs_output_keys s)), (''node_outputs'', PDict (rs_node_outputs s)),
      (''node_results'', PList (List.map (PDict \<circ> result_row) (rs_results s))),
      (''metadata'', PDict (rs_metadata s)), (''errors'', PList (List.map PStr (rs_errors s))),
      (''usage'', usage_value (rs_usage s)),
      (''provenance'', PDict (List.map (\<lambda>(k, d). (k, PDict d)) (rs_provenance s)))]"

subsection \<open>Reading a record\<close>

text \<open>
  \<open>dict(v or {})\<close>, on values that are dictionaries or empty; \<open>None\<close> is the error of anything
  else. Texts that are no texts in the record are errors of the model too.
\<close>

definition dict_or_empty :: "pyval \<Rightarrow> pydict option" where
  "dict_or_empty v =
     (if \<not> py_truth v then Some [] else (case v of PDict d \<Rightarrow> Some d | _ \<Rightarrow> None))"

fun read_opt_str :: "pyval \<Rightarrow> string option option" where
  "read_opt_str PNone = Some None"
| "read_opt_str (PStr s) = Some (Some s)"
| "read_opt_str _ = None"

definition text_of :: "(rat \<Rightarrow> string) \<Rightarrow> pydict \<Rightarrow> string \<Rightarrow> string" where
  "text_of fr d k = (case map_of d k of None \<Rightarrow> [] | Some v \<Rightarrow> py_str fr v)"

fun all_some :: "'a option list \<Rightarrow> 'a list option" where
  "all_some [] = Some []"
| "all_some (x # xs) = Option.bind x (\<lambda>a. map_option (\<lambda>ys. a # ys) (all_some xs))"

fun read_ints :: "pydict \<Rightarrow> usage option" where
  "read_ints [] = Some []"
| "read_ints ((k, v) # d) = Option.bind (to_int v) (\<lambda>n. map_option (\<lambda>u. (k, n) # u) (read_ints d))"

fun dicts_of :: "pyval list \<Rightarrow> pydict list" where
  "dicts_of [] = []"
| "dicts_of (x # xs) = (case x of PDict d \<Rightarrow> d # dicts_of xs | _ \<Rightarrow> dicts_of xs)"

definition list_or_empty :: "pyval \<Rightarrow> pyval list option" where
  "list_or_empty v = py_list (if py_truth v then v else PList [])"

definition read_result :: "(rat \<Rightarrow> string) \<Rightarrow> (string \<Rightarrow> rat option) \<Rightarrow> pydict \<Rightarrow> node_result option" where
  "read_result fr pf row =
     (let attempts = vget row ''attempts'' in
      case (read_opt_str (vget row ''error''),
            to_int (if py_truth attempts then attempts else PInt 1),
            dict_or_empty (vget row ''usage''), list_or_empty (vget row ''tool_rounds'')) of
        (Some err, Some n, Some used, Some rounds) \<Rightarrow> Some
          \<lparr>nr_node_id = text_of fr row ''node_id'', nr_type = text_of fr row ''type'',
           nr_status = text_of fr row ''status'', nr_output = vget row ''output'', nr_error = err,
           nr_attempts = n, nr_started_at = text_or fr (vget row ''started_at'') [],
           nr_finished_at = text_or fr (vget row ''finished_at'') [],
           nr_usage = clean_usage used, nr_tool_rounds = dicts_of rounds,
           nr_ttft_ms = opt_int (vget row ''ttft_ms''), nr_total_ms = opt_int (vget row ''total_ms''),
           nr_inter_token_ms = opt_float pf (vget row ''inter_token_ms''),
           nr_route = (case vget row ''route'' of PDict d \<Rightarrow> Some d | _ \<Rightarrow> None)\<rparr>
      | _ \<Rightarrow> None)"

definition read_results :: "(rat \<Rightarrow> string) \<Rightarrow> (string \<Rightarrow> rat option) \<Rightarrow> pydict \<Rightarrow>
    node_result list option" where
  "read_results fr pf data =
     Option.bind (list_or_empty (vget data ''node_results''))
       (\<lambda>rows. all_some (List.map (read_result fr pf) (dicts_of rows)))"

definition read_errors :: "pydict \<Rightarrow> string list option" where
  "read_errors data =
     Option.bind (list_or_empty (vget data ''errors''))
       (\<lambda>xs. all_some (List.map (\<lambda>x. case x of PStr s \<Rightarrow> Some s | _ \<Rightarrow> None) xs))"

definition from_record :: "(rat \<Rightarrow> string) \<Rightarrow> (string \<Rightarrow> rat option) \<Rightarrow> string \<Rightarrow> pydict \<Rightarrow>
    run_state option" where
  "from_record fr pf now data =
     do {
       results \<leftarrow> read_results fr pf data;
       inputs \<leftarrow> dict_or_empty (vget data ''inputs'');
       node_outputs \<leftarrow> dict_or_empty (vget data ''node_outputs'');
       output_keys \<leftarrow> dict_or_empty (or_val (vget data ''output_keys'') (vget data ''outputs''));
       metadata \<leftarrow> dict_or_empty (vget data ''metadata'');
       errors \<leftarrow> read_errors data;
       pending_node \<leftarrow> read_opt_str (vget data ''pending_node'');
       used \<leftarrow> Option.bind (dict_or_empty (vget data ''usage'')) read_ints;
       prov \<leftarrow> dict_or_empty (vget data ''provenance'');
       finished \<leftarrow> read_opt_str (vget data ''finished_at'');
       Some \<lparr>rs_run_id = text_or fr (vget data ''run_id'') [],
             rs_workflow_name = text_or fr (or_val (vget data ''workflow'') (vget data ''workflow_name'')) [],
             rs_inputs = inputs, rs_node_outputs = node_outputs, rs_output_keys = output_keys,
             rs_results = results, rs_metadata = metadata, rs_errors = errors,
             rs_status = text_or fr (vget data ''status'') ''running'',
             rs_pending_node = pending_node,
             rs_pending = (case vget data ''pending'' of PDict d \<Rightarrow> Some d | _ \<Rightarrow> None),
             rs_usage = used,
             rs_provenance = concat (List.map (\<lambda>(k, v). case v of PDict d \<Rightarrow> [(k, d)] | _ \<Rightarrow> []) prov),
             rs_started_at = text_or fr (vget data ''started_at'') now,
             rs_finished_at = finished, rs_last_node_usage = []\<rparr>
     }"

section \<open>The directory of records\<close>

type_synonym runs_dir = "(string \<times> pyval option) list"

datatype config_error = RunNotFound | AmbiguousRun "string list" | CorruptRecord | InvalidRecord

definition read_run :: "(rat \<Rightarrow> string) \<Rightarrow> (string \<Rightarrow> rat option) \<Rightarrow> string \<Rightarrow> pyval option \<Rightarrow>
    config_error + run_state" where
  "read_run fr pf now content =
     (case content of
        None \<Rightarrow> Inl CorruptRecord
      | Some (PDict data) \<Rightarrow>
          if \<not> py_truth (vget data ''run_id'') then Inl InvalidRecord
          else (case from_record fr pf now data of None \<Rightarrow> Inl InvalidRecord | Some s \<Rightarrow> Inr s)
      | Some _ \<Rightarrow> Inl InvalidRecord)"

text \<open>
  \<open>load_run\<close>: the exact file, else the only file whose stem starts with the identifier; the
  identifier has no pattern characters.
\<close>

definition load_run :: "(rat \<Rightarrow> string) \<Rightarrow> (string \<Rightarrow> rat option) \<Rightarrow> string \<Rightarrow> string \<Rightarrow> runs_dir \<Rightarrow>
    config_error + run_state" where
  "load_run fr pf now run_id dir =
     (case map_of dir run_id of
        Some content \<Rightarrow> read_run fr pf now content
      | None \<Rightarrow>
          (case filter (\<lambda>(stem, content). starts_with stem run_id) dir of
             [] \<Rightarrow> Inl RunNotFound
           | [(stem, content)] \<Rightarrow> read_run fr pf now content
           | matches \<Rightarrow> Inl (AmbiguousRun (List.map fst matches))))"

fun states_of :: "(pyval option \<Rightarrow> config_error + run_state) \<Rightarrow> runs_dir \<Rightarrow> run_state list" where
  "states_of f [] = []"
| "states_of f ((stem, content) # dir) =
     (if starts_with stem ''.'' then states_of f dir
      else case f content of Inl err \<Rightarrow> states_of f dir | Inr s \<Rightarrow> s # states_of f dir)"

text \<open>Texts in code point order, the newest first; equal times keep the order of the directory.\<close>

fun text_less :: "string \<Rightarrow> string \<Rightarrow> bool" where
  "text_less [] [] = False"
| "text_less [] (b # bs) = True"
| "text_less (a # as) [] = False"
| "text_less (a # as) (b # bs) =
     ((of_char a :: nat) < of_char b \<or> a = b \<and> text_less as bs)"

fun insert_newest :: "run_state \<Rightarrow> run_state list \<Rightarrow> run_state list" where
  "insert_newest s [] = [s]"
| "insert_newest s (t # ts) =
     (if text_less (rs_started_at s) (rs_started_at t) then t # insert_newest s ts else s # t # ts)"

definition newest_first :: "run_state list \<Rightarrow> run_state list" where
  "newest_first ss = foldr insert_newest ss []"

definition list_runs :: "(rat \<Rightarrow> string) \<Rightarrow> (string \<Rightarrow> rat option) \<Rightarrow> string \<Rightarrow> string option \<Rightarrow>
    string option \<Rightarrow> int \<Rightarrow> runs_dir \<Rightarrow> run_state list" where
  "list_runs fr pf now status workflow limit dir =
     (let states = newest_first (states_of (read_run fr pf now) dir);
          states = (if truthy status
                    then filter (\<lambda>s. rs_status s = lower (strip (the status))) states else states);
          states = (if truthy workflow
                    then filter (\<lambda>s. rs_workflow_name s = strip (the workflow)) states else states)
      in if 0 < limit then take (nat limit) states else states)"

text \<open>\<open>in_retention_window\<close>; \<open>isop\<close> reads an ISO time, naive ones as UTC.\<close>

definition in_retention_window :: "(string \<Rightarrow> rat option) \<Rightarrow> rat \<Rightarrow> rat option \<Rightarrow> run_state \<Rightarrow> bool" where
  "in_retention_window isop now min_age s =
     (case min_age of
        None \<Rightarrow> False
      | Some age \<Rightarrow>
          if age = 0 then False
          else
            (let stamp = (if truthy (rs_finished_at s) then the (rs_finished_at s) else rs_started_at s)
             in if stamp = [] then True
                else case isop (concat (List.map (\<lambda>c. if c = CHR ''Z'' then ''+00:00'' else [c]) stamp)) of
                  None \<Rightarrow> True
                | Some t \<Rightarrow> now - t < age))"

record gc_options =
  gc_statuses :: "string list option"
  gc_include_paused :: bool
  gc_keep :: int
  gc_min_age :: "rat option"
  gc_override_retention :: bool

definition gc_wanted :: "gc_options \<Rightarrow> string list" where
  "gc_wanted opts =
     (let given = (case gc_statuses opts of Some (x # xs) \<Rightarrow> x # xs
                   | _ \<Rightarrow> [''succeeded'', ''failed'', ''cancelled''])
      in List.map (\<lambda>s. lower (strip s)) given @ (if gc_include_paused opts then [''paused''] else []))"

definition gc_selects :: "(string \<Rightarrow> rat option) \<Rightarrow> rat \<Rightarrow> gc_options \<Rightarrow> run_state \<Rightarrow> bool" where
  "gc_selects isop now opts s =
     (\<not> (rs_status s = ''paused'' \<and> \<not> gc_include_paused opts) \<and> rs_status s \<noteq> ''waiting'' \<and>
      rs_status s \<in> set (gc_wanted opts) \<and>
      \<not> (in_retention_window isop now (gc_min_age opts) s \<and> \<not> gc_override_retention opts))"

fun gc_loop :: "(run_state \<Rightarrow> bool) \<Rightarrow> run_state list \<Rightarrow> runs_dir \<Rightarrow> string list \<times> runs_dir" where
  "gc_loop sel [] dir = ([], dir)"
| "gc_loop sel (s # ss) dir =
     (if sel s \<and> map_of dir (rs_run_id s) \<noteq> None then
        (let (deleted, dir') = gc_loop sel ss (AList.delete (rs_run_id s) dir)
         in (rs_run_id s # deleted, dir'))
      else gc_loop sel ss dir)"

definition gc_runs :: "(rat \<Rightarrow> string) \<Rightarrow> (string \<Rightarrow> rat option) \<Rightarrow> (string \<Rightarrow> rat option) \<Rightarrow> string \<Rightarrow> rat \<Rightarrow>
    gc_options \<Rightarrow> runs_dir \<Rightarrow> string list \<times> runs_dir" where
  "gc_runs fr pf isop now_text now opts dir =
     (let found = list_runs fr pf now_text None None 0 dir;
          found = (if 0 < gc_keep opts then drop (nat (gc_keep opts)) found else found)
      in gc_loop (gc_selects isop now opts) found dir)"

section \<open>Decisions and inputs\<close>

definition build_decisions :: "string list \<Rightarrow> string list \<Rightarrow> (string \<times> string) list" where
  "build_decisions approve reject =
     foldl (\<lambda>d node. dset node ''reject'' d)
       (foldl (\<lambda>d node. dset node ''approve'' d) [] approve) reject"

definition decision_text :: "(rat \<Rightarrow> string) \<Rightarrow> pyval \<Rightarrow> string" where
  "decision_text fr v = lower (strip (py_str fr v))"

text \<open>\<open>None\<close> is the \<open>WorkflowError\<close> of a payload that is no object and no list.\<close>

function parse_decisions :: "(rat \<Rightarrow> string) \<Rightarrow> pyval \<Rightarrow> (string \<times> string) list option" where
  "parse_decisions fr PNone = Some []"
| "parse_decisions fr (PDict d) =
     (let node = or_val (vget d ''node_id'') (or_val (vget d ''node'') (vget d ''id''));
          decision = or_val (vget d ''decision'') (vget d ''value'')
      in case map_of d ''decisions'' of
           Some (PDict e) \<Rightarrow> Some (List.map (\<lambda>(k, v). (k, decision_text fr v)) e)
         | Some (PList xs) \<Rightarrow> parse_decisions fr (PList xs)
         | _ \<Rightarrow>
             if py_truth node \<and> decision \<noteq> PNone
             then Some [(py_str fr node, decision_text fr decision)]
             else Some (concat (List.map (\<lambda>(k, v). if v = PNone then [] else [(k, decision_text fr v)]) d)))"
| "parse_decisions fr (PList []) = Some []"
| "parse_decisions fr (PList (x # xs)) =
     (case parse_decisions fr x of
        None \<Rightarrow> None
      | Some a \<Rightarrow> map_option (\<lambda>b. update_all a b) (parse_decisions fr (PList xs)))"
| "parse_decisions fr (PBool b) = None"
| "parse_decisions fr (PInt n) = None"
| "parse_decisions fr (PFloat x) = None"
| "parse_decisions fr (PStr s) = None"
  by pat_completeness auto

lemma size_dict_value: "map_of d k = Some v \<Longrightarrow> size v < size (PDict d)"
proof -
  assume "map_of d k = Some v"
  then have "(k, v) \<in> set d" by (rule map_of_SomeD)
  then show ?thesis by (induction d) (auto simp: less_Suc_eq_le)
qed

termination parse_decisions
proof (relation "measure (\<lambda>(fr, v). size v)", goal_cases)
  case (2 fr d node decision w xs)
  then have "map_of d ''decisions'' = Some (PList xs)" by simp
  from size_dict_value [OF this] show ?case by simp
qed auto

definition coerce_scalar :: "(string \<Rightarrow> rat option) \<Rightarrow> string \<Rightarrow> pyval" where
  "coerce_scalar pf value =
     (let text = strip value; lowered = lower text;
          digits = (\<lambda>t. t \<noteq> [] \<and> list_all is_digit t)
      in if lowered = ''true'' then PBool True
         else if lowered = ''false'' then PBool False
         else if lowered = ''null'' \<or> lowered = ''none'' then PNone
         else if digits text \<or> (starts_with text ''-'' \<and> digits (tl text)) then
           (case py_int text of Some n \<Rightarrow> PInt n | None \<Rightarrow> PStr value)
         else if CHR ''.'' \<in> set text then
           (case pf value of Some x \<Rightarrow> PFloat x | None \<Rightarrow> PStr value)
         else PStr value)"

datatype input_error = NoEquals string | EmptyKey string

fun parse_inputs :: "(string \<Rightarrow> rat option) \<Rightarrow> pydict \<Rightarrow> string list \<Rightarrow> input_error + pydict" where
  "parse_inputs pf acc [] = Inr acc"
| "parse_inputs pf acc (raw # pairs) =
     (if CHR ''='' \<notin> set raw then Inl (NoEquals raw)
      else
        (let key = strip (before_char CHR ''='' raw); value = after_char CHR ''='' raw
         in if key = [] then Inl (EmptyKey raw)
            else parse_inputs pf (dset key (coerce_scalar pf value) acc) pairs))"

definition parse_input_pairs :: "(string \<Rightarrow> rat option) \<Rightarrow> string list \<Rightarrow> input_error + pydict" where
  "parse_input_pairs pf pairs = parse_inputs pf [] pairs"

section \<open>Laws of the namespace\<close>

lemma map_of_update_all:
  "map_of (update_all d e) k = (case map_of (rev e) k of Some v \<Rightarrow> Some v | None \<Rightarrow> map_of d k)"
  by (induction d e rule: update_all.induct) (auto simp: map_add_def split: option.splits)

lemma map_of_rev_distinct: "distinct (List.map fst e) \<Longrightarrow> map_of (rev e) = map_of e"
  by (subst map_of_inject_set) (simp_all add: rev_map [symmetric])

lemma map_of_update_all_keep: "k \<notin> fst ` set e \<Longrightarrow> map_of (update_all d e) k = map_of d k"
  by (simp add: map_of_update_all map_of_eq_None_iff [THEN iffD2] split: option.split)

text \<open>
  The layers of the namespace, the nearest first: the reserved names, named outputs, outputs of
  nodes, inputs, metadata.
\<close>

lemma mapping_output_key:
  assumes "distinct (List.map fst (rs_output_keys s))" "map_of (rs_output_keys s) k = Some v"
    "''inputs'' \<noteq> k" "''outputs'' \<noteq> k" "''run_id'' \<noteq> k"
  shows "map_of (mapping s) k = Some v"
  using assms by (simp add: mapping_def Let_def map_of_update_all map_of_rev_distinct)

lemma mapping_node_output:
  assumes "distinct (List.map fst (rs_node_outputs s))" "map_of (rs_node_outputs s) k = Some v"
    "k \<notin> fst ` set (rs_output_keys s)" "''inputs'' \<noteq> k" "''outputs'' \<noteq> k" "''run_id'' \<noteq> k"
  shows "map_of (mapping s) k = Some v"
  using assms
  by (simp add: mapping_def Let_def map_of_update_all_keep)
     (simp add: map_of_update_all map_of_rev_distinct)

end
