(* ===== verification/RunRecords.thy ===== *)
theory RunRecords
  imports RunStates
begin

text \<open>
  What run records promise: a run read back from its record is the run that was persisted,
  which outputs a resumed run sees, and which records garbage collection may delete.
\<close>

section \<open>Round trip of a record\<close>

lemma vget_append: "vget (a @ b) k = (case map_of a k of Some v \<Rightarrow> v | None \<Rightarrow> vget b k)"
  by (simp add: vget_def map_add_def split: option.split)

lemma read_ints_values [simp]: "read_ints (List.map (\<lambda>(k, n). (k, PInt n)) u) = Some u"
  by (induction u) auto

lemma clean_usage_values [simp]: "clean_usage (List.map (\<lambda>(k, n). (k, PInt n)) u) = u"
  by (induction u) auto

lemma dict_or_empty_PDict [simp]: "dict_or_empty (PDict d) = Some d"
  by (simp add: dict_or_empty_def)

lemma dict_or_empty_usage [simp]: "dict_or_empty (usage_value u) = Some (List.map (\<lambda>(k, n). (k, PInt n)) u)"
  by (simp add: usage_value_def)

lemma list_or_empty_PList [simp]: "list_or_empty (PList xs) = Some xs"
  by (simp add: list_or_empty_def)

lemma dicts_of_map [simp]: "dicts_of (List.map PDict ds) = ds"
  by (induction ds) auto

lemma dicts_of_rows [simp]: "dicts_of (List.map (PDict \<circ> f) rs) = List.map f rs"
  by (induction rs) auto

lemma all_some_map: "\<forall>x \<in> set xs. f x = Some (g x) \<Longrightarrow> all_some (List.map f xs) = Some (List.map g xs)"
  by (induction xs) auto

lemma read_opt_str_of [simp]: "read_opt_str (of_opt_str x) = Some x"
  by (cases x) simp_all

lemma text_or_PStr' [simp]: "text_or fr (PStr s) d = (if s = [] then d else s)"
  by (simp add: text_or_def)

definition result_ok :: "node_result \<Rightarrow> bool" where
  "result_ok r = (nr_attempts r \<noteq> 0 \<and> nr_route r \<noteq> Some [])"

lemma result_roundtrip: "result_ok r \<Longrightarrow> read_result fr pf (result_row r) = Some r"
  by (cases r; cases "nr_ttft_ms r"; cases "nr_total_ms r"; cases "nr_inter_token_ms r"; cases "nr_route r")
    (auto simp: read_result_def result_row_def result_ok_def text_of_def opt_int_def opt_float_def
      dict_or_empty_def usage_value_def Let_def)

definition record_ok :: "run_state \<Rightarrow> bool" where
  "record_ok s =
     (rs_run_id s \<noteq> [] \<and> rs_status s \<noteq> [] \<and> rs_started_at s \<noteq> [] \<and> rs_pending s \<noteq> Some [] \<and>
      list_all result_ok (rs_results s))"

lemma read_results_record:
  "list_all result_ok (rs_results s) \<Longrightarrow> read_results fr pf (to_record s) = Some (rs_results s)"
proof -
  assume "list_all result_ok (rs_results s)"
  then have "all_some (List.map (read_result fr pf) (List.map result_row (rs_results s))) = Some (rs_results s)"
    using result_roundtrip
      all_some_map [of "rs_results s" "\<lambda>r. read_result fr pf (result_row r)" "\<lambda>r. r"]
    by (simp add: list_all_iff comp_def)
  then show ?thesis by (simp add: read_results_def to_record_def)
qed

lemma read_errors_record: "read_errors (to_record s) = Some (rs_errors s)"
proof -
  have "all_some (List.map (\<lambda>x. case x of PStr s \<Rightarrow> Some s | _ \<Rightarrow> None) (List.map PStr xs)) = Some xs" for xs
    by (induction xs) auto
  then show ?thesis by (simp add: read_errors_def to_record_def)
qed

lemma provenance_rows:
  "concat (List.map ((\<lambda>(k, v). case v of PDict d \<Rightarrow> [(k, d)] | _ \<Rightarrow> []) \<circ> (\<lambda>(k, d). (k, PDict d))) p) = p"
  by (induction p) auto

text \<open>The outputs a record is read back with: named outputs, else the outputs of the nodes.\<close>

definition reread_keys :: "run_state \<Rightarrow> pydict" where
  "reread_keys s = (if rs_output_keys s \<noteq> [] then rs_output_keys s else rs_node_outputs s)"

lemma record_reread:
  assumes "record_ok s"
  shows "from_record fr pf now (to_record s) =
    Some (s\<lparr>rs_output_keys := reread_keys s, rs_last_node_usage := []\<rparr>)"
proof -
  have fields: "vget (to_record s) ''inputs'' = PDict (rs_inputs s)"
    "vget (to_record s) ''node_outputs'' = PDict (rs_node_outputs s)"
    "or_val (vget (to_record s) ''output_keys'') (vget (to_record s) ''outputs'') = PDict (reread_keys s)"
    "vget (to_record s) ''metadata'' = PDict (rs_metadata s)"
    "vget (to_record s) ''pending_node'' = of_opt_str (rs_pending_node s)"
    "vget (to_record s) ''usage'' = usage_value (rs_usage s)"
    "vget (to_record s) ''provenance'' = PDict (List.map (\<lambda>(k, d). (k, PDict d)) (rs_provenance s))"
    "vget (to_record s) ''finished_at'' = of_opt_str (rs_finished_at s)"
    "vget (to_record s) ''run_id'' = PStr (rs_run_id s)"
    "vget (to_record s) ''status'' = PStr (rs_status s)"
    "vget (to_record s) ''started_at'' = PStr (rs_started_at s)"
    "text_or fr (or_val (vget (to_record s) ''workflow'') (vget (to_record s) ''workflow_name'')) [] =
       rs_workflow_name s"
    "(case vget (to_record s) ''pending'' of PDict d \<Rightarrow> Some d | _ \<Rightarrow> None) = rs_pending s"
    using assms
    by (auto simp: to_record_def or_val_def reread_keys_def record_ok_def text_or_def split: option.split)
  show ?thesis
    using assms
    unfolding from_record_def fields read_errors_record
      read_results_record [OF assms [unfolded record_ok_def, THEN conjunct2, THEN conjunct2, THEN conjunct2, THEN conjunct2]]
    by (auto simp: record_ok_def provenance_rows [unfolded comp_def] provenance_rows text_or_PStr')
qed


section \<open>What a resumed run sees\<close>

text \<open>
  A run without named outputs that is persisted and read back no longer reports what its
  later nodes produce: its record keeps the outputs of the nodes before the restart, while the
  run that was never read back reports all of them.
\<close>

theorem resume_freezes_outputs:
  assumes "record_ok s" "rs_output_keys s = []" "rs_node_outputs s \<noteq> []"
  shows "\<exists>s'. from_record fr pf now (to_record s) = Some s' \<and>
      vget (to_record (record_node n out ty None r s')) ''outputs'' = PDict (rs_node_outputs s) \<and>
      vget (to_record (record_node n out ty None r s)) ''outputs'' =
        PDict (dset n out (rs_node_outputs s))"
proof (intro exI conjI)
  show "from_record fr pf now (to_record s) =
      Some (s\<lparr>rs_output_keys := rs_node_outputs s, rs_last_node_usage := []\<rparr>)"
    using record_reread [OF assms(1)] assms(2) by (simp add: reread_keys_def)
qed (use assms(2,3) in \<open>simp_all add: record_node_def to_record_def\<close>)

definition sample_run :: run_state where
  "sample_run = record_node ''fetch'' (PStr ''page'') ''tool'' None blank_result
     (start_run ''r1'' ''report'' [(''topic'', PStr ''tea'')] [] ''2026-01-01'')"


lemma resume_freezes_outputs_witness:
  "\<exists>s'. from_record (\<lambda>x. []) (\<lambda>x. None) [] (to_record sample_run) = Some s' \<and>
      vget (to_record (record_node ''sum'' (PInt 3) ''tool'' None blank_result s')) ''outputs'' =
        PDict (rs_node_outputs sample_run) \<and>
      vget (to_record (record_node ''sum'' (PInt 3) ''tool'' None blank_result sample_run)) ''outputs'' =
        PDict (dset ''sum'' (PInt 3) (rs_node_outputs sample_run))"
  by (rule resume_freezes_outputs) code_simp+

section \<open>Garbage collection\<close>

lemma gc_loop_outcome:
  "map_of (snd (gc_loop sel ss dir)) k =
     (if \<exists>s \<in> set ss. sel s \<and> rs_run_id s = k then None else map_of dir k)"
  by (induction sel ss dir rule: gc_loop.induct) (auto simp: delete_conv' split: prod.split)

lemma set_insert_newest [simp]: "set (insert_newest s ts) = insert s (set ts)"
  by (induction ts) auto

lemma set_newest_first [simp]: "set (newest_first ss) = set ss"
  by (induction ss) (auto simp: newest_first_def)

lemma set_states_of:
  "s \<in> set (states_of f dir) \<Longrightarrow> \<exists>stem content. (stem, content) \<in> set dir \<and> f content = Inr s"
  by (induction f dir rule: states_of.induct) (auto split: if_splits sum.splits)

lemma set_list_runs:
  "s \<in> set (list_runs fr pf t None None 0 dir) \<Longrightarrow>
   \<exists>stem content. (stem, content) \<in> set dir \<and> read_run fr pf t content = Inr s"
  by (auto simp: list_runs_def dest: set_states_of)

definition dir_consistent :: "(rat \<Rightarrow> string) \<Rightarrow> (string \<Rightarrow> rat option) \<Rightarrow> string \<Rightarrow> runs_dir \<Rightarrow> bool" where
  "dir_consistent fr pf t dir =
     (distinct (List.map fst dir) \<and>
      list_all (\<lambda>(stem, content). case read_run fr pf t content of
        Inr s \<Rightarrow> rs_run_id s = stem | Inl _ \<Rightarrow> True) dir)"

lemma dir_consistent_run:
  assumes "dir_consistent fr pf t dir" "s \<in> set (list_runs fr pf t None None 0 dir)"
    "map_of dir (rs_run_id s) = Some content"
  shows "read_run fr pf t content = Inr s"
proof -
  obtain stem c where f: "(stem, c) \<in> set dir" "read_run fr pf t c = Inr s"
    using set_list_runs [OF assms(2)] by blast
  with assms(1) have "stem = rs_run_id s" by (fastforce simp: dir_consistent_def list_all_iff)
  with f(1) assms(1,3) have "c = content" by (simp add: dir_consistent_def)
  with f(2) show ?thesis by simp
qed

lemma gc_runs_outcome:
  assumes "dir_consistent fr pf t dir" "map_of dir stem = Some content"
  shows "(map_of (snd (gc_runs fr pf isop t now opts dir)) stem = None) =
    (\<exists>s. read_run fr pf t content = Inr s \<and> rs_run_id s = stem \<and> gc_selects isop now opts s \<and>
       s \<in> set (drop (nat (gc_keep opts)) (list_runs fr pf t None None 0 dir)))"
proof -
  have E: "(map_of (snd (gc_runs fr pf isop t now opts dir)) stem = None) =
    (\<exists>s \<in> set (drop (nat (gc_keep opts)) (list_runs fr pf t None None 0 dir)).
       gc_selects isop now opts s \<and> rs_run_id s = stem)"
    using assms(2) by (auto simp: gc_runs_def gc_loop_outcome Let_def)
  have R: "read_run fr pf t content = Inr s"
    if "s \<in> set (drop (nat (gc_keep opts)) (list_runs fr pf t None None 0 dir))" "rs_run_id s = stem" for s
    by (rule dir_consistent_run [OF assms(1) in_set_dropD [OF that(1)]]) (simp only: that(2) assms(2))
  show ?thesis unfolding E using R by blast
qed

text \<open>
  Garbage collection deletes a run exactly if it is not among the newest ones to keep, has
  one of the wanted states, and is out of its retention window or that is overridden. So a
  waiting run, a paused one that was not asked for and a file that cannot be read survive.
\<close>

theorem gc_deletes_exactly:
  assumes "dir_consistent fr pf t dir" "map_of dir stem = Some content"
  shows "(map_of (snd (gc_runs fr pf isop t now opts dir)) stem = None) =
    (\<exists>s. read_run fr pf t content = Inr s \<and> rs_run_id s = stem \<and>
       rs_status s \<noteq> ''waiting'' \<and> (rs_status s = ''paused'' \<longrightarrow> gc_include_paused opts) \<and>
       rs_status s \<in> set (gc_wanted opts) \<and>
       (in_retention_window isop now (gc_min_age opts) s \<longrightarrow> gc_override_retention opts) \<and>
       s \<in> set (drop (nat (gc_keep opts)) (list_runs fr pf t None None 0 dir)))"
  unfolding gc_runs_outcome [OF assms] gc_selects_def by blast

definition sample_dir :: runs_dir where
  "sample_dir =
     [(''r1'', Some (PDict (to_record (finish ''succeeded'' ''2026-01-02'' (start_run ''r1'' ''report'' [] [] ''2026-01-01''))))),
      (''r2'', Some (PDict (to_record (finish ''waiting'' ''2026-01-02'' (start_run ''r2'' ''report'' [] [] ''2026-01-01'')))))]"

definition sample_gc :: gc_options where
  "sample_gc = \<lparr>gc_statuses = None, gc_include_paused = False, gc_keep = 0, gc_min_age = None,
     gc_override_retention = False\<rparr>"

lemma gc_deletes_exactly_witness:
  "map_of (snd (gc_runs (\<lambda>x. []) (\<lambda>x. None) (\<lambda>x. None) [] 0 sample_gc sample_dir)) ''r1'' = None \<and>
   map_of (snd (gc_runs (\<lambda>x. []) (\<lambda>x. None) (\<lambda>x. None) [] 0 sample_gc sample_dir)) ''r2'' \<noteq> None"
proof -
  have ok: "dir_consistent (\<lambda>x. []) (\<lambda>x. None) [] sample_dir" by code_simp
  have waiting: "read_run (\<lambda>x. []) (\<lambda>x. None) [] (the (map_of sample_dir ''r2'')) =
      Inr (finish ''waiting'' ''2026-01-02'' (start_run ''r2'' ''report'' [] [] ''2026-01-01''))" by code_simp
  have r2: "map_of sample_dir ''r2'' = Some (the (map_of sample_dir ''r2''))" by code_simp
  have "map_of (snd (gc_runs (\<lambda>x. []) (\<lambda>x. None) (\<lambda>x. None) [] 0 sample_gc sample_dir)) ''r1'' = None"
    by code_simp
  moreover have "map_of (snd (gc_runs (\<lambda>x. []) (\<lambda>x. None) (\<lambda>x. None) [] 0 sample_gc sample_dir)) ''r2'' \<noteq> None"
    unfolding gc_deletes_exactly [OF ok r2] waiting by (auto simp: finish_def)
  ultimately show ?thesis ..
qed

end
