(* ===== verification/Templates.thy ===== *)
theory Templates
  imports Values
begin

text \<open>
  Template interpolation, \<open>workflow/templates.py\<close>: the tokens of the pattern \<open>_VAR\<close>, the lookup
  of dotted paths in nested values, the filters, and the text of a value. The pattern is
  matched by hand, one alternative after the other; \<open>fr\<close> is the text of a float.
\<close>

section \<open>Text of a value\<close>

definition json_char :: "char \<Rightarrow> string" where
  "json_char c =
     (let n = (of_char c :: nat) in
      if n = 34 \<or> n = 92 then [char_of (92 :: nat), c]
      else if n = 10 then [char_of (92 :: nat), CHR ''n'']
      else if n = 13 then [char_of (92 :: nat), CHR ''r'']
      else if n = 9 then [char_of (92 :: nat), CHR ''t'']
      else if n = 8 then [char_of (92 :: nat), CHR ''b'']
      else if n = 12 then [char_of (92 :: nat), CHR ''f'']
      else if n < 32 then char_of (92 :: nat) # ''u00'' @ [hex_char (n div 16), hex_char (n mod 16)]
      else [c])"

definition json_string :: "string \<Rightarrow> string" where
  "json_string s = CHR 0x22 # concat (List.map json_char s) @ [CHR 0x22]"

fun json_text :: "(rat \<Rightarrow> string) \<Rightarrow> pyval \<Rightarrow> string" where
  "json_text fr PNone = ''null''"
| "json_text fr (PBool b) = (if b then ''true'' else ''false'')"
| "json_text fr (PInt n) = int_text n"
| "json_text fr (PFloat x) = fr x"
| "json_text fr (PStr s) = json_string s"
| "json_text fr (PList xs) = ''['' @ join_with '', '' (List.map (json_text fr) xs) @ '']''"
| "json_text fr (PDict d) =
     ''{'' @ join_with '', '' (List.map (\<lambda>(k, v). json_string k @ '': '' @ json_text fr v) d) @ ''}''"

fun stringify :: "(rat \<Rightarrow> string) \<Rightarrow> pyval \<Rightarrow> string" where
  "stringify fr PNone = []"
| "stringify fr (PStr s) = s"
| "stringify fr (PInt n) = int_text n"
| "stringify fr (PFloat x) = fr x"
| "stringify fr v = json_text fr v"

section \<open>Tokens\<close>

datatype part = Lit char | Var string "string option" string

definition ident_start :: "char \<Rightarrow> bool" where
  "ident_start c = (is_alpha c \<or> c = CHR ''_'')"

definition ident_char :: "char \<Rightarrow> bool" where
  "ident_char c = (is_alnum c \<or> c = CHR ''_'' \<or> c = CHR ''.'')"

definition FILTERS :: "string list" where
  "FILTERS = [''default'', ''len'', ''join'']"

definition filter_name :: "string \<Rightarrow> (string \<times> string) option" where
  "filter_name s =
     map_option (\<lambda>f. (f, drop (length f) s)) (find (starts_with s) FILTERS)"

text \<open>
  A match of \<open>_VAR\<close> at the start of the text: path, filter, its argument with the white space
  around it removed, and the rest of the text. The argument runs to the first closing
  brace, which another one has to follow.
\<close>

definition match_filter :: "string \<Rightarrow> string \<Rightarrow> (part \<times> string) option" where
  "match_filter path s =
     (case filter_name (lstrip s) of
        None \<Rightarrow> None
      | Some (name, r) \<Rightarrow>
          (let arg = takeWhile (\<lambda>c. c \<noteq> CHR ''}'') r; rest = dropWhile (\<lambda>c. c \<noteq> CHR ''}'') r
           in if (arg = [] \<or> is_space (hd arg)) \<and> starts_with rest ''}}''
              then Some (Var path (Some name) (strip arg), drop 2 rest) else None))"

definition match_var :: "string \<Rightarrow> (part \<times> string) option" where
  "match_var s =
     (if \<not> starts_with s ''{{'' then None
      else
        (let r = lstrip (drop 2 s);
             path = takeWhile ident_char r;
             r' = lstrip (dropWhile ident_char r)
         in if path = [] \<or> \<not> ident_start (hd path) then None
            else if starts_with r' ''|'' then match_filter path (tl r')
            else if starts_with r' ''}}'' then Some (Var path None [], drop 2 r')
            else None))"

lemma length_lstrip: "length (lstrip s) \<le> length s"
  by (simp add: lstrip_def length_dropWhile_le)

lemma match_filter_shorter: "match_filter path s = Some (p, rest) \<Longrightarrow> length rest \<le> length s"
proof -
  assume "match_filter path s = Some (p, rest)"
  then obtain name r where f: "filter_name (lstrip s) = Some (name, r)"
    and rest: "rest = drop 2 (dropWhile (\<lambda>c. c \<noteq> CHR ''}'') r)"
    by (auto simp: match_filter_def Let_def split: option.splits if_splits)
  have "length r \<le> length s" using f length_lstrip [of s] by (auto simp: filter_name_def)
  moreover have "length rest \<le> length r" unfolding rest
    by (metis diff_le_self dual_order.trans length_drop length_dropWhile_le)
  ultimately show ?thesis by simp
qed

lemma match_var_shorter: "match_var s = Some (p, rest) \<Longrightarrow> length rest < length s"
proof -
  assume m: "match_var s = Some (p, rest)"
  let ?r = "lstrip (drop 2 s)"
  let ?r' = "lstrip (dropWhile ident_char ?r)"
  have s: "starts_with s ''{{''" using m by (auto simp: match_var_def split: if_splits)
  then have len: "2 \<le> length s" by (auto simp: starts_with_iff)
  have r': "length ?r' \<le> length s - 2"
    using length_lstrip [of "drop 2 s"] length_lstrip [of "dropWhile ident_char ?r"]
      length_dropWhile_le [of ident_char ?r] by simp
  from m s consider "match_filter (takeWhile ident_char ?r) (tl ?r') = Some (p, rest)" | "rest = drop 2 ?r'"
    by (auto simp: match_var_def Let_def split: if_splits)
  then have "length rest \<le> length ?r'"
    by cases (auto dest!: match_filter_shorter)
  with r' len show ?thesis by simp
qed

function scan :: "string \<Rightarrow> part list" where
  "scan s =
     (case s of
        [] \<Rightarrow> []
      | c # cs \<Rightarrow>
          (case match_var s of
             Some (p, rest) \<Rightarrow> p # scan rest
           | None \<Rightarrow> Lit c # scan cs))"
  by auto
termination
  by (relation "measure length") (auto dest: match_var_shorter)

declare scan.simps [simp del]

definition var_paths :: "string \<Rightarrow> string list" where
  "var_paths template =
     concat (List.map (\<lambda>p. case p of Lit _ \<Rightarrow> [] | Var path _ _ \<Rightarrow> [path]) (scan template))"

section \<open>Lookup\<close>

text \<open>\<open>None\<close> is the \<open>TemplateError\<close> of a missing variable.\<close>

definition list_at :: "pyval list \<Rightarrow> int \<Rightarrow> pyval option" where
  "list_at xs i =
     (if 0 \<le> i \<and> i < int (length xs) then Some (xs ! nat i)
      else if i < 0 \<and> - int (length xs) \<le> i then Some (xs ! nat (int (length xs) + i))
      else None)"

definition path_step :: "pyval \<Rightarrow> string \<Rightarrow> pyval option" where
  "path_step current part =
     (case current of
        PDict d \<Rightarrow> dget d part
      | PList xs \<Rightarrow> Option.bind (py_int part) (list_at xs)
      | _ \<Rightarrow> None)"

fun follow :: "pyval \<Rightarrow> string list \<Rightarrow> pyval option" where
  "follow v [] = Some v"
| "follow v (p # ps) = (case path_step v p of None \<Rightarrow> None | Some w \<Rightarrow> follow w ps)"

definition resolve_path :: "pyval \<Rightarrow> string \<Rightarrow> pyval option" where
  "resolve_path data path = follow data (split_char CHR ''.'' path)"

definition lookup_path :: "pydict \<Rightarrow> string \<Rightarrow> pyval option" where
  "lookup_path ns path =
     (if CHR ''.'' \<notin> set path then dget ns path
      else
        (let head = before_char CHR ''.'' path; rest = after_char CHR ''.'' path
         in case dget ns head of
              None \<Rightarrow> None
            | Some v \<Rightarrow> if rest = [] then Some v else resolve_path v rest))"

section \<open>Filters and interpolation\<close>

datatype template_error =
    MissingVariable string
  | NotSized
  | NotIterable
  | UnknownFilter string

definition unquote :: "string \<Rightarrow> string" where
  "unquote s =
     (if 2 \<le> length s \<and> hd s = last s \<and> (hd s = CHR 0x27 \<or> hd s = CHR 0x22) then butlast (tl s) else s)"

definition py_len :: "pyval \<Rightarrow> nat option" where
  "py_len v = (case v of PStr s \<Rightarrow> Some (length s) | PList xs \<Rightarrow> Some (length xs)
     | PDict d \<Rightarrow> Some (length d) | _ \<Rightarrow> None)"

definition apply_filter :: "(rat \<Rightarrow> string) \<Rightarrow> string \<Rightarrow> pyval \<Rightarrow> string \<Rightarrow> template_error + pyval" where
  "apply_filter fr name v arg =
     (if name = ''default'' then Inr (if v = PNone \<or> v = PStr [] then PStr (unquote arg) else v)
      else if name = ''len'' then
        (case py_len v of None \<Rightarrow> Inl NotSized | Some n \<Rightarrow> Inr (PInt (int n)))
      else if name = ''join'' then
        (let sep = (if arg = [] then [] else unquote arg)
         in case py_list v of
              None \<Rightarrow> Inl NotIterable
            | Some xs \<Rightarrow> Inr (PStr (join_with sep (List.map (stringify fr) xs))))
      else Inl (UnknownFilter name))"

definition render :: "(rat \<Rightarrow> string) \<Rightarrow> pydict \<Rightarrow> part \<Rightarrow> template_error + string" where
  "render fr ns p =
     (case p of
        Lit c \<Rightarrow> Inr [c]
      | Var path filt arg \<Rightarrow>
          (case lookup_path ns path of
             None \<Rightarrow> if filt = Some ''default'' then Inr (unquote arg) else Inl (MissingVariable path)
           | Some v \<Rightarrow>
               (case filt of
                  None \<Rightarrow> Inr (stringify fr v)
                | Some f \<Rightarrow> rbind (apply_filter fr f v arg) (\<lambda>w. Inr (stringify fr w)))))"

fun render_all :: "(rat \<Rightarrow> string) \<Rightarrow> pydict \<Rightarrow> part list \<Rightarrow> template_error + string" where
  "render_all fr ns [] = Inr []"
| "render_all fr ns (p # ps) =
     rbind (render fr ns p) (\<lambda>s. rbind (render_all fr ns ps) (\<lambda>t. Inr (s @ t)))"

definition interpolate :: "(rat \<Rightarrow> string) \<Rightarrow> string \<Rightarrow> pydict \<Rightarrow> template_error + string" where
  "interpolate fr template ns = render_all fr ns (scan template)"

fun interpolate_value :: "(rat \<Rightarrow> string) \<Rightarrow> pydict \<Rightarrow> pyval \<Rightarrow> template_error + pyval"
and interpolate_list :: "(rat \<Rightarrow> string) \<Rightarrow> pydict \<Rightarrow> pyval list \<Rightarrow> template_error + pyval list"
and interpolate_dict :: "(rat \<Rightarrow> string) \<Rightarrow> pydict \<Rightarrow> pydict \<Rightarrow> template_error + pydict" where
  "interpolate_value fr ns (PStr s) = rbind (interpolate fr s ns) (\<lambda>t. Inr (PStr t))"
| "interpolate_value fr ns (PDict d) = rbind (interpolate_dict fr ns d) (\<lambda>e. Inr (PDict e))"
| "interpolate_value fr ns (PList xs) = rbind (interpolate_list fr ns xs) (\<lambda>ys. Inr (PList ys))"
| "interpolate_value fr ns PNone = Inr PNone"
| "interpolate_value fr ns (PBool b) = Inr (PBool b)"
| "interpolate_value fr ns (PInt n) = Inr (PInt n)"
| "interpolate_value fr ns (PFloat x) = Inr (PFloat x)"
| "interpolate_list fr ns [] = Inr []"
| "interpolate_list fr ns (x # xs) =
     rbind (interpolate_value fr ns x) (\<lambda>y. rbind (interpolate_list fr ns xs) (\<lambda>ys. Inr (y # ys)))"
| "interpolate_dict fr ns [] = Inr []"
| "interpolate_dict fr ns ((k, x) # d) =
     rbind (interpolate_value fr ns x) (\<lambda>y. rbind (interpolate_dict fr ns d) (\<lambda>e. Inr ((k, y) # e)))"

section \<open>Tokens of plain variables\<close>

definition plain_path :: "string \<Rightarrow> bool" where
  "plain_path path = (path \<noteq> [] \<and> ident_start (hd path) \<and> list_all ident_char path)"

definition token :: "string \<Rightarrow> string" where
  "token path = ''{{'' @ path @ ''}}''"

lemma scan_Nil [simp]: "scan [] = []"
  by (subst scan.simps) simp

lemma ident_start_not_space: "ident_start c \<Longrightarrow> \<not> is_space c"
  by (auto simp: ident_start_def is_alpha_def is_upper_def is_lower_def is_space_def Let_def)

lemma match_var_token:
  assumes "plain_path path"
  shows "match_var (token path @ rest) = Some (Var path None [], rest)"
proof -
  obtain c cs where path: "path = c # cs" using assms by (cases path) (auto simp: plain_path_def)
  have ns: "\<not> is_space c" using assms path ident_start_not_space by (simp add: plain_path_def)
  have all: "\<forall>x \<in> set path. ident_char x" using assms by (simp add: plain_path_def list_all_iff)
  have nc: "\<not> ident_char CHR ''}''" "\<not> is_space CHR ''}''"
    by (auto simp: ident_char_def is_alnum_def is_alpha_def is_upper_def is_lower_def is_digit_def
        is_space_def)
  have "lstrip (path @ ''}}'' @ rest) = path @ ''}}'' @ rest" using ns by (simp add: path lstrip_def)
  moreover have "takeWhile ident_char (path @ ''}}'' @ rest) = path"
    "dropWhile ident_char (path @ ''}}'' @ rest) = ''}}'' @ rest"
    using all nc by (simp_all add: takeWhile_append2 dropWhile_append2)
  moreover have "lstrip (''}}'' @ rest) = ''}}'' @ rest" using nc by (simp add: lstrip_def)
  ultimately show ?thesis using assms by (simp add: match_var_def token_def plain_path_def Let_def)
qed

lemma scan_token: "plain_path path \<Longrightarrow> scan (token path @ rest) = Var path None [] # scan rest"
  using match_var_token [of path rest] by (subst scan.simps) (simp add: token_def)

lemma scan_token_only [simp]: "plain_path path \<Longrightarrow> scan (token path) = [Var path None []]"
  using scan_token [of path "[]"] by simp

lemma var_paths_token [simp]: "plain_path path \<Longrightarrow> var_paths (token path) = [path]"
  by (simp add: var_paths_def)

lemma interpolate_token [simp]:
  "plain_path path \<Longrightarrow> interpolate fr (token path) ns =
     (case lookup_path ns path of None \<Rightarrow> Inl (MissingVariable path) | Some v \<Rightarrow> Inr (stringify fr v))"
  by (simp add: interpolate_def render_def split: option.split)

lemma scan_plain:
  "CHR ''{'' \<notin> set s \<Longrightarrow> scan (s @ rest) = List.map Lit s @ scan rest"
proof (induction s)
  case (Cons c s)
  then have "match_var (c # s @ rest) = None" by (auto simp: match_var_def)
  with Cons show ?case by (simp add: scan.simps [of "c # s @ rest"])
qed simp

lemma render_all_append:
  "render_all fr ns (ps @ qs) =
     rbind (render_all fr ns ps) (\<lambda>s. rbind (render_all fr ns qs) (\<lambda>t. Inr (s @ t)))"
  by (induction ps) (auto simp: rbind_def split: sum.split)

lemma render_all_literal [simp]: "render_all fr ns (List.map Lit s) = Inr s"
  by (induction s) (auto simp: render_def)

text \<open>
  Interpolation makes one pass: what precedes a token stays, the token becomes the text of
  its value whatever that text contains, tokens included, and the rest is interpolated from the
  source; a token without a value is an error.
\<close>

theorem interpolation_single_pass:
  assumes "CHR ''{'' \<notin> set before" "plain_path path"
  shows "interpolate fr (before @ token path @ rest) ns =
    (case lookup_path ns path of
       None \<Rightarrow> Inl (MissingVariable path)
     | Some v \<Rightarrow> rbind (interpolate fr rest ns) (\<lambda>t. Inr (before @ stringify fr v @ t)))"
  by (simp add: interpolate_def scan_plain [OF assms(1)] scan_token [OF assms(2)] render_all_append
      render_def split: option.split)
    (auto simp: rbind_def split: sum.split)

lemma interpolation_single_pass_witness:
  "interpolate (\<lambda>x. []) (''say '' @ token ''x'' @ ''!'') [(''x'', PStr ''{{y}}''), (''y'', PStr ''no'')] =
     Inr ''say {{y}}!''"
proof -
  have "CHR ''{'' \<notin> set ''say ''" "plain_path ''x''"
    by (simp_all add: plain_path_def ident_start_def ident_char_def is_alnum_def is_alpha_def
        is_lower_def is_upper_def)
  from interpolation_single_pass [OF this, of "\<lambda>x. []" "''!''"] show ?thesis
    by (simp add: lookup_path_def interpolate_def scan.simps [of "''!''"] match_var_def render_def)
qed

end
