(* ===== verification/Taint.thy ===== *)
theory Taint
  imports RunStates Templates
begin

text \<open>
  Provenance of the values of a run, \<open>firewall/taint.py\<close>: the trust of an input or of a node's
  output, how templates combine it, and what a finished node adds; with the resolution of
  \<open>routing/taint.py\<close>, which decides on the same records.
\<close>

section \<open>Provenance\<close>

record provenance =
  pv_trust :: string
  pv_source :: string
  pv_node_id :: "string option"
  pv_detail :: "string option"

definition provenance_dict :: "provenance \<Rightarrow> pydict" where
  "provenance_dict p =
     [(''trust'', PStr (pv_trust p)), (''source'', PStr (pv_source p))]
     @ (case pv_node_id p of None \<Rightarrow> [] | Some n \<Rightarrow> [(''node_id'', PStr n)])
     @ (case pv_detail p of None \<Rightarrow> [] | Some d \<Rightarrow> [(''detail'', PStr d)])"

definition trusted :: "string \<Rightarrow> string option \<Rightarrow> string option \<Rightarrow> provenance" where
  "trusted source node detail =
     \<lparr>pv_trust = ''trusted'', pv_source = source, pv_node_id = node, pv_detail = detail\<rparr>"

definition untrusted :: "string \<Rightarrow> string option \<Rightarrow> string option \<Rightarrow> provenance" where
  "untrusted source node detail =
     \<lparr>pv_trust = ''untrusted'', pv_source = source, pv_node_id = node, pv_detail = detail\<rparr>"

definition is_untrusted :: "provenance \<Rightarrow> bool" where
  "is_untrusted p = (pv_trust p = ''untrusted'')"

definition from_mapping :: "(rat \<Rightarrow> string) \<Rightarrow> pydict \<Rightarrow> provenance" where
  "from_mapping fr raw =
     \<lparr>pv_trust = (if text_or fr (vget raw ''trust'') ''trusted'' = ''untrusted''
                 then ''untrusted'' else ''trusted''),
      pv_source = text_or fr (vget raw ''source'') ''literal'',
      pv_node_id = opt_text fr (vget raw ''node_id''),
      pv_detail = opt_text fr (vget raw ''detail'')\<rparr>"

definition merge_provenance :: "provenance list \<Rightarrow> string option \<Rightarrow> provenance" where
  "merge_provenance parts node =
     (case parts of
        [] \<Rightarrow> trusted ''literal'' node None
      | p # ps \<Rightarrow>
          (case find is_untrusted parts of
             Some q \<Rightarrow> untrusted (pv_source q) node None
           | None \<Rightarrow> trusted (pv_source p) node None))"

section \<open>Templates\<close>

text \<open>The roots and the full paths of the tokens of a template, each once, in order.\<close>

definition template_roots :: "string \<Rightarrow> string list" where
  "template_roots template =
     foldl (\<lambda>names path. let root = before_char CHR ''.'' path
              in if root = [] then names else add_new root names) [] (var_paths template)"

definition template_paths :: "string \<Rightarrow> string list" where
  "template_paths template =
     foldl (\<lambda>paths path. if strip path = [] then paths else add_new (strip path) paths)
       [] (var_paths template)"

fun walk_strings :: "pyval \<Rightarrow> string list" where
  "walk_strings (PStr s) = [s]"
| "walk_strings (PDict d) = concat (List.map (\<lambda>(k, v). walk_strings v) d)"
| "walk_strings (PList xs) = concat (List.map walk_strings xs)"
| "walk_strings _ = []"

definition provenance_of :: "(rat \<Rightarrow> string) \<Rightarrow> run_state \<Rightarrow> string \<Rightarrow> provenance" where
  "provenance_of fr s key =
     (case map_of (rs_provenance s) key of
        Some raw \<Rightarrow> from_mapping fr raw
      | None \<Rightarrow> if map_of (rs_inputs s) key \<noteq> None then trusted ''input'' None None
               else trusted ''literal'' None None)"

definition arguments_tainted :: "(rat \<Rightarrow> string) \<Rightarrow> run_state \<Rightarrow> pyval \<Rightarrow> bool" where
  "arguments_tainted fr s arguments =
     list_ex (\<lambda>text. list_ex (\<lambda>root. is_untrusted (provenance_of fr s root)) (template_roots text))
       (walk_strings arguments)"

definition provenance_for_template :: "(rat \<Rightarrow> string) \<Rightarrow> run_state \<Rightarrow> string \<Rightarrow> string option \<Rightarrow>
    provenance" where
  "provenance_for_template fr s template node =
     merge_provenance (List.map (provenance_of fr s) (template_roots template)) node"

definition newline :: string where
  "newline = [char_of (10 :: nat)]"

definition or_empty :: "string option \<Rightarrow> string" where
  "or_empty x = (case x of None \<Rightarrow> [] | Some t \<Rightarrow> t)"

definition prompt_tainted :: "(rat \<Rightarrow> string) \<Rightarrow> run_state \<Rightarrow> string \<Rightarrow> string option \<Rightarrow> bool" where
  "prompt_tainted fr s prompt system =
     is_untrusted (provenance_for_template fr s (prompt @ newline @ or_empty system) None)"

definition set_provenance :: "string \<Rightarrow> provenance \<Rightarrow> run_state \<Rightarrow> run_state" where
  "set_provenance key p s =
     (if key = [] then s else s\<lparr>rs_provenance := dset key (provenance_dict p) (rs_provenance s)\<rparr>)"

definition seed_foreach_item_provenance :: "(rat \<Rightarrow> string) \<Rightarrow> run_state \<Rightarrow> string \<Rightarrow> string \<Rightarrow>
    run_state \<Rightarrow> run_state" where
  "seed_foreach_item_provenance fr parent items_expr node child =
     (let roots = template_roots items_expr;
          root = strip (before_char CHR ''.'' items_expr);
          roots = (if roots = [] \<and> root \<noteq> [] then [root] else roots);
          mark = (if list_ex (\<lambda>r. is_untrusted (provenance_of fr parent r)) roots
                  then untrusted ''foreach'' (Some node) else trusted ''foreach'' (Some node))
      in set_provenance ''index'' (mark (Some ''index''))
           (set_provenance ''item'' (mark (Some ''item''))
             (child\<lparr>rs_provenance := rs_provenance parent\<rparr>)))"

definition seed_input_provenance :: "run_state \<Rightarrow> run_state" where
  "seed_input_provenance s =
     s\<lparr>rs_provenance :=
         foldl (\<lambda>p key. setdefault key (provenance_dict (trusted ''input'' None None)) p)
           (rs_provenance s) (List.map fst (rs_inputs s))\<rparr>"

definition note_output :: "string \<Rightarrow> string option \<Rightarrow> provenance \<Rightarrow> run_state \<Rightarrow> run_state" where
  "note_output node output_key p s =
     (let s = set_provenance node p s
      in if truthy output_key then set_provenance (the output_key) p s else s)"

section \<open>What a finished node adds\<close>

text \<open>The fields of a node that decide about its provenance; a body is its type, tool and template.\<close>

record flow_node =
  fn_type :: string
  fn_id :: string
  fn_output_key :: "string option"
  fn_tool :: "string option"
  fn_prompt :: "string option"
  fn_system :: "string option"
  fn_media :: bool
  fn_template :: "string option"
  fn_source :: "string option"
  fn_when :: "string option"
  fn_items :: "string option"
  fn_body_type :: string
  fn_body_tool :: "string option"
  fn_body_template :: "string option"
  fn_branches :: "string list"
  fn_state :: pyval

definition EXTERNAL_BODIES :: "string list" where
  "EXTERNAL_BODIES = [''tool'', ''agent'', ''a2a'', ''memory'']"

text \<open>\<open>re.findall\<close> of identifiers: each starts at the first character that can start one.\<close>

definition word_start :: "char \<Rightarrow> bool" where
  "word_start c = (is_alpha c \<or> c = CHR ''_'')"

definition word_rest :: "char \<Rightarrow> bool" where
  "word_rest c = (is_alnum c \<or> c = CHR ''_'')"

function find_words :: "string \<Rightarrow> string list" where
  "find_words s =
     (case s of
        [] \<Rightarrow> []
      | c # cs \<Rightarrow>
          if word_start c then (c # takeWhile word_rest cs) # find_words (dropWhile word_rest cs)
          else find_words cs)"
  by auto
termination
  by (relation "measure length") (auto simp: less_Suc_eq_le length_dropWhile_le)

declare find_words.simps [simp del]

definition CONDITION_WORDS :: "string list" where
  "CONDITION_WORDS = [''and'', ''or'', ''not'', ''true'', ''false'', ''in'', ''eq'', ''ne'']"

definition tool_source :: "(string \<Rightarrow> bool) \<Rightarrow> string \<Rightarrow> string" where
  "tool_source connector tool =
     (if tool = ''http_get'' then ''http''
      else if tool \<in> set [''read_file'', ''list_dir'', ''write_file''] then ''file''
      else if connector tool then ''connector:'' @ tool
      else if CHR ''.'' \<in> set tool then ''mcp:'' @ before_char CHR ''.'' tool
      else ''tool:'' @ tool)"

definition or_text :: "string option \<Rightarrow> string \<Rightarrow> string" where
  "or_text x d = (if truthy x then the x else d)"

definition agent_provenance :: "(rat \<Rightarrow> string) \<Rightarrow> flow_node \<Rightarrow> run_state \<Rightarrow> provenance" where
  "agent_provenance fr n s =
     (let p = provenance_for_template fr s
                (or_text (fn_prompt n) [] @ '' '' @ or_text (fn_system n) []) (Some (fn_id n))
      in if fn_media n then untrusted ''media'' (Some (fn_id n)) None
         else if is_untrusted p then untrusted ''model'' (Some (fn_id n)) None
         else trusted ''model'' (Some (fn_id n)) None)"

text \<open>\<open>state.results[-2]\<close> is the result before the one of this node.\<close>

definition previous_node :: "run_state \<Rightarrow> string" where
  "previous_node s =
     (if 2 \<le> length (rs_results s) then nr_node_id (rs_results s ! (length (rs_results s) - 2)) else [])"

definition transform_provenance :: "(rat \<Rightarrow> string) \<Rightarrow> flow_node \<Rightarrow> run_state \<Rightarrow> provenance" where
  "transform_provenance fr n s =
     (case fn_template n of
        Some template \<Rightarrow> provenance_for_template fr s template (Some (fn_id n))
      | None \<Rightarrow>
          (let p = (case fn_source n of
                      Some source \<Rightarrow> provenance_of fr s (before_char CHR ''.'' source)
                    | None \<Rightarrow> if previous_node s \<noteq> [] then provenance_of fr s (previous_node s)
                             else trusted ''literal'' (Some (fn_id n)) None)
           in p\<lparr>pv_node_id := Some (fn_id n)\<rparr>))"

definition condition_provenance :: "(rat \<Rightarrow> string) \<Rightarrow> flow_node \<Rightarrow> run_state \<Rightarrow> provenance" where
  "condition_provenance fr n s =
     merge_provenance
       (List.map (provenance_of fr s)
         (filter (\<lambda>w. w \<notin> set CONDITION_WORDS) (find_words (or_text (fn_when n) []))))
       (Some (fn_id n))"

definition foreach_provenance :: "(rat \<Rightarrow> string) \<Rightarrow> flow_node \<Rightarrow> run_state \<Rightarrow> provenance" where
  "foreach_provenance fr n s =
     (if fn_body_type n \<in> set EXTERNAL_BODIES then
        untrusted (''tool:'' @ or_text (fn_body_tool n) (fn_body_type n)) (Some (fn_id n)) None
      else
        (let root = before_char CHR ''.'' (or_text (fn_items n) []);
             from_items = (if root \<noteq> [] then provenance_of fr s root else trusted ''literal'' None None);
             from_body = provenance_for_template fr s (or_text (fn_body_template n) []) (Some (fn_id n))
         in merge_provenance [from_items, from_body] (Some (fn_id n))))"

definition parallel_provenance :: "flow_node \<Rightarrow> provenance" where
  "parallel_provenance n =
     (if list_ex (\<lambda>b. b \<in> set EXTERNAL_BODIES) (fn_branches n)
      then untrusted ''tool:parallel'' (Some (fn_id n)) None
      else trusted ''literal'' (Some (fn_id n)) None)"

fun has_token :: "string \<Rightarrow> bool" where
  "has_token [] = False"
| "has_token (c # cs) = (starts_with (c # cs) ''{{'' \<or> has_token cs)"

definition decide_provenance :: "(rat \<Rightarrow> string) \<Rightarrow> flow_node \<Rightarrow> run_state \<Rightarrow> provenance" where
  "decide_provenance fr n s =
     (let node = Some (fn_id n);
          p = (case fn_state n of
                 PStr text \<Rightarrow> provenance_for_template fr s text node
               | v \<Rightarrow>
                   (let parts = List.map (\<lambda>t. provenance_for_template fr s t node)
                                  (filter has_token (walk_strings v))
                    in if parts \<noteq> [] then merge_provenance parts node
                       else trusted ''decide'' node None))
      in if is_untrusted p then untrusted ''decide'' node None else p)"

definition other_provenance :: "(rat \<Rightarrow> string) \<Rightarrow> flow_node \<Rightarrow> run_state \<Rightarrow> provenance" where
  "other_provenance fr n s =
     (case find is_untrusted (List.map (from_mapping fr \<circ> snd) (rs_provenance s)) of
        Some p \<Rightarrow> untrusted (pv_source p) (Some (fn_id n)) None
      | None \<Rightarrow> trusted ''literal'' (Some (fn_id n)) None)"

definition converse_source :: "pyval \<Rightarrow> string" where
  "converse_source output =
     (case output of
        PDict d \<Rightarrow> if vget d ''role'' = PStr ''human_agent'' then ''human_agent'' else ''user''
      | _ \<Rightarrow> ''user'')"

definition browser_source :: "(rat \<Rightarrow> string) \<Rightarrow> pyval \<Rightarrow> string" where
  "browser_source fr output =
     (case output of
        PDict d \<Rightarrow> text_or fr (or_val (vget d ''url'') (vget d ''source'')) ''browser''
      | _ \<Rightarrow> ''browser'')"

definition child_untrusted :: "flow_node \<Rightarrow> run_state \<Rightarrow> bool" where
  "child_untrusted n s =
     (case vget (rs_metadata s) ''_child_untrusted'' of
        PDict d \<Rightarrow> py_truth (vget d (fn_id n)) | _ \<Rightarrow> False)"

text \<open>The node types whose output is always from outside, with the source they record.\<close>

definition external_source :: "(rat \<Rightarrow> string) \<Rightarrow> (string \<Rightarrow> bool) \<Rightarrow> flow_node \<Rightarrow> pyval \<Rightarrow>
    string option" where
  "external_source fr connector n output =
     (let k = fn_type n in
      if k = ''tool'' then Some (tool_source connector (or_text (fn_tool n) ''tool''))
      else if k \<in> set [''a2a'', ''memory'', ''skill''] then Some k
      else if k = ''ingest'' then Some ''knowledge''
      else if k \<in> set [''table'', ''classify''] then Some ''table''
      else if k = ''wait'' then Some ''event''
      else if k = ''converse'' then Some (converse_source output)
      else if k = ''browser'' then Some (browser_source fr output)
      else if k \<in> set [''document'', ''transcribe''] then Some ''media''
      else None)"

definition node_provenance :: "(rat \<Rightarrow> string) \<Rightarrow> (string \<Rightarrow> bool) \<Rightarrow> flow_node \<Rightarrow> pyval \<Rightarrow>
    run_state \<Rightarrow> provenance" where
  "node_provenance fr connector n output s =
     (case external_source fr connector n output of
        Some source \<Rightarrow> untrusted source (Some (fn_id n)) None
      | None \<Rightarrow>
          (let k = fn_type n in
           if k = ''agent'' then agent_provenance fr n s
           else if k = ''transform'' then transform_provenance fr n s
           else if k = ''condition'' then condition_provenance fr n s
           else if k = ''approval'' then trusted ''input'' (Some (fn_id n)) None
           else if k = ''foreach'' then foreach_provenance fr n s
           else if k = ''parallel'' then parallel_provenance n
           else if k = ''decide'' then decide_provenance fr n s
           else if k = ''include'' then
             (if child_untrusted n s then untrusted ''include'' (Some (fn_id n)) None
              else trusted ''literal'' (Some (fn_id n)) None)
           else other_provenance fr n s))"

definition note_node_output :: "(rat \<Rightarrow> string) \<Rightarrow> (string \<Rightarrow> bool) \<Rightarrow> flow_node \<Rightarrow> pyval \<Rightarrow>
    run_state \<Rightarrow> run_state" where
  "note_node_output fr connector n output s =
     note_output (fn_id n) (fn_output_key n) (node_provenance fr connector n output s) s"

section \<open>Routing\<close>

datatype routing_taint = RTrusted | RUntrusted | RIndeterminate

definition SKIP_ROOTS :: "string list" where
  "SKIP_ROOTS = [''run_id'', ''true'', ''false'', ''none'']"

definition NAMESPACE_ROOTS :: "string list" where
  "NAMESPACE_ROOTS = [''outputs'', ''inputs'']"

definition provenance_keys :: "string \<Rightarrow> string list option" where
  "provenance_keys path =
     (case filter (\<lambda>p. p \<noteq> []) (split_char CHR ''.'' path) of
        [] \<Rightarrow> None
      | name # nested \<Rightarrow>
          if name \<in> set SKIP_ROOTS then None
          else if name \<in> set NAMESPACE_ROOTS then Some (take 1 nested)
          else Some [name])"

text \<open>One key: whether it is known to be untrusted, and whether nothing is known of it.\<close>

definition key_untrusted :: "(rat \<Rightarrow> string) \<Rightarrow> run_state \<Rightarrow> string \<Rightarrow> bool" where
  "key_untrusted fr s key =
     (case map_of (rs_provenance s) key of
        None \<Rightarrow> False
      | Some raw \<Rightarrow>
          (let p = from_mapping fr raw
           in is_untrusted p \<or> starts_with (pv_source p) ''memory''))"

definition key_unknown :: "run_state \<Rightarrow> string \<Rightarrow> bool" where
  "key_unknown s key = (map_of (rs_provenance s) key = None \<and> map_of (rs_inputs s) key = None)"

definition resolve_routing_taint :: "(rat \<Rightarrow> string) \<Rightarrow> run_state option \<Rightarrow> flow_node \<Rightarrow>
    routing_taint" where
  "resolve_routing_taint fr state n =
     (let paths = template_paths (or_empty (fn_prompt n) @ newline @ or_empty (fn_system n))
      in if paths = [] then RTrusted
         else (case state of
           None \<Rightarrow> RIndeterminate
         | Some s \<Rightarrow>
             (let found = List.map provenance_keys paths;
                  keys = concat (List.map (\<lambda>k. case k of None \<Rightarrow> [] | Some ks \<Rightarrow> ks) found)
              in if list_ex (key_untrusted fr s) keys then RUntrusted
                 else if list_ex (\<lambda>k. k = Some []) found \<or> list_ex (key_unknown s) keys
                 then RIndeterminate
                 else RTrusted)))"

definition taint_blocks_hosted :: "routing_taint \<Rightarrow> bool" where
  "taint_blocks_hosted t = (t \<noteq> RTrusted)"

end
