(* ===== verification/Glob.thy ===== *)
theory Glob
  imports Prelude
begin

text \<open>
  Shell patterns as \<open>fnmatch.fnmatch\<close> of the standard library reads them on a POSIX system:
  \<open>*\<close> any text, \<open>?\<close> any character, \<open>[...]\<close> a set with ranges, \<open>[!...]\<close> its complement, and a
  bracket that is never closed stands for itself.
\<close>

datatype glob = GStar | GAny | GSet bool "(char \<times> char) list" | GChar char

fun class_items :: "string \<Rightarrow> (char \<times> char) list" where
  "class_items [] = []"
| "class_items (a # r) =
     (case r of
        c # b # r' \<Rightarrow> if c = CHR ''-'' then (a, b) # class_items r' else (a, a) # class_items r
      | _ \<Rightarrow> (a, a) # class_items r)"

text \<open>The set after an opening bracket, and the rest of the pattern after its closing one.\<close>

definition parse_class :: "string \<Rightarrow> (glob \<times> string) option" where
  "parse_class r =
     (let neg = starts_with r ''!'';
          body = (if neg then tl r else r);
          lead = (if starts_with body '']'' then '']'' else []);
          more = drop (length lead) body;
          stuff = lead @ takeWhile (\<lambda>c. c \<noteq> CHR '']'') more;
          rest = dropWhile (\<lambda>c. c \<noteq> CHR '']'') more
      in if rest = [] then None else Some (GSet neg (class_items stuff), tl rest))"

lemma parse_class_shorter: "parse_class r = Some (g, rest) \<Longrightarrow> length rest \<le> length r"
proof -
  assume p: "parse_class r = Some (g, rest)"
  define body where "body = (if starts_with r ''!'' then tl r else r)"
  define more where "more = drop (length (if starts_with body '']'' then '']'' else [])) body"
  have "rest = tl (dropWhile (\<lambda>c. c \<noteq> CHR '']'') more)"
    using p by (auto simp: parse_class_def Let_def body_def more_def split: if_splits)
  moreover have "length more \<le> length r" by (simp add: more_def body_def)
  ultimately show ?thesis
    using length_dropWhile_le [of "\<lambda>c. c \<noteq> CHR '']''" more] by simp
qed

function parse_glob :: "string \<Rightarrow> glob list" where
  "parse_glob s =
     (case s of
        [] \<Rightarrow> []
      | c # cs \<Rightarrow>
          if c = CHR ''*'' then GStar # parse_glob cs
          else if c = CHR ''?'' then GAny # parse_glob cs
          else if c = CHR ''['' then
            (case parse_class cs of
               Some (g, rest) \<Rightarrow> g # parse_glob rest
             | None \<Rightarrow> GChar c # parse_glob cs)
          else GChar c # parse_glob cs)"
  by auto
termination
  by (relation "measure length") (auto dest: parse_class_shorter simp: less_Suc_eq_le)

declare parse_glob.simps [simp del]

definition in_range :: "char \<Rightarrow> char \<times> char \<Rightarrow> bool" where
  "in_range c r = (let n = (of_char c :: nat) in of_char (fst r) \<le> n \<and> n \<le> of_char (snd r))"

fun glob_char :: "glob \<Rightarrow> char \<Rightarrow> bool" where
  "glob_char GStar c = False"
| "glob_char GAny c = True"
| "glob_char (GSet neg rs) c = (neg \<noteq> list_ex (in_range c) rs)"
| "glob_char (GChar x) c = (c = x)"

fun glob_match :: "glob list \<Rightarrow> string \<Rightarrow> bool" where
  "glob_match [] s = (s = [])"
| "glob_match (g # gs) [] = (g = GStar \<and> glob_match gs [])"
| "glob_match (g # gs) (c # cs) =
     (if g = GStar then glob_match gs (c # cs) \<or> glob_match (g # gs) cs
      else glob_char g c \<and> glob_match gs cs)"

definition fnmatch :: "string \<Rightarrow> string \<Rightarrow> bool" where
  "fnmatch name pat = glob_match (parse_glob pat) name"

section \<open>Laws\<close>

lemma parse_glob_Nil [simp]: "parse_glob [] = []"
  by (subst parse_glob.simps) simp

lemma parse_glob_plain:
  "c \<notin> set ''*?['' \<Longrightarrow> parse_glob (c # cs) = GChar c # parse_glob cs"
  by (subst parse_glob.simps) simp

lemma parse_glob_star [simp]: "parse_glob (CHR ''*'' # cs) = GStar # parse_glob cs"
  by (subst parse_glob.simps) simp

lemma glob_match_star [simp]: "glob_match [GStar] s"
  by (induction s) simp_all

lemma glob_match_star_iff: "glob_match (GStar # gs) s \<longleftrightarrow> (\<exists>a b. s = a @ b \<and> glob_match gs b)"
proof (induction s)
  case (Cons c s)
  have "glob_match (GStar # gs) (c # s) \<longleftrightarrow> glob_match gs (c # s) \<or> (\<exists>a b. s = a @ b \<and> glob_match gs b)"
    using Cons by simp
  also have "\<dots> \<longleftrightarrow> (\<exists>a b. c # s = a @ b \<and> glob_match gs b)"
    unfolding Cons_eq_append_conv by blast
  finally show ?case .
qed simp

text \<open>A pattern without wildcards matches itself and nothing else.\<close>

lemma fnmatch_literal:
  "\<forall>c \<in> set pat. c \<notin> set ''*?['' \<Longrightarrow> fnmatch name pat \<longleftrightarrow> name = pat"
proof (induction pat arbitrary: name)
  case Nil
  then show ?case by (simp add: fnmatch_def)
next
  case (Cons c pat)
  then have "parse_glob (c # pat) = GChar c # parse_glob pat" by (intro parse_glob_plain) simp
  with Cons show ?case by (cases name) (auto simp: fnmatch_def)
qed

lemma fnmatch_any [simp]: "fnmatch name ''*''"
  by (simp add: fnmatch_def)

text \<open>A star followed by plain text matches exactly the names that end with the text.\<close>

lemma fnmatch_suffix:
  assumes "\<forall>c \<in> set suffix. c \<notin> set ''*?[''"
  shows "fnmatch name (CHR ''*'' # suffix) \<longleftrightarrow> (\<exists>a. name = a @ suffix)"
  using fnmatch_literal [OF assms]
  by (simp add: fnmatch_def glob_match_star_iff del: glob_match.simps)

end
