(* ===== verification/Regex.thy ===== *)
theory Regex
  imports Prelude
begin

text \<open>
  Regular expressions as \<open>re.search\<close> of the standard library reads them, as far as the program
  uses them: character classes, sequence, alternative, repetition and the word boundary. Only
  whether an expression occurs is modelled, so greedy and lazy repetition are the same.
\<close>

datatype re = Chars "char \<Rightarrow> bool" | Eps | Cat re re | Alt re re | Many re | Boundary

definition word_char :: "char \<Rightarrow> bool" where
  "word_char c = (is_alnum c \<or> c = CHR ''_'')"

definition boundary :: "string \<Rightarrow> nat \<Rightarrow> bool" where
  "boundary t i =
     ((0 < i \<and> word_char (t ! (i - 1))) \<noteq> (i < length t \<and> word_char (t ! i)))"

text \<open>The positions reachable from \<open>xs\<close> by at most \<open>n\<close> rounds of \<open>f\<close>.\<close>

fun reach_within :: "nat \<Rightarrow> (nat \<Rightarrow> nat list) \<Rightarrow> nat list \<Rightarrow> nat list" where
  "reach_within 0 f xs = xs"
| "reach_within (Suc n) f xs = reach_within n f (remdups (xs @ concat (List.map f xs)))"

text \<open>
  The ends of the matches that start at a position. A repetition needs no more rounds than the
  text has characters left, one for each new position.
\<close>

fun ends :: "re \<Rightarrow> string \<Rightarrow> nat \<Rightarrow> nat list" where
  "ends (Chars p) t i = (if i < length t \<and> p (t ! i) then [Suc i] else [])"
| "ends Eps t i = [i]"
| "ends (Cat a b) t i = remdups (concat (List.map (ends b t) (ends a t i)))"
| "ends (Alt a b) t i = remdups (ends a t i @ ends b t i)"
| "ends (Many a) t i = reach_within (length t - i) (ends a t) [i]"
| "ends Boundary t i = (if boundary t i then [i] else [])"

definition re_search :: "re \<Rightarrow> string \<Rightarrow> bool" where
  "re_search r t = list_ex (\<lambda>i. ends r t i \<noteq> []) [0..<Suc (length t)]"

definition re_fullmatch :: "re \<Rightarrow> string \<Rightarrow> bool" where
  "re_fullmatch r t = (length t \<in> set (ends r t 0))"

section \<open>Expressions\<close>

definition cats :: "re list \<Rightarrow> re" where
  "cats rs = foldr Cat rs Eps"

definition one_or_more :: "re \<Rightarrow> re" where
  "one_or_more r = Cat r (Many r)"

definition optional :: "re \<Rightarrow> re" where
  "optional r = Alt r Eps"

text \<open>A text under \<open>(?i)\<close>, and at least \<open>n\<close> repetitions.\<close>

definition word_ci :: "string \<Rightarrow> re" where
  "word_ci s = cats (List.map (\<lambda>x. Chars (\<lambda>c. lower_char c = lower_char x)) s)"

definition at_least :: "nat \<Rightarrow> re \<Rightarrow> re" where
  "at_least n r = Cat (cats (replicate n r)) (Many r)"

definition spaces :: re where
  "spaces = one_or_more (Chars is_space)"

section \<open>What a match is\<close>

inductive matches :: "string \<Rightarrow> re \<Rightarrow> nat \<Rightarrow> nat \<Rightarrow> bool" for t where
  Chars: "i < length t \<Longrightarrow> p (t ! i) \<Longrightarrow> matches t (Chars p) i (Suc i)"
| Eps: "matches t Eps i i"
| Cat: "matches t a i j \<Longrightarrow> matches t b j k \<Longrightarrow> matches t (Cat a b) i k"
| AltL: "matches t a i j \<Longrightarrow> matches t (Alt a b) i j"
| AltR: "matches t b i j \<Longrightarrow> matches t (Alt a b) i j"
| ManyNone: "matches t (Many a) i i"
| ManyMore: "matches t (Many a) i j \<Longrightarrow> matches t a j k \<Longrightarrow> matches t (Many a) i k"
| Boundary: "boundary t i \<Longrightarrow> matches t Boundary i i"

inductive_simps matches_simps [simp]:
  "matches t (Chars p) i j" "matches t Eps i j" "matches t (Cat a b) i j" "matches t (Alt a b) i j"
  "matches t Boundary i j"

lemma matches_forward: "matches t r i j \<Longrightarrow> i \<le> j \<and> (i \<le> length t \<longrightarrow> j \<le> length t)"
  by (induction rule: matches.induct) auto

lemma reach_within_sub: "set xs \<subseteq> set (reach_within n f xs)"
proof (induction n arbitrary: xs)
  case (Suc n)
  from Suc [of "remdups (xs @ concat (List.map f xs))"] show ?case by auto
qed simp

lemma reach_within_stable:
  "\<forall>x \<in> set xs. set (f x) \<subseteq> set xs \<Longrightarrow> set (reach_within n f xs) = set xs"
proof (induction n arbitrary: xs)
  case (Suc n)
  then have "set (remdups (xs @ concat (List.map f xs))) = set xs" by auto
  with Suc show ?case by simp
qed simp

lemma reach_within_sound:
  assumes "\<And>x y. x \<in> P \<Longrightarrow> y \<in> set (f x) \<Longrightarrow> y \<in> P" "set xs \<subseteq> P"
  shows "set (reach_within n f xs) \<subseteq> P"
  using assms(2)
proof (induction n arbitrary: xs)
  case (Suc n)
  have "set (remdups (xs @ concat (List.map f xs))) \<subseteq> P" using Suc.prems assms(1) by auto
  from Suc.IH [OF this] show ?case by simp
qed simp

text \<open>
  A round that changes something adds a position; the positions between the start and the end
  of the text bound how often that happens.
\<close>

lemma reach_within_closed:
  assumes "\<And>x y. x \<in> A \<Longrightarrow> y \<in> set (f x) \<Longrightarrow> y \<in> A" "finite A" "set xs \<subseteq> A"
    "card A \<le> card (set xs) + n" "x \<in> set (reach_within n f xs)"
  shows "set (f x) \<subseteq> set (reach_within n f xs)"
  using assms(3-5)
proof (induction n arbitrary: xs)
  case 0
  then have "set xs = A" using card_mono [OF assms(2), of "set xs"] by (intro card_subset_eq assms(2)) simp_all
  with 0 assms(1) show ?case by auto
next
  case (Suc n)
  let ?ys = "remdups (xs @ concat (List.map f xs))"
  have sub: "set ?ys \<subseteq> A" using Suc.prems(1) assms(1) by auto
  show ?case
  proof (cases "set ?ys = set xs")
    case True
    then have closed: "\<forall>y \<in> set ?ys. set (f y) \<subseteq> set ?ys" by auto
    with Suc.prems(3) show ?thesis using reach_within_stable [OF closed, of n] by simp
  next
    case False
    then have "card (set xs) < card (set ?ys)" by (intro psubset_card_mono) auto
    with Suc.prems sub show ?thesis using Suc.IH [of ?ys] by simp
  qed
qed

lemma many_in_closed:
  assumes "matches t (Many a) i k" "i \<in> R" "\<And>x y. x \<in> R \<Longrightarrow> matches t a x y \<Longrightarrow> y \<in> R"
  shows "k \<in> R"
  using assms by (induction "Many a" i k rule: matches.induct) auto

lemma ends_correct: "i \<le> length t \<Longrightarrow> set (ends r t i) = {j. matches t r i j}"
proof (induction r arbitrary: i)
  case (Cat a b)
  have "set (ends (Cat a b) t i) = (\<Union>j \<in> {j. matches t a i j}. set (ends b t j))"
    using Cat.IH(1) [OF Cat.prems] by simp
  also have "\<dots> = (\<Union>j \<in> {j. matches t a i j}. {k. matches t b j k})"
    using Cat.IH(2) matches_forward Cat.prems by (intro SUP_cong refl) blast
  finally show ?case by auto
next
  case (Many a)
  let ?R = "reach_within (length t - i) (ends a t) [i]"
  have f: "set (ends a t x) = {k. matches t a x k}" if "x \<le> length t" for x
    using Many.IH that by blast
  have step: "y \<in> {i..length t}" if "x \<in> {i..length t}" "y \<in> set (ends a t x)" for x y
    using that f [of x] matches_forward [of t a x y] by auto
  have inside: "set ?R \<subseteq> {i..length t}"
    by (rule reach_within_sound [OF step]) (use Many.prems in auto)
  let ?P = "{k. matches t (Many a) i k} \<inter> {i..length t}"
  have "y \<in> ?P" if "x \<in> ?P" "y \<in> set (ends a t x)" for x y
    using that step [of x y] f [of x] ManyMore [of t a i x y] by auto
  then have "set ?R \<subseteq> ?P"
    by (rule reach_within_sound) (use Many.prems in \<open>auto intro: ManyNone\<close>)
  moreover have "k \<in> set ?R" if k: "matches t (Many a) i k" for k
  proof (rule many_in_closed [OF k])
    show "i \<in> set ?R" using reach_within_sub [of "[i]"] by auto
    fix x y assume x: "x \<in> set ?R" "matches t a x y"
    have "set (ends a t x) \<subseteq> set ?R"
      by (rule reach_within_closed [of "{i..length t}", OF step]) (use Many.prems x in auto)
    moreover have "y \<in> set (ends a t x)" using f [of x] x inside by auto
    ultimately show "y \<in> set ?R" by blast
  qed
  ultimately show ?case by auto
qed auto

text \<open>A search finds an occurrence exactly if there is one.\<close>

lemma re_search_iff: "re_search r t \<longleftrightarrow> (\<exists>i j. i \<le> length t \<and> matches t r i j)"
proof -
  have "ends r t i \<noteq> [] \<longleftrightarrow> (\<exists>j. matches t r i j)" if "i \<le> length t" for i
    using ends_correct [OF that] by (metis (mono_tags) empty_set equals0D mem_Collect_eq set_empty ex_in_conv)
  then have "(\<exists>i \<in> {0..<Suc (length t)}. ends r t i \<noteq> []) \<longleftrightarrow>
      (\<exists>i \<in> {0..<Suc (length t)}. \<exists>j. matches t r i j)"
    by (intro bex_cong refl) simp
  then show ?thesis unfolding re_search_def list_ex_iff set_upt by (auto simp: less_Suc_eq_le)
qed

lemma re_fullmatch_iff: "re_fullmatch r t \<longleftrightarrow> matches t r 0 (length t)"
  using ends_correct [of 0 t r] by (auto simp: re_fullmatch_def)

end
