(* ===== verification/Enforcement.thy ===== *)
theory Enforcement
  imports Firewall
begin

text \<open>
  The seam where a tool call meets the firewall: pins of MCP tools (\<open>firewall/mcp_pin.py\<close>,
  \<open>_pin_status\<close>), decisions on gates (\<open>_enforce_firewall\<close> and \<open>_gate_write_connector\<close> of
  \<open>replay/record.py\<close>), the approval of whole nodes (\<open>_maybe_node_gate\<close>), the request an agent's
  tool call becomes, the scan of messages for secrets, and the explanation of a workflow. A
  pin directory is the list of its files with their decoded JSON; \<open>sha\<close> is SHA-256 in hex.
\<close>

section \<open>Pins\<close>

type_synonym pins_dir = "(string \<times> pyval option) list"

definition SAFE_SERVER :: re where
  "SAFE_SERVER = one_or_more (Chars (\<lambda>c. is_alnum c \<or> c = CHR ''.'' \<or> c = CHR ''_'' \<or> c = CHR ''-''))"

definition pin_name :: "(string \<Rightarrow> string) \<Rightarrow> string \<Rightarrow> string" where
  "pin_name sha server = (if re_fullmatch SAFE_SERVER server then server else sha server)"

definition load_pin_digest :: "(string \<Rightarrow> string) \<Rightarrow> pins_dir option \<Rightarrow> string \<Rightarrow> string option" where
  "load_pin_digest sha home server =
     (case home of
        None \<Rightarrow> None
      | Some dir \<Rightarrow>
          (case map_of dir (pin_name sha server) of
             None \<Rightarrow> None
           | Some (Some (PDict d)) \<Rightarrow> (case vget d ''digest'' of PStr digest \<Rightarrow> Some digest | _ \<Rightarrow> Some [])
           | Some _ \<Rightarrow> Some []))"

definition store_pin_digest :: "(string \<Rightarrow> string) \<Rightarrow> string \<Rightarrow> string \<Rightarrow> pins_dir option \<Rightarrow>
    pins_dir option" where
  "store_pin_digest sha server digest home =
     (case home of
        None \<Rightarrow> None
      | Some dir \<Rightarrow>
          if server = [] \<or> digest = [] then Some dir
          else Some (dset (pin_name sha server)
                 (Some (PDict [(''server'', PStr server), (''digest'', PStr digest)])) dir))"

section \<open>The world of a call\<close>

record firewall_ctx =
  fc_policy :: "policy option"
  fc_consume :: bool
  fc_pin_digests :: "(string \<times> string) list"
  fc_descriptions :: "(string \<times> string) list"
  fc_actor :: "string option"

record firewall_world =
  fw_state :: run_state
  fw_pins :: "pins_dir option"
  fw_decisions :: "(string \<times> string) list"
  fw_audit :: "(string \<times> pydict) list"

definition PIN_APPROVE :: "string list" where
  "PIN_APPROVE = [''approve'', ''approved'', ''yes'', ''true'', ''accept'', ''ok'']"

definition approves :: "string option \<Rightarrow> bool" where
  "approves decided = (lower (strip (or_empty decided)) \<in> set PIN_APPROVE)"

text \<open>\<open>decision_for\<close>: an empty decision is none; a run that consumes decisions removes it.\<close>

definition take_decision :: "firewall_ctx \<Rightarrow> string \<Rightarrow> firewall_world \<Rightarrow> string option \<times> firewall_world" where
  "take_decision c node w =
     (let v = map_of (fw_decisions w) node
      in if truthy v then
           (v, if fc_consume c then w\<lparr>fw_decisions := AList.delete node (fw_decisions w)\<rparr> else w)
         else (None, w))"

definition run_pins :: "firewall_world \<Rightarrow> pydict" where
  "run_pins w = (case vget (rs_metadata (fw_state w)) ''mcp_pins'' of PDict d \<Rightarrow> d | _ \<Rightarrow> [])"

definition set_run_pin :: "string \<Rightarrow> string \<Rightarrow> firewall_world \<Rightarrow> firewall_world" where
  "set_run_pin server digest w =
     w\<lparr>fw_state := (fw_state w)\<lparr>rs_metadata :=
        dset ''mcp_pins'' (PDict (dset server (PStr digest) (run_pins w))) (rs_metadata (fw_state w))\<rparr>\<rparr>"

definition pin_both :: "(string \<Rightarrow> string) \<Rightarrow> string \<Rightarrow> string \<Rightarrow> firewall_world \<Rightarrow> firewall_world" where
  "pin_both sha server digest w =
     (let w = set_run_pin server digest w
      in w\<lparr>fw_pins := store_pin_digest sha server digest (fw_pins w)\<rparr>)"

definition stored_pin :: "(string \<Rightarrow> string) \<Rightarrow> string \<Rightarrow> firewall_world \<Rightarrow> pyval" where
  "stored_pin sha server w =
     (if vget (run_pins w) server \<noteq> PNone then vget (run_pins w) server
      else of_opt_str (load_pin_digest sha (fw_pins w) server))"

text \<open>Whether the pin of the server of a tool changed, after recording what is seen first.\<close>

definition check_pin :: "(string \<Rightarrow> string) \<Rightarrow> firewall_ctx \<Rightarrow> string \<Rightarrow> string \<Rightarrow> string \<Rightarrow> firewall_world \<Rightarrow>
    bool \<times> firewall_world" where
  "check_pin sha c server current node w =
     (let stored = stored_pin sha server w
      in if stored = PNone then (False, pin_both sha server current w)
         else if stored \<noteq> PStr current then
           (let (decided, w1) = take_decision c node w
            in if approves decided then (False, pin_both sha server current w1) else (True, w1))
         else if vget (run_pins w) server = PNone then (False, set_run_pin server current w)
         else (False, w))"

definition pin_status :: "(string \<Rightarrow> string) \<Rightarrow> firewall_ctx \<Rightarrow> string \<Rightarrow> string \<Rightarrow> firewall_world \<Rightarrow>
    bool \<times> firewall_world" where
  "pin_status sha c name node w =
     (if CHR ''.'' \<notin> set name then (False, w)
      else
        (let server = before_char CHR ''.'' name
         in case map_of (fc_pin_digests c) server of
              None \<Rightarrow> (False, w)
            | Some current \<Rightarrow> if current = [] then (False, w) else check_pin sha c server current node w))"

section \<open>The decision on a call\<close>

text \<open>A gate with a decision of the approver becomes an allow or a deny.\<close>

definition settle_gate :: "string option \<Rightarrow> decision \<Rightarrow> decision" where
  "settle_gate decided d =
     (if dc_action d = Gate \<and> truthy decided then
        (if approves decided
         then d\<lparr>dc_action := Allow, dc_reason := ''policy gate approved via signed decision''\<rparr>
         else d\<lparr>dc_action := Deny, dc_reason := ''policy gate rejected via signed decision''\<rparr>)
      else d)"

fun action_name :: "action \<Rightarrow> string" where
  "action_name Allow = ''allow''"
| "action_name Gate = ''gate''"
| "action_name Deny = ''deny''"

definition enforce_firewall :: "(string \<Rightarrow> string) \<Rightarrow> (rat \<Rightarrow> string) \<Rightarrow> (string \<Rightarrow> string option) \<Rightarrow>
    firewall_ctx \<Rightarrow> string \<Rightarrow> tool_request \<Rightarrow> firewall_world \<Rightarrow> verdict \<times> firewall_world" where
  "enforce_firewall sha fr hostname c node call w =
     (let (changed, w1) = pin_status sha c (rq_name call) node w;
          d = evaluate fr hostname call (fw_state w1) (fc_policy c) changed
                (map_of (fc_descriptions c) (rq_name call));
          (decided, w2) = take_decision c node w1;
          d = settle_gate decided d;
          event = (''policy_'' @ action_name (dc_action d),
                   [(''run_id'', PStr (rs_run_id (fw_state w2))), (''node_id'', PStr node),
                    (''tool'', PStr (rq_name call)), (''rule'', PStr (dc_rule d)),
                    (''reason'', PStr (dc_reason d)), (''actor'', of_opt_str (fc_actor c))])
      in (apply_decision d, w2\<lparr>fw_audit := fw_audit w2 @ [event]\<rparr>))"

text \<open>Connectors that write pause unless decided, or named exactly by the policy.\<close>

definition gate_write_connector :: "firewall_ctx \<Rightarrow> string \<Rightarrow> string \<Rightarrow> firewall_world \<Rightarrow>
    verdict \<times> firewall_world" where
  "gate_write_connector c node name w =
     (let (decided, w1) = take_decision c node w
      in if approves decided then (Proceed, w1)
         else if (case fc_policy c of None \<Rightarrow> False | Some p \<Rightarrow> map_of (pl_tools p) name \<noteq> None)
         then (Proceed, w1)
         else (Paused (''Write connector '' @ repr_str name @ '' is gated by default''), w1))"

definition quoted :: "string \<Rightarrow> string" where
  "quoted s = CHR 0x27 # s @ [CHR 0x27]"

text \<open>\<open>_maybe_node_gate\<close>; \<open>gated\<close> are the nodes with \<open>require_approval\<close>, code nodes gate themselves.\<close>

definition node_gate :: "firewall_ctx \<Rightarrow> string list \<Rightarrow> string \<Rightarrow> string \<Rightarrow> firewall_world \<Rightarrow>
    verdict \<times> firewall_world" where
  "node_gate c gated kind node w =
     (let rule = ''(rule nodes.'' @ node @ ''.require_approval)'' in
      if fc_policy c = None \<or> kind = ''code'' \<or> node \<notin> set gated then (Proceed, w)
      else
        (let (raw, w1) = take_decision c node w
         in case raw of
              None \<Rightarrow> (Paused (''Policy requires approval before node '' @ quoted node @ '' '' @ rule), w1)
            | Some d \<Rightarrow>
                if d \<in> set PIN_APPROVE then (Proceed, w1)
                else (Denied (''Policy requires approval before node '' @ quoted node
                        @ '' was not granted '' @ rule) (''nodes.'' @ node @ ''.require_approval''), w1)))"

section \<open>Requests\<close>

text \<open>The call a model asks for: its arguments are literal, the taint is that of the prompt.\<close>

definition agent_request :: "(rat \<Rightarrow> string) \<Rightarrow> run_state \<Rightarrow> flow_node \<Rightarrow> string \<Rightarrow> pydict \<Rightarrow> tool_request" where
  "agent_request fr s n name args =
     \<lparr>rq_name = name, rq_arguments = args, rq_raw_arguments = PDict args,
      rq_prompt_tainted = prompt_tainted fr s (or_empty (fn_prompt n)) (fn_system n)\<rparr>"

fun has_infix :: "string \<Rightarrow> string \<Rightarrow> bool" where
  "has_infix p [] = (p = [])"
| "has_infix p (c # cs) = (starts_with (c # cs) p \<or> has_infix p cs)"

definition contains_secret :: "string \<Rightarrow> string list \<Rightarrow> bool" where
  "contains_secret text secrets = list_ex (\<lambda>s. has_infix s text) secrets"

definition scan_messages :: "string option list \<Rightarrow> string list \<Rightarrow> verdict" where
  "scan_messages contents secrets =
     (if secrets \<noteq> [] \<and>
         contains_secret (join_with newline (List.map the (filter truthy contents))) secrets
      then Denied ''refusing to place a known secret value into a model request'' ''secrets.prompt''
      else Proceed)"

text \<open>\<open>explain_workflow\<close>: the decision on each tool node, without provenance.\<close>

record explained =
  ex_node :: string
  ex_tool :: string
  ex_decision :: decision

definition explain_workflow :: "(rat \<Rightarrow> string) \<Rightarrow> (string \<Rightarrow> string option) \<Rightarrow> string \<Rightarrow>
    (flow_node \<times> pydict) list \<Rightarrow> policy option \<Rightarrow> explained list" where
  "explain_workflow fr hostname workflow nodes p =
     List.map
       (\<lambda>(n, args). \<lparr>ex_node = fn_id n, ex_tool = or_empty (fn_tool n),
          ex_decision = evaluate fr hostname
            \<lparr>rq_name = or_empty (fn_tool n), rq_arguments = args, rq_raw_arguments = PNone,
             rq_prompt_tainted = False\<rparr>
            (start_run [] workflow [] [] []) p False None\<rparr>)
       (filter (\<lambda>(n, args). fn_type n = ''tool'') nodes)"

end
