(* ===== verification/FirewallSafety.thy ===== *)
theory FirewallSafety
  imports Enforcement
begin

text \<open>
  What the firewall promises: how provenance flows through nodes, what an allowed call has
  passed, which hosts and paths a scope covers, and that pins of MCP tools are watched; with the
  calls that pass although their data is not trusted.
\<close>

section \<open>Provenance\<close>

definition untrusted_key :: "(rat \<Rightarrow> string) \<Rightarrow> run_state \<Rightarrow> string \<Rightarrow> bool" where
  "untrusted_key fr s key = is_untrusted (provenance_of fr s key)"

definition untrusted_template :: "(rat \<Rightarrow> string) \<Rightarrow> run_state \<Rightarrow> string \<Rightarrow> bool" where
  "untrusted_template fr s template = list_ex (untrusted_key fr s) (template_roots template)"

lemma is_untrusted_simps [simp]:
  "is_untrusted (untrusted source node detail)"
  "\<not> is_untrusted (trusted source node detail)"
  by (simp_all add: is_untrusted_def untrusted_def trusted_def)

lemma is_untrusted_update [simp]: "is_untrusted (p\<lparr>pv_node_id := x\<rparr>) = is_untrusted p"
  by (simp add: is_untrusted_def)

lemma is_untrusted_merge [simp]: "is_untrusted (merge_provenance ps node) = list_ex is_untrusted ps"
proof (cases ps)
  case (Cons p qs)
  have "find is_untrusted ps = None \<longleftrightarrow> \<not> list_ex is_untrusted ps"
    by (auto simp: find_None_iff list_ex_iff)
  then show ?thesis using Cons by (auto simp: merge_provenance_def split: option.split)
qed (simp add: merge_provenance_def)

lemma provenance_for_template_untrusted [simp]:
  "is_untrusted (provenance_for_template fr s template node) = untrusted_template fr s template"
  by (simp add: provenance_for_template_def untrusted_template_def untrusted_key_def list_ex_iff)

lemma from_mapping_dict:
  "is_untrusted (from_mapping fr (provenance_dict p)) = is_untrusted p"
  by (cases "pv_node_id p"; cases "pv_detail p")
    (simp_all add: from_mapping_def provenance_dict_def is_untrusted_def)

lemma untrusted_key_set:
  "key \<noteq> [] \<Longrightarrow> untrusted_key fr (set_provenance key p s) k =
     (if k = key then is_untrusted p else untrusted_key fr s k)"
  by (auto simp: untrusted_key_def provenance_of_def set_provenance_def from_mapping_dict
      split: option.split)

lemma untrusted_key_note:
  "node \<noteq> [] \<Longrightarrow> untrusted_key fr (note_output node okey p s) k =
     (if k = node \<or> truthy okey \<and> k = the okey then is_untrusted p else untrusted_key fr s k)"
  by (cases okey) (auto simp: note_output_def Let_def untrusted_key_set)

text \<open>The roots of a template are the heads of its paths.\<close>

lemma fold_roots:
  "set (foldl (\<lambda>names path. let root = before_char CHR ''.'' path
        in if root = [] then names else add_new root names) acc paths) =
   set acc \<union> {r. r \<noteq> [] \<and> (\<exists>p \<in> set paths. r = before_char CHR ''.'' p)}"
  by (induction paths arbitrary: acc) (auto simp: Let_def)

lemma set_template_roots:
  "set (template_roots t) = {r. r \<noteq> [] \<and> (\<exists>p \<in> set (var_paths t). r = before_char CHR ''.'' p)}"
  unfolding template_roots_def by (simp add: fold_roots)

lemma template_roots_token:
  "plain_path path \<Longrightarrow> set (template_roots (token path)) = {before_char CHR ''.'' path}"
  by (auto simp: set_template_roots before_char_def plain_path_def ident_start_def is_alpha_def
      is_upper_def is_lower_def neq_Nil_conv)

text \<open>A node whose text, template or state reads something untrusted, or whose output is external.\<close>

definition reads_untrusted :: "(rat \<Rightarrow> string) \<Rightarrow> flow_node \<Rightarrow> run_state \<Rightarrow> bool" where
  "reads_untrusted fr n s =
     (let k = fn_type n in
      if k = ''agent'' then
        fn_media n \<or> untrusted_template fr s (or_text (fn_prompt n) [] @ '' '' @ or_text (fn_system n) [])
      else if k = ''transform'' then
        (case fn_template n of
           Some t \<Rightarrow> untrusted_template fr s t
         | None \<Rightarrow> (case fn_source n of
                     Some source \<Rightarrow> untrusted_key fr s (before_char CHR ''.'' source)
                   | None \<Rightarrow> previous_node s \<noteq> [] \<and> untrusted_key fr s (previous_node s)))
      else if k = ''decide'' then
        (case fn_state n of
           PStr t \<Rightarrow> untrusted_template fr s t
         | v \<Rightarrow> list_ex (untrusted_template fr s) (filter has_token (walk_strings v)))
      else if k = ''condition'' then
        list_ex (untrusted_key fr s)
          (filter (\<lambda>w. w \<notin> set CONDITION_WORDS) (find_words (or_text (fn_when n) [])))
      else False)"

lemma is_untrusted_decide:
  "is_untrusted (decide_provenance fr n s) =
     (case fn_state n of
        PStr t \<Rightarrow> untrusted_template fr s t
      | v \<Rightarrow> list_ex (untrusted_template fr s) (filter has_token (walk_strings v)))"
proof -
  have parts: "list_ex is_untrusted (List.map (\<lambda>t. provenance_for_template fr s t node) ts) =
      list_ex (untrusted_template fr s) ts" for ts node
    by (simp add: list_ex_iff)
  show ?thesis
    by (cases "fn_state n") (auto simp: decide_provenance_def Let_def parts)
qed

lemma node_provenance_untrusted:
  assumes "external_source fr connector n output \<noteq> None \<or> reads_untrusted fr n s"
  shows "is_untrusted (node_provenance fr connector n output s)"
proof (cases "external_source fr connector n output")
  case None
  with assms have r: "reads_untrusted fr n s" by simp
  then consider "fn_type n = ''agent''" | "fn_type n = ''transform''" | "fn_type n = ''decide''"
    | "fn_type n = ''condition''"
    by (auto simp: reads_untrusted_def Let_def split: if_splits)
  then show ?thesis
  proof cases
    case 1
    with r None show ?thesis
      by (auto simp: node_provenance_def reads_untrusted_def agent_provenance_def Let_def)
  next
    case 2
    with r None show ?thesis
      by (auto simp: node_provenance_def reads_untrusted_def transform_provenance_def Let_def
          untrusted_key_def split: option.splits)
  next
    case 3
    with r None show ?thesis
      by (simp add: node_provenance_def reads_untrusted_def is_untrusted_decide)
  next
    case 4
    with r None show ?thesis
      by (simp add: node_provenance_def reads_untrusted_def condition_provenance_def list_ex_iff
          untrusted_key_def)
  qed
qed (simp add: node_provenance_def)


text \<open>
  The output of a parallel node is marked trusted unless a branch is a tool, agent, remote
  agent or memory node, whatever its branches read: templates over untrusted data included.
\<close>

theorem parallel_output_trusted:
  assumes "fn_type n = ''parallel''" "fn_id n \<noteq> []"
  shows "untrusted_key fr (note_node_output fr connector n output s) (fn_id n) =
    list_ex (\<lambda>b. b \<in> set [''tool'', ''agent'', ''a2a'', ''memory'']) (fn_branches n)"
  using assms
  by (simp add: note_node_output_def untrusted_key_note node_provenance_def external_source_def
      parallel_provenance_def EXTERNAL_BODIES_def)

definition blank_node :: flow_node where
  "blank_node =
     \<lparr>fn_type = ''tool'', fn_id = ''fetch'', fn_output_key = None, fn_tool = Some ''http_get'',
      fn_prompt = None, fn_system = None, fn_media = False, fn_template = None, fn_source = None,
      fn_when = None, fn_items = None, fn_body_type = [], fn_body_tool = None,
      fn_body_template = None, fn_branches = [], fn_state = PNone\<rparr>"

definition fetched_run :: run_state where
  "fetched_run =
     note_node_output (\<lambda>x. []) (\<lambda>x. False) blank_node (PStr ''page'')
       (record_node ''fetch'' (PStr ''page'') ''tool'' None blank_result
         (start_run ''r1'' ''report'' [(''topic'', PStr ''tea'')] [] ''2026-01-01''))"


lemma parallel_output_trusted_witness:
  "\<not> untrusted_key (\<lambda>x. [])
     (note_node_output (\<lambda>x. []) (\<lambda>x. False)
       (blank_node\<lparr>fn_type := ''parallel'', fn_id := ''fan'', fn_branches := [''transform'']\<rparr>)
       (PDict [(''a'', PStr ''page'')]) fetched_run) ''fan''"
proof -
  let ?n = "blank_node\<lparr>fn_type := ''parallel'', fn_id := ''fan'', fn_branches := [''transform'']\<rparr>"
  have "fn_type ?n = ''parallel''" "fn_id ?n \<noteq> []" by simp_all
  from parallel_output_trusted [OF this] show ?thesis by simp
qed

section \<open>References through a namespace\<close>

lemma before_char_plain: "CHR ''.'' \<notin> set k \<Longrightarrow> before_char CHR ''.'' k = k"
  by (auto simp: before_char_def takeWhile_eq_all_conv)

lemma split_char_plain: "CHR ''.'' \<notin> set k \<Longrightarrow> split_char CHR ''.'' k = [k]"
  by (induction k) auto

lemma plain_path_outputs: "plain_path k \<Longrightarrow> plain_path (''outputs.'' @ k)"
  by (simp add: plain_path_def ident_start_def ident_char_def is_alpha_def is_alnum_def
      is_lower_def is_upper_def)

lemma arguments_tainted_token:
  "plain_path path \<Longrightarrow>
   arguments_tainted fr s (PDict [(f, PStr (token path))]) = untrusted_key fr s (before_char CHR ''.'' path)"
  by (simp add: arguments_tainted_def list_ex_iff untrusted_key_def template_roots_token)

lemma lookup_outputs:
  assumes "CHR ''.'' \<notin> set k" "k \<noteq> []"
  shows "lookup_path (mapping s) (''outputs.'' @ k) = map_of (rs_node_outputs s) k"
  using assms
  by (simp add: lookup_path_def before_char_def after_char_def mapping_def Let_def resolve_path_def
      split_char_plain path_step_def split: option.split)

text \<open>
  C26. \<open>{{outputs.k}}\<close> and \<open>{{k}}\<close> are the same text, but the firewall sees the untrusted output of
  node \<open>k\<close> only in the second: the first one's root is the namespace, which has no provenance.
\<close>

theorem namespaced_reference_escapes:
  assumes "plain_path k" "CHR ''.'' \<notin> set k" "k \<notin> {''inputs'', ''outputs'', ''run_id''}"
    "distinct (List.map fst (rs_node_outputs s))" "map_of (rs_node_outputs s) k = Some v"
    "k \<notin> fst ` set (rs_output_keys s)"
    "untrusted_key fr s k" "\<not> untrusted_key fr s ''outputs''"
  shows "interpolate fr (token (''outputs.'' @ k)) (mapping s) = interpolate fr (token k) (mapping s)
    \<and> arguments_tainted fr s (PDict [(f, PStr (token k))])
    \<and> \<not> arguments_tainted fr s (PDict [(f, PStr (token (''outputs.'' @ k)))])"
proof -
  have k: "k \<noteq> []" using assms(1) by (simp add: plain_path_def)
  have "lookup_path (mapping s) k = Some v"
    using mapping_node_output [OF assms(4,5,6)] assms(2,3) by (auto simp: lookup_path_def)
  then have "interpolate fr (token (''outputs.'' @ k)) (mapping s) = interpolate fr (token k) (mapping s)"
    using lookup_outputs [OF assms(2) k] assms(5)
    by (simp only: interpolate_token [OF plain_path_outputs [OF assms(1)]] interpolate_token [OF assms(1)]
        option.case)
  moreover have "before_char CHR ''.'' (''outputs.'' @ k) = ''outputs''" by (simp add: before_char_def)
  ultimately show ?thesis
    using assms(7,8) by (simp only: arguments_tainted_token [OF assms(1)] simp_thms
        arguments_tainted_token [OF plain_path_outputs [OF assms(1)]] before_char_plain [OF assms(2)])
qed

lemma namespaced_reference_escapes_witness:
  "interpolate (\<lambda>x. []) (token ''outputs.fetch'') (mapping fetched_run) =
     interpolate (\<lambda>x. []) (token ''fetch'') (mapping fetched_run)
   \<and> arguments_tainted (\<lambda>x. []) fetched_run (PDict [(''text'', PStr (token ''fetch''))])
   \<and> \<not> arguments_tainted (\<lambda>x. []) fetched_run (PDict [(''text'', PStr (token ''outputs.fetch''))])"
proof -
  have "plain_path ''fetch''" "CHR ''.'' \<notin> set ''fetch''" "''fetch'' \<notin> {''inputs'', ''outputs'', ''run_id''}"
    "distinct (List.map fst (rs_node_outputs fetched_run))"
    "map_of (rs_node_outputs fetched_run) ''fetch'' = Some (PStr ''page'')"
    "''fetch'' \<notin> fst ` set (rs_output_keys fetched_run)"
    "untrusted_key (\<lambda>x. []) fetched_run ''fetch''" "\<not> untrusted_key (\<lambda>x. []) fetched_run ''outputs''"
    by code_simp+
  from namespaced_reference_escapes [OF this] show ?thesis by simp
qed

section \<open>What an allowed call has passed\<close>

definition rule_in_force :: "policy \<Rightarrow> string \<Rightarrow> tool_rule" where
  "rule_in_force p name =
     (case snd (tool_rule_for p name) of Some r \<Rightarrow> r | None \<Rightarrow> default_tool_rule)"

text \<open>The hosts and the path a call may use under a rule.\<close>

definition host_in_scope :: "(string \<Rightarrow> string option) \<Rightarrow> tool_request \<Rightarrow> policy \<Rightarrow> tool_rule \<Rightarrow> bool" where
  "host_in_scope hostname call p r =
     (case host_of hostname call of
        None \<Rightarrow> True
      | Some host \<Rightarrow>
          (let allowed = or_nil (tr_allow_hosts r) @ or_nil (pl_egress p)
           in allowed = [] \<or> host_allowed host allowed))"

definition path_allowed :: "tool_request \<Rightarrow> tool_rule \<Rightarrow> bool" where
  "path_allowed call r =
     (or_nil (tr_paths r) = [] \<or>
      (case vget (rq_arguments call) ''path'' of
         PStr path \<Rightarrow> path = [] \<or> (''..'' \<notin> set (path_parts (slashes path)) \<and>
                       path_in_scope (slashes path) (or_nil (tr_paths r)))
       | _ \<Rightarrow> True))"

lemma egress_check_cases:
  "egress_check hostname call p r rid = None \<and> host_in_scope hostname call p r \<or>
   (\<exists>d. egress_check hostname call p r rid = Some d \<and> dc_action d = Deny \<and>
      \<not> host_in_scope hostname call p r)"
  by (cases "host_of hostname call")
    (auto simp: egress_check_def host_in_scope_def decide_plain_def Let_def)

lemma path_check_cases:
  "path_check call r rid = None \<and> path_allowed call r \<or>
   (\<exists>d. path_check call r rid = Some d \<and> dc_action d = Deny \<and> \<not> path_allowed call r)"
  by (cases "vget (rq_arguments call) ''path''")
    (auto simp: path_check_def path_allowed_def decide_plain_def)

lemma evaluate_rule_allow:
  assumes "dc_action (evaluate_rule fr hostname call p r rid tainted pc desc) = Allow"
  shows "(tainted \<longrightarrow> tr_on_tainted r = Allow) \<and> host_in_scope hostname call p r \<and> path_allowed call r \<and>
    (pc \<longrightarrow> tr_on_description_change r = Some Allow)"
proof -
  have t: "tainted \<longrightarrow> tr_on_tainted r = Allow"
    using assms by (auto simp: evaluate_rule_def decide_plain_def split: if_splits)
  then have nt: "\<not> (tainted \<and> tr_on_tainted r \<noteq> Allow)" by blast
  have d: "dc_action (case first_some [egress_check hostname call p r rid, path_check call r rid,
        pin_check call r rid pc, content_check fr call p tainted desc] of
      Some d \<Rightarrow> d | None \<Rightarrow> decide_plain Allow (''tools.'' @ rid) ''allowed'') = Allow"
    using assms unfolding evaluate_rule_def if_not_P [OF nt] .
  have e: "egress_check hostname call p r rid = None \<and> host_in_scope hostname call p r"
    using egress_check_cases [of hostname call p r rid] d by auto
  have q: "path_check call r rid = None \<and> path_allowed call r"
    using path_check_cases [of call r rid] d e by auto
  have "pc \<longrightarrow> tr_on_description_change r = Some Allow"
    using d e q by (auto simp: pin_check_def decide_plain_def split: option.splits)
  with t e q show ?thesis by blast
qed

lemma evaluate_in_force:
  "evaluate fr hostname call s (Some p) pc desc =
     (if snd (tool_rule_for p (rq_name call)) = None \<and> pl_default p = Deny then
        decide_plain Deny ''default''
          (''default deny: tool '' @ repr_str (rq_name call) @ '' has no allow rule'')
      else evaluate_rule fr hostname call p (rule_in_force p (rq_name call))
             (if snd (tool_rule_for p (rq_name call)) = None then ''default''
              else fst (tool_rule_for p (rq_name call)))
             (call_tainted fr call s) pc desc)"
  by (cases "tool_rule_for p (rq_name call)"; cases "snd (tool_rule_for p (rq_name call))")
    (auto simp: evaluate_def rule_in_force_def Let_def)

text \<open>
  C30. A call that is allowed has a rule where the default is to deny, carries no tainted data the
  rule refuses, goes to a host of the allowlists, stays in the path scope without a parent step,
  and its description has not changed unless the rule permits that.
\<close>

theorem allowed_call_passed_checks:
  assumes "dc_action (evaluate fr hostname call s (Some p) pc desc) = Allow"
  shows "(pl_default p = Deny \<longrightarrow> snd (tool_rule_for p (rq_name call)) \<noteq> None) \<and>
    (call_tainted fr call s \<longrightarrow> tr_on_tainted (rule_in_force p (rq_name call)) = Allow) \<and>
    host_in_scope hostname call p (rule_in_force p (rq_name call)) \<and>
    path_allowed call (rule_in_force p (rq_name call)) \<and>
    (pc \<longrightarrow> tr_on_description_change (rule_in_force p (rq_name call)) = Some Allow)"
proof (cases "snd (tool_rule_for p (rq_name call)) = None \<and> pl_default p = Deny")
  case True
  with assms show ?thesis by (simp add: evaluate_in_force decide_plain_def)
next
  case False
  then have "dc_action (evaluate_rule fr hostname call p (rule_in_force p (rq_name call))
      (if snd (tool_rule_for p (rq_name call)) = None then ''default''
       else fst (tool_rule_for p (rq_name call))) (call_tainted fr call s) pc desc) = Allow"
    using assms unfolding evaluate_in_force by (simp only: if_False)
  note checks = evaluate_rule_allow [OF this]
  have "pl_default p = Deny \<longrightarrow> snd (tool_rule_for p (rq_name call)) \<noteq> None" using False by auto
  then show ?thesis using checks by (rule conjI)
qed

definition open_policy :: policy where
  "open_policy =
     \<lparr>pl_default = Deny, pl_egress = Some [''*.example.org''],
      pl_tools = [(''http_get'', default_tool_rule\<lparr>tr_on_tainted := Gate\<rparr>)], pl_detection = None,
      pl_deciders = []\<rparr>"

definition get_request :: "string \<Rightarrow> tool_request" where
  "get_request url =
     \<lparr>rq_name = ''http_get'', rq_arguments = [(''url'', PStr url)], rq_raw_arguments = PNone,
      rq_prompt_tainted = False\<rparr>"

text \<open>A url parser for the samples: the text between the slashes after the scheme.\<close>

definition sample_host :: "string \<Rightarrow> string option" where
  "sample_host url = (case split_char CHR ''/'' url of a # b # host # c \<Rightarrow> Some host | _ \<Rightarrow> None)"

lemma allowed_call_passed_checks_witness:
  "host_in_scope sample_host (get_request ''https://api.example.org/x'') open_policy
     (rule_in_force open_policy ''http_get'')"
proof -
  have "dc_action (evaluate (\<lambda>x. []) sample_host (get_request ''https://api.example.org/x'') fetched_run
      (Some open_policy) False None) = Allow"
    by code_simp
  from allowed_call_passed_checks [OF this] show ?thesis by (simp add: get_request_def)
qed

section \<open>Hosts\<close>

lemma ends_with_iff: "ends_with s p \<longleftrightarrow> (\<exists>a. s = a @ p)"
  by (metis ends_with_def rev_append rev_rev_ident starts_with_iff)

text \<open>
  A pattern \<open>*.domain\<close> covers the domain itself and what ends in a dot and the domain, and no
  other host: neither a name that merely ends in the same letters nor the domain as a prefix.
\<close>

theorem subdomain_pattern_hosts:
  assumes "list_all (\<lambda>c. c \<notin> set ''*?['') (lower domain)"
  shows "host_allowed host [''*.'' @ domain] \<longleftrightarrow>
    lower host = lower domain \<or> (\<exists>a. lower host = a @ ''.'' @ lower domain)"
proof -
  have low: "lower (CHR ''*'' # CHR ''.'' # domain) = CHR ''*'' # CHR ''.'' # lower domain"
    by (simp add: lower_def lower_char_def is_upper_def)
  have "fnmatch (lower host) (CHR ''*'' # CHR ''.'' # lower domain) \<longleftrightarrow>
      (\<exists>a. lower host = a @ ''.'' @ lower domain)"
    using assms fnmatch_suffix [of "CHR ''.'' # lower domain" "lower host"] by (simp add: list_all_iff)
  then show ?thesis
    by (auto simp: host_allowed_def host_matches_def low ends_with_iff intro: exI [of _ "''*''"])
qed

lemma subdomain_pattern_hosts_witness:
  "host_allowed ''API.example.org'' [''*.example.org''] \<and> \<not> host_allowed ''badexample.org'' [''*.example.org'']"
proof -
  have ok: "list_all (\<lambda>c. c \<notin> set ''*?['') (lower ''example.org'')" by code_simp
  have "host_allowed ''API.example.org'' [''*.'' @ ''example.org'']"
    unfolding subdomain_pattern_hosts [OF ok]
    by (rule disjI2, rule exI [of _ "''api''"]) code_simp
  moreover have "\<not> host_allowed ''badexample.org'' [''*.'' @ ''example.org'']" by code_simp
  ultimately show ?thesis by simp
qed

section \<open>Calls that pass\<close>

text \<open>
  For a call with literal arguments the taint is exactly that of the agent's prompt and
  system text: what earlier tool calls of the same agent returned does not count, so a rule on
  tainted input never stops an agent that forwards a page it has just fetched.
\<close>

theorem agent_call_taint:
  assumes "list_all (\<lambda>t. var_paths t = []) (walk_strings (PDict args))"
  shows "call_tainted fr (agent_request fr s n name args) s =
    untrusted_template fr s (or_empty (fn_prompt n) @ newline @ or_empty (fn_system n))"
proof -
  have "template_roots t = []" if "t \<in> set (walk_strings (PDict args))" for t
    using assms that by (simp only: list_all_iff template_roots_def) simp
  then have "\<not> arguments_tainted fr s (PDict args)"
    by (auto simp only: arguments_tainted_def list_ex_iff list.set)
  then show ?thesis by (simp add: call_tainted_def agent_request_def prompt_tainted_def)
qed

lemma agent_call_taint_witness:
  "\<not> call_tainted (\<lambda>x. []) (agent_request (\<lambda>x. []) fetched_run
      (blank_node\<lparr>fn_type := ''agent'', fn_id := ''bot'', fn_prompt := Some ''Help''\<rparr>)
      ''send'' [(''text'', PStr ''page'')]) fetched_run"
proof -
  have ok: "list_all (\<lambda>t. var_paths t = []) (walk_strings (PDict [(''text'', PStr ''page'')]))"
    by code_simp
  show ?thesis unfolding agent_call_taint [OF ok] by code_simp
qed

end
