(* ===== verification/GateSafety.thy ===== *)
theory GateSafety
  imports FirewallSafety
begin

text \<open>
  What decisions on firewall gates and pins of MCP tools do: an approved gate lets a call pass
  all later checks, and a description that changed after its first use is reported until someone
  approves it.
\<close>

section \<open>Decisions\<close>

lemma approves_truthy: "approves d \<Longrightarrow> truthy d"
  by (cases d) (auto simp: approves_def or_empty_def PIN_APPROVE_def)

lemma fst_take_decision:
  "fst (take_decision c node w) =
     (if truthy (map_of (fw_decisions w) node) then map_of (fw_decisions w) node else None)"
  by (simp add: take_decision_def Let_def)

lemma approves_take_decision [simp]:
  "approves (fst (take_decision c node w)) = approves (map_of (fw_decisions w) node)"
  using approves_truthy [of "map_of (fw_decisions w) node"]
  by (auto simp: fst_take_decision approves_def or_empty_def PIN_APPROVE_def)

lemma take_decision_keeps [simp]:
  "fw_state (snd (take_decision c node w)) = fw_state w"
  "fw_pins (snd (take_decision c node w)) = fw_pins w"
  by (simp_all add: take_decision_def Let_def)

lemma enforce_firewall_plain_name:
  assumes "CHR ''.'' \<notin> set (rq_name call)"
  shows "fst (enforce_firewall sha fr hostname c node call w) =
    apply_decision (settle_gate (fst (take_decision c node w))
      (evaluate fr hostname call (fw_state w) (fc_policy c) False
        (map_of (fc_descriptions c) (rq_name call))))"
  using assms
  by (cases "take_decision c node w") (simp add: enforce_firewall_def pin_status_def Let_def)

lemma evaluate_tainted_gate:
  assumes "call_tainted fr call s" "tr_on_tainted (rule_in_force p (rq_name call)) = Gate"
    "snd (tool_rule_for p (rq_name call)) \<noteq> None"
  shows "dc_action (evaluate fr hostname call s (Some p) pc desc) = Gate"
  using assms by (auto simp: evaluate_in_force evaluate_rule_def decide_plain_def)

lemma evaluate_host_denied:
  assumes "\<not> call_tainted fr call s" "\<not> host_in_scope hostname call p (rule_in_force p (rq_name call))"
    "snd (tool_rule_for p (rq_name call)) \<noteq> None"
  shows "dc_action (evaluate fr hostname call s (Some p) pc desc) = Deny"
  using assms egress_check_cases [of hostname call p "rule_in_force p (rq_name call)"
      "fst (tool_rule_for p (rq_name call))"]
  by (auto simp: evaluate_in_force evaluate_rule_def)

text \<open>
  Where a rule gates tainted input, the approval of a tainted call lets it go to a host
  outside the allowlists: the taint gate comes first and the approved decision is not checked
  again, while the same call without taint is denied, approved or not.
\<close>

theorem approved_gate_skips_allowlist:
  assumes "fc_policy c = Some p" "CHR ''.'' \<notin> set (rq_name call)"
    "snd (tool_rule_for p (rq_name call)) \<noteq> None"
    "tr_on_tainted (rule_in_force p (rq_name call)) = Gate"
    "\<not> host_in_scope hostname call p (rule_in_force p (rq_name call))"
    "rq_prompt_tainted call" "\<not> call_tainted fr (call\<lparr>rq_prompt_tainted := False\<rparr>) (fw_state w)"
    "approves (map_of (fw_decisions w) node)"
  shows "fst (enforce_firewall sha fr hostname c node call w) = Proceed \<and>
    (\<exists>m r. fst (enforce_firewall sha fr hostname c node (call\<lparr>rq_prompt_tainted := False\<rparr>) w) = Denied m r)"
proof
  have yes: "approves (fst (take_decision c node w))" "truthy (fst (take_decision c node w))"
    using assms(8) approves_truthy [of "fst (take_decision c node w)"] by simp_all
  have "call_tainted fr call (fw_state w)" using assms(6) by (simp add: call_tainted_def)
  then show "fst (enforce_firewall sha fr hostname c node call w) = Proceed"
    unfolding enforce_firewall_plain_name [OF assms(2)] assms(1)
    using evaluate_tainted_gate [OF _ assms(4,3)] yes by (simp add: settle_gate_def apply_decision_def)
  let ?call = "call\<lparr>rq_prompt_tainted := False\<rparr>"
  have same: "rq_name ?call = rq_name call" "host_of hostname ?call = host_of hostname call"
    by (simp_all add: host_of_def)
  have name: "CHR ''.'' \<notin> set (rq_name ?call)" using assms(2) by simp
  have "dc_action (evaluate fr hostname ?call (fw_state w) (Some p) False desc) = Deny" for desc
    by (rule evaluate_host_denied [OF assms(7)])
      (use assms(3,5) same in \<open>simp_all add: host_in_scope_def\<close>)
  then show "\<exists>m r. fst (enforce_firewall sha fr hostname c node ?call w) = Denied m r"
    unfolding enforce_firewall_plain_name [OF name] assms(1)
    by (simp add: settle_gate_def apply_decision_def)
qed

section \<open>Pins\<close>

lemma run_pins_set [simp]: "run_pins (set_run_pin server d w) = dset server (PStr d) (run_pins w)"
  by (simp add: run_pins_def set_run_pin_def vget_def)

lemma run_pins_pin_both [simp]: "run_pins (pin_both sha server d w) = dset server (PStr d) (run_pins w)"
  by (simp add: pin_both_def Let_def) (simp add: run_pins_def set_run_pin_def vget_def)

lemma load_stored_pin:
  "server \<noteq> [] \<Longrightarrow> d \<noteq> [] \<Longrightarrow>
   load_pin_digest sha (store_pin_digest sha server d (Some dir)) server = Some d"
  by (simp add: load_pin_digest_def store_pin_digest_def)

lemma pins_pin_both [simp]:
  "fw_pins (pin_both sha server d w) = store_pin_digest sha server d (fw_pins w)"
  by (simp add: pin_both_def Let_def set_run_pin_def)

lemma run_pins_take_decision [simp]: "run_pins (snd (take_decision c node w)) = run_pins w"
  by (simp add: run_pins_def)

text \<open>A check that reports no change leaves the digest it saw as the pin of the run.\<close>

lemma check_pin_accepts:
  assumes "check_pin sha c server d node w = (False, w')"
  shows "vget (run_pins w') server = PStr d"
proof -
  have stored: "vget (run_pins w) server = PStr d"
    if "stored_pin sha server w = PStr d" "vget (run_pins w) server \<noteq> PNone"
    using that by (simp add: stored_pin_def)
  show ?thesis
    using assms stored
    by (cases "take_decision c node w")
      (auto simp: check_pin_def Let_def split: if_splits)
qed

lemma check_pin_first_use:
  assumes "stored_pin sha server w = PNone"
  shows "check_pin sha c server d node w = (False, pin_both sha server d w)"
  using assms by (simp add: check_pin_def)

lemma check_pin_reports:
  assumes "stored_pin sha server w = PStr d" "d2 \<noteq> d" "\<not> approves (map_of (fw_decisions w) node)"
  shows "fst (check_pin sha c server d2 node w)"
  using assms approves_take_decision [of c node w]
  by (cases "take_decision c node w") (simp add: check_pin_def)

text \<open>
  After the tools of a server were seen with one digest, a call with another digest is
  reported as changed, in the same run and, if the first use stored it in a home directory, in a
  later run too, unless the decision of the node approves it.
\<close>

theorem changed_pin_reported:
  assumes "pin_status sha c name node w = (False, w1)" "CHR ''.'' \<in> set name"
    "server = before_char CHR ''.'' name" "server \<noteq> []"
    "map_of (fc_pin_digests c) server = Some d" "d \<noteq> []"
    "run_pins w2 = run_pins w1 \<or>
     run_pins w2 = [] \<and> fw_pins w2 = fw_pins w1 \<and> stored_pin sha server w = PNone \<and> fw_pins w \<noteq> None"
    "map_of (fc_pin_digests c2) server = Some d2" "d2 \<noteq> []" "d2 \<noteq> d"
    "\<not> approves (map_of (fw_decisions w2) node2)"
  shows "fst (pin_status sha c2 name node2 w2)"
proof -
  have seen: "check_pin sha c server d node w = (False, w1)"
    using assms(1-6) by (simp add: pin_status_def)
  have "stored_pin sha server w2 = PStr d"
    using assms(7)
  proof
    assume "run_pins w2 = run_pins w1"
    then show ?thesis using check_pin_accepts [OF seen] by (simp add: stored_pin_def)
  next
    assume later: "run_pins w2 = [] \<and> fw_pins w2 = fw_pins w1 \<and>
      stored_pin sha server w = PNone \<and> fw_pins w \<noteq> None"
    then obtain dir where dir: "fw_pins w = Some dir" by blast
    have "w1 = pin_both sha server d w" using seen check_pin_first_use later by simp
    then have "load_pin_digest sha (fw_pins w2) server = Some d"
      using later dir load_stored_pin [OF assms(4,6)] by simp
    then show ?thesis using later by (simp add: stored_pin_def)
  qed
  from check_pin_reports [OF this assms(10,11)] show ?thesis
    using assms(2,3,8,9) by (simp add: pin_status_def)
qed

definition pin_ctx :: "string \<Rightarrow> firewall_ctx" where
  "pin_ctx digest =
     \<lparr>fc_policy = Some open_policy, fc_consume = False, fc_pin_digests = [(''mail'', digest)],
      fc_descriptions = [], fc_actor = None\<rparr>"

definition pin_world :: firewall_world where
  "pin_world = \<lparr>fw_state = fetched_run, fw_pins = Some [], fw_decisions = [(''bot'', ''approve'')], fw_audit = []\<rparr>"

lemma changed_pin_reported_witness:
  "fst (pin_status (\<lambda>x. x) (pin_ctx ''d2'') ''mail.send'' ''other''
     (pin_world\<lparr>fw_pins := fw_pins (snd (pin_status (\<lambda>x. x) (pin_ctx ''d1'') ''mail.send'' ''fetch'' pin_world))\<rparr>))"
proof -
  let ?w1 = "snd (pin_status (\<lambda>x. x) (pin_ctx ''d1'') ''mail.send'' ''fetch'' pin_world)"
  let ?w2 = "pin_world\<lparr>fw_pins := fw_pins ?w1\<rparr>"
  have 1: "pin_status (\<lambda>x. x) (pin_ctx ''d1'') ''mail.send'' ''fetch'' pin_world = (False, ?w1)"
    by code_simp
  have 2: "CHR ''.'' \<in> set ''mail.send''" "''mail'' = before_char CHR ''.'' ''mail.send''" "''mail'' \<noteq> []"
    "map_of (fc_pin_digests (pin_ctx ''d1'')) ''mail'' = Some ''d1''" "''d1'' \<noteq> []"
    by code_simp+
  have 3: "run_pins ?w2 = run_pins ?w1 \<or>
     run_pins ?w2 = [] \<and> fw_pins ?w2 = fw_pins ?w1 \<and> stored_pin (\<lambda>x. x) ''mail'' pin_world = PNone \<and>
     fw_pins pin_world \<noteq> None"
    by code_simp
  have 4: "map_of (fc_pin_digests (pin_ctx ''d2'')) ''mail'' = Some ''d2''" "''d2'' \<noteq> []" "''d2'' \<noteq> ''d1''"
    "\<not> approves (map_of (fw_decisions ?w2) ''other'')"
    by code_simp+
  show ?thesis by (rule changed_pin_reported [OF 1 2 3 4])
qed

lemma approved_gate_skips_allowlist_witness:
  "fst (enforce_firewall (\<lambda>x. x) (\<lambda>x. []) sample_host (pin_ctx ''d1'') ''bot''
     ((get_request ''https://evil.test/x'')\<lparr>rq_prompt_tainted := True\<rparr>) pin_world) = Proceed"
proof -
  let ?call = "(get_request ''https://evil.test/x'')\<lparr>rq_prompt_tainted := True\<rparr>"
  have 1: "fc_policy (pin_ctx ''d1'') = Some open_policy" by (simp add: pin_ctx_def)
  have 2: "CHR ''.'' \<notin> set (rq_name ?call)" by code_simp
  have 3: "snd (tool_rule_for open_policy (rq_name ?call)) \<noteq> None" by code_simp
  have 4: "tr_on_tainted (rule_in_force open_policy (rq_name ?call)) = Gate" by code_simp
  have 5: "\<not> host_in_scope sample_host ?call open_policy (rule_in_force open_policy (rq_name ?call))"
    by code_simp
  have 6: "rq_prompt_tainted ?call" by simp
  have 7: "\<not> call_tainted (\<lambda>x. []) (?call\<lparr>rq_prompt_tainted := False\<rparr>) (fw_state pin_world)"
    by code_simp
  have 8: "approves (map_of (fw_decisions pin_world) ''bot'')" by code_simp
  from approved_gate_skips_allowlist [OF 1 2 3 4 5 6 7 8] show ?thesis by blast
qed

end
