(* ===== verification/Capabilities.thy ===== *)
theory Capabilities
  imports Prices
begin

text \<open>
  The capability matrix of models, \<open>llm/capabilities.py\<close>: lookup by exact name, bare name and
  longest prefix, what a model supports, which models are local, and the validation of a decoded
  matrix. \<open>bundled_matrix\<close> is the file \<open>llm/capabilities.json\<close>; reading files and
  \<open>fromisoformat\<close> are outside (\<open>iso_instant\<close> of \<open>clock_lib\<close>).
\<close>

section \<open>Data\<close>

record capabilities =
  mc_context_window :: int
  mc_tool_calling :: bool
  mc_structured_output :: bool
  mc_media :: bool
  mc_streaming :: bool
  mc_local :: bool
  mc_latency_class :: string
  mc_quality_class :: string
  mc_match :: string

definition mk_caps :: "int \<Rightarrow> bool \<Rightarrow> bool \<Rightarrow> bool \<Rightarrow> bool \<Rightarrow> bool \<Rightarrow> string \<Rightarrow> string \<Rightarrow> string \<Rightarrow>
    capabilities" where
  "mk_caps window tools structured media streaming local latency quality match =
     \<lparr>mc_context_window = window, mc_tool_calling = tools, mc_structured_output = structured,
      mc_media = media, mc_streaming = streaming, mc_local = local, mc_latency_class = latency,
      mc_quality_class = quality, mc_match = match\<rparr>"

record capability_matrix =
  cx_version :: int
  cx_updated_at :: string
  cx_warn_after_days :: int
  cx_models :: "(string \<times> capabilities) list"
  cx_prefixes :: "(string \<times> capabilities) list"
  cx_stale :: bool

text \<open>The requirements of a route; the dictionary of the code holds the ones that are set.\<close>

record requirement =
  rr_tool_calling :: bool
  rr_structured_output :: bool
  rr_media :: bool
  rr_streaming :: bool
  rr_local :: bool
  rr_min_context_window :: "int option"

definition no_requirement :: requirement where
  "no_requirement =
     \<lparr>rr_tool_calling = False, rr_structured_output = False, rr_media = False, rr_streaming = False,
      rr_local = False, rr_min_context_window = None\<rparr>"

definition LATENCY_RANK :: "(string \<times> int) list" where
  "LATENCY_RANK = [(''fast'', 0), (''standard'', 1), (''slow'', 2)]"

definition QUALITY_RANK :: "(string \<times> int) list" where
  "QUALITY_RANK = [(''frontier'', 0), (''standard'', 1), (''compact'', 2)]"

definition LOCAL_PROVIDERS :: "string list" where
  "LOCAL_PROVIDERS = [''ollama'']"

definition supports :: "capabilities \<Rightarrow> requirement \<Rightarrow> bool" where
  "supports caps require =
     ((rr_tool_calling require \<longrightarrow> mc_tool_calling caps) \<and>
      (rr_structured_output require \<longrightarrow> mc_structured_output caps) \<and>
      (rr_media require \<longrightarrow> mc_media caps) \<and>
      (rr_streaming require \<longrightarrow> mc_streaming caps) \<and>
      (rr_local require \<longrightarrow> mc_local caps) \<and>
      (case rr_min_context_window require of None \<Rightarrow> True | Some n \<Rightarrow> n \<le> mc_context_window caps))"

section \<open>Lookup\<close>

definition lookup_prefix :: "capability_matrix \<Rightarrow> string \<Rightarrow> capabilities option" where
  "lookup_prefix matrix ref =
     map_option (\<lambda>(key, caps). caps\<lparr>mc_match := ''prefix:'' @ key\<rparr>)
       (longest_prefix ref (cx_prefixes matrix))"

definition lookup_model :: "capability_matrix \<Rightarrow> string \<Rightarrow> capabilities option" where
  "lookup_model matrix model =
     (let ref = strip model in
      if ref = [] then None
      else case map_of (cx_models matrix) ref of
        Some caps \<Rightarrow> Some caps
      | None \<Rightarrow>
          (let bare = (if CHR '':'' \<in> set ref then strip (after_char CHR '':'' ref) else [])
           in case (if bare = [] then None else map_of (cx_models matrix) bare) of
                Some hit \<Rightarrow> Some (hit\<lparr>mc_match := ''exact-id''\<rparr>)
              | None \<Rightarrow> lookup_prefix matrix ref))"

datatype capability_error = NotInMatrix string | NotSupported string

definition assert_capable :: "capability_matrix \<Rightarrow> string \<Rightarrow> requirement \<Rightarrow>
    capability_error + capabilities" where
  "assert_capable matrix model require =
     (case lookup_model matrix model of
        None \<Rightarrow> Inl (NotInMatrix model)
      | Some caps \<Rightarrow> if supports caps require then Inr caps else Inl (NotSupported model))"

text \<open>\<open>parse_model_ref\<close> of \<open>llm/base.py\<close>; \<open>None\<close> is the \<open>ValueError\<close> of an empty reference.\<close>

definition parse_model_ref :: "string \<Rightarrow> (string \<times> string) option" where
  "parse_model_ref ref =
     (let ref = strip ref in
      if ref = [] then None
      else if CHR '':'' \<in> set ref
        then Some (lower (strip (before_char CHR '':'' ref)), strip (after_char CHR '':'' ref))
        else Some (''openai'', ref))"

definition is_local_ref :: "capability_matrix \<Rightarrow> string \<Rightarrow> bool" where
  "is_local_ref matrix model =
     (let ref = strip model in
      if ref = [] then False
      else case lookup_model matrix ref of
        Some caps \<Rightarrow> mc_local caps
      | None \<Rightarrow> (case parse_model_ref ref of
                  None \<Rightarrow> False
                | Some (provider, name) \<Rightarrow> provider \<in> set LOCAL_PROVIDERS))"

definition is_hosted_ref :: "capability_matrix \<Rightarrow> string \<Rightarrow> bool" where
  "is_hosted_ref matrix model = (\<not> is_local_ref matrix model)"

definition catalog_refs :: "capability_matrix \<Rightarrow> string list" where
  "catalog_refs matrix = List.map fst (cx_models matrix)"

section \<open>Validation of a matrix file\<close>

datatype matrix_error =
    MatrixVersion
  | MatrixUpdatedAtRequired
  | MatrixUpdatedAtNotIso
  | MatrixWarnNotInteger
  | MatrixWarnNegative
  | MatrixModelsNotObject
  | MatrixTooManyModels
  | MatrixPrefixesNotObject
  | CapsNotObject string
  | ContextNotInteger string
  | ContextTooSmall string
  | BadLatency string
  | BadQuality string
  | FlagRequired string string
  | FlagNotBool string string
  | LocalNotBool string
  | MatrixStale

definition matrix_updated_at :: "clock_lib \<Rightarrow> string \<Rightarrow> rat option" where
  "matrix_updated_at lib raw =
     (let text = strip raw in
      if text = [] then None
      else iso_instant lib (if ends_with text ''Z'' then butlast text @ ''+00:00'' else text))"

definition matrix_is_stale :: "clock_lib \<Rightarrow> rat \<Rightarrow> capability_matrix \<Rightarrow> bool" where
  "matrix_is_stale lib now m =
     (if cx_warn_after_days m \<le> 0 then False
      else case matrix_updated_at lib (cx_updated_at m) of
        None \<Rightarrow> True
      | Some parsed \<Rightarrow> cx_warn_after_days m < \<lfloor>(now - parsed) / 86400\<rfloor>)"

definition read_flag :: "string \<Rightarrow> pydict \<Rightarrow> string \<Rightarrow> matrix_error + bool" where
  "read_flag whr raw flag =
     (case map_of raw flag of
        None \<Rightarrow> Inl (FlagRequired whr flag)
      | Some (PBool b) \<Rightarrow> Inr b
      | Some _ \<Rightarrow> Inl (FlagNotBool whr flag))"

definition read_context :: "string \<Rightarrow> pydict \<Rightarrow> matrix_error + int" where
  "read_context whr raw =
     (case to_int (vget raw ''context_window'') of
        None \<Rightarrow> Inl (ContextNotInteger whr)
      | Some n \<Rightarrow> if n < 1 then Inl (ContextTooSmall whr) else Inr n)"

definition read_class :: "(rat \<Rightarrow> string) \<Rightarrow> pydict \<Rightarrow> string \<Rightarrow> (string \<times> int) list \<Rightarrow> matrix_error \<Rightarrow>
    matrix_error + string" where
  "read_class fr raw key ranks err =
     (let c = lower (strip (text_or fr (vget raw key) ''standard''))
      in if map_of ranks c = None then Inl err else Inr c)"

definition read_local :: "string \<Rightarrow> pydict \<Rightarrow> matrix_error + bool" where
  "read_local whr raw =
     (case map_of raw ''local'' of
        None \<Rightarrow> Inr False | Some (PBool b) \<Rightarrow> Inr b | Some _ \<Rightarrow> Inl (LocalNotBool whr))"

definition read_caps :: "(rat \<Rightarrow> string) \<Rightarrow> string \<Rightarrow> string \<Rightarrow> pyval \<Rightarrow> matrix_error + capabilities" where
  "read_caps fr whr match v =
     (case v of
        PDict raw \<Rightarrow>
          rbind (read_context whr raw) (\<lambda>window.
          rbind (read_class fr raw ''latency_class'' LATENCY_RANK (BadLatency whr)) (\<lambda>latency.
          rbind (read_class fr raw ''quality_class'' QUALITY_RANK (BadQuality whr)) (\<lambda>quality.
          rbind (read_flag whr raw ''tool_calling'') (\<lambda>tools.
          rbind (read_flag whr raw ''structured_output'') (\<lambda>structured.
          rbind (read_flag whr raw ''media'') (\<lambda>media.
          rbind (read_flag whr raw ''streaming'') (\<lambda>streaming.
          rbind (read_local whr raw) (\<lambda>local.
            Inr (mk_caps window tools structured media streaming local latency quality match)))))))))
      | _ \<Rightarrow> Inl (CapsNotObject whr))"

fun read_caps_list :: "(rat \<Rightarrow> string) \<Rightarrow> string \<Rightarrow> (string \<Rightarrow> string) \<Rightarrow> pydict \<Rightarrow>
    matrix_error + (string \<times> capabilities) list" where
  "read_caps_list fr kind match [] = Inr []"
| "read_caps_list fr kind match ((k, v) # d) =
     rbind (read_caps fr (kind @ ''.'' @ k) (match k) v)
       (\<lambda>c. rbind (read_caps_list fr kind match d) (\<lambda>cs. Inr ((k, c) # cs)))"

definition read_matrix_warn :: "pydict \<Rightarrow> matrix_error + int" where
  "read_matrix_warn data =
     (case to_int (case map_of data ''warn_after_days'' of None \<Rightarrow> PInt 90 | Some v \<Rightarrow> v) of
        None \<Rightarrow> Inl MatrixWarnNotInteger
      | Some n \<Rightarrow> if n < 0 then Inl MatrixWarnNegative else Inr n)"

definition read_matrix_updated :: "clock_lib \<Rightarrow> pydict \<Rightarrow> matrix_error + string" where
  "read_matrix_updated lib data =
     (case vget data ''updated_at'' of
        PStr t \<Rightarrow>
          if strip t = [] then Inl MatrixUpdatedAtRequired
          else if matrix_updated_at lib t = None then Inl MatrixUpdatedAtNotIso else Inr t
      | _ \<Rightarrow> Inl MatrixUpdatedAtRequired)"

definition read_matrix_models :: "(rat \<Rightarrow> string) \<Rightarrow> pydict \<Rightarrow>
    matrix_error + (string \<times> capabilities) list" where
  "read_matrix_models fr data =
     (case vget data ''models'' of
        PDict d \<Rightarrow> if MAX_MODEL_KEYS < length d then Inl MatrixTooManyModels
                   else read_caps_list fr ''models'' (\<lambda>k. ''exact'') d
      | _ \<Rightarrow> Inl MatrixModelsNotObject)"

definition read_matrix_prefixes :: "(rat \<Rightarrow> string) \<Rightarrow> pydict \<Rightarrow>
    matrix_error + (string \<times> capabilities) list" where
  "read_matrix_prefixes fr data =
     (case or_val (vget data ''prefixes'') (PDict []) of
        PDict d \<Rightarrow> read_caps_list fr ''prefixes'' (\<lambda>k. ''prefix:'' @ k) d
      | _ \<Rightarrow> Inl MatrixPrefixesNotObject)"

definition validate_matrix :: "clock_lib \<Rightarrow> (rat \<Rightarrow> string) \<Rightarrow> pydict \<Rightarrow>
    matrix_error + capability_matrix" where
  "validate_matrix lib fr data =
     (if \<not> py_eq (vget data ''version'') (PInt SUPPORTED_VERSION) then Inl MatrixVersion
      else rbind (read_matrix_updated lib data) (\<lambda>updated.
        rbind (read_matrix_warn data) (\<lambda>warn.
        rbind (read_matrix_models fr data) (\<lambda>models.
        rbind (read_matrix_prefixes fr data) (\<lambda>prefixes.
          Inr \<lparr>cx_version = as_int (vget data ''version''), cx_updated_at = strip updated,
               cx_warn_after_days = warn, cx_models = models, cx_prefixes = prefixes,
               cx_stale = False\<rparr>)))))"

text \<open>An override file that is stale is refused; the bundled matrix is only marked.\<close>

definition load_override :: "clock_lib \<Rightarrow> (rat \<Rightarrow> string) \<Rightarrow> rat \<Rightarrow> pydict \<Rightarrow>
    matrix_error + capability_matrix" where
  "load_override lib fr now data =
     rbind (validate_matrix lib fr data) (\<lambda>m. if matrix_is_stale lib now m then Inl MatrixStale else Inr m)"

section \<open>The bundled matrix\<close>

definition bundled_caps :: "(string \<times> capabilities) list" where
  "bundled_caps =
    [(''openai:gpt-4o-mini'', mk_caps 128000 True True True True False ''fast'' ''standard'' ''exact''),
     (''openai:gpt-4o'', mk_caps 128000 True True True True False ''standard'' ''frontier'' ''exact''),
     (''openai:gpt-4.1'', mk_caps 1047576 True True True True False ''standard'' ''frontier'' ''exact''),
     (''openai:gpt-4.1-mini'', mk_caps 1047576 True True True True False ''fast'' ''standard'' ''exact''),
     (''openai:o3-mini'', mk_caps 200000 True True False True False ''slow'' ''frontier'' ''exact''),
     (''anthropic:claude-sonnet-4-5'', mk_caps 200000 True True True True False ''standard'' ''frontier'' ''exact''),
     (''anthropic:claude-3-5-sonnet'', mk_caps 200000 True True True True False ''standard'' ''frontier'' ''exact''),
     (''anthropic:claude-3-5-haiku'', mk_caps 200000 True True False True False ''fast'' ''compact'' ''exact''),
     (''anthropic:claude-opus-4'', mk_caps 200000 True True True True False ''slow'' ''frontier'' ''exact''),
     (''groq:llama-3.1-8b-instant'', mk_caps 131072 True False False True False ''fast'' ''compact'' ''exact''),
     (''ollama:llama3'', mk_caps 8192 False False False True True ''standard'' ''compact'' ''exact''),
     (''ollama:llama3.2'', mk_caps 128000 True False False True True ''fast'' ''compact'' ''exact''),
     (''gemini:gemini-2.0-flash'', mk_caps 1048576 True True True True False ''fast'' ''standard'' ''exact''),
     (''gemini:gemini-1.5-pro'', mk_caps 2097152 True True True True False ''standard'' ''frontier'' ''exact''),
     (''bedrock:anthropic.claude-sonnet-4-5'', mk_caps 200000 True True True True False ''standard'' ''frontier'' ''exact''),
     (''bedrock:amazon.nova-lite-v1:0'', mk_caps 300000 True True True True False ''fast'' ''compact'' ''exact''),
     (''vertex:gemini-2.0-flash'', mk_caps 1048576 True True True True False ''fast'' ''standard'' ''exact''),
     (''vertex:gemini-1.5-pro'', mk_caps 2097152 True True True True False ''standard'' ''frontier'' ''exact'')]"

definition bundled_cap_prefixes :: "(string \<times> capabilities) list" where
  "bundled_cap_prefixes =
    [(''openai:'', mk_caps 128000 True True False True False ''standard'' ''standard'' ''prefix:openai:''),
     (''anthropic:'', mk_caps 200000 True True False True False ''standard'' ''frontier'' ''prefix:anthropic:''),
     (''groq:'', mk_caps 131072 True False False True False ''fast'' ''compact'' ''prefix:groq:''),
     (''ollama:'', mk_caps 8192 False False False True True ''standard'' ''compact'' ''prefix:ollama:''),
     (''gemini:'', mk_caps 1048576 True True True True False ''fast'' ''standard'' ''prefix:gemini:''),
     (''bedrock:'', mk_caps 200000 True True False True False ''standard'' ''standard'' ''prefix:bedrock:''),
     (''vertex:'', mk_caps 1048576 True True True True False ''standard'' ''standard'' ''prefix:vertex:'')]"

definition bundled_matrix :: capability_matrix where
  "bundled_matrix =
     \<lparr>cx_version = 1, cx_updated_at = ''2026-09-11T00:00:00Z'', cx_warn_after_days = 90,
      cx_models = bundled_caps, cx_prefixes = bundled_cap_prefixes, cx_stale = False\<rparr>"

section \<open>Laws\<close>

lemma strip_ref [simp]: "lookup_model matrix (strip m) = lookup_model matrix m"
  by (simp add: lookup_model_def)

text \<open>A model that supports a requirement with \<open>local\<close> is local.\<close>

lemma supported_local:
  "lookup_model matrix ref = Some caps \<Longrightarrow> supports caps require \<Longrightarrow> rr_local require \<Longrightarrow>
   is_local_ref matrix ref"
  by (auto simp: is_local_ref_def supports_def Let_def lookup_model_def [of matrix ref] split: if_splits)

end
