(* ===== verification/Resilience.thy ===== *)
theory Resilience
  imports Capabilities
begin

text \<open>
  Model resilience, \<open>llm/resilience.py\<close>: the cost of a call and the usage it reports, the circuit
  breaker, the list of candidate models and the budget of a run. The breaker's clock is an
  argument of its methods. Its behaviour per model is proved to be that of a circuit of three
  transitions.
\<close>

section \<open>Cost and usage\<close>

definition RATES_PER_MILLION :: "(string \<times> rat \<times> rat) list" where
  "RATES_PER_MILLION =
     [(''gpt-4o-mini'', 3 / 20, 3 / 5), (''gpt-4o'', 5 / 2, 10), (''claude-sonnet-4-5'', 3, 15),
      (''claude-3-5-sonnet'', 3, 15), (''llama-3.1-8b-instant'', 1 / 20, 2 / 25),
      (''default'', 3 / 20, 3 / 5)]"

definition model_key :: "string \<Rightarrow> string" where
  "model_key model =
     (let key = strip (last (split_char CHR '':'' model)) in if key = [] then ''default'' else key)"

definition cost_micros :: "string \<Rightarrow> int \<Rightarrow> int \<Rightarrow> int" where
  "cost_micros model prompt completion =
     (let (prompt_rate, completion_rate) =
            (case map_of RATES_PER_MILLION (model_key model) of
               Some r \<Rightarrow> r
             | None \<Rightarrow> (case map_of RATES_PER_MILLION ''default'' of Some r \<Rightarrow> r | None \<Rightarrow> (3 / 20, 3 / 5)))
      in round_half_even
           ((of_int prompt / 1000000 * prompt_rate + of_int completion / 1000000 * completion_rate)
            * 1000000))"

definition first_given :: "pydict \<Rightarrow> string \<Rightarrow> string \<Rightarrow> pyval" where
  "first_given data k k' = (if vget data k \<noteq> PNone then vget data k else vget data k')"

definition normalize_usage :: "pydict \<Rightarrow> string \<Rightarrow> (string \<times> int) list" where
  "normalize_usage data model =
     (let prompt = as_int (first_given data ''prompt_tokens'' ''input_tokens'');
          completion = as_int (first_given data ''completion_tokens'' ''output_tokens'');
          total = (if as_int (vget data ''total_tokens'') \<noteq> 0 then as_int (vget data ''total_tokens'')
                   else prompt + completion);
          given = as_int (vget data ''cost_micros'');
          micros = (if given = 0 \<and> (prompt \<noteq> 0 \<or> completion \<noteq> 0)
                    then cost_micros model prompt completion else given);
          extra = as_int (vget data ''estimated_tokens'');
          hits = as_int (vget data ''cache_hits'')
      in [(''prompt_tokens'', prompt), (''completion_tokens'', completion),
          (''total_tokens'', total), (''cost_micros'', micros)]
         @ (if extra \<noteq> 0 then [(''estimated_tokens'', extra)] else [])
         @ (if hits \<noteq> 0 then [(''cache_hits'', hits)] else []))"

definition usage_nonzero :: "(string \<times> int) list \<Rightarrow> bool" where
  "usage_nonzero usage = list_ex (\<lambda>(k, v). v \<noteq> 0) usage"

section \<open>Circuit breaker\<close>

record circuit_breaker =
  cb_threshold :: int
  cb_cooldown :: rat
  cb_fail_count :: "(string \<times> int) list"
  cb_open_until :: "(string \<times> rat) list"

definition new_breaker :: "int \<Rightarrow> rat \<Rightarrow> circuit_breaker" where
  "new_breaker threshold cooldown =
     \<lparr>cb_threshold = max 1 threshold, cb_cooldown = max 0 cooldown, cb_fail_count = [], cb_open_until = []\<rparr>"

definition allow :: "string \<Rightarrow> rat \<Rightarrow> circuit_breaker \<Rightarrow> bool \<times> circuit_breaker" where
  "allow model now b =
     (case map_of (cb_open_until b) model of
        None \<Rightarrow> (True, b)
      | Some until \<Rightarrow>
          if until \<le> now then
            (True, b\<lparr>cb_open_until := AList.delete model (cb_open_until b),
                     cb_fail_count := dset model 0 (cb_fail_count b)\<rparr>)
          else (False, b))"

definition record_success :: "string \<Rightarrow> circuit_breaker \<Rightarrow> circuit_breaker" where
  "record_success model b =
     b\<lparr>cb_fail_count := dset model 0 (cb_fail_count b),
       cb_open_until := AList.delete model (cb_open_until b)\<rparr>"

definition record_failure :: "string \<Rightarrow> rat \<Rightarrow> circuit_breaker \<Rightarrow> circuit_breaker" where
  "record_failure model now b =
     (let n = dget_or (cb_fail_count b) model 0 + 1;
          b = b\<lparr>cb_fail_count := dset model n (cb_fail_count b)\<rparr>
      in if cb_threshold b \<le> n
         then b\<lparr>cb_open_until := dset model (now + cb_cooldown b) (cb_open_until b)\<rparr>
         else b)"

definition is_open :: "string \<Rightarrow> rat \<Rightarrow> circuit_breaker \<Rightarrow> bool \<times> circuit_breaker" where
  "is_open model now b = (let (ok, b) = allow model now b in (\<not> ok, b))"

section \<open>Candidates and budgets\<close>

definition add_ref :: "string list \<Rightarrow> string \<Rightarrow> string list" where
  "add_ref seen item = (let ref = strip item in if ref = [] then seen else add_new ref seen)"

definition model_candidates :: "string option \<Rightarrow> string list option list \<Rightarrow> string list" where
  "model_candidates primary groups =
     foldl (\<lambda>seen group. foldl add_ref seen (case group of None \<Rightarrow> [] | Some items \<Rightarrow> items))
       [] (Some (if truthy primary then [the primary] else []) # groups)"

definition model_id_for :: "string \<Rightarrow> string option" where
  "model_id_for ref =
     (if ref = [] then Some ''mock''
      else if CHR '':'' \<in> set ref then map_option snd (parse_model_ref ref)
      else Some ref)"

datatype budget_error = TokenBudget int int | CostBudget int int

definition check_budget :: "(string \<times> int) list \<Rightarrow> int option \<Rightarrow> int option \<Rightarrow> budget_error option" where
  "check_budget usage max_tokens max_cost =
     (let tokens = dget_or usage ''total_tokens'' 0 + dget_or usage ''estimated_tokens'' 0;
          cost = dget_or usage ''cost_micros'' 0
      in case (case max_tokens of Some m \<Rightarrow> if m \<le> tokens then Some (TokenBudget tokens m) else None
                                | None \<Rightarrow> None) of
           Some e \<Rightarrow> Some e
         | None \<Rightarrow> (case max_cost of Some m \<Rightarrow> if m \<le> cost then Some (CostBudget cost m) else None
                                   | None \<Rightarrow> None))"

definition usd_to_micros :: "rat option \<Rightarrow> int option" where
  "usd_to_micros v = map_option (\<lambda>x. round_half_even (x * 1000000)) v"

datatype 'e exhausted = CircuitOpen string | LastError 'e | NoModel

definition raise_exhausted :: "string list \<Rightarrow> string list \<Rightarrow> 'e option \<Rightarrow> 'e exhausted" where
  "raise_exhausted tried skipped last_error =
     (if skipped \<noteq> [] \<and> tried = [] then CircuitOpen (hd skipped)
      else case last_error of
        Some e \<Rightarrow> LastError e
      | None \<Rightarrow> if skipped \<noteq> [] then CircuitOpen (hd skipped) else NoModel)"

section \<open>The circuit of one model\<close>

text \<open>
  What the breaker promises, model by model: a circuit is closed with the failures since the last
  success or reset, or open until a time.
\<close>

datatype circuit = Closed int | Open rat

fun circuit_fail :: "int \<Rightarrow> rat \<Rightarrow> rat \<Rightarrow> circuit \<Rightarrow> circuit" where
  "circuit_fail threshold cooldown now (Closed n) =
     (if threshold \<le> n + 1 then Open (now + cooldown) else Closed (n + 1))"
| "circuit_fail threshold cooldown now (Open t) = Open (now + cooldown)"

fun circuit_allow :: "rat \<Rightarrow> circuit \<Rightarrow> bool \<times> circuit" where
  "circuit_allow now (Closed n) = (True, Closed n)"
| "circuit_allow now (Open t) = (if t \<le> now then (True, Closed 0) else (False, Open t))"

definition circuit_of :: "circuit_breaker \<Rightarrow> string \<Rightarrow> circuit" where
  "circuit_of b m =
     (case map_of (cb_open_until b) m of
        Some t \<Rightarrow> Open t | None \<Rightarrow> Closed (dget_or (cb_fail_count b) m 0))"

definition breaker_inv :: "circuit_breaker \<Rightarrow> bool" where
  "breaker_inv b =
     (1 \<le> cb_threshold b \<and>
      (\<forall>m. (map_of (cb_open_until b) m \<noteq> None) = (cb_threshold b \<le> dget_or (cb_fail_count b) m 0)))"

datatype breaker_event = Asked string rat | Succeeded string | Failed string rat

fun breaker_step :: "breaker_event \<Rightarrow> circuit_breaker \<Rightarrow> circuit_breaker" where
  "breaker_step (Asked m now) b = snd (allow m now b)"
| "breaker_step (Succeeded m) b = record_success m b"
| "breaker_step (Failed m now) b = record_failure m now b"

fun circuit_event :: "int \<Rightarrow> rat \<Rightarrow> string \<Rightarrow> breaker_event \<Rightarrow> circuit \<Rightarrow> circuit" where
  "circuit_event threshold cooldown k (Asked m now) c = (if m = k then snd (circuit_allow now c) else c)"
| "circuit_event threshold cooldown k (Succeeded m) c = (if m = k then Closed 0 else c)"
| "circuit_event threshold cooldown k (Failed m now) c =
     (if m = k then circuit_fail threshold cooldown now c else c)"

lemma dget_or_dset [simp]: "dget_or (dset k v d) k' x = (if k = k' then v else dget_or d k' x)"
  by (simp add: dget_or_def)

lemma breaker_inv_new: "breaker_inv (new_breaker t c)"
  by (simp add: breaker_inv_def new_breaker_def dget_or_def)

lemma breaker_caps [simp]:
  "cb_threshold (breaker_step e b) = cb_threshold b"
  "cb_cooldown (breaker_step e b) = cb_cooldown b"
  by (cases e; auto simp: allow_def record_success_def record_failure_def Let_def split: option.split)+

lemma breaker_event_inv: "breaker_inv b \<Longrightarrow> breaker_inv (breaker_step e b)"
  by (cases e)
    (auto simp: breaker_inv_def allow_def record_success_def record_failure_def Let_def delete_conv'
      split: option.splits)

lemma breaker_event_circuit:
  "breaker_inv b \<Longrightarrow>
   circuit_of (breaker_step e b) k = circuit_event (cb_threshold b) (cb_cooldown b) k e (circuit_of b k)"
proof (cases e)
  case (Failed m now)
  assume inv: "breaker_inv b"
  then have "(map_of (cb_open_until b) m \<noteq> None) = (cb_threshold b \<le> dget_or (cb_fail_count b) m 0)"
    by (simp add: breaker_inv_def)
  then show ?thesis
    by (auto simp: Failed circuit_of_def record_failure_def Let_def split: option.splits)
qed (auto simp: circuit_of_def allow_def record_success_def Let_def delete_conv' split: option.splits)

definition run_events :: "breaker_event list \<Rightarrow> circuit_breaker \<Rightarrow> circuit_breaker" where
  "run_events es b = foldl (\<lambda>b e. breaker_step e b) b es"

lemma run_events_inv:
  "breaker_inv b \<Longrightarrow>
   breaker_inv (run_events es b) \<and> cb_threshold (run_events es b) = cb_threshold b \<and>
   cb_cooldown (run_events es b) = cb_cooldown b"
  by (induction es arbitrary: b) (simp_all add: run_events_def breaker_event_inv)

lemma run_events_circuit:
  "breaker_inv b \<Longrightarrow>
   circuit_of (run_events es b) k =
     foldl (\<lambda>c e. circuit_event (cb_threshold b) (cb_cooldown b) k e c) (circuit_of b k) es"
  by (induction es arbitrary: b) (simp_all add: run_events_def breaker_event_inv breaker_event_circuit)

text \<open>
  C29. Over any sequence of requests, successes and failures of any models, the breaker treats each
  model as its own circuit: closed until the threshold of failures in a row, then refusing until
  the cooldown has passed, then closed with no failures.
\<close>

theorem breaker_refines_circuits:
  "circuit_of (run_events es (new_breaker threshold cooldown)) k =
     foldl (\<lambda>c e. circuit_event (max 1 threshold) (max 0 cooldown) k e c) (Closed 0) es
   \<and> fst (allow k now (run_events es (new_breaker threshold cooldown))) =
       fst (circuit_allow now
         (foldl (\<lambda>c e. circuit_event (max 1 threshold) (max 0 cooldown) k e c) (Closed 0) es))"
proof -
  let ?b = "run_events es (new_breaker threshold cooldown)"
  have c: "circuit_of ?b k =
      foldl (\<lambda>c e. circuit_event (max 1 threshold) (max 0 cooldown) k e c) (Closed 0) es"
    using run_events_circuit [OF breaker_inv_new, of es threshold cooldown k]
    by (simp add: new_breaker_def circuit_of_def dget_or_def)
  have "fst (allow k now ?b) = fst (circuit_allow now (circuit_of ?b k))"
    by (simp add: allow_def circuit_of_def split: option.split)
  with c show ?thesis by simp
qed

end
