(* ===== verification/Routing.thy ===== *)
theory Routing
  imports Resilience Taint
begin

text \<open>
  Model routing: rules and their validation (\<open>workflow/schema.py\<close>), the selection of a route
  (\<open>routing/select.py\<close>) and the budgets of routes (\<open>routing/budgets.py\<close>). The capability matrix, the
  price table, the circuit breaker and the promoted adapter of a node are arguments.
\<close>

section \<open>Rules\<close>

record route_match =
  rm_node :: "string option"
  rm_node_tag :: "string option"
  rm_role :: "string option"
  rm_taint :: "string option"

record route_rule =
  ru_id :: "string option"
  ru_match :: "route_match option"
  ru_strategy :: "string option"
  ru_pin :: "string option"
  ru_require :: "requirement option"
  ru_pool :: "string list"

record route_budget =
  rb_max_cost_usd :: "rat option"
  rb_max_tokens :: "int option"

record routing_policy =
  rp_rules :: "route_rule list"
  rp_pool :: "string list"
  rp_budgets :: "(string \<times> route_budget) list"

record route_node =
  rn_flow :: flow_node
  rn_tags :: "string list"
  rn_role :: "string option"
  rn_model :: "string option"
  rn_fallback :: "string list"

definition ROUTING_STRATEGIES :: "string list" where
  "ROUTING_STRATEGIES = [''cheapest_capable'', ''fastest'', ''highest_quality'', ''local_only'', ''pin'']"

definition STRATEGY_ALIASES :: "(string \<times> string) list" where
  "STRATEGY_ALIASES =
     [(''highestquality'', ''highest_quality''), (''localonly'', ''local_only''),
      (''cheapestcapable'', ''cheapest_capable''), (''explicit'', ''pin''),
      (''explicit_pinning'', ''pin''), (''explicit_pin'', ''pin'')]"

definition normalize_strategy :: "string \<Rightarrow> string" where
  "normalize_strategy value =
     (let text = List.map (\<lambda>c. if c = CHR ''-'' then CHR ''_'' else c) (lower (strip value))
      in case map_of STRATEGY_ALIASES text of None \<Rightarrow> text | Some s \<Rightarrow> s)"

text \<open>The validators of the schema; \<open>Inl\<close> is a \<open>ValueError\<close>.\<close>

datatype rule_error = BadTaint string | BadStrategy string | StrategyOrPinRequired | PinRequired

definition check_taint :: "string option \<Rightarrow> rule_error + string option" where
  "check_taint value =
     (let cleaned = lower (strip (or_empty value)) in
      if cleaned = [] then Inr None
      else if cleaned \<in> set [''trusted'', ''untrusted''] then Inr (Some cleaned)
      else Inl (BadTaint cleaned))"

definition check_strategy :: "string option \<Rightarrow> rule_error + string option" where
  "check_strategy value =
     (if strip (or_empty value) = [] then Inr None
      else
        (let cleaned = normalize_strategy (or_empty value)
         in if cleaned \<in> set ROUTING_STRATEGIES then Inr (Some cleaned) else Inl (BadStrategy cleaned)))"

definition pin_or_strategy :: "route_rule \<Rightarrow> rule_error + route_rule" where
  "pin_or_strategy r =
     (let r = (if truthy (ru_pin r) \<and> \<not> truthy (ru_strategy r) then r\<lparr>ru_strategy := Some ''pin''\<rparr> else r)
      in if \<not> truthy (ru_strategy r) \<and> \<not> truthy (ru_pin r) then Inl StrategyOrPinRequired
         else if ru_strategy r = Some ''pin'' \<and> strip (or_empty (ru_pin r)) = [] then Inl PinRequired
         else Inr (if truthy (ru_pin r) then r\<lparr>ru_pin := Some (strip (the (ru_pin r)))\<rparr> else r))"

definition validate_rule :: "route_rule \<Rightarrow> rule_error + route_rule" where
  "validate_rule r =
     rbind (case ru_match r of
              None \<Rightarrow> Inr None
            | Some m \<Rightarrow> rbind (check_taint (rm_taint m)) (\<lambda>t. Inr (Some (m\<lparr>rm_taint := t\<rparr>))))
       (\<lambda>m. rbind (check_strategy (ru_strategy r))
         (\<lambda>s. pin_or_strategy (r\<lparr>ru_match := m, ru_strategy := s\<rparr>)))"

section \<open>Matching\<close>

definition rule_matches :: "route_rule \<Rightarrow> route_node \<Rightarrow> routing_taint \<Rightarrow> bool" where
  "rule_matches r n taint =
     (case ru_match r of
        None \<Rightarrow> True
      | Some m \<Rightarrow>
          (truthy (rm_node m) \<longrightarrow> the (rm_node m) = fn_id (rn_flow n)) \<and>
          (truthy (rm_node_tag m) \<longrightarrow> the (rm_node_tag m) \<in> set (rn_tags n)) \<and>
          (truthy (rm_role m) \<longrightarrow> the (rm_role m) = or_empty (rn_role n)) \<and>
          (truthy (rm_taint m) \<longrightarrow>
             the (rm_taint m) = (if taint_blocks_hosted taint then ''untrusted'' else ''trusted'')))"

definition untrusted_rule :: "route_rule \<Rightarrow> bool" where
  "untrusted_rule r = (case ru_match r of None \<Rightarrow> False | Some m \<Rightarrow> rm_taint m = Some ''untrusted'')"

definition residency_locked :: "routing_policy \<Rightarrow> routing_taint \<Rightarrow> bool" where
  "residency_locked p taint =
     (taint_blocks_hosted taint \<and>
      list_ex (\<lambda>r. ru_strategy r = Some ''local_only'' \<or> untrusted_rule r) (rp_rules p))"

section \<open>Ranking\<close>

definition latency_rank :: "capability_matrix \<Rightarrow> string \<Rightarrow> int" where
  "latency_rank matrix ref =
     (case lookup_model matrix ref of
        None \<Rightarrow> 99 | Some caps \<Rightarrow> dget_or LATENCY_RANK (mc_latency_class caps) 99)"

definition quality_rank :: "capability_matrix \<Rightarrow> string \<Rightarrow> int" where
  "quality_rank matrix ref =
     (case lookup_model matrix ref of
        None \<Rightarrow> 99 | Some caps \<Rightarrow> dget_or QUALITY_RANK (mc_quality_class caps) 99)"

definition price_rank :: "price_table \<Rightarrow> string \<Rightarrow> rat" where
  "price_rank prices ref =
     (let q = quote_model prices ref in
      case (q_priced q, q_rate q) of
        (True, Some r) \<Rightarrow> in_rate r + out_rate r
      | _ \<Rightarrow> 10 ^ 18)"

definition unique_refs :: "string list \<Rightarrow> string list" where
  "unique_refs pool = foldl (\<lambda>u ref. if ref = [] then u else add_new ref u) [] pool"

text \<open>Sorting by rank is stable, which is the second component of the code's key.\<close>

definition rank_pool :: "string list \<Rightarrow> string \<Rightarrow> price_table \<Rightarrow> capability_matrix \<Rightarrow>
    string list \<times> string" where
  "rank_pool pool strategy prices matrix =
     (let refs = unique_refs pool in
      if strategy = ''fastest''
        then (sort_key (latency_rank matrix) refs, ''fastest by declared latency_class'')
      else if strategy = ''highest_quality''
        then (sort_key (quality_rank matrix) refs, ''highest_quality by declared quality_class'')
      else if strategy = ''local_only'' then (refs, ''local_only (hosted providers excluded)'')
      else (sort_key (price_rank prices) refs, ''cheapest_capable by price table''))"

section \<open>Resolving a rule\<close>

record route_decision =
  rd_model :: string
  rd_policy :: bool
  rd_reason :: string
  rd_strategy :: "string option"
  rd_rule_id :: "string option"
  rd_rule_index :: "nat option"
  rd_pin :: "string option"
  rd_fallback :: bool
  rd_skipped :: "string list"
  rd_candidates :: "string list"
  rd_require :: requirement
  rd_taint :: routing_taint
  rd_local_only :: bool

definition merged_require :: "route_rule \<Rightarrow> bool \<Rightarrow> bool \<Rightarrow> requirement" where
  "merged_require r tools structured =
     (let q = (case ru_require r of None \<Rightarrow> no_requirement | Some q \<Rightarrow> q)
      in q\<lparr>rr_tool_calling := rr_tool_calling q \<or> tools,
           rr_structured_output := rr_structured_output q \<or> structured\<rparr>)"

definition ask_breaker :: "string \<Rightarrow> rat \<Rightarrow> circuit_breaker option \<Rightarrow> bool \<times> circuit_breaker option" where
  "ask_breaker ref now b =
     (case b of
        None \<Rightarrow> (True, None)
      | Some cb \<Rightarrow> (let (ok, cb') = allow ref now cb in (ok, Some cb')))"

definition ref_capable :: "capability_matrix \<Rightarrow> bool \<Rightarrow> requirement \<Rightarrow> string \<Rightarrow> bool" where
  "ref_capable matrix local_only require ref =
     (\<not> (local_only \<and> is_hosted_ref matrix ref) \<and>
      (case lookup_model matrix ref of None \<Rightarrow> False | Some caps \<Rightarrow> supports caps require) \<and>
      \<not> (local_only \<and> \<not> is_local_ref matrix ref))"

text \<open>The capable and the skipped references, in order, with the breaker asked for each.\<close>

fun pick_capable :: "capability_matrix \<Rightarrow> bool \<Rightarrow> requirement \<Rightarrow> rat \<Rightarrow> string list \<Rightarrow>
    circuit_breaker option \<Rightarrow> (string list \<times> string list) \<times> circuit_breaker option" where
  "pick_capable matrix local_only require now [] b = (([], []), b)"
| "pick_capable matrix local_only require now (ref # refs) b =
     (let (ok, b1) = ask_breaker ref now b;
          ((capable, skipped), b2) = pick_capable matrix local_only require now refs b1
      in if ok \<and> ref_capable matrix local_only require ref
         then ((ref # capable, skipped), b2) else ((capable, ref # skipped), b2))"

datatype routing_error =
    Unsatisfiable nat "string option" routing_taint "string list"
  | HostedPin string nat
  | RouteCapability capability_error

definition rule_pool :: "route_rule \<Rightarrow> routing_policy \<Rightarrow> capability_matrix \<Rightarrow> string list \<Rightarrow> string list" where
  "rule_pool r p matrix legacy =
     (let given = (if ru_pool r \<noteq> [] then ru_pool r else rp_pool p);
          pool = filter (\<lambda>ref. ref \<noteq> []) (List.map strip given)
      in if pool \<noteq> [] then pool else foldl (\<lambda>u ref. add_new ref u) (catalog_refs matrix) legacy)"

definition rule_strategy :: "route_rule \<Rightarrow> string option" where
  "rule_strategy r =
     (if truthy (ru_strategy r) then ru_strategy r else if truthy (ru_pin r) then Some ''pin'' else None)"

definition rule_local_only :: "route_rule \<Rightarrow> requirement \<Rightarrow> routing_taint \<Rightarrow> bool \<Rightarrow> bool" where
  "rule_local_only r require taint locked =
     (rule_strategy r = Some ''local_only'' \<or> rr_local require \<or> locked \<or>
      taint_blocks_hosted taint \<and> untrusted_rule r)"

text \<open>A requirement becomes local when the lock holds, or untrusted data meets a local rule.\<close>

definition rule_require :: "route_rule \<Rightarrow> requirement \<Rightarrow> routing_taint \<Rightarrow> bool \<Rightarrow> requirement" where
  "rule_require r require taint locked =
     (if locked \<or> taint_blocks_hosted taint \<and>
           (rule_strategy r = Some ''local_only'' \<or> rr_local require \<or> untrusted_rule r)
      then require\<lparr>rr_local := True\<rparr> else require)"

definition rule_order :: "route_rule \<Rightarrow> routing_policy \<Rightarrow> capability_matrix \<Rightarrow> price_table \<Rightarrow>
    string list \<Rightarrow> string list \<times> string" where
  "rule_order r p matrix prices legacy =
     (if rule_strategy r = Some ''pin'' \<or> truthy (ru_pin r)
      then (let ref = strip (or_empty (ru_pin r)) in ([ref], ''pin '' @ ref))
      else rank_pool (rule_pool r p matrix legacy) (or_text (rule_strategy r) ''cheapest_capable'')
             prices matrix)"

definition resolve_rule :: "route_rule \<Rightarrow> nat \<Rightarrow> routing_policy \<Rightarrow> routing_taint \<Rightarrow> bool \<Rightarrow> bool \<Rightarrow>
    capability_matrix \<Rightarrow> price_table \<Rightarrow> rat \<Rightarrow> string list \<Rightarrow> bool \<Rightarrow> circuit_breaker option \<Rightarrow>
    (routing_error + route_decision) \<times> circuit_breaker option" where
  "resolve_rule r index p taint tools structured matrix prices now legacy locked b =
     (let base = merged_require r tools structured;
          local_only = rule_local_only r base taint locked;
          require = rule_require r base taint locked;
          (ordered, reason) = rule_order r p matrix prices legacy;
          ((capable, skipped), b1) = pick_capable matrix local_only require now ordered b
      in (case capable of
            [] \<Rightarrow> Inl (Unsatisfiable index (rule_strategy r) taint skipped)
          | chosen # rest \<Rightarrow>
              rbind (if rule_strategy r = Some ''pin'' then
                       (case assert_capable matrix chosen require of
                          Inl e \<Rightarrow> Inl (RouteCapability e)
                        | Inr caps \<Rightarrow> if local_only \<and> is_hosted_ref matrix chosen
                                     then Inl (HostedPin chosen index) else Inr ())
                     else Inr ())
                (\<lambda>_. Inr \<lparr>rd_model = chosen, rd_policy = True, rd_reason = reason,
                         rd_strategy = rule_strategy r, rd_rule_id = ru_id r, rd_rule_index = Some index,
                         rd_pin = ru_pin r, rd_fallback = False, rd_skipped = skipped,
                         rd_candidates = capable, rd_require = require, rd_taint = taint,
                         rd_local_only = local_only\<rparr>),
          b1))"

section \<open>Selecting a route\<close>

definition plain_route :: "string list \<Rightarrow> string option \<Rightarrow> string \<Rightarrow> routing_taint \<Rightarrow> route_decision" where
  "plain_route legacy dflt reason taint =
     (let model = (case legacy of m # _ \<Rightarrow> m | [] \<Rightarrow> or_text dflt ''mock'')
      in \<lparr>rd_model = model, rd_policy = False, rd_reason = reason, rd_strategy = None, rd_rule_id = None,
          rd_rule_index = None, rd_pin = None, rd_fallback = False, rd_skipped = [],
          rd_candidates = (if legacy \<noteq> [] then legacy else [model]), rd_require = no_requirement,
          rd_taint = taint, rd_local_only = False\<rparr>)"

text \<open>The promoted adapter of a node, with the incumbent model to fall back to.\<close>

definition distill_pin :: "(rat \<Rightarrow> string) \<Rightarrow> pydict option \<Rightarrow> string list \<Rightarrow> string option \<Rightarrow>
    routing_taint \<Rightarrow> route_decision option" where
  "distill_pin fr pin legacy dflt taint =
     (case pin of
        None \<Rightarrow> None
      | Some row \<Rightarrow>
          (let adapter = strip (text_or fr (vget row ''adapter_id'') []) in
           if row = [] \<or> adapter = [] then None
           else
             (let ref = ''adapter:'' @ adapter;
                  named = strip (text_or fr (vget row ''incumbent'') []);
                  incumbent = (if named \<noteq> [] then named
                               else case legacy of m # _ \<Rightarrow> m | [] \<Rightarrow> or_text dflt ''mock'');
                  fallback = (case map_of row ''fallback'' of None \<Rightarrow> True | Some v \<Rightarrow> py_truth v)
              in Some ((plain_route [] (Some ref) ''distill_adapter'' taint)
                   \<lparr>rd_policy := True, rd_fallback := fallback,
                    rd_candidates := ref # (if fallback \<and> incumbent \<noteq> [] \<and> incumbent \<noteq> ref
                                            then [incumbent] else [])\<rparr>))))"

definition legacy_refs :: "string list \<Rightarrow> string option \<Rightarrow> route_node \<Rightarrow> string list \<Rightarrow> string list" where
  "legacy_refs legacy dflt n workflow_fallback =
     (if legacy \<noteq> [] then legacy
      else foldl add_ref (if truthy dflt then [the dflt] else []) (rn_fallback n @ workflow_fallback))"

fun first_rule :: "route_rule list \<Rightarrow> nat \<Rightarrow> route_node \<Rightarrow> routing_taint \<Rightarrow> (nat \<times> route_rule) option" where
  "first_rule [] i n taint = None"
| "first_rule (r # rs) i n taint =
     (if rule_matches r n taint then Some (i, r) else first_rule rs (Suc i) n taint)"

definition pick_default :: "string option \<Rightarrow> route_node \<Rightarrow> string option \<Rightarrow> string option" where
  "pick_default primary n workflow_default =
     (if truthy primary then primary else if truthy (rn_model n) then rn_model n else workflow_default)"

definition select_route :: "(rat \<Rightarrow> string) \<Rightarrow> routing_policy option \<Rightarrow> route_node \<Rightarrow> run_state option \<Rightarrow>
    string option \<Rightarrow> string option \<Rightarrow> string list \<Rightarrow> string list \<Rightarrow> bool \<Rightarrow> bool \<Rightarrow> pydict option \<Rightarrow>
    capability_matrix \<Rightarrow> price_table \<Rightarrow> rat \<Rightarrow> circuit_breaker option \<Rightarrow>
    (routing_error + route_decision) \<times> circuit_breaker option" where
  "select_route fr policy n state primary workflow_default legacy workflow_fallback tools structured pin
       matrix prices now b =
     (let dflt = pick_default primary n workflow_default;
          legacy = legacy_refs legacy dflt n workflow_fallback;
          taint = resolve_routing_taint fr state (rn_flow n)
      in case distill_pin fr pin legacy dflt taint of
           Some d \<Rightarrow> (Inr d, b)
         | None \<Rightarrow>
             (case policy of
                None \<Rightarrow> (Inr (plain_route legacy dflt ''no_routing_policy'' taint), b)
              | Some p \<Rightarrow>
                  if rp_rules p = [] then (Inr (plain_route legacy dflt ''no_routing_policy'' taint), b)
                  else (case first_rule (rp_rules p) 0 n taint of
                          Some (index, r) \<Rightarrow>
                            resolve_rule r index p taint tools structured matrix prices now legacy
                              (residency_locked p taint) b
                        | None \<Rightarrow> (Inr (plain_route legacy dflt ''no_matching_rule'' taint), b))))"

section \<open>Route budgets\<close>

record route_usage =
  us_cost :: int
  us_tokens :: int

definition no_usage :: route_usage where
  "no_usage = \<lparr>us_cost = 0, us_tokens = 0\<rparr>"

record route_tracker =
  rt_budgets :: "(string \<times> route_budget) list"
  rt_used :: "(string \<times> route_usage) list"

datatype route_budget_error =
    RouteTokens string int int
  | RouteCost string int int
  | RouteUnpriced string int int

definition keys_for :: "route_tracker \<Rightarrow> route_node \<Rightarrow> string option \<Rightarrow> string list" where
  "keys_for t n rule_id =
     foldl (\<lambda>found key. if key \<noteq> [] \<and> map_of (rt_budgets t) key \<noteq> None then add_new key found else found)
       [] (fn_id (rn_flow n) # rn_tags n @ [or_empty rule_id])"

definition used_of :: "route_tracker \<Rightarrow> string \<Rightarrow> route_usage" where
  "used_of t key = dget_or (rt_used t) key no_usage"

definition check_key :: "route_tracker \<Rightarrow> price_quote \<Rightarrow> int \<Rightarrow> int option \<Rightarrow> string \<Rightarrow>
    route_budget_error option" where
  "check_key t quote prompt estimated key =
     (case map_of (rt_budgets t) key of
        None \<Rightarrow> None
      | Some budget \<Rightarrow>
          (let used = used_of t key in
           case (case rb_max_tokens budget of
                   None \<Rightarrow> None
                 | Some limit \<Rightarrow> if limit < us_tokens used + prompt
                                 then Some (RouteTokens key (us_tokens used + prompt) limit) else None) of
             Some e \<Rightarrow> Some e
           | None \<Rightarrow>
               (case usd_to_micros (rb_max_cost_usd budget) of
                  None \<Rightarrow> None
                | Some limit \<Rightarrow>
                    (case (q_priced quote, estimated) of
                       (True, Some cost) \<Rightarrow>
                         if limit < us_cost used + cost
                         then Some (RouteCost key (us_cost used + cost) limit) else None
                     | _ \<Rightarrow> Some (RouteUnpriced key (us_cost used) limit)))))"

fun check_keys :: "price_quote \<Rightarrow> int \<Rightarrow> int option \<Rightarrow> string list \<Rightarrow> route_tracker \<Rightarrow>
    route_tracker \<times> route_budget_error option" where
  "check_keys quote prompt estimated [] t = (t, None)"
| "check_keys quote prompt estimated (key # keys) t =
     (let t1 = t\<lparr>rt_used := setdefault key no_usage (rt_used t)\<rparr>
      in case check_key t1 quote prompt estimated key of
           Some e \<Rightarrow> (t1, Some e)
         | None \<Rightarrow> check_keys quote prompt estimated keys t1)"

definition consult_route :: "price_table \<Rightarrow> route_node \<Rightarrow> string \<Rightarrow> int \<Rightarrow> string option \<Rightarrow>
    route_tracker \<Rightarrow> route_tracker \<times> route_budget_error option" where
  "consult_route prices n model prompt_tokens rule_id t =
     (if rt_budgets t = [] then (t, None)
      else
        (let quote = quote_model prices model; prompt = max 0 prompt_tokens
         in check_keys quote prompt (quote_cost quote prompt 0) (keys_for t n rule_id) t))"

definition charge_key :: "int \<Rightarrow> int \<Rightarrow> route_tracker \<Rightarrow> string \<Rightarrow> route_tracker" where
  "charge_key tokens cost t key =
     (let u = used_of t key
      in t\<lparr>rt_used := dset key \<lparr>us_cost = us_cost u + cost, us_tokens = us_tokens u + tokens\<rparr> (rt_used t)\<rparr>)"

definition record_route :: "route_node \<Rightarrow> (string \<times> int) list \<Rightarrow> string option \<Rightarrow> route_tracker \<Rightarrow>
    route_tracker" where
  "record_route n usage rule_id t =
     (if rt_budgets t = [] then t
      else foldl (charge_key (dget_or usage ''total_tokens'' 0) (dget_or usage ''cost_micros'' 0)) t
             (keys_for t n rule_id))"

end
