(* ===== verification/AgentCalls.thy ===== *)
theory AgentCalls
  imports Routing Enforcement Meter
begin

text \<open>
  The model call of an agent node, \<open>_complete_agent\<close> in \<open>workflow/nodes.py\<close>: the scan for secrets,
  the route, then candidate after candidate with the circuit breaker, the cache, the budget of the
  run, the capabilities, the budget of the route and the meter before the provider is asked, and
  their settlement after it. The registry of providers is the argument \<open>provider\<close>: by model and by
  the number of calls before, it has no provider for the model, or one that fails or answers. Clocks
  are read once per decision of the breaker. Offline replay, recording and streaming are left out.
\<close>

section \<open>Data\<close>

record completion =
  co_text :: string
  co_model :: string
  co_usage :: pydict

datatype provider_outcome =
    Unavailable string
  | Answered completion
  | LlmError string
  | OtherError string

record call_world =
  gw_breaker :: "circuit_breaker option"
  gw_meter :: "spend_meter option"
  gw_shared :: "shared_budget option"
  gw_run :: run_state
  gw_tracker :: "route_tracker option"
  gw_cache :: "(string \<times> completion) list option"
  gw_calls :: "string list"

record call_ctx =
  kc_env :: meter_env
  kc_matrix :: capability_matrix
  kc_prices :: price_table
  kc_clock :: "nat \<Rightarrow> rat"
  kc_budget_tokens :: "int option"
  kc_budget_cost :: "int option"
  kc_use_cache :: bool
  kc_key :: "string \<Rightarrow> string"
  kc_hint :: int
  kc_secrets :: "string list"
  kc_force_fallback :: bool

datatype call_error =
    SecretInMessage
  | RouteFailed routing_error
  | OverBudget budget_error
  | NotCapable capability_error
  | OverRoute route_budget_error
  | MeterRefused meter_error
  | ProviderFailed string
  | OutOfModels "string exhausted"

definition account_usage :: "(string \<times> int) list \<Rightarrow> call_world \<Rightarrow> call_world" where
  "account_usage usage w =
     w\<lparr>gw_run := note_node_usage (List.map (\<lambda>(k, n). (k, PInt n)) usage) True (gw_run w)\<rparr>"

section \<open>Before a call\<close>

definition cached :: "call_ctx \<Rightarrow> string \<Rightarrow> call_world \<Rightarrow> completion option" where
  "cached c ref w =
     (case gw_cache w of
        None \<Rightarrow> None
      | Some entries \<Rightarrow> if kc_use_cache c then map_of entries (kc_key c ref) else None)"

definition note_hit :: "call_ctx \<Rightarrow> string \<Rightarrow> completion \<Rightarrow> call_world \<Rightarrow> call_world" where
  "note_hit c ref hit w =
     (case gw_meter w of
        None \<Rightarrow> account_usage [(''cache_hits'', 1)] w
      | Some m \<Rightarrow>
          (let (m', saved) = record_cache_hit (kc_env c) ref (co_usage hit) m
           in account_usage ([(''cache_hits'', 1)] @
                (if saved \<noteq> 0 then [(''cache_savings_micros'', saved)] else [])) (w\<lparr>gw_meter := Some m'\<rparr>)))"

definition note_miss :: "call_ctx \<Rightarrow> call_world \<Rightarrow> call_world" where
  "note_miss c w =
     (case (kc_use_cache c, gw_cache w, gw_meter w) of
        (True, Some _, Some m) \<Rightarrow>
          account_usage [(''cache_misses'', 1)] (w\<lparr>gw_meter := Some (record_cache_miss m)\<rparr>)
      | _ \<Rightarrow> w)"

definition is_adapter :: "string \<Rightarrow> bool" where
  "is_adapter ref = starts_with ref ''adapter:''"

text \<open>Capabilities and route budget, under a routing policy and for models proper.\<close>

definition admit_route :: "call_ctx \<Rightarrow> route_node \<Rightarrow> route_decision \<Rightarrow> string \<Rightarrow> call_world \<Rightarrow>
    call_world \<times> call_error option" where
  "admit_route c n d ref w =
     (if \<not> rd_policy d \<or> is_adapter ref \<or> rd_reason d = ''distill_adapter'' then (w, None)
      else (case assert_capable (kc_matrix c) ref (rd_require d) of
        Inl e \<Rightarrow> (w, Some (NotCapable e))
      | Inr caps \<Rightarrow>
          (case gw_tracker w of
             None \<Rightarrow> (w, None)
           | Some t \<Rightarrow>
               (let (t', e) = consult_route (kc_prices c) n ref (kc_hint c) (rd_rule_id d) t
                in (w\<lparr>gw_tracker := Some t'\<rparr>, map_option OverRoute e)))))"

definition admit_meter :: "call_ctx \<Rightarrow> string \<Rightarrow> call_world \<Rightarrow> call_world \<times> call_error option" where
  "admit_meter c ref w =
     (case gw_meter w of
        None \<Rightarrow> (w, None)
      | Some m \<Rightarrow>
          (let ((m', sb), e) = consult_before_call (kc_env c) ref (kc_hint c) 0 (m, gw_shared w)
           in (w\<lparr>gw_meter := Some m', gw_shared := sb\<rparr>, map_option MeterRefused e)))"

definition admit_call :: "call_ctx \<Rightarrow> route_node \<Rightarrow> route_decision \<Rightarrow> string \<Rightarrow> call_world \<Rightarrow>
    call_world \<times> call_error option" where
  "admit_call c n d ref w =
     (case check_budget (rs_usage (gw_run w)) (kc_budget_tokens c) (kc_budget_cost c) of
        Some e \<Rightarrow> (w, Some (OverBudget e))
      | None \<Rightarrow>
          (case admit_route c n d ref w of
             (w1, Some e) \<Rightarrow> (w1, Some e)
           | (w1, None) \<Rightarrow> admit_meter c ref w1))"

section \<open>After a call\<close>

definition settle_failure :: "call_ctx \<Rightarrow> string \<Rightarrow> rat \<Rightarrow> call_world \<Rightarrow> call_world" where
  "settle_failure c ref now w =
     (let w = (case gw_meter w of
                 None \<Rightarrow> w
               | Some m \<Rightarrow>
                   (let (m', sb) = release_reservation (kc_env c) (kc_hint c) 0 (m, gw_shared w)
                    in w\<lparr>gw_meter := Some m', gw_shared := sb\<rparr>))
      in w\<lparr>gw_breaker := map_option (record_failure ref now) (gw_breaker w)\<rparr>)"

definition answer_model :: "completion \<Rightarrow> string \<Rightarrow> string" where
  "answer_model r ref = (if co_model r \<noteq> [] then co_model r else ref)"

definition answer_usage :: "completion \<Rightarrow> string \<Rightarrow> (string \<times> int) list" where
  "answer_usage r ref =
     normalize_usage (co_usage r)
       (if co_model r \<noteq> [] then co_model r else or_empty (model_id_for ref))"

definition settle_answer :: "call_ctx \<Rightarrow> route_node \<Rightarrow> route_decision \<Rightarrow> string \<Rightarrow> completion \<Rightarrow>
    call_world \<Rightarrow> call_world" where
  "settle_answer c n d ref r w =
     (let usage = answer_usage r ref;
          w = w\<lparr>gw_breaker := map_option (record_success ref) (gw_breaker w)\<rparr>;
          w = (case gw_meter w of
                 None \<Rightarrow> w
               | Some m \<Rightarrow>
                   (let ((m', sb), extras) = record_usage (kc_env c) (answer_model r ref)
                          (List.map (\<lambda>(k, x). (k, PInt x)) usage) (kc_hint c) 0 (m, gw_shared w)
                    in w\<lparr>gw_meter := Some m', gw_shared := sb\<rparr>));
          w = (if usage_nonzero usage then account_usage usage w else w);
          w = (case gw_cache w of
                 Some entries \<Rightarrow> if kc_use_cache c
                   then w\<lparr>gw_cache := Some (dset (kc_key c ref) r entries)\<rparr> else w
               | None \<Rightarrow> w)
      in if rd_policy d
         then w\<lparr>gw_tracker := map_option (record_route n usage (rd_rule_id d)) (gw_tracker w)\<rparr> else w)"

section \<open>Candidates\<close>

text \<open>\<open>i\<close> counts the candidates seen, for the clock; the trace \<open>gw_calls\<close> holds the models asked.\<close>

fun try_models :: "call_ctx \<Rightarrow> route_node \<Rightarrow> route_decision \<Rightarrow> (string \<Rightarrow> nat \<Rightarrow> provider_outcome) \<Rightarrow>
    nat \<Rightarrow> string list \<Rightarrow> string list \<Rightarrow> string list \<Rightarrow> string option \<Rightarrow> call_world \<Rightarrow>
    (call_error + completion) \<times> call_world" where
  "try_models c n d provider i [] tried skipped err w =
     (Inl (OutOfModels (raise_exhausted tried skipped err)), w)"
| "try_models c n d provider i (ref # refs) tried skipped err w =
     (let (ok, b) = ask_breaker ref (kc_clock c (2 * i)) (gw_breaker w);
          w = w\<lparr>gw_breaker := b\<rparr>
      in if \<not> ok then try_models c n d provider (Suc i) refs tried (skipped @ [ref]) err w
         else (case cached c ref w of
           Some hit \<Rightarrow> (Inr hit, note_hit c ref hit w)
         | None \<Rightarrow>
             (case admit_call c n d ref (note_miss c w) of
                (w1, Some e) \<Rightarrow> (Inl e, w1)
              | (w1, None) \<Rightarrow>
                  (let w2 = w1\<lparr>gw_calls := gw_calls w1 @ [ref]\<rparr>
                   in case provider ref (length (gw_calls w1)) of
                        Unavailable e \<Rightarrow>
                          try_models c n d provider (Suc i) refs tried skipped (Some e)
                            (settle_failure c ref (kc_clock c (2 * i + 1)) w1)
                      | OtherError e \<Rightarrow> (Inl (ProviderFailed e), w2)
                      | LlmError e \<Rightarrow>
                          try_models c n d provider (Suc i) refs (tried @ [ref]) skipped (Some e)
                            (settle_failure c ref (kc_clock c (2 * i + 1)) w2)
                      | Answered r \<Rightarrow> (Inr r, settle_answer c n d ref r w2)))))"

definition call_candidates :: "call_ctx \<Rightarrow> route_decision \<Rightarrow> string list \<Rightarrow> string list" where
  "call_candidates c d legacy =
     (let refs = (if rd_policy d
                  then (if rd_candidates d \<noteq> [] then rd_candidates d else [rd_model d]) else legacy)
      in if kc_force_fallback c \<and> 1 < length refs then tl refs else refs)"

definition agent_legacy :: "string option \<Rightarrow> route_node \<Rightarrow> string list \<Rightarrow> string list" where
  "agent_legacy workflow_default n workflow_fallback =
     (let primary = (if truthy (rn_model n) then rn_model n else workflow_default);
          refs = model_candidates primary [Some (rn_fallback n), Some workflow_fallback]
      in if refs \<noteq> [] then refs else [or_text primary ''mock''])"

definition complete_agent :: "call_ctx \<Rightarrow> (rat \<Rightarrow> string) \<Rightarrow> (string \<Rightarrow> nat \<Rightarrow> provider_outcome) \<Rightarrow>
    routing_policy option \<Rightarrow> route_node \<Rightarrow> string option \<Rightarrow> string list \<Rightarrow> bool \<Rightarrow> bool \<Rightarrow>
    pydict option \<Rightarrow> string option list \<Rightarrow> call_world \<Rightarrow> (call_error + completion) \<times> call_world" where
  "complete_agent c fr provider policy n workflow_default workflow_fallback tools structured pin
       contents w =
     (if scan_messages contents (kc_secrets c) \<noteq> Proceed then (Inl SecretInMessage, w)
      else
        (let legacy = agent_legacy workflow_default n workflow_fallback;
             primary = (if truthy (rn_model n) then rn_model n else workflow_default);
             (route, b) = select_route fr policy n (Some (gw_run w)) primary workflow_default legacy
                            workflow_fallback tools structured pin (kc_matrix c) (kc_prices c)
                            (kc_clock c 0) (gw_breaker w);
             w = w\<lparr>gw_breaker := b\<rparr>
         in case route of
              Inl e \<Rightarrow> (Inl (RouteFailed e), w)
            | Inr d \<Rightarrow> try_models c n d provider 1 (call_candidates c d legacy) [] [] None w))"

end
