(* ===== verification/RoutingSafety.thy ===== *)
theory RoutingSafety
  imports Routing
begin

text \<open>
  What routing promises: under a residency lock a rule never yields a hosted model for data that
  is not known to be trusted, ranking only reorders, a route is admitted only within its budgets;
  and the two routes the lock does not reach.
\<close>

section \<open>Residency\<close>

lemma pick_capable_ok:
  "pick_capable matrix local_only require now refs b = ((capable, skipped), b') \<Longrightarrow>
   list_all (ref_capable matrix local_only require) capable"
  by (induction matrix local_only require now refs b arbitrary: capable skipped b'
      rule: pick_capable.induct) (auto simp: Let_def split: prod.splits if_splits)

lemma pick_capable_local:
  "pick_capable matrix True require now refs b = ((capable, skipped), b') \<Longrightarrow>
   list_all (is_local_ref matrix) capable"
  using pick_capable_ok [of matrix True require now refs b capable skipped b']
  by (auto simp: list_all_iff ref_capable_def is_hosted_ref_def)

lemma resolve_rule_candidates:
  assumes "resolve_rule r i p taint tools structured matrix prices now legacy locked b = (Inr d, b')"
  shows "list_all (ref_capable matrix (rule_local_only r (merged_require r tools structured) taint locked)
      (rule_require r (merged_require r tools structured) taint locked)) (rd_candidates d)
    \<and> rd_model d \<in> set (rd_candidates d)"
proof -
  obtain ordered reason where o: "rule_order r p matrix prices legacy = (ordered, reason)" by force
  obtain capable skipped b1 where
    c: "pick_capable matrix (rule_local_only r (merged_require r tools structured) taint locked)
      (rule_require r (merged_require r tools structured) taint locked) now ordered b =
      ((capable, skipped), b1)"
    by (metis surj_pair)
  show ?thesis
    using assms pick_capable_ok [OF c]
    by (cases capable) (auto simp: resolve_rule_def Let_def o c)
qed

text \<open>
  When untrusted or unknown data meets a policy with a residency rule and some rule matches the
  node, every model the route may use, fallbacks included, is local.
\<close>

theorem residency_lock_holds:
  assumes "select_route fr (Some p) n state primary wd legacy wfb tools structured None matrix prices now b =
      (Inr d, b')"
    "residency_locked p (resolve_routing_taint fr state (rn_flow n))"
    "first_rule (rp_rules p) 0 n (resolve_routing_taint fr state (rn_flow n)) \<noteq> None"
  shows "list_all (is_local_ref matrix) (rd_candidates d) \<and> is_local_ref matrix (rd_model d)"
proof -
  let ?t = "resolve_routing_taint fr state (rn_flow n)"
  let ?legacy = "legacy_refs legacy (pick_default primary n wd) n wfb"
  obtain i r where first: "first_rule (rp_rules p) 0 n ?t = Some (i, r)" using assms(3) by auto
  then have ne: "rp_rules p \<noteq> []" by auto
  have "resolve_rule r i p ?t tools structured matrix prices now ?legacy True b = (Inr d, b')"
    using assms(1,2) first ne by (simp add: select_route_def Let_def distill_pin_def)
  from resolve_rule_candidates [OF this]
  have c: "list_all (ref_capable matrix True (rule_require r (merged_require r tools structured) ?t True))
      (rd_candidates d)" "rd_model d \<in> set (rd_candidates d)"
    by (simp_all add: rule_local_only_def)
  then have "list_all (is_local_ref matrix) (rd_candidates d)"
    by (auto simp: list_all_iff ref_capable_def is_hosted_ref_def)
  with c(2) show ?thesis by (auto simp: list_all_iff)
qed

text \<open>
  The lock does not reach two routes: with a promoted adapter the incumbent model stays the
  fallback, and where no rule matches the node the workflow's own models are used, whatever the
  taint of the data.
\<close>

theorem residency_lock_gaps:
  assumes "rp_rules p \<noteq> []" "first_rule (rp_rules p) 0 n (resolve_routing_taint fr state (rn_flow n)) = None"
    "adapter \<noteq> []" "strip adapter = adapter" "hosted \<noteq> []" "strip hosted = hosted"
    "hosted \<noteq> ''adapter:'' @ adapter"
  shows "rd_candidates (projr (fst (select_route fr (Some p) n state primary wd (hosted # others) wfb tools
        structured None matrix prices now b))) = hosted # others
    \<and> rd_candidates (projr (fst (select_route fr (Some p) n state primary wd legacy wfb tools structured
        (Some [(''adapter_id'', PStr adapter), (''incumbent'', PStr hosted)]) matrix prices now b))) =
      [''adapter:'' @ adapter, hosted]"
  using assms
  by (simp add: select_route_def Let_def distill_pin_def plain_route_def legacy_refs_def)

text \<open>A matching rule decides the route, and names what may be asked.\<close>

lemma selected_by_rule:
  assumes "select_route fr (Some p) n state primary wd legacy wfb tools structured None matrix prices now b =
      (Inr d, b')"
    "first_rule (rp_rules p) 0 n (resolve_routing_taint fr state (rn_flow n)) \<noteq> None"
  shows "rd_policy d \<and> rd_candidates d \<noteq> []"
proof -
  let ?t = "resolve_routing_taint fr state (rn_flow n)"
  let ?legacy = "legacy_refs legacy (pick_default primary n wd) n wfb"
  obtain i r where first: "first_rule (rp_rules p) 0 n ?t = Some (i, r)" using assms(2) by auto
  then have ne: "rp_rules p \<noteq> []" by auto
  have res: "resolve_rule r i p ?t tools structured matrix prices now ?legacy (residency_locked p ?t) b =
      (Inr d, b')"
    using assms(1) first ne by (simp add: select_route_def Let_def distill_pin_def)
  from resolve_rule_candidates [OF this] have "rd_candidates d \<noteq> []" by auto
  moreover have "rd_policy d"
    using res by (auto simp: resolve_rule_def Let_def split: prod.splits list.splits)
  ultimately show ?thesis by blast
qed

definition ask_node :: "string \<Rightarrow> route_node" where
  "ask_node name =
     \<lparr>rn_flow = \<lparr>fn_type = ''agent'', fn_id = name, fn_output_key = None, fn_tool = None,
        fn_prompt = Some ''Sum {{outputs.fetch}}'', fn_system = None, fn_media = False, fn_template = None,
        fn_source = None, fn_when = None, fn_items = None, fn_body_type = [], fn_body_tool = None,
        fn_body_template = None, fn_branches = [], fn_state = PNone\<rparr>,
      rn_tags = [], rn_role = None, rn_model = None, rn_fallback = []\<rparr>"

definition local_rule :: route_rule where
  "local_rule =
     \<lparr>ru_id = None, ru_match = Some \<lparr>rm_node = Some ''sum'', rm_node_tag = None, rm_role = None,
        rm_taint = None\<rparr>,
      ru_strategy = Some ''cheapest_capable'', ru_pin = None, ru_require = None,
      ru_pool = [''openai:gpt-4o'', ''ollama:llama3.2'']\<rparr>"

definition locking_rule :: route_rule where
  "locking_rule = local_rule\<lparr>ru_strategy := Some ''local_only'',
     ru_match := Some \<lparr>rm_node = Some ''other'', rm_node_tag = None, rm_role = None, rm_taint = None\<rparr>\<rparr>"

definition locked_policy :: routing_policy where
  "locked_policy = \<lparr>rp_rules = [local_rule, locking_rule], rp_pool = [], rp_budgets = []\<rparr>"

definition tainted_run :: run_state where
  "tainted_run =
     note_output ''fetch'' None (untrusted ''http'' (Some ''fetch'') None)
       (record_node ''fetch'' (PStr ''page'') ''tool'' None blank_result
         (start_run ''r1'' ''report'' [] [] ''2026-01-01''))"

lemma residency_lock_holds_witness:
  "list_all (is_local_ref bundled_matrix)
     (rd_candidates (projr (fst (select_route (\<lambda>x. []) (Some locked_policy) (ask_node ''sum'')
        (Some tainted_run) None None [] [] False False None bundled_matrix bundled_table 0 None))))"
proof -
  let ?r = "select_route (\<lambda>x. []) (Some locked_policy) (ask_node ''sum'') (Some tainted_run) None None [] []
      False False None bundled_matrix bundled_table 0 None"
  have 1: "?r = (Inr (projr (fst ?r)), snd ?r)" by code_simp
  have 2: "residency_locked locked_policy
      (resolve_routing_taint (\<lambda>x. []) (Some tainted_run) (rn_flow (ask_node ''sum'')))" by code_simp
  have 3: "first_rule (rp_rules locked_policy) 0 (ask_node ''sum'')
      (resolve_routing_taint (\<lambda>x. []) (Some tainted_run) (rn_flow (ask_node ''sum''))) \<noteq> None" by code_simp
  show ?thesis using residency_lock_holds [OF 1 2 3] by (rule conjunct1)
qed

lemma residency_lock_gaps_witness:
  "residency_locked locked_policy
      (resolve_routing_taint (\<lambda>x. []) (Some tainted_run) (rn_flow (ask_node ''draft'')))
   \<and> \<not> is_local_ref bundled_matrix ''openai:gpt-4o''
   \<and> rd_candidates (projr (fst (select_route (\<lambda>x. []) (Some locked_policy) (ask_node ''draft'')
        (Some tainted_run) None None [''openai:gpt-4o''] [] False False None bundled_matrix bundled_table
        0 None))) = [''openai:gpt-4o'']"
proof -
  have 1: "rp_rules locked_policy \<noteq> []" by (simp add: locked_policy_def)
  have 2: "first_rule (rp_rules locked_policy) 0 (ask_node ''draft'')
      (resolve_routing_taint (\<lambda>x. []) (Some tainted_run) (rn_flow (ask_node ''draft''))) = None"
    by code_simp
  have 3: "''a1'' \<noteq> []" "strip ''a1'' = ''a1''" "''openai:gpt-4o'' \<noteq> []"
    "strip ''openai:gpt-4o'' = ''openai:gpt-4o''" "''openai:gpt-4o'' \<noteq> ''adapter:'' @ ''a1''"
    by code_simp+
  have 4: "residency_locked locked_policy
      (resolve_routing_taint (\<lambda>x. []) (Some tainted_run) (rn_flow (ask_node ''draft'')))"
    "\<not> is_local_ref bundled_matrix ''openai:gpt-4o''" by code_simp+
  from residency_lock_gaps [OF 1 2 3] 4 show ?thesis by blast
qed

section \<open>Ranking\<close>

lemma set_unique_refs: "set (foldl (\<lambda>u ref. if ref = [] then u else add_new ref u) acc pool) =
    set acc \<union> (set pool - {[]})"
  by (induction pool arbitrary: acc) auto

text \<open>A ranking holds the same references as the pool, each once.\<close>

lemma set_rank_pool: "set (fst (rank_pool pool strategy prices matrix)) = set pool - {[]}"
  by (auto simp: rank_pool_def unique_refs_def set_unique_refs Let_def)

section \<open>Budgets of routes\<close>

lemma check_keys_none:
  assumes "check_keys quote prompt estimated keys t = (t', None)"
  shows "rt_budgets t' = rt_budgets t \<and> (\<forall>k. used_of t' k = used_of t k) \<and>
    (\<forall>k \<in> set keys. check_key t quote prompt estimated k = None)"
  using assms
proof (induction quote prompt estimated keys t rule: check_keys.induct)
  case (2 quote prompt estimated key keys t)
  let ?t1 = "t\<lparr>rt_used := setdefault key no_usage (rt_used t)\<rparr>"
  have used: "used_of ?t1 k = used_of t k" for k
    by (simp add: used_of_def dget_or_def split: option.split)
  have same: "check_key ?t1 quote prompt estimated k = check_key t quote prompt estimated k" for k
    by (simp add: check_key_def used cong: option.case_cong)
  from 2 used same show ?case by (auto simp: Let_def split: option.splits)
qed simp

definition within_route_budget :: "route_tracker \<Rightarrow> price_quote \<Rightarrow> int \<Rightarrow> string \<Rightarrow> bool" where
  "within_route_budget t quote prompt key =
     (case map_of (rt_budgets t) key of
        None \<Rightarrow> True
      | Some budget \<Rightarrow>
          (case rb_max_tokens budget of
             None \<Rightarrow> True | Some limit \<Rightarrow> us_tokens (used_of t key) + prompt \<le> limit) \<and>
          (case usd_to_micros (rb_max_cost_usd budget) of
             None \<Rightarrow> True
           | Some limit \<Rightarrow> (case quote_cost quote prompt 0 of
                            None \<Rightarrow> False | Some cost \<Rightarrow> us_cost (used_of t key) + cost \<le> limit)))"

lemma check_key_within:
  assumes "check_key t quote prompt (quote_cost quote prompt 0) key = None"
  shows "within_route_budget t quote prompt key"
  using assms
  by (cases "map_of (rt_budgets t) key"; cases "q_priced quote")
    (auto simp: check_key_def within_route_budget_def Let_def quote_cost_def split: option.splits if_splits)

text \<open>
  A call that the budgets of its route admit leaves, for its node, each of its tags and its
  rule, the tokens used plus the prompt and the money used plus the price of the prompt within the
  limits, and an unpriced model is never admitted under a limit on money.
\<close>

theorem route_budget_admits_within:
  assumes "consult_route prices n model prompt_tokens rule_id t = (t', None)"
    "key \<in> set (keys_for t n rule_id)"
  shows "within_route_budget t (quote_model prices model) (max 0 prompt_tokens) key"
proof (cases "rt_budgets t = []")
  case True
  then show ?thesis by (simp add: within_route_budget_def)
next
  case False
  then have "check_keys (quote_model prices model) (max 0 prompt_tokens)
      (quote_cost (quote_model prices model) (max 0 prompt_tokens) 0) (keys_for t n rule_id) t = (t', None)"
    using assms(1) by (simp add: consult_route_def Let_def)
  from check_keys_none [OF this] assms(2)
  have "check_key t (quote_model prices model) (max 0 prompt_tokens)
      (quote_cost (quote_model prices model) (max 0 prompt_tokens) 0) key = None" by blast
  then show ?thesis by (rule check_key_within)
qed

definition small_budget :: route_tracker where
  "small_budget =
     \<lparr>rt_budgets = [(''sum'', \<lparr>rb_max_cost_usd = Some (1 / 100), rb_max_tokens = Some 500\<rparr>)],
      rt_used = [(''sum'', \<lparr>us_cost = 100, us_tokens = 300\<rparr>)]\<rparr>"

lemma route_budget_admits_within_witness:
  "within_route_budget small_budget (quote_model bundled_table ''openai:gpt-4o'') 200 ''sum''
   \<and> snd (consult_route bundled_table (ask_node ''sum'') ''openai:gpt-4o'' 201 None small_budget) \<noteq> None"
proof
  have "consult_route bundled_table (ask_node ''sum'') ''openai:gpt-4o'' 200 None small_budget =
      (small_budget, None)" "''sum'' \<in> set (keys_for small_budget (ask_node ''sum'') None)"
    by code_simp+
  from route_budget_admits_within [OF this]
  show "within_route_budget small_budget (quote_model bundled_table ''openai:gpt-4o'') 200 ''sum''" by simp
qed code_simp

end
