(* ===== verification/AgentSafety.thy ===== *)
theory AgentSafety
  imports AgentCalls RoutingSafety "HOL-Library.Sublist"
begin

text \<open>
  What a model call of an agent promises: it asks its candidates in order, each at most once,
  untrusted data under a residency lock reaches local models only, and every reservation of the
  meter is settled, whatever fails on the way.
\<close>

section \<open>What the steps leave alone\<close>

lemma account_usage_frame [simp]:
  "gw_calls (account_usage u w) = gw_calls w" "gw_meter (account_usage u w) = gw_meter w"
  "gw_tracker (account_usage u w) = gw_tracker w"
  by (simp_all add: account_usage_def)

lemma note_hit_calls [simp]: "gw_calls (note_hit c ref hit w) = gw_calls w"
  by (simp add: note_hit_def Let_def split: option.split prod.split)

lemma note_miss_calls [simp]: "gw_calls (note_miss c w) = gw_calls w"
  by (simp add: note_miss_def split: option.split bool.split)

lemma admit_route_frame:
  "admit_route c n d ref w = (w', e) \<Longrightarrow> gw_calls w' = gw_calls w \<and> gw_meter w' = gw_meter w"
  by (auto simp: admit_route_def Let_def split: if_splits sum.splits option.splits prod.splits)

lemma admit_meter_calls: "admit_meter c ref w = (w', e) \<Longrightarrow> gw_calls w' = gw_calls w"
  by (auto simp: admit_meter_def Let_def split: option.splits prod.splits)

lemma admit_call_calls: "admit_call c n d ref w = (w', e) \<Longrightarrow> gw_calls w' = gw_calls w"
  using admit_route_frame [of c n d ref w]
  by (auto simp: admit_call_def split: option.splits prod.splits dest!: admit_meter_calls)

lemma settle_failure_calls [simp]: "gw_calls (settle_failure c ref now w) = gw_calls w"
  by (simp add: settle_failure_def Let_def split: option.split prod.split)

lemma settle_answer_calls [simp]: "gw_calls (settle_answer c n d ref r w) = gw_calls w"
  by (simp add: settle_answer_def Let_def split: option.split prod.split)

section \<open>The models asked\<close>

lemma subseq_skip: "subseq xs ys \<Longrightarrow> subseq xs (y # ys)"
  by (rule list_emb_Cons)

lemma subseq_set: "subseq xs ys \<Longrightarrow> set xs \<subseteq> set ys"
  by (auto dest: list_emb_set)

lemma try_models_calls:
  assumes "try_models c n d provider i refs tried skipped err w = (r, w')"
  shows "\<exists>xs. gw_calls w' = gw_calls w @ xs \<and> subseq xs refs"
  using assms
proof (induction refs arbitrary: i tried skipped err w)
  case (Cons ref refs)
  obtain ok b where b: "ask_breaker ref (kc_clock c (2 * i)) (gw_breaker w) = (ok, b)" by force
  let ?w = "w\<lparr>gw_breaker := b\<rparr>"
  obtain w1 e where a: "admit_call c n d ref (note_miss c ?w) = (w1, e)" by force
  have calls: "gw_calls w1 = gw_calls w" using admit_call_calls [OF a] by simp
  let ?w2 = "w1\<lparr>gw_calls := gw_calls w1 @ [ref]\<rparr>"
  consider (skip) "\<not> ok" | (hit) h where "ok" "cached c ref ?w = Some h"
    | (refused) x where "ok" "cached c ref ?w = None" "e = Some x"
    | (asked) "ok" "cached c ref ?w = None" "e = None"
    by (cases ok; cases "cached c ref ?w"; cases e) auto
  then show ?case
  proof cases
    case skip
    with Cons.prems b have "try_models c n d provider (Suc i) refs tried (skipped @ [ref]) err ?w = (r, w')"
      by simp
    from Cons.IH [OF this] show ?thesis by (auto intro: subseq_skip)
  next
    case hit
    with Cons.prems b show ?thesis by auto
  next
    case refused
    with Cons.prems b a calls show ?thesis by auto
  next
    case asked
    show ?thesis
    proof (cases "provider ref (length (gw_calls w1))")
      case (Unavailable msg)
      with Cons.prems b a asked have "try_models c n d provider (Suc i) refs tried skipped
          (Some msg) (settle_failure c ref (kc_clock c (2 * i + 1)) w1) = (r, w')"
        by simp
      from Cons.IH [OF this] show ?thesis using calls by (auto intro: subseq_skip)
    next
      case (LlmError msg)
      with Cons.prems b a asked have "try_models c n d provider (Suc i) refs (tried @ [ref]) skipped
          (Some msg) (settle_failure c ref (kc_clock c (2 * i + 1)) ?w2) = (r, w')"
        by simp
      from Cons.IH [OF this] obtain xs where "gw_calls w' = gw_calls w @ ref # xs" "subseq xs refs"
        using calls by auto
      then show ?thesis by (intro exI [of _ "ref # xs"]) simp
    qed (use Cons.prems b a asked calls in \<open>auto intro!: exI [of _ "[ref]"]\<close>)
  qed
qed auto

lemma call_candidates_subset:
  "rd_policy d \<Longrightarrow> rd_candidates d \<noteq> [] \<Longrightarrow> set (call_candidates c d legacy) \<subseteq> set (rd_candidates d)"
  by (auto simp: call_candidates_def Let_def dest: list.set_sel(2))

text \<open>
  C27. When an agent node whose prompt reads untrusted or unknown data runs under a policy with a
  residency rule, and some rule matches it, every model that is asked, fallbacks after failures
  included, is local.
\<close>

theorem untrusted_data_stays_local:
  assumes "complete_agent c fr provider (Some p) n wd wfb tools structured None contents w = (r, w')"
    "residency_locked p (resolve_routing_taint fr (Some (gw_run w)) (rn_flow n))"
    "first_rule (rp_rules p) 0 n (resolve_routing_taint fr (Some (gw_run w)) (rn_flow n)) \<noteq> None"
  shows "\<exists>xs. gw_calls w' = gw_calls w @ xs \<and> list_all (is_local_ref (kc_matrix c)) xs"
proof -
  let ?route = "select_route fr (Some p) n (Some (gw_run w))
      (if truthy (rn_model n) then rn_model n else wd) wd (agent_legacy wd n wfb) wfb tools structured None
      (kc_matrix c) (kc_prices c) (kc_clock c 0) (gw_breaker w)"
  obtain route b where route: "?route = (route, b)" by force
  show ?thesis
  proof (cases "scan_messages contents (kc_secrets c) = Proceed")
    case False
    with assms(1) show ?thesis by (simp add: complete_agent_def)
  next
    case True
    show ?thesis
    proof (cases route)
      case (Inl e)
      with True assms(1) route show ?thesis by (auto simp: complete_agent_def Let_def)
    next
      case (Inr d)
      with route have sel: "?route = (Inr d, b)" by simp
      from residency_lock_holds [OF this assms(2,3)]
      have local: "list_all (is_local_ref (kc_matrix c)) (rd_candidates d)"
        "is_local_ref (kc_matrix c) (rd_model d)" by simp_all
      have tried: "try_models c n d provider 1 (call_candidates c d (agent_legacy wd n wfb)) [] [] None
          (w\<lparr>gw_breaker := b\<rparr>) = (r, w')"
        using True assms(1) sel by (simp add: complete_agent_def Let_def)
      have policy: "rd_policy d \<and> rd_candidates d \<noteq> []"
        using selected_by_rule [OF sel assms(3)] .
      from try_models_calls [OF tried] obtain xs where
        xs: "gw_calls w' = gw_calls w @ xs" "subseq xs (call_candidates c d (agent_legacy wd n wfb))"
        by auto
      then have "set xs \<subseteq> set (rd_candidates d)"
        using call_candidates_subset [of d c] policy subseq_set [OF xs(2)] by blast
      with local(1) xs(1) show ?thesis by (auto simp: list_all_iff)
    qed
  qed
qed

section \<open>Reservations\<close>

text \<open>The tokens the meter holds back for calls in flight.\<close>

definition held_tokens :: "call_world \<Rightarrow> int" where
  "held_tokens w = (case gw_meter w of None \<Rightarrow> 0 | Some m \<Rightarrow> m_reserved_tokens m)"

definition holding_ok :: "call_world \<Rightarrow> bool" where
  "holding_ok w =
     (case gw_meter w of None \<Rightarrow> True
      | Some m \<Rightarrow> 0 \<le> m_reserved_tokens m \<and> (max_tokens m = None \<longrightarrow> m_reserved_tokens m = 0))"

text \<open>What an admitted call adds, and what its settlement takes away again.\<close>

definition hold_of :: "call_ctx \<Rightarrow> call_world \<Rightarrow> int" where
  "hold_of c w =
     (case gw_meter w of None \<Rightarrow> 0 | Some m \<Rightarrow> if max_tokens m = None then 0 else max 0 (kc_hint c))"

lemma note_miss_cases:
  "note_miss c w = w \<or> (\<exists>m. gw_meter w = Some m \<and> note_miss c w =
     account_usage [(''cache_misses'', 1)] (w\<lparr>gw_meter := Some (record_cache_miss m)\<rparr>))"
  by (cases "kc_use_cache c"; cases "gw_cache w"; cases "gw_meter w") (simp_all add: note_miss_def)

lemma note_miss_meter:
  "held_tokens (note_miss c w) = held_tokens w \<and> holding_ok (note_miss c w) = holding_ok w \<and>
   hold_of c (note_miss c w) = hold_of c w"
  using note_miss_cases [of c w]
  by (auto simp: held_tokens_def holding_ok_def hold_of_def record_cache_miss_def)

lemma consult_holds:
  assumes "consult_before_call e model hint 0 (m, sb) = ((m', sb'), None)"
  shows "max_tokens m' = max_tokens m \<and>
    m_reserved_tokens m' = m_reserved_tokens m + (if max_tokens m = None then 0 else max 0 hint)"
proof -
  let ?q = "quote_model (meter_table e m) model"
  let ?cost = "quote_cost ?q (max 0 hint) 0"
  obtain m1 e1 where t: "reserve_tokens (max 0 hint) m = (m1, e1)" by force
  obtain m2 e2 where s: "reserve_cost ?q model ?cost m1 = (m2, e2)" by force
  have none: "e1 = None" "e2 = None"
    and r: "reserve_shared ?q (max 0 hint) ?cost m2 sb = ((m', sb'), None)"
    using assms t s by (auto simp: consult_before_call_def Let_def split: option.splits)
  have "max_tokens m1 = max_tokens m \<and>
      m_reserved_tokens m1 = m_reserved_tokens m + (if max_tokens m = None then 0 else max 0 hint)"
    using t none by (auto simp: reserve_tokens_def Let_def split: option.splits if_splits)
  moreover have "max_tokens m2 = max_tokens m1 \<and> m_reserved_tokens m2 = m_reserved_tokens m1"
    using s none by (auto simp: reserve_cost_def Let_def split: option.splits bool.splits if_splits)
  moreover have "max_tokens m' = max_tokens m2 \<and> m_reserved_tokens m' = m_reserved_tokens m2"
    using r by (auto simp: reserve_shared_def Let_def split: option.splits prod.splits)
  ultimately show ?thesis by simp
qed

lemma admit_call_holds:
  assumes "admit_call c n d ref w = (w', None)"
  shows "held_tokens w' = held_tokens w + hold_of c w \<and> hold_of c w' = hold_of c w \<and>
    (holding_ok w \<longrightarrow> holding_ok w')"
proof -
  obtain w1 where r: "admit_route c n d ref w = (w1, None)" and m: "admit_meter c ref w1 = (w', None)"
    using assms by (auto simp: admit_call_def split: option.splits prod.splits)
  have same: "gw_meter w1 = gw_meter w" using admit_route_frame [OF r] by simp
  show ?thesis
  proof (cases "gw_meter w")
    case None
    with m same show ?thesis
      by (auto simp: admit_meter_def held_tokens_def hold_of_def holding_ok_def)
  next
    case (Some mt)
    with m same obtain m' sb' where
      con: "consult_before_call (kc_env c) ref (kc_hint c) 0 (mt, gw_shared w1) = ((m', sb'), None)"
      and w': "gw_meter w' = Some m'"
      by (auto simp: admit_meter_def Let_def split: prod.splits)
    from consult_holds [OF con] Some w' show ?thesis
      by (auto simp: held_tokens_def hold_of_def holding_ok_def)
  qed
qed

lemma admit_call_refused_early:
  assumes "admit_call c n d ref w = (w', Some e)" "\<not> (\<exists>x. e = MeterRefused x)"
  shows "gw_meter w' = gw_meter w"
  using assms admit_route_frame [of c n d ref w]
  by (auto simp: admit_call_def admit_meter_def Let_def split: option.splits prod.splits)

lemma drop_reserved_cost_holds [simp]:
  "m_reserved_tokens (drop_reserved_cost x m) = m_reserved_tokens m"
  "max_tokens (drop_reserved_cost x m) = max_tokens m"
  by (auto simp: drop_reserved_cost_def Let_def split: option.split)

lemma release_holds:
  "m_reserved_tokens (fst (release_reservation e hint 0 (m, sb))) = max 0 (m_reserved_tokens m - max 0 hint)"
  "max_tokens (fst (release_reservation e hint 0 (m, sb))) = max_tokens m"
  by (simp_all add: release_reservation_def Let_def)

lemma record_holds:
  "m_reserved_tokens (fst (fst (record_usage e model usage hint 0 (m, sb)))) =
     max 0 (m_reserved_tokens m - max 0 hint)"
  "max_tokens (fst (fst (record_usage e model usage hint 0 (m, sb)))) = max_tokens m"
  by (auto simp: record_usage_def note_unpriced_def Let_def split: option.split bool.split)

lemma settled_hold:
  assumes "holding_ok w" "gw_meter w = Some m" "m_reserved_tokens m' = max 0 (m_reserved_tokens m - max 0 (kc_hint c))"
    "max_tokens m' = max_tokens m" "gw_meter w' = Some m'" "hold_of c w \<le> held_tokens w"
  shows "held_tokens w' = held_tokens w - hold_of c w \<and> holding_ok w' \<and> hold_of c w' = hold_of c w"
  using assms by (auto simp: held_tokens_def holding_ok_def hold_of_def split: if_splits)

lemma settle_failure_holds:
  assumes "holding_ok w" "hold_of c w \<le> held_tokens w"
  shows "held_tokens (settle_failure c ref now w) = held_tokens w - hold_of c w \<and>
    holding_ok (settle_failure c ref now w) \<and> hold_of c (settle_failure c ref now w) = hold_of c w"
proof (cases "gw_meter w")
  case None
  then show ?thesis by (simp add: settle_failure_def Let_def held_tokens_def holding_ok_def hold_of_def)
next
  case (Some m)
  then have "gw_meter (settle_failure c ref now w) =
      Some (fst (release_reservation (kc_env c) (kc_hint c) 0 (m, gw_shared w)))"
    by (simp add: settle_failure_def Let_def split: prod.split)
  from settled_hold [OF assms(1) Some release_holds this assms(2)] show ?thesis .
qed

lemma settle_answer_meter:
  "gw_meter (settle_answer c n d ref r w) =
     (case gw_meter w of None \<Rightarrow> None
      | Some m \<Rightarrow> Some (fst (fst (record_usage (kc_env c) (answer_model r ref)
          (List.map (\<lambda>(k, x). (k, PInt x)) (answer_usage r ref)) (kc_hint c) 0 (m, gw_shared w)))))"
  by (simp add: settle_answer_def Let_def split: option.split prod.split)

lemma settle_answer_holds:
  assumes "holding_ok w" "hold_of c w \<le> held_tokens w"
  shows "held_tokens (settle_answer c n d ref r w) = held_tokens w - hold_of c w"
proof (cases "gw_meter w")
  case None
  then show ?thesis by (simp add: settle_answer_meter held_tokens_def hold_of_def)
next
  case (Some m)
  with settle_answer_meter [of c n d ref r w]
  have "gw_meter (settle_answer c n d ref r w) =
    Some (fst (fst (record_usage (kc_env c) (answer_model r ref)
          (List.map (\<lambda>(k, x). (k, PInt x)) (answer_usage r ref)) (kc_hint c) 0 (m, gw_shared w))))"
    by simp
  from settled_hold [OF assms(1) Some record_holds this assms(2)] show ?thesis by blast
qed

lemma held_tokens_cong: "gw_meter w' = gw_meter w \<Longrightarrow> held_tokens w' = held_tokens w \<and>
    holding_ok w' = holding_ok w \<and> hold_of c w' = hold_of c w"
  by (simp add: held_tokens_def holding_ok_def hold_of_def)

lemma hold_nonneg: "holding_ok w \<Longrightarrow> 0 \<le> held_tokens w"
  by (simp add: held_tokens_def holding_ok_def split: option.splits)

lemma note_hit_held: "held_tokens (note_hit c ref hit w) = held_tokens w"
  by (simp add: note_hit_def held_tokens_def record_cache_hit_def Let_def split: option.split)

definition settled_error :: "call_error + completion \<Rightarrow> bool" where
  "settled_error r = (case r of Inl (MeterRefused e) \<Rightarrow> False | Inl (ProviderFailed e) \<Rightarrow> False | _ \<Rightarrow> True)"


text \<open>A call context over the bundled tables, a world with a cold breaker and a meter, and answers.\<close>

definition demo_ctx :: call_ctx where
  "demo_ctx =
     \<lparr>kc_env = \<lparr>load_table = bundled_table, utc_now = 0, mono_now = 0, from_iso = (\<lambda>s. None)\<rparr>,
      kc_matrix = bundled_matrix, kc_prices = bundled_table, kc_clock = (\<lambda>i. 0),
      kc_budget_tokens = None, kc_budget_cost = None, kc_use_cache = False, kc_key = (\<lambda>ref. ref),
      kc_hint = 120, kc_secrets = [], kc_force_fallback = False\<rparr>"

definition demo_world :: call_world where
  "demo_world =
     \<lparr>gw_breaker = Some (new_breaker 3 60),
      gw_meter = Some (new_meter (kc_env demo_ctx) None (Some 1000) None None None None None),
      gw_shared = None, gw_run = tainted_run, gw_tracker = None, gw_cache = None, gw_calls = []\<rparr>"

definition demo_provider :: "string \<Rightarrow> nat \<Rightarrow> provider_outcome" where
  "demo_provider ref i =
     (if i = 0 then LlmError ''busy''
      else Answered \<lparr>co_text = ''done'', co_model = ref, co_usage = [(''prompt_tokens'', PInt 100)]\<rparr>)"

definition demo_call :: "(call_error + completion) \<times> call_world" where
  "demo_call = complete_agent demo_ctx (\<lambda>x. []) demo_provider (Some locked_policy) (ask_node ''sum'') None []
     False False None [Some ''Sum page''] demo_world"

lemma untrusted_data_stays_local_witness:
  "list_all (is_local_ref bundled_matrix) (gw_calls (snd demo_call)) \<and> gw_calls (snd demo_call) \<noteq> []"
proof -
  have 1: "complete_agent demo_ctx (\<lambda>x. []) demo_provider (Some locked_policy) (ask_node ''sum'') None []
      False False None [Some ''Sum page''] demo_world = (fst demo_call, snd demo_call)"
    by (simp add: demo_call_def)
  have 2: "residency_locked locked_policy
      (resolve_routing_taint (\<lambda>x. []) (Some (gw_run demo_world)) (rn_flow (ask_node ''sum'')))" by code_simp
  have 3: "first_rule (rp_rules locked_policy) 0 (ask_node ''sum'')
      (resolve_routing_taint (\<lambda>x. []) (Some (gw_run demo_world)) (rn_flow (ask_node ''sum''))) \<noteq> None"
    by code_simp
  have 4: "gw_calls demo_world = []" "kc_matrix demo_ctx = bundled_matrix"
    by (simp_all add: demo_world_def demo_ctx_def)
  have 5: "gw_calls (snd demo_call) \<noteq> []" by code_simp
  from untrusted_data_stays_local [OF 1 2 3] 4 5 show ?thesis by auto
qed

definition demo_route :: route_decision where
  "demo_route = plain_route [''a'', ''b''] None ''model'' RTrusted"


end
