(* ===== verification/Conditions.thy ===== *)
theory Conditions
  imports RunStates Templates
begin

text \<open>
  Conditions of edges and condition nodes, \<open>workflow/conditions.py\<close>: the split at the operators,
  the evaluation of \<open>or\<close>, \<open>and\<close>, \<open>not\<close> and of comparisons, without \<open>eval\<close>. The pattern
  \<open>_COMPARE\<close> is matched by hand. \<open>fr\<close> is the text of a float, \<open>pf\<close> the parser of float literals,
  whose values are finite here.
\<close>

section \<open>Splitting\<close>

datatype cond_error =
    UnbalancedClose
  | UnbalancedOpen
  | UnterminatedQuote
  | EmptyOperand string
  | Unparsable string
  | CondTemplate template_error

definition is_quote :: "char \<Rightarrow> bool" where
  "is_quote c = (c = CHR 0x22 \<or> c = CHR 0x27)"

definition op_token :: "string \<Rightarrow> string" where
  "op_token op = '' '' @ op @ '' ''"

definition at_token :: "string \<Rightarrow> string \<Rightarrow> bool" where
  "at_token op s = (lower (take (length (op_token op)) s) = op_token op)"

text \<open>
  The loop of \<open>_split_top\<close>: the parts before the last operator at depth zero and the tail.
\<close>

function split_walk :: "string \<Rightarrow> string \<Rightarrow> string \<Rightarrow> nat \<Rightarrow> char option \<Rightarrow> string list \<Rightarrow>
    cond_error + string list \<times> string" where
  "split_walk op [] buf depth quote parts =
     (if quote \<noteq> None then Inl UnterminatedQuote
      else if depth \<noteq> 0 then Inl UnbalancedOpen
      else Inr (parts, strip buf))"
| "split_walk op (c # cs) buf depth quote parts =
     (if quote \<noteq> None then
        split_walk op cs (buf @ [c]) depth (if quote = Some c then None else quote) parts
      else if is_quote c then split_walk op cs (buf @ [c]) depth (Some c) parts
      else if c = CHR ''('' then split_walk op cs (buf @ [c]) (Suc depth) None parts
      else if c = CHR '')'' then
        (if depth = 0 then Inl UnbalancedClose else split_walk op cs (buf @ [c]) (depth - 1) None parts)
      else if depth = 0 \<and> at_token op (c # cs) then
        (if strip buf = [] then Inl (EmptyOperand op)
         else split_walk op (drop (length (op_token op)) (c # cs)) [] 0 None (parts @ [strip buf]))
      else split_walk op cs (buf @ [c]) depth None parts)"
  by pat_completeness auto
termination
  by (relation "measure (\<lambda>(op, s, buf, depth, quote, parts). length s)") (auto simp: op_token_def)

definition split_top :: "string \<Rightarrow> string \<Rightarrow> cond_error + string list option" where
  "split_top op e =
     rbind (split_walk op e [] 0 None [])
       (\<lambda>(parts, tail). if parts = [] then Inr None
          else if tail = [] then Inl (EmptyOperand op) else Inr (Some (parts @ [tail])))"

text \<open>\<open>_balanced_outer_parens\<close>: the first parenthesis closes at the end of the text.\<close>

fun outer_walk :: "string \<Rightarrow> int \<Rightarrow> char option \<Rightarrow> bool" where
  "outer_walk [] depth quote = (depth = 0)"
| "outer_walk (c # cs) depth quote =
     (if quote \<noteq> None then outer_walk cs depth (if quote = Some c then None else quote)
      else if is_quote c then outer_walk cs depth (Some c)
      else if c = CHR ''('' then outer_walk cs (depth + 1) None
      else if c = CHR '')'' then (if depth = 1 \<and> cs \<noteq> [] then False else outer_walk cs (depth - 1) None)
      else outer_walk cs depth None)"

definition balanced_outer_parens :: "string \<Rightarrow> bool" where
  "balanced_outer_parens text =
     (starts_with text ''('' \<and> ends_with text '')'' \<and> outer_walk text 0 None)"

section \<open>Operator words\<close>

definition cond_word_char :: "char \<Rightarrow> bool" where
  "cond_word_char c = (is_alnum c \<or> c = CHR ''_'')"

text \<open>One of \<open>and\<close>, \<open>or\<close>, \<open>not\<close> as a word at the start of a text that follows \<open>prev\<close>.\<close>

definition word_at :: "char \<Rightarrow> string \<Rightarrow> bool" where
  "word_at prev s =
     (\<not> cond_word_char prev \<and>
      list_ex (\<lambda>w. starts_with (lower s) w \<and>
                 (case drop (length w) s of [] \<Rightarrow> True | c # cs \<Rightarrow> \<not> cond_word_char c))
        [''and'', ''or'', ''not''])"

fun bool_walk :: "char \<Rightarrow> string \<Rightarrow> bool" where
  "bool_walk prev [] = False"
| "bool_walk prev (c # cs) = (word_at prev (c # cs) \<or> bool_walk c cs)"

definition has_bool_op :: "string \<Rightarrow> bool" where
  "has_bool_op text = bool_walk CHR '' '' text"

fun quoted_walk :: "char \<Rightarrow> char option \<Rightarrow> string \<Rightarrow> bool" where
  "quoted_walk prev quote [] = True"
| "quoted_walk prev quote (c # cs) =
     (if quote \<noteq> None then quoted_walk c (if quote = Some c then None else quote) cs
      else if is_quote c then quoted_walk c (Some c) cs
      else if word_at prev (c # cs) then False
      else quoted_walk c None cs)"

definition quoted_only_ops :: "string \<Rightarrow> bool" where
  "quoted_only_ops text = quoted_walk CHR '' '' None text"

section \<open>Operands\<close>

definition COMPARE_OPS :: "string list" where
  "COMPARE_OPS = [''=='', ''!='', ''>='', ''<='', ''>'', ''<'', ''contains'', ''startswith'', ''endswith'']"

definition match_op :: "string \<Rightarrow> (string \<times> string) option" where
  "match_op s =
     map_option (\<lambda>op. (op, drop (length op) s))
       (find (\<lambda>op. starts_with s op \<and> drop (length op) s \<noteq> []) COMPARE_OPS)"

text \<open>A match of \<open>_COMPARE\<close> on a text without outer white space: the shortest left operand.\<close>

fun compare_split :: "string \<Rightarrow> string \<Rightarrow> (string \<times> string \<times> string) option" where
  "compare_split left [] = None"
| "compare_split left (c # cs) =
     (case match_op (lstrip (c # cs)) of
        Some (op, rest) \<Rightarrow> Some (left, op, lstrip rest)
      | None \<Rightarrow> compare_split (left @ [c]) cs)"

definition match_compare :: "string \<Rightarrow> (string \<times> string \<times> string) option" where
  "match_compare text = (case text of [] \<Rightarrow> None | c # cs \<Rightarrow> compare_split [c] cs)"

fun count_pair :: "char \<Rightarrow> char \<Rightarrow> string \<Rightarrow> nat" where
  "count_pair a b (x # y # s) =
     (if x = a \<and> y = b then Suc (count_pair a b s) else count_pair a b (y # s))"
| "count_pair a b _ = 0"

definition has_braces :: "string \<Rightarrow> bool" where
  "has_braces text = (count_pair CHR ''{'' CHR ''{'' text \<noteq> 0)"

definition is_quoted :: "string \<Rightarrow> bool" where
  "is_quoted text =
     (text \<noteq> [] \<and> is_quote (hd text) \<and> last text = hd text)"

definition single_operand :: "(string \<Rightarrow> rat option) \<Rightarrow> string \<Rightarrow> bool" where
  "single_operand pf raw =
     (let text = strip raw;
          bare = filter (\<lambda>c. c \<noteq> CHR ''_'' \<and> c \<noteq> CHR ''.'' \<and> c \<noteq> CHR ''-'') text
      in text \<noteq> [] \<and>
         (is_quoted text
          \<or> (if has_braces text
             then count_pair CHR ''{'' CHR ''{'' text = 1 \<and> count_pair CHR ''}'' CHR ''}'' text = 1
             else lower text \<in> set [''true'', ''false'', ''null'', ''none'']
                  \<or> bare \<noteq> [] \<and> list_all is_alnum bare
                  \<or> pf text \<noteq> None)))"

definition all_digits :: "string \<Rightarrow> bool" where
  "all_digits s = (s \<noteq> [] \<and> list_all is_digit s)"

definition cond_text :: "(rat \<Rightarrow> string) \<Rightarrow> string \<Rightarrow> pydict \<Rightarrow> cond_error + string" where
  "cond_text fr text ns =
     (case interpolate fr text ns of Inl e \<Rightarrow> Inl (CondTemplate e) | Inr t \<Rightarrow> Inr t)"

text \<open>\<open>_atom\<close>: the value of an operand.\<close>

definition operand :: "(rat \<Rightarrow> string) \<Rightarrow> (string \<Rightarrow> rat option) \<Rightarrow> string \<Rightarrow> pydict \<Rightarrow>
    cond_error + pyval" where
  "operand fr pf raw ns =
     (let text = strip raw in
      if is_quoted text then rbind (cond_text fr (butlast (tl text)) ns) (\<lambda>t. Inr (PStr t))
      else if has_braces text then rbind (cond_text fr text ns) (\<lambda>t. Inr (PStr t))
      else if lower text = ''true'' then Inr (PBool True)
      else if lower text = ''false'' then Inr (PBool False)
      else if lower text \<in> set [''null'', ''none''] then Inr PNone
      else if all_digits text \<or> starts_with text ''-'' \<and> all_digits (tl text)
        then Inr (case py_int text of Some i \<Rightarrow> PInt i | None \<Rightarrow> PStr text)
      else (case pf text of
              Some x \<Rightarrow> Inr (PFloat x)
            | None \<Rightarrow> Inr (case lookup_path ns text of Some v \<Rightarrow> v | None \<Rightarrow> PStr text)))"

fun norm_value :: "pyval \<Rightarrow> pyval" where
  "norm_value (PStr s) = PStr (strip s)"
| "norm_value v = v"

fun infix_of :: "string \<Rightarrow> string \<Rightarrow> bool" where
  "infix_of p [] = (p = [])"
| "infix_of p (c # cs) = (starts_with (c # cs) p \<or> infix_of p cs)"

text \<open>Numbers when both sides read as one, texts otherwise.\<close>

definition order_values :: "(rat \<Rightarrow> string) \<Rightarrow> (string \<Rightarrow> rat option) \<Rightarrow> (rat \<Rightarrow> rat \<Rightarrow> bool) \<Rightarrow>
    (string \<Rightarrow> string \<Rightarrow> bool) \<Rightarrow> pyval \<Rightarrow> pyval \<Rightarrow> bool" where
  "order_values fr pf num txt l r =
     (case (to_float pf l, to_float pf r) of
        (Some x, Some y) \<Rightarrow> num x y
      | _ \<Rightarrow> txt (py_str fr l) (py_str fr r))"

definition compare_values :: "(rat \<Rightarrow> string) \<Rightarrow> (string \<Rightarrow> rat option) \<Rightarrow> pyval \<Rightarrow> string \<Rightarrow> pyval \<Rightarrow>
    bool" where
  "compare_values fr pf l op r =
     (if op = ''=='' then py_eq (norm_value l) (norm_value r)
      else if op = ''!='' then \<not> py_eq (norm_value l) (norm_value r)
      else if op = ''>'' then order_values fr pf (\<lambda>x y. y < x) (\<lambda>s t. text_less t s) l r
      else if op = ''<'' then order_values fr pf (\<lambda>x y. x < y) text_less l r
      else if op = ''>='' then order_values fr pf (\<lambda>x y. y \<le> x) (\<lambda>s t. \<not> text_less s t) l r
      else if op = ''<='' then order_values fr pf (\<lambda>x y. x \<le> y) (\<lambda>s t. \<not> text_less t s) l r
      else if op = ''contains'' then infix_of (py_str fr r) (py_str fr l)
      else if op = ''startswith'' then starts_with (py_str fr l) (py_str fr r)
      else if op = ''endswith'' then ends_with (py_str fr l) (py_str fr r)
      else False)"

definition is_identifier :: "string \<Rightarrow> bool" where
  "is_identifier s = (s \<noteq> [] \<and> ident_start (hd s) \<and> list_all cond_word_char s)"

fun truth_of :: "pyval \<Rightarrow> bool" where
  "truth_of (PStr s) =
     (let w = lower (strip s) in
      if w \<in> set [''true'', ''yes'', ''1''] then True
      else if w \<in> set [''false'', ''no'', ''0'', []] then False
      else s \<noteq> [])"
| "truth_of v = py_truth v"

section \<open>Evaluation\<close>

definition eval_path :: "(rat \<Rightarrow> string) \<Rightarrow> string \<Rightarrow> pydict \<Rightarrow> cond_error + bool" where
  "eval_path fr text ns =
     rbind (if has_braces text then cond_text fr text ns else Inr text)
       (\<lambda>t. let v = (if is_identifier t \<or> CHR ''.'' \<in> set t
                     then (case lookup_path ns t of Some v \<Rightarrow> v | None \<Rightarrow> PStr t) else PStr t)
            in Inr (truth_of v))"

definition eval_atom :: "(rat \<Rightarrow> string) \<Rightarrow> (string \<Rightarrow> rat option) \<Rightarrow> string \<Rightarrow> pydict \<Rightarrow>
    cond_error + bool" where
  "eval_atom fr pf e ns =
     (let text = strip e in
      if has_bool_op text \<and> \<not> quoted_only_ops text then Inl (Unparsable e)
      else (case match_compare text of
        Some (l, op, r) \<Rightarrow>
          if \<not> single_operand pf l \<or> \<not> single_operand pf r then Inl (Unparsable e)
          else if (has_bool_op l \<or> has_bool_op r) \<and> \<not> (quoted_only_ops l \<and> quoted_only_ops r)
            then Inl (Unparsable e)
          else rbind (operand fr pf l ns)
                 (\<lambda>x. rbind (operand fr pf r ns) (\<lambda>y. Inr (compare_values fr pf x op y)))
      | None \<Rightarrow> eval_path fr text ns))"

text \<open>\<open>any\<close> and \<open>all\<close> stop at the first part that decides; later parts are not read.\<close>

fun any_of :: "('a \<Rightarrow> 'e + bool) \<Rightarrow> 'a list \<Rightarrow> 'e + bool" where
  "any_of f [] = Inr False"
| "any_of f (x # xs) = rbind (f x) (\<lambda>b. if b then Inr True else any_of f xs)"

fun all_of :: "('a \<Rightarrow> 'e + bool) \<Rightarrow> 'a list \<Rightarrow> 'e + bool" where
  "all_of f [] = Inr True"
| "all_of f (x # xs) = rbind (f x) (\<lambda>b. if b then all_of f xs else Inr False)"

lemma any_of_cong [fundef_cong]:
  "xs = ys \<Longrightarrow> (\<And>x. x \<in> set ys \<Longrightarrow> f x = g x) \<Longrightarrow> any_of f xs = any_of g ys"
proof (induction ys arbitrary: xs)
  case (Cons y ys)
  then show ?case by (cases "g y") (auto simp: rbind_def)
qed simp

lemma all_of_cong [fundef_cong]:
  "xs = ys \<Longrightarrow> (\<And>x. x \<in> set ys \<Longrightarrow> f x = g x) \<Longrightarrow> all_of f xs = all_of g ys"
proof (induction ys arbitrary: xs)
  case (Cons y ys)
  then show ?case by (cases "g y") (auto simp: rbind_def)
qed simp

lemma length_strip: "length (strip s) \<le> length s"
  using length_lstrip [of s] length_lstrip [of "rev (lstrip s)"]
  by (simp add: strip_def rstrip_def lstrip_def)

lemma split_walk_lengths:
  assumes "split_walk op s buf depth quote parts = Inr (ps, tail)"
    "\<forall>p \<in> set parts. length p \<le> n" "length buf + length s \<le> n"
  shows "(\<forall>p \<in> set ps. length p \<le> n) \<and> length tail \<le> n"
  using assms
proof (induction op s buf depth quote parts rule: split_walk.induct)
  case (1 op buf depth quote parts)
  then show ?case using length_strip [of buf] by (auto split: if_splits)
next
  case (2 op c cs buf depth quote parts)
  consider (quoted) "quote \<noteq> None" | (quote) "quote = None" "is_quote c"
    | (opened) "quote = None" "\<not> is_quote c" "c = CHR ''(''"
    | (closed) "quote = None" "\<not> is_quote c" "c = CHR '')''"
    | (token) "quote = None" "\<not> is_quote c" "c \<noteq> CHR ''(''" "c \<noteq> CHR '')''" "depth = 0 \<and> at_token op (c # cs)"
    | (plain) "quote = None" "\<not> is_quote c" "c \<noteq> CHR ''(''" "c \<noteq> CHR '')''" "\<not> (depth = 0 \<and> at_token op (c # cs))"
    by blast
  then show ?case
  proof cases
    case quoted
    with 2(7) have "split_walk op cs (buf @ [c]) depth (if quote = Some c then None else quote) parts = Inr (ps, tail)"
      by simp
    from 2(1) [OF quoted this 2(8)] 2(9) show ?thesis by simp
  next
    case quote
    with 2(7) have "split_walk op cs (buf @ [c]) depth (Some c) parts = Inr (ps, tail)" by simp
    from 2(2) [OF _ quote(2) this 2(8)] quote(1) 2(9) show ?thesis by simp
  next
    case opened
    with 2(7) have "split_walk op cs (buf @ [c]) (Suc depth) None parts = Inr (ps, tail)" by simp
    from 2(3) [OF _ opened(2,3) this 2(8)] opened(1) 2(9) show ?thesis by simp
  next
    case closed
    with 2(7) have ne: "depth \<noteq> 0" and "split_walk op cs (buf @ [c]) (depth - 1) None parts = Inr (ps, tail)"
      by (auto split: if_splits)
    from 2(4) [OF _ closed(2) _ closed(3) ne this(2) 2(8)] closed(1,3) 2(9) show ?thesis by simp
  next
    case token
    with 2(7) have ne: "strip buf \<noteq> []" and w: "split_walk op (drop (length (op_token op)) (c # cs)) [] 0 None
        (parts @ [strip buf]) = Inr (ps, tail)" by (auto split: if_splits)
    have parts: "\<forall>p \<in> set (parts @ [strip buf]). length p \<le> n"
      using 2(8,9) length_strip [of buf] by auto
    have len: "length [] + length (drop (length (op_token op)) (c # cs)) \<le> n" using 2(9) by simp
    from 2(5) [OF _ token(2,3,4,5) ne w parts len] token(1) show ?thesis by simp
  next
    case plain
    with 2(7) have "split_walk op cs (buf @ [c]) depth None parts = Inr (ps, tail)" by auto
    from 2(6) [OF _ plain(2,3,4,5) this 2(8)] plain(1) 2(9) show ?thesis by simp
  qed
qed

lemma split_top_lengths: "split_top op e = Inr (Some ps) \<Longrightarrow> p \<in> set ps \<Longrightarrow> length p \<le> length e"
  using split_walk_lengths [of op e "[]" 0 None "[]" _ _ "length e"]
  by (auto simp: split_top_def split: sum.splits if_splits prod.splits simp: rbind_def)

lemma starts_with_length: "starts_with s p \<Longrightarrow> length p \<le> length s"
  by (auto simp: starts_with_iff)

lemma ends_with_last: "ends_with s [c] \<Longrightarrow> s \<noteq> [] \<and> last s = c"
  by (cases s rule: rev_cases) (simp_all add: ends_with_def)

definition not_rest :: "string \<Rightarrow> string option" where
  "not_rest text =
     (if starts_with (lower text) ''not '' \<or> lower text = ''not'' then Some (strip (drop 3 text)) else None)"

definition inner_text :: "string \<Rightarrow> string option" where
  "inner_text text = (if balanced_outer_parens text then Some (strip (butlast (tl text))) else None)"

lemma not_rest_shorter: "not_rest (strip e) = Some r \<Longrightarrow> length r < length e"
proof -
  assume "not_rest (strip e) = Some r"
  then have r: "r = strip (drop 3 (strip e))" and "starts_with (lower (strip e)) ''not '' \<or> lower (strip e) = ''not''"
    by (auto simp: not_rest_def split: if_splits)
  then have "starts_with (lower (strip e)) ''not''" by (auto simp: starts_with_iff)
  from starts_with_length [OF this] have "3 \<le> length (strip e)" by (simp add: lower_def)
  with r length_strip [of "drop 3 (strip e)"] length_strip [of e] show ?thesis by simp
qed

lemma inner_text_shorter: "inner_text (strip e) = Some r \<Longrightarrow> length r < length e"
proof -
  assume "inner_text (strip e) = Some r"
  then have r: "r = strip (butlast (tl (strip e)))" and "starts_with (strip e) ''(''"
    by (auto simp: inner_text_def balanced_outer_parens_def split: if_splits)
  then have "1 \<le> length (strip e)" by (auto simp: starts_with_iff)
  with r length_strip [of "butlast (tl (strip e))"] length_strip [of e] show ?thesis by simp
qed

function eval_or :: "(rat \<Rightarrow> string) \<Rightarrow> (string \<Rightarrow> rat option) \<Rightarrow> string \<Rightarrow> pydict \<Rightarrow> cond_error + bool"
and eval_and :: "(rat \<Rightarrow> string) \<Rightarrow> (string \<Rightarrow> rat option) \<Rightarrow> string \<Rightarrow> pydict \<Rightarrow> cond_error + bool"
and eval_not :: "(rat \<Rightarrow> string) \<Rightarrow> (string \<Rightarrow> rat option) \<Rightarrow> string \<Rightarrow> pydict \<Rightarrow> cond_error + bool" where
  "eval_or fr pf e ns =
     (case split_top ''or'' e of
        Inl err \<Rightarrow> Inl err
      | Inr None \<Rightarrow> eval_and fr pf e ns
      | Inr (Some ps) \<Rightarrow> any_of (\<lambda>p. eval_and fr pf p ns) ps)"
| "eval_and fr pf e ns =
     (case split_top ''and'' e of
        Inl err \<Rightarrow> Inl err
      | Inr None \<Rightarrow> eval_not fr pf e ns
      | Inr (Some ps) \<Rightarrow> all_of (\<lambda>p. eval_not fr pf p ns) ps)"
| "eval_not fr pf e ns =
     (case not_rest (strip e) of
        Some r \<Rightarrow> if r = [] then Inl (EmptyOperand ''not'')
                 else rbind (eval_not fr pf r ns) (\<lambda>b. Inr (\<not> b))
      | None \<Rightarrow>
          (case inner_text (strip e) of
             Some r \<Rightarrow> eval_or fr pf r ns
           | None \<Rightarrow> eval_atom fr pf (strip e) ns))"
  by pat_completeness auto
termination
  by (relation "measure (\<lambda>x. case x of
        Inl (fr, pf, e, ns) \<Rightarrow> 3 * length e + 2
      | Inr (Inl (fr, pf, e, ns)) \<Rightarrow> 3 * length e + 1
      | Inr (Inr (fr, pf, e, ns)) \<Rightarrow> 3 * length e)")
    (auto dest!: split_top_lengths not_rest_shorter inner_text_shorter)

declare eval_or.simps [simp del] eval_and.simps [simp del] eval_not.simps [simp del]

definition evaluate_condition :: "(rat \<Rightarrow> string) \<Rightarrow> (string \<Rightarrow> rat option) \<Rightarrow> string \<Rightarrow> pydict \<Rightarrow>
    cond_error + bool" where
  "evaluate_condition fr pf e ns = (if strip e = [] then Inr False else eval_or fr pf (strip e) ns)"

end
