(* ===== verification/ConditionLaws.thy ===== *)
theory ConditionLaws
  imports Conditions
begin

text \<open>
  What conditions mean: a boolean expression over atoms, printed with parentheses, evaluates to
  the value of the expression, with the short circuits of \<open>any\<close> and \<open>all\<close> and whatever operators
  and parentheses the quoted texts of its atoms contain.
\<close>

section \<open>Expressions and their text\<close>

datatype bool_expr =
    Leaf string
  | Neg bool_expr
  | Conj bool_expr bool_expr
  | Disj bool_expr bool_expr

definition paren :: "string \<Rightarrow> string" where
  "paren s = ''('' @ s @ '')''"

fun show_cond :: "bool_expr \<Rightarrow> string" where
  "show_cond (Leaf a) = a"
| "show_cond (Neg e) = ''not '' @ paren (show_cond e)"
| "show_cond (Conj e f) = paren (show_cond e) @ '' and '' @ paren (show_cond f)"
| "show_cond (Disj e f) = paren (show_cond e) @ '' or '' @ paren (show_cond f)"

fun leaf_walk :: "char option \<Rightarrow> string \<Rightarrow> bool" where
  "leaf_walk quote [] = (quote = None)"
| "leaf_walk quote (c # cs) =
     (if quote \<noteq> None then leaf_walk (if quote = Some c then None else quote) cs
      else if is_quote c then leaf_walk (Some c) cs
      else c \<noteq> CHR ''('' \<and> c \<noteq> CHR '')'' \<and> leaf_walk None cs)"

text \<open>Atoms without outer white space, whose parentheses and operator words are all quoted.\<close>

definition leaf_ok :: "string \<Rightarrow> bool" where
  "leaf_ok a = (a \<noteq> [] \<and> strip a = a \<and> leaf_walk None a \<and> quoted_only_ops a)"

fun cond_ok :: "bool_expr \<Rightarrow> bool" where
  "cond_ok (Leaf a) = leaf_ok a"
| "cond_ok (Neg e) = cond_ok e"
| "cond_ok (Conj e f) = (cond_ok e \<and> cond_ok f)"
| "cond_ok (Disj e f) = (cond_ok e \<and> cond_ok f)"

fun cond_value :: "(string \<Rightarrow> 'e + bool) \<Rightarrow> bool_expr \<Rightarrow> 'e + bool" where
  "cond_value f (Leaf a) = f a"
| "cond_value f (Neg e) = rbind (cond_value f e) (\<lambda>b. Inr (\<not> b))"
| "cond_value f (Conj e g) = rbind (cond_value f e) (\<lambda>b. if b then cond_value f g else Inr False)"
| "cond_value f (Disj e g) = rbind (cond_value f e) (\<lambda>b. if b then Inr True else cond_value f g)"

section \<open>Walking over atoms\<close>

lemma quote_chars [simp]:
  "\<not> is_quote CHR ''(''" "\<not> is_quote CHR '')''" "\<not> is_quote CHR '' ''"
  "\<not> is_quote CHR ''a''" "\<not> is_quote CHR ''n''" "\<not> is_quote CHR ''d''"
  "\<not> is_quote CHR ''o''" "\<not> is_quote CHR ''r''" "\<not> is_quote CHR ''t''"
  by (simp_all add: is_quote_def)

lemma lower_char_space: "lower_char c = CHR '' '' \<longleftrightarrow> c = CHR '' ''"
proof
  assume l: "lower_char c = CHR '' ''"
  show "c = CHR '' ''"
  proof (cases "is_upper c")
    case True
    then have n: "65 \<le> (of_char c :: nat)" "(of_char c :: nat) \<le> 90" by (auto simp: is_upper_def Let_def)
    have "of_char (lower_char c) = (of_char c :: nat) + 32"
      using True n by (simp add: lower_char_def of_char_of)
    with l n show ?thesis by simp
  qed (use l in \<open>simp add: lower_char_def\<close>)
qed (simp add: lower_char_def is_upper_def)

lemma lower_char_quote: "is_quote c \<Longrightarrow> lower_char c = c"
  by (auto simp: is_quote_def lower_char_def is_upper_def)

lemma word_at_intro:
  assumes "lower (take (length w) s) = w" "w \<in> {''and'', ''or'', ''not''}"
    "length w < length s \<Longrightarrow> \<not> cond_word_char (s ! length w)"
  shows "word_at CHR '' '' s"
proof -
  have "starts_with (lower s) w"
    using assms(1) by (metis append_take_drop_id lower_def map_append starts_with_iff)
  moreover have "case drop (length w) s of [] \<Rightarrow> True | c # cs \<Rightarrow> \<not> cond_word_char c"
    using assms(3) by (cases "length w < length s") (simp_all add: Cons_nth_drop_Suc [symmetric])
  moreover have "\<not> cond_word_char CHR '' ''"
    by (simp add: cond_word_char_def is_alnum_def is_alpha_def is_upper_def is_lower_def is_digit_def)
  ultimately show ?thesis using assms(2) by (auto simp: word_at_def)
qed

lemma quoted_walk_word: "word_at p s \<Longrightarrow> s \<noteq> [] \<Longrightarrow> \<not> is_quote (hd s) \<Longrightarrow> \<not> quoted_walk p None s"
  by (cases s) simp_all

text \<open>The operators that split a text.\<close>

definition split_op :: "string \<Rightarrow> bool" where
  "split_op op = (op = ''or'' \<or> op = ''and'')"

text \<open>An operator token inside an atom would be an unquoted operator word.\<close>

lemma lower_take_nth: "i < n \<Longrightarrow> i < length xs \<Longrightarrow> lower (take n xs) ! i = lower_char (xs ! i)"
  by (simp add: lower_def)

lemma no_token_in_leaf:
  assumes "split_op op" "quoted_walk c None cs" "rest = [] \<or> hd rest = CHR '')''"
  shows "\<not> at_token op (c # cs @ rest)"
proof
  assume t: "at_token op (c # cs @ rest)"
  then have c: "c = CHR '' ''" and w: "lower (take (length op + 1) (cs @ rest)) = op @ '' ''"
    using assms(1) by (auto simp: at_token_def op_token_def split_op_def lower_def lower_char_space)
  have len: "length op + 1 \<le> length (cs @ rest)"
    using arg_cong [OF w, of length] by (simp add: lower_def)
  have inside: "length op + 1 \<le> length cs"
  proof (rule ccontr)
    assume "\<not> ?thesis"
    then have short: "length cs \<le> length op" by simp
    with len have lt: "length cs < length op + 1" "length cs < length (cs @ rest)" by auto
    then have "rest \<noteq> []" by auto
    with assms(3) have hd: "(cs @ rest) ! length cs = CHR '')''" by (cases rest) (auto simp: nth_append)
    have "lower (take (length op + 1) (cs @ rest)) ! length cs = lower_char CHR '')''"
      by (simp only: lower_take_nth [OF lt] hd)
    then have "(op @ '' '') ! length cs = CHR '')''" using w by (simp add: lower_char_def is_upper_def)
    then have "CHR '')'' \<in> set (op @ '' '')"
      using short by (metis One_nat_def Suc_eq_plus1 le_imp_less_Suc length_Cons length_append list.size(3) nth_mem)
    with assms(1) show False by (auto simp: split_op_def)
  qed
  then have w': "lower (take (length op + 1) cs) = op @ '' ''" using w by simp
  have nth: "cs ! length op = CHR '' ''"
  proof -
    have "lower (take (length op + 1) cs) ! length op = lower_char (cs ! length op)"
      using inside by (simp add: lower_take_nth)
    with w' have "lower_char (cs ! length op) = CHR '' ''" by (simp add: nth_append)
    then show ?thesis by (simp add: lower_char_space)
  qed
  have op: "lower (take (length op) cs) = op"
    using arg_cong [OF w', of "take (length op)"] by (simp add: lower_def take_map min_def)
  have word: "word_at CHR '' '' cs"
    by (rule word_at_intro [OF op])
      (use assms(1) nth in \<open>auto simp: split_op_def cond_word_char_def is_alnum_def is_alpha_def is_upper_def
        is_lower_def is_digit_def\<close>)
  obtain d ds where cs: "cs = d # ds" using inside by (cases cs) auto
  have "lower_char d \<in> {CHR ''o'', CHR ''a''}"
    using op cs assms(1) by (auto simp: split_op_def lower_def)
  then have "\<not> is_quote d" by (auto simp: is_quote_def lower_char_def is_upper_def)
  with quoted_walk_word [OF word] cs assms(2) c show False by simp
qed

lemma split_walk_leaf:
  assumes "split_op op" "leaf_walk q s" "quoted_walk p q s" "rest = [] \<or> hd rest = CHR '')''"
  shows "split_walk op (s @ rest) buf d q parts = split_walk op rest (buf @ s) d None parts"
  using assms(2,3)
proof (induction s arbitrary: p q buf)
  case Nil
  then show ?case by simp
next
  case (Cons c cs)
  show ?case
  proof (cases "q = None \<and> \<not> is_quote c")
    case True
    with Cons.prems have "quoted_walk c None cs" by (auto split: if_splits)
    with True Cons no_token_in_leaf [OF assms(1) _ assms(4), of c cs] show ?thesis by simp
  next
    case False
    with Cons show ?thesis by (cases "q = None") (auto split: if_splits)
  qed
qed

lemma outer_walk_leaf: "leaf_walk q s \<Longrightarrow> outer_walk (s @ rest) d q = outer_walk rest d None"
proof (induction s arbitrary: q)
  case (Cons c cs)
  then show ?case by (cases "q = None"; cases "is_quote c") (auto split: if_splits)
qed simp

section \<open>Walking over expressions\<close>

lemma split_walk_shown:
  assumes "split_op op" "cond_ok e" "hd rest = CHR '')''"
  shows "split_walk op (show_cond e @ rest) buf (Suc d) None parts =
    split_walk op rest (buf @ show_cond e) (Suc d) None parts"
  using assms(2,3)
proof (induction e arbitrary: rest buf d)
  case (Leaf a)
  then show ?case using split_walk_leaf [OF assms(1), of None a "CHR '' ''" rest buf "Suc d" parts]
    by (simp add: leaf_ok_def quoted_only_ops_def)
next
  case (Neg e)
  then show ?case by (simp add: paren_def)
next
  case (Conj e f)
  then show ?case by (simp add: paren_def)
next
  case (Disj e f)
  then show ?case by (simp add: paren_def)
qed

lemma outer_walk_shown:
  assumes "cond_ok e" "0 < d" "hd rest = CHR '')''"
  shows "outer_walk (show_cond e @ rest) d None = outer_walk rest d None"
  using assms
proof (induction e arbitrary: rest d)
  case (Leaf a)
  then show ?case by (simp add: leaf_ok_def outer_walk_leaf)
qed (simp_all add: paren_def)

lemma split_walk_paren:
  assumes "split_op op" "cond_ok e"
  shows "split_walk op (paren (show_cond e) @ rest) buf d None parts =
    split_walk op rest (buf @ paren (show_cond e)) d None parts"
  using split_walk_shown [OF assms, of "CHR '')'' # rest" "buf @ ''(''" d parts]
  by (simp add: paren_def)

section \<open>Splitting an expression\<close>

lemma is_space_paren [simp]: "\<not> is_space CHR ''(''" "\<not> is_space CHR '')''"
  by (simp_all add: is_space_def)

lemma strip_space: "strip (CHR '' '' # s) = strip s"
  by (simp add: strip_def lstrip_def is_space_def)

lemma not_word_space [simp]: "\<not> cond_word_char CHR '' ''"
  by (simp add: cond_word_char_def is_alnum_def is_alpha_def is_upper_def is_lower_def is_digit_def)

lemma strip_ends:
  assumes "\<not> is_space a" "\<not> is_space b"
  shows "strip (a # s @ [b]) = a # s @ [b]"
  using assms by (simp add: strip_def lstrip_def rstrip_def)

lemma strip_paren [simp]: "strip (paren s) = paren s"
  unfolding paren_def using strip_ends [of "CHR ''(''" "CHR '')''" s] by simp

lemma strip_show: "cond_ok e \<Longrightarrow> strip (show_cond e) = show_cond e"
proof (cases e)
  case (Neg f)
  then show ?thesis
    using strip_ends [of "CHR ''n''" "CHR '')''" "''ot '' @ ''('' @ show_cond f"]
    by (simp add: paren_def is_space_def)
next
  case (Conj f g)
  then show ?thesis
    using strip_ends [of "CHR ''(''" "CHR '')''" "show_cond f @ '') and ('' @ show_cond g"]
    by (simp add: paren_def)
next
  case (Disj f g)
  then show ?thesis
    using strip_ends [of "CHR ''(''" "CHR '')''" "show_cond f @ '') or ('' @ show_cond g"]
    by (simp add: paren_def)
qed (simp add: leaf_ok_def)

lemma show_not_Nil: "cond_ok e \<Longrightarrow> show_cond e \<noteq> []"
  by (cases e) (simp_all add: leaf_ok_def paren_def)

lemma paren_not_Nil [simp]: "paren s \<noteq> []"
  by (simp add: paren_def)

lemma at_token_simps:
  "\<not> at_token op (c # cs)" if "split_op op" "lower_char c \<noteq> CHR '' ''"
  using that by (auto simp: at_token_def op_token_def lower_def)

lemma split_top_leaf:
  assumes "split_op op" "leaf_ok a"
  shows "split_top op a = Inr None"
  using split_walk_leaf [OF assms(1), of None a "CHR '' ''" "[]" "[]" 0 "[]"] assms(2)
  by (simp add: split_top_def leaf_ok_def quoted_only_ops_def)

lemma split_top_paren:
  assumes "split_op op" "cond_ok e"
  shows "split_top op (paren (show_cond e)) = Inr None"
  using split_walk_paren [OF assms, of "[]" "[]" 0 "[]"] by (simp add: split_top_def)

lemma lower_char_lows [simp]:
  "lower_char CHR ''n'' = CHR ''n''" "lower_char CHR ''o'' = CHR ''o''" "lower_char CHR ''t'' = CHR ''t''"
  "lower_char CHR ''a'' = CHR ''a''" "lower_char CHR ''d'' = CHR ''d''" "lower_char CHR ''r'' = CHR ''r''"
  "lower_char CHR ''('' = CHR ''(''" "lower_char CHR '' '' = CHR '' ''"
  by (simp_all add: lower_char_def is_upper_def)

lemma at_token_next:
  "split_op op \<Longrightarrow> at_token op (CHR '' '' # x # s) \<Longrightarrow> lower_char x = hd op"
  by (auto simp: split_op_def at_token_def op_token_def lower_def)

lemma split_top_not:
  assumes "split_op op" "cond_ok e"
  shows "split_top op (''not '' @ paren (show_cond e)) = Inr None"
proof -
  have "\<not> at_token op (CHR '' '' # paren (show_cond e))"
    using at_token_next [of op "CHR ''(''" "show_cond e @ '')''"] assms(1)
    by (auto simp: paren_def split_op_def)
  then have "split_walk op (''not '' @ paren (show_cond e)) [] 0 None [] =
      split_walk op (paren (show_cond e)) ''not '' 0 None []"
    using assms(1) by (simp add: at_token_simps)
  also have "\<dots> = Inr ([], strip (''not '' @ paren (show_cond e)))"
    using split_walk_paren [OF assms, of "[]" "''not ''" 0 "[]"] by simp
  finally show ?thesis by (simp add: split_top_def)
qed

lemma split_top_two:
  assumes "cond_ok e" "cond_ok f" "split_op op"
  shows "split_top op (paren (show_cond e) @ op_token op @ paren (show_cond f)) =
    Inr (Some [paren (show_cond e), paren (show_cond f)])"
proof -
  have t: "at_token op (op_token op @ paren (show_cond f))"
    using assms(3) by (auto simp: split_op_def at_token_def op_token_def lower_def)
  obtain cs where c: "op_token op = CHR '' '' # cs" by (simp add: op_token_def)
  have "split_walk op (op_token op @ paren (show_cond f)) (paren (show_cond e)) 0 None [] =
      split_walk op (paren (show_cond f)) [] 0 None [paren (show_cond e)]"
    using t by (simp add: c)
  then show ?thesis
    using split_walk_paren [OF assms(3,1), of "op_token op @ paren (show_cond f)" "[]" 0 "[]"]
      split_walk_paren [OF assms(3,2), of "[]" "[]" 0 "[paren (show_cond e)]"]
    by (simp add: split_top_def)
qed

lemma split_top_other:
  assumes "cond_ok e" "cond_ok f"
  shows "split_top ''or'' (paren (show_cond e) @ '' and '' @ paren (show_cond f)) = Inr None"
proof -
  have op: "split_op ''or''" by (simp add: split_op_def)
  have n: "\<not> at_token ''or'' (CHR '' '' # CHR ''a'' # s)" "\<not> at_token ''or'' (CHR '' '' # CHR ''('' # s)" for s
    using at_token_next [OF op] by fastforce+
  have "split_walk ''or'' ('' and '' @ paren (show_cond f)) (paren (show_cond e)) 0 None [] =
      split_walk ''or'' (paren (show_cond f)) (paren (show_cond e) @ '' and '') 0 None []"
    using n by (simp add: at_token_simps [OF op] paren_def)
  then show ?thesis
    using split_walk_paren [OF op assms(1), of "'' and '' @ paren (show_cond f)" "[]" 0 "[]"]
      split_walk_paren [OF op assms(2), of "[]" "paren (show_cond e) @ '' and ''" 0 "[]"]
    by (simp add: split_top_def)
qed

section \<open>Evaluating an expression\<close>

lemma outer_paren:
  assumes "cond_ok e"
  shows "balanced_outer_parens (paren (show_cond e))"
  using outer_walk_shown [OF assms, of 1 "'')''"]
  by (simp add: balanced_outer_parens_def paren_def ends_with_def)

lemma not_rest_paren [simp]: "not_rest (paren s) = None"
  by (simp add: not_rest_def paren_def lower_def)

lemma eval_not_paren:
  assumes "cond_ok e"
  shows "eval_not fr pf (paren (show_cond e)) ns = eval_or fr pf (show_cond e) ns"
proof -
  have "inner_text (paren (show_cond e)) = Some (show_cond e)"
    using outer_paren [OF assms] strip_show [OF assms] by (simp add: inner_text_def paren_def)
  then show ?thesis by (subst eval_not.simps) simp
qed

lemma leaf_starts:
  assumes "leaf_ok a"
  shows "not_rest a = None" "inner_text a = None"
proof -
  obtain c cs where a: "a = c # cs" using assms by (cases a) (auto simp: leaf_ok_def)
  show "inner_text a = None"
    using assms a by (auto simp: inner_text_def balanced_outer_parens_def leaf_ok_def split: if_splits)
  show "not_rest a = None"
  proof (rule ccontr)
    assume "not_rest a \<noteq> None"
    then have n: "starts_with (lower a) ''not '' \<or> lower a = ''not''" by (auto simp: not_rest_def split: if_splits)
    have low: "lower (take 3 a) = ''not''"
      using n by (auto simp: lower_def starts_with_iff take_map)
    have after: "\<not> cond_word_char (a ! length ''not'')" if len: "length ''not'' < length a"
    proof -
      from n len have "lower a ! length ''not'' = CHR '' ''" by (auto simp: starts_with_iff lower_def)
      with len have "a ! length ''not'' = CHR '' ''" by (simp add: lower_def lower_char_space)
      then show ?thesis by (simp only: not_word_space not_False_eq_True)
    qed
    have "lower (take (length ''not'') a) = ''not''" using low by (simp add: numeral_3_eq_3)
    then have "word_at CHR '' '' a" by (rule word_at_intro) (use after in simp_all)
    moreover have "lower_char c = CHR ''n''" using low a by (simp add: lower_def)
    then have "\<not> is_quote c" by (auto simp: is_quote_def lower_char_def is_upper_def)
    ultimately show False
      using quoted_walk_word [of "CHR '' ''" a] assms a by (simp add: leaf_ok_def quoted_only_ops_def)
  qed
qed

lemma all_of_two: "all_of f [x, y] = rbind (f x) (\<lambda>b. if b then f y else Inr False)"
  by (auto simp: rbind_def split: sum.split)

lemma any_of_two: "any_of f [x, y] = rbind (f x) (\<lambda>b. if b then Inr True else f y)"
  by (auto simp: rbind_def split: sum.split)

lemma eval_shown:
  "cond_ok e \<Longrightarrow> eval_or fr pf (show_cond e) ns = cond_value (\<lambda>a. eval_atom fr pf a ns) e"
proof (induction e)
  case (Leaf a)
  then have a: "leaf_ok a" by simp
  then have s: "strip a = a" by (simp add: leaf_ok_def)
  show ?case
    using split_top_leaf [OF _ a] leaf_starts [OF a]
    by (subst eval_or.simps, subst eval_and.simps, subst eval_not.simps) (simp add: split_op_def s)
next
  case (Neg e)
  then have e: "cond_ok e" by simp
  have s: "strip (''not '' @ paren (show_cond e)) = ''not '' @ paren (show_cond e)"
    using strip_show [of "Neg e"] e by simp
  have r: "not_rest (''not '' @ paren (show_cond e)) = Some (paren (show_cond e))"
    by (simp add: not_rest_def lower_def strip_space)
  show ?case using split_top_not [OF _ e] Neg
    by (simp only: show_cond.simps, subst eval_or.simps, subst eval_and.simps, subst eval_not.simps)
      (simp add: split_op_def s [simplified] r [simplified] eval_not_paren [OF e])
next
  case (Conj e f)
  then have ef: "cond_ok e" "cond_ok f" by simp_all
  have "split_top ''and'' (paren (show_cond e) @ '' and '' @ paren (show_cond f)) =
      Inr (Some [paren (show_cond e), paren (show_cond f)])"
    using split_top_two [OF ef, of "''and''"] by (simp add: split_op_def op_token_def)
  with split_top_other [OF ef] Conj ef show ?case
    by (simp only: show_cond.simps, subst eval_or.simps, subst eval_and.simps)
      (simp add: all_of_two eval_not_paren del: all_of.simps cong: if_cong)
next
  case (Disj e f)
  then have ef: "cond_ok e" "cond_ok f" by simp_all
  have two: "split_top ''or'' (paren (show_cond e) @ '' or '' @ paren (show_cond f)) =
      Inr (Some [paren (show_cond e), paren (show_cond f)])"
    using split_top_two [OF ef, of "''or''"] by (simp add: split_op_def op_token_def)
  have "eval_and fr pf (paren (show_cond x)) ns = eval_or fr pf (show_cond x) ns" if "cond_ok x" for x
    using split_top_paren [OF _ that, of "''and''"] that
    by (subst eval_and.simps) (simp add: split_op_def eval_not_paren)
  with two Disj ef show ?case
    by (simp only: show_cond.simps, subst eval_or.simps) (simp add: any_of_two del: any_of.simps cong: if_cong)
qed

text \<open>
  C32. A condition written with parentheses evaluates to the boolean expression it spells: \<open>not\<close>,
  \<open>and\<close>, \<open>or\<close> with their short circuits over the atoms, the error of the first atom that fails
  included, even when quoted texts in the atoms hold operators and parentheses.
\<close>

theorem condition_denotes_expression:
  assumes "cond_ok e"
  shows "evaluate_condition fr pf (show_cond e) ns = cond_value (\<lambda>a. eval_atom fr pf a ns) e"
  using eval_shown [OF assms] strip_show [OF assms] show_not_Nil [OF assms]
  by (simp add: evaluate_condition_def)

definition demo_cond :: bool_expr where
  "demo_cond = Conj (Leaf (''status == '' @ [CHR 0x22] @ ''ok or (not)'' @ [CHR 0x22])) (Neg (Leaf ''skip''))"

definition demo_cond_ns :: pydict where
  "demo_cond_ns = [(''status'', PStr ''ok or (not)''), (''skip'', PBool False)]"

lemma condition_denotes_expression_witness:
  "evaluate_condition (\<lambda>x. []) (\<lambda>s. None) (show_cond demo_cond) demo_cond_ns = Inr True"
proof -
  have 1: "cond_ok demo_cond" by code_simp
  have 2: "cond_value (\<lambda>a. eval_atom (\<lambda>x. []) (\<lambda>s. None) a demo_cond_ns) demo_cond = Inr True" by code_simp
  from condition_denotes_expression [OF 1] 2 show ?thesis by simp
qed

end
