(* ===== verification/Workflows.thy ===== *)
theory Workflows
  imports Taint
begin

text \<open>
  The graph of a workflow and its validation, \<open>WorkflowSpec\<close> in \<open>workflow/schema.py\<close>: nodes, edges,
  the successors a node declares, the checks of \<open>_graph\<close> and the depth-first search of
  \<open>_assert_acyclic\<close>, which is shown to accept exactly the acyclic graphs.
\<close>

section \<open>Data\<close>

record graph_node =
  gn_flow :: flow_node
  gn_next :: "string option"
  gn_then :: "string option"
  gn_else :: "string option"
  gn_default :: pyval
  gn_on_low :: "string option"
  gn_routes :: "(string \<times> string) list"
  gn_route_on :: "string option"

record edge_spec =
  ed_from :: string
  ed_to :: string
  ed_when :: "string option"

record workflow_spec =
  wf_name :: string
  wf_start :: "string option"
  wf_nodes :: "graph_node list"
  wf_edges :: "edge_spec list"

abbreviation gn_id :: "graph_node \<Rightarrow> string" where
  "gn_id n \<equiv> fn_id (gn_flow n)"

abbreviation gn_type :: "graph_node \<Rightarrow> string" where
  "gn_type n \<equiv> fn_type (gn_flow n)"

definition node_map :: "workflow_spec \<Rightarrow> (string \<times> graph_node) list" where
  "node_map w = List.map (\<lambda>n. (gn_id n, n)) (wf_nodes w)"

text \<open>\<open>_successor_refs\<close>; the missing references are left out.\<close>

definition decide_refs :: "graph_node \<Rightarrow> string list" where
  "decide_refs n =
     (case gn_default n of PStr s \<Rightarrow> if strip s = [] then [] else [strip s] | _ \<Rightarrow> []) @
     (let low = strip (or_empty (gn_on_low n)) in if low \<noteq> [] \<and> low \<noteq> ''fail'' then [low] else []) @
     filter (\<lambda>d. d \<noteq> []) (List.map snd (gn_routes n))"

definition given :: "'a option list \<Rightarrow> 'a list" where
  "given xs = List.map the (filter (\<lambda>x. x \<noteq> None) xs)"

definition successor_refs :: "graph_node \<Rightarrow> string list" where
  "successor_refs n =
     given [gn_next n, gn_then n, gn_else n] @ (if gn_type n = ''decide'' then decide_refs n else [])"

section \<open>Acyclicity\<close>

type_synonym graph = "(string \<times> string list) list"

definition graph_of :: "workflow_spec \<Rightarrow> graph" where
  "graph_of w =
     List.map (\<lambda>n. (gn_id n, successor_refs n @
        List.map ed_to (filter (\<lambda>e. ed_from e = gn_id n) (wf_edges w)))) (wf_nodes w)"

definition succs :: "graph \<Rightarrow> string \<Rightarrow> string list" where
  "succs g x = (case map_of g x of None \<Rightarrow> [] | Some ys \<Rightarrow> ys)"

text \<open>
  The search: \<open>Inl\<close> is the node that closes a cycle, \<open>Inr\<close> the finished nodes, the last one first.
\<close>

function dfs_all :: "graph \<Rightarrow> string list \<Rightarrow> string list \<Rightarrow> string list \<Rightarrow> string + string list" where
  "dfs_all g visiting finished [] = Inr finished"
| "dfs_all g visiting finished (x # xs) =
     (if x \<in> set visiting then Inl x
      else if x \<notin> set finished \<and> x \<in> fst ` set g then
        (case dfs_all g (x # visiting) finished (succs g x) of
           Inl y \<Rightarrow> Inl y
         | Inr finished' \<Rightarrow> dfs_all g visiting (x # finished') xs)
      else dfs_all g visiting finished xs)"
  by pat_completeness auto
termination
proof (relation "measures [\<lambda>(g, visiting, finished, xs). card (fst ` set g - set visiting),
    \<lambda>(g, visiting, finished, xs). length xs]", goal_cases)
  case (2 g visiting finished x xs)
  then have "fst ` set g - set (x # visiting) \<subset> fst ` set g - set visiting" by auto
  then have "card (fst ` set g - set (x # visiting)) < card (fst ` set g - set visiting)"
    by (intro psubset_card_mono) auto
  then show ?case by simp
qed auto

definition assert_acyclic :: "graph \<Rightarrow> string option" where
  "assert_acyclic g =
     (case dfs_all g [] [] (List.map fst g) of Inl x \<Rightarrow> Some x | Inr finished \<Rightarrow> None)"

definition edge_rel :: "graph \<Rightarrow> (string \<times> string) set" where
  "edge_rel g = {(x, y). y \<in> set (succs g x)}"

lemma succs_key: "y \<in> set (succs g x) \<Longrightarrow> x \<in> fst ` set g"
  by (cases "map_of g x") (auto simp: succs_def dest!: map_of_SomeD intro: rev_image_eqI)

text \<open>The finished nodes form a topological order: every successor was finished earlier.\<close>

fun finished_order :: "graph \<Rightarrow> string list \<Rightarrow> bool" where
  "finished_order g [] = True"
| "finished_order g (x # xs) = (x \<notin> set xs \<and> set (succs g x) \<subseteq> set xs \<and> finished_order g xs)"

lemma dfs_all_ok:
  assumes "dfs_all g visiting finished xs = Inr ys" "finished_order g finished"
    "set visiting \<inter> set finished = {}" "set xs \<subseteq> fst ` set g" "\<forall>x. set (succs g x) \<subseteq> fst ` set g"
  shows "finished_order g ys \<and> set finished \<subseteq> set ys \<and> set xs \<subseteq> set ys \<and> set visiting \<inter> set ys = {}"
  using assms
proof (induction g visiting finished xs arbitrary: ys rule: dfs_all.induct)
  case (1 g visiting finished)
  then show ?case by simp
next
  case (2 g visiting finished x xs)
  have x: "x \<notin> set visiting" using 2(4) by (simp split: if_splits)
  show ?case
  proof (cases "x \<in> set finished")
    case True
    with 2(4) x have "dfs_all g visiting finished xs = Inr ys" by simp
    from 2(3) [OF x _ this 2(5,6) _ 2(8)] True 2(7) show ?thesis by (simp, blast)
  next
    case False
    with 2(7) have c: "x \<notin> set finished \<and> x \<in> fst ` set g" by simp
    obtain zs where z: "dfs_all g (x # visiting) finished (succs g x) = Inr zs"
      using 2(4) x c by (auto split: sum.splits)
    have y: "dfs_all g visiting (x # zs) xs = Inr ys" using 2(4) x c z by simp
    have vis: "set (x # visiting) \<inter> set finished = {}" using 2(6) c by simp
    have zz: "finished_order g zs \<and> set finished \<subseteq> set zs \<and> set (succs g x) \<subseteq> set zs \<and>
        set (x # visiting) \<inter> set zs = {}"
      by (rule 2(1) [OF x c z 2(5) vis _ 2(8)]) (use 2(8) in simp)
    then have "finished_order g (x # zs)" "set visiting \<inter> set (x # zs) = {}" using x by simp_all
    moreover have "set xs \<subseteq> fst ` set g" using 2(7) by simp
    ultimately have "finished_order g ys \<and> set (x # zs) \<subseteq> set ys \<and> set xs \<subseteq> set ys \<and> set visiting \<inter> set ys = {}"
      using 2(2) [OF x c z y _ _ _ 2(8)] by blast
    with zz show ?thesis by (simp, blast)
  qed
qed

lemma dfs_all_cycle:
  assumes "dfs_all g visiting finished xs = Inl y" "\<forall>v \<in> set visiting. (v, hd visiting) \<in> (edge_rel g)\<^sup>*"
    "visiting \<noteq> [] \<Longrightarrow> \<forall>x \<in> set xs. (hd visiting, x) \<in> edge_rel g"
  shows "\<not> acyclic (edge_rel g)"
  using assms
proof (induction g visiting finished xs rule: dfs_all.induct)
  case (1 g visiting finished)
  then show ?case by simp
next
  case (2 g visiting finished x xs)
  show ?case
  proof (cases "x \<in> set visiting")
    case True
    then have "visiting \<noteq> []" by auto
    from 2(6) [OF this] True 2(5)
    have "(x, hd visiting) \<in> (edge_rel g)\<^sup>*" "(hd visiting, x) \<in> edge_rel g" by simp_all
    then have "(x, x) \<in> (edge_rel g)\<^sup>+" by (rule rtrancl_into_trancl1)
    then show ?thesis by (auto simp: acyclic_def)
  next
    case x: False
    have tail: "visiting \<noteq> [] \<Longrightarrow> \<forall>x \<in> set xs. (hd visiting, x) \<in> edge_rel g" using 2(6) by simp
    show ?thesis
    proof (cases "x \<notin> set finished \<and> x \<in> fst ` set g")
      case False
      with 2(4) x have "dfs_all g visiting finished xs = Inl y" by auto
      from 2(3) [OF x False this 2(5) tail] show ?thesis .
    next
      case c: True
      show ?thesis
      proof (cases "dfs_all g (x # visiting) finished (succs g x)")
        case (Inl z)
        have "\<forall>v \<in> set (x # visiting). (v, hd (x # visiting)) \<in> (edge_rel g)\<^sup>*"
        proof
          fix v assume "v \<in> set (x # visiting)"
          then consider "v = x" | "v \<in> set visiting" by auto
          then show "(v, hd (x # visiting)) \<in> (edge_rel g)\<^sup>*"
          proof cases
            case 2
            then have "visiting \<noteq> []" by auto
            with \<open>v \<in> set visiting\<close> "2.prems"(2,3) show ?thesis by (auto intro: rtrancl_into_rtrancl)
          qed simp
        qed
        with "2.IH"(1) [OF x c] "2.prems" Inl c x show ?thesis by (auto simp: edge_rel_def)
      next
        case (Inr zs)
        with 2(4) x c have "dfs_all g visiting (x # zs) xs = Inl y" by simp
        from 2(2) [OF x c Inr this 2(5) tail] show ?thesis .
      qed
    qed
  qed
qed

text \<open>The position of a node in the order; it drops along every edge.\<close>

definition rank_in :: "string list \<Rightarrow> string \<Rightarrow> nat" where
  "rank_in xs x = length (dropWhile (\<lambda>y. y \<noteq> x) xs)"

lemma rank_in_drops:
  "finished_order g xs \<Longrightarrow> x \<in> set xs \<Longrightarrow> y \<in> set (succs g x) \<Longrightarrow> rank_in xs y < rank_in xs x"
proof (induction xs)
  case (Cons z zs)
  have le: "length (dropWhile (\<lambda>v. v \<noteq> y) zs) \<le> length zs" by (rule length_dropWhile_le)
  show ?case
  proof (cases "z = x")
    case True
    with Cons.prems have "y \<in> set zs" "z \<notin> set zs" by auto
    then have "z \<noteq> y" by auto
    with True le show ?thesis by (simp add: rank_in_def)
  next
    case False
    with Cons.prems have x: "x \<in> set zs" and ord: "finished_order g zs" "z \<notin> set zs" by auto
    have "y \<in> set zs"
      using ord(1) x Cons.prems(3)
    proof (induction zs)
      case (Cons u us)
      then show ?case by (cases "u = x") auto
    qed simp
    with ord(2) have "z \<noteq> y" by auto
    with False Cons.IH [OF ord(1) x Cons.prems(3)] show ?thesis by (simp add: rank_in_def)
  qed
qed simp

lemma assert_acyclic_rank:
  assumes "assert_acyclic g = None" "\<And>x. set (succs g x) \<subseteq> fst ` set g"
  shows "\<exists>order. set order \<supseteq> fst ` set g \<and> finished_order g order"
proof -
  obtain ys where "dfs_all g [] [] (List.map fst g) = Inr ys"
    using assms(1) by (auto simp: assert_acyclic_def split: sum.splits)
  from dfs_all_ok [OF this] assms(2) show ?thesis by auto
qed

lemma assert_acyclic_iff:
  assumes "\<And>x. set (succs g x) \<subseteq> fst ` set g"
  shows "assert_acyclic g = None \<longleftrightarrow> acyclic (edge_rel g)"
proof
  assume "assert_acyclic g = None"
  from assert_acyclic_rank [OF this assms] obtain order where
    order: "fst ` set g \<subseteq> set order" "finished_order g order" by blast
  have "edge_rel g \<subseteq> inv_image (less_than\<inverse>) (rank_in order)"
  proof (rule subrelI)
    fix x y assume "(x, y) \<in> edge_rel g"
    then have y: "y \<in> set (succs g x)" by (simp add: edge_rel_def)
    then have "x \<in> fst ` set g" by (rule succs_key)
    with rank_in_drops [OF order(2) _ y] order(1) show "(x, y) \<in> inv_image (less_than\<inverse>) (rank_in order)"
      by auto
  qed
  moreover have "acyclic (inv_image (less_than\<inverse>) (rank_in order))"
    by (metis acyclic_converse converse_inv_image wf_acyclic wf_inv_image wf_less_than converse_converse)
  ultimately show "acyclic (edge_rel g)" by (rule acyclic_subset [rotated])
next
  assume "acyclic (edge_rel g)"
  then show "assert_acyclic g = None"
    using dfs_all_cycle [of g "[]" "[]"] by (auto simp: assert_acyclic_def split: sum.splits)
qed

section \<open>Validation\<close>

datatype graph_error =
    NoNodes
  | DuplicateNodes
  | UnknownStart string
  | UnknownRef string string
  | DuplicateBranches string
  | EdgeFrom string
  | EdgeTo string
  | GraphCycle string

definition bad_ref :: "string list \<Rightarrow> graph_node \<Rightarrow> graph_error option" where
  "bad_ref known n =
     (case find (\<lambda>r. r \<notin> set known) (successor_refs n) of
        Some r \<Rightarrow> Some (UnknownRef (gn_id n) r)
      | None \<Rightarrow> if distinct (fn_branches (gn_flow n)) then None else Some (DuplicateBranches (gn_id n)))"

definition bad_edge :: "string list \<Rightarrow> edge_spec \<Rightarrow> graph_error option" where
  "bad_edge known e =
     (if ed_from e \<notin> set known then Some (EdgeFrom (ed_from e))
      else if ed_to e \<notin> set known then Some (EdgeTo (ed_to e)) else None)"

fun first_error :: "('a \<Rightarrow> 'e option) \<Rightarrow> 'a list \<Rightarrow> 'e option" where
  "first_error f [] = None"
| "first_error f (x # xs) = (case f x of Some e \<Rightarrow> Some e | None \<Rightarrow> first_error f xs)"

definition start_of :: "workflow_spec \<Rightarrow> string" where
  "start_of w = (if truthy (wf_start w) then the (wf_start w) else gn_id (hd (wf_nodes w)))"

definition validate_graph :: "workflow_spec \<Rightarrow> graph_error + workflow_spec" where
  "validate_graph w =
     (let ids = List.map gn_id (wf_nodes w) in
      if wf_nodes w = [] then Inl NoNodes
      else if \<not> distinct ids then Inl DuplicateNodes
      else if start_of w \<notin> set ids then Inl (UnknownStart (start_of w))
      else (case first_error (bad_ref ids) (wf_nodes w) of
        Some e \<Rightarrow> Inl e
      | None \<Rightarrow>
          (case first_error (bad_edge ids) (wf_edges w) of
             Some e \<Rightarrow> Inl e
           | None \<Rightarrow>
               (case assert_acyclic (graph_of w) of
                  Some x \<Rightarrow> Inl (GraphCycle x)
                | None \<Rightarrow> Inr (w\<lparr>wf_start := Some (start_of w)\<rparr>)))))"

lemma first_error_None: "first_error f xs = None \<longleftrightarrow> (\<forall>x \<in> set xs. f x = None)"
  by (induction xs) (auto split: option.split)

lemma graph_of_keys [simp]: "fst ` set (graph_of w) = gn_id ` set (wf_nodes w)"
  by (auto simp: graph_of_def image_image)

end
