(* ===== verification/Health.thy ===== *)
theory Health
  imports RunStates Conditions
begin

text \<open>
  Failure classes, declared recovery and quarantine: \<open>health/layout.py\<close>, \<open>classify_failure\<close> of
  \<open>health/fingerprint.py\<close>, \<open>health/recover.py\<close>, \<open>health/score.py\<close>, \<open>node_samples\<close> of
  \<open>health/query.py\<close> and \<open>health/quarantine.py\<close>. The list of stored runs, newest first, and the
  standard deviation of \<open>statistics\<close> are arguments.
\<close>

section \<open>Failure classes\<close>

record class_rule =
  cr_class :: string
  cr_error_types :: "string list"
  cr_needles :: "string list"

definition FAILURE_CLASSES :: "string list" where
  "FAILURE_CLASSES = [''truncation'', ''rate_limit'', ''schema_violation'', ''provider_error'']"

definition RECOVERY_ACTIONS :: "string list" where
  "RECOVERY_ACTIONS = [''retry_with'', ''backoff'', ''repair'', ''fallback'']"

definition CLASS_RULES :: "class_rule list" where
  "CLASS_RULES =
     [\<lparr>cr_class = ''truncation'', cr_error_types = [''BudgetExceeded''],
       cr_needles = [''truncat'', ''max_tokens'', ''finish_reason'', ''context length'', ''token limit'']\<rparr>,
      \<lparr>cr_class = ''rate_limit'', cr_error_types = [],
       cr_needles = [''429'', ''rate limit'', ''rate_limit'', ''too many requests'', ''retry-after'']\<rparr>,
      \<lparr>cr_class = ''schema_violation'', cr_error_types = [''StructuredOutputError'', ''ContractError''],
       cr_needles = [''schema'', ''json schema'', ''did not match'', ''validation error'']\<rparr>,
      \<lparr>cr_class = ''provider_error'', cr_error_types = [''LLMError'', ''CircuitOpen''],
       cr_needles = [''provider'', ''api error'', ''connection'', ''timeout'', ''503'', ''502'']\<rparr>]"

definition class_applies :: "string \<Rightarrow> string \<Rightarrow> class_rule \<Rightarrow> bool" where
  "class_applies error_type blob r =
     (error_type \<in> set (cr_error_types r) \<or>
      list_ex (\<lambda>n. n \<noteq> [] \<and> infix_of (lower n) blob) (cr_needles r))"

definition classify_failure :: "string \<Rightarrow> string \<Rightarrow> string" where
  "classify_failure error_type message =
     (case find (class_applies error_type (lower (error_type @ '' '' @ message))) CLASS_RULES of
        None \<Rightarrow> ''other'' | Some r \<Rightarrow> cr_class r)"

section \<open>Declared recovery\<close>

record recovery_row =
  ry_class :: string
  ry_action :: string
  ry_max_tokens :: "int option"
  ry_seconds :: "rat option"
  ry_max_repairs :: "int option"

record recovery_match =
  ym_class :: string
  ym_action :: string
  ym_max_tokens :: "int option"
  ym_seconds :: "rat option"
  ym_max_repairs :: "int option"

definition match_recovery :: "recovery_row list \<Rightarrow> string \<Rightarrow> string \<Rightarrow> recovery_match option" where
  "match_recovery rows error_type message =
     (let klass = classify_failure error_type message in
      if klass \<notin> set FAILURE_CLASSES then None
      else (case find (\<lambda>r. lower (strip (ry_class r)) = klass) rows of
        None \<Rightarrow> None
      | Some r \<Rightarrow>
          (let action = lower (strip (ry_action r)) in
           if action \<notin> set RECOVERY_ACTIONS then None
           else Some \<lparr>ym_class = klass, ym_action = action, ym_max_tokens = ry_max_tokens r,
                      ym_seconds = ry_seconds r, ym_max_repairs = ry_max_repairs r\<rparr>)))"

text \<open>What a recovery changes in the execution context.\<close>

record recovery_state =
  rc_force_fallback :: bool
  rc_repair :: bool
  rc_repairs :: int
  rc_max_tokens :: "int option"

definition no_recovery :: recovery_state where
  "no_recovery = \<lparr>rc_force_fallback = False, rc_repair = False, rc_repairs = 0, rc_max_tokens = None\<rparr>"

definition truthy_int :: "int option \<Rightarrow> int \<Rightarrow> int" where
  "truthy_int x d = (case x of None \<Rightarrow> d | Some n \<Rightarrow> if n = 0 then d else n)"

definition apply_recovery :: "string \<Rightarrow> recovery_match \<Rightarrow> recovery_state \<Rightarrow> recovery_state \<times> pydict" where
  "apply_recovery now m c =
     (let note = [(''class'', PStr (ym_class m)), (''action'', PStr (ym_action m)), (''at'', PStr now)] in
      if ym_action m = ''retry_with'' \<and> ym_max_tokens m \<noteq> None then
        (c\<lparr>rc_max_tokens := ym_max_tokens m\<rparr>, note @ [(''max_tokens'', of_opt_int (ym_max_tokens m))])
      else if ym_action m = ''fallback'' then
        (c\<lparr>rc_force_fallback := True\<rparr>, note @ [(''fallback'', PBool True)])
      else if ym_action m = ''repair'' then
        (let cap = truthy_int (ym_max_repairs m) 1;
             c' = c\<lparr>rc_repairs := rc_repairs c + 1, rc_repair := rc_repairs c + 1 \<le> cap\<rparr>
         in (c', note @ [(''repair'', PBool (rc_repair c')), (''max_repairs'', PInt cap)]))
      else if ym_action m = ''backoff'' then
        (c, note @ [(''seconds'', PFloat (case ym_seconds m of None \<Rightarrow> 0 | Some x \<Rightarrow> x))])
      else (c, note))"

definition record_adaptation :: "string \<Rightarrow> pydict \<Rightarrow> run_state \<Rightarrow> run_state" where
  "record_adaptation node note s =
     (case map_of (rs_metadata s) ''recovery'' of
        Some (PList rows) \<Rightarrow>
          s\<lparr>rs_metadata := dset ''recovery'' (PList (rows @ [PDict (dset ''node_id'' (PStr node) note)]))
             (rs_metadata s)\<rparr>
      | None \<Rightarrow>
          s\<lparr>rs_metadata := dset ''recovery'' (PList [PDict (dset ''node_id'' (PStr node) note)])
             (rs_metadata s)\<rparr>
      | Some v \<Rightarrow> s\<lparr>rs_metadata := dset ''recovery'' (PList [PDict note]) (rs_metadata s)\<rparr>)"

lemma record_adaptation_frame [simp]:
  "rs_run_id (record_adaptation n d s) = rs_run_id s"
  "rs_results (record_adaptation n d s) = rs_results s"
  "rs_node_outputs (record_adaptation n d s) = rs_node_outputs s"
  "rs_pending_node (record_adaptation n d s) = rs_pending_node s"
  "rs_pending (record_adaptation n d s) = rs_pending s"
  "rs_status (record_adaptation n d s) = rs_status s"
  by (simp_all add: record_adaptation_def split: option.split pyval.split)

section \<open>Health of a node\<close>

record health_sample =
  hs_ok :: bool
  hs_attempts :: int
  hs_latency_ms :: rat
  hs_cost_micros :: int

record node_health =
  nh_window :: int
  nh_samples :: nat
  nh_successes :: nat
  nh_success_rate :: rat
  nh_retry_rate :: rat
  nh_latency_variance :: rat
  nh_cost_variance :: rat
  nh_score :: rat
  nh_broken :: bool

definition round6 :: "rat \<Rightarrow> rat" where
  "round6 x = of_int (round_half_even (x * 1000000)) / 1000000"

definition coeff_var :: "(rat list \<Rightarrow> rat) \<Rightarrow> rat list \<Rightarrow> rat" where
  "coeff_var pstdev xs =
     (if length xs < 2 then 0
      else let mean = sum_list xs / of_nat (length xs)
           in if mean = 0 then 0 else pstdev xs / \<bar>mean\<bar>)"

definition score_node :: "(rat list \<Rightarrow> rat) \<Rightarrow> health_sample list \<Rightarrow> int \<Rightarrow> node_health" where
  "score_node pstdev samples window =
     (let window = max 1 window;
          rows = take (nat window) samples;
          n = length rows;
          successes = length (filter hs_ok rows);
          rate = of_nat successes / of_nat n;
          retry = of_nat (length (filter (\<lambda>r. 1 < hs_attempts r) rows)) / of_nat n;
          latency = coeff_var pstdev (List.map hs_latency_ms rows);
          cost = coeff_var pstdev (List.map (\<lambda>r. of_int (hs_cost_micros r)) rows);
          score = rate * max 0 (1 - 3 / 10 * retry) * max 0 (1 - 2 / 10 * min 1 latency)
                    * max 0 (1 - 2 / 10 * min 1 cost)
      in if n = 0 then
           \<lparr>nh_window = window, nh_samples = 0, nh_successes = 0, nh_success_rate = 0, nh_retry_rate = 0,
            nh_latency_variance = 0, nh_cost_variance = 0, nh_score = 0, nh_broken = False\<rparr>
         else
           \<lparr>nh_window = window, nh_samples = n, nh_successes = successes, nh_success_rate = round6 rate,
            nh_retry_rate = round6 retry, nh_latency_variance = round6 latency,
            nh_cost_variance = round6 cost, nh_score = round6 score,
            nh_broken = (successes = 0 \<and> 2 \<le> n)\<rparr>)"

definition HARD_MAX_WINDOW :: int where
  "HARD_MAX_WINDOW = 500"

definition HARD_MAX_RUNS :: nat where
  "HARD_MAX_RUNS = 500"

definition DEFAULT_WINDOW :: int where
  "DEFAULT_WINDOW = 50"

definition bound_number :: "int \<Rightarrow> int \<Rightarrow> int \<Rightarrow> int" where
  "bound_number v hard dflt = (if v \<le> 0 then dflt else min v hard)"

definition sample_of :: "node_result \<Rightarrow> health_sample" where
  "sample_of r =
     \<lparr>hs_ok = (nr_status r = ''ok'' \<and> \<not> truthy (nr_error r)),
      hs_attempts = (if nr_attempts r = 0 then 1 else nr_attempts r),
      hs_latency_ms = (case nr_total_ms r of None \<Rightarrow> 0 | Some n \<Rightarrow> of_int n),
      hs_cost_micros = dget_or (nr_usage r) ''cost_micros'' 0\<rparr>"

text \<open>The loop over the stored runs stops at the first run that fills the window.\<close>

fun collect_samples :: "int \<Rightarrow> string \<Rightarrow> string option \<Rightarrow> run_state list \<Rightarrow> health_sample list \<Rightarrow>
    health_sample list" where
  "collect_samples window node exclude [] out = out"
| "collect_samples window node exclude (s # runs) out =
     (if truthy exclude \<and> Some (rs_run_id s) = exclude then collect_samples window node exclude runs out
      else
        (let out = out @ List.map sample_of (filter (\<lambda>r. nr_node_id r = node) (rs_results s))
         in if window \<le> int (length out) then out else collect_samples window node exclude runs out))"

definition node_samples :: "run_state list \<Rightarrow> string \<Rightarrow> string \<Rightarrow> int \<Rightarrow> string option \<Rightarrow> health_sample list" where
  "node_samples stored workflow node window exclude =
     (let window = bound_number window HARD_MAX_WINDOW DEFAULT_WINDOW;
          fetched = take HARD_MAX_RUNS (filter (\<lambda>s. rs_workflow_name s = workflow) stored)
      in take (nat window) (collect_samples window node exclude fetched []))"

section \<open>Quarantine\<close>

record health_gate =
  hg_min_success_rate :: rat
  hg_window :: int
  hg_below :: string
  hg_fallback :: "string option"

datatype quarantine_error = BelowNotGate | WindowOutside int

record quarantine_decision =
  qd_action :: string
  qd_success_rate :: rat
  qd_threshold :: rat
  qd_fallback :: "string option"
  qd_reason :: string

definition quarantine_reason :: "(rat \<Rightarrow> string) \<Rightarrow> string \<Rightarrow> rat \<Rightarrow> rat \<Rightarrow> int \<Rightarrow> string" where
  "quarantine_reason fr node rate threshold window =
     ''Node '' @ [CHR 0x27] @ node @ [CHR 0x27] @ '' success_rate '' @ fr rate @ '' < min_success_rate '' @
     fr threshold @ '' over window '' @ int_text window"

definition evaluate_quarantine :: "(rat \<Rightarrow> string) \<Rightarrow> (rat list \<Rightarrow> rat) \<Rightarrow> run_state list \<Rightarrow> string \<Rightarrow>
    health_gate \<Rightarrow> string \<Rightarrow> string option \<Rightarrow> quarantine_error + quarantine_decision option" where
  "evaluate_quarantine fr pstdev stored node g workflow current =
     (let below = lower (strip (if hg_below g = [] then ''gate'' else hg_below g));
          window = (if hg_window g = 0 then 1 else hg_window g)
      in if below \<noteq> ''gate'' then Inl BelowNotGate
         else if window < 1 \<or> HARD_MAX_WINDOW < window then Inl (WindowOutside window)
         else
           (let fallback = (if truthy (hg_fallback g) then map_option strip (hg_fallback g) else None);
                scored = score_node pstdev (node_samples stored workflow node window current) window;
                base = \<lparr>qd_action = ''gate'', qd_success_rate = nh_success_rate scored,
                        qd_threshold = hg_min_success_rate g, qd_fallback = None,
                        qd_reason = quarantine_reason fr node (nh_success_rate scored)
                                      (hg_min_success_rate g) window\<rparr>
            in if nh_samples scored < 1 \<or> hg_min_success_rate g \<le> nh_success_rate scored then Inr None
               else if truthy fallback
                 then Inr (Some (base\<lparr>qd_action := ''fallback'', qd_fallback := fallback\<rparr>))
               else Inr (Some base)))"

end
