(* ===== verification/Feedback.thy ===== *)
theory Feedback
  imports RunStates
begin

text \<open>
  Corrections and weak signals recorded on a run, \<open>feedback/capture.py\<close> and \<open>feedback/record.py\<close>:
  the edits of a reviewer, the retries of a node, the consent they were given under. Identifiers,
  time stamps and the difference of two texts are arguments.
\<close>

record correction =
  cn_id :: string
  cn_run_id :: string
  cn_node_id :: string
  cn_decision_id :: string
  cn_kind :: string
  cn_original :: string
  cn_diff :: "pydict list"
  cn_role :: string
  cn_reason :: string
  cn_rating :: "int option"
  cn_label :: "string option"
  cn_signal :: "string option"
  cn_by_model :: string
  cn_ts :: string
  cn_consent_scope :: string
  cn_workflow :: string
  cn_inputs :: pydict
  cn_source :: string

definition SCHEMA_CORRECTION :: string where
  "SCHEMA_CORRECTION = ''readyagents.feedback.correction.v1''"

definition FEEDBACK_SIGNALS :: "string list" where
  "FEEDBACK_SIGNALS = [''guardrail_rejection'', ''contract_repair'', ''refusal'', ''retry'', ''fallback'']"

definition correction_dict :: "correction \<Rightarrow> pydict" where
  "correction_dict c =
     [(''schema'', PStr SCHEMA_CORRECTION), (''id'', PStr (cn_id c)), (''run_id'', PStr (cn_run_id c)),
      (''node_id'', PStr (cn_node_id c)), (''decision_id'', PStr (cn_decision_id c)),
      (''kind'', PStr (cn_kind c)), (''original'', PStr (cn_original c)),
      (''diff'', PList (List.map PDict (cn_diff c))), (''role'', PStr (cn_role c)),
      (''reason'', PStr (cn_reason c)), (''rating'', of_opt_int (cn_rating c)),
      (''label'', of_opt_str (cn_label c)), (''signal'', of_opt_str (cn_signal c)),
      (''model'', PStr (cn_by_model c)), (''ts'', PStr (cn_ts c)),
      (''consent_scope'', PStr (cn_consent_scope c)), (''workflow'', PStr (cn_workflow c)),
      (''inputs'', PDict (cn_inputs c)), (''source'', PStr (cn_source c))]"

definition read_opt_int :: "pyval \<Rightarrow> int option option" where
  "read_opt_int v = (if v = PNone then Some None else map_option Some (to_int v))"

definition read_opt_text :: "(rat \<Rightarrow> string) \<Rightarrow> pyval \<Rightarrow> string option" where
  "read_opt_text fr v = (if v = PNone then None else Some (py_str fr v))"

text \<open>\<open>None\<close> stands for the \<open>TypeError\<close> and \<open>ValueError\<close> of a foreign record.\<close>

definition correction_from_dict :: "(rat \<Rightarrow> string) \<Rightarrow> pydict \<Rightarrow> correction option" where
  "correction_from_dict fr d =
     (case (list_or_empty (vget d ''diff''), dict_or_empty (vget d ''inputs''),
            read_opt_int (vget d ''rating'')) of
        (Some diff, Some inputs, Some rating) \<Rightarrow>
          Some \<lparr>cn_id = text_or fr (vget d ''id'') [], cn_run_id = text_or fr (vget d ''run_id'') [],
            cn_node_id = text_or fr (vget d ''node_id'') [],
            cn_decision_id = text_or fr (vget d ''decision_id'') [],
            cn_kind = text_or fr (vget d ''kind'') ''human'',
            cn_original = text_or fr (vget d ''original'') [], cn_diff = dicts_of diff,
            cn_role = text_or fr (vget d ''role'') [], cn_reason = text_or fr (vget d ''reason'') [],
            cn_rating = rating,
            cn_label = read_opt_text fr (vget d ''label''),
            cn_signal = opt_text fr (vget d ''signal''), cn_by_model = text_or fr (vget d ''model'') [],
            cn_ts = text_or fr (vget d ''ts'') [],
            cn_consent_scope = text_or fr (vget d ''consent_scope'') [],
            cn_workflow = text_or fr (vget d ''workflow'') [], cn_inputs = inputs,
            cn_source = text_or fr (vget d ''source'') []\<rparr>
      | _ \<Rightarrow> None)"

section \<open>Recording\<close>

definition append_correction :: "correction \<Rightarrow> run_state \<Rightarrow> run_state" where
  "append_correction c s =
     (let rows = (case py_list (vget (rs_metadata s) ''feedback'') of Some xs \<Rightarrow> xs | None \<Rightarrow> [])
      in s\<lparr>rs_metadata := dset ''feedback'' (PList (rows @ [PDict (correction_dict c)])) (rs_metadata s)\<rparr>)"

definition record_consent :: "(rat \<Rightarrow> string) \<Rightarrow> string \<Rightarrow> run_state \<Rightarrow> run_state" where
  "record_consent fr scope s =
     (if scope = [] then s
      else
        (let policy = (case vget (rs_metadata s) ''data_policy'' of PDict d \<Rightarrow> d | _ \<Rightarrow> []);
             scopes = (case vget policy ''scopes'' of PList xs \<Rightarrow> List.map (py_str fr) xs | _ \<Rightarrow> []);
             scopes = add_new scope scopes;
             policy = dset ''source'' (PStr ''recorded'')
                        (dset ''scopes'' (PList (List.map PStr scopes)) policy)
         in s\<lparr>rs_metadata := dset ''data_policy'' (PDict policy) (rs_metadata s)\<rparr>))"

record feedback_spec =
  fs_allow_edit :: bool
  fs_labels :: "string list"
  fs_rating :: "string option"
  fs_consent :: string

definition source_of :: "(rat \<Rightarrow> string) \<Rightarrow> run_state \<Rightarrow> string" where
  "source_of fr s = text_or fr (vget (rs_metadata s) ''source'') []"

definition record_implicit :: "(rat \<Rightarrow> string) \<Rightarrow> string \<Rightarrow> string \<Rightarrow> string \<Rightarrow> feedback_spec option \<Rightarrow>
    string \<Rightarrow> string \<Rightarrow> string \<Rightarrow> string \<Rightarrow> run_state \<Rightarrow> run_state" where
  "record_implicit fr ident ts node spec signal reason original model s =
     (let kind = strip signal;
          scope = (case spec of None \<Rightarrow> [] | Some f \<Rightarrow> fs_consent f)
      in if kind \<notin> set FEEDBACK_SIGNALS then s
         else
           record_consent fr scope (append_correction
             \<lparr>cn_id = ident, cn_run_id = rs_run_id s, cn_node_id = node, cn_decision_id = [],
              cn_kind = ''implicit'', cn_original = original, cn_diff = [], cn_role = [], cn_reason = reason,
              cn_rating = None, cn_label = None, cn_signal = Some kind, cn_by_model = model, cn_ts = ts,
              cn_consent_scope = scope, cn_workflow = rs_workflow_name s, cn_inputs = rs_inputs s,
              cn_source = source_of fr s\<rparr> s))"

datatype feedback_error =
    NoFeedbackBlock
  | EditRefused
  | LabelRefused string
  | RatingUndeclared
  | RatingOutside int int int

definition rating_scale :: "string \<Rightarrow> int \<times> int" where
  "rating_scale text =
     (if CHR ''-'' \<in> set text then
        (case (py_int (before_char CHR ''-'' text), py_int (after_char CHR ''-'' text)) of
           (Some low, Some high) \<Rightarrow> (low, high)
         | _ \<Rightarrow> (1, 5))
      else (1, 5))"

definition parse_rating :: "int option \<Rightarrow> string option \<Rightarrow> feedback_error + int option" where
  "parse_rating value spec =
     (case value of
        None \<Rightarrow> Inr None
      | Some n \<Rightarrow>
          (case spec of
             None \<Rightarrow> Inl RatingUndeclared
           | Some scale \<Rightarrow>
               (let (low, high) = rating_scale (if scale = [] then ''1-5'' else scale)
                in if n < low \<or> high < n then Inl (RatingOutside n low high) else Inr (Some n))))"

definition record_human_correction :: "(rat \<Rightarrow> string) \<Rightarrow> (string \<Rightarrow> string \<Rightarrow> pydict list) \<Rightarrow> string \<Rightarrow> string \<Rightarrow>
    string \<Rightarrow> feedback_spec option \<Rightarrow> string \<Rightarrow> string \<Rightarrow> pyval \<Rightarrow> pyval option \<Rightarrow> int option \<Rightarrow>
    string option \<Rightarrow> string \<Rightarrow> string \<Rightarrow> run_state \<Rightarrow> feedback_error + run_state" where
  "record_human_correction fr diff ident ts node spec role reason original edited rating label decision model s =
     (case spec of
        None \<Rightarrow> Inl NoFeedbackBlock
      | Some f \<Rightarrow>
          if edited \<noteq> None \<and> \<not> fs_allow_edit f then Inl EditRefused
          else if label \<noteq> None \<and> the label \<notin> set (fs_labels f) then Inl (LabelRefused (the label))
          else rbind (parse_rating rating (fs_rating f))
            (\<lambda>rated.
              let before = (if original = PNone then [] else py_str fr original);
                  after = (case edited of None \<Rightarrow> before | Some v \<Rightarrow> py_str fr v)
              in Inr (record_consent fr (fs_consent f) (append_correction
                   \<lparr>cn_id = ident, cn_run_id = rs_run_id s, cn_node_id = node, cn_decision_id = decision,
                    cn_kind = ''human'', cn_original = before, cn_diff = diff before after, cn_role = role,
                    cn_reason = reason, cn_rating = rated, cn_label = label, cn_signal = None,
                    cn_by_model = model, cn_ts = ts, cn_consent_scope = fs_consent f,
                    cn_workflow = rs_workflow_name s, cn_inputs = rs_inputs s,
                    cn_source = source_of fr s\<rparr> s))))"

section \<open>Laws\<close>

text \<open>Corrections survive the record of their run; an empty kind reads back as a human one.\<close>

lemma dicts_of_dicts [simp]: "dicts_of (List.map PDict ds) = ds"
  by (induction ds) simp_all

lemma read_options [simp]:
  "read_opt_int (of_opt_int x) = Some x"
  "read_opt_text fr (of_opt_str y) = y"
  by (cases x; simp add: read_opt_int_def of_opt_int_def) (cases y; simp add: read_opt_text_def)

lemma container_or_empty [simp]:
  "list_or_empty (PList xs) = Some xs" "dict_or_empty (PDict d) = Some d"
  by (simp_all add: list_or_empty_def dict_or_empty_def)

lemma opt_text_signal [simp]: "x \<noteq> Some [] \<Longrightarrow> opt_text fr (of_opt_str x) = x"
  by (cases x) (simp_all add: opt_text_def)

lemma correction_reread:
  assumes "cn_kind c \<noteq> []" "cn_signal c \<noteq> Some []"
  shows "correction_from_dict fr (correction_dict c) = Some c"
  using assms by (simp add: correction_from_dict_def correction_dict_def)

lemma record_consent_frame [simp]:
  "rs_run_id (record_consent fr scope s) = rs_run_id s"
  "rs_results (record_consent fr scope s) = rs_results s"
  "rs_node_outputs (record_consent fr scope s) = rs_node_outputs s"
  "rs_pending_node (record_consent fr scope s) = rs_pending_node s"
  "rs_pending (record_consent fr scope s) = rs_pending s"
  "rs_status (record_consent fr scope s) = rs_status s"
  by (simp_all add: record_consent_def Let_def)

lemma record_implicit_frame [simp]:
  "rs_run_id (record_implicit fr i ts n spec g r orig m s) = rs_run_id s"
  "rs_results (record_implicit fr i ts n spec g r orig m s) = rs_results s"
  "rs_node_outputs (record_implicit fr i ts n spec g r orig m s) = rs_node_outputs s"
  "rs_pending_node (record_implicit fr i ts n spec g r orig m s) = rs_pending_node s"
  "rs_pending (record_implicit fr i ts n spec g r orig m s) = rs_pending s"
  "rs_status (record_implicit fr i ts n spec g r orig m s) = rs_status s"
  by (simp_all add: record_implicit_def append_correction_def Let_def)

end
