(* ===== verification/NodePolicy.thy ===== *)
theory NodePolicy
  imports Workflows Health Feedback Meter
begin

text \<open>
  One execution of a node, \<open>execute_node_with_policy\<close> in \<open>workflow/nodes.py\<close>, with the cancellation
  token (\<open>workflow/cancellation.py\<close>) and \<open>_persist\<close> of \<open>workflow/engine.py\<close>: attempts, backoff,
  timeouts, declared recovery and quarantine. The body of a node is an argument. A request to cancel
  arrives before a poll of the token or while a body runs; its listener persists at once. Every
  reading of the clock and every new identifier is indexed by the length of the trace so far.
\<close>

section \<open>Failures\<close>

text \<open>The classes of exceptions that the handlers tell apart; a subclass counts as its base.\<close>

datatype error_class =
    GateExpiredErr | EgressDeniedErr | CassetteMissErr | PolicyDeniedErr | A2AErr | MemoryErr | TeamErr
  | AuthorizationErr | RunawayErr | BudgetErr | RouteBudgetErr | CircuitErr | RoutingErr | CapabilityErr
  | MediaErr | TableErr | WaitErr | SkillErr | BrowserErr | SessionErr
  | NodeErr string
  | AgentsErr
  | ForeignErr

datatype failure =
    Cancelled
  | Interrupted
  | NeedsApproval string string "pydict option"
  | NeedsReply string string string "string option" "pydict option"
  | Parked string pydict "pydict option"
  | Raised error_class string string

definition FATAL :: "error_class list" where
  "FATAL =
     [GateExpiredErr, EgressDeniedErr, CassetteMissErr, PolicyDeniedErr, A2AErr, MemoryErr, TeamErr,
      AuthorizationErr, RunawayErr, RoutingErr, CapabilityErr, MediaErr, TableErr, WaitErr, SkillErr,
      BrowserErr, SessionErr]"

text \<open>\<open>RouteBudgetExceeded\<close> is a \<open>BudgetExceeded\<close>, whose clause comes first.\<close>

definition BUDGETS :: "error_class list" where
  "BUDGETS = [BudgetErr, RouteBudgetErr, CircuitErr]"

definition in_quotes :: "string \<Rightarrow> string" where
  "in_quotes s = [CHR 0x27] @ s @ [CHR 0x27]"

definition node_error :: "graph_node \<Rightarrow> string \<Rightarrow> failure" where
  "node_error n message =
     Raised (NodeErr (gn_id n)) ''NodeError'' (''Node '' @ in_quotes (gn_id n) @ '': '' @ message)"

section \<open>The world of an execution\<close>

datatype engine_event =
    Persisted run_state
  | NodeStarted string
  | Attempted string nat
  | Slept rat
  | Audited string

record engine_world =
  ew_run :: run_state
  ew_meter :: "spend_meter option"
  ew_requested :: bool
  ew_polls :: nat
  ew_route :: "pydict option"
  ew_tool_rounds :: "pydict list"
  ew_recovery :: recovery_state
  ew_decisions :: "(string \<times> string) list"
  ew_trace :: "engine_event list"

record node_policy =
  np_retry :: "(nat \<times> rat \<times> rat) option"
  np_timeout :: "rat option"
  np_recovery :: "recovery_row list option"
  np_health :: "health_gate option"
  np_feedback :: "feedback_spec option"

record engine_ctx =
  ec_arrives :: "nat \<Rightarrow> bool"
  ec_now :: "nat \<Rightarrow> string"
  ec_uuid :: "nat \<Rightarrow> string"
  ec_text :: "rat \<Rightarrow> string"
  ec_number :: "string \<Rightarrow> rat option"
  ec_pstdev :: "rat list \<Rightarrow> rat"
  ec_model :: string
  ec_stored :: "run_state list option"
  ec_policy :: "string \<Rightarrow> node_policy"
  ec_late :: "string \<Rightarrow> nat \<Rightarrow> bool"
  ec_sha :: "string \<Rightarrow> string"
  ec_connector :: "string \<Rightarrow> bool"

type_synonym node_body = "graph_node \<Rightarrow> nat \<Rightarrow> engine_world \<Rightarrow> (failure + pyval) \<times> engine_world"

definition now_of :: "engine_ctx \<Rightarrow> engine_world \<Rightarrow> string" where
  "now_of c w = ec_now c (length (ew_trace w))"

definition emit :: "engine_event \<Rightarrow> engine_world \<Rightarrow> engine_world" where
  "emit e w = w\<lparr>ew_trace := ew_trace w @ [e]\<rparr>"

definition on_run :: "(run_state \<Rightarrow> run_state) \<Rightarrow> engine_world \<Rightarrow> engine_world" where
  "on_run f w = w\<lparr>ew_run := f (ew_run w)\<rparr>"

lemma world_simps [simp]:
  "ew_run (emit e w) = ew_run w" "ew_trace (emit e w) = ew_trace w @ [e]"
  "ew_requested (emit e w) = ew_requested w" "ew_meter (emit e w) = ew_meter w"
  "ew_run (on_run f w) = f (ew_run w)" "ew_trace (on_run f w) = ew_trace w"
  "ew_requested (on_run f w) = ew_requested w" "ew_meter (on_run f w) = ew_meter w"
  by (simp_all add: emit_def on_run_def)

section \<open>Persisting and cancelling\<close>

definition TERMINAL :: "string list" where
  "TERMINAL = [''cancelled'', ''succeeded'', ''failed'', ''paused'', ''waiting'']"

definition store_spend :: "engine_world \<Rightarrow> engine_world" where
  "store_spend w =
     (case ew_meter w of
        None \<Rightarrow> w
      | Some m \<Rightarrow>
          (let m = (if m_started_at m = None
                    then m\<lparr>m_started_at := Some (rs_started_at (ew_run w))\<rparr> else m);
               s = ew_run w
           in w\<lparr>ew_meter := Some m,
                ew_run := s\<lparr>rs_metadata := dset ''spend'' (PDict (snapshot m)) (rs_metadata s),
                            rs_usage := update_all (rs_usage s) (cache_usage_delta m)\<rparr>\<rparr>))"

definition no_pending :: "run_state \<Rightarrow> bool" where
  "no_pending s = (rs_pending s = None \<or> rs_pending s = Some [])"

definition cancelled_pending :: "string option \<Rightarrow> string \<Rightarrow> pydict" where
  "cancelled_pending node type =
     [(''node_id'', of_opt_str node), (''type'', PStr type), (''error'', PStr ''cancelled'')]"

definition settle_request :: "string \<Rightarrow> bool \<Rightarrow> bool \<Rightarrow> run_state \<Rightarrow> run_state" where
  "settle_request now requested in_flight s =
     (if \<not> requested \<or> rs_status s \<in> set TERMINAL then s
      else if in_flight then s\<lparr>rs_status := ''cancel_requested''\<rparr>
      else finish ''cancelled'' now
             (if no_pending s then s\<lparr>rs_pending := Some (cancelled_pending (rs_pending_node s) ''?'')\<rparr> else s))"

definition persist :: "engine_ctx \<Rightarrow> bool \<Rightarrow> engine_world \<Rightarrow> engine_world" where
  "persist c in_flight w =
     (let w = store_spend w;
          w = on_run (settle_request (now_of c w) (ew_requested w) in_flight) w
      in emit (Persisted (ew_run w)) w)"

text \<open>\<open>CancellationToken.request\<close>: the first request runs the listener.\<close>

definition request_cancel :: "engine_ctx \<Rightarrow> bool \<Rightarrow> engine_world \<Rightarrow> engine_world" where
  "request_cancel c in_flight w =
     (if ew_requested w then w else persist c in_flight (w\<lparr>ew_requested := True\<rparr>))"

definition poll :: "engine_ctx \<Rightarrow> engine_world \<Rightarrow> bool \<times> engine_world" where
  "poll c w =
     (let w = (if ec_arrives c (ew_polls w) then request_cancel c False w else w)
      in (ew_requested w, w\<lparr>ew_polls := Suc (ew_polls w)\<rparr>))"

text \<open>\<open>cancellable_sleep\<close>: the waits of its loop are one sleep with one poll at the end.\<close>

definition cancellable_sleep :: "engine_ctx \<Rightarrow> rat \<Rightarrow> engine_world \<Rightarrow> bool \<times> engine_world" where
  "cancellable_sleep c seconds w =
     (let (requested, w) = poll c w in
      if requested \<or> seconds \<le> 0 then (requested, w) else poll c (emit (Slept seconds) w))"

section \<open>Quarantine\<close>

definition quarantine_row :: "quarantine_decision \<Rightarrow> pyval" where
  "quarantine_row d =
     PDict [(''action'', PStr (qd_action d)), (''reason'', PStr (qd_reason d)),
            (''fallback'', of_opt_str (qd_fallback d))]"

definition note_quarantine :: "string \<Rightarrow> quarantine_decision \<Rightarrow> run_state \<Rightarrow> run_state" where
  "note_quarantine node d s =
     (case map_of (rs_metadata s) ''quarantine'' of
        None \<Rightarrow> s\<lparr>rs_metadata := dset ''quarantine'' (PDict [(node, quarantine_row d)]) (rs_metadata s)\<rparr>
      | Some (PDict bucket) \<Rightarrow>
          s\<lparr>rs_metadata := dset ''quarantine'' (PDict (dset node (quarantine_row d) bucket)) (rs_metadata s)\<rparr>
      | Some v \<Rightarrow> s)"

definition gate_pause :: "quarantine_decision \<Rightarrow> pydict" where
  "gate_pause d =
     [(''type'', PStr ''approval''), (''reason'', PStr ''health_gate''),
      (''success_rate'', PFloat (qd_success_rate d)), (''threshold'', PFloat (qd_threshold d))]"

definition quarantined_output :: "string \<Rightarrow> string \<Rightarrow> pyval" where
  "quarantined_output fallback reason =
     PDict [(''quarantined'', PBool True), (''next'', PStr fallback), (''reason'', PStr reason)]"

definition node_decision :: "engine_ctx \<Rightarrow> graph_node \<Rightarrow> run_state \<Rightarrow>
    quarantine_error + quarantine_decision option" where
  "node_decision c n s =
     (let p = ec_policy c (gn_id n) in
      case (np_recovery p, np_health p, ec_stored c) of
        (Some _, Some g, Some stored) \<Rightarrow>
          evaluate_quarantine (ec_text c) (ec_pstdev c) stored (gn_id n) g (rs_workflow_name s)
            (Some (rs_run_id s))
      | _ \<Rightarrow> Inr None)"

definition quarantine_message :: "quarantine_error \<Rightarrow> string" where
  "quarantine_message e =
     (case e of
        BelowNotGate \<Rightarrow> ''health.below must be gate; skip/open would fail open''
      | WindowOutside n \<Rightarrow> ''health.window must be 1..500'')"

definition health_quarantine :: "engine_ctx \<Rightarrow> graph_node \<Rightarrow> engine_world \<Rightarrow>
    (failure + pyval) option \<times> engine_world" where
  "health_quarantine c n w =
     (case node_decision c n (ew_run w) of
        Inl e \<Rightarrow> (Some (Inl (Raised AgentsErr ''ConfigError'' (quarantine_message e))), w)
      | Inr None \<Rightarrow> (None, w)
      | Inr (Some d) \<Rightarrow>
          (let w = emit (Audited ''health_quarantine'') (on_run (note_quarantine (gn_id n) d) w) in
           if qd_action d = ''fallback'' \<and> truthy (qd_fallback d) then
             (Some (Inr (quarantined_output (the (qd_fallback d)) (qd_reason d))),
              on_run (\<lambda>s. s\<lparr>rs_metadata := dset ''quarantine_next'' (PStr (the (qd_fallback d)))
                            (rs_metadata s)\<rparr>) w)
           else (Some (Inl (NeedsApproval (gn_id n) (qd_reason d) (Some (gate_pause d)))), w)))"

section \<open>One attempt\<close>

definition timed_out :: "engine_ctx \<Rightarrow> graph_node \<Rightarrow> rat \<Rightarrow> failure" where
  "timed_out c n t =
     node_error n (''timed out after '' @ ec_text c t @ ''s'')"

text \<open>
  \<open>_call_with_timeout\<close>: a body that is late goes on in its thread, and what it does to the state
  stays done.
\<close>

definition call_with_timeout :: "engine_ctx \<Rightarrow> node_body \<Rightarrow> graph_node \<Rightarrow> nat \<Rightarrow> engine_world \<Rightarrow>
    (failure + pyval) \<times> engine_world" where
  "call_with_timeout c body n attempt w =
     (let (r, w) = body n attempt (emit (Attempted (gn_id n) attempt) w) in
      case np_timeout (ec_policy c (gn_id n)) of
        Some t \<Rightarrow> if t \<noteq> 0 \<and> ec_late c (gn_id n) attempt then (Inl (timed_out c n t), w) else (r, w)
      | None \<Rightarrow> (r, w))"

definition declared_recovery :: "engine_ctx \<Rightarrow> graph_node \<Rightarrow> string \<Rightarrow> string \<Rightarrow> engine_world \<Rightarrow>
    recovery_match option \<times> engine_world" where
  "declared_recovery c n name message w =
     (case np_recovery (ec_policy c (gn_id n)) of
        None \<Rightarrow> (None, w)
      | Some rows \<Rightarrow>
          (case match_recovery rows name message of
             None \<Rightarrow> (None, w)
           | Some m \<Rightarrow>
               (let (r, note) = apply_recovery (now_of c w) m (ew_recovery w)
                in (Some m, emit (Audited ''recovery'')
                     (on_run (record_adaptation (gn_id n) note) (w\<lparr>ew_recovery := r\<rparr>))))))"

definition note_retry :: "engine_ctx \<Rightarrow> graph_node \<Rightarrow> string \<Rightarrow> engine_world \<Rightarrow> engine_world" where
  "note_retry c n reason w =
     on_run (record_implicit (ec_text c) (ec_uuid c (length (ew_trace w))) (now_of c w) (gn_id n)
       (np_feedback (ec_policy c (gn_id n))) ''retry'' reason [] (ec_model c)) w"

text \<open>A retry says whether a recovery was declared and which pause it asks for.\<close>

datatype judgement = Success pyval | Fatal failure | Retry failure bool "rat option"

definition backoff_of :: "recovery_match \<Rightarrow> rat option" where
  "backoff_of m =
     (if ym_action m = ''backoff'' then Some (case ym_seconds m of None \<Rightarrow> 0 | Some x \<Rightarrow> x) else None)"

definition judge :: "engine_ctx \<Rightarrow> graph_node \<Rightarrow> failure \<Rightarrow> engine_world \<Rightarrow> judgement \<times> engine_world" where
  "judge c n f w =
     (case f of
        Raised k name message \<Rightarrow>
          if k \<in> set FATAL then (Fatal f, w)
          else if k \<in> set BUDGETS then
            (case declared_recovery c n name message w of
               (None, w) \<Rightarrow> (Fatal f, w)
             | (Some m, w) \<Rightarrow> (Retry f True None, note_retry c n message w))
          else if k = ForeignErr then (Retry f False None, w)
          else
            (case declared_recovery c n name message w of
               (None, w) \<Rightarrow> (Retry f False None, w)
             | (Some m, w) \<Rightarrow> (Retry f True (backoff_of m), w))
      | _ \<Rightarrow> (Fatal f, w))"

definition try_once :: "engine_ctx \<Rightarrow> node_body \<Rightarrow> graph_node \<Rightarrow> nat \<Rightarrow> engine_world \<Rightarrow>
    judgement \<times> engine_world" where
  "try_once c body n attempt w =
     (let (requested, w) = poll c w in
      if requested then (Fatal Cancelled, w)
      else (case call_with_timeout c body n attempt w of
              (Inr v, w) \<Rightarrow> (Success v, w)
            | (Inl f, w) \<Rightarrow> judge c n f w))"

section \<open>Attempts\<close>

definition message_of :: "failure \<Rightarrow> string" where
  "message_of f = (case f of Raised k name message \<Rightarrow> message | _ \<Rightarrow> [])"

definition give_up :: "graph_node \<Rightarrow> failure option \<Rightarrow> failure" where
  "give_up n last_error =
     (case last_error of
        None \<Rightarrow> node_error n ''unknown error''
      | Some f \<Rightarrow>
          (case f of
             Raised (NodeErr node) name message \<Rightarrow>
               if node = gn_id n then f else node_error n message
           | _ \<Rightarrow> node_error n (message_of f)))"

definition retry_of :: "engine_ctx \<Rightarrow> graph_node \<Rightarrow> nat \<times> rat \<times> rat" where
  "retry_of c n = (case np_retry (ec_policy c (gn_id n)) of None \<Rightarrow> (1, 1, 2) | Some r \<Rightarrow> r)"

text \<open>\<open>left\<close> is \<open>max_tries - attempt\<close>; a recovery adds one try, once.\<close>

function attempts :: "engine_ctx \<Rightarrow> node_body \<Rightarrow> graph_node \<Rightarrow> nat \<Rightarrow> bool \<Rightarrow> nat \<Rightarrow> failure option \<Rightarrow>
    engine_world \<Rightarrow> (failure + pyval \<times> nat) \<times> engine_world" where
  "attempts c body n 0 bonus k last_error w = (Inl (give_up n last_error), w)"
| "attempts c body n (Suc left) bonus k last_error w =
     (case try_once c body n (Suc k) w of
        (Success v, w) \<Rightarrow> (Inr (v, Suc k), w)
      | (Fatal f, w) \<Rightarrow> (Inl f, w)
      | (Retry f granted (Some seconds), w) \<Rightarrow>
          (case cancellable_sleep c seconds w of
             (True, w) \<Rightarrow> (Inl Cancelled, w)
           | (False, w) \<Rightarrow>
               attempts c body n (if granted \<and> \<not> bonus then Suc left else left) (bonus \<or> granted)
                 (Suc k) (Some f) w)
      | (Retry f granted None, w) \<Rightarrow>
          if (if granted \<and> \<not> bonus then Suc left else left) = 0 then (Inl (give_up n (Some f)), w)
          else (case cancellable_sleep c (fst (snd (retry_of c n)) * snd (snd (retry_of c n)) ^ k)
                       (note_retry c n (message_of f) w) of
             (True, w) \<Rightarrow> (Inl Cancelled, w)
           | (False, w) \<Rightarrow>
               attempts c body n (if granted \<and> \<not> bonus then Suc left else left) (bonus \<or> granted)
                 (Suc k) (Some f) w))"
  by pat_completeness auto
termination
  by (relation "measure (\<lambda>(c, body, n, left, bonus, k, f, w). left + (if bonus then 0 else 1))") auto

definition execute_with_policy :: "engine_ctx \<Rightarrow> node_body \<Rightarrow> graph_node \<Rightarrow> engine_world \<Rightarrow>
    (failure + pyval \<times> nat) \<times> engine_world" where
  "execute_with_policy c body n w =
     (case health_quarantine c n w of
        (Some (Inl f), w) \<Rightarrow> (Inl f, w)
      | (Some (Inr v), w) \<Rightarrow> (Inr (v, 1), w)
      | (None, w) \<Rightarrow> attempts c body n (fst (retry_of c n)) False 0 None w)"

end
