(* ===== verification/Engine.thy ===== *)
theory Engine
  imports NodePolicy
begin

text \<open>
  The run loop, \<open>workflow/engine.py\<close>: opening or resuming a run, the choice of the next node, the
  steps of the loop with the polls of the cancellation token, the handlers that turn a failure into
  the final record of the run. The body of a node and the interpreter's libraries are in the context
  of \<open>NodePolicy\<close>; logs and observers are left out, and the run is persisted.
\<close>

section \<open>The next node\<close>

definition uses_explicit_routing :: "workflow_spec \<Rightarrow> bool" where
  "uses_explicit_routing wfl =
     (wf_edges wfl \<noteq> [] \<or>
      list_ex (\<lambda>n. truthy (gn_next n) \<or> truthy (gn_then n) \<or> truthy (gn_else n) \<or>
                  gn_type n = ''decide'' \<and> (gn_routes n \<noteq> [] \<or> truthy (gn_route_on n)))
        (wf_nodes wfl))"

definition ROUTED_TYPES :: "string list" where
  "ROUTED_TYPES = [''condition'', ''approval'', ''wait'', ''decide'']"

definition template_message :: "template_error \<Rightarrow> string" where
  "template_message e =
     (case e of
        MissingVariable path \<Rightarrow> ''Missing template variable: '' @ path
      | NotSized \<Rightarrow> ''filter len requires a sized value''
      | NotIterable \<Rightarrow> ''filter join requires an iterable''
      | UnknownFilter name \<Rightarrow> ''unknown filter '' @ in_quotes name)"

definition cond_failure :: "cond_error \<Rightarrow> failure" where
  "cond_failure e =
     (let wrong = (\<lambda>m. Raised AgentsErr ''WorkflowError'' m)
      in case e of
           UnbalancedClose \<Rightarrow> wrong (''Unbalanced '' @ in_quotes '')'' @ '' in condition'')
         | UnbalancedOpen \<Rightarrow> wrong (''Unbalanced '' @ in_quotes ''('' @ '' in condition'')
         | UnterminatedQuote \<Rightarrow> wrong ''Unterminated quote in condition''
         | EmptyOperand op \<Rightarrow> wrong (''Empty operand for '' @ in_quotes op)
         | Unparsable expr \<Rightarrow> wrong (''Could not parse condition '' @ in_quotes expr)
         | CondTemplate t \<Rightarrow> Raised AgentsErr ''TemplateError'' (template_message t))"

text \<open>The edges of a node: the first condition that holds, or the last edge without one.\<close>

fun walk_edges :: "engine_ctx \<Rightarrow> pydict \<Rightarrow> string option \<Rightarrow> edge_spec list \<Rightarrow> failure + string option" where
  "walk_edges c ns dflt [] = Inr dflt"
| "walk_edges c ns dflt (e # es) =
     (case ed_when e of
        None \<Rightarrow> walk_edges c ns (Some (ed_to e)) es
      | Some cond \<Rightarrow>
          (case evaluate_condition (ec_text c) (ec_number c) cond ns of
             Inl err \<Rightarrow> Inl (cond_failure err)
           | Inr True \<Rightarrow> Inr (Some (ed_to e))
           | Inr False \<Rightarrow> walk_edges c ns dflt es))"

definition list_successor :: "workflow_spec \<Rightarrow> string \<Rightarrow> string option" where
  "list_successor wfl node =
     (case dropWhile (\<lambda>i. i \<noteq> node) (List.map gn_id (wf_nodes wfl)) of
        _ # nxt # _ \<Rightarrow> Some nxt | _ \<Rightarrow> None)"

text \<open>The \<open>next\<close> a routed node wrote in its output: a text or nothing.\<close>

definition output_next :: "run_state \<Rightarrow> string \<Rightarrow> string option" where
  "output_next s node =
     (case vget (rs_node_outputs s) node of
        PDict d \<Rightarrow> (case vget d ''next'' of PStr nxt \<Rightarrow> Some nxt | _ \<Rightarrow> None)
      | _ \<Rightarrow> None)"

definition drop_key :: "string \<Rightarrow> pydict \<Rightarrow> pydict" where
  "drop_key k d = filter (\<lambda>(k', v). k' \<noteq> k) d"

definition quarantine_next :: "run_state \<Rightarrow> string option" where
  "quarantine_next s =
     (case vget (rs_metadata s) ''quarantine_next'' of
        PStr nxt \<Rightarrow> if strip nxt = [] then None else Some (strip nxt)
      | _ \<Rightarrow> None)"

definition declared_next :: "engine_ctx \<Rightarrow> workflow_spec \<Rightarrow> graph_node \<Rightarrow> run_state \<Rightarrow>
    failure + string option" where
  "declared_next c wfl n s =
     (if gn_type n \<in> set ROUTED_TYPES then Inr (output_next s (gn_id n))
      else
        (let edges = filter (\<lambda>e. ed_from e = gn_id n) (wf_edges wfl) in
         if edges \<noteq> [] then walk_edges c (mapping s) None edges
         else if truthy (gn_next n) then Inr (gn_next n)
         else if uses_explicit_routing wfl then Inr None
         else Inr (list_successor wfl (gn_id n))))"

definition next_node :: "engine_ctx \<Rightarrow> workflow_spec \<Rightarrow> graph_node \<Rightarrow> run_state \<Rightarrow>
    (failure + string option) \<times> run_state" where
  "next_node c wfl n s =
     (let s' = s\<lparr>rs_metadata := drop_key ''quarantine_next'' (rs_metadata s)\<rparr>
      in case quarantine_next s of
           Some nxt \<Rightarrow> (Inr (Some nxt), s')
         | None \<Rightarrow> (declared_next c wfl n s', s'))"

section \<open>Opening a run\<close>

definition is_fresh_start :: "run_state \<Rightarrow> bool" where
  "is_fresh_start s =
     (rs_status s \<in> set [''queued'', ''running''] \<and> rs_results s = [] \<and> \<not> truthy (rs_pending_node s))"

definition completed_nodes :: "run_state \<Rightarrow> string list" where
  "completed_nodes s = List.map nr_node_id (filter (\<lambda>r. nr_status r = ''ok'') (rs_results s))"

definition last_with :: "string \<Rightarrow> run_state \<Rightarrow> string option" where
  "last_with status s =
     map_option nr_node_id (find (\<lambda>r. nr_status r = status) (rev (rs_results s)))"

text \<open>Where a run that has no pending node goes on: its last error, or after its last success.\<close>

definition cursor_of :: "engine_ctx \<Rightarrow> workflow_spec \<Rightarrow> run_state \<Rightarrow> (failure + string option) \<times> run_state" where
  "cursor_of c wfl s =
     (if truthy (rs_pending_node s) then (Inr (rs_pending_node s), s)
      else if truthy (last_with ''error'' s) then (Inr (last_with ''error'' s), s)
      else (case last_with ''ok'' s of
              None \<Rightarrow> (Inr None, s)
            | Some node \<Rightarrow>
                (case map_of (node_map wfl) node of
                   None \<Rightarrow> (Inr None, s)
                 | Some n \<Rightarrow> next_node c wfl n s)))"

definition keeps_pending :: "string option \<Rightarrow> run_state \<Rightarrow> pydict option" where
  "keeps_pending current s =
     (case (rs_pending s, current) of
        (Some d, Some node) \<Rightarrow>
          if vget d ''type'' \<in> {PStr ''approval'', PStr ''wait'', PStr ''converse''} \<and> node \<noteq> [] \<and>
             vget d ''node_id'' = PStr node
          then Some d else None
      | _ \<Rightarrow> None)"

definition reopen :: "string option \<Rightarrow> run_state \<Rightarrow> run_state" where
  "reopen current s =
     (let completed = completed_nodes s;
          s1 = (if truthy current
                then s\<lparr>rs_results := filter (\<lambda>r. \<not> (nr_node_id r = the current \<and> nr_status r = ''error''))
                          (rs_results s),
                       rs_node_outputs := (if the current \<in> set completed then rs_node_outputs s
                          else drop_key (the current) (rs_node_outputs s))\<rparr>
                else s)
      in s1\<lparr>rs_pending_node := None, rs_pending := keeps_pending current s, rs_status := ''running'',
            rs_finished_at := None\<rparr>)"

definition already_succeeded :: "run_state \<Rightarrow> failure" where
  "already_succeeded s =
     Raised AgentsErr ''WorkflowError'' (''Run '' @ rs_run_id s @ '' already succeeded. Use '' @
       in_quotes (''readyagents runs replay '' @ rs_run_id s) @ '' to start a new run.'')"

definition resume_cursor :: "engine_ctx \<Rightarrow> workflow_spec \<Rightarrow> run_state \<Rightarrow>
    failure + (string option \<times> string list) \<times> run_state" where
  "resume_cursor c wfl s =
     (if rs_status s = ''succeeded'' then Inl (already_succeeded s)
      else (case cursor_of c wfl s of
              (Inl f, s1) \<Rightarrow> Inl f
            | (Inr current, s1) \<Rightarrow> Inr ((current, completed_nodes s), reopen current s1)))"

definition with_inputs :: "pydict \<Rightarrow> pydict \<Rightarrow> run_state \<Rightarrow> run_state" where
  "with_inputs inputs metadata s =
     s\<lparr>rs_inputs := update_all (rs_inputs s) inputs, rs_metadata := update_all (rs_metadata s) metadata\<rparr>"

definition open_run :: "engine_ctx \<Rightarrow> workflow_spec \<Rightarrow> string \<Rightarrow> pydict \<Rightarrow> pydict \<Rightarrow> run_state option \<Rightarrow>
    failure + (string option \<times> string list) \<times> run_state" where
  "open_run c wfl run_id inputs metadata stored =
     (case stored of
        None \<Rightarrow> Inr ((Some (start_of wfl), []), start_run run_id (wf_name wfl) inputs metadata (ec_now c 0))
      | Some s \<Rightarrow>
          if is_fresh_start s then
            Inr ((Some (start_of wfl), []),
                 with_inputs inputs metadata (s\<lparr>rs_status := ''running'', rs_finished_at := None\<rparr>))
          else map_sum id (\<lambda>(cursor, s1). (cursor, with_inputs inputs metadata s1)) (resume_cursor c wfl s))"

definition begin_run :: "engine_ctx \<Rightarrow> engine_world \<Rightarrow> engine_world" where
  "begin_run c w =
     (let w = on_run seed_input_provenance w;
          w = (if ew_requested w then persist c False w else w)
      in emit (Audited ''run_started'') (persist c False w))"

section \<open>One step of the loop\<close>

definition MAX_STEPS :: nat where
  "MAX_STEPS = 500"

definition TAKES_USAGE :: "error_class list" where
  "TAKES_USAGE =
     [BudgetErr, RouteBudgetErr, AuthorizationErr, CircuitErr, PolicyDeniedErr, RunawayErr, RoutingErr,
      CapabilityErr]"

definition quarantined :: "pyval \<Rightarrow> pydict option" where
  "quarantined output =
     (case output of PDict d \<Rightarrow> if py_truth (vget d ''quarantined'') then Some d else None | _ \<Rightarrow> None)"

definition result_of :: "engine_ctx \<Rightarrow> string \<Rightarrow> engine_world \<Rightarrow> pyval \<Rightarrow> nat \<Rightarrow> usage \<Rightarrow> node_result" where
  "result_of c started w output attempt usage =
     blank_result\<lparr>
       nr_status := (if quarantined output = None then ''ok'' else ''quarantined''),
       nr_error := map_option (\<lambda>d. text_or (ec_text c) (vget d ''reason'') ''quarantined'') (quarantined output),
       nr_attempts := int attempt, nr_started_at := started, nr_finished_at := now_of c w,
       nr_usage := usage, nr_tool_rounds := ew_tool_rounds w, nr_route := ew_route w\<rparr>"

text \<open>\<open>_execute_with_policy\<close> of the engine: the execution and the record of its result.\<close>

definition run_node :: "engine_ctx \<Rightarrow> node_body \<Rightarrow> graph_node \<Rightarrow> engine_world \<Rightarrow>
    failure option \<times> engine_world" where
  "run_node c body n w =
     (let started = now_of c w in
      case execute_with_policy c body n w of
        (Inl f, w) \<Rightarrow>
          (Some f,
           case f of
             Raised k name message \<Rightarrow>
               if k \<in> set TAKES_USAGE then on_run (\<lambda>s. snd (take_node_usage s)) w else w
           | _ \<Rightarrow> w)
      | (Inr (output, attempt), w) \<Rightarrow>
          (let (usage, s) = take_node_usage (ew_run w);
               r = result_of c started w output attempt usage;
               s = record_node (gn_id n) output (gn_type n) (fn_output_key (gn_flow n)) r s;
               s = note_node_output (ec_text c) (ec_connector c) (gn_flow n) output s
           in (None, w\<lparr>ew_run := s, ew_tool_rounds := []\<rparr>)))"

text \<open>Failures after which the loop does not ask the token again.\<close>

definition direct_failure :: "failure \<Rightarrow> bool" where
  "direct_failure f =
     (case f of Raised k name message \<Rightarrow> k \<in> {CassetteMissErr, PolicyDeniedErr, ForeignErr} | _ \<Rightarrow> True)"

definition clear_pending :: "engine_world \<Rightarrow> engine_world" where
  "clear_pending w = on_run (\<lambda>s. s\<lparr>rs_pending_node := None, rs_pending := None\<rparr>) w"

definition run_step :: "engine_ctx \<Rightarrow> node_body \<Rightarrow> workflow_spec \<Rightarrow> graph_node \<Rightarrow> engine_world \<Rightarrow>
    (failure + string option) \<times> engine_world" where
  "run_step c body wfl n w =
     (let (requested, w) = poll c w in
      if requested then (Inl Cancelled, w)
      else (case run_node c body n (emit (NodeStarted (gn_id n)) w) of
        (Some f, w) \<Rightarrow>
          if direct_failure f then (Inl f, w)
          else (let (requested, w) = poll c w in (Inl (if requested then Cancelled else f), w))
      | (None, w) \<Rightarrow>
          (let (requested, w) = poll c w in
           if requested then (Inl Cancelled, w)
           else (let w = emit (Audited ''node_ok'') (persist c False (clear_pending w));
                     (nxt, s) = next_node c wfl n (ew_run w)
                 in (nxt, w\<lparr>ew_run := s\<rparr>)))))"

definition workflow_error :: "string \<Rightarrow> failure" where
  "workflow_error message = Raised AgentsErr ''WorkflowError'' message"

definition cycle_error :: "string \<Rightarrow> failure" where
  "cycle_error node =
     workflow_error (''Cycle detected at node '' @ in_quotes node)"

definition unknown_node :: "string \<Rightarrow> failure" where
  "unknown_node node = workflow_error (''Unknown node '' @ in_quotes node)"

definition too_many_steps :: failure where
  "too_many_steps = workflow_error ''Workflow exceeded 500 steps (possible cycle)''"

text \<open>The loop: the failure that ended it, if any, and the node it stood at.\<close>

fun run_loop :: "engine_ctx \<Rightarrow> node_body \<Rightarrow> workflow_spec \<Rightarrow> nat \<Rightarrow> string list \<Rightarrow> string option \<Rightarrow>
    engine_world \<Rightarrow> (failure option \<times> string option) \<times> engine_world" where
  "run_loop c body wfl 0 seen current w =
     (if \<not> truthy current then ((None, current), w) else ((Some too_many_steps, current), w))"
| "run_loop c body wfl (Suc left) seen current w =
     (if \<not> truthy current then ((None, current), w)
      else if the current \<in> set seen then ((Some (cycle_error (the current)), current), w)
      else (case map_of (node_map wfl) (the current) of
        None \<Rightarrow> ((Some (unknown_node (the current)), current), w)
      | Some n \<Rightarrow>
          (case run_step c body wfl n w of
             (Inl f, w) \<Rightarrow> ((Some f, current), w)
           | (Inr nxt, w) \<Rightarrow> run_loop c body wfl left (the current # seen) nxt w)))"

section \<open>Ending a run\<close>

definition type_at :: "workflow_spec \<Rightarrow> string option \<Rightarrow> string" where
  "type_at wfl current =
     (case current of
        None \<Rightarrow> ''?''
      | Some node \<Rightarrow> (case map_of (node_map wfl) node of None \<Rightarrow> ''?'' | Some n \<Rightarrow> gn_type n))"

definition node_at :: "workflow_spec \<Rightarrow> string option \<Rightarrow> graph_node option" where
  "node_at wfl current = (if truthy current then map_of (node_map wfl) (the current) else None)"

definition end_with :: "engine_ctx \<Rightarrow> string \<Rightarrow> string option \<Rightarrow> pydict \<Rightarrow> engine_world \<Rightarrow> engine_world" where
  "end_with c status current pending w =
     persist c False
       (on_run (\<lambda>s. finish status (now_of c w) (s\<lparr>rs_pending_node := current, rs_pending := Some pending\<rparr>)) w)"

definition finalize_cancelled :: "engine_ctx \<Rightarrow> workflow_spec \<Rightarrow> string option \<Rightarrow> engine_world \<Rightarrow>
    engine_world" where
  "finalize_cancelled c wfl current w =
     (if rs_status (ew_run w) = ''cancelled'' then w
      else
        (let w = on_run (\<lambda>s. finish ''cancelled'' (now_of c w)
                   (s\<lparr>rs_pending_node := current,
                      rs_pending := Some (cancelled_pending current (type_at wfl current))\<rparr>)) w
         in emit (Audited ''run_finished'') (emit (Persisted (ew_run w)) w)))"

text \<open>\<open>pending[k] = v\<close> for the fields of a pause, which cannot rename the node or the type.\<close>

definition with_pause :: "pydict option \<Rightarrow> pydict \<Rightarrow> pydict" where
  "with_pause pause base =
     update_all base (filter (\<lambda>(k, v). k \<noteq> ''node_id'' \<and> k \<noteq> ''type'') (case pause of None \<Rightarrow> [] | Some d \<Rightarrow> d))"

definition approval_pending :: "engine_ctx \<Rightarrow> graph_node option \<Rightarrow> string \<Rightarrow> string \<Rightarrow> string \<Rightarrow> pydict option \<Rightarrow>
    pydict" where
  "approval_pending c n run_id node prompt pause =
     with_pause pause
       [(''node_id'', PStr node), (''type'', PStr ''approval''), (''prompt'', PStr prompt),
        (''prompt_sha256'', PStr (ec_sha c prompt)),
        (''then'', of_opt_str (Option.bind n gn_then)), (''else'', of_opt_str (Option.bind n gn_else)),
        (''resume'', PStr (''readyagents resume '' @ run_id @ '' --approve '' @ node)),
        (''decide'', PStr (''readyagents decide '' @ run_id @ '' --node '' @ node @ '' --decision approve''))]"

definition reply_session :: "(rat \<Rightarrow> string) \<Rightarrow> string option \<Rightarrow> run_state \<Rightarrow> string option" where
  "reply_session fr sid s = (if truthy sid then sid else opt_text fr (vget (rs_metadata s) ''session_id''))"

definition reply_pending :: "graph_node option \<Rightarrow> string \<Rightarrow> string \<Rightarrow> string \<Rightarrow> string \<Rightarrow> string option \<Rightarrow>
    pydict option \<Rightarrow> pydict" where
  "reply_pending n run_id node say mode sid pause =
     with_pause pause
       [(''node_id'', PStr node), (''type'', PStr ''converse''), (''say'', PStr say), (''mode'', PStr mode),
        (''prompt'', PStr say), (''then'', of_opt_str (Option.bind n gn_then)),
        (''next'', of_opt_str (Option.bind n gn_next)), (''session_id'', of_opt_str sid),
        (''resume'', PStr (''readyagents sessions reply '' @ (if truthy sid then the sid else run_id)))]"

definition wait_pending :: "string \<Rightarrow> string \<Rightarrow> pydict \<Rightarrow> pydict option \<Rightarrow> pydict" where
  "wait_pending run_id node record pending =
     (case pending of
        Some (x # d) \<Rightarrow> x # d
      | _ \<Rightarrow>
          [(''node_id'', PStr node), (''type'', PStr ''wait''), (''wait'', PDict record),
           (''expires_at'', vget record ''deadline_at''), (''wake'', PStr (''readyagents wake '' @ run_id))])"

definition error_pending :: "string option \<Rightarrow> string \<Rightarrow> string \<Rightarrow> pydict" where
  "error_pending current type message =
     [(''node_id'', of_opt_str current), (''type'', PStr type), (''error'', PStr message)]"

definition handle_failure :: "engine_ctx \<Rightarrow> workflow_spec \<Rightarrow> failure \<Rightarrow> string option \<Rightarrow> engine_world \<Rightarrow>
    engine_world" where
  "handle_failure c wfl f current w =
     (let s = ew_run w; run_id = rs_run_id s; type = type_at wfl current; n = node_at wfl current in
      case f of
        Interrupted \<Rightarrow> end_with c ''cancelled'' current (cancelled_pending current type) w
      | Cancelled \<Rightarrow> finalize_cancelled c wfl current w
      | NeedsApproval node prompt pause \<Rightarrow>
          emit (Audited ''paused'')
            (end_with c ''paused'' current (approval_pending c n run_id node prompt pause) w)
      | NeedsReply node say mode sid pause \<Rightarrow>
          emit (Audited ''paused'')
            (end_with c ''paused'' current
               (reply_pending n run_id node say mode (reply_session (ec_text c) sid s) pause) w)
      | Parked node record pending \<Rightarrow>
          emit (Audited ''waiting'')
            (end_with c ''waiting'' (Some node) (wait_pending run_id node record pending) w)
      | Raised k name message \<Rightarrow>
          if k = ForeignErr then w
          else emit (Audited ''run_finished'')
            (end_with c ''failed'' current (error_pending current type message)
               (on_run (\<lambda>s. record_error (or_text current ''?'') type message 1 (now_of c w)
                              (snd (take_node_usage s))) w)))"

definition succeed :: "engine_ctx \<Rightarrow> engine_world \<Rightarrow> engine_world" where
  "succeed c w =
     emit (Audited ''run_finished'')
       (persist c False (on_run (finish ''succeeded'' (now_of c w)) (clear_pending w)))"

text \<open>The failure that \<open>run_workflow\<close> raises, with the state of the run in the world.\<close>

definition drive :: "engine_ctx \<Rightarrow> node_body \<Rightarrow> workflow_spec \<Rightarrow> string list \<Rightarrow> string option \<Rightarrow>
    engine_world \<Rightarrow> failure option \<times> engine_world" where
  "drive c body wfl seen current w =
     (let (requested, w) = poll c w in
      if requested then (Some Cancelled, handle_failure c wfl Cancelled current w)
      else (case run_loop c body wfl MAX_STEPS seen current w of
        ((Some f, current), w) \<Rightarrow> (Some f, handle_failure c wfl f current w)
      | ((None, current), w) \<Rightarrow>
          (let (requested, w) = poll c w in
           if requested then (Some Cancelled, handle_failure c wfl Cancelled current w)
           else (None, succeed c w))))"

definition run_workflow :: "engine_ctx \<Rightarrow> node_body \<Rightarrow> workflow_spec \<Rightarrow> string \<Rightarrow> pydict \<Rightarrow> pydict \<Rightarrow>
    run_state option \<Rightarrow> engine_world \<Rightarrow> failure option \<times> engine_world" where
  "run_workflow c body wfl run_id inputs metadata stored w =
     (case open_run c wfl run_id inputs metadata stored of
        Inl f \<Rightarrow> (Some f, w)
      | Inr ((current, seen), s) \<Rightarrow> drive c body wfl seen current (begin_run c (w\<lparr>ew_run := s\<rparr>)))"

end
