(* ===== verification/EngineLaws.thy ===== *)
theory EngineLaws
  imports Engine
begin

text \<open>
  What the executions of nodes and the run loop leave alone: the results recorded so far, the nodes
  started so far, the record last saved. A body of a node is an interface: it may change the state
  of its run and persist it, but records no result, starts no node and does not end the run.
\<close>

section \<open>Progress\<close>

definition started :: "engine_event list \<Rightarrow> string list" where
  "started tr = concat (List.map (\<lambda>e. case e of NodeStarted n \<Rightarrow> [n] | _ \<Rightarrow> []) tr)"

definition saved :: "engine_event list \<Rightarrow> run_state list" where
  "saved tr = concat (List.map (\<lambda>e. case e of Persisted s \<Rightarrow> [s] | _ \<Rightarrow> []) tr)"

definition last_saved :: "engine_event list \<Rightarrow> run_state option" where
  "last_saved tr = (if saved tr = [] then None else Some (last (saved tr)))"

lemma trace_simps [simp]:
  "started [] = []" "started (xs @ ys) = started xs @ started ys"
  "started (NodeStarted n # tr) = n # started tr" "started (Persisted s # tr) = started tr"
  "started (Audited a # tr) = started tr" "started (Slept x # tr) = started tr"
  "started (Attempted n k # tr) = started tr"
  "saved [] = []" "saved (xs @ ys) = saved xs @ saved ys"
  "saved (NodeStarted n # tr) = saved tr" "saved (Persisted s # tr) = s # saved tr"
  "saved (Audited a # tr) = saved tr" "saved (Slept x # tr) = saved tr"
  "saved (Attempted n k # tr) = saved tr"
  by (simp_all add: started_def saved_def)

lemma last_saved_simps [simp]:
  "last_saved (tr @ [Persisted s]) = Some s"
  "last_saved (tr @ [Audited a]) = last_saved tr"
  "last_saved (tr @ [NodeStarted n]) = last_saved tr"
  by (simp_all add: last_saved_def)

text \<open>Events that belong to a state with the results \<open>rs\<close>.\<close>

definition quiet :: "node_result list \<Rightarrow> engine_event \<Rightarrow> bool" where
  "quiet rs e = (case e of Persisted s \<Rightarrow> rs_results s = rs | NodeStarted n \<Rightarrow> False | _ \<Rightarrow> True)"

text \<open>A route that a quarantine chose is in the metadata; only an audited quarantine changes it.\<close>

definition chosen_route :: "run_state \<Rightarrow> pyval option" where
  "chosen_route s = map_of (rs_metadata s) ''quarantine_next''"

definition quarantine_audited :: "engine_event list \<Rightarrow> bool" where
  "quarantine_audited tr = (Audited ''health_quarantine'' \<in> set tr)"

definition advances :: "engine_world \<Rightarrow> engine_world \<Rightarrow> bool" where
  "advances w w' =
     (rs_results (ew_run w') = rs_results (ew_run w) \<and>
      (\<exists>tr. ew_trace w' = ew_trace w @ tr \<and> list_all (quiet (rs_results (ew_run w))) tr \<and>
         (quarantine_audited tr \<or> chosen_route (ew_run w') = chosen_route (ew_run w))))"

lemma chosen_route_set [simp]:
  "k \<noteq> ''quarantine_next'' \<Longrightarrow> chosen_route (s\<lparr>rs_metadata := dset k v (rs_metadata s)\<rparr>) = chosen_route s"
  by (simp add: chosen_route_def)

lemma quarantine_audited_simps [simp]:
  "quarantine_audited [] = False" "quarantine_audited (xs @ ys) = (quarantine_audited xs \<or> quarantine_audited ys)"
  "quarantine_audited (e # xs) = (e = Audited ''health_quarantine'' \<or> quarantine_audited xs)"
  by (auto simp: quarantine_audited_def)

lemma quiet_simps [simp]:
  "quiet rs (Persisted s) = (rs_results s = rs)" "quiet rs (Audited a)" "quiet rs (Slept x)"
  "quiet rs (Attempted n k)" "\<not> quiet rs (NodeStarted n)"
  by (simp_all add: quiet_def)

lemma advances_refl [simp]: "advances w w"
  by (simp add: advances_def)

lemma advances_trans [trans]: "advances u v \<Longrightarrow> advances v w \<Longrightarrow> advances u w"
  by (fastforce simp: advances_def)

lemma advances_emit: "quiet (rs_results (ew_run w)) e \<Longrightarrow> advances w (emit e w)"
  by (simp add: advances_def)

lemma advances_same: "ew_run w' = ew_run w \<Longrightarrow> ew_trace w' = ew_trace w \<Longrightarrow> advances w w'"
  by (simp add: advances_def)

lemma advances_run:
  "rs_results (f (ew_run w)) = rs_results (ew_run w) \<Longrightarrow> chosen_route (f (ew_run w)) = chosen_route (ew_run w) \<Longrightarrow>
   advances w (on_run f w)"
  by (simp add: advances_def)

lemma quiet_started: "list_all (quiet rs) tr \<Longrightarrow> started tr = []"
  by (induction tr) (auto simp: started_def quiet_def split: engine_event.splits)

lemma quiet_saved: "list_all (quiet rs) tr \<Longrightarrow> s \<in> set (saved tr) \<Longrightarrow> rs_results s = rs"
  by (induction tr) (auto simp: saved_def quiet_def split: engine_event.splits)

lemma advances_started: "advances w w' \<Longrightarrow> started (ew_trace w') = started (ew_trace w)"
  by (auto simp: advances_def quiet_started)

section \<open>Live and stopped runs\<close>

definition live :: "engine_world \<Rightarrow> bool" where
  "live w = (rs_status (ew_run w) = ''running'' \<or> rs_status (ew_run w) = ''cancel_requested'')"

definition stopped :: "engine_world \<Rightarrow> bool" where
  "stopped w = (rs_status (ew_run w) = ''cancelled'' \<and> last_saved (ew_trace w) = Some (ew_run w))"

lemma live_same: "rs_status (ew_run w') = rs_status (ew_run w) \<Longrightarrow> live w' = live w"
  by (simp add: live_def)

lemma live_emit [simp]: "live (emit e w) = live w"
  by (simp add: live_def)

lemma store_spend_frame [simp]:
  "rs_results (ew_run (store_spend w)) = rs_results (ew_run w)"
  "rs_status (ew_run (store_spend w)) = rs_status (ew_run w)"
  "rs_pending_node (ew_run (store_spend w)) = rs_pending_node (ew_run w)"
  "rs_pending (ew_run (store_spend w)) = rs_pending (ew_run w)"
  "rs_run_id (ew_run (store_spend w)) = rs_run_id (ew_run w)"
  "ew_trace (store_spend w) = ew_trace w" "ew_requested (store_spend w) = ew_requested w"
  "chosen_route (ew_run (store_spend w)) = chosen_route (ew_run w)"
  by (simp_all add: store_spend_def Let_def chosen_route_def split: option.split)

lemma settle_request_frame [simp]:
  "rs_results (settle_request now r i s) = rs_results s"
  "rs_pending_node (settle_request now r i s) = rs_pending_node s"
  "rs_run_id (settle_request now r i s) = rs_run_id s"
  "chosen_route (settle_request now r i s) = chosen_route s"
  by (simp_all add: settle_request_def finish_def chosen_route_def)

lemma note_node_output_frame [simp]:
  "rs_results (note_node_output fr connector n out s) = rs_results s"
  "rs_status (note_node_output fr connector n out s) = rs_status s"
  "chosen_route (note_node_output fr connector n out s) = chosen_route s"
  "rs_node_outputs (note_node_output fr connector n out s) = rs_node_outputs s"
  by (simp_all add: note_node_output_def note_output_def set_provenance_def Let_def chosen_route_def)

lemma record_node_frame [simp]:
  "rs_status (record_node i out ty key r s) = rs_status s"
  "chosen_route (record_node i out ty key r s) = chosen_route s"
  by (simp_all add: record_node_def chosen_route_def)

lemma take_node_usage_frame [simp]:
  "rs_results (snd (take_node_usage s)) = rs_results s"
  "rs_status (snd (take_node_usage s)) = rs_status s"
  "chosen_route (snd (take_node_usage s)) = chosen_route s"
  by (simp_all add: take_node_usage_def chosen_route_def)

lemma persist_frame [simp]:
  "rs_results (ew_run (persist c i w)) = rs_results (ew_run w)"
  "rs_pending_node (ew_run (persist c i w)) = rs_pending_node (ew_run w)"
  "rs_run_id (ew_run (persist c i w)) = rs_run_id (ew_run w)"
  "ew_trace (persist c i w) = ew_trace w @ [Persisted (ew_run (persist c i w))]"
  "ew_requested (persist c i w) = ew_requested w"
  "chosen_route (ew_run (persist c i w)) = chosen_route (ew_run w)"
  by (simp_all add: persist_def Let_def)

lemma persist_advances: "advances w (persist c i w)"
  by (simp add: advances_def)

lemma persist_status:
  "rs_status (ew_run (persist c i w)) =
     (if \<not> ew_requested w \<or> rs_status (ew_run w) \<in> set TERMINAL then rs_status (ew_run w)
      else if i then ''cancel_requested'' else ''cancelled'')"
  by (simp add: persist_def Let_def settle_request_def finish_def)

lemma live_not_terminal: "live w \<Longrightarrow> rs_status (ew_run w) \<notin> set TERMINAL"
  by (auto simp: live_def TERMINAL_def)

lemma persist_live: "live w \<Longrightarrow> live (persist c i w) \<or> ew_requested w \<and> \<not> i \<and> stopped (persist c i w)"
  using persist_status [of c i w] live_not_terminal [of w]
  by (auto simp: live_def stopped_def)

lemma request_cancel_frame:
  "advances w (request_cancel c i w)" "ew_requested (request_cancel c i w)"
proof -
  have "advances w (w\<lparr>ew_requested := True\<rparr>)" by (simp add: advances_def)
  with persist_advances [of "w\<lparr>ew_requested := True\<rparr>" c i] advances_trans
  show "advances w (request_cancel c i w)" by (auto simp: request_cancel_def)
  show "ew_requested (request_cancel c i w)" by (simp add: request_cancel_def)
qed

lemma poll_advances: "poll c w = (r, w') \<Longrightarrow> advances w w'"
proof -
  assume p: "poll c w = (r, w')"
  let ?v = "if ec_arrives c (ew_polls w) then request_cancel c False w else w"
  have "advances w ?v" using request_cancel_frame(1) by simp
  moreover have "w' = ?v\<lparr>ew_polls := Suc (ew_polls ?v)\<rparr>" using p by (simp add: poll_def Let_def)
  then have "advances ?v w'" by (simp add: advances_same)
  ultimately show ?thesis by (rule advances_trans)
qed

lemma poll_live: "poll c w = (r, w') \<Longrightarrow> live w \<Longrightarrow> live w' \<or> r \<and> stopped w'"
  using persist_live [of "w\<lparr>ew_requested := True\<rparr>" c False]
  by (auto simp: poll_def Let_def request_cancel_def live_def stopped_def split: if_splits)

lemma sleep_advances: "cancellable_sleep c x w = (r, w') \<Longrightarrow> advances w w'"
proof -
  assume s: "cancellable_sleep c x w = (r, w')"
  obtain r1 w1 where p: "poll c w = (r1, w1)" by force
  note first = poll_advances [OF p]
  show ?thesis
  proof (cases "r1 \<or> x \<le> 0")
    case True
    with s p first show ?thesis by (auto simp: cancellable_sleep_def)
  next
    case False
    with s p have "poll c (emit (Slept x) w1) = (r, w')" by (simp add: cancellable_sleep_def)
    note last = poll_advances [OF this]
    have "advances w1 (emit (Slept x) w1)" by (simp add: advances_emit)
    from first this last show ?thesis using advances_trans by blast
  qed
qed

lemma sleep_live: "cancellable_sleep c x w = (r, w') \<Longrightarrow> live w \<Longrightarrow> live w' \<or> r \<and> stopped w'"
  by (auto simp: cancellable_sleep_def Let_def stopped_def live_def split: prod.splits if_splits
      dest!: poll_live)

section \<open>Executions\<close>

text \<open>Failures an execution can end with: never an error of the run loop itself.\<close>

definition node_failure :: "failure \<Rightarrow> bool" where
  "node_failure f =
     (case f of
        Raised k name message \<Rightarrow> k \<noteq> ForeignErr \<and> (k \<noteq> AgentsErr \<or> name = ''ConfigError'') | _ \<Rightarrow> True)"

lemma give_up_node_failure [simp]: "node_failure (give_up n f)"
  by (auto simp: give_up_def node_error_def node_failure_def split: option.split failure.split error_class.split)

lemma route_frame [simp]:
  "chosen_route (record_adaptation i note s) = chosen_route s"
  "chosen_route (record_implicit fr ident now i spec kind reason original model s) = chosen_route s"
  by (auto simp: record_adaptation_def record_implicit_def append_correction_def record_consent_def
      chosen_route_def Let_def split: option.split pyval.split)

lemma declared_recovery_frame:
  "declared_recovery c n name message w = (m, w') \<Longrightarrow> advances w w' \<and> (live w \<longrightarrow> live w')"
  by (auto simp: declared_recovery_def Let_def advances_def live_def split: option.splits prod.splits)

lemma note_retry_frame: "advances w (note_retry c n reason w)" "live (note_retry c n reason w) = live w"
  by (simp_all add: note_retry_def advances_def live_def)

lemma fatal_classes: "k \<in> set FATAL \<or> k \<in> set BUDGETS \<Longrightarrow> k \<noteq> AgentsErr \<and> k \<noteq> ForeignErr"
  by (auto simp: FATAL_def BUDGETS_def)

lemma judge_frame:
  assumes "judge c n f w = (v, w')"
  shows "advances w w'" "live w \<Longrightarrow> live w'" "v = Fatal g \<Longrightarrow> node_failure g"
proof -
  have *: "advances w w' \<and> (live w \<longrightarrow> live w') \<and> (v = Fatal g \<longrightarrow> node_failure g)"
  proof (cases f)
    case (Raised k name message)
    obtain m u where r: "declared_recovery c n name message w = (m, u)" by force
    note frame = declared_recovery_frame [OF r]
    have u: "advances w (note_retry c n message u)" "live w \<longrightarrow> live (note_retry c n message u)"
      using frame note_retry_frame [where w = u and c = c and n = n and reason = message] advances_trans by blast+
    consider "k \<in> set FATAL" | "k \<notin> set FATAL" "k \<in> set BUDGETS"
      | "k \<notin> set FATAL" "k \<notin> set BUDGETS" by blast
    then show ?thesis
    proof cases
      case 1
      with assms Raised fatal_classes [of k] show ?thesis by (auto simp: judge_def node_failure_def)
    next
      case 2
      with assms Raised r frame u fatal_classes [of k] show ?thesis
        by (cases m) (auto simp: judge_def node_failure_def)
    next
      case 3
      with assms Raised r frame show ?thesis
        by (cases m) (auto simp: judge_def split: if_splits)
    qed
  qed (use assms in \<open>auto simp: judge_def node_failure_def\<close>)
  then show "advances w w'" "live w \<Longrightarrow> live w'" "v = Fatal g \<Longrightarrow> node_failure g" by auto
qed

lemma note_quarantine_frame [simp]:
  "rs_results (note_quarantine n d s) = rs_results s"
  "rs_status (note_quarantine n d s) = rs_status s"
  by (simp_all add: note_quarantine_def split: option.split pyval.split)

lemma health_quarantine_frame:
  assumes "health_quarantine c n w = (r, w')"
  shows "advances w w'" "live w \<Longrightarrow> live w'" "r = Some (Inl f) \<Longrightarrow> node_failure f"
proof -
  have *: "advances w w' \<and> (live w \<longrightarrow> live w') \<and> (r = Some (Inl f) \<longrightarrow> node_failure f)"
  proof (cases "node_decision c n (ew_run w)")
    case (Inl e)
    with assms show ?thesis by (auto simp: health_quarantine_def node_failure_def)
  next
    case (Inr x)
    show ?thesis
    proof (cases x)
      case None
      with Inr assms show ?thesis by (auto simp: health_quarantine_def)
    next
      case (Some d)
      show ?thesis
      proof (cases "qd_action d = ''fallback'' \<and> truthy (qd_fallback d)")
        case True
        with Inr Some assms have "r = Some (Inr (quarantined_output (the (qd_fallback d)) (qd_reason d)))"
          and w': "w' = on_run (\<lambda>s. s\<lparr>rs_metadata := dset ''quarantine_next'' (PStr (the (qd_fallback d)))
            (rs_metadata s)\<rparr>) (emit (Audited ''health_quarantine'') (on_run (note_quarantine (gn_id n) d) w))"
          by (simp_all add: health_quarantine_def Let_def)
        then show ?thesis by (simp add: advances_def live_def)
      next
        case False
        with Inr Some assms have "r = Some (Inl (NeedsApproval (gn_id n) (qd_reason d) (Some (gate_pause d))))"
          "w' = emit (Audited ''health_quarantine'') (on_run (note_quarantine (gn_id n) d) w)"
          by (simp_all add: health_quarantine_def Let_def)
        then show ?thesis by (auto simp: advances_def live_def node_failure_def)
      qed
    qed
  qed
  then show "advances w w'" "live w \<Longrightarrow> live w'" "r = Some (Inl f) \<Longrightarrow> node_failure f" by auto
qed

text \<open>The interface of a body.\<close>

locale node_runner =
  fixes body :: node_body
  assumes body_advances: "advances w (snd (body n k w))"
    and body_live: "live w \<Longrightarrow> live (snd (body n k w))"
begin

lemma call_frame:
  assumes "call_with_timeout c body n k w = (r, w')"
  shows "advances w w'" "live w \<Longrightarrow> live w'"
proof -
  obtain r1 w1 where b: "body n k (emit (Attempted (gn_id n) k) w) = (r1, w1)" by force
  have w': "w' = w1" using assms b by (auto simp: call_with_timeout_def split: option.splits if_splits)
  have "advances w (emit (Attempted (gn_id n) k) w)" by (simp add: advances_emit)
  moreover have "advances (emit (Attempted (gn_id n) k) w) w'"
    using body_advances [of "emit (Attempted (gn_id n) k) w" n k] b w' by simp
  ultimately show "advances w w'" by (rule advances_trans)
  show "live w \<Longrightarrow> live w'" using body_live [of "emit (Attempted (gn_id n) k) w" n k] b w' by simp
qed

lemma try_once_frame:
  assumes "try_once c body n k w = (v, w')" "live w"
  shows "advances w w' \<and> (live w' \<or> v = Fatal Cancelled \<and> stopped w') \<and>
    (v = Fatal f \<longrightarrow> node_failure f)"
proof -
  obtain r1 w1 where p: "poll c w = (r1, w1)" by force
  note poll = poll_advances [OF p] poll_live [OF p assms(2)]
  show ?thesis
  proof (cases r1)
    case True
    with assms p poll show ?thesis by (auto simp: try_once_def node_failure_def)
  next
    case False
    with poll have w1: "live w1" by simp
    obtain r2 w2 where b: "call_with_timeout c body n k w1 = (r2, w2)" by force
    note call = call_frame [OF b]
    have w2: "advances w w2" "live w2" using poll call w1 advances_trans by blast+
    show ?thesis
    proof (cases r2)
      case (Inr x)
      with False assms p b w2 show ?thesis by (auto simp: try_once_def)
    next
      case (Inl g)
      with False assms p b have j: "judge c n g w2 = (v, w')" by (simp add: try_once_def)
      from judge_frame [OF j] w2 advances_trans show ?thesis by blast
    qed
  qed
qed

lemma attempts_frame:
  assumes "attempts c body n left bonus k e w = (r, w')" "live w"
  shows "advances w w' \<and> (live w' \<or> r = Inl Cancelled \<and> stopped w') \<and> (\<forall>f. r = Inl f \<longrightarrow> node_failure f)"
  using assms
proof (induction "left + (if bonus then 0 else 1)" arbitrary: left bonus k e w rule: less_induct)
  case less
  show ?case
  proof (cases left)
    case 0
    with less.prems show ?thesis by auto
  next
    case (Suc l)
    obtain v w1 where t: "try_once c body n (Suc k) w = (v, w1)" by force
    note once = try_once_frame [OF t less.prems(2)]
    show ?thesis
    proof (cases v)
      case (Success x)
      with less.prems Suc t once show ?thesis by auto
    next
      case (Fatal g)
      with less.prems Suc t once show ?thesis by auto
    next
      case (Retry g granted delay)
      with once have w1: "advances w w1" "live w1" by auto
      let ?l = "if granted \<and> \<not> bonus then Suc l else l"
      let ?x = "case delay of Some s \<Rightarrow> s
        | None \<Rightarrow> fst (snd (retry_of c n)) * snd (snd (retry_of c n)) ^ k"
      let ?v = "case delay of Some s \<Rightarrow> w1 | None \<Rightarrow> note_retry c n (message_of g) w1"
      obtain q w2 where s: "cancellable_sleep c ?x ?v = (q, w2)" by force
      have v: "advances w ?v" "live ?v"
        using w1 note_retry_frame [where w = w1 and c = c and n = n and reason = "message_of g"] advances_trans
        by (auto split: option.split)
      have w2: "advances w w2" "live w2 \<or> q \<and> stopped w2"
        using v sleep_advances [OF s] sleep_live [OF s] advances_trans by blast+
      show ?thesis
      proof (cases "delay = None \<and> ?l = 0")
        case True
        with less.prems Suc t Retry w1 show ?thesis by (auto split: if_splits)
      next
        case False
        show ?thesis
        proof (cases q)
          case True
          with False less.prems(1) Suc t Retry s have "r = Inl Cancelled" "w' = w2"
            by (auto split: option.splits)
          with w2 \<open>q\<close> show ?thesis by (auto simp: node_failure_def)
        next
          case q: False
          with False less.prems(1) Suc t Retry s
          have rest: "attempts c body n ?l (bonus \<or> granted) (Suc k) (Some g) w2 = (r, w')"
            by (auto split: option.splits)
          have "?l + (if bonus \<or> granted then 0 else 1) < left + (if bonus then 0 else 1)"
            using Suc by auto
          from less.hyps [OF this rest] w2 q advances_trans show ?thesis by blast
        qed
      qed
    qed
  qed
qed

lemma execute_frame:
  assumes "execute_with_policy c body n w = (r, w')" "live w"
  shows "advances w w' \<and> (live w' \<or> r = Inl Cancelled \<and> stopped w') \<and> (\<forall>f. r = Inl f \<longrightarrow> node_failure f)"
proof -
  obtain q w1 where h: "health_quarantine c n w = (q, w1)" by force
  note quarantine = health_quarantine_frame [OF h]
  show ?thesis
  proof (cases q)
    case None
    with assms h have "attempts c body n (fst (retry_of c n)) False 0 None w1 = (r, w')"
      by (simp add: execute_with_policy_def)
    from attempts_frame [OF this] quarantine assms(2) advances_trans show ?thesis by blast
  next
    case (Some x)
    with assms h quarantine show ?thesis
      by (cases x) (auto simp: execute_with_policy_def)
  qed
qed

text \<open>The execution of a node and the record of its result.\<close>

lemma run_node_frame:
  assumes "run_node c body n w = (r, w')" "live w"
  shows "case r of
      Some f \<Rightarrow> advances w w' \<and> (live w' \<or> f = Cancelled \<and> stopped w') \<and> node_failure f
    | None \<Rightarrow> live w' \<and> (\<exists>v x. advances w v \<and> ew_trace w' = ew_trace v \<and> nr_node_id x = gn_id n \<and>
        rs_results (ew_run w') = rs_results (ew_run w) @ [x])"
proof -
  obtain q v where e: "execute_with_policy c body n w = (q, v)" by force
  note frame = execute_frame [OF e assms(2)]
  show ?thesis
  proof (cases q)
    case (Inl f)
    with assms(1) e have r: "r = Some f" by (simp add: run_node_def)
    show ?thesis
    proof (cases "w' = v")
      case True
      with frame Inl r show ?thesis by auto
    next
      case False
      with assms(1) e Inl have w': "w' = on_run (\<lambda>s. snd (take_node_usage s)) v" "f \<noteq> Cancelled"
        by (auto simp: run_node_def split: failure.splits if_splits)
      have "advances v w'" "live w' = live v"
        unfolding w'(1) by (simp_all add: advances_def live_def)
      with frame Inl r w'(2) advances_trans show ?thesis by auto
    qed
  next
    case (Inr x)
    then obtain out k where q: "q = Inr (out, k)" by (cases x) auto
    define a where "a = result_of c (now_of c w) v out k (rs_last_node_usage (ew_run v))"
    from assms(1) e q have r: "r = None" and w': "w' = v\<lparr>ew_run := note_node_output (ec_text c) (ec_connector c)
        (gn_flow n) out (record_node (gn_id n) out (gn_type n) (fn_output_key (gn_flow n)) a
          (snd (take_node_usage (ew_run v)))), ew_tool_rounds := []\<rparr>"
      by (simp_all add: run_node_def take_node_usage_def a_def Let_def)
    have v: "advances w v" "live v" using frame q by auto
    then have old: "rs_results (ew_run v) = rs_results (ew_run w)" by (simp add: advances_def)
    have "live w'" using v unfolding w' by (simp add: live_def)
    moreover have "ew_trace w' = ew_trace v" by (simp add: w')
    moreover have "\<exists>x. nr_node_id x = gn_id n \<and> rs_results (ew_run w') = rs_results (ew_run w) @ [x]"
      unfolding w' by (simp add: record_node_def old)
    ultimately show ?thesis using v(1) r by auto
  qed
qed

end

end
