(* ===== verification/Nodes.thy ===== *)
theory Nodes
  imports Engine ApprovalNode
begin

text \<open>
  The body of a node, \<open>_execute_node_body\<close> in \<open>workflow/nodes.py\<close>: the policy gate, the choice of the
  handler, the transform and condition nodes, the contract of the output. The other node types, the
  handlers of packs, contracts and \<open>json.loads\<close> are arguments.
\<close>

section \<open>The context of a body\<close>

record body_ctx =
  bd_gated :: "string \<Rightarrow> bool"
  bd_dry_run :: bool
  bd_parse_json :: "string \<Rightarrow> bool"
  bd_json_path :: "string \<Rightarrow> string option"
  bd_loads :: "string \<Rightarrow> string + pyval"
  bd_extra :: "string \<Rightarrow> node_body option"
  bd_runner :: "string \<Rightarrow> node_body option"
  bd_contract :: "string \<Rightarrow> (pyval \<Rightarrow> engine_world \<Rightarrow> (failure + pyval) \<times> engine_world) option"

definition NODE_TYPES :: "string list" where
  "NODE_TYPES =
     [''agent'', ''tool'', ''condition'', ''transform'', ''approval'', ''parallel'', ''include'', ''foreach'',
      ''a2a'', ''memory'', ''code'', ''team'', ''document'', ''transcribe'', ''ingest'', ''table'', ''classify'',
      ''wait'', ''skill'', ''browser'', ''converse'', ''decide'']"

section \<open>The policy gate\<close>

text \<open>\<open>decision_for\<close>: a run started over MCP consumes the decision it reads.\<close>

definition consume_decision :: "string \<Rightarrow> engine_world \<Rightarrow> string option \<times> engine_world" where
  "consume_decision node w =
     (let value = map_of (ew_decisions w) node in
      if \<not> truthy value then (None, w)
      else if py_truth (vget (rs_metadata (ew_run w)) ''mcp_consume_decisions'')
        then (value, w\<lparr>ew_decisions := AList.delete node (ew_decisions w)\<rparr>)
      else (value, w))"

definition gate_rule :: "graph_node \<Rightarrow> string" where
  "gate_rule n = ''(rule nodes.'' @ gn_id n @ ''.require_approval)''"

definition gate_text :: "graph_node \<Rightarrow> string" where
  "gate_text n = ''Policy requires approval before node '' @ in_quotes (gn_id n)"

definition body_gate :: "body_ctx \<Rightarrow> graph_node \<Rightarrow> engine_world \<Rightarrow> failure option \<times> engine_world" where
  "body_gate b n w =
     (if gn_type n = ''code'' \<or> \<not> bd_gated b (gn_id n) then (None, w)
      else (case consume_decision (gn_id n) w of
              (None, w) \<Rightarrow> (Some (NeedsApproval (gn_id n) (gate_text n @ '' '' @ gate_rule n) None), w)
            | (Some d, w) \<Rightarrow>
                if d \<in> set APPROVE_VALUES then (None, w)
                else (Some (Raised PolicyDeniedErr ''PolicyDenied''
                        (''Node '' @ in_quotes (gn_id n) @ '': '' @ gate_text n @
                         '' was not granted '' @ gate_rule n)), w)))"

section \<open>Transform\<close>

text \<open>\<open>text[text.find(open) : text.rfind(close) + 1]\<close>, when \<open>close\<close> comes after \<open>open\<close>.\<close>

definition between :: "char \<Rightarrow> char \<Rightarrow> string \<Rightarrow> string option" where
  "between opens closes text =
     (let s = dropWhile (\<lambda>ch. ch \<noteq> opens) text;
          t = rev (dropWhile (\<lambda>ch. ch \<noteq> closes) (rev s))
      in if s = [] \<or> length t < 2 then None else Some t)"

definition template_failure :: "string \<Rightarrow> failure" where
  "template_failure message = Raised AgentsErr ''TemplateError'' message"

definition tool_failure :: "string \<Rightarrow> failure" where
  "tool_failure message = Raised AgentsErr ''ToolError'' message"

definition parse_json_lenient :: "(string \<Rightarrow> string + pyval) \<Rightarrow> string \<Rightarrow> failure + pyval" where
  "parse_json_lenient loads text =
     (let stripped = strip text;
          object = Option.bind (between CHR ''{'' CHR ''}'' stripped)
                     (\<lambda>t. case loads t of Inl e \<Rightarrow> None | Inr v \<Rightarrow> Some v)
      in case loads stripped of
           Inr v \<Rightarrow> Inr v
         | Inl e \<Rightarrow>
             (case object of
                Some v \<Rightarrow> Inr v
              | None \<Rightarrow>
                  (case between CHR ''['' CHR '']'' stripped of
                     None \<Rightarrow> Inl (tool_failure ''transform parse_json: could not parse JSON from text'')
                   | Some t \<Rightarrow>
                       (case loads t of
                          Inl e \<Rightarrow> Inl (Raised ForeignErr ''JSONDecodeError'' e)
                        | Inr v \<Rightarrow> Inr v))))"

definition transform_input :: "(rat \<Rightarrow> string) \<Rightarrow> flow_node \<Rightarrow> run_state \<Rightarrow> failure + pyval" where
  "transform_input fr n s =
     (case fn_template n of
        Some t \<Rightarrow>
          (case interpolate fr t (mapping s) of
             Inl e \<Rightarrow> Inl (template_failure (template_message e)) | Inr text \<Rightarrow> Inr (PStr text))
      | None \<Rightarrow>
          if truthy (fn_source n) then
            (case lookup_path (mapping s) (the (fn_source n)) of
               None \<Rightarrow> Inl (template_failure (template_message (MissingVariable (the (fn_source n)))))
             | Some v \<Rightarrow> Inr v)
          else if rs_results s = [] then
            Inl (template_failure ''transform has no source and no prior node output'')
          else (case map_of (rs_node_outputs s) (nr_node_id (last (rs_results s))) of
                  None \<Rightarrow> Inl (Raised ForeignErr ''KeyError'' (in_quotes (nr_node_id (last (rs_results s)))))
                | Some v \<Rightarrow> Inr v))"

definition transform_parse :: "body_ctx \<Rightarrow> string \<Rightarrow> pyval \<Rightarrow> failure + pyval" where
  "transform_parse b node v =
     (case v of
        PStr text \<Rightarrow>
          if \<not> bd_parse_json b node then Inr v
          else if bd_dry_run b \<and> starts_with (lstrip text) ''[dry-run]''
            then Inr (PDict [(''dry_run'', PBool True)])
          else parse_json_lenient (bd_loads b) text
      | _ \<Rightarrow> Inr v)"

definition transform_path :: "body_ctx \<Rightarrow> string \<Rightarrow> pyval \<Rightarrow> failure + pyval" where
  "transform_path b node v =
     (if \<not> truthy (bd_json_path b node) then Inr v
      else
        (let path = the (bd_json_path b node);
             data = (case v of
                       PStr text \<Rightarrow>
                         (case bd_loads b text of
                            Inl e \<Rightarrow> Inl (tool_failure (''transform json_path: value is not JSON: '' @ e))
                          | Inr d \<Rightarrow> Inr d)
                     | _ \<Rightarrow> Inr v)
         in rbind data (\<lambda>d. case resolve_path d path of
              None \<Rightarrow> Inl (template_failure (template_message (MissingVariable path))) | Some x \<Rightarrow> Inr x)))"

definition run_transform :: "(rat \<Rightarrow> string) \<Rightarrow> body_ctx \<Rightarrow> flow_node \<Rightarrow> run_state \<Rightarrow> failure + pyval" where
  "run_transform fr b n s =
     rbind (transform_input fr n s)
       (\<lambda>v. rbind (transform_parse b (fn_id n) v) (transform_path b (fn_id n)))"

section \<open>Condition\<close>

definition run_condition :: "(rat \<Rightarrow> string) \<Rightarrow> (string \<Rightarrow> rat option) \<Rightarrow> graph_node \<Rightarrow> run_state \<Rightarrow>
    failure + pyval" where
  "run_condition fr pf n s =
     (case evaluate_condition fr pf (or_empty (fn_when (gn_flow n))) (mapping s) of
        Inl e \<Rightarrow> Inl (cond_failure e)
      | Inr matched \<Rightarrow>
          Inr (PDict [(''matched'', PBool matched),
                      (''next'', of_opt_str (if matched then gn_then n else gn_else n))]))"

section \<open>The body\<close>

definition unsupported_type :: "graph_node \<Rightarrow> failure" where
  "unsupported_type n =
     workflow_error (''Unsupported node type '' @ in_quotes (gn_type n) @ '' on node '' @
       in_quotes (gn_id n) @ ''. Known types: '' @ join_with '', '' NODE_TYPES @
       ''. Packs may register extra types via readyagents.packs.'')"

definition run_handler :: "engine_ctx \<Rightarrow> body_ctx \<Rightarrow> node_body" where
  "run_handler c b n k w =
     (case bd_extra b (gn_type n) of
        Some h \<Rightarrow> h n k w
      | None \<Rightarrow>
          if gn_type n = ''transform'' then (run_transform (ec_text c) b (gn_flow n) (ew_run w), w)
          else if gn_type n = ''condition'' then (run_condition (ec_text c) (ec_number c) n (ew_run w), w)
          else (case bd_runner b (gn_type n) of
                  Some h \<Rightarrow> h n k w
                | None \<Rightarrow> (Inl (unsupported_type n), w)))"

definition execute_node :: "engine_ctx \<Rightarrow> body_ctx \<Rightarrow> node_body" where
  "execute_node c b n k w =
     (case body_gate b n w of
        (Some f, w) \<Rightarrow> (Inl f, w)
      | (None, w) \<Rightarrow>
          (case run_handler c b n k w of
             (Inl f, w) \<Rightarrow> (Inl f, w)
           | (Inr v, w) \<Rightarrow>
               (case bd_contract b (gn_id n) of None \<Rightarrow> (Inr v, w) | Some enforce \<Rightarrow> enforce v w)))"

end
