(* ===== verification/EngineRuns.thy ===== *)
theory EngineRuns
  imports EngineLaws Nodes
begin

text \<open>
  The run loop over any body that keeps the interface of \<open>EngineLaws\<close>: which nodes it starts, what is
  stored when it starts one, and how a run ends. \<open>Nodes\<close> provides the interface.
\<close>

section \<open>Checkpoints\<close>

definition recorded :: "run_state \<Rightarrow> string list" where
  "recorded s = List.map nr_node_id (rs_results s)"

text \<open>Before each start the last record saved has the results of all nodes started before.\<close>

definition checkpointed :: "string list \<Rightarrow> engine_event list \<Rightarrow> bool" where
  "checkpointed base tr =
     (\<forall>pre n post. tr = pre @ NodeStarted n # post \<longrightarrow>
        (\<exists>s. last_saved pre = Some s \<and> recorded s = base @ started pre))"

lemma checkpointed_Nil [simp]: "checkpointed base []"
  by (simp add: checkpointed_def)

lemma checkpointed_snoc:
  "checkpointed base (tr @ [e]) \<longleftrightarrow> checkpointed base tr \<and>
     (\<forall>n. e = NodeStarted n \<longrightarrow> (\<exists>s. last_saved tr = Some s \<and> recorded s = base @ started tr))"
proof
  assume c: "checkpointed base (tr @ [e])"
  have "checkpointed base tr" unfolding checkpointed_def
  proof (intro allI impI)
    fix pre n post
    assume "tr = pre @ NodeStarted n # post"
    then have "tr @ [e] = pre @ NodeStarted n # (post @ [e])" by simp
    with c show "\<exists>s. last_saved pre = Some s \<and> recorded s = base @ started pre"
      unfolding checkpointed_def by blast
  qed
  with c show "checkpointed base tr \<and>
     (\<forall>n. e = NodeStarted n \<longrightarrow> (\<exists>s. last_saved tr = Some s \<and> recorded s = base @ started tr))"
    unfolding checkpointed_def by blast
next
  assume c: "checkpointed base tr \<and>
     (\<forall>n. e = NodeStarted n \<longrightarrow> (\<exists>s. last_saved tr = Some s \<and> recorded s = base @ started tr))"
  show "checkpointed base (tr @ [e])" unfolding checkpointed_def
  proof (intro allI impI)
    fix pre n post
    assume "tr @ [e] = pre @ NodeStarted n # post"
    with c show "\<exists>s. last_saved pre = Some s \<and> recorded s = base @ started pre"
      by (cases post rule: rev_cases) (auto simp: checkpointed_def)
  qed
qed

lemma checkpointed_quiet: "checkpointed base tr \<Longrightarrow> list_all (quiet rs) xs \<Longrightarrow> checkpointed base (tr @ xs)"
proof (induction xs rule: rev_induct)
  case Nil
  then show ?case by simp
next
  case (snoc e xs)
  then have "checkpointed base (tr @ xs)" "quiet rs e" by simp_all
  then have "checkpointed base ((tr @ xs) @ [e])" by (subst checkpointed_snoc) auto
  then show ?case by simp
qed

lemma last_saved_quiet:
  "last_saved tr = Some s \<Longrightarrow> rs_results s = rs \<Longrightarrow> list_all (quiet rs) xs \<Longrightarrow>
   \<exists>s'. last_saved (tr @ xs) = Some s' \<and> rs_results s' = rs"
proof (induction xs rule: rev_induct)
  case Nil
  then show ?case by simp
next
  case (snoc e xs)
  then have ih: "\<exists>s'. last_saved (tr @ xs) = Some s' \<and> rs_results s' = rs" and e: "quiet rs e" by simp_all
  show ?case
  proof (cases e)
    case (Persisted t)
    then have "last_saved (tr @ xs @ [e]) = Some t" using last_saved_simps(1) [of "tr @ xs" t] by simp
    with e Persisted show ?thesis by simp
  qed (use ih e in \<open>auto simp: last_saved_def\<close>)
qed

definition settled :: "string list \<Rightarrow> engine_world \<Rightarrow> bool" where
  "settled base w =
     (live w \<and> recorded (ew_run w) = base @ started (ew_trace w) \<and> checkpointed base (ew_trace w) \<and>
      (\<exists>s. last_saved (ew_trace w) = Some s \<and> rs_results s = rs_results (ew_run w)))"

lemma advances_checkpointed:
  "advances w w' \<Longrightarrow> checkpointed base (ew_trace w) \<Longrightarrow> checkpointed base (ew_trace w')"
  by (auto simp: advances_def intro: checkpointed_quiet)

lemma settled_advances:
  assumes "settled base w" "advances w w'" "live w'"
  shows "settled base w'"
proof -
  obtain xs where w': "rs_results (ew_run w') = rs_results (ew_run w)" "ew_trace w' = ew_trace w @ xs"
    "list_all (quiet (rs_results (ew_run w))) xs"
    using assms(2) by (auto simp: advances_def)
  obtain s where s: "last_saved (ew_trace w) = Some s" "rs_results s = rs_results (ew_run w)"
    using assms(1) by (auto simp: settled_def)
  from last_saved_quiet [OF s w'(3)] w' assms advances_checkpointed [OF assms(2)] show ?thesis
    by (auto simp: settled_def recorded_def quiet_started)
qed

lemma settled_start:
  assumes "settled base w"
  shows "checkpointed base (ew_trace (emit (NodeStarted n) w))"
  using assms by (auto simp: settled_def checkpointed_snoc recorded_def)

section \<open>Steps\<close>

lemma poll_requested: "poll c w = (r, w') \<Longrightarrow> ew_requested w' = r"
  by (auto simp: poll_def Let_def)

lemma next_node_frame:
  assumes "next_node c wfl n s = (r, s')"
  shows "rs_results s' = rs_results s" "rs_status s' = rs_status s"
  using assms by (auto simp: next_node_def Let_def split: option.splits)

lemma walk_edges_failure: "walk_edges c ns d es = Inl f \<Longrightarrow> \<exists>name message. f = Raised AgentsErr name message"
  by (induction c ns d es rule: walk_edges.induct)
    (auto simp: cond_failure_def Let_def split: option.splits sum.splits bool.splits cond_error.splits)

lemma next_node_failure:
  "next_node c wfl n s = (Inl f, s') \<Longrightarrow> \<exists>name message. f = Raised AgentsErr name message"
  by (auto simp: next_node_def declared_next_def Let_def split: option.splits if_splits
      dest: walk_edges_failure)

lemma node_map_id: "map_of (node_map wfl) i = Some n \<Longrightarrow> gn_id n = i"
  by (auto simp: node_map_def dest!: map_of_SomeD)

definition known_failure :: "failure \<Rightarrow> bool" where
  "known_failure f = (case f of Raised k name message \<Rightarrow> k \<noteq> ForeignErr | _ \<Rightarrow> True)"

lemma node_failure_known: "node_failure f \<Longrightarrow> known_failure f"
  by (auto simp: node_failure_def known_failure_def split: failure.splits)

definition step_ok :: "string list \<Rightarrow> string \<Rightarrow> engine_world \<Rightarrow> failure + string option \<Rightarrow> engine_world \<Rightarrow> bool" where
  "step_ok base i w r w' =
     (checkpointed base (ew_trace w') \<and>
      (started (ew_trace w') = started (ew_trace w) \<or> started (ew_trace w') = started (ew_trace w) @ [i]) \<and>
      (live w' \<or> r = Inl Cancelled \<and> stopped w') \<and>
      (case r of
         Inl f \<Rightarrow> known_failure f
       | Inr x \<Rightarrow> settled base w' \<and> started (ew_trace w') = started (ew_trace w) @ [i]))"

lemma poll_idle: "poll c w = (False, u) \<Longrightarrow> \<not> ew_requested w"
  by (auto simp: poll_def Let_def request_cancel_def split: if_splits)

section \<open>Ending a run\<close>

definition outcome_status :: "failure option \<Rightarrow> string" where
  "outcome_status r =
     (case r of
        None \<Rightarrow> ''succeeded''
      | Some f \<Rightarrow>
          (case f of
             Cancelled \<Rightarrow> ''cancelled'' | Interrupted \<Rightarrow> ''cancelled''
           | NeedsApproval node prompt pause \<Rightarrow> ''paused'' | NeedsReply node say mode sid pause \<Rightarrow> ''paused''
           | Parked node rec pending \<Rightarrow> ''waiting'' | Raised k name message \<Rightarrow> ''failed''))"

text \<open>The run has its final state, which is the record saved last.\<close>

definition ended :: "string \<Rightarrow> engine_world \<Rightarrow> bool" where
  "ended st w = (rs_status (ew_run w) = st \<and> last_saved (ew_trace w) = Some (ew_run w))"

text \<open>Events after the loop: no start.\<close>

definition closes :: "engine_world \<Rightarrow> engine_world \<Rightarrow> bool" where
  "closes w w' = (\<exists>xs. ew_trace w' = ew_trace w @ xs \<and> list_all (\<lambda>e. \<forall>n. e \<noteq> NodeStarted n) xs)"

lemma no_start: "list_all (\<lambda>e. \<forall>n. e \<noteq> NodeStarted n) xs \<Longrightarrow>
    started xs = [] \<and> (checkpointed base tr \<longrightarrow> checkpointed base (tr @ xs))"
proof (induction xs rule: rev_induct)
  case Nil
  then show ?case by simp
next
  case (snoc e xs)
  then have "started xs = []" "checkpointed base tr \<longrightarrow> checkpointed base (tr @ xs)" "\<forall>n. e \<noteq> NodeStarted n"
    by simp_all
  moreover then have "started [e] = []" by (cases e) simp_all
  ultimately show ?case using checkpointed_snoc [of base "tr @ xs" e] by simp
qed

lemma closes_frame:
  assumes "closes w w'"
  shows "started (ew_trace w') = started (ew_trace w)"
    "checkpointed base (ew_trace w) \<Longrightarrow> checkpointed base (ew_trace w')"
  using assms no_start by (auto simp: closes_def)

lemma persist_ended: "rs_status (ew_run w) \<in> set TERMINAL \<Longrightarrow> ended (rs_status (ew_run w)) (persist c i w)"
  using persist_status [of c i w] by (simp add: ended_def)

lemma persist_closes: "closes w (persist c i (on_run f w))"
  by (simp add: closes_def)

lemma end_with_ended:
  assumes "st \<in> set TERMINAL"
  shows "ended st (end_with c st cur d w)" "closes w (end_with c st cur d w)"
proof -
  let ?v = "on_run (\<lambda>s. finish st (now_of c w) (s\<lparr>rs_pending_node := cur, rs_pending := Some d\<rparr>)) w"
  have "rs_status (ew_run ?v) = st" by (simp add: finish_def)
  with persist_ended [of ?v c False] assms show "ended st (end_with c st cur d w)"
    by (simp add: end_with_def)
  show "closes w (end_with c st cur d w)" unfolding end_with_def by (rule persist_closes)
qed

lemma audited_end:
  "ended st w \<Longrightarrow> ended st (emit (Audited a) w)" "closes v w \<Longrightarrow> closes v (emit (Audited a) w)"
  by (auto simp: ended_def closes_def)

lemma closes_run: "closes (on_run f w) v = closes w v"
  by (simp add: closes_def)

lemma handle_failure_ended:
  assumes "known_failure f" "live w \<or> f = Cancelled \<and> stopped w"
  shows "ended (outcome_status (Some f)) (handle_failure c wfl f cur w) \<and>
    closes w (handle_failure c wfl f cur w)"
proof (cases f)
  case Cancelled
  have "ended ''cancelled'' (finalize_cancelled c wfl cur w) \<and> closes w (finalize_cancelled c wfl cur w)"
    using assms(2) by (auto simp: finalize_cancelled_def Let_def ended_def closes_def finish_def live_def stopped_def
        last_saved_def)
  then show ?thesis by (simp add: Cancelled handle_failure_def outcome_status_def Let_def)
next
  case (Raised k name message)
  with assms have k: "k \<noteq> ForeignErr" by (simp add: known_failure_def)
  let ?v = "on_run (\<lambda>s. record_error (or_text cur ''?'') (type_at wfl cur) message 1 (now_of c w)
    (snd (take_node_usage s))) w"
  have "''failed'' \<in> set TERMINAL" by (simp add: TERMINAL_def)
  note e = end_with_ended [OF this, where c = c and cur = cur and w = ?v]
  show ?thesis using k e audited_end
    by (simp add: Raised handle_failure_def outcome_status_def Let_def closes_run)
qed (auto simp: handle_failure_def outcome_status_def Let_def TERMINAL_def intro!: audited_end end_with_ended)

context node_runner
begin

lemma run_step_ok:
  assumes "run_step c body wfl n w = (r, w')" "settled base w"
  shows "step_ok base (gn_id n) w r w'"
proof -
  have live: "live w" using assms(2) by (simp add: settled_def)
  obtain q u where p: "poll c w = (q, u)" by force
  note pu = poll_advances [OF p] poll_live [OF p live]
  note start = advances_started [OF pu(1)] advances_checkpointed [OF pu(1)]
  show ?thesis
  proof (cases q)
    case True
    with assms p pu start show ?thesis
      by (auto simp: run_step_def step_ok_def settled_def known_failure_def)
  next
    case False
    with pu have u: "live u" "settled base u" using settled_advances [OF assms(2)] by auto
    let ?v = "emit (NodeStarted (gn_id n)) u"
    obtain f v where e: "run_node c body n ?v = (f, v)" by force
    have "live ?v" using u by simp
    note node = run_node_frame [OF e this]
    have cp: "checkpointed base (ew_trace ?v)" by (rule settled_start [OF u(2)])
    have st: "started (ew_trace ?v) = started (ew_trace w) @ [gn_id n]" using start by simp
    show ?thesis
    proof (cases f)
      case (Some g)
      with node have v: "advances ?v v" "live v \<or> g = Cancelled \<and> stopped v" "known_failure g"
        by (auto intro: node_failure_known)
      note v1 = advances_checkpointed [OF v(1) cp] advances_started [OF v(1)]
      show ?thesis
      proof (cases "direct_failure g")
        case True
        with assms p False e Some v v1 st show ?thesis by (auto simp: run_step_def step_ok_def)
      next
        case direct: False
        then have lv: "live v" using v(2) by (auto simp: direct_failure_def)
        obtain q2 v2 where p2: "poll c v = (q2, v2)" by force
        note v2 = poll_advances [OF p2] poll_live [OF p2 lv]
        from assms p False e Some direct p2
        have r: "r = Inl (if q2 then Cancelled else g)" "w' = v2" by (auto simp: run_step_def)
        from v2 v1 v st advances_checkpointed [OF v2(1)] advances_started [OF v2(1)] show ?thesis
          by (auto simp: r step_ok_def known_failure_def)
      qed
    next
      case None
      with node obtain v0 x where lv: "live v" and v0: "advances ?v v0" "ew_trace v = ew_trace v0"
        and x: "nr_node_id x = gn_id n" "rs_results (ew_run v) = rs_results (ew_run ?v) @ [x]" by auto
      have v1: "checkpointed base (ew_trace v)" "started (ew_trace v) = started (ew_trace w) @ [gn_id n]"
        using v0(2) advances_checkpointed [OF v0(1) cp] advances_started [OF v0(1)] st by simp_all
      have rv: "recorded (ew_run v) = base @ started (ew_trace v)"
        using u(2) x v1(2) start by (simp add: settled_def recorded_def)
      obtain q2 v2 where p2: "poll c v = (q2, v2)" by force
      note v2 = poll_advances [OF p2] poll_live [OF p2 lv]
      note v3 = advances_checkpointed [OF v2(1) v1(1)] advances_started [OF v2(1)]
      show ?thesis
      proof (cases q2)
        case True
        with assms p False e None p2 v1 v2 v3 show ?thesis
          by (auto simp: run_step_def step_ok_def known_failure_def)
      next
        case go: False
        let ?y = "emit (Audited ''node_ok'') (persist c False (clear_pending v2))"
        obtain nx s where nx: "next_node c wfl n (ew_run ?y) = (nx, s)" by force
        from assms p False e None p2 go nx have r: "r = nx" "w' = ?y\<lparr>ew_run := s\<rparr>"
          by (simp_all add: run_step_def Let_def)
        have lv2: "live v2" using v2(2) go by simp
        have "live (clear_pending v2)" using lv2 by (simp add: live_def clear_pending_def)
        moreover have "\<not> ew_requested (clear_pending v2)"
          using poll_requested [OF p2] go by (simp add: clear_pending_def)
        ultimately have ly: "live ?y" using persist_live [of "clear_pending v2" c False] by simp
        have ty: "ew_trace ?y = ew_trace v2 @ [Persisted (ew_run ?y), Audited ''node_ok'']"
          "rs_results (ew_run ?y) = rs_results (ew_run v2)"
          by (simp_all add: clear_pending_def)
        have ry: "recorded (ew_run ?y) = base @ started (ew_trace ?y)"
          using rv ty(2) v2(1) advances_started [OF v2(1)]
          by (simp add: recorded_def advances_def clear_pending_def)
        have cy: "checkpointed base (ew_trace ?y)"
          using checkpointed_quiet [OF v3(1), of "rs_results (ew_run ?y)" "[Persisted (ew_run ?y), Audited ''node_ok'']"]
          unfolding ty(1) by simp
        have "last_saved (ew_trace ?y) = Some (ew_run ?y)"
          by (simp only: ty(1), simp add: last_saved_def)
        with ly ry cy next_node_frame [OF nx] have w': "settled base w'" "ew_trace w' = ew_trace ?y"
          by (simp_all add: r settled_def live_def recorded_def)
        moreover have "started (ew_trace ?y) = started (ew_trace w) @ [gn_id n]"
          using v3(2) v1(2) by (simp add: clear_pending_def)
        ultimately show ?thesis using next_node_failure [of c wfl n "ew_run ?y"] nx r(1)
          by (auto simp: step_ok_def settled_def known_failure_def split: sum.split)
      qed
    qed
  qed
qed

lemma run_loop_ok:
  assumes "run_loop c body wfl left seen cur w = ((r, cur'), w')" "settled base w"
  shows "\<exists>ns. started (ew_trace w') = started (ew_trace w) @ ns \<and> length ns \<le> left \<and> distinct ns \<and>
    set ns \<inter> set seen = {} \<and> checkpointed base (ew_trace w') \<and>
    (live w' \<or> r = Some Cancelled \<and> stopped w') \<and> (\<forall>f. r = Some f \<longrightarrow> known_failure f)"
  using assms
proof (induction left arbitrary: seen cur w)
  case 0
  then show ?case
    by (auto simp: settled_def known_failure_def too_many_steps_def workflow_error_def split: if_splits)
next
  case (Suc left)
  show ?case
  proof (cases "\<not> truthy cur \<or> the cur \<in> set seen \<or> map_of (node_map wfl) (the cur) = None")
    case True
    with Suc.prems show ?thesis
      by (auto simp: settled_def known_failure_def cycle_error_def unknown_node_def workflow_error_def split: if_splits)
  next
    case False
    then obtain n where n: "map_of (node_map wfl) (the cur) = Some n" by auto
    then have i: "gn_id n = the cur" by (rule node_map_id)
    obtain q v where s: "run_step c body wfl n w = (q, v)" by force
    note step = run_step_ok [OF s Suc.prems(2), unfolded step_ok_def i]
    show ?thesis
    proof (cases q)
      case (Inl f)
      with Suc.prems(1) False n s have r: "r = Some f" "w' = v" by simp_all
      from step consider "started (ew_trace v) = started (ew_trace w)"
        | "started (ew_trace v) = started (ew_trace w) @ [the cur]" by blast
      then show ?thesis
      proof cases
        case 1
        with step r Inl show ?thesis by (intro exI [of _ "[]"]) auto
      next
        case 2
        with step r Inl False show ?thesis by (intro exI [of _ "[the cur]"]) auto
      qed
    next
      case (Inr nxt)
      with Suc.prems(1) False n s
      have "run_loop c body wfl left (the cur # seen) nxt v = ((r, cur'), w')" by simp
      from Suc.IH [OF this] step Inr obtain ns where ns: "started (ew_trace w') = started (ew_trace v) @ ns"
        "length ns \<le> left" "distinct ns" "set ns \<inter> set (the cur # seen) = {}"
        "checkpointed base (ew_trace w')" "live w' \<or> r = Some Cancelled \<and> stopped w'"
        "\<forall>f. r = Some f \<longrightarrow> known_failure f" by auto
      have "started (ew_trace w') = started (ew_trace w) @ the cur # ns" using ns(1) step Inr by simp
      with ns False show ?thesis by (intro exI [of _ "the cur # ns"]) auto
    qed
  qed
qed

lemma drive_ok:
  assumes "drive c body wfl seen cur w = (r, w')"
    "settled base w \<or> ew_requested w \<and> stopped w \<and> checkpointed base (ew_trace w)"
  shows "\<exists>ns. started (ew_trace w') = started (ew_trace w) @ ns \<and> length ns \<le> MAX_STEPS \<and> distinct ns \<and>
    set ns \<inter> set seen = {} \<and> checkpointed base (ew_trace w') \<and> ended (outcome_status r) w'"
proof -
  obtain q u where p: "poll c w = (q, u)" by force
  show ?thesis
  proof (cases q)
    case True
    with assms(1) p have r: "r = Some Cancelled" "w' = handle_failure c wfl Cancelled cur u"
      by (simp_all add: drive_def)
    have u: "live u \<or> stopped u" "checkpointed base (ew_trace u)" "started (ew_trace u) = started (ew_trace w)"
    proof -
      have "settled base w \<or> u = w\<lparr>ew_polls := Suc (ew_polls w)\<rparr> \<and> stopped w \<and> checkpointed base (ew_trace w)"
        using assms(2) p by (auto simp: poll_def Let_def request_cancel_def)
      then show "live u \<or> stopped u" "checkpointed base (ew_trace u)" "started (ew_trace u) = started (ew_trace w)"
        using poll_live [OF p] poll_advances [OF p] advances_checkpointed advances_started
        by (auto simp: settled_def stopped_def)
    qed
    have known: "known_failure Cancelled" by (simp add: known_failure_def)
    have "live u \<or> Cancelled = Cancelled \<and> stopped u" using u(1) by simp
    from handle_failure_ended [OF known this, of c wfl cur] u(2,3) r show ?thesis
      by (intro exI [of _ "[]"]) (auto simp: closes_frame)
  next
    case False
    then have w: "settled base w"
      using assms(2) p poll_idle [of c w u] by auto
    then have su: "settled base u"
      using settled_advances [OF w poll_advances [OF p]] poll_live [OF p] False by (auto simp: settled_def)
    obtain f cur' v where l: "run_loop c body wfl MAX_STEPS seen cur u = ((f, cur'), v)"
      by (metis surj_pair)
    from run_loop_ok [OF l su] obtain ns where ns: "started (ew_trace v) = started (ew_trace w) @ ns" "length ns \<le> MAX_STEPS"
      "distinct ns" "set ns \<inter> set seen = {}" "checkpointed base (ew_trace v)"
      "live v \<or> f = Some Cancelled \<and> stopped v" "\<forall>g. f = Some g \<longrightarrow> known_failure g"
      unfolding advances_started [OF poll_advances [OF p]] by blast
    have "closes v w' \<and> ended (outcome_status r) w'"
    proof (cases f)
      case (Some g)
      with assms(1) p False l have "r = Some g" "w' = handle_failure c wfl g cur' v"
        by (simp_all add: drive_def)
      with handle_failure_ended [of g v c wfl cur'] ns(6,7) Some show ?thesis by auto
    next
      case None
      then have lv: "live v" using ns(6) by simp
      obtain q2 x where p2: "poll c v = (q2, x)" by force
      obtain xs where xs: "ew_trace x = ew_trace v @ xs" "list_all (quiet (rs_results (ew_run v))) xs"
        using poll_advances [OF p2] by (auto simp: advances_def)
      have vx: "closes v x" unfolding closes_def
        by (rule exI [of _ xs]) (use xs in \<open>auto simp: list_all_iff quiet_def split: engine_event.splits\<close>)
      have "closes x w' \<and> ended (outcome_status r) w'"
      proof (cases q2)
        case True
        with assms(1) p False l None p2 have "r = Some Cancelled" "w' = handle_failure c wfl Cancelled cur' x"
          by (simp_all add: drive_def)
        with handle_failure_ended [of Cancelled x c wfl cur'] poll_live [OF p2 lv] show ?thesis
          by (auto simp: known_failure_def)
      next
        case q2: False
        with assms(1) p False l None p2 have r: "r = None" "w' = succeed c x" by (simp_all add: drive_def)
        let ?y = "on_run (finish ''succeeded'' (now_of c x)) (clear_pending x)"
        have "rs_status (ew_run ?y) = ''succeeded''" by (simp add: finish_def)
        with persist_ended [of ?y c False] have "ended ''succeeded'' (persist c False ?y)"
          by (simp add: TERMINAL_def)
        moreover have "closes x (persist c False ?y)" by (simp add: closes_def clear_pending_def)
        ultimately show ?thesis by (simp add: r succeed_def outcome_status_def audited_end)
      qed
      with vx show ?thesis by (auto simp: closes_def list_all_append)
    qed
    with ns show ?thesis by (auto simp: closes_frame)
  qed
qed

lemma begin_run_ok:
  assumes "ew_trace w = []" "live w"
  shows "settled (recorded (ew_run w)) (begin_run c w) \<or>
    ew_requested (begin_run c w) \<and> stopped (begin_run c w) \<and> checkpointed base (ew_trace (begin_run c w))"
    "started (ew_trace (begin_run c w)) = []"
proof -
  let ?v = "on_run seed_input_provenance w"
  have v: "live ?v" "ew_trace ?v = []" "rs_results (ew_run ?v) = rs_results (ew_run w)" "ew_requested ?v = ew_requested w"
    using assms by (simp_all add: live_def seed_input_provenance_def)
  have one: "checkpointed b [Persisted s, Audited a]" "checkpointed b [Persisted s, Persisted t, Audited a]" for b s t a
    using checkpointed_snoc [of b "[Persisted s]" "Audited a"] checkpointed_snoc [of b "[]" "Persisted s"]
      checkpointed_snoc [of b "[Persisted s]" "Persisted t"] checkpointed_snoc [of b "[Persisted s, Persisted t]" "Audited a"]
    by simp_all
  show "settled (recorded (ew_run w)) (begin_run c w) \<or>
    ew_requested (begin_run c w) \<and> stopped (begin_run c w) \<and> checkpointed base (ew_trace (begin_run c w))"
  proof (cases "ew_requested w")
    case False
    let ?y = "persist c False ?v"
    have y: "live ?y" using persist_live [OF v(1), of c False] False v(4) by simp
    have b: "begin_run c w = emit (Audited ''run_started'') ?y" using False v(4) by (simp add: begin_run_def)
    have "rs_results (ew_run ?y) = rs_results (ew_run w)" using v(3) by simp
    then show ?thesis using y v(2) one(1) by (simp add: b settled_def recorded_def last_saved_def)
  next
    case True
    let ?x = "persist c False ?v"
    let ?y = "persist c False ?x"
    have b: "begin_run c w = emit (Audited ''run_started'') ?y" using True v(4) by (simp add: begin_run_def)
    have "rs_status (ew_run ?x) = ''cancelled''"
      using persist_status [of c False ?v] live_not_terminal [OF v(1)] True v(4) by simp
    then have "rs_status (ew_run ?y) = ''cancelled''"
      using persist_status [of c False ?x] by (simp add: TERMINAL_def)
    then show ?thesis using True v(2,4) one(2) by (simp add: b stopped_def last_saved_def)
  qed
  show "started (ew_trace (begin_run c w)) = []" using v(2) by (simp add: begin_run_def Let_def)
qed

lemma open_run_live:
  "open_run c wfl i inputs metadata stored = Inr (cursor, s) \<Longrightarrow> live (w\<lparr>ew_run := s\<rparr>)"
  by (auto simp: open_run_def resume_cursor_def reopen_def with_inputs_def start_run_def live_def Let_def
      split: option.splits if_splits sum.splits prod.splits)

lemma run_workflow_ok:
  assumes "run_workflow c body wfl i inputs metadata stored w = (r, w')" "ew_trace w = []"
    "open_run c wfl i inputs metadata stored = Inr ((cur, seen), s)"
  shows "length (started (ew_trace w')) \<le> MAX_STEPS \<and> distinct (started (ew_trace w')) \<and>
    set (started (ew_trace w')) \<inter> set seen = {} \<and> checkpointed (recorded s) (ew_trace w') \<and>
    ended (outcome_status r) w'"
proof -
  let ?w = "w\<lparr>ew_run := s\<rparr>"
  have "drive c body wfl seen cur (begin_run c ?w) = (r, w')" using assms by (simp add: run_workflow_def)
  moreover have "ew_trace ?w = []" using assms(2) by simp
  ultimately show ?thesis
    using drive_ok [where base = "recorded s"] begin_run_ok(1) [of ?w c "recorded s"]
      begin_run_ok(2) [of ?w c] open_run_live [OF assms(3)]
    by fastforce
qed

end

section \<open>The bodies of nodes\<close>

lemma consume_decision_frame:
  "consume_decision node w = (d, w') \<Longrightarrow> advances w w' \<and> (live w \<longrightarrow> live w')"
  by (auto simp: consume_decision_def Let_def advances_def live_def split: if_splits)

lemma body_gate_frame: "body_gate b n w = (f, w') \<Longrightarrow> advances w w' \<and> (live w \<longrightarrow> live w')"
  by (auto simp: body_gate_def split: if_splits prod.splits option.splits dest!: consume_decision_frame)

definition keeps :: "node_body \<Rightarrow> bool" where
  "keeps h = (\<forall>n k w. advances w (snd (h n k w)) \<and> (live w \<longrightarrow> live (snd (h n k w))))"

text \<open>Handlers and contracts that keep the interface.\<close>

definition keeps_run :: "body_ctx \<Rightarrow> bool" where
  "keeps_run b =
     ((\<forall>ty h. bd_extra b ty = Some h \<longrightarrow> keeps h) \<and> (\<forall>ty h. bd_runner b ty = Some h \<longrightarrow> keeps h) \<and>
      (\<forall>i e. bd_contract b i = Some e \<longrightarrow>
         (\<forall>v w. advances w (snd (e v w)) \<and> (live w \<longrightarrow> live (snd (e v w))))))"

lemma run_handler_frame:
  assumes "keeps_run b" "run_handler c b n k w = (r, w')"
  shows "advances w w' \<and> (live w \<longrightarrow> live w')"
proof (cases "bd_extra b (gn_type n)")
  case (Some h)
  with assms have "h n k w = (r, w')" "keeps h" by (auto simp: run_handler_def keeps_run_def)
  then show ?thesis using snd_conv by (metis keeps_def)
next
  case None
  show ?thesis
  proof (cases "gn_type n \<in> {''transform'', ''condition''} \<or> bd_runner b (gn_type n) = None")
    case True
    with None assms(2) show ?thesis by (auto simp: run_handler_def split: if_splits)
  next
    case False
    then obtain h where "bd_runner b (gn_type n) = Some h" by auto
    with False None assms have "h n k w = (r, w')" "keeps h" by (auto simp: run_handler_def keeps_run_def)
    then show ?thesis using snd_conv by (metis keeps_def)
  qed
qed

lemma execute_node_frame:
  assumes "keeps_run b" "execute_node c b n k w = (r, w')"
  shows "advances w w' \<and> (live w \<longrightarrow> live w')"
proof -
  obtain f u where g: "body_gate b n w = (f, u)" by force
  note gate = body_gate_frame [OF g]
  show ?thesis
  proof (cases f)
    case (Some x)
    with assms(2) g gate show ?thesis by (simp add: execute_node_def)
  next
    case None
    obtain q v where h: "run_handler c b n k u = (q, v)" by force
    note handler = run_handler_frame [OF assms(1) h]
    have v: "advances w v \<and> (live w \<longrightarrow> live v)" using gate handler advances_trans by blast
    show ?thesis
    proof (cases q)
      case (Inl x)
      with assms(2) g None h v show ?thesis by (simp add: execute_node_def)
    next
      case (Inr out)
      show ?thesis
      proof (cases "bd_contract b (gn_id n)")
        case None
        with assms(2) g \<open>f = None\<close> h v Inr show ?thesis by (simp add: execute_node_def)
      next
        case (Some e)
        with assms(2) g \<open>f = None\<close> h Inr have "e out v = (r, w')" by (simp add: execute_node_def)
        moreover have "advances v (snd (e out v)) \<and> (live v \<longrightarrow> live (snd (e out v)))"
          using assms(1) Some unfolding keeps_run_def by blast
        ultimately show ?thesis using v advances_trans by auto
      qed
    qed
  qed
qed

text \<open>The nodes whose handlers are modelled: transforms and conditions behind the policy gate.\<close>

definition plain_bodies :: "body_ctx \<Rightarrow> body_ctx" where
  "plain_bodies b = b\<lparr>bd_extra := \<lambda>ty. None, bd_runner := \<lambda>ty. None, bd_contract := \<lambda>i. None\<rparr>"

lemma plain_bodies_keep: "keeps_run (plain_bodies b)"
  by (simp add: keeps_run_def plain_bodies_def)

lemma keeps_node_runner: "keeps_run b \<Longrightarrow> node_runner (execute_node c b)"
proof
  fix w n k
  assume b: "keeps_run b"
  obtain r w' where e: "execute_node c b n k w = (r, w')" by force
  from execute_node_frame [OF b e] show "advances w (snd (execute_node c b n k w))" by (simp add: e)
  show "live w \<Longrightarrow> live (snd (execute_node c b n k w))" using execute_node_frame [OF b e] by (simp add: e)
qed

interpretation plain: node_runner "execute_node c (plain_bodies b)"
  by (rule keeps_node_runner [OF plain_bodies_keep])

end
