(* ===== verification/EngineRouting.thy ===== *)
theory EngineRouting
  imports EngineRuns
begin

text \<open>
  The routes that the loop follows in a workflow that passed the validation of its graph: every next
  node is a declared successor, so an acyclic graph is never left and never walked in a circle,
  unless a quarantine chose the route.
\<close>

section \<open>Declared routes\<close>

text \<open>The output of a routed node names a declared successor or nothing.\<close>

definition declared :: "graph_node \<Rightarrow> pyval \<Rightarrow> bool" where
  "declared n v =
     (gn_type n \<in> set ROUTED_TYPES \<longrightarrow>
        (case v of
           PDict d \<Rightarrow> (case vget d ''next'' of PStr x \<Rightarrow> x = [] \<or> x \<in> set (successor_refs n) | _ \<Rightarrow> True)
         | _ \<Rightarrow> True))"

lemma given_iff: "x \<in> set (given xs) \<longleftrightarrow> Some x \<in> set xs"
  by (force simp: given_def)

lemma condition_declared: "run_condition fr pf n s = Inr v \<Longrightarrow> declared n v"
  by (auto simp: run_condition_def declared_def successor_refs_def given_iff of_opt_str_def vget_def
      split: sum.splits if_splits option.splits)

lemma walk_edges_in: "walk_edges c ns d es = Inr (Some x) \<Longrightarrow> x \<in> ed_to ` set es \<or> d = Some x"
  by (induction c ns d es rule: walk_edges.induct) (auto split: option.splits sum.splits bool.splits)

lemma succs_graph_of:
  assumes "n \<in> set (wf_nodes wfl)" "distinct (List.map gn_id (wf_nodes wfl))"
  shows "succs (graph_of wfl) (gn_id n) =
    successor_refs n @ List.map ed_to (filter (\<lambda>e. ed_from e = gn_id n) (wf_edges wfl))"
proof -
  have "map_of (graph_of wfl) (gn_id n) =
      Some (successor_refs n @ List.map ed_to (filter (\<lambda>e. ed_from e = gn_id n) (wf_edges wfl)))"
    using assms by (intro map_of_is_SomeI) (auto simp: graph_of_def o_def)
  then show ?thesis by (simp add: succs_def)
qed

lemma declared_next_in:
  assumes "declared_next c wfl n s = Inr (Some x)" "x \<noteq> []" "uses_explicit_routing wfl"
    "n \<in> set (wf_nodes wfl)" "distinct (List.map gn_id (wf_nodes wfl))"
    "map_of (rs_node_outputs s) (gn_id n) = Some out" "declared n out"
  shows "x \<in> set (succs (graph_of wfl) (gn_id n))"
proof -
  let ?edges = "filter (\<lambda>e. ed_from e = gn_id n) (wf_edges wfl)"
  have "x \<in> set (successor_refs n) \<or> x \<in> ed_to ` set ?edges"
  proof (cases "gn_type n \<in> set ROUTED_TYPES")
    case True
    with assms(1) have "output_next s (gn_id n) = Some x" by (simp add: declared_next_def)
    with assms(2,6,7) True show ?thesis
      by (auto simp: output_next_def declared_def vget_def split: option.splits pyval.splits)
  next
    case False
    show ?thesis
    proof (cases "?edges = []")
      case True
      with False assms(1,3) have "gn_next n = Some x" by (auto simp: declared_next_def split: if_splits)
      then show ?thesis by (simp add: successor_refs_def given_iff)
    next
      case edges: False
      with False assms(1) have "walk_edges c (mapping s) None ?edges = Inr (Some x)"
        by (simp add: declared_next_def Let_def)
      from walk_edges_in [OF this] show ?thesis by simp
    qed
  qed
  then show ?thesis using succs_graph_of [OF assms(4,5)] by auto
qed

lemma validated_graph:
  assumes "validate_graph wfl = Inr wfl'"
  shows "distinct (List.map gn_id (wf_nodes wfl))" "start_of wfl \<in> gn_id ` set (wf_nodes wfl)"
    "set (succs (graph_of wfl) x) \<subseteq> gn_id ` set (wf_nodes wfl)"
    "\<exists>order. gn_id ` set (wf_nodes wfl) \<subseteq> set order \<and> finished_order (graph_of wfl) order"
    "wfl' = wfl\<lparr>wf_start := Some (start_of wfl)\<rparr>"
proof -
  from assms have ok: "distinct (List.map gn_id (wf_nodes wfl))" "start_of wfl \<in> gn_id ` set (wf_nodes wfl)"
    "first_error (bad_ref (List.map gn_id (wf_nodes wfl))) (wf_nodes wfl) = None"
    "first_error (bad_edge (List.map gn_id (wf_nodes wfl))) (wf_edges wfl) = None"
    "assert_acyclic (graph_of wfl) = None" "wfl' = wfl\<lparr>wf_start := Some (start_of wfl)\<rparr>"
    by (auto simp: validate_graph_def Let_def split: if_splits option.splits)
  have refs: "set (succs (graph_of wfl) x) \<subseteq> gn_id ` set (wf_nodes wfl)" for x
  proof (cases "x \<in> gn_id ` set (wf_nodes wfl)")
    case True
    then obtain n where n: "n \<in> set (wf_nodes wfl)" "x = gn_id n" by auto
    have "bad_ref (List.map gn_id (wf_nodes wfl)) n = None" using ok(3) n(1) by (simp add: first_error_None)
    then have "set (successor_refs n) \<subseteq> gn_id ` set (wf_nodes wfl)"
      by (auto simp: bad_ref_def find_None_iff split: option.splits)
    moreover have "ed_to e \<in> gn_id ` set (wf_nodes wfl)" if "e \<in> set (wf_edges wfl)" for e
    proof -
      have "bad_edge (List.map gn_id (wf_nodes wfl)) e = None" using ok(4) that by (simp add: first_error_None)
      then show ?thesis by (simp add: bad_edge_def split: if_splits)
    qed
    ultimately show ?thesis using succs_graph_of [OF n(1) ok(1)] n(2) by auto
  next
    case False
    then have "x \<notin> fst ` set (graph_of wfl)" by simp
    then have "map_of (graph_of wfl) x = None" by (simp add: map_of_eq_None_iff)
    then show ?thesis by (simp add: succs_def)
  qed
  from ok(5) refs have "\<exists>order. fst ` set (graph_of wfl) \<subseteq> set order \<and> finished_order (graph_of wfl) order"
    by (intro assert_acyclic_rank) simp_all
  then show "\<exists>order. gn_id ` set (wf_nodes wfl) \<subseteq> set order \<and> finished_order (graph_of wfl) order" by simp
  show "distinct (List.map gn_id (wf_nodes wfl))" "start_of wfl \<in> gn_id ` set (wf_nodes wfl)"
    "set (succs (graph_of wfl) x) \<subseteq> gn_id ` set (wf_nodes wfl)"
    "wfl' = wfl\<lparr>wf_start := Some (start_of wfl)\<rparr>" by (fact ok refs)+
qed

section \<open>Failures of the loop itself\<close>

definition routing_failure :: "failure \<Rightarrow> bool" where
  "routing_failure f = (f = too_many_steps \<or> (\<exists>i. f = cycle_error i \<or> f = unknown_node i))"

lemma node_failure_not_routing: "node_failure f \<Longrightarrow> \<not> routing_failure f"
  by (auto simp: node_failure_def routing_failure_def too_many_steps_def cycle_error_def unknown_node_def
      workflow_error_def)

lemma cond_failure_not_routing: "\<not> routing_failure (cond_failure e)"
  by (auto simp: cond_failure_def Let_def routing_failure_def too_many_steps_def cycle_error_def
      unknown_node_def workflow_error_def in_quotes_def split: cond_error.splits)

lemma walk_edges_not_routing: "walk_edges c ns d es = Inl f \<Longrightarrow> \<not> routing_failure f"
  by (induction c ns d es rule: walk_edges.induct)
    (auto simp: cond_failure_not_routing split: option.splits sum.splits bool.splits)

lemma next_node_not_routing: "next_node c wfl n s = (Inl f, s') \<Longrightarrow> \<not> routing_failure f"
  by (auto simp: next_node_def declared_next_def Let_def split: option.splits if_splits
      dest: walk_edges_not_routing)

lemma cancelled_not_routing [simp]: "\<not> routing_failure Cancelled"
  by (simp add: routing_failure_def too_many_steps_def cycle_error_def unknown_node_def workflow_error_def)

section \<open>Routed bodies\<close>

text \<open>The route is the declared one, or a quarantine was audited.\<close>

definition on_course :: "engine_world \<Rightarrow> bool" where
  "on_course w = (quarantine_audited (ew_trace w) \<or> chosen_route (ew_run w) = None)"

lemma on_course_advances: "on_course w \<Longrightarrow> advances w w' \<Longrightarrow> on_course w'"
  by (auto simp: on_course_def advances_def)

lemma audited_advances: "advances w w' \<Longrightarrow> quarantine_audited (ew_trace w) \<Longrightarrow> quarantine_audited (ew_trace w')"
  by (auto simp: advances_def)

lemma health_quarantine_audited:
  "health_quarantine c n w = (Some (Inr v), w') \<Longrightarrow> quarantine_audited (ew_trace w')"
  by (auto simp: health_quarantine_def Let_def split: sum.splits option.splits if_splits)

text \<open>What the loop does after a node leaves its output and the chosen route alone.\<close>

lemma outputs_frame [simp]:
  "rs_node_outputs (ew_run (store_spend w)) = rs_node_outputs (ew_run w)"
  "rs_node_outputs (settle_request now r i s) = rs_node_outputs s"
  "rs_node_outputs (ew_run (persist c i w)) = rs_node_outputs (ew_run w)"
  "rs_node_outputs (ew_run (clear_pending w)) = rs_node_outputs (ew_run w)"
  "chosen_route (ew_run (clear_pending w)) = chosen_route (ew_run w)"
  by (simp_all add: store_spend_def settle_request_def finish_def persist_def clear_pending_def
      chosen_route_def Let_def split: option.split)

lemma poll_outputs: "poll c w = (q, w') \<Longrightarrow> rs_node_outputs (ew_run w') = rs_node_outputs (ew_run w)"
  by (auto simp: poll_def request_cancel_def Let_def)

lemma next_node_declared:
  assumes "next_node c wfl n s = (Inr nxt, s')" "chosen_route s = None"
  shows "declared_next c wfl n s' = Inr nxt" "chosen_route s' = None" "rs_node_outputs s' = rs_node_outputs s"
proof -
  have "quarantine_next s = None" using assms(2) by (simp add: quarantine_next_def chosen_route_def vget_def)
  with assms(1) have s': "declared_next c wfl n s' = Inr nxt"
      "s' = s\<lparr>rs_metadata := drop_key ''quarantine_next'' (rs_metadata s)\<rparr>"
    by (auto simp: next_node_def Let_def)
  then show "declared_next c wfl n s' = Inr nxt" "rs_node_outputs s' = rs_node_outputs s" by simp_all
  show "chosen_route s' = None"
    by (auto simp: s'(2) chosen_route_def drop_key_def map_of_eq_None_iff)
qed

definition grows :: "engine_world \<Rightarrow> engine_world \<Rightarrow> bool" where
  "grows w w' = (\<exists>xs. ew_trace w' = ew_trace w @ xs)"

lemma grows_refl [simp]: "grows w w"
  by (simp add: grows_def)

lemma grows_trans: "grows u v \<Longrightarrow> grows v w \<Longrightarrow> grows u w"
  by (auto simp: grows_def)

lemma advances_grows: "advances w w' \<Longrightarrow> grows w w'"
  by (auto simp: advances_def grows_def)

lemma grows_audited: "grows w w' \<Longrightarrow> quarantine_audited (ew_trace w) \<Longrightarrow> quarantine_audited (ew_trace w')"
  by (auto simp: grows_def)

lemma handle_failure_grows: "grows w (handle_failure c wfl f cur w)"
  by (cases f) (auto simp: handle_failure_def end_with_def finalize_cancelled_def grows_def Let_def)

context node_runner
begin

lemma run_node_grows: "run_node c body n w = (r, w') \<Longrightarrow> live w \<Longrightarrow> grows w w'"
  using run_node_frame [of c n w r w'] advances_grows by (cases r) (auto simp: grows_def advances_def)

lemma run_step_grows:
  assumes "run_step c body wfl n w = (r, w')" "live w"
  shows "grows w w'"
proof -
  obtain q u where p: "poll c w = (q, u)" by force
  note pu = advances_grows [OF poll_advances [OF p]] poll_live [OF p assms(2)]
  show ?thesis
  proof (cases q)
    case True
    with assms(1) p pu show ?thesis by (simp add: run_step_def)
  next
    case False
    let ?v = "emit (NodeStarted (gn_id n)) u"
    obtain f v where e: "run_node c body n ?v = (f, v)" by force
    have "grows u ?v" by (simp add: grows_def)
    moreover have "live ?v" using pu(2) False by simp
    ultimately have v: "grows w v" using run_node_grows [OF e] pu(1) grows_trans by blast
    obtain q2 v2 where p2: "poll c v = (q2, v2)" by force
    have v2: "grows w v2" using grows_trans [OF v advances_grows [OF poll_advances [OF p2]]] .
    have "grows v2 (emit a (persist c False (clear_pending v2)))" for a
      by (simp add: grows_def clear_pending_def)
    then have "grows w (emit a (persist c False (clear_pending v2)))" for a
      using grows_trans [OF v2] by blast
    then show ?thesis using assms(1) p False e p2 v v2
      by (auto simp: run_step_def grows_def Let_def split: option.splits if_splits prod.splits)
  qed
qed

lemma run_loop_grows:
  "run_loop c body wfl left seen cur w = ((r, cur'), w') \<Longrightarrow> settled base w \<Longrightarrow> grows w w'"
proof (induction left arbitrary: seen cur w)
  case 0
  then show ?case by (auto split: if_splits)
next
  case (Suc left)
  show ?case
  proof (cases "\<not> truthy cur \<or> the cur \<in> set seen \<or> map_of (node_map wfl) (the cur) = None")
    case True
    with Suc.prems show ?thesis by (auto split: if_splits)
  next
    case False
    then obtain n where n: "map_of (node_map wfl) (the cur) = Some n" by auto
    obtain q v where s: "run_step c body wfl n w = (q, v)" by force
    have v: "grows w v" using run_step_grows [OF s] Suc.prems(2) by (simp add: settled_def)
    show ?thesis
    proof (cases q)
      case (Inl f)
      with Suc.prems(1) False n s v show ?thesis by simp
    next
      case (Inr nxt)
      with run_step_ok [OF s Suc.prems(2)] have "settled base v" by (simp add: step_ok_def)
      moreover have "run_loop c body wfl left (the cur # seen) nxt v = ((r, cur'), w')"
        using Suc.prems(1) False n s Inr by simp
      ultimately show ?thesis using Suc.IH v grows_trans by blast
    qed
  qed
qed

end

locale routed_runner = node_runner +
  assumes body_declares: "body n k w = (Inr v, w') \<Longrightarrow> declared n v"
begin

lemma try_once_declares: "try_once c body n k w = (Success v, w') \<Longrightarrow> declared n v"
  by (auto simp: try_once_def call_with_timeout_def judge_def split: prod.splits if_splits sum.splits
      option.splits failure.splits dest: body_declares)

lemma attempts_declare: "attempts c body n left bonus k e w = (Inr (v, j), w') \<Longrightarrow> declared n v"
proof (induction "left + (if bonus then 0 else 1)" arbitrary: left bonus k e w rule: less_induct)
  case less
  show ?case
  proof (cases left)
    case 0
    with less.prems show ?thesis by simp
  next
    case (Suc l)
    obtain x w1 where t: "try_once c body n (Suc k) w = (x, w1)" by force
    show ?thesis
    proof (cases x)
      case (Success u)
      with less.prems Suc t have "u = v" by simp
      with t Success try_once_declares show ?thesis by auto
    next
      case (Fatal g)
      with less.prems Suc t show ?thesis by simp
    next
      case (Retry g granted delay)
      let ?l = "if granted \<and> \<not> bonus then Suc l else l"
      from less.prems Suc t Retry obtain f u where
        rest: "attempts c body n ?l (bonus \<or> granted) (Suc k) f u = (Inr (v, j), w')"
        by (auto split: option.splits prod.splits bool.splits if_splits)
      have "?l + (if bonus \<or> granted then 0 else 1) < left + (if bonus then 0 else 1)"
        using Suc by auto
      from less.hyps [OF this rest] show ?thesis .
    qed
  qed
qed

lemma execute_declares:
  assumes "execute_with_policy c body n w = (Inr (v, j), w')"
  shows "declared n v \<or> quarantine_audited (ew_trace w')"
proof -
  obtain q u where h: "health_quarantine c n w = (q, u)" by force
  show ?thesis
  proof (cases q)
    case None
    with assms h have "attempts c body n (fst (retry_of c n)) False 0 None u = (Inr (v, j), w')"
      by (simp add: execute_with_policy_def)
    then show ?thesis using attempts_declare by blast
  next
    case (Some x)
    with assms h obtain y where "q = Some (Inr y)" "u = w'"
      by (cases x) (auto simp: execute_with_policy_def)
    with h health_quarantine_audited show ?thesis by blast
  qed
qed

lemma run_node_declares:
  assumes "run_node c body n w = (None, w')" "live w" "on_course w"
  shows "on_course w' \<and> (quarantine_audited (ew_trace w') \<or>
    (\<exists>out. map_of (rs_node_outputs (ew_run w')) (gn_id n) = Some out \<and> declared n out))"
proof -
  obtain q v where e: "execute_with_policy c body n w = (q, v)" by force
  with assms(1) obtain out k where q: "q = Inr (out, k)" by (cases q) (auto simp: run_node_def)
  define a where "a = result_of c (now_of c w) v out k (rs_last_node_usage (ew_run v))"
  from assms(1) e q have w': "w' = v\<lparr>ew_run := note_node_output (ec_text c) (ec_connector c)
      (gn_flow n) out (record_node (gn_id n) out (gn_type n) (fn_output_key (gn_flow n)) a
        (snd (take_node_usage (ew_run v)))), ew_tool_rounds := []\<rparr>"
    by (simp add: run_node_def take_node_usage_def a_def Let_def)
  have "on_course v" using on_course_advances [OF assms(3)] execute_frame [OF e assms(2)] by blast
  then have "on_course w'" by (simp add: on_course_def w')
  moreover have "map_of (rs_node_outputs (ew_run w')) (gn_id n) = Some out" by (simp add: w' record_node_def)
  moreover have "ew_trace w' = ew_trace v" by (simp add: w')
  ultimately show ?thesis using execute_declares [of c n w out k v] e q by auto
qed

lemma run_step_routed:
  assumes "run_step c body wfl n w = (r, w')" "settled base w" "on_course w"
  shows "quarantine_audited (ew_trace w') \<or>
    (case r of
       Inl f \<Rightarrow> \<not> routing_failure f
     | Inr nxt \<Rightarrow> on_course w' \<and> (\<exists>s out. declared_next c wfl n s = Inr nxt \<and>
         map_of (rs_node_outputs s) (gn_id n) = Some out \<and> declared n out))"
proof -
  have live: "live w" using assms(2) by (simp add: settled_def)
  obtain q u where p: "poll c w = (q, u)" by force
  note pu = poll_advances [OF p] poll_live [OF p live]
  show ?thesis
  proof (cases q)
    case True
    with assms(1) p show ?thesis by (auto simp: run_step_def)
  next
    case False
    let ?v = "emit (NodeStarted (gn_id n)) u"
    have u: "live ?v" "on_course ?v"
      using pu False on_course_advances [OF assms(3) pu(1)] by (auto simp: on_course_def)
    obtain f v where e: "run_node c body n ?v = (f, v)" by force
    show ?thesis
    proof (cases f)
      case (Some g)
      with run_node_frame [OF e u(1)] have "\<not> routing_failure g" by (auto dest: node_failure_not_routing)
      then show ?thesis using assms(1) p False e Some
        by (auto simp: run_step_def split: if_splits prod.splits)
    next
      case None
      note v = run_node_declares [OF e [unfolded None] u]
      have lv: "live v" using run_node_frame [OF e u(1)] None by simp
      obtain q2 v2 where p2: "poll c v = (q2, v2)" by force
      note v2 = poll_advances [OF p2]
      show ?thesis
      proof (cases q2)
        case True
        with assms(1) p False e None p2 show ?thesis by (auto simp: run_step_def)
      next
        case go: False
        let ?y = "emit (Audited ''node_ok'') (persist c False (clear_pending v2))"
        obtain nx s where nx: "next_node c wfl n (ew_run ?y) = (nx, s)" by force
        from assms(1) p False e None p2 go nx have r: "r = nx" "w' = ?y\<lparr>ew_run := s\<rparr>"
          by (simp_all add: run_step_def Let_def)
        show ?thesis
        proof (cases "quarantine_audited (ew_trace v2)")
          case True
          then show ?thesis by (simp add: r clear_pending_def)
        next
          case quiet: False
          then have "\<not> quarantine_audited (ew_trace v)" using audited_advances [OF v2] by blast
          with v obtain out where out: "map_of (rs_node_outputs (ew_run ?y)) (gn_id n) = Some out" "declared n out"
            using poll_outputs [OF p2] by auto
          have "chosen_route (ew_run ?y) = None"
            using on_course_advances [OF conjunct1 [OF v] v2] quiet by (simp add: on_course_def)
          note nxt = next_node_declared [OF _ this, of c wfl n]
          show ?thesis
          proof (cases nx)
            case (Inl f)
            with nx next_node_not_routing show ?thesis by (auto simp: r)
          next
            case (Inr x)
            with nxt [of x s] nx out show ?thesis by (auto simp: r on_course_def)
          qed
        qed
      qed
    qed
  qed
qed

text \<open>
  The loop on a valid graph: the nodes still to come are finished before all that were seen, and there
  are fewer of them than steps left.
\<close>

lemma run_loop_routed:
  assumes "run_loop c body wfl left seen cur w = ((r, cur'), w')" "settled base w" "on_course w"
    "uses_explicit_routing wfl" "distinct (List.map gn_id (wf_nodes wfl))"
    "finished_order (graph_of wfl) order" "gn_id ` set (wf_nodes wfl) \<subseteq> set order"
    "\<And>x. set (succs (graph_of wfl) x) \<subseteq> gn_id ` set (wf_nodes wfl)"
    "truthy cur \<Longrightarrow> the cur \<in> gn_id ` set (wf_nodes wfl)"
    "truthy cur \<Longrightarrow> \<forall>x \<in> set seen. rank_in order (the cur) < rank_in order x"
    "distinct seen" "set seen \<subseteq> gn_id ` set (wf_nodes wfl)" "length (wf_nodes wfl) \<le> left + length seen"
  shows "quarantine_audited (ew_trace w') \<or> (\<forall>f. r = Some f \<longrightarrow> \<not> routing_failure f)"
  using assms(1-3,9-)
proof (induction left arbitrary: seen cur w)
  case 0
  show ?case
  proof (cases "truthy cur")
    case True
    have "distinct (the cur # seen)" using 0(5,6) True by auto
    moreover have "set (the cur # seen) \<subseteq> gn_id ` set (wf_nodes wfl)" using 0(4,7) True by simp
    ultimately have "length (the cur # seen) \<le> card (gn_id ` set (wf_nodes wfl))"
      by (metis card_mono distinct_card finite_imageI finite_set)
    also have "\<dots> \<le> length (wf_nodes wfl)" by (metis card_image_le card_length finite_set le_trans)
    finally show ?thesis using 0(8) by simp
  next
    case False
    with 0(1) show ?thesis by simp
  qed
next
  case (Suc left)
  show ?case
  proof (cases "truthy cur")
    case False
    with Suc.prems(1) show ?thesis by simp
  next
    case True
    then have new: "the cur \<notin> set seen" using Suc.prems(5) by auto
    obtain n where n: "n \<in> set (wf_nodes wfl)" "gn_id n = the cur" using Suc.prems(4) True by auto
    then have m: "map_of (node_map wfl) (the cur) = Some n"
      using assms(5) by (intro map_of_is_SomeI) (force simp: node_map_def o_def)+
    obtain q v where s: "run_step c body wfl n w = (q, v)" by force
    note step = run_step_ok [OF s Suc.prems(2)]
    note routed = run_step_routed [OF s Suc.prems(2,3)]
    show ?thesis
    proof (cases q)
      case (Inl f)
      with Suc.prems(1) True new m s have "r = Some f" "w' = v" by simp_all
      with routed Inl show ?thesis by auto
    next
      case (Inr nxt)
      then have st: "settled base v" using step by (simp add: step_ok_def)
      from Suc.prems(1) True new m s Inr
      have rest: "run_loop c body wfl left (the cur # seen) nxt v = ((r, cur'), w')" by simp
      show ?thesis
      proof (cases "quarantine_audited (ew_trace v)")
        case audited: True
        then show ?thesis using grows_audited [OF run_loop_grows [OF rest st]] by simp
      next
        case False
        with routed Inr obtain t out where oc: "on_course v" and nx: "declared_next c wfl n t = Inr nxt"
          "map_of (rs_node_outputs t) (gn_id n) = Some out" "declared n out" by auto
        have nxt: "the nxt \<in> set (succs (graph_of wfl) (the cur))" if "truthy nxt"
          using declared_next_in [OF _ _ assms(4) n(1) assms(5) nx(2,3), of c "the nxt"] nx(1) that n(2)
          by (cases nxt) (auto simp: truthy_def)
        have rank: "\<forall>x \<in> set (the cur # seen). rank_in order (the nxt) < rank_in order x" if "truthy nxt"
        proof -
          have "the cur \<in> set order" using assms(7) n by auto
          from rank_in_drops [OF assms(6) this nxt [OF that]] Suc.prems(5) True show ?thesis by auto
        qed
        show ?thesis
          by (rule Suc.IH [OF rest st oc _ rank]) (use nxt assms(8) Suc.prems(4,6-8) new True in auto)
      qed
    qed
  qed
qed

lemma drive_routed:
  assumes "drive c body wfl [] (Some (start_of wfl)) w = (r, w')" "settled base w \<or> ew_requested w" "on_course w"
    "validate_graph wfl = Inr wfl'" "uses_explicit_routing wfl" "length (wf_nodes wfl) \<le> MAX_STEPS"
    "quarantine_audited (ew_trace w) = False"
  shows "quarantine_audited (ew_trace w') \<or> (\<forall>f. r = Some f \<longrightarrow> \<not> routing_failure f)"
proof -
  obtain q u where p: "poll c w = (q, u)" by force
  show ?thesis
  proof (cases q)
    case True
    with assms(1) p have "r = Some Cancelled" by (simp add: drive_def)
    then show ?thesis by simp
  next
    case False
    with assms(2) p poll_idle [of c w u] have w: "settled base w" by auto
    have su: "settled base u" "on_course u"
      using settled_advances [OF w poll_advances [OF p]] poll_live [OF p] False w
        on_course_advances [OF assms(3) poll_advances [OF p]] by (auto simp: settled_def)
    obtain f cur v where l: "run_loop c body wfl MAX_STEPS [] (Some (start_of wfl)) u = ((f, cur), v)"
      by (metis surj_pair)
    note graph = validated_graph [OF assms(4)]
    obtain order where order: "gn_id ` set (wf_nodes wfl) \<subseteq> set order" "finished_order (graph_of wfl) order"
      using graph(4) by blast
    have loop: "quarantine_audited (ew_trace v) \<or> (\<forall>g. f = Some g \<longrightarrow> \<not> routing_failure g)"
      by (rule run_loop_routed [OF l su assms(5) graph(1) order(2,1) graph(3)])
        (use graph(2) assms(6) in auto)
    show ?thesis
    proof (cases f)
      case (Some g)
      with assms(1) p False l have "r = Some g" "w' = handle_failure c wfl g cur v" by (simp_all add: drive_def)
      with loop Some grows_audited [OF handle_failure_grows] show ?thesis by auto
    next
      case None
      with assms(1) p False l have "r = None \<or> r = Some Cancelled"
        by (auto simp: drive_def split: prod.splits if_splits)
      then show ?thesis by auto
    qed
  qed
qed

end

section \<open>The bodies of nodes\<close>

definition declares :: "node_body \<Rightarrow> bool" where
  "declares h = (\<forall>n k w v w'. h n k w = (Inr v, w') \<longrightarrow> declared n v)"

text \<open>The handlers that are arguments route as the node declares, and contracts keep the route.\<close>

definition declares_routes :: "body_ctx \<Rightarrow> bool" where
  "declares_routes b =
     ((\<forall>ty h. bd_extra b ty = Some h \<longrightarrow> declares h) \<and> (\<forall>ty h. bd_runner b ty = Some h \<longrightarrow> declares h) \<and>
      (\<forall>i e n v w v' w'. bd_contract b i = Some e \<longrightarrow> e v w = (Inr v', w') \<longrightarrow> declared n v \<longrightarrow> declared n v'))"

lemma plain_bodies_declare: "declares_routes (plain_bodies b)"
  by (simp add: declares_routes_def plain_bodies_def)

lemma run_handler_declares:
  assumes "declares_routes b" "run_handler c b n k w = (Inr v, w')"
  shows "declared n v"
proof (cases "bd_extra b (gn_type n)")
  case (Some h)
  with assms have "h n k w = (Inr v, w')" "declares h" by (simp_all add: run_handler_def declares_routes_def)
  then show ?thesis unfolding declares_def by blast
next
  case None
  consider "gn_type n = ''transform''" | "gn_type n = ''condition''"
    | h where "gn_type n \<noteq> ''transform''" "gn_type n \<noteq> ''condition''" "bd_runner b (gn_type n) = Some h"
    using None assms(2) by (cases "bd_runner b (gn_type n)") (auto simp: run_handler_def split: if_splits)
  then show ?thesis
  proof cases
    case 1
    then show ?thesis by (simp add: declared_def ROUTED_TYPES_def)
  next
    case 2
    with None assms(2) condition_declared show ?thesis by (auto simp: run_handler_def)
  next
    case 3
    with None assms have "h n k w = (Inr v, w')" "declares h" by (simp_all add: run_handler_def declares_routes_def)
    then show ?thesis unfolding declares_def by blast
  qed
qed

lemma execute_node_declares:
  assumes "declares_routes b" "execute_node c b n k w = (Inr v, w')"
  shows "declared n v"
proof -
  obtain f u where g: "body_gate b n w = (f, u)" by force
  with assms(2) have f: "f = None" by (cases f) (simp_all add: execute_node_def)
  obtain q x where h: "run_handler c b n k u = (q, x)" by force
  with assms(2) g f obtain y where y: "q = Inr y" by (cases q) (simp_all add: execute_node_def)
  note d = run_handler_declares [OF assms(1) h [unfolded y]]
  show ?thesis
  proof (cases "bd_contract b (gn_id n)")
    case None
    with assms(2) g f h y d show ?thesis by (simp add: execute_node_def)
  next
    case (Some e)
    with assms(2) g f h y have "e y x = (Inr v, w')" by (simp add: execute_node_def)
    with assms(1) Some d show ?thesis unfolding declares_routes_def by blast
  qed
qed

lemma routed_bodies: "keeps_run b \<Longrightarrow> declares_routes b \<Longrightarrow> routed_runner (execute_node c b)"
  by (intro routed_runner.intro keeps_node_runner routed_runner_axioms.intro execute_node_declares)

interpretation plain_routed: routed_runner "execute_node c (plain_bodies b)"
  by (rule routed_bodies [OF plain_bodies_keep plain_bodies_declare])

end
