(* ===== verification/NodeAttempts.thy ===== *)
theory NodeAttempts
  imports EngineRuns
begin

text \<open>
  How often an execution tries its node: the attempts are counted in the trace, whatever the failures,
  the declared recoveries and the requests to cancel.
\<close>

definition tries :: "string \<Rightarrow> engine_event list \<Rightarrow> nat" where
  "tries i tr = length (filter (\<lambda>e. case e of Attempted j k \<Rightarrow> j = i | _ \<Rightarrow> False) tr)"

lemma tries_simps [simp]:
  "tries i [] = 0" "tries i (xs @ ys) = tries i xs + tries i ys"
  "tries i (Attempted j k # tr) = (if j = i then Suc (tries i tr) else tries i tr)"
  "tries i (Persisted s # tr) = tries i tr" "tries i (NodeStarted j # tr) = tries i tr"
  "tries i (Slept x # tr) = tries i tr" "tries i (Audited a # tr) = tries i tr"
  by (simp_all add: tries_def)

lemma poll_tries: "poll c w = (q, w') \<Longrightarrow> tries i (ew_trace w') = tries i (ew_trace w)"
  by (auto simp: poll_def request_cancel_def Let_def)

lemma sleep_tries: "cancellable_sleep c x w = (q, w') \<Longrightarrow> tries i (ew_trace w') = tries i (ew_trace w)"
  by (auto simp: cancellable_sleep_def split: prod.splits if_splits dest!: poll_tries [where i = i])

lemma note_retry_trace [simp]: "ew_trace (note_retry c n reason w) = ew_trace w"
  by (simp add: note_retry_def)

text \<open>Only a declared recovery grants a try.\<close>

lemma declared_recovery_tries:
  "declared_recovery c n name message w = (m, w') \<Longrightarrow>
   tries i (ew_trace w') = tries i (ew_trace w) \<and> (m \<noteq> None \<longrightarrow> np_recovery (ec_policy c (gn_id n)) \<noteq> None)"
  by (auto simp: declared_recovery_def Let_def split: option.splits prod.splits)

lemma judge_tries:
  assumes "judge c n f w = (v, w')"
  shows "tries i (ew_trace w') = tries i (ew_trace w) \<and>
    (\<forall>g d. v = Retry g True d \<longrightarrow> np_recovery (ec_policy c (gn_id n)) \<noteq> None)"
proof (cases f)
  case (Raised k name message)
  obtain m u where r: "declared_recovery c n name message w = (m, u)" by force
  show ?thesis using assms Raised r declared_recovery_tries [OF r]
    by (cases m) (auto simp: judge_def split: if_splits)
qed (use assms in \<open>auto simp: judge_def\<close>)

definition no_attempts :: "node_body \<Rightarrow> graph_node \<Rightarrow> bool" where
  "no_attempts body n = (\<forall>k w. tries (gn_id n) (ew_trace (snd (body n k w))) = tries (gn_id n) (ew_trace w))"

lemma try_once_tries:
  assumes "try_once c body n k w = (v, w')" "no_attempts body n"
  shows "tries (gn_id n) (ew_trace w') \<le> Suc (tries (gn_id n) (ew_trace w)) \<and>
    (\<forall>g d. v = Retry g True d \<longrightarrow> np_recovery (ec_policy c (gn_id n)) \<noteq> None)"
proof -
  obtain q w1 where p: "poll c w = (q, w1)" by force
  obtain r w2 where b: "call_with_timeout c body n k w1 = (r, w2)" by force
  have w2: "tries (gn_id n) (ew_trace w2) = Suc (tries (gn_id n) (ew_trace w))"
  proof -
    obtain r0 w0 where c: "body n k (emit (Attempted (gn_id n) k) w1) = (r0, w0)" by force
    have "tries (gn_id n) (ew_trace w0) = Suc (tries (gn_id n) (ew_trace w1))"
      using assms(2) c unfolding no_attempts_def by (metis snd_conv tries_simps(1-3) world_simps(2) add_Suc_right add_0_right)
    moreover have "w2 = w0" using b c by (auto simp: call_with_timeout_def split: option.splits if_splits)
    ultimately show ?thesis using poll_tries [OF p] by simp
  qed
  show ?thesis
  proof (cases q)
    case True
    with assms(1) p poll_tries [OF p, of "gn_id n"] show ?thesis by (auto simp: try_once_def)
  next
    case False
    show ?thesis
    proof (cases r)
      case (Inr x)
      with False assms(1) p b w2 show ?thesis by (auto simp: try_once_def)
    next
      case (Inl f)
      with False assms(1) p b have j: "judge c n f w2 = (v, w')" by (simp add: try_once_def)
      from judge_tries [OF j, of "gn_id n"] w2 show ?thesis by simp
    qed
  qed
qed

lemma attempts_tries:
  assumes "attempts c body n left bonus k e w = (r, w')" "no_attempts body n"
  shows "tries (gn_id n) (ew_trace w') \<le> tries (gn_id n) (ew_trace w) + left +
    (if bonus \<or> np_recovery (ec_policy c (gn_id n)) = None then 0 else 1)"
  using assms(1)
proof (induction "left + (if bonus then 0 else 1)" arbitrary: left bonus k e w rule: less_induct)
  case less
  show ?case
  proof (cases left)
    case 0
    with less.prems show ?thesis by simp
  next
    case (Suc l)
    obtain v w1 where t: "try_once c body n (Suc k) w = (v, w1)" by force
    note once = try_once_tries [OF t assms(2)]
    show ?thesis
    proof (cases v)
      case (Success x)
      with less.prems Suc t once show ?thesis by auto
    next
      case (Fatal g)
      with less.prems Suc t once show ?thesis by auto
    next
      case (Retry g granted delay)
      let ?l = "if granted \<and> \<not> bonus then Suc l else l"
      from less.prems Suc t Retry consider "w' = w1"
        | u where "tries (gn_id n) (ew_trace u) = tries (gn_id n) (ew_trace w1)" "w' = u"
        | f u where "tries (gn_id n) (ew_trace u) = tries (gn_id n) (ew_trace w1)"
            "attempts c body n ?l (bonus \<or> granted) (Suc k) f u = (r, w')"
        by (auto split: option.splits prod.splits bool.splits if_splits dest: sleep_tries [where i = "gn_id n"])
      then show ?thesis
      proof cases
        case 1
        with once Suc show ?thesis by auto
      next
        case 2
        with once Suc show ?thesis by auto
      next
        case 3
        have "?l + (if bonus \<or> granted then 0 else 1) < left + (if bonus then 0 else 1)" using Suc by auto
        from less.hyps [OF this 3(2)] 3(1) once Retry Suc show ?thesis by (auto split: if_splits)
      qed
    qed
  qed
qed

lemma health_quarantine_tries:
  "health_quarantine c n w = (q, w') \<Longrightarrow> tries i (ew_trace w') = tries i (ew_trace w)"
  by (auto simp: health_quarantine_def Let_def split: sum.splits option.splits if_splits)

lemma execute_tries:
  assumes "execute_with_policy c body n w = (r, w')" "no_attempts body n"
  shows "tries (gn_id n) (ew_trace w') \<le> tries (gn_id n) (ew_trace w) + fst (retry_of c n) +
    (if np_recovery (ec_policy c (gn_id n)) = None then 0 else 1)"
proof -
  obtain q u where h: "health_quarantine c n w = (q, u)" by force
  note old = health_quarantine_tries [OF h, of "gn_id n"]
  show ?thesis
  proof (cases q)
    case None
    with assms(1) h have "attempts c body n (fst (retry_of c n)) False 0 None u = (r, w')"
      by (simp add: execute_with_policy_def)
    from attempts_tries [OF this assms(2)] old show ?thesis by simp
  next
    case (Some x)
    with assms(1) h old show ?thesis by (cases x) (auto simp: execute_with_policy_def)
  qed
qed

text \<open>The modelled bodies make no attempts of their own.\<close>

lemma body_gate_trace: "body_gate b n w = (f, w') \<Longrightarrow> ew_trace w' = ew_trace w"
  by (auto simp: body_gate_def consume_decision_def Let_def split: if_splits option.splits)

lemma plain_handler_world: "snd (run_handler c (plain_bodies b) n k w) = w"
  by (simp add: run_handler_def plain_bodies_def)

lemma plain_no_attempts: "no_attempts (execute_node c (plain_bodies b)) n"
proof -
  have "ew_trace (snd (execute_node c (plain_bodies b) n k w)) = ew_trace w" for k w
  proof -
    obtain f u where g: "body_gate (plain_bodies b) n w = (f, u)" by force
    obtain q where h: "run_handler c (plain_bodies b) n k u = (q, u)"
      using plain_handler_world by (metis prod.collapse)
    show ?thesis using g h body_gate_trace [OF g]
      by (cases f; cases q) (simp_all add: execute_node_def, simp_all add: plain_bodies_def)
  qed
  then show ?thesis by (simp add: no_attempts_def)
qed

end
