(* ===== verification/EngineSafety.thy ===== *)
theory EngineSafety
  imports EngineRouting NodeAttempts
begin

text \<open>
  The properties of runs of workflows: how a run ends, what is stored when it is interrupted, which
  nodes a resumption runs, that a validated graph is followed to its end, how often a node is tried.
\<close>

section \<open>A small workflow\<close>

definition demo_flow :: "string \<Rightarrow> string \<Rightarrow> flow_node" where
  "demo_flow ty i =
     \<lparr>fn_type = ty, fn_id = i, fn_output_key = None, fn_tool = None, fn_prompt = None, fn_system = None,
      fn_media = False, fn_template = Some ''hi'', fn_source = None, fn_when = Some ''a == hi'',
      fn_items = None, fn_body_type = [], fn_body_tool = None, fn_body_template = None, fn_branches = [],
      fn_state = PNone\<rparr>"

definition demo_node :: "string \<Rightarrow> string \<Rightarrow> string option \<Rightarrow> string option \<Rightarrow> graph_node" where
  "demo_node ty i nxt dest =
     \<lparr>gn_flow = demo_flow ty i, gn_next = nxt, gn_then = dest, gn_else = None, gn_default = PNone,
      gn_on_low = None, gn_routes = [], gn_route_on = None\<rparr>"

definition demo_workflow :: workflow_spec where
  "demo_workflow =
     \<lparr>wf_name = ''demo'', wf_start = None,
      wf_nodes = [demo_node ''transform'' ''a'' (Some ''b'') None,
                  demo_node ''condition'' ''b'' None (Some ''c''), demo_node ''transform'' ''c'' None None],
      wf_edges = []\<rparr>"

definition demo_policy :: node_policy where
  "demo_policy =
     \<lparr>np_retry = Some (2, 1, 2), np_timeout = None, np_recovery = None, np_health = None, np_feedback = None\<rparr>"

definition demo_ctx :: engine_ctx where
  "demo_ctx =
     \<lparr>ec_arrives = \<lambda>k. False, ec_now = \<lambda>k. ''2026-01-01'', ec_uuid = \<lambda>k. ''u'', ec_text = \<lambda>x. ''1.0'',
      ec_number = \<lambda>s. None, ec_pstdev = \<lambda>xs. 0, ec_model = ''m'', ec_stored = None,
      ec_policy = \<lambda>i. demo_policy, ec_late = \<lambda>i k. False, ec_sha = \<lambda>s. s, ec_connector = \<lambda>s. False\<rparr>"

definition demo_bodies :: body_ctx where
  "demo_bodies =
     \<lparr>bd_gated = \<lambda>i. False, bd_dry_run = False, bd_parse_json = \<lambda>i. False, bd_json_path = \<lambda>i. None,
      bd_loads = \<lambda>s. Inl s, bd_extra = \<lambda>ty. None, bd_runner = \<lambda>ty. None, bd_contract = \<lambda>i. None\<rparr>"

definition demo_world :: engine_world where
  "demo_world =
     \<lparr>ew_run = start_run ''r1'' ''demo'' [] [] ''2026-01-01'', ew_meter = None, ew_requested = False,
      ew_polls = 0, ew_route = None, ew_tool_rounds = [], ew_recovery = no_recovery, ew_decisions = [],
      ew_trace = []\<rparr>"

abbreviation demo_run :: "failure option \<times> engine_world" where
  "demo_run \<equiv> run_workflow demo_ctx (execute_node demo_ctx demo_bodies) demo_workflow ''r1'' [] [] None demo_world"

lemma demo_bodies_keep: "keeps_run demo_bodies"
  by (simp add: keeps_run_def demo_bodies_def)

lemma demo_bodies_declare: "declares_routes demo_bodies"
  by (simp add: declares_routes_def demo_bodies_def)

lemma open_demo: "open_run demo_ctx demo_workflow ''r1'' [] [] None =
    Inr ((Some ''a'', []), start_run ''r1'' ''demo'' [] [] ''2026-01-01'')"
  by (simp add: open_run_def start_of_def demo_workflow_def demo_node_def demo_flow_def demo_ctx_def truthy_def)

lemma demo_start: "ew_trace demo_world = []"
  by (simp add: demo_world_def)

lemmas run_eq = prod.collapse [symmetric]

text \<open>A body during which the run is asked to cancel.\<close>

definition slow_bodies :: body_ctx where
  "slow_bodies =
     demo_bodies\<lparr>bd_runner := \<lambda>ty. if ty = ''slow''
                    then Some (\<lambda>n k w. (Inr PNone, request_cancel demo_ctx True w)) else None\<rparr>"

definition slow_workflow :: workflow_spec where
  "slow_workflow = demo_workflow\<lparr>wf_nodes := [demo_node ''slow'' ''a'' (Some ''b'') None,
                                               demo_node ''transform'' ''b'' None None]\<rparr>"

definition slow_state :: run_state where
  "slow_state = ew_run (snd (run_workflow demo_ctx (execute_node demo_ctx slow_bodies) slow_workflow
     ''r1'' [] [] None demo_world))"

section \<open>How a run ends\<close>

text \<open>
  C1. Every run that opens ends in the state of its outcome, and the record saved last is its final
  state: succeeded, cancelled, paused, waiting or failed, whatever the nodes raise and whenever a
  request to cancel arrives.
\<close>

theorem run_ends_recorded:
  assumes "keeps_run b" "ew_trace w = []"
    "open_run c wfl i inputs metadata stored = Inr ((cur, seen), s)"
    "run_workflow c (execute_node c b) wfl i inputs metadata stored w = (r, w')"
  shows "rs_status (ew_run w') = outcome_status r \<and> last_saved (ew_trace w') = Some (ew_run w')"
  using node_runner.run_workflow_ok [OF keeps_node_runner [OF assms(1)] assms(4,2,3)] by (simp add: ended_def)

theorem run_ends_recorded_witness:
  "rs_status (ew_run (snd demo_run)) = outcome_status (fst demo_run) \<and>
   last_saved (ew_trace (snd demo_run)) = Some (ew_run (snd demo_run))"
  by (rule run_ends_recorded [OF demo_bodies_keep demo_start open_demo run_eq])

section \<open>Which nodes run\<close>

text \<open>
  C4. A run starts each node at most once and no more than 500 nodes; a resumption starts no node that
  the stored record has as completed.
\<close>

theorem nodes_start_once:
  assumes "keeps_run b" "ew_trace w = []"
    "open_run c wfl i inputs metadata stored = Inr ((cur, seen), s)"
    "run_workflow c (execute_node c b) wfl i inputs metadata stored w = (r, w')"
  shows "distinct (started (ew_trace w')) \<and> length (started (ew_trace w')) \<le> 500 \<and>
    set (started (ew_trace w')) \<inter>
      set (case stored of None \<Rightarrow> [] | Some t \<Rightarrow> if is_fresh_start t then [] else completed_nodes t) = {}"
proof -
  have "seen = (case stored of None \<Rightarrow> [] | Some t \<Rightarrow> if is_fresh_start t then [] else completed_nodes t)"
    using assms(3) by (auto simp: open_run_def resume_cursor_def split: option.splits if_splits sum.splits prod.splits)
  with node_runner.run_workflow_ok [OF keeps_node_runner [OF assms(1)] assms(4,2,3)]
  show ?thesis by (simp add: MAX_STEPS_def)
qed

theorem nodes_start_once_witness:
  "distinct (started (ew_trace (snd demo_run))) \<and> length (started (ew_trace (snd demo_run))) \<le> 500 \<and>
    set (started (ew_trace (snd demo_run))) \<inter>
      set (case (None :: run_state option) of None \<Rightarrow> [] | Some t \<Rightarrow> if is_fresh_start t then [] else completed_nodes t) = {}"
  by (rule nodes_start_once [OF demo_bodies_keep demo_start open_demo run_eq])

text \<open>
  C2. When a node starts, the record saved last has the results of all nodes that started before it, in
  order, after those the run was opened with: a process that dies in the node has lost no other
  result, and the resumption from that record starts none of the nodes it has as completed.
\<close>

theorem crash_loses_one_node:
  assumes "keeps_run b" "ew_trace w = []" "ew_trace v = []"
    "open_run c wfl i inputs metadata stored = Inr ((cur, seen), s)"
    "run_workflow c (execute_node c b) wfl i inputs metadata stored w = (r, w')"
    "ew_trace w' = pre @ NodeStarted n # post" "last_saved pre = Some t"
    "open_run c' wfl i inputs metadata (Some t) = Inr ((cur', seen'), s')" "\<not> is_fresh_start t"
    "run_workflow c' (execute_node c' b) wfl i inputs metadata (Some t) v = (r', v')"
  shows "recorded t = recorded s @ started pre \<and> set (started (ew_trace v')) \<inter> set (completed_nodes t) = {}"
proof -
  have "checkpointed (recorded s) (ew_trace w')"
    using node_runner.run_workflow_ok [OF keeps_node_runner [OF assms(1)] assms(5,2,4)] by blast
  with assms(6,7) have "recorded t = recorded s @ started pre" unfolding checkpointed_def by fastforce
  moreover have "seen' = completed_nodes t" using assms(8,9)
    by (auto simp: open_run_def resume_cursor_def split: if_splits sum.splits prod.splits)
  moreover have "set (started (ew_trace v')) \<inter> set seen' = {}"
    using node_runner.run_workflow_ok [OF keeps_node_runner [OF assms(1)] assms(10,3,8)] by blast
  ultimately show ?thesis by simp
qed

definition crash_state :: run_state where
  "crash_state = the (last_saved (take 6 (ew_trace (snd demo_run))))"

abbreviation demo_resumed :: "failure option \<times> engine_world" where
  "demo_resumed \<equiv>
     run_workflow demo_ctx (execute_node demo_ctx demo_bodies) demo_workflow ''r1'' [] [] (Some crash_state) demo_world"

lemma demo_crash:
  "6 < length (ew_trace (snd demo_run)) \<and> ew_trace (snd demo_run) ! 6 = NodeStarted ''b'' \<and>
   last_saved (take 6 (ew_trace (snd demo_run))) = Some crash_state \<and> \<not> is_fresh_start crash_state \<and>
   open_run demo_ctx demo_workflow ''r1'' [] [] (Some crash_state) =
     Inr ((Some ''b'', [''a'']), snd (case open_run demo_ctx demo_workflow ''r1'' [] [] (Some crash_state) of
       Inl f \<Rightarrow> ((None, []), crash_state) | Inr x \<Rightarrow> x))"
  by code_simp

theorem crash_loses_one_node_witness:
  "recorded crash_state = recorded (start_run ''r1'' ''demo'' [] [] ''2026-01-01'') @
     started (take 6 (ew_trace (snd demo_run))) \<and>
   set (started (ew_trace (snd demo_resumed))) \<inter> set (completed_nodes crash_state) = {}"
proof -
  have "ew_trace (snd demo_run) = take 6 (ew_trace (snd demo_run)) @ NodeStarted ''b'' # drop 7 (ew_trace (snd demo_run))"
    using id_take_nth_drop [of 6 "ew_trace (snd demo_run)"] demo_crash by simp
  from crash_loses_one_node [OF demo_bodies_keep demo_start demo_start open_demo run_eq this
      demo_crash [THEN conjunct2, THEN conjunct2, THEN conjunct1] _ _ run_eq] demo_crash
  show ?thesis by blast
qed

section \<open>Resuming a cancelled run\<close>

text \<open>
  C5. A stored run whose pending node is already completed can never be resumed: the resumption fails
  with a cycle at that node, runs nothing, and stores the same pending node again. A request to cancel
  that is noticed after a body succeeded stores such a run.
\<close>

theorem completed_pending_is_stuck:
  assumes "rs_pending_node s = Some n" "n \<in> set (completed_nodes s)" "n \<noteq> []" "rs_status s \<noteq> ''succeeded''"
    "\<forall>k. \<not> ec_arrives c k" "\<not> ew_requested w" "ew_trace w = []"
    "run_workflow c body wfl i inputs metadata (Some s) w = (r, w')"
  shows "r = Some (cycle_error n) \<and> started (ew_trace w') = [] \<and> rs_pending_node (ew_run w') = Some n \<and>
    n \<in> set (completed_nodes (ew_run w')) \<and> rs_status (ew_run w') = ''failed''"
proof -
  have fresh: "\<not> is_fresh_start s" using assms(1,3) by (simp add: is_fresh_start_def truthy_def)
  let ?s = "with_inputs inputs metadata (reopen (Some n) s)"
  have open_: "open_run c wfl i inputs metadata (Some s) = Inr ((Some n, completed_nodes s), ?s)"
    using assms(1,3,4) fresh by (simp add: open_run_def resume_cursor_def cursor_of_def truthy_def)
  let ?b = "begin_run c (w\<lparr>ew_run := ?s\<rparr>)"
  have b: "ew_requested ?b = False" "started (ew_trace ?b) = []" "completed_nodes (ew_run ?b) = completed_nodes ?s"
    using assms(6,7) by (simp_all add: begin_run_def completed_nodes_def seed_input_provenance_def)
  have kept: "n \<in> set (completed_nodes ?s)"
    using assms(2,3) by (auto simp: completed_nodes_def with_inputs_def reopen_def Let_def)
  let ?v = "?b\<lparr>ew_polls := Suc (ew_polls ?b)\<rparr>"
  have p: "poll c ?b = (False, ?v)" using assms(5) b(1) by (simp add: poll_def Let_def)
  have "run_loop c body wfl MAX_STEPS (completed_nodes s) (Some n) ?v = ((Some (cycle_error n), Some n), ?v)"
    using assms(2,3) by (simp add: MAX_STEPS_def numeral_eq_Suc truthy_def)
  with assms(8) open_ p have r: "r = Some (cycle_error n)" "w' = handle_failure c wfl (cycle_error n) (Some n) ?v"
    by (simp_all add: run_workflow_def drive_def)
  have e: "''failed'' \<in> set TERMINAL" by (simp add: TERMINAL_def)
  have "rs_status (ew_run w') = ''failed''"
    using end_with_ended(1) [OF e, where c = c and cur = "Some n"] unfolding r(2)
    by (simp add: handle_failure_def cycle_error_def workflow_error_def Let_def ended_def)
  moreover have "closes ?v w'"
    unfolding r(2) by (simp add: handle_failure_def cycle_error_def workflow_error_def end_with_def Let_def closes_def)
  moreover have "rs_pending_node (ew_run w') = Some n"
    unfolding r(2) by (simp add: handle_failure_def cycle_error_def workflow_error_def end_with_def finish_def Let_def)
  moreover have "n \<in> set (completed_nodes (ew_run w'))"
    using kept b(3) unfolding r(2)
    by (simp add: handle_failure_def cycle_error_def workflow_error_def end_with_def finish_def Let_def
        completed_nodes_def record_error_def)
  ultimately show ?thesis using r(1) b(2) closes_frame(1) [of ?v w'] by simp
qed

lemma slow_state_stuck:
  "rs_pending_node slow_state = Some ''a'' \<and> ''a'' \<in> set (completed_nodes slow_state) \<and>
   rs_status slow_state = ''cancelled''"
  by code_simp

theorem completed_pending_is_stuck_witness:
  "fst (run_workflow demo_ctx (execute_node demo_ctx demo_bodies) slow_workflow ''r1'' [] [] (Some slow_state)
     demo_world) = Some (cycle_error ''a'')"
  using completed_pending_is_stuck [of slow_state "''a''" demo_ctx demo_world "execute_node demo_ctx demo_bodies"
      slow_workflow "''r1''" "[]" "[]", OF _ _ _ _ _ _ demo_start run_eq] slow_state_stuck
  by (simp add: demo_ctx_def demo_world_def)

section \<open>Validated graphs\<close>

text \<open>
  C3. A fresh run of a workflow that passed the validation of its graph, that routes explicitly and has
  at most 500 nodes, never fails with a cycle, an unknown node or too many steps, unless a health gate
  sent it to a fallback node.
\<close>

theorem validated_graph_is_followed:
  assumes "validate_graph wfl = Inr wfl'" "uses_explicit_routing wfl" "length (wf_nodes wfl) \<le> 500"
    "keeps_run b" "declares_routes b" "ew_trace w = []" "map_of metadata ''quarantine_next'' = None"
    "run_workflow c (execute_node c b) wfl i inputs metadata None w = (r, w')"
  shows "(\<forall>n. r \<noteq> Some (cycle_error n) \<and> r \<noteq> Some (unknown_node n)) \<and> r \<noteq> Some too_many_steps \<or>
    Audited ''health_quarantine'' \<in> set (ew_trace w')"
proof -
  let ?w = "w\<lparr>ew_run := start_run i (wf_name wfl) inputs metadata (ec_now c 0)\<rparr>"
  have d: "drive c (execute_node c b) wfl [] (Some (start_of wfl)) (begin_run c ?w) = (r, w')"
    using assms(8) by (simp add: run_workflow_def open_run_def)
  have "live ?w" "ew_trace ?w = []" using assms(6) by (simp_all add: live_def start_run_def)
  note b = node_runner.begin_run_ok(1) [OF keeps_node_runner [OF assms(4)] this(2,1), of c "[]"]
  have quiet: "quarantine_audited (ew_trace (begin_run c ?w)) = False"
    using assms(6) by (simp add: begin_run_def Let_def)
  have "chosen_route (start_run i (wf_name wfl) inputs metadata now) = None" for now
    using assms(7) by (simp add: chosen_route_def start_run_def)
  moreover have "chosen_route (seed_input_provenance t) = chosen_route t" for t
    by (simp add: seed_input_provenance_def chosen_route_def)
  ultimately have "chosen_route (ew_run (begin_run c ?w)) = None" by (simp add: begin_run_def Let_def)
  then have "on_course (begin_run c ?w)" by (simp add: on_course_def)
  with routed_runner.drive_routed [OF routed_bodies [OF assms(4,5)] d _ _ assms(1,2) _ quiet] b assms(3)
  show ?thesis by (auto simp: MAX_STEPS_def routing_failure_def quarantine_audited_def)
qed

theorem validated_graph_is_followed_witness:
  "(\<forall>n. fst demo_run \<noteq> Some (cycle_error n) \<and> fst demo_run \<noteq> Some (unknown_node n)) \<and>
   fst demo_run \<noteq> Some too_many_steps \<or> Audited ''health_quarantine'' \<in> set (ew_trace (snd demo_run))"
proof (rule validated_graph_is_followed [OF _ _ _ demo_bodies_keep demo_bodies_declare demo_start _ run_eq])
  show "validate_graph demo_workflow = Inr (demo_workflow\<lparr>wf_start := Some ''a''\<rparr>)" by code_simp
  show "uses_explicit_routing demo_workflow" by code_simp
  show "length (wf_nodes demo_workflow) \<le> 500" by (simp add: demo_workflow_def)
qed simp

section \<open>One node\<close>

text \<open>
  C6. A node is tried at most \<open>max_attempts\<close> times, and once more when a recovery is declared, whatever
  the failures are and however many recoveries match them.
\<close>

theorem attempts_bounded:
  assumes "execute_with_policy c (execute_node c b) n w = (r, w')" "no_attempts (execute_node c b) n"
  shows "tries (gn_id n) (ew_trace w') \<le> tries (gn_id n) (ew_trace w) + fst (retry_of c n) +
    (if np_recovery (ec_policy c (gn_id n)) = None then 0 else 1)"
  by (rule execute_tries [OF assms])

definition failing_node :: graph_node where
  "failing_node = demo_node ''nope'' ''x'' None None"

theorem attempts_bounded_witness:
  "tries ''x'' (ew_trace (snd (execute_with_policy demo_ctx (execute_node demo_ctx (plain_bodies demo_bodies))
     failing_node demo_world))) \<le> 2"
  using attempts_bounded [of demo_ctx "plain_bodies demo_bodies" failing_node demo_world, OF run_eq plain_no_attempts]
  by (simp add: failing_node_def demo_node_def demo_flow_def demo_ctx_def demo_policy_def retry_of_def demo_world_def)

text \<open>
  A health gate pauses the run before the node is tried, whatever decisions the context holds: an
  approval of the gate does not let the node run, because the gate is evaluated again and never reads
  the decision.
\<close>

theorem health_gate_ignores_decisions:
  assumes "node_decision c n (ew_run w) = Inr (Some d)" "qd_action d = ''gate''"
  shows "execute_with_policy c body n (w\<lparr>ew_decisions := ds\<rparr>) =
    (Inl (NeedsApproval (gn_id n) (qd_reason d) (Some (gate_pause d))),
     emit (Audited ''health_quarantine'') (on_run (note_quarantine (gn_id n) d) (w\<lparr>ew_decisions := ds\<rparr>)))"
  using assms by (simp add: execute_with_policy_def health_quarantine_def Let_def)

definition failed_before :: run_state where
  "failed_before =
     record_error ''x'' ''tool'' ''timeout'' 1 ''2026-01-01'' (finish ''failed'' ''2026-01-01''
       (start_run ''r0'' ''demo'' [] [] ''2026-01-01''))"

definition gated_ctx :: engine_ctx where
  "gated_ctx = demo_ctx\<lparr>ec_stored := Some [failed_before],
     ec_policy := \<lambda>i. demo_policy\<lparr>np_recovery := Some [],
       np_health := Some \<lparr>hg_min_success_rate = 1 / 2, hg_window = 10, hg_below = ''gate'', hg_fallback = None\<rparr>\<rparr>\<rparr>"

definition gated_decision :: quarantine_decision where
  "gated_decision = (case node_decision gated_ctx failing_node (ew_run demo_world) of Inr (Some d) \<Rightarrow> d
     | _ \<Rightarrow> \<lparr>qd_action = [], qd_success_rate = 0, qd_threshold = 0, qd_fallback = None, qd_reason = []\<rparr>)"

lemma gated_decision_gate:
  "node_decision gated_ctx failing_node (ew_run demo_world) = Inr (Some gated_decision) \<and>
   qd_action gated_decision = ''gate''"
  by code_simp

theorem health_gate_ignores_decisions_witness:
  "fst (execute_with_policy gated_ctx (execute_node gated_ctx demo_bodies) failing_node
     (demo_world\<lparr>ew_decisions := [(''x'', ''approve'')]\<rparr>)) =
   Inl (NeedsApproval (gn_id failing_node) (qd_reason gated_decision) (Some (gate_pause gated_decision)))"
  using health_gate_ignores_decisions [OF gated_decision_gate [THEN conjunct1] gated_decision_gate [THEN conjunct2],
      of "execute_node gated_ctx demo_bodies" "[(''x'', ''approve'')]"] by simp

text \<open>
  C7. A node that the policy gates does nothing before an approving decision: it asks for one, or is
  denied by another one, and the run stays as it is.
\<close>

theorem gated_node_waits:
  assumes "bd_gated b (gn_id n)" "gn_type n \<noteq> ''code''"
    "map_of (ew_decisions w) (gn_id n) \<notin> Some ` set APPROVE_VALUES"
    "execute_node c b n k w = (r, w')"
  shows "ew_run w' = ew_run w \<and> ew_trace w' = ew_trace w \<and>
    ((\<exists>text. r = Inl (NeedsApproval (gn_id n) text None)) \<or>
     (\<exists>text. r = Inl (Raised PolicyDeniedErr ''PolicyDenied'' text)))"
proof (cases "truthy (map_of (ew_decisions w) (gn_id n))")
  case False
  with assms show ?thesis by (auto simp: execute_node_def body_gate_def consume_decision_def)
next
  case True
  then obtain d where "map_of (ew_decisions w) (gn_id n) = Some d" by (cases "map_of (ew_decisions w) (gn_id n)") (auto simp: truthy_def)
  with assms True show ?thesis
    by (auto simp: execute_node_def body_gate_def consume_decision_def Let_def split: if_splits)
qed

theorem gated_node_waits_witness:
  "ew_run (snd (execute_node demo_ctx (demo_bodies\<lparr>bd_gated := \<lambda>i. True\<rparr>) failing_node 1 demo_world)) =
     ew_run demo_world"
  using gated_node_waits [of "demo_bodies\<lparr>bd_gated := \<lambda>i. True\<rparr>" failing_node demo_world demo_ctx 1, OF _ _ _ run_eq]
  by (simp add: failing_node_def demo_node_def demo_flow_def demo_world_def)

end
