(* ===== verification/AuditTrail.thy ===== *)
theory AuditTrail
  imports Values "HOL-Library.List_Lexorder" "HOL-Library.Char_ord"
begin

text \<open>
  The audit trail, \<open>audit.py\<close>: hash-chained lines, rotation with an anchor, the readers and the
  verifier. A file is the list of its lines, decoded; every append ends its line. The digest of a
  dictionary (SHA-256 of its JSON text), the size of a file and the clock are arguments.
\<close>

section \<open>Files\<close>

datatype audit_line = BlankLine | BadLine | JsonLine pyval

type_synonym audit_file = "audit_line list"
type_synonym audit_dir = "(string \<times> audit_file) list"
type_synonym digest = "pydict \<Rightarrow> string"

definition GENESIS_HASH :: string where
  "GENESIS_HASH = replicate 64 CHR ''0''"

definition DEFAULT_ROTATE_BYTES :: int where
  "DEFAULT_ROTATE_BYTES = 10485760"

definition has_key :: "pydict \<Rightarrow> string \<Rightarrow> bool" where
  "has_key d k = (map_of d k \<noteq> None)"

definition is_chained :: "pydict \<Rightarrow> bool" where
  "is_chained row = (has_key row ''seq'' \<and> has_key row ''prev_hash'' \<and> has_key row ''entry_hash'')"

text \<open>The hashed part of an entry, with sorted keys; the keys of a JSON object are distinct.\<close>

definition entry_body :: "pydict \<Rightarrow> pydict" where
  "entry_body row = sort_key fst (filter (\<lambda>(k, v). k \<noteq> ''entry_hash'') row)"

definition compute_entry_hash :: "digest \<Rightarrow> pydict \<Rightarrow> string" where
  "compute_entry_hash sha row = sha (entry_body row)"

section \<open>Appending\<close>

text \<open>\<open>_tail_chain\<close>: the loop over the lines, with the number of lines read so far.\<close>

definition tail_step :: "(rat \<Rightarrow> string) \<Rightarrow> audit_line \<Rightarrow> nat \<times> int \<times> string \<Rightarrow> (nat \<times> int \<times> string) option" where
  "tail_step fr line st =
     (case st of (n, seq, hash) \<Rightarrow>
        (case line of
           BlankLine \<Rightarrow> Some st
         | BadLine \<Rightarrow> Some (Suc n, seq, hash)
         | JsonLine (PDict row) \<Rightarrow>
             if is_chained row then
               map_option (\<lambda>k. (Suc n, k, py_str fr (vget row ''entry_hash''))) (to_int (vget row ''seq''))
             else Some (Suc n, max seq (int (Suc n)), hash)
         | JsonLine v \<Rightarrow> Some (Suc n, seq, hash)))"

fun tail_walk :: "(rat \<Rightarrow> string) \<Rightarrow> audit_file \<Rightarrow> nat \<times> int \<times> string \<Rightarrow> (nat \<times> int \<times> string) option" where
  "tail_walk fr [] st = Some st"
| "tail_walk fr (line # lines) st = Option.bind (tail_step fr line st) (tail_walk fr lines)"

text \<open>\<open>None\<close>: a sequence number that is no number raises.\<close>

definition tail_chain :: "(rat \<Rightarrow> string) \<Rightarrow> audit_file option \<Rightarrow> (int \<times> string) option" where
  "tail_chain fr f =
     (case f of
        None \<Rightarrow> Some (0, GENESIS_HASH)
      | Some lines \<Rightarrow> map_option snd (tail_walk fr lines (0, 0, GENESIS_HASH)))"

definition seal_entry :: "digest \<Rightarrow> int \<Rightarrow> string \<Rightarrow> pydict \<Rightarrow> pydict" where
  "seal_entry sha seq prev payload =
     (let row = dset ''prev_hash'' (PStr prev) (dset ''seq'' (PInt seq) payload)
      in dset ''entry_hash'' (PStr (compute_entry_hash sha row)) row)"

definition append_line :: "string \<Rightarrow> pydict \<Rightarrow> audit_dir \<Rightarrow> audit_dir" where
  "append_line name row dir =
     dset name ((case map_of dir name of None \<Rightarrow> [] | Some lines \<Rightarrow> lines) @ [JsonLine (PDict row)]) dir"

definition rotated_name :: "string \<Rightarrow> nat \<Rightarrow> string" where
  "rotated_name stem n = stem @ ''.'' @ nat_text n @ ''.jsonl''"

text \<open>The first number that no file has; one of the first \<open>length dir + 1\<close> is free.\<close>

definition free_number :: "string \<Rightarrow> audit_dir \<Rightarrow> nat" where
  "free_number stem dir =
     (case find (\<lambda>n. map_of dir (rotated_name stem n) = None) [1..<length dir + 2] of
        Some n \<Rightarrow> n | None \<Rightarrow> length dir + 1)"

definition anchor_entry :: "digest \<Rightarrow> string \<Rightarrow> string \<Rightarrow> string \<Rightarrow> int \<Rightarrow> string \<Rightarrow> pydict" where
  "anchor_entry sha stem dest now seq hash =
     (let row = [(''event'', PStr ''chain_anchor''), (''run_id'', PStr (before_char CHR ''.'' stem)),
                 (''prev_file'', PStr dest), (''prev_seq'', PInt seq), (''ts'', PStr now),
                 (''seq'', PInt 1), (''prev_hash'', PStr hash)]
      in row @ [(''entry_hash'', PStr (compute_entry_hash sha row))])"

definition rotate_if_needed :: "(rat \<Rightarrow> string) \<Rightarrow> digest \<Rightarrow> (audit_file \<Rightarrow> int) \<Rightarrow> string \<Rightarrow> string \<Rightarrow> int \<Rightarrow>
    audit_dir \<Rightarrow> audit_dir option" where
  "rotate_if_needed fr sha bytes now stem rotate_bytes dir =
     (let name = stem @ ''.jsonl'' in
      case map_of dir name of
        None \<Rightarrow> Some dir
      | Some lines \<Rightarrow>
          if bytes lines < rotate_bytes then Some dir
          else
            (let dest = rotated_name stem (free_number stem dir) in
             case tail_chain fr (Some lines) of
               None \<Rightarrow> None
             | Some (seq, hash) \<Rightarrow>
                 Some (append_line name (anchor_entry sha stem dest now seq hash)
                   (AList.delete name (dset dest lines dir)))))"

definition payload_run :: "(rat \<Rightarrow> string) \<Rightarrow> pydict \<Rightarrow> string" where
  "payload_run fr payload = text_or fr (vget payload ''run_id'') ''unknown''"

definition append_audit_event :: "(rat \<Rightarrow> string) \<Rightarrow> digest \<Rightarrow> (audit_file \<Rightarrow> int) \<Rightarrow> string \<Rightarrow> int \<Rightarrow> pydict \<Rightarrow>
    audit_dir \<Rightarrow> audit_dir option" where
  "append_audit_event fr sha bytes now rotate_bytes event dir =
     (let payload = setdefault ''ts'' (PStr now) event;
          stem = payload_run fr payload
      in Option.bind (if 0 < rotate_bytes then rotate_if_needed fr sha bytes now stem rotate_bytes dir else Some dir)
           (\<lambda>dir. map_option (\<lambda>(seq, hash). append_line (stem @ ''.jsonl'') (seal_entry sha (seq + 1) hash payload) dir)
                    (tail_chain fr (map_of dir (stem @ ''.jsonl'')))))"

section \<open>Reading\<close>

function list_rotated :: "audit_dir \<Rightarrow> string \<Rightarrow> nat \<Rightarrow> string list" where
  "list_rotated dir run_id n =
     (if map_of dir (rotated_name run_id n) = None \<or> length dir < n then []
      else rotated_name run_id n # list_rotated dir run_id (Suc n))"
  by auto
termination by (relation "measure (\<lambda>(dir, run_id, n). Suc (length dir) - n)") auto

declare list_rotated.simps [simp del]

definition list_audit_files :: "audit_dir \<Rightarrow> string \<Rightarrow> string list" where
  "list_audit_files dir run_id =
     list_rotated dir run_id 1 @ (if map_of dir (run_id @ ''.jsonl'') = None then [] else [run_id @ ''.jsonl''])"

definition file_events :: "audit_file \<Rightarrow> pydict list" where
  "file_events lines = concat (List.map (\<lambda>l. case l of JsonLine (PDict row) \<Rightarrow> [row] | _ \<Rightarrow> []) lines)"

definition read_audit_events :: "audit_dir \<Rightarrow> string \<Rightarrow> pydict list" where
  "read_audit_events dir run_id =
     concat (List.map (\<lambda>name. file_events (the (map_of dir name))) (list_audit_files dir run_id))"

section \<open>Verifying\<close>

record verify_report =
  vr_total :: nat
  vr_chained :: nat
  vr_unchained :: nat
  vr_ranges :: "(nat \<times> nat) list"
  vr_first_break :: "int option"
  vr_reason :: "string option"
  vr_ok :: bool

definition new_report :: verify_report where
  "new_report = \<lparr>vr_total = 0, vr_chained = 0, vr_unchained = 0, vr_ranges = [], vr_first_break = None,
     vr_reason = None, vr_ok = True\<rparr>"

definition close_unchained :: "nat option \<Rightarrow> nat \<Rightarrow> verify_report \<Rightarrow> verify_report" where
  "close_unchained start final r =
     (case start of
        None \<Rightarrow> r
      | Some s \<Rightarrow> if final < s then r else r\<lparr>vr_ranges := vr_ranges r @ [(s, final)]\<rparr>)"

definition break_at :: "int \<Rightarrow> string \<Rightarrow> verify_report \<Rightarrow> verify_report" where
  "break_at n reason r = r\<lparr>vr_ok := False, vr_first_break := Some n, vr_reason := Some reason\<rparr>"

text \<open>Line number, report, hash and number of the last chained entry, start of an unchained range.\<close>

datatype walk = Going nat verify_report string int "nat option" | Broken verify_report | WalkRaised

text \<open>One chained entry; \<open>r\<close> already counts its line.\<close>

definition check_entry :: "(rat \<Rightarrow> string) \<Rightarrow> digest \<Rightarrow> nat \<Rightarrow> pydict \<Rightarrow> verify_report \<Rightarrow> string \<Rightarrow> int \<Rightarrow> walk" where
  "check_entry fr sha i row r prev prev_seq =
     (case to_int (vget row ''seq'') of
        None \<Rightarrow> WalkRaised
      | Some seq \<Rightarrow>
          if vget row ''entry_hash'' \<noteq> PStr (compute_entry_hash sha row) then
            Broken (break_at seq (''entry_hash mismatch at seq '' @ int_text seq) r)
          else if vget row ''prev_hash'' \<noteq> PStr prev \<and>
              \<not> (vr_chained r = 0 \<and> vget row ''event'' = PStr ''chain_anchor'') then
            Broken (break_at seq (''prev_hash mismatch at seq '' @ int_text seq) r)
          else if prev_seq \<noteq> 0 \<and> seq \<noteq> prev_seq + 1 then
            Broken (break_at seq (''sequence gap at seq '' @ int_text seq @ '' (prev '' @ int_text prev_seq @ '')'') r)
          else Going (Suc i) (r\<lparr>vr_chained := Suc (vr_chained r)\<rparr>) (py_str fr (vget row ''entry_hash'')) seq None)"

definition walk_line :: "(rat \<Rightarrow> string) \<Rightarrow> digest \<Rightarrow> walk \<Rightarrow> audit_line \<Rightarrow> walk" where
  "walk_line fr sha w line =
     (case w of
        Going i r prev prev_seq start \<Rightarrow>
          (let counted = r\<lparr>vr_total := Suc (vr_total r)\<rparr>;
               broken = (\<lambda>what. Broken (close_unchained start (vr_total r)
                  (break_at (int (Suc i)) (what @ int_text (int (Suc i))) counted)))
           in case line of
                BlankLine \<Rightarrow> Going (Suc i) r prev prev_seq start
              | BadLine \<Rightarrow> broken ''truncated or invalid JSON at line ''
              | JsonLine (PDict row) \<Rightarrow>
                  if \<not> is_chained row then
                    Going (Suc i) (counted\<lparr>vr_unchained := Suc (vr_unchained r)\<rparr>) prev prev_seq
                      (if start = None then Some (Suc (vr_total r)) else start)
                  else check_entry fr sha i row (close_unchained start (vr_total r) counted) prev prev_seq
              | JsonLine v \<Rightarrow> broken ''non-object entry at line '')
      | _ \<Rightarrow> w)"

definition walk_file :: "(rat \<Rightarrow> string) \<Rightarrow> digest \<Rightarrow> audit_file \<Rightarrow> walk" where
  "walk_file fr sha lines = foldl (walk_line fr sha) (Going 0 new_report GENESIS_HASH 0 None) lines"

definition verify_audit_file :: "(rat \<Rightarrow> string) \<Rightarrow> digest \<Rightarrow> audit_file option \<Rightarrow> verify_report option" where
  "verify_audit_file fr sha f =
     (case f of
        None \<Rightarrow> Some (new_report\<lparr>vr_ok := False, vr_reason := Some ''file not found''\<rparr>)
      | Some lines \<Rightarrow>
          (case walk_file fr sha lines of
             Going i r prev prev_seq start \<Rightarrow> Some (close_unchained start (vr_total r) r)
           | Broken r \<Rightarrow> Some r
           | WalkRaised \<Rightarrow> None))"

definition verify_audit_dir :: "(rat \<Rightarrow> string) \<Rightarrow> digest \<Rightarrow> audit_dir \<Rightarrow> (string \<times> verify_report option) list" where
  "verify_audit_dir fr sha dir =
     List.map (\<lambda>(name, lines). (name, verify_audit_file fr sha (Some lines)))
       (sort_key fst (filter (\<lambda>(name, lines). ends_with name ''.jsonl'') dir))"

end
