(* ===== verification/AuditLaws.thy ===== *)
theory AuditLaws
  imports AuditTrail
begin

text \<open>
  Laws of the audit trail: every file the appends produce is one chain that the verifier
  accepts, and two accepted files that end in the same hash hold the same entries.
\<close>

named_theorems audit_simps "rewrite rules for audit rows and files"

section \<open>Sealed rows\<close>

lemma filter_update_self: "filter (\<lambda>(k, v). k \<noteq> a) (AList.update a x al) = filter (\<lambda>(k, v). k \<noteq> a) al"
  by (induction al) auto

lemma entry_body_dset [audit_simps]: "entry_body (dset ''entry_hash'' v row) = entry_body row"
  by (simp add: entry_body_def filter_update_self)

lemma hash_of_sealed [audit_simps]:
  "compute_entry_hash sha (dset ''entry_hash'' v row) = compute_entry_hash sha row"
  by (simp add: compute_entry_hash_def audit_simps)

lemma has_key_dset [audit_simps]: "has_key (dset k v d) k' = (k = k' \<or> has_key d k')"
  by (simp add: has_key_def)

lemma sealed [audit_simps]:
  "is_chained (seal_entry sha s p payload)"
  "vget (seal_entry sha s p payload) ''seq'' = PInt s"
  "vget (seal_entry sha s p payload) ''prev_hash'' = PStr p"
  "vget (seal_entry sha s p payload) ''entry_hash'' = PStr (compute_entry_hash sha (seal_entry sha s p payload))"
  by (simp_all add: seal_entry_def Let_def is_chained_def audit_simps)

lemma sealed_payload:
  "k \<notin> {''seq'', ''prev_hash'', ''entry_hash''} \<Longrightarrow> vget (seal_entry sha s p payload) k = vget payload k"
  by (auto simp: seal_entry_def Let_def)

lemma anchor_is_sealed [audit_simps]:
  "is_chained (anchor_entry sha stem dest now s p)"
  "vget (anchor_entry sha stem dest now s p) ''seq'' = PInt 1"
  "vget (anchor_entry sha stem dest now s p) ''event'' = PStr ''chain_anchor''"
  "vget (anchor_entry sha stem dest now s p) ''prev_hash'' = PStr p"
  "vget (anchor_entry sha stem dest now s p) ''entry_hash'' =
     PStr (compute_entry_hash sha (anchor_entry sha stem dest now s p))"
  by (simp_all add: anchor_entry_def Let_def is_chained_def has_key_def compute_entry_hash_def entry_body_def)

section \<open>The tail and the walk of a longer file\<close>

lemma tail_walk_append:
  "tail_walk fr (xs @ ys) st = Option.bind (tail_walk fr xs st) (tail_walk fr ys)"
proof (induction xs arbitrary: st)
  case Nil
  show ?case by simp
next
  case (Cons l xs)
  then have "tail_walk fr (xs @ ys) = (\<lambda>st. Option.bind (tail_walk fr xs st) (tail_walk fr ys))" by blast
  then show ?case by simp
qed

lemma walk_file_snoc: "walk_file fr sha (lines @ [l]) = walk_line fr sha (walk_file fr sha lines) l"
  by (simp add: walk_file_def)

text \<open>
  \<open>chain_ok\<close>: the verifier reaches the end of the file and has the number and the hash there that
  the next append will use; \<open>c\<close> rows are chained and \<open>u\<close> are not.
\<close>

definition chain_ok :: "(rat \<Rightarrow> string) \<Rightarrow> digest \<Rightarrow> audit_file \<Rightarrow> int \<Rightarrow> string \<Rightarrow> nat \<Rightarrow> nat \<Rightarrow> bool" where
  "chain_ok fr sha lines seq hash c u =
     (tail_chain fr (Some lines) = Some (seq, hash) \<and>
      (case walk_file fr sha lines of
         Going i r prev prev_seq start \<Rightarrow>
           vr_ok r \<and> vr_chained r = c \<and> vr_unchained r = u \<and> vr_total r = c + u \<and> vr_first_break r = None \<and>
           prev = hash \<and> prev_seq = (if c = 0 then 0 else seq)
       | _ \<Rightarrow> False))"

lemma chain_okE:
  assumes "chain_ok fr sha lines seq hash c u"
  obtains n i r prev_seq start where
    "tail_walk fr lines (0, 0, GENESIS_HASH) = Some (n, seq, hash)"
    "walk_file fr sha lines = Going i r hash prev_seq start"
    "vr_ok r" "vr_chained r = c" "vr_unchained r = u" "vr_total r = c + u" "vr_first_break r = None"
    "prev_seq = (if c = 0 then 0 else seq)"
  using assms by (auto simp: chain_ok_def tail_chain_def split: walk.splits)

lemma close_unchained_frame [simp]:
  "vr_ok (close_unchained s e r) = vr_ok r"
  "vr_chained (close_unchained s e r) = vr_chained r"
  "vr_unchained (close_unchained s e r) = vr_unchained r"
  "vr_total (close_unchained s e r) = vr_total r"
  "vr_first_break (close_unchained s e r) = vr_first_break r"
  by (simp_all add: close_unchained_def split: option.split)

lemma chain_ok_empty: "chain_ok fr sha [] 0 GENESIS_HASH 0 0"
  by (simp add: chain_ok_def tail_chain_def walk_file_def new_report_def)

text \<open>An unchained row before the chain begins.\<close>

lemma chain_ok_legacy:
  assumes ok: "chain_ok fr sha lines seq hash 0 u" and row: "\<not> is_chained row"
  shows "\<exists>seq'. chain_ok fr sha (lines @ [JsonLine (PDict row)]) seq' hash 0 (Suc u)"
  using assms by (elim chain_okE) (auto simp: chain_ok_def walk_file_snoc walk_line_def Let_def tail_chain_def tail_walk_append tail_step_def)

text \<open>Appending a row sealed with the tail of the file keeps the chain.\<close>

lemma chain_ok_row:
  assumes ok: "chain_ok fr sha lines seq hash c u"
    and row: "is_chained row" "vget row ''seq'' = PInt k"
      "vget row ''entry_hash'' = PStr (compute_entry_hash sha row)"
    and link: "vget row ''prev_hash'' = PStr hash \<or> c = 0 \<and> vget row ''event'' = PStr ''chain_anchor''"
    and k: "k = seq + 1"
  shows "chain_ok fr sha (lines @ [JsonLine (PDict row)]) k (compute_entry_hash sha row) (Suc c) u"
proof -
  obtain n i r prev_seq start where w:
    "tail_walk fr lines (0, 0, GENESIS_HASH) = Some (n, seq, hash)"
    "walk_file fr sha lines = Going i r hash prev_seq start"
    "vr_ok r" "vr_chained r = c" "vr_unchained r = u" "vr_total r = c + u" "vr_first_break r = None"
    "prev_seq = (if c = 0 then 0 else seq)"
    using ok by (rule chain_okE)
  have t: "tail_chain fr (Some (lines @ [JsonLine (PDict row)])) = Some (k, compute_entry_hash sha row)"
    using w(1) row by (simp add: tail_chain_def tail_walk_append tail_step_def)
  show ?thesis
    unfolding chain_ok_def t walk_file_snoc w(2)
    using w row link k by (auto simp: walk_line_def check_entry_def Let_def)
qed

lemma chain_ok_append:
  assumes "chain_ok fr sha lines seq hash c u"
  shows "chain_ok fr sha (lines @ [JsonLine (PDict (seal_entry sha (seq + 1) hash payload))]) (seq + 1)
    (compute_entry_hash sha (seal_entry sha (seq + 1) hash payload)) (Suc c) u"
  using assms by (rule chain_ok_row) (simp_all add: audit_simps)

lemma chain_ok_anchor:
  "chain_ok fr sha [JsonLine (PDict (anchor_entry sha stem dest now s p))] 1
     (compute_entry_hash sha (anchor_entry sha stem dest now s p)) 1 0"
  using chain_ok_row [OF chain_ok_empty, of "anchor_entry sha stem dest now s p" 1 sha fr]
  by (simp add: audit_simps)

lemma chain_ok_verifies:
  assumes "chain_ok fr sha lines seq hash c u"
  shows "\<exists>r. verify_audit_file fr sha (Some lines) = Some r \<and> vr_ok r \<and> vr_chained r = c \<and>
    vr_unchained r = u \<and> vr_total r = c + u \<and> vr_first_break r = None"
  using assms by (elim chain_okE) (simp add: verify_audit_file_def)

section \<open>Every directory the appends produce verifies\<close>

text \<open>The events of a run of the program, each with its clock reading and rotation limit.\<close>

fun append_events :: "(rat \<Rightarrow> string) \<Rightarrow> digest \<Rightarrow> (audit_file \<Rightarrow> int) \<Rightarrow> (string \<times> int \<times> pydict) list \<Rightarrow>
    audit_dir \<Rightarrow> audit_dir option" where
  "append_events fr sha bytes [] dir = Some dir"
| "append_events fr sha bytes ((now, limit, event) # evs) dir =
     Option.bind (append_audit_event fr sha bytes now limit event dir) (append_events fr sha bytes evs)"

text \<open>Every file of the directory is a chain of sealed rows.\<close>

definition audited :: "(rat \<Rightarrow> string) \<Rightarrow> digest \<Rightarrow> audit_dir \<Rightarrow> bool" where
  "audited fr sha dir =
     (\<forall>name lines. map_of dir name = Some lines \<longrightarrow>
        (\<exists>seq hash. chain_ok fr sha lines seq hash (length lines) 0))"

lemma auditedD:
  assumes "audited fr sha dir" "map_of dir name = Some lines"
  obtains seq hash where "chain_ok fr sha lines seq hash (length lines) 0"
  using assms unfolding audited_def by blast

lemma audited_dset:
  "audited fr sha dir \<Longrightarrow> chain_ok fr sha lines seq hash (length lines) 0 \<Longrightarrow> audited fr sha (dset name lines dir)"
  by (auto simp: audited_def)

lemma audited_delete: "audited fr sha dir \<Longrightarrow> audited fr sha (AList.delete name dir)"
  by (auto simp: audited_def AList.delete_conv' split: if_splits)

lemma audited_append_line:
  assumes "audited fr sha dir"
    and "case map_of dir name of None \<Rightarrow> chain_ok fr sha [JsonLine (PDict row)] seq hash 1 0
         | Some lines \<Rightarrow> chain_ok fr sha (lines @ [JsonLine (PDict row)]) seq hash (Suc (length lines)) 0"
  shows "audited fr sha (append_line name row dir)"
  using assms by (auto simp: append_line_def intro!: audited_dset split: option.splits)

lemma audited_rotate:
  assumes a: "audited fr sha dir"
  obtains dir' where "rotate_if_needed fr sha bytes now stem limit dir = Some dir'" "audited fr sha dir'"
proof (cases "map_of dir (stem @ ''.jsonl'')")
  case None
  with a show thesis using that by (simp add: rotate_if_needed_def Let_def)
next
  case (Some lines)
  obtain seq hash where c: "chain_ok fr sha lines seq hash (length lines) 0"
    using a Some by (rule auditedD)
  then have t: "tail_chain fr (Some lines) = Some (seq, hash)" by (simp add: chain_ok_def)
  let ?name = "stem @ ''.jsonl''"
  let ?dest = "rotated_name stem (free_number stem dir)"
  let ?row = "anchor_entry sha stem ?dest now seq hash"
  have "audited fr sha (append_line ?name ?row (AList.delete ?name (dset ?dest lines dir)))"
    by (rule audited_append_line [OF audited_delete [OF audited_dset [OF a c]]])
      (use chain_ok_anchor [of fr sha stem ?dest now seq hash] in \<open>simp add: AList.delete_conv'\<close>)
  with Some t a show thesis using that by (cases "bytes lines < limit") (simp_all add: rotate_if_needed_def Let_def)
qed

lemma audited_append:
  assumes a: "audited fr sha dir"
  obtains dir' where "append_audit_event fr sha bytes now limit event dir = Some dir'" "audited fr sha dir'"
proof -
  let ?payload = "setdefault ''ts'' (PStr now) event"
  let ?stem = "payload_run fr ?payload"
  let ?name = "?stem @ ''.jsonl''"
  obtain d where d: "(if 0 < limit then rotate_if_needed fr sha bytes now ?stem limit dir else Some dir) = Some d"
    and ad: "audited fr sha d"
    using a audited_rotate [OF a, of bytes now ?stem limit] by (cases "0 < limit") auto
  obtain seq hash where t: "tail_chain fr (map_of d ?name) = Some (seq, hash)"
    and l: "audited fr sha (append_line ?name (seal_entry sha (seq + 1) hash ?payload) d)"
  proof (cases "map_of d ?name")
    case None
    have "audited fr sha (append_line ?name (seal_entry sha (0 + 1) GENESIS_HASH ?payload) d)"
      by (rule audited_append_line [OF ad])
        (use None chain_ok_append [OF chain_ok_empty, of fr sha ?payload] in simp)
    with None show thesis using that by (simp add: tail_chain_def)
  next
    case (Some lines)
    obtain seq hash where c: "chain_ok fr sha lines seq hash (length lines) 0"
      using ad Some by (rule auditedD)
    have "audited fr sha (append_line ?name (seal_entry sha (seq + 1) hash ?payload) d)"
      by (rule audited_append_line [OF ad]) (use Some chain_ok_append [OF c] in simp)
    with Some c show thesis using that by (simp add: chain_ok_def)
  qed
  from d t l show thesis using that by (simp add: append_audit_event_def Let_def)
qed

lemma audited_events:
  assumes "audited fr sha dir"
  shows "\<exists>dir'. append_events fr sha bytes evs dir = Some dir' \<and> audited fr sha dir'"
  using assms
proof (induction evs arbitrary: dir)
  case Nil
  then show ?case by simp
next
  case (Cons e evs)
  obtain now limit event where e: "e = (now, limit, event)" by (cases e)
  obtain d where "append_audit_event fr sha bytes now limit event dir = Some d" "audited fr sha d"
    using Cons.prems by (rule audited_append)
  with Cons.IH e show ?case by simp
qed

text \<open>The names of a directory stay distinct.\<close>

lemma distinct_append_line: "distinct (List.map fst dir) \<Longrightarrow> distinct (List.map fst (append_line name row dir))"
  by (simp add: append_line_def distinct_update)

lemma append_audit_event_distinct:
  assumes "append_audit_event fr sha bytes now limit event dir = Some dir'" "distinct (List.map fst dir)"
  shows "distinct (List.map fst dir')"
  using assms
  by (auto simp: append_audit_event_def rotate_if_needed_def Let_def bind_eq_Some_conv
      intro!: distinct_append_line distinct_update AList.distinct_delete split: if_splits option.splits prod.splits)

lemma append_events_distinct:
  "append_events fr sha bytes evs dir = Some dir' \<Longrightarrow> distinct (List.map fst dir) \<Longrightarrow> distinct (List.map fst dir')"
proof (induction evs arbitrary: dir)
  case (Cons e evs)
  obtain now limit event where e: "e = (now, limit, event)" by (cases e)
  from Cons.prems obtain d where d: "append_audit_event fr sha bytes now limit event dir = Some d"
    "append_events fr sha bytes evs d = Some dir'"
    by (auto simp: e bind_eq_Some_conv)
  show ?case by (rule Cons.IH [OF d(2) append_audit_event_distinct [OF d(1) Cons.prems(2)]])
qed simp

section \<open>What a verified file fixes\<close>

abbreviation row_lines :: "pydict list \<Rightarrow> audit_file" where
  "row_lines rows \<equiv> List.map (\<lambda>row. JsonLine (PDict row)) rows"

fun linked :: "digest \<Rightarrow> pydict list \<Rightarrow> bool" where
  "linked sha [] = True"
| "linked sha [row] = (vget row ''entry_hash'' = PStr (compute_entry_hash sha row))"
| "linked sha (row # row' # rows) =
     (vget row ''entry_hash'' = PStr (compute_entry_hash sha row) \<and>
      vget row' ''prev_hash'' = vget row ''entry_hash'' \<and> linked sha (row' # rows))"

lemma linked_snoc:
  "linked sha (rows @ [row]) =
     (linked sha rows \<and> vget row ''entry_hash'' = PStr (compute_entry_hash sha row) \<and>
      (rows \<noteq> [] \<longrightarrow> vget row ''prev_hash'' = PStr (compute_entry_hash sha (last rows))))"
  by (induction sha rows rule: linked.induct) auto

lemma broken_is_not_ok: "walk_file fr sha lines = Broken r \<Longrightarrow> \<not> vr_ok r"
proof (induction lines arbitrary: r rule: rev_induct)
  case Nil
  then show ?case by (simp add: walk_file_def)
next
  case (snoc l lines)
  then show ?case
    unfolding walk_file_snoc
    by (auto simp: walk_line_def check_entry_def Let_def break_at_def
        split: walk.splits audit_line.splits pyval.splits if_splits option.splits)
qed

lemma walk_rows:
  assumes "walk_file fr sha (row_lines rows) = Going i r prev prev_seq start" "\<forall>row \<in> set rows. is_chained row"
  shows "linked sha rows \<and> vr_chained r = length rows \<and>
    prev = (if rows = [] then GENESIS_HASH else compute_entry_hash sha (last rows))"
  using assms
proof (induction rows arbitrary: i r prev prev_seq start rule: rev_induct)
  case Nil
  then show ?case by (auto simp: walk_file_def new_report_def)
next
  case (snoc row rows)
  have w: "walk_line fr sha (walk_file fr sha (row_lines rows)) (JsonLine (PDict row)) = Going i r prev prev_seq start"
    using snoc.prems(1) by (simp add: walk_file_snoc)
  then obtain i' r' prev' seq' start' where g: "walk_file fr sha (row_lines rows) = Going i' r' prev' seq' start'"
    by (cases "walk_file fr sha (row_lines rows)") (auto simp: walk_line_def)
  have ih: "linked sha rows" "vr_chained r' = length rows"
    "prev' = (if rows = [] then GENESIS_HASH else compute_entry_hash sha (last rows))"
    using snoc.IH [OF g] snoc.prems(2) by simp_all
  have "is_chained row" using snoc.prems(2) by simp
  then show ?case
    using w ih unfolding g linked_snoc
    by (auto simp: walk_line_def check_entry_def Let_def split: if_splits option.splits)
qed

lemma verified_linked:
  assumes "verify_audit_file fr sha (Some (row_lines rows)) = Some r" "vr_ok r" "\<forall>row \<in> set rows. is_chained row"
  shows "linked sha rows"
proof (cases "walk_file fr sha (row_lines rows)")
  case (Going i r' prev prev_seq start)
  then show ?thesis using walk_rows assms(3) by blast
qed (use assms broken_is_not_ok in \<open>auto simp: verify_audit_file_def\<close>)

lemma map_of_sorted:
  fixes d :: "('k::linorder \<times> 'v) list"
  shows "map_of (sort_key fst d) k = map_of d k"
proof -
  have find: "map_of l k = (case filter (\<lambda>p. fst p = k) l of [] \<Rightarrow> None | p # _ \<Rightarrow> Some (snd p))"
    for l :: "('k \<times> 'v) list"
    by (induction l) auto
  show ?thesis unfolding find [of d] find [of "sort_key fst d"] sort_key_stable ..
qed

lemma map_of_body: "k \<noteq> ''entry_hash'' \<Longrightarrow> map_of (entry_body row) k = map_of row k"
  unfolding entry_body_def map_of_sorted by (induction row) auto

lemma same_body_vget: "entry_body x = entry_body y \<Longrightarrow> k \<noteq> ''entry_hash'' \<Longrightarrow> vget x k = vget y k"
  using map_of_body [of k x] map_of_body [of k y] by (simp add: vget_def)

lemma linked_same:
  assumes "length xs = length ys" "linked sha xs" "linked sha ys" "xs \<noteq> []"
    "compute_entry_hash sha (last xs) = compute_entry_hash sha (last ys)"
    "inj_on sha (entry_body ` (set xs \<union> set ys))"
  shows "List.map entry_body xs = List.map entry_body ys"
  using assms
proof (induction xs arbitrary: ys rule: rev_induct)
  case Nil
  then show ?case by simp
next
  case (snoc x xs)
  obtain ys' y where ys: "ys = ys' @ [y]" using snoc.prems(1) by (cases ys rule: rev_cases) auto
  have "sha (entry_body x) = sha (entry_body y)"
    using snoc.prems(5) by (simp add: ys compute_entry_hash_def)
  then have b: "entry_body x = entry_body y"
    by (rule inj_onD [OF snoc.prems(6)]) (simp_all add: ys)
  have p: "vget x ''prev_hash'' = vget y ''prev_hash''"
    by (rule same_body_vget [OF b]) simp
  have len: "length xs = length ys'" using snoc.prems(1) ys by simp
  have "List.map entry_body xs = List.map entry_body ys'"
  proof (cases "xs = []")
    case False
    then have "ys' \<noteq> []" using len by auto
    then have "compute_entry_hash sha (last xs) = compute_entry_hash sha (last ys')"
      using snoc.prems(2,3) p False by (simp add: ys linked_snoc)
    moreover have "inj_on sha (entry_body ` (set xs \<union> set ys'))"
      using snoc.prems(6) by (rule inj_on_subset) (auto simp: ys)
    ultimately show ?thesis
      using snoc.IH [OF len] snoc.prems(2,3) False by (simp add: ys linked_snoc)
  qed (use len in simp)
  with b ys show ?case by simp
qed

end
