(* ===== verification/AuditSafety.thy ===== *)
theory AuditSafety
  imports AuditLaws
begin

text \<open>
  The properties of the audit trail: what the appends write verifies, a verified file is fixed
  by the hash it ends in, and an unchained row inside a chain breaks it at the next append.
\<close>



text \<open>
  The chain is tamper evident: when the digest does not collide on the entries at hand, two
  files of chained rows of the same length that both pass the verification and end in the same
  hash hold the same rows in the same order, with the same value under every key.
\<close>

theorem verified_head_fixes_rows:
  assumes "verify_audit_file fr sha (Some (row_lines xs)) = Some r" "vr_ok r"
    and "verify_audit_file fr sha (Some (row_lines ys)) = Some r'" "vr_ok r'"
    and "\<forall>row \<in> set xs \<union> set ys. is_chained row"
    and "length xs = length ys" "xs \<noteq> []"
    and "vget (last xs) ''entry_hash'' = vget (last ys) ''entry_hash''"
    and "inj_on sha (entry_body ` (set xs \<union> set ys))"
  shows "list_all2 (\<lambda>x y. \<forall>k. vget x k = vget y k) xs ys"
proof -
  have l: "linked sha xs" "linked sha ys"
    using verified_linked [OF assms(1,2)] verified_linked [OF assms(3,4)] assms(5) by blast+
  have h: "vget x ''entry_hash'' = PStr (compute_entry_hash sha x)" if "x \<in> set zs" "linked sha zs" for x zs
    using that by (induction sha zs rule: linked.induct) auto
  have ys: "ys \<noteq> []" using assms(6,7) by auto
  have "compute_entry_hash sha (last xs) = compute_entry_hash sha (last ys)"
    using assms(7,8) ys h [OF _ l(1)] h [OF _ l(2)] by simp
  then have m: "List.map entry_body xs = List.map entry_body ys"
    by (rule linked_same [OF assms(6) l assms(7) _ assms(9)])
  have "vget (xs ! i) k = vget (ys ! i) k" if i: "i < length xs" for i k
  proof -
    have b: "entry_body (xs ! i) = entry_body (ys ! i)"
      using arg_cong [OF m, of "\<lambda>zs. zs ! i"] i assms(6) by simp
    then have "compute_entry_hash sha (xs ! i) = compute_entry_hash sha (ys ! i)"
      by (simp add: compute_entry_hash_def)
    then show ?thesis
      using same_body_vget [OF b, of k] h [OF _ l(1), of "xs ! i"] h [OF _ l(2), of "ys ! i"] i assms(6)
      by (cases "k = ''entry_hash''") simp_all
  qed
  with assms(6) show ?thesis by (simp add: list_all2_conv_all_nth)
qed

text \<open>Two files with the same rows whose keys come in a different order.\<close>

definition short_digest :: digest where
  "short_digest body = replicate (length body) CHR ''x''"

definition two_rows :: "pydict \<Rightarrow> pydict list" where
  "two_rows extra =
     (let first = seal_entry short_digest 1 GENESIS_HASH [(''event'', PStr ''run_started'')]
      in [first, seal_entry short_digest 2 (compute_entry_hash short_digest first) extra])"

lemma two_rows_verify:
  "map_option vr_ok (verify_audit_file (\<lambda>_. []) short_digest (Some (row_lines (two_rows extra)))) = Some True"
  by (simp add: two_rows_def Let_def verify_audit_file_def walk_file_def walk_line_def check_entry_def new_report_def audit_simps)

lemma verified_head_fixes_rows_witness:
  "list_all2 (\<lambda>x y. \<forall>k. vget x k = vget y k)
     (two_rows [(''event'', PStr ''node_ok''), (''node'', PStr ''a'')])
     (two_rows [(''node'', PStr ''a''), (''event'', PStr ''node_ok'')])"
proof -
  let ?a = "[(''event'', PStr ''node_ok''), (''node'', PStr ''a'')]"
  let ?b = "[(''node'', PStr ''a''), (''event'', PStr ''node_ok'')]"
  obtain r r' where r: "verify_audit_file (\<lambda>_. []) short_digest (Some (row_lines (two_rows ?a))) = Some r" "vr_ok r"
    "verify_audit_file (\<lambda>_. []) short_digest (Some (row_lines (two_rows ?b))) = Some r'" "vr_ok r'"
    using two_rows_verify [of ?a] two_rows_verify [of ?b] by auto
  have "inj_on short_digest (entry_body ` (set (two_rows ?a) \<union> set (two_rows ?b)))"
    unfolding inj_on_def by code_simp
  then show ?thesis
    by (rule verified_head_fixes_rows [OF r, rotated 4]) code_simp+
qed

text \<open>
  An unchained row after a chained one is accepted by the verifier, but the next append
  numbers its row after the line count and the file then fails with a sequence gap, although no
  row was changed.
\<close>

theorem unchained_row_breaks_next_append:
  assumes "\<not> is_chained row"
  shows "let f = [JsonLine (PDict (seal_entry sha 1 GENESIS_HASH e)), JsonLine (PDict row)];
         h = compute_entry_hash sha (seal_entry sha 1 GENESIS_HASH e)
     in tail_chain fr (Some f) = Some (2, h) \<and>
        map_option vr_ok (verify_audit_file fr sha (Some f)) = Some True \<and>
        map_option (\<lambda>r. (vr_ok r, vr_first_break r))
          (verify_audit_file fr sha (Some (f @ [JsonLine (PDict (seal_entry sha (2 + 1) h e'))]))) = Some (False, Some 3)"
  using assms
  by (simp add: Let_def tail_chain_def tail_step_def verify_audit_file_def walk_file_def walk_line_def check_entry_def
      new_report_def break_at_def audit_simps)

lemma unchained_row_breaks_next_append_witness:
  "let f = [JsonLine (PDict (seal_entry (\<lambda>_. ''h'') 1 GENESIS_HASH [])), JsonLine (PDict [(''event'', PStr ''note'')])];
       h = compute_entry_hash (\<lambda>_. ''h'') (seal_entry (\<lambda>_. ''h'') 1 GENESIS_HASH [])
   in tail_chain (\<lambda>_. []) (Some f) = Some (2, h) \<and>
      map_option vr_ok (verify_audit_file (\<lambda>_. []) (\<lambda>_. ''h'') (Some f)) = Some True \<and>
      map_option (\<lambda>r. (vr_ok r, vr_first_break r))
        (verify_audit_file (\<lambda>_. []) (\<lambda>_. ''h'')
          (Some (f @ [JsonLine (PDict (seal_entry (\<lambda>_. ''h'') (2 + 1) h []))]))) = Some (False, Some 3)"
  by (rule unchained_row_breaks_next_append) (simp add: is_chained_def has_key_def)

end
