(* ===== verification/Triggers.thy ===== *)
theory Triggers
  imports Gates Templates
begin

text \<open>
  What the start decision of a trigger stands on, \<open>triggers/caps.py\<close> and \<open>triggers/store.py\<close>: the
  size, depth and rate caps, the idempotency store, the concurrency gate, the spend of a trigger,
  the dead letters and the event log. Event bodies are ASCII text, so their length is their size
  in bytes. Each locked section is one transformer. The stores live in memory and on files that
  are rewritten whole; a file is its list of rows.
\<close>

section \<open>Caps\<close>

definition MAX_EVENT_BYTES :: int where
  "MAX_EVENT_BYTES = 64000"

definition MAX_JSON_DEPTH :: nat where
  "MAX_JSON_DEPTH = 8"

text \<open>Depth, greatest depth, inside a string, after a backslash.\<close>

definition depth_step :: "nat \<times> nat \<times> bool \<times> bool \<Rightarrow> char \<Rightarrow> nat \<times> nat \<times> bool \<times> bool" where
  "depth_step st ch =
     (case st of (depth, deepest, in_str, escape) \<Rightarrow>
        if in_str then
          if escape then (depth, deepest, True, False)
          else if ch = char_of (92 :: nat) then (depth, deepest, True, True)
          else (depth, deepest, ch \<noteq> CHR 0x22, False)
        else if ch = CHR 0x22 then (depth, deepest, True, escape)
        else if ch = CHR ''{'' \<or> ch = CHR ''['' then (Suc depth, max deepest (Suc depth), False, escape)
        else if ch = CHR ''}'' \<or> ch = CHR '']'' then (depth - 1, deepest, False, escape)
        else st)"

definition json_nesting_depth :: "string \<Rightarrow> nat" where
  "json_nesting_depth raw = (case foldl depth_step (0, 0, False, False) raw of (_, deepest, _) \<Rightarrow> deepest)"

record rate_limiter =
  rl_limit :: nat
  rl_window :: rat
  rl_hits :: "(string \<times> rat list) list"

definition DEFAULT_RATE :: nat where
  "DEFAULT_RATE = 30"

definition DEFAULT_RATE_WINDOW :: rat where
  "DEFAULT_RATE_WINDOW = 60"

definition new_limiter :: rate_limiter where
  "new_limiter = \<lparr>rl_limit = DEFAULT_RATE, rl_window = DEFAULT_RATE_WINDOW, rl_hits = []\<rparr>"

definition recent_hits :: "rate_limiter \<Rightarrow> string \<Rightarrow> rat \<Rightarrow> rat list" where
  "recent_hits l trigger now = filter (\<lambda>t. now - t < rl_window l) (dget_or (rl_hits l) trigger [])"

definition rate_allow :: "string \<Rightarrow> rat \<Rightarrow> rate_limiter \<Rightarrow> bool \<times> rate_limiter" where
  "rate_allow trigger now l =
     (let hits = recent_hits l trigger now
      in if rl_limit l \<le> length hits then (False, l\<lparr>rl_hits := dset trigger hits (rl_hits l)\<rparr>)
         else (True, l\<lparr>rl_hits := dset trigger (hits @ [now]) (rl_hits l)\<rparr>))"

text \<open>The reason of the refusal, if any.\<close>

definition refuse_before_parse :: "string \<Rightarrow> string \<Rightarrow> rat \<Rightarrow> rate_limiter \<Rightarrow> string option \<times> rate_limiter" where
  "refuse_before_parse raw trigger now l =
     (if MAX_EVENT_BYTES < int (length raw) then (Some ''too_large'', l)
      else if MAX_JSON_DEPTH < json_nesting_depth raw then (Some ''too_deep'', l)
      else (case rate_allow trigger now l of
              (True, l) \<Rightarrow> (None, l)
            | (False, l) \<Rightarrow> (Some ''rate'', l)))"

section \<open>Idempotency\<close>

type_synonym idem_rows = "(string \<times> pyval) list"

text \<open>\<open>_load\<close> of the decoded file, \<open>None\<close> when it is missing or no JSON.\<close>

definition load_rows :: "pyval option \<Rightarrow> idem_rows" where
  "load_rows raw = (case raw of Some (PDict d) \<Rightarrow> d | _ \<Rightarrow> [])"

text \<open>
  \<open>IdempotencyStore.lookup\<close> (\<open>zulu\<close> replaces a final \<open>Z\<close> and any other) with the reading of the clock: the run of the key when its row is
  readable and at most \<open>window\<close> seconds old.
\<close>

definition zulu :: "string \<Rightarrow> string" where
  "zulu stamp = concat (List.map (\<lambda>c. if c = CHR ''Z'' then ''+00:00'' else [c]) stamp)"

definition idem_lookup :: "(rat \<Rightarrow> string) \<Rightarrow> time_lib \<Rightarrow> rat \<Rightarrow> string \<Rightarrow> rat \<Rightarrow> idem_rows \<Rightarrow> string option" where
  "idem_lookup fr lib now key window rows =
     (case map_of rows key of
        Some (PDict row) \<Rightarrow>
          (case tl_parse lib (zulu (text_or fr (vget row ''started_at'') [])) of
                None \<Rightarrow> None
              | Some since \<Rightarrow>
                  if window < now - since then None
                  else (let run = text_or fr (vget row ''run_id'') [] in if run = [] then None else Some run))
      | _ \<Rightarrow> None)"

definition idem_put :: "time_lib \<Rightarrow> rat \<Rightarrow> string \<Rightarrow> string \<Rightarrow> string \<Rightarrow> idem_rows \<Rightarrow> idem_rows" where
  "idem_put lib now key run trigger rows =
     dset key (PDict [(''run_id'', PStr run), (''trigger'', PStr trigger),
       (''started_at'', PStr (tl_format lib now))]) rows"

section \<open>Concurrency\<close>

record slot_gate =
  sg_max_defer :: nat
  sg_active :: "(string \<times> nat) list"
  sg_deferred :: "(string \<times> pydict list) list"

definition MAX_DEFER :: nat where
  "MAX_DEFER = 32"

definition new_slot_gate :: slot_gate where
  "new_slot_gate = \<lparr>sg_max_defer = MAX_DEFER, sg_active = [], sg_deferred = []\<rparr>"

definition slots_used :: "string \<Rightarrow> slot_gate \<Rightarrow> nat" where
  "slots_used trigger g = dget_or (sg_active g) trigger 0"

definition deferred_count :: "string \<Rightarrow> slot_gate \<Rightarrow> nat" where
  "deferred_count trigger g = length (dget_or (sg_deferred g) trigger [])"

datatype entry = Entered | Deferral | Ceiling

definition try_enter :: "string \<Rightarrow> nat \<Rightarrow> string \<Rightarrow> slot_gate \<Rightarrow> entry \<times> slot_gate" where
  "try_enter trigger limit on_ceiling g =
     (if slots_used trigger g < limit then
        (Entered, g\<lparr>sg_active := dset trigger (Suc (slots_used trigger g)) (sg_active g)\<rparr>)
      else if on_ceiling = ''defer'' then
        (let g = g\<lparr>sg_deferred := setdefault trigger [] (sg_deferred g)\<rparr>
         in (if sg_max_defer g \<le> deferred_count trigger g then Ceiling else Deferral, g))
      else (Ceiling, g))"

text \<open>\<open>None\<close>: the queue is full, \<open>TriggerCeiling\<close> is raised.\<close>

definition defer_event :: "string \<Rightarrow> pydict \<Rightarrow> slot_gate \<Rightarrow> (nat \<times> slot_gate) option" where
  "defer_event trigger payload g =
     (let queue = dget_or (sg_deferred g) trigger []
      in if sg_max_defer g \<le> length queue then None
         else Some (Suc (length queue), g\<lparr>sg_deferred := dset trigger (queue @ [payload]) (sg_deferred g)\<rparr>))"

definition leave_slot :: "string \<Rightarrow> slot_gate \<Rightarrow> slot_gate" where
  "leave_slot trigger g = g\<lparr>sg_active := dset trigger (slots_used trigger g - 1) (sg_active g)\<rparr>"

section \<open>Spend\<close>

record trigger_spend =
  sp_usd :: "(string \<times> rat) list"
  sp_tokens :: "(string \<times> int) list"

definition used_usd :: "string \<Rightarrow> trigger_spend \<Rightarrow> rat" where
  "used_usd trigger s = dget_or (sp_usd s) trigger 0"

definition used_tokens :: "string \<Rightarrow> trigger_spend \<Rightarrow> int" where
  "used_tokens trigger s = dget_or (sp_tokens s) trigger 0"

definition add_spend :: "string \<Rightarrow> rat \<Rightarrow> int \<Rightarrow> trigger_spend \<Rightarrow> trigger_spend" where
  "add_spend trigger usd tokens s =
     s\<lparr>sp_usd := dset trigger (used_usd trigger s + usd) (sp_usd s),
       sp_tokens := dset trigger (used_tokens trigger s + tokens) (sp_tokens s)\<rparr>"

section \<open>Dead letters and events\<close>

text \<open>
  \<open>DeadLetterLog.record\<close> at the time \<open>ts\<close>; the row's own keys come first, an extra key of the
  same name would replace its value.
\<close>

definition letter_id :: "string \<Rightarrow> string option \<Rightarrow> string option \<Rightarrow> string" where
  "letter_id ts digest event_id =
     filter (\<lambda>c. c \<noteq> CHR '':'')
       (if truthy event_id then the event_id else if truthy digest then the digest else ts)"

definition letter_row :: "string \<Rightarrow> string \<Rightarrow> string option \<Rightarrow> string option \<Rightarrow> string option \<Rightarrow> string \<Rightarrow> pydict \<Rightarrow> pydict" where
  "letter_row ts reason trigger digest event_id raw extra =
     AList.updates (List.map fst extra) (List.map snd extra)
       [(''id'', PStr (letter_id ts digest event_id)), (''reason'', PStr reason), (''trigger'', of_opt_str trigger),
        (''digest'', of_opt_str digest), (''event_id'', of_opt_str event_id), (''raw'', PStr raw), (''ts'', PStr ts)]"

definition record_letter :: "string \<Rightarrow> string \<Rightarrow> string option \<Rightarrow> string option \<Rightarrow> string option \<Rightarrow> string \<Rightarrow> pydict \<Rightarrow>
    pydict list \<Rightarrow> string \<times> pydict list" where
  "record_letter ts reason trigger digest event_id raw extra letters =
     (letter_id ts digest event_id, letters @ [letter_row ts reason trigger digest event_id raw extra])"

definition get_letter :: "(rat \<Rightarrow> string) \<Rightarrow> string \<Rightarrow> pydict list \<Rightarrow> pydict option" where
  "get_letter fr wanted letters = find (\<lambda>row. text_or fr (vget row ''id'') [] = wanted) letters"

lemma find_append: "find P (xs @ ys) = (case find P xs of None \<Rightarrow> find P ys | Some x \<Rightarrow> Some x)"
  by (induction xs) auto

definition record_event :: "string \<Rightarrow> pydict \<Rightarrow> pydict list \<Rightarrow> pydict list" where
  "record_event ts row events =
     events @ [AList.updates (List.map fst row) (List.map snd row) [(''ts'', PStr ts)]]"

definition list_events :: "int \<Rightarrow> pydict list \<Rightarrow> pydict list" where
  "list_events limit events =
     (if limit = 0 then events else if limit < 0 then events else drop (length events - nat limit) events)"

end
