(* ===== verification/TriggerStarts.thy ===== *)
theory TriggerStarts
  imports Triggers Taint EngineRuns Resilience
begin

text \<open>
  The start decision, \<open>triggers/decide.py\<close>, with the stores it uses as one state. The decision is
  cut where the run starts: \<open>decide_begin\<close> ends in a decision or holds a slot and the lock of its
  idempotency key while the run goes on, \<open>decide_end\<close> continues when the run returned or raised;
  \<open>decide_trigger\<close> is the whole call. Parsers, digests and clocks are arguments; the readings of
  the wall clock within one half are the same.
\<close>

section \<open>Triggers and the outside\<close>

record trigger_spec =
  tg_name :: string
  tg_kind :: string
  tg_schema :: "pydict option"
  tg_require_signature :: bool
  tg_inputs :: "(string \<times> string) list"
  tg_idempotency_key :: string
  tg_idempotency_window :: string
  tg_budget :: "(rat option \<times> int option) option"
  tg_concurrency :: nat
  tg_on_ceiling :: string

record trigger_lib =
  tb_time :: time_lib
  tb_float_text :: "rat \<Rightarrow> string"
  tb_loads :: "string \<Rightarrow> pyval option"
  tb_dumps :: "pydict \<Rightarrow> string"
  tb_sha :: "string \<Rightarrow> string"
  tb_hmac :: "string \<Rightarrow> string \<Rightarrow> string"

record trigger_world =
  tw_limiter :: rate_limiter
  tw_rows :: idem_rows
  tw_gate :: slot_gate
  tw_spend :: trigger_spend
  tw_letters :: "pydict list"
  tw_events :: "pydict list"
  tw_audits :: "(string \<times> pydict) list"

datatype raw_event = RawText string | RawDict pydict

record trigger_event =
  te_trigger :: string
  te_raw :: raw_event
  te_source :: string
  te_signature :: "string option"
  te_secret :: "string option"
  te_dry_run :: bool

record trigger_decision =
  td_action :: string
  td_reason :: string
  td_run_id :: "string option"
  td_trigger :: string
  td_event_id :: "string option"
  td_digest :: "string option"
  td_inputs :: pydict
  td_letter :: "string option"
  td_provenance :: pydict

definition SOURCE_KINDS :: "string list" where
  "SOURCE_KINDS = [''webhook'', ''file'', ''queue'', ''schedule'']"

text \<open>\<open>verify_signed_body\<close> and \<open>parse_signature_header\<close> of \<open>decisions/signing.py\<close>.\<close>

definition parse_signature_header :: "string option \<Rightarrow> string option" where
  "parse_signature_header v =
     (case v of
        None \<Rightarrow> None
      | Some s \<Rightarrow>
          (let text = strip s;
               bare = (if starts_with (lower text) ''sha256='' then strip (after_char CHR ''='' text) else text)
           in if text = [] \<or> bare = [] then None else Some bare))"

definition verify_signed_body :: "trigger_lib \<Rightarrow> string \<Rightarrow> string \<Rightarrow> string option \<Rightarrow> bool" where
  "verify_signed_body lib secret body signature =
     (parse_signature_header signature = Some (tb_hmac lib secret body))"

section \<open>Checks\<close>

definition event_digest :: "trigger_lib \<Rightarrow> string \<Rightarrow> string" where
  "event_digest lib raw = tb_sha lib raw"

definition event_id_for :: "trigger_lib \<Rightarrow> string \<Rightarrow> pydict \<Rightarrow> string" where
  "event_id_for lib trigger payload =
     tb_sha lib (tb_dumps lib [(''trigger'', PStr trigger), (''payload'', PDict payload)])"

definition find_trigger :: "trigger_spec list \<Rightarrow> string \<Rightarrow> trigger_spec option" where
  "find_trigger triggers name = find (\<lambda>t. tg_name t = name) triggers"

definition raw_text :: "trigger_lib \<Rightarrow> raw_event \<Rightarrow> string" where
  "raw_text lib raw = (case raw of RawText s \<Rightarrow> s | RawDict d \<Rightarrow> py_repr (tb_float_text lib) (PDict d))"

text \<open>\<open>_parse\<close>: the body, the payload and the digest, or the reason of the refusal.\<close>

definition parse_event :: "trigger_lib \<Rightarrow> raw_event \<Rightarrow> string \<Rightarrow> rat \<Rightarrow> rate_limiter \<Rightarrow>
    (string + string \<times> pydict \<times> string) \<times> rate_limiter" where
  "parse_event lib raw trigger now l =
     (let body = (case raw of RawDict d \<Rightarrow> tb_dumps lib d | RawText s \<Rightarrow> s)
      in case refuse_before_parse body trigger now l of
           (Some reason, l) \<Rightarrow> (Inl reason, l)
         | (None, l) \<Rightarrow>
             ((case raw of
                 RawDict d \<Rightarrow> Inr (body, d, event_digest lib body)
               | RawText s \<Rightarrow>
                   (case tb_loads lib body of
                      Some (PDict payload) \<Rightarrow> Inr (body, payload, event_digest lib body)
                    | _ \<Rightarrow> Inl ''parse'')), l))"

text \<open>\<open>_check_payload_schema\<close>; the schema's required list holds texts (checked on load).\<close>

definition schema_missing :: "trigger_spec \<Rightarrow> pydict \<Rightarrow> string list" where
  "schema_missing t payload =
     (case tg_schema t of
        None \<Rightarrow> []
      | Some schema \<Rightarrow>
          (case vget schema ''required'' of
             PList xs \<Rightarrow> filter (\<lambda>k. map_of payload k = None)
               (concat (List.map (\<lambda>x. case x of PStr k \<Rightarrow> [k] | _ \<Rightarrow> []) xs))
           | _ \<Rightarrow> []))"

fun map_inputs :: "trigger_lib \<Rightarrow> pydict \<Rightarrow> (string \<times> string) list \<Rightarrow> template_error + pydict" where
  "map_inputs lib payload [] = Inr []"
| "map_inputs lib payload ((key, template) # rest) =
     rbind (interpolate (tb_float_text lib) template [(''event'', PDict payload)])
       (\<lambda>t. rbind (map_inputs lib payload rest) (\<lambda>d. Inr ((key, PStr t) # d)))"

definition idem_key :: "trigger_lib \<Rightarrow> trigger_spec \<Rightarrow> pydict \<Rightarrow> pydict \<Rightarrow> template_error + string" where
  "idem_key lib t payload mapped =
     interpolate (tb_float_text lib) (tg_idempotency_key t)
       (AList.updates (List.map fst mapped) (List.map snd mapped) [(''event'', PDict payload)])"

text \<open>\<open>_verify_signature\<close>: it audits the refusal itself, before \<open>_refuse\<close> audits it again.\<close>

definition signature_ok :: "trigger_lib \<Rightarrow> trigger_spec \<Rightarrow> string \<Rightarrow> trigger_event \<Rightarrow> bool" where
  "signature_ok lib t body e =
     (\<not> tg_require_signature t \<or>
      truthy (te_secret e) \<and> verify_signed_body lib (the (te_secret e)) body (te_signature e))"

definition budget_left :: "trigger_spec \<Rightarrow> trigger_spend \<Rightarrow> bool" where
  "budget_left t s =
     (case tg_budget t of
        None \<Rightarrow> True
      | Some (usd, tokens) \<Rightarrow>
          \<not> (case usd of None \<Rightarrow> False | Some cap \<Rightarrow> cap \<le> used_usd (tg_name t) s) \<and>
          \<not> (case tokens of None \<Rightarrow> False | Some cap \<Rightarrow> cap \<le> used_tokens (tg_name t) s))"

definition remaining_budget :: "trigger_spec \<Rightarrow> trigger_spend \<Rightarrow> rat option \<times> int option" where
  "remaining_budget t s =
     (case tg_budget t of
        None \<Rightarrow> (None, None)
      | Some (usd, tokens) \<Rightarrow>
          (map_option (\<lambda>cap. max 0 (cap - used_usd (tg_name t) s)) usd,
           map_option (\<lambda>cap. max 0 (cap - used_tokens (tg_name t) s)) tokens))"

text \<open>\<open>_usage_from_state\<close>; \<open>None\<close>: a count that is no number raises.\<close>

definition usage_from_state :: "pydict \<Rightarrow> (rat \<times> int) option" where
  "usage_from_state usage =
     Option.bind (to_int (or_val (vget usage ''cost_micros'') (PInt 0))) (\<lambda>micros.
     Option.bind (to_int (or_val (vget usage ''total_tokens'') (PInt 0))) (\<lambda>tokens.
       if tokens \<noteq> 0 then Some (of_int micros / 1000000, tokens)
       else
         Option.bind (to_int (or_val (vget usage ''prompt_tokens'') (PInt 0))) (\<lambda>p.
         Option.bind (to_int (or_val (vget usage ''completion_tokens'') (PInt 0))) (\<lambda>q.
           Some (of_int micros / 1000000, p + q)))))"

definition trigger_provenance :: "trigger_spec \<Rightarrow> string \<Rightarrow> string \<Rightarrow> string \<Rightarrow> pydict" where
  "trigger_provenance t eid digest kind =
     [(''kind'', PStr ''trigger''), (''trigger'', PStr (tg_name t)), (''event_id'', PStr eid),
      (''digest'', PStr digest), (''source_kind'', PStr kind)]"

section \<open>Decisions\<close>

definition audit_trigger :: "string \<Rightarrow> pydict \<Rightarrow> trigger_world \<Rightarrow> trigger_world" where
  "audit_trigger what row w = w\<lparr>tw_audits := tw_audits w @ [(what, row)]\<rparr>"

definition log_event :: "string \<Rightarrow> pydict \<Rightarrow> trigger_world \<Rightarrow> trigger_world" where
  "log_event ts row w = w\<lparr>tw_events := record_event ts row (tw_events w)\<rparr>"

definition add_letter :: "string \<Rightarrow> string \<Rightarrow> string \<Rightarrow> string option \<Rightarrow> string option \<Rightarrow> string \<Rightarrow> pydict \<Rightarrow>
    trigger_world \<Rightarrow> string \<times> trigger_world" where
  "add_letter ts reason trigger digest eid raw extra w =
     (case record_letter ts reason (Some trigger) digest eid raw extra (tw_letters w) of
        (lid, letters) \<Rightarrow> (lid, w\<lparr>tw_letters := letters\<rparr>))"

text \<open>What every refusal logs.\<close>

definition log_refusal :: "string \<Rightarrow> string \<Rightarrow> string \<Rightarrow> string \<Rightarrow> string \<Rightarrow> trigger_world \<Rightarrow> trigger_world" where
  "log_refusal ts action reason trigger lid w =
     log_event ts [(''action'', PStr action), (''reason'', PStr reason), (''trigger'', PStr trigger),
       (''dead_letter_id'', PStr lid)] w"

definition refusal :: "string \<Rightarrow> string \<Rightarrow> string \<Rightarrow> string option \<Rightarrow> string option \<Rightarrow> string \<Rightarrow> trigger_decision" where
  "refusal action reason trigger eid digest lid =
     \<lparr>td_action = action, td_reason = reason, td_run_id = None, td_trigger = trigger, td_event_id = eid,
      td_digest = digest, td_inputs = [], td_letter = Some lid, td_provenance = []\<rparr>"

definition refuse_event :: "string \<Rightarrow> string \<Rightarrow> string \<Rightarrow> string option \<Rightarrow> string \<Rightarrow> trigger_world \<Rightarrow>
    trigger_decision \<times> trigger_world" where
  "refuse_event ts trigger reason digest raw w =
     (let w = audit_trigger ''trigger_refused'' [(''trigger'', PStr trigger), (''reason'', PStr reason)] w
      in case add_letter ts reason trigger digest None raw [] w of
           (lid, w) \<Rightarrow> (refusal ''refuse'' reason trigger None digest lid, log_refusal ts ''refuse'' reason trigger lid w))"

text \<open>An event that passed the checks before the lock of its key.\<close>

record prepared =
  pp_trigger :: trigger_spec
  pp_key :: string
  pp_inputs :: pydict
  pp_eid :: string
  pp_digest :: string
  pp_kind :: string
  pp_raw :: string

definition composite_key :: "string \<Rightarrow> string \<Rightarrow> string \<Rightarrow> string" where
  "composite_key workflow trigger key = workflow @ '':'' @ trigger @ '':'' @ key"

definition prepared_decision :: "string \<Rightarrow> string \<Rightarrow> string option \<Rightarrow> prepared \<Rightarrow> pydict \<Rightarrow> trigger_decision" where
  "prepared_decision action reason run p prov =
     \<lparr>td_action = action, td_reason = reason, td_run_id = run, td_trigger = tg_name (pp_trigger p),
      td_event_id = Some (pp_eid p), td_digest = Some (pp_digest p), td_inputs = pp_inputs p, td_letter = None,
      td_provenance = prov\<rparr>"

definition prepared_provenance :: "prepared \<Rightarrow> pydict" where
  "prepared_provenance p = trigger_provenance (pp_trigger p) (pp_eid p) (pp_digest p) (pp_kind p)"

text \<open>The payload against the declared contract: the prepared event or the reason of the refusal.\<close>

definition check_contract :: "trigger_lib \<Rightarrow> string \<Rightarrow> trigger_spec \<Rightarrow> string \<Rightarrow> string \<times> pydict \<times> string \<Rightarrow>
    string + prepared" where
  "check_contract lib workflow t source parsed =
     (case parsed of (body, payload, digest) \<Rightarrow>
        (let kind = lower (strip source) in
         if kind \<notin> set SOURCE_KINDS then Inl ''source''
         else if kind \<noteq> tg_kind t then Inl ''kind''
         else if schema_missing t payload \<noteq> [] then Inl ''schema''
         else
           (case rbind (map_inputs lib payload (tg_inputs t))
                   (\<lambda>mapped. rbind (idem_key lib t payload mapped) (\<lambda>key. Inr (mapped, key))) of
              Inl _ \<Rightarrow> Inl ''mapping''
            | Inr (mapped, key) \<Rightarrow>
                if strip key = [] then Inl ''idempotency''
                else Inr \<lparr>pp_trigger = t, pp_key = composite_key workflow (tg_name t) key, pp_inputs = mapped,
                  pp_eid = event_id_for lib (tg_name t) payload, pp_digest = digest, pp_kind = kind, pp_raw = body\<rparr>)))"

text \<open>\<open>decide_trigger\<close> up to the lock of the key.\<close>

definition prepare_event :: "trigger_lib \<Rightarrow> string \<Rightarrow> trigger_spec list \<Rightarrow> string \<Rightarrow> rat \<Rightarrow> trigger_event \<Rightarrow>
    trigger_world \<Rightarrow> (trigger_decision + prepared) \<times> trigger_world" where
  "prepare_event lib workflow triggers ts now e w =
     (let name = te_trigger e in
      case find_trigger triggers name of
        None \<Rightarrow>
          (case add_letter ts ''unknown_trigger'' name None None (take 2000 (raw_text lib (te_raw e))) [] w of
             (lid, w) \<Rightarrow>
               (Inl (refusal ''refuse'' ''unknown_trigger'' name None None lid),
                audit_trigger ''trigger_refused'' [(''trigger'', PStr name), (''reason'', PStr ''unknown_trigger'')]
                  (log_refusal ts ''refuse'' ''unknown_trigger'' name lid w)))
      | Some t \<Rightarrow>
          (case parse_event lib (te_raw e) name now (tw_limiter w) of
             (Inl reason, l) \<Rightarrow> map_prod Inl id (refuse_event ts name reason None (take 2000 (raw_text lib (te_raw e))) (w\<lparr>tw_limiter := l\<rparr>))
           | (Inr (body, payload, digest), l) \<Rightarrow>
               (let w = w\<lparr>tw_limiter := l\<rparr> in
                case check_contract lib workflow t (te_source e) (body, payload, digest) of
                  Inl reason \<Rightarrow> map_prod Inl id (refuse_event ts name reason (Some digest) body w)
                | Inr p \<Rightarrow>
                    if te_dry_run e then
                      (Inl (prepared_decision ''test'' ''mapped'' None p []),
                       log_event ts [(''action'', PStr ''test''), (''trigger'', PStr (tg_name t)),
                         (''event_id'', PStr (pp_eid p))] w)
                    else if \<not> signature_ok lib t body e then
                      map_prod Inl id (refuse_event ts name ''unsigned'' (Some digest) body
                        (audit_trigger ''trigger_refused''
                          [(''trigger'', PStr (tg_name t)), (''reason'', PStr ''unsigned'')] w))
                    else (Inr p, w))))"

text \<open>
  Under the lock of the key, up to the start of the run. \<open>Inl None\<close>: an error escapes; \<open>Inr\<close>: the
  slot is taken and the run starts with what the budget has left.
\<close>

definition claim_start :: "trigger_lib \<Rightarrow> string \<Rightarrow> rat \<Rightarrow> prepared \<Rightarrow> trigger_world \<Rightarrow>
    (trigger_decision option + rat option \<times> int option) \<times> trigger_world" where
  "claim_start lib ts now p w =
     (let t = pp_trigger p; name = tg_name t in
      case parse_expires_in (tg_idempotency_window t) of
        None \<Rightarrow> (Inl None, w)
      | Some window \<Rightarrow>
      (case idem_lookup (tb_float_text lib) (tb_time lib) now (pp_key p) window (tw_rows w) of
         Some run \<Rightarrow>
           (Inl (Some (prepared_decision ''existing'' ''idempotent'' (Some run) p (prepared_provenance p))),
            log_event ts [(''action'', PStr ''existing''), (''trigger'', PStr name), (''run_id'', PStr run),
                (''event_id'', PStr (pp_eid p))]
              (audit_trigger ''trigger_existing'' [(''trigger'', PStr name), (''run_id'', PStr run)] w))
       | None \<Rightarrow>
           if \<not> budget_left t (tw_spend w) then
             map_prod (Inl \<circ> Some) id (refuse_event ts name ''budget'' (Some (pp_digest p)) (pp_raw p) w)
           else
             (case try_enter name (tg_concurrency t) (tg_on_ceiling t) (tw_gate w) of
                (Ceiling, g) \<Rightarrow>
                  (case add_letter ts ''ceiling'' name (Some (pp_digest p)) (Some (pp_eid p)) (pp_raw p)
                          [(''action'', PStr ''drop'')] (w\<lparr>tw_gate := g\<rparr>) of
                     (lid, w) \<Rightarrow>
                       (Inl (Some (refusal ''drop'' ''ceiling'' name (Some (pp_eid p)) (Some (pp_digest p)) lid)),
                        audit_trigger ''trigger_ceiling'' [(''trigger'', PStr name), (''action'', PStr ''drop'')]
                          (log_refusal ts ''drop'' ''ceiling'' name lid w)))
              | (Deferral, g) \<Rightarrow>
                  (case defer_event name [(''raw'', PStr (pp_raw p)), (''event_id'', PStr (pp_eid p)),
                          (''digest'', PStr (pp_digest p))] g of
                     None \<Rightarrow> (Inl None, w\<lparr>tw_gate := g\<rparr>)
                   | Some (queued, g) \<Rightarrow>
                       (case add_letter ts ''deferred'' name (Some (pp_digest p)) (Some (pp_eid p)) (pp_raw p)
                               [(''queued'', PInt (int queued))] (w\<lparr>tw_gate := g\<rparr>) of
                          (lid, w) \<Rightarrow>
                            (Inl (Some (refusal ''defer'' ''ceiling'' name (Some (pp_eid p)) (Some (pp_digest p)) lid)),
                             log_refusal ts ''defer'' ''ceiling'' name lid w)))
              | (Entered, g) \<Rightarrow> (Inr (remaining_budget t (tw_spend w)), w\<lparr>tw_gate := g\<rparr>))))"

text \<open>How a started run comes back: it raised, or its run id and usage.\<close>

datatype start_outcome = StartRaised | StartReturned string pydict

definition finish_start :: "trigger_lib \<Rightarrow> string \<Rightarrow> rat \<Rightarrow> prepared \<Rightarrow> start_outcome \<Rightarrow> trigger_world \<Rightarrow>
    trigger_decision option \<times> trigger_world" where
  "finish_start lib ts now p outcome w =
     (let name = tg_name (pp_trigger p); w = w\<lparr>tw_gate := leave_slot name (tw_gate w)\<rparr> in
      case outcome of
        StartRaised \<Rightarrow> map_prod Some id (refuse_event ts name ''start'' (Some (pp_digest p)) (pp_raw p) w)
      | StartReturned run usage \<Rightarrow>
          (let w = w\<lparr>tw_rows := idem_put (tb_time lib) now (pp_key p) run name (tw_rows w)\<rparr> in
           case usage_from_state usage of
             None \<Rightarrow> (None, w)
           | Some (usd, tokens) \<Rightarrow>
               (let w = (if usd \<noteq> 0 \<or> tokens \<noteq> 0
                         then w\<lparr>tw_spend := add_spend name usd tokens (tw_spend w)\<rparr> else w)
                in (Some (prepared_decision ''start'' ''started'' (Some run) p (prepared_provenance p)),
                    log_event ts [(''action'', PStr ''start''), (''trigger'', PStr name), (''run_id'', PStr run),
                        (''event_id'', PStr (pp_eid p))]
                      (audit_trigger ''trigger_started'' [(''trigger'', PStr name), (''run_id'', PStr run)] w)))))"

text \<open>
  The whole call when nothing else runs; \<open>starter\<close> gets the inputs, the provenance and the budgets
  that are left, \<open>later\<close> is the clock when it is back.
\<close>

definition decide_trigger :: "trigger_lib \<Rightarrow> string \<Rightarrow> trigger_spec list \<Rightarrow> string \<Rightarrow> rat \<Rightarrow> rat \<Rightarrow>
    (prepared \<Rightarrow> rat option \<times> int option \<Rightarrow> start_outcome) \<Rightarrow> trigger_event \<Rightarrow> trigger_world \<Rightarrow>
    trigger_decision option \<times> trigger_world" where
  "decide_trigger lib workflow triggers ts now later starter e w =
     (case prepare_event lib workflow triggers ts now e w of
        (Inl d, w) \<Rightarrow> (Some d, w)
      | (Inr p, w) \<Rightarrow>
          (case claim_start lib ts now p w of
             (Inl d, w) \<Rightarrow> (d, w)
           | (Inr remaining, w) \<Rightarrow> finish_start lib ts later p (starter p remaining) w))"

text \<open>\<open>replay_dead_letter\<close>: \<open>Inl\<close> is the reason of the \<open>TriggerRefused\<close> it raises.\<close>

definition replay_dead_letter :: "trigger_lib \<Rightarrow> string \<Rightarrow> trigger_spec list \<Rightarrow> string \<Rightarrow> rat \<Rightarrow> rat \<Rightarrow>
    (prepared \<Rightarrow> rat option \<times> int option \<Rightarrow> start_outcome) \<Rightarrow> string \<Rightarrow> string option \<Rightarrow> trigger_event \<Rightarrow>
    trigger_world \<Rightarrow> string + trigger_decision option \<times> trigger_world" where
  "replay_dead_letter lib workflow triggers ts now later starter lid source_kind e w =
     (let fr = tb_float_text lib in
      case get_letter fr lid (tw_letters w) of
        None \<Rightarrow> Inl ''missing''
      | Some row \<Rightarrow>
          (let name = text_or fr (vget row ''trigger'') [];
               kind = (if truthy source_kind then the source_kind else text_or fr (vget row ''source_kind'') []);
               fire = (\<lambda>kind. decide_trigger lib workflow triggers ts now later starter
                 (e\<lparr>te_trigger := name, te_raw := RawText (text_or fr (vget row ''raw'') []), te_source := kind\<rparr>) w)
           in if kind \<noteq> [] then Inr (fire kind)
              else (case find_trigger triggers name of
                      None \<Rightarrow> Inl ''unknown_trigger''
                    | Some t \<Rightarrow> Inr (fire (tg_kind t)))))"

section \<open>The run a trigger starts\<close>

text \<open>
  \<open>start_triggered_run\<close> of \<open>triggers/start.py\<close> without a workflow file: the state it opens, the
  caps of its spend in micro-dollars and tokens, and the run on the engine.
\<close>

definition triggered_state :: "string \<Rightarrow> string \<Rightarrow> string \<Rightarrow> prepared \<Rightarrow> run_state" where
  "triggered_state run_id workflow now p =
     foldl (\<lambda>s key. set_provenance key (untrusted ''event'' None None) s)
       (start_run run_id workflow (pp_inputs p) [(''started_by'', PDict (prepared_provenance p))] now)
       (List.map fst (pp_inputs p))"

definition triggered_caps :: "trigger_spec \<Rightarrow> rat option \<times> int option \<Rightarrow> int option \<times> int option" where
  "triggered_caps t remaining =
     (usd_to_micros (if fst remaining = None then Option.bind (tg_budget t) fst else fst remaining),
      (if snd remaining = None then Option.bind (tg_budget t) snd else snd remaining))"

definition start_triggered_run :: "engine_ctx \<Rightarrow> node_body \<Rightarrow> workflow_spec \<Rightarrow> string \<Rightarrow> string \<Rightarrow> prepared \<Rightarrow>
    engine_world \<Rightarrow> failure option \<times> engine_world" where
  "start_triggered_run c body wfl run_id now p w =
     run_workflow c body wfl run_id (pp_inputs p) [(''started_by'', PDict (prepared_provenance p))]
       (Some (triggered_state run_id (wf_name wfl) now p)) w"

end
