(* ===== verification/TriggerLaws.thy ===== *)
theory TriggerLaws
  imports TriggerStarts
begin

text \<open>
  Laws of the start decision and the system of concurrent decisions: events arrive, wait for the
  lock of their idempotency key, claim a slot, run and finish, in any interleaving. What each
  part of a decision leaves alone, and the invariants of slots, keys and dead letters.
\<close>

section \<open>Frames\<close>

named_theorems trigger_frames "what the parts of a start decision leave alone"

lemma audit_trigger_frame [trigger_frames]:
  "tw_gate (audit_trigger what row w) = tw_gate w"
  "tw_rows (audit_trigger what row w) = tw_rows w"
  "tw_spend (audit_trigger what row w) = tw_spend w"
  "tw_letters (audit_trigger what row w) = tw_letters w"
  "tw_limiter (audit_trigger what row w) = tw_limiter w"
  by (simp_all add: audit_trigger_def)

lemma log_event_frame [trigger_frames]:
  "tw_gate (log_event ts row w) = tw_gate w"
  "tw_rows (log_event ts row w) = tw_rows w"
  "tw_spend (log_event ts row w) = tw_spend w"
  "tw_letters (log_event ts row w) = tw_letters w"
  "tw_limiter (log_event ts row w) = tw_limiter w"
  by (simp_all add: log_event_def)

lemma log_refusal_frame [trigger_frames]:
  "tw_gate (log_refusal ts a r t lid w) = tw_gate w"
  "tw_rows (log_refusal ts a r t lid w) = tw_rows w"
  "tw_spend (log_refusal ts a r t lid w) = tw_spend w"
  "tw_letters (log_refusal ts a r t lid w) = tw_letters w"
  "tw_limiter (log_refusal ts a r t lid w) = tw_limiter w"
  by (simp_all add: log_refusal_def trigger_frames)

lemma add_letter_eq [trigger_frames]:
  "add_letter ts reason trigger digest eid raw extra w =
     (letter_id ts digest eid, w\<lparr>tw_letters := tw_letters w @ [letter_row ts reason (Some trigger) digest eid raw extra]\<rparr>)"
  by (simp add: add_letter_def record_letter_def)

lemma refuse_event_frame [trigger_frames]:
  "tw_gate (snd (refuse_event ts t reason digest raw w)) = tw_gate w"
  "tw_rows (snd (refuse_event ts t reason digest raw w)) = tw_rows w"
  "tw_spend (snd (refuse_event ts t reason digest raw w)) = tw_spend w"
  "tw_limiter (snd (refuse_event ts t reason digest raw w)) = tw_limiter w"
  "tw_letters (snd (refuse_event ts t reason digest raw w)) =
     tw_letters w @ [letter_row ts reason (Some t) digest None raw []]"
  "fst (refuse_event ts t reason digest raw w) = refusal ''refuse'' reason t None digest (letter_id ts digest None)"
  by (simp_all add: refuse_event_def Let_def trigger_frames)

lemma prepare_event_frame [trigger_frames]:
  "tw_gate (snd (prepare_event lib wfn triggers ts now e w)) = tw_gate w"
  "tw_rows (snd (prepare_event lib wfn triggers ts now e w)) = tw_rows w"
  "tw_spend (snd (prepare_event lib wfn triggers ts now e w)) = tw_spend w"
  by (simp_all add: prepare_event_def Let_def trigger_frames split: option.split sum.split prod.split)

lemma map_prod_eq: "map_prod f g x = (a, b) \<longleftrightarrow> f (fst x) = a \<and> g (snd x) = b"
  by (cases x) auto

lemma prepared_event:
  assumes "prepare_event lib wfn triggers ts now e w = (Inr p, w')"
  obtains t body payload digest l where
    "find_trigger triggers (te_trigger e) = Some t"
    "parse_event lib (te_raw e) (te_trigger e) now (tw_limiter w) = (Inr (body, payload, digest), l)"
    "check_contract lib wfn t (te_source e) (body, payload, digest) = Inr p"
    "\<not> te_dry_run e" "signature_ok lib t body e" "w' = w\<lparr>tw_limiter := l\<rparr>"
  using assms
  by (auto simp: prepare_event_def Let_def map_prod_eq trigger_frames
      split: option.splits prod.splits sum.splits if_splits)

lemma contract_trigger:
  "check_contract lib wfn t source (body, payload, digest) = Inr p \<Longrightarrow>
     pp_trigger p = t \<and> pp_raw p = body \<and> pp_digest p = digest"
  by (auto simp: check_contract_def Let_def split: if_splits sum.splits prod.splits)

lemma find_trigger_name: "find_trigger triggers name = Some t \<Longrightarrow> tg_name t = name"
  by (auto simp: find_trigger_def find_Some_iff)

lemma prepared_trigger:
  assumes "prepare_event lib wfn triggers ts now e w = (Inr p, w')"
  shows "find_trigger triggers (tg_name (pp_trigger p)) = Some (pp_trigger p)"
  using assms by (elim prepared_event) (metis contract_trigger find_trigger_name)

section \<open>Slots\<close>

lemma slots_used_dset [simp]:
  "slots_used t' (g\<lparr>sg_active := dset t n (sg_active g)\<rparr>) = (if t' = t then n else slots_used t' g)"
  by (simp add: slots_used_def dget_or_def)

lemma slots_used_deferred [simp]: "slots_used t (g\<lparr>sg_deferred := q\<rparr>) = slots_used t g"
  by (simp add: slots_used_def)

lemma try_enter_cases:
  assumes "try_enter t limit on_ceiling g = (r, g')"
  obtains (entered) "r = Entered" "slots_used t g < limit" "slots_used t g' = Suc (slots_used t g)"
      "\<And>t'. t' \<noteq> t \<Longrightarrow> slots_used t' g' = slots_used t' g" "sg_deferred g' = sg_deferred g" "sg_max_defer g' = sg_max_defer g"
    | (full) "r \<noteq> Entered" "\<And>t'. slots_used t' g' = slots_used t' g" "\<And>t'. deferred_count t' g' = deferred_count t' g"
      "sg_max_defer g' = sg_max_defer g" "r = Deferral \<Longrightarrow> deferred_count t g' < sg_max_defer g'"
  using assms
  by (auto simp: try_enter_def Let_def deferred_count_def dget_or_def not_le split: if_splits option.splits)

lemma defer_event_cases:
  assumes "defer_event t payload g = Some (n, g')"
  shows "slots_used t' g' = slots_used t' g" "deferred_count t g' = Suc (deferred_count t g)"
    "t' \<noteq> t \<Longrightarrow> deferred_count t' g' = deferred_count t' g" "sg_max_defer g' = sg_max_defer g"
    "deferred_count t g < sg_max_defer g"
  using assms by (auto simp: defer_event_def Let_def deferred_count_def dget_or_def split: if_splits)

lemma leave_slot_frame [simp]:
  "slots_used t' (leave_slot t g) = (if t' = t then slots_used t g - 1 else slots_used t' g)"
  "deferred_count t' (leave_slot t g) = deferred_count t' g"
  "sg_max_defer (leave_slot t g) = sg_max_defer g"
  by (simp_all add: leave_slot_def deferred_count_def)

section \<open>Claims\<close>

text \<open>What a claim does to the gate, and that only a claim that starts takes a slot.\<close>

lemma claim_started:
  assumes "claim_start lib ts now p w = (Inr r, w')"
  shows "slots_used (tg_name (pp_trigger p)) (tw_gate w) < tg_concurrency (pp_trigger p)"
    "slots_used (tg_name (pp_trigger p)) (tw_gate w') = Suc (slots_used (tg_name (pp_trigger p)) (tw_gate w))"
    "t' \<noteq> tg_name (pp_trigger p) \<Longrightarrow> slots_used t' (tw_gate w') = slots_used t' (tw_gate w)"
    "deferred_count t (tw_gate w') = deferred_count t (tw_gate w)"
    "sg_max_defer (tw_gate w') = sg_max_defer (tw_gate w)"
    "tw_rows w' = tw_rows w" "tw_spend w' = tw_spend w" "tw_letters w' = tw_letters w"
    "r = remaining_budget (pp_trigger p) (tw_spend w)" "budget_left (pp_trigger p) (tw_spend w)"
    "\<exists>window. parse_expires_in (tg_idempotency_window (pp_trigger p)) = Some window \<and>
       idem_lookup (tb_float_text lib) (tb_time lib) now (pp_key p) window (tw_rows w) = None"
  using assms
  by (auto simp: claim_start_def Let_def try_enter_def map_prod_def deferred_count_def
      split: option.splits prod.splits if_splits entry.splits)

lemma claim_decided:
  assumes "claim_start lib ts now p w = (Inl d, w')"
  shows "slots_used t' (tw_gate w') = slots_used t' (tw_gate w)"
    "deferred_count t' (tw_gate w) \<le> deferred_count t' (tw_gate w')"
    "sg_max_defer (tw_gate w') = sg_max_defer (tw_gate w)"
    "deferred_count t' (tw_gate w) \<le> sg_max_defer (tw_gate w) \<Longrightarrow>
       deferred_count t' (tw_gate w') \<le> sg_max_defer (tw_gate w)"
    "tw_rows w' = tw_rows w" "tw_spend w' = tw_spend w"
proof -
  let ?t = "pp_trigger p"
  have frame: "tw_rows w' = tw_rows w \<and> tw_spend w' = tw_spend w"
    using assms
    by (auto simp: claim_start_def Let_def map_prod_eq trigger_frames split: option.splits prod.splits if_splits entry.splits)
  then show "tw_rows w' = tw_rows w" "tw_spend w' = tw_spend w" by simp_all
  consider (same) "tw_gate w' = tw_gate w"
    | (tried) r g where "try_enter (tg_name ?t) (tg_concurrency ?t) (tg_on_ceiling ?t) (tw_gate w) = (r, g)"
        "r \<noteq> Entered" "tw_gate w' = g"
    | (queued) r g payload n where
        "try_enter (tg_name ?t) (tg_concurrency ?t) (tg_on_ceiling ?t) (tw_gate w) = (r, g)" "r \<noteq> Entered"
        "defer_event (tg_name ?t) payload g = Some (n, tw_gate w')"
    using assms
    by (auto simp: claim_start_def Let_def map_prod_eq trigger_frames split: option.splits prod.splits if_splits entry.splits)
  then have "slots_used t' (tw_gate w') = slots_used t' (tw_gate w) \<and>
    deferred_count t' (tw_gate w) \<le> deferred_count t' (tw_gate w') \<and>
    sg_max_defer (tw_gate w') = sg_max_defer (tw_gate w) \<and>
    (deferred_count t' (tw_gate w) \<le> sg_max_defer (tw_gate w) \<longrightarrow>
       deferred_count t' (tw_gate w') \<le> sg_max_defer (tw_gate w))"
  proof cases
    case tried
    then show ?thesis by (elim try_enter_cases) auto
  next
    case queued
    from queued(1) queued(2) have g: "slots_used t' g = slots_used t' (tw_gate w)"
      "deferred_count t' g = deferred_count t' (tw_gate w)" "sg_max_defer g = sg_max_defer (tw_gate w)"
      by (elim try_enter_cases; simp)+
    show ?thesis
      using g defer_event_cases(1,2,4,5) [OF queued(3)] defer_event_cases(3) [OF queued(3), of t']
      by (cases "t' = tg_name ?t") auto
  qed simp
  then show "slots_used t' (tw_gate w') = slots_used t' (tw_gate w)"
    "deferred_count t' (tw_gate w) \<le> deferred_count t' (tw_gate w')"
    "sg_max_defer (tw_gate w') = sg_max_defer (tw_gate w)"
    "deferred_count t' (tw_gate w) \<le> sg_max_defer (tw_gate w) \<Longrightarrow>
       deferred_count t' (tw_gate w') \<le> sg_max_defer (tw_gate w)"
    by simp_all
qed

lemma finish_start_frame:
  assumes "finish_start lib ts now p outcome w = (d, w')"
  shows "tw_gate w' = leave_slot (tg_name (pp_trigger p)) (tw_gate w)"
    "tw_rows w' = (case outcome of StartRaised \<Rightarrow> tw_rows w
       | StartReturned run usage \<Rightarrow> idem_put (tb_time lib) now (pp_key p) run (tg_name (pp_trigger p)) (tw_rows w))"
  using assms
  by (auto simp: finish_start_def Let_def map_prod_eq trigger_frames split: start_outcome.splits option.splits prod.splits if_splits)

section \<open>Concurrent decisions\<close>

text \<open>
  The state of a process that decides events: the stores, the events that wait for the lock of
  their key, the runs in flight with the time they were claimed, the starts that finished, and
  the time. A claim needs that no run of the same key is in flight, as the lock demands.
\<close>

record flight =
  fl_event :: prepared
  fl_claimed :: rat
  fl_caps :: "rat option \<times> int option"

record finished_start =
  fs_event :: prepared
  fs_claimed :: rat
  fs_finished :: rat
  fs_run :: string

record trigger_sys =
  sys_world :: trigger_world
  sys_waiting :: "prepared list"
  sys_flights :: "flight list"
  sys_starts :: "finished_start list"
  sys_clock :: rat

inductive trigger_step :: "trigger_lib \<Rightarrow> string \<Rightarrow> trigger_spec list \<Rightarrow> trigger_sys \<Rightarrow> trigger_sys \<Rightarrow> bool"
  for lib wfn triggers where
  refused: "prepare_event lib wfn triggers ts now e (sys_world s) = (Inl d, w) \<Longrightarrow> sys_clock s \<le> now \<Longrightarrow>
     trigger_step lib wfn triggers s (s\<lparr>sys_world := w, sys_clock := now\<rparr>)"
| arrived: "prepare_event lib wfn triggers ts now e (sys_world s) = (Inr p, w) \<Longrightarrow> sys_clock s \<le> now \<Longrightarrow>
     trigger_step lib wfn triggers s (s\<lparr>sys_world := w, sys_waiting := sys_waiting s @ [p], sys_clock := now\<rparr>)"
| decided: "p \<in> set (sys_waiting s) \<Longrightarrow> pp_key p \<notin> (pp_key \<circ> fl_event) ` set (sys_flights s) \<Longrightarrow>
     claim_start lib ts now p (sys_world s) = (Inl d, w) \<Longrightarrow> sys_clock s \<le> now \<Longrightarrow>
     trigger_step lib wfn triggers s (s\<lparr>sys_world := w, sys_waiting := remove1 p (sys_waiting s), sys_clock := now\<rparr>)"
| started: "p \<in> set (sys_waiting s) \<Longrightarrow> pp_key p \<notin> (pp_key \<circ> fl_event) ` set (sys_flights s) \<Longrightarrow>
     claim_start lib ts now p (sys_world s) = (Inr caps, w) \<Longrightarrow> sys_clock s \<le> now \<Longrightarrow>
     trigger_step lib wfn triggers s (s\<lparr>sys_world := w, sys_waiting := remove1 p (sys_waiting s),
       sys_flights := sys_flights s @ [\<lparr>fl_event = p, fl_claimed = now, fl_caps = caps\<rparr>], sys_clock := now\<rparr>)"
| finished: "f \<in> set (sys_flights s) \<Longrightarrow>
     finish_start lib ts now (fl_event f) (StartReturned run usage) (sys_world s) = (d, w) \<Longrightarrow> sys_clock s \<le> now \<Longrightarrow>
     run \<noteq> [] \<Longrightarrow>
     trigger_step lib wfn triggers s (s\<lparr>sys_world := w, sys_flights := remove1 f (sys_flights s),
       sys_starts := sys_starts s @ [\<lparr>fs_event = fl_event f, fs_claimed = fl_claimed f, fs_finished = now, fs_run = run\<rparr>],
       sys_clock := now\<rparr>)"
| failed: "f \<in> set (sys_flights s) \<Longrightarrow>
     finish_start lib ts now (fl_event f) StartRaised (sys_world s) = (d, w) \<Longrightarrow> sys_clock s \<le> now \<Longrightarrow>
     trigger_step lib wfn triggers s (s\<lparr>sys_world := w, sys_flights := remove1 f (sys_flights s), sys_clock := now\<rparr>)"

inductive_cases trigger_stepE: "trigger_step lib wfn triggers s s'"

definition start_sys :: "trigger_world \<Rightarrow> trigger_sys" where
  "start_sys w = \<lparr>sys_world = w, sys_waiting = [], sys_flights = [], sys_starts = [], sys_clock = 0\<rparr>"

text \<open>A process begins with an empty gate and store.\<close>

definition fresh_world :: "trigger_world \<Rightarrow> bool" where
  "fresh_world w = (sg_active (tw_gate w) = [] \<and> sg_deferred (tw_gate w) = [] \<and> tw_rows w = [])"

inductive trigger_reach :: "trigger_lib \<Rightarrow> string \<Rightarrow> trigger_spec list \<Rightarrow> trigger_sys \<Rightarrow> bool"
  for lib wfn triggers where
  start: "fresh_world w \<Longrightarrow> trigger_reach lib wfn triggers (start_sys w)"
| step: "trigger_reach lib wfn triggers s \<Longrightarrow> trigger_step lib wfn triggers s s' \<Longrightarrow> trigger_reach lib wfn triggers s'"

section \<open>The slots of a trigger\<close>

abbreviation flight_name :: "flight \<Rightarrow> string" where
  "flight_name f \<equiv> tg_name (pp_trigger (fl_event f))"

abbreviation flight_key :: "flight \<Rightarrow> string" where
  "flight_key f \<equiv> pp_key (fl_event f)"

definition in_flight :: "string \<Rightarrow> trigger_sys \<Rightarrow> nat" where
  "in_flight name s = length (filter (\<lambda>f. flight_name f = name) (sys_flights s))"

definition slots_inv :: "trigger_spec list \<Rightarrow> trigger_sys \<Rightarrow> bool" where
  "slots_inv triggers s =
     ((\<forall>n. slots_used n (tw_gate (sys_world s)) = in_flight n s) \<and>
      (\<forall>p \<in> set (sys_waiting s). find_trigger triggers (tg_name (pp_trigger p)) = Some (pp_trigger p)) \<and>
      (\<forall>n t. find_trigger triggers n = Some t \<longrightarrow> in_flight n s \<le> tg_concurrency t) \<and>
      (\<forall>n. deferred_count n (tw_gate (sys_world s)) \<le> sg_max_defer (tw_gate (sys_world s))))"

lemma in_flight_append: "in_flight n (s\<lparr>sys_world := w, sys_waiting := q, sys_flights := sys_flights s @ [f], sys_clock := c\<rparr>) =
    in_flight n s + (if flight_name f = n then 1 else 0)"
  by (simp add: in_flight_def)

lemma in_flight_remove:
  assumes "f \<in> set (sys_flights s)"
  shows "length (filter (\<lambda>f. flight_name f = n) (remove1 f (sys_flights s))) = in_flight n s - (if flight_name f = n then 1 else 0)"
  using assms by (auto simp: in_flight_def filter_remove1 length_remove1)

lemma in_flight_frame [simp]:
  "in_flight n (s\<lparr>sys_world := w, sys_clock := c\<rparr>) = in_flight n s"
  "in_flight n (s\<lparr>sys_world := w, sys_waiting := q, sys_clock := c\<rparr>) = in_flight n s"
  by (simp_all add: in_flight_def)

lemma slots_inv_start: "fresh_world w \<Longrightarrow> slots_inv triggers (start_sys w)"
  by (simp add: slots_inv_def start_sys_def fresh_world_def slots_used_def dget_or_def deferred_count_def in_flight_def)

lemma slots_inv_gate:
  assumes "slots_inv triggers s" "\<And>n. slots_used n (tw_gate w) = slots_used n (tw_gate (sys_world s))"
    "\<And>n. deferred_count n (tw_gate w) \<le> sg_max_defer (tw_gate w)"
    "\<forall>p \<in> set q. find_trigger triggers (tg_name (pp_trigger p)) = Some (pp_trigger p)"
  shows "slots_inv triggers (s\<lparr>sys_world := w, sys_waiting := q, sys_clock := c\<rparr>)"
  using assms unfolding slots_inv_def by simp

lemma slots_inv_left:
  assumes inv: "slots_inv triggers s" and f: "f \<in> set (sys_flights s)"
    and g: "tw_gate w = leave_slot (flight_name f) (tw_gate (sys_world s))"
  shows "slots_inv triggers (s\<lparr>sys_world := w, sys_flights := remove1 f (sys_flights s), sys_starts := h, sys_clock := c\<rparr>)"
proof -
  have "in_flight n (s\<lparr>sys_world := w, sys_flights := remove1 f (sys_flights s), sys_starts := h, sys_clock := c\<rparr>) =
      in_flight n s - (if flight_name f = n then 1 else 0)" for n
    using in_flight_remove [OF f] by (simp add: in_flight_def)
  with inv show ?thesis unfolding slots_inv_def by (auto simp: g intro: le_trans [OF diff_le_self])
qed

lemma slots_inv_step:
  assumes "slots_inv triggers s" "trigger_step lib wfn triggers s s'"
  shows "slots_inv triggers s'"
  using assms(2)
proof cases
  case (refused ts now e d w)
  then show ?thesis
    using slots_inv_gate [OF assms(1), of w "sys_waiting s" now] assms(1)
      prepare_event_frame [of lib wfn triggers ts now e "sys_world s"] by (simp add: slots_inv_def)
next
  case (arrived ts now e p w)
  have "find_trigger triggers (tg_name (pp_trigger p)) = Some (pp_trigger p)"
    using arrived(2) by (rule prepared_trigger)
  then show ?thesis
    unfolding arrived(1)
    by (intro slots_inv_gate [OF assms(1)])
      (use assms(1) prepare_event_frame [of lib wfn triggers ts now e "sys_world s"] arrived(2) in \<open>auto simp: slots_inv_def\<close>)
next
  case (decided p ts now d w)
  show ?thesis
    unfolding decided(1)
    by (rule slots_inv_gate [OF assms(1)])
      (use assms(1) claim_decided [OF decided(4)] set_remove1_subset [of p "sys_waiting s"] in \<open>auto simp: slots_inv_def\<close>)
next
  case (started p ts now caps w)
  show ?thesis
  proof -
    let ?n = "tg_name (pp_trigger p)"
    have find: "find_trigger triggers ?n = Some (pp_trigger p)" using assms(1) started(2) by (simp add: slots_inv_def)
    note c = claim_started [OF started(4)]
    have used: "slots_used n (tw_gate w) = in_flight n s + (if ?n = n then 1 else 0)" for n
      using c(2) c(3) [of n] assms(1) by (auto simp: slots_inv_def)
    have room: "in_flight ?n s < tg_concurrency (pp_trigger p)" using c(1) assms(1) by (simp add: slots_inv_def)
    have deferred: "deferred_count n (tw_gate w) \<le> sg_max_defer (tw_gate w)" for n
      using c(4,5) assms(1) by (simp add: slots_inv_def)
    have waiting: "\<forall>q \<in> set (remove1 p (sys_waiting s)). find_trigger triggers (tg_name (pp_trigger q)) = Some (pp_trigger q)"
      using assms(1) set_remove1_subset [of p "sys_waiting s"] by (auto simp: slots_inv_def)
    have limit: "in_flight n s + (if ?n = n then 1 else 0) \<le> tg_concurrency t" if "find_trigger triggers n = Some t" for n t
      using that find room assms(1) by (auto simp: slots_inv_def)
    show ?thesis
      unfolding started(1) slots_inv_def in_flight_append using used deferred waiting limit by simp
  qed
next
  case (finished f ts now run usage d w)
  show ?thesis unfolding finished(1)
    by (rule slots_inv_left [OF assms(1) finished(2)]) (rule finish_start_frame(1) [OF finished(3)])
next
  case (failed f ts now d w)
  show ?thesis unfolding failed(1)
    using slots_inv_left [OF assms(1) failed(2) finish_start_frame(1) [OF failed(3)], where h = "sys_starts s" and c = now] by simp
qed

lemma slots_inv_reach: "trigger_reach lib wfn triggers s \<Longrightarrow> slots_inv triggers s"
  by (induction rule: trigger_reach.induct) (auto intro: slots_inv_start slots_inv_step)

section \<open>The starts of a key\<close>

text \<open>What the code relies on: a time survives \<open>isoformat\<close> and \<open>fromisoformat\<close>.\<close>

definition iso_faithful :: "trigger_lib \<Rightarrow> bool" where
  "iso_faithful lib = (\<forall>t. tl_parse (tb_time lib) (zulu (tl_format (tb_time lib) t)) = Some t)"

definition last_start :: "string \<Rightarrow> finished_start list \<Rightarrow> finished_start option" where
  "last_start key starts = find (\<lambda>st. pp_key (fs_event st) = key) (rev starts)"

definition start_row :: "trigger_lib \<Rightarrow> finished_start \<Rightarrow> pyval" where
  "start_row lib st =
     PDict [(''run_id'', PStr (fs_run st)), (''trigger'', PStr (tg_name (pp_trigger (fs_event st)))),
       (''started_at'', PStr (tl_format (tb_time lib) (fs_finished st)))]"

text \<open>A start of the same key came after the window of the later one's trigger.\<close>

definition apart :: "finished_start \<Rightarrow> prepared \<Rightarrow> rat \<Rightarrow> bool" where
  "apart st p claimed =
     (pp_key (fs_event st) = pp_key p \<longrightarrow>
      (\<forall>window. parse_expires_in (tg_idempotency_window (pp_trigger p)) = Some window \<longrightarrow>
         window < claimed - fs_finished st))"

definition keys_inv :: "trigger_lib \<Rightarrow> trigger_sys \<Rightarrow> bool" where
  "keys_inv lib s =
     (distinct (List.map flight_key (sys_flights s)) \<and>
      (\<forall>k. map_of (tw_rows (sys_world s)) k = map_option (start_row lib) (last_start k (sys_starts s))) \<and>
      (\<forall>st \<in> set (sys_starts s). fs_run st \<noteq> [] \<and> fs_finished st \<le> sys_clock s) \<and>
      sorted (List.map fs_finished (sys_starts s)) \<and>
      (\<forall>f \<in> set (sys_flights s). \<forall>st \<in> set (sys_starts s). apart st (fl_event f) (fl_claimed f)) \<and>
      sorted_wrt (\<lambda>a b. apart a (fs_event b) (fs_claimed b)) (sys_starts s))"

lemma last_start_snoc:
  "last_start k (starts @ [st]) = (if pp_key (fs_event st) = k then Some st else last_start k starts)"
  by (simp add: last_start_def)

lemma last_start_latest:
  assumes "sorted (List.map fs_finished starts)" "st \<in> set starts" "pp_key (fs_event st) = k"
  obtains st' where "last_start k starts = Some st'" "st' \<in> set starts" "fs_finished st \<le> fs_finished st'"
  using assms
proof (induction starts arbitrary: thesis rule: rev_induct)
  case (snoc a starts)
  show ?case
  proof (cases "pp_key (fs_event a) = k")
    case True
    have "fs_finished st \<le> fs_finished a" using snoc.prems(2,3) by (auto simp: sorted_append)
    then show ?thesis using snoc.prems(1) [of a] True by (simp add: last_start_snoc)
  next
    case False
    then have "st \<in> set starts" using snoc.prems(3,4) by auto
    moreover have "sorted (List.map fs_finished starts)" using snoc.prems(2) by (simp add: sorted_append)
    ultimately obtain st' where "last_start k starts = Some st'" "st' \<in> set starts" "fs_finished st \<le> fs_finished st'"
      using snoc.IH snoc.prems(4) by blast
    then show ?thesis using snoc.prems(1) [of st'] False by (simp add: last_start_snoc)
  qed
qed simp

lemma lookup_start_row:
  assumes "iso_faithful lib" "map_of rows k = Some (start_row lib st)" "fs_run st \<noteq> []"
  shows "idem_lookup fr (tb_time lib) now k window rows = (if window < now - fs_finished st then None else Some (fs_run st))"
  using assms by (simp add: idem_lookup_def start_row_def iso_faithful_def)

lemma claim_apart:
  assumes inv: "keys_inv lib s" and iso: "iso_faithful lib"
    and claim: "claim_start lib ts now p (sys_world s) = (Inr caps, w)" and st: "st \<in> set (sys_starts s)"
  shows "apart st p now"
proof (cases "pp_key (fs_event st) = pp_key p")
  case True
  obtain window where win: "parse_expires_in (tg_idempotency_window (pp_trigger p)) = Some window"
    "idem_lookup (tb_float_text lib) (tb_time lib) now (pp_key p) window (tw_rows (sys_world s)) = None"
    using claim_started(11) [OF claim] by blast
  have "sorted (List.map fs_finished (sys_starts s))" using inv by (simp add: keys_inv_def)
  then obtain st' where st': "last_start (pp_key p) (sys_starts s) = Some st'" "st' \<in> set (sys_starts s)"
    "fs_finished st \<le> fs_finished st'"
    using st True by (rule last_start_latest)
  have "map_of (tw_rows (sys_world s)) (pp_key p) = Some (start_row lib st')" "fs_run st' \<noteq> []"
    using inv st' by (simp_all add: keys_inv_def)
  then have "window < now - fs_finished st'"
    using win(2) lookup_start_row [OF iso] by (simp split: if_splits)
  with st'(3) win(1) show ?thesis by (simp add: apart_def)
qed (simp add: apart_def)

lemma keys_inv_start: "fresh_world w \<Longrightarrow> keys_inv lib (start_sys w)"
  by (simp add: keys_inv_def start_sys_def fresh_world_def last_start_def)

lemma keys_inv_idle:
  assumes "keys_inv lib s" "tw_rows w = tw_rows (sys_world s)" "sys_clock s \<le> now"
  shows "keys_inv lib (s\<lparr>sys_world := w, sys_waiting := q, sys_clock := now\<rparr>)"
  using assms unfolding keys_inv_def by (auto intro: order_trans)

lemma distinct_map_remove1:
  "distinct (List.map g xs) \<Longrightarrow> x \<in> set xs \<Longrightarrow>
     distinct (List.map g (remove1 x xs)) \<and> g x \<notin> g ` set (remove1 x xs)"
proof (induction xs)
  case (Cons a xs)
  show ?case
  proof (cases "x = a")
    case False
    then have "distinct (List.map g (remove1 x xs)) \<and> g x \<notin> g ` set (remove1 x xs)" and "x \<in> set xs"
      using Cons by auto
    moreover have "g a \<notin> g ` set (remove1 x xs)"
      using Cons.prems(1) set_remove1_subset [of x xs] by auto
    moreover have "g x \<noteq> g a" using Cons.prems(1) \<open>x \<in> set xs\<close> by (metis distinct.simps(2) list.set_map list.simps(9) rev_image_eqI)
    ultimately show ?thesis using False by simp
  qed (use Cons.prems in auto)
qed simp

text \<open>A run that leaves the flights keeps the invariant, whether it adds a start or not.\<close>

lemma keys_inv_left:
  assumes inv: "keys_inv lib s" and f: "f \<in> set (sys_flights s)" and now: "sys_clock s \<le> now"
  shows "tw_rows w = tw_rows (sys_world s) \<Longrightarrow>
      keys_inv lib (s\<lparr>sys_world := w, sys_flights := remove1 f (sys_flights s), sys_clock := now\<rparr>)"
    and "st = \<lparr>fs_event = fl_event f, fs_claimed = fl_claimed f, fs_finished = now, fs_run = run\<rparr> \<Longrightarrow> run \<noteq> [] \<Longrightarrow>
      tw_rows w = idem_put (tb_time lib) now (flight_key f) run (flight_name f) (tw_rows (sys_world s)) \<Longrightarrow>
      keys_inv lib (s\<lparr>sys_world := w, sys_flights := remove1 f (sys_flights s), sys_starts := sys_starts s @ [st], sys_clock := now\<rparr>)"
proof -
  note parts = inv [unfolded keys_inv_def]
  have keys: "distinct (List.map flight_key (sys_flights s))" using parts by blast
  have d: "distinct (List.map flight_key (remove1 f (sys_flights s)))"
    using distinct_map_remove1 [OF keys f] by blast
  have other: "flight_key g \<noteq> flight_key f" if "g \<in> set (remove1 f (sys_flights s))" for g
    using distinct_map_remove1 [OF keys f] that by (metis image_eqI)
  have sub: "set (remove1 f (sys_flights s)) \<subseteq> set (sys_flights s)" by (rule set_remove1_subset)
  have old: "\<forall>st \<in> set (sys_starts s). fs_run st \<noteq> [] \<and> fs_finished st \<le> now"
    using parts now by (meson order_trans)
  have sorted: "sorted (List.map fs_finished (sys_starts s))" using parts by blast
  have wrt: "sorted_wrt (\<lambda>a b. apart a (fs_event b) (fs_claimed b)) (sys_starts s)" using parts by blast
  have row: "map_of (tw_rows (sys_world s)) k = map_option (start_row lib) (last_start k (sys_starts s))" for k
    using parts by blast
  have all: "apart st (fl_event g) (fl_claimed g)" if "g \<in> set (sys_flights s)" "st \<in> set (sys_starts s)" for g st
    using parts that by blast
  have apart: "\<forall>g \<in> set (remove1 f (sys_flights s)). \<forall>st \<in> set (sys_starts s). apart st (fl_event g) (fl_claimed g)"
    using all sub by blast
  show "keys_inv lib (s\<lparr>sys_world := w, sys_flights := remove1 f (sys_flights s), sys_clock := now\<rparr>)"
    if "tw_rows w = tw_rows (sys_world s)"
    unfolding keys_inv_def using d old apart that sorted wrt row by simp
  show "keys_inv lib (s\<lparr>sys_world := w, sys_flights := remove1 f (sys_flights s), sys_starts := sys_starts s @ [st], sys_clock := now\<rparr>)"
    if st: "st = \<lparr>fs_event = fl_event f, fs_claimed = fl_claimed f, fs_finished = now, fs_run = run\<rparr>" and run: "run \<noteq> []"
      and w: "tw_rows w = idem_put (tb_time lib) now (flight_key f) run (flight_name f) (tw_rows (sys_world s))"
  proof -
    have rows: "map_of (tw_rows w) k = map_option (start_row lib) (last_start k (sys_starts s @ [st]))" for k
      by (simp add: row last_start_snoc idem_put_def start_row_def w st)
    have "apart st (fl_event g) (fl_claimed g)" if "g \<in> set (remove1 f (sys_flights s))" for g
      using other [OF that] by (simp add: apart_def st)
    then have new: "\<forall>g \<in> set (remove1 f (sys_flights s)). apart st (fl_event g) (fl_claimed g)" by blast
    have before: "\<forall>a \<in> set (sys_starts s). apart a (fs_event st) (fs_claimed st)"
      using all [OF f] by (simp add: st)
    have order: "sorted (List.map fs_finished (sys_starts s @ [st]))"
      using sorted old by (simp add: sorted_append st)
    have wrt': "sorted_wrt (\<lambda>a b. apart a (fs_event b) (fs_claimed b)) (sys_starts s @ [st])"
      using wrt before by (simp add: sorted_wrt_append)
    show ?thesis
      unfolding keys_inv_def using d rows old apart new order wrt' run by (simp add: st)
  qed
qed

lemma keys_inv_step:
  assumes inv: "keys_inv lib s" and iso: "iso_faithful lib" and step: "trigger_step lib wfn triggers s s'"
  shows "keys_inv lib s'"
  using step
proof cases
  case (refused ts now e d w)
  then show ?thesis
    using keys_inv_idle [OF inv, of w now "sys_waiting s"] prepare_event_frame [of lib wfn triggers ts now e "sys_world s"] by simp
next
  case (arrived ts now e p w)
  then show ?thesis
    using keys_inv_idle [OF inv, of w now] prepare_event_frame [of lib wfn triggers ts now e "sys_world s"] by simp
next
  case (decided p ts now d w)
  then show ?thesis using keys_inv_idle [OF inv, of w now] claim_decided [OF decided(4)] by simp
next
  case (started p ts now caps w)
  have "\<forall>st \<in> set (sys_starts s). apart st p now"
    using claim_apart [OF inv iso started(4)] by blast
  then show ?thesis
    using inv started(3,5) claim_started(6) [OF started(4)] unfolding started(1) keys_inv_def
    by (auto intro: order_trans)
next
  case (finished f ts now run usage d w)
  show ?thesis
    unfolding finished(1)
    by (rule keys_inv_left(2) [OF inv finished(2,4) refl finished(5)])
      (use finish_start_frame(2) [OF finished(3)] in simp)
next
  case (failed f ts now d w)
  show ?thesis
    unfolding failed(1)
    by (rule keys_inv_left(1) [OF inv failed(2,4)]) (use finish_start_frame(2) [OF failed(3)] in simp)
qed

lemma keys_inv_reach:
  "trigger_reach lib wfn triggers s \<Longrightarrow> iso_faithful lib \<Longrightarrow> keys_inv lib s"
  by (induction rule: trigger_reach.induct) (auto intro: keys_inv_start keys_inv_step)

section \<open>The rate of a trigger\<close>

text \<open>The events a limiter lets through, of a list of arrivals.\<close>

fun admitted :: "(string \<times> rat) list \<Rightarrow> rate_limiter \<Rightarrow> (string \<times> rat) list" where
  "admitted [] l = []"
| "admitted ((name, now) # rest) l =
     (case rate_allow name now l of
        (True, l) \<Rightarrow> (name, now) # admitted rest l
      | (False, l) \<Rightarrow> admitted rest l)"

abbreviation times_of :: "string \<Rightarrow> (string \<times> rat) list \<Rightarrow> rat list" where
  "times_of name evs \<equiv> List.map snd (filter (\<lambda>(n, t). n = name) evs)"

abbreviation in_window :: "rat \<Rightarrow> rat \<Rightarrow> rat list \<Rightarrow> nat" where
  "in_window width x ts \<equiv> length (filter (\<lambda>t. x - width < t \<and> t \<le> x) ts)"

text \<open>What the limiter remembers of the admissions \<open>H\<close> of a name is all that still counts.\<close>

definition rate_inv :: "string \<Rightarrow> rat list \<Rightarrow> rate_limiter \<Rightarrow> rat \<Rightarrow> bool" where
  "rate_inv name H l clock =
     ((\<forall>now \<ge> clock. recent_hits l name now = filter (\<lambda>t. now - t < rl_window l) H) \<and>
      (\<forall>t \<in> set H. t \<le> clock) \<and> (\<forall>x. in_window (rl_window l) x H \<le> rl_limit l))"

lemma rate_allow_other:
  "name' \<noteq> name \<Longrightarrow> rate_allow name' now l = (b, l') \<Longrightarrow>
     recent_hits l' name t = recent_hits l name t \<and> rl_window l' = rl_window l \<and> rl_limit l' = rl_limit l"
  by (auto simp: rate_allow_def Let_def recent_hits_def dget_or_def split: if_splits)

lemma rate_allow_same:
  "rate_allow name now l = (b, l') \<Longrightarrow>
     recent_hits l' name t = filter (\<lambda>x. t - x < rl_window l) (recent_hits l name now @ (if b then [now] else [])) \<and>
     rl_window l' = rl_window l \<and> rl_limit l' = rl_limit l \<and> (b \<longrightarrow> length (recent_hits l name now) < rl_limit l)"
  by (auto simp: rate_allow_def Let_def recent_hits_def dget_or_def split: if_splits)

lemma in_window_new:
  assumes "\<forall>t \<in> set H. t \<le> now" "length (filter (\<lambda>t. now - t < w) H) < n" "\<forall>x. in_window w x H \<le> n"
  shows "in_window w x (H @ [now]) \<le> n"
proof (cases "now \<le> x")
  case True
  have "in_window w x H \<le> length (filter (\<lambda>t. now - t < w) H)"
    using True assms(1) by (induction H) auto
  with assms(2) show ?thesis by simp
qed (use assms(3) in simp)

lemma filter_narrow:
  assumes "now \<le> (t :: rat)"
  shows "filter (\<lambda>x. t - x < w) (filter (\<lambda>x. now - x < w) H) = filter (\<lambda>x. t - x < w) H"
  using assms by (induction H) auto

lemma rate_inv_step:
  assumes inv: "rate_inv name H l clock" and le: "clock \<le> now" and allow: "rate_allow name' now l = (b, l')"
  shows "rate_inv name (if b \<and> name' = name then H @ [now] else H) l' now"
proof (cases "name' = name")
  case True
  note same = rate_allow_same [OF allow [unfolded True]]
  have recent: "recent_hits l name now = filter (\<lambda>t. now - t < rl_window l) H"
    using inv le by (simp add: rate_inv_def)
  have old: "\<forall>t \<in> set H. t \<le> now" using inv le by (auto simp: rate_inv_def intro: order_trans)
  have later: "recent_hits l' name t = filter (\<lambda>x. t - x < rl_window l') (if b then H @ [now] else H)" if "now \<le> t" for t
    using same recent filter_narrow [OF that, of "rl_window l" H] by simp
  have window: "in_window (rl_window l) x (H @ [now]) \<le> rl_limit l" if b for x
    using in_window_new [OF old, of "rl_window l" "rl_limit l" x] same recent inv that by (simp add: rate_inv_def)
  show ?thesis
    unfolding rate_inv_def using True later old window same inv by (auto simp: rate_inv_def)
next
  case False
  then show ?thesis
    using inv le rate_allow_other [OF False allow] unfolding rate_inv_def by (auto intro: order_trans)
qed

lemma admitted_inv:
  assumes "rate_inv name H l clock" "sorted (List.map snd evs)" "\<forall>(n, t) \<in> set evs. clock \<le> t"
  shows "in_window (rl_window l) x (H @ times_of name (admitted evs l)) \<le> rl_limit l"
  using assms
proof (induction evs arbitrary: H l clock)
  case Nil
  then show ?case by (simp add: rate_inv_def)
next
  case (Cons e evs)
  obtain n now where e: "e = (n, now)" by (cases e)
  obtain b l' where allow: "rate_allow n now l = (b, l')" by (cases "rate_allow n now l")
  have inv: "rate_inv name (if b \<and> n = name then H @ [now] else H) l' now"
    by (rule rate_inv_step [OF Cons.prems(1) _ allow]) (use Cons.prems(3) e in simp)
  have frame: "rl_window l' = rl_window l" "rl_limit l' = rl_limit l"
    using rate_allow_same [of n now l b l'] allow by simp_all
  have rest: "sorted (List.map snd evs)" "\<forall>(n, t) \<in> set evs. now \<le> t"
    using Cons.prems(2) e by auto
  have "H @ times_of name (admitted (e # evs) l) =
      (if b \<and> n = name then H @ [now] else H) @ times_of name (admitted evs l')"
    using allow e by (cases b) auto
  with Cons.IH [OF inv rest] frame show ?case by (simp only:)
qed

section \<open>Letters and spend of a decision\<close>

lemma last_start_in: "last_start k starts = Some st \<Longrightarrow> st \<in> set starts"
  by (auto simp: last_start_def find_Some_iff) (metis nth_mem set_rev length_rev)

lemma claim_existing:
  assumes "claim_start lib ts now p w = (Inl (Some d), w')" "td_action d = ''existing''"
  obtains window run where "td_run_id d = Some run"
    "idem_lookup (tb_float_text lib) (tb_time lib) now (pp_key p) window (tw_rows w) = Some run"
  using assms
  by (auto simp: claim_start_def Let_def map_prod_eq trigger_frames refusal_def prepared_decision_def
      split: option.splits prod.splits if_splits entry.splits)

lemma letter_row_fields [simp]:
  "vget (letter_row ts reason trigger digest eid raw []) ''id'' = PStr (letter_id ts digest eid)"
  "vget (letter_row ts reason trigger digest eid raw []) ''trigger'' = of_opt_str trigger"
  "vget (letter_row ts reason trigger digest eid raw []) ''raw'' = PStr raw"
  "vget (letter_row ts reason trigger digest eid raw [(''action'', v)]) ''id'' = PStr (letter_id ts digest eid)"
  "vget (letter_row ts reason trigger digest eid raw [(''action'', v)]) ''trigger'' = of_opt_str trigger"
  "vget (letter_row ts reason trigger digest eid raw [(''action'', v)]) ''raw'' = PStr raw"
  "vget (letter_row ts reason trigger digest eid raw [(''queued'', v)]) ''id'' = PStr (letter_id ts digest eid)"
  "vget (letter_row ts reason trigger digest eid raw [(''queued'', v)]) ''trigger'' = of_opt_str trigger"
  "vget (letter_row ts reason trigger digest eid raw [(''queued'', v)]) ''raw'' = PStr raw"
  by (simp_all add: letter_row_def)

definition event_body :: "trigger_lib \<Rightarrow> raw_event \<Rightarrow> string" where
  "event_body lib raw = (case raw of RawDict d \<Rightarrow> tb_dumps lib d | RawText s \<Rightarrow> s)"

text \<open>A decision that left a dead letter for one of the texts.\<close>

definition lettered :: "string \<Rightarrow> string set \<Rightarrow> trigger_decision \<Rightarrow> trigger_world \<Rightarrow> trigger_world \<Rightarrow> bool" where
  "lettered name texts d w w' =
     (\<exists>row lid text. tw_letters w' = tw_letters w @ [row] \<and> td_letter d = Some lid \<and>
        vget row ''id'' = PStr lid \<and> vget row ''trigger'' = PStr name \<and> vget row ''raw'' = PStr text \<and> text \<in> texts)"

lemma lettered_refuse:
  "tw_letters v = tw_letters w \<Longrightarrow> raw \<in> texts \<Longrightarrow>
     lettered name texts (refusal ''refuse'' reason name None digest (letter_id ts digest None)) w
       (snd (refuse_event ts name reason digest raw v))"
  by (simp add: lettered_def trigger_frames refusal_def)

lemma lettered_row:
  "tw_letters w' = tw_letters w @ [letter_row ts reason (Some name) digest eid raw extra] \<Longrightarrow> raw \<in> texts \<Longrightarrow>
     extra = [] \<or> (\<exists>v. extra = [(''action'', v)]) \<or> (\<exists>v. extra = [(''queued'', v)]) \<Longrightarrow>
     lettered name texts (refusal action reason' trigger eid' digest' (letter_id ts digest eid)) w w'"
  by (auto simp: lettered_def refusal_def)

lemma parse_event_body:
  "parse_event lib raw name now l = (Inr (body, payload, digest), l') \<Longrightarrow> body = event_body lib raw"
  by (auto simp: parse_event_def event_body_def Let_def split: prod.splits option.splits raw_event.splits pyval.splits)

lemma prepare_letter:
  assumes "prepare_event lib wfn triggers ts now e w = (Inl d, w')"
  shows "td_action d = ''test'' \<or>
    lettered (te_trigger e) {event_body lib (te_raw e), take 2000 (raw_text lib (te_raw e))} d w w'"
  using assms
  by (auto simp: prepare_event_def Let_def map_prod_eq trigger_frames prepared_decision_def
      dest: parse_event_body
      intro!: lettered_refuse lettered_row split: option.splits prod.splits sum.splits if_splits)

lemma claim_letter:
  assumes "claim_start lib ts now p w = (Inl (Some d), w')"
  shows "td_action d = ''existing'' \<or> lettered (tg_name (pp_trigger p)) {pp_raw p} d w w'"
  using assms
  by (auto simp: claim_start_def Let_def map_prod_eq trigger_frames prepared_decision_def
      intro!: lettered_refuse lettered_row split: option.splits prod.splits entry.splits if_splits)

lemma finish_letter:
  assumes "finish_start lib ts now p outcome w = (Some d, w')"
  shows "td_action d = ''start'' \<or> lettered (tg_name (pp_trigger p)) {pp_raw p} d w w'"
  using assms
  by (auto simp: finish_start_def Let_def map_prod_eq trigger_frames prepared_decision_def
      intro!: lettered_refuse split: start_outcome.splits option.splits prod.splits if_splits)

lemma finish_spend:
  assumes "finish_start lib ts now p (StartReturned run usage) w = (d, w')" "usage_from_state usage = Some (usd, tokens)"
  shows "used_usd (tg_name (pp_trigger p)) (tw_spend w') = used_usd (tg_name (pp_trigger p)) (tw_spend w) + usd"
  using assms
  by (auto simp: finish_start_def Let_def trigger_frames add_spend_def used_usd_def dget_or_def)

lemma prepared_body:
  assumes "prepare_event lib wfn triggers ts now e w = (Inr p, w')"
  shows "tg_name (pp_trigger p) = te_trigger e" "pp_raw p = event_body lib (te_raw e)" "tw_letters w' = tw_letters w"
  using assms by (elim prepared_event; simp; metis contract_trigger find_trigger_name parse_event_body)+

lemma decision_letter:
  assumes "decide_trigger lib wfn triggers ts now later starter e w = (Some d, w')"
  shows "td_action d \<in> {''start'', ''existing'', ''test''} \<or>
    lettered (te_trigger e) {event_body lib (te_raw e), take 2000 (raw_text lib (te_raw e))} d w w'"
proof (cases "prepare_event lib wfn triggers ts now e w")
  case (Pair r v)
  show ?thesis
  proof (cases r)
    case (Inl d')
    then show ?thesis
      using assms Pair prepare_letter [of lib wfn triggers ts now e w d w'] by (auto simp: decide_trigger_def)
  next
    case (Inr p)
    note body = prepared_body [OF Pair [unfolded Inr]]
    have widen: "lettered (te_trigger e) {event_body lib (te_raw e), t} d w w'"
      if "lettered (tg_name (pp_trigger p)) {pp_raw p} d u w'" "tw_letters u = tw_letters w" for t u
      using that by (auto simp: lettered_def body)
    show ?thesis
    proof (cases "claim_start lib ts now p v")
      case (Pair r' u)
      show ?thesis
      proof (cases r')
        case (Inl o')
        then have "claim_start lib ts now p v = (Inl (Some d), w')"
          using assms \<open>prepare_event _ _ _ _ _ _ _ = _\<close> Inr Pair by (simp add: decide_trigger_def)
        from claim_letter [OF this] show ?thesis using widen body(3) by auto
      next
        case (Inr caps)
        then have f: "finish_start lib ts later p (starter p caps) u = (Some d, w')"
          using assms \<open>prepare_event _ _ _ _ _ _ _ = _\<close> \<open>r = Inr p\<close> Pair by (simp add: decide_trigger_def)
        have "tw_letters u = tw_letters w" using claim_started(8) Pair Inr body(3) by metis
        with finish_letter [OF f] show ?thesis using widen by auto
      qed
    qed
  qed
qed

section \<open>Deferred events\<close>

lemma trigger_step_deferred:
  assumes "trigger_step lib wfn triggers s s'"
  shows "deferred_count n (tw_gate (sys_world s)) \<le> deferred_count n (tw_gate (sys_world s')) \<and>
    sg_max_defer (tw_gate (sys_world s')) = sg_max_defer (tw_gate (sys_world s))"
  using assms
proof cases
  case (refused ts now e d w)
  then show ?thesis using prepare_event_frame [of lib wfn triggers ts now e "sys_world s"] by simp
next
  case (arrived ts now e p w)
  then show ?thesis using prepare_event_frame [of lib wfn triggers ts now e "sys_world s"] by simp
next
  case (decided p ts now d w)
  then show ?thesis using claim_decided [OF decided(4)] by simp
next
  case (started p ts now caps w)
  then show ?thesis using claim_started [OF started(4)] by simp
next
  case (finished f ts now run usage d w)
  then show ?thesis using finish_start_frame(1) [OF finished(3)] by simp
next
  case (failed f ts now d w)
  then show ?thesis using finish_start_frame(1) [OF failed(3)] by simp
qed

lemma claim_defers:
  assumes "claim_start lib ts now p w = (Inl (Some d), w')" "td_action d = ''defer''"
  shows "deferred_count (tg_name (pp_trigger p)) (tw_gate w) < sg_max_defer (tw_gate w)"
  using assms
  by (auto simp: claim_start_def Let_def map_prod_eq trigger_frames refusal_def prepared_decision_def
      defer_event_def try_enter_def deferred_count_def dget_or_def
      split: option.splits prod.splits if_splits entry.splits)

section \<open>Events that do not parse\<close>

lemma unreadable_text:
  "tb_loads lib body = None \<Longrightarrow> \<exists>reason l'. parse_event lib (RawText body) name now l = (Inl reason, l')"
  by (auto simp: parse_event_def Let_def split: prod.split option.split)

lemma decide_unparsed:
  assumes "find_trigger triggers (te_trigger e) = Some t"
    and "parse_event lib (te_raw e) (te_trigger e) now (tw_limiter w) = (Inl reason, l)"
  shows "\<exists>w'. decide_trigger lib wfn triggers ts now later starter e w =
      (Some (refusal ''refuse'' reason (te_trigger e) None None (letter_id ts None None)), w') \<and>
    tw_letters w' = tw_letters w @
      [letter_row ts reason (Some (te_trigger e)) None None (take 2000 (raw_text lib (te_raw e))) []]"
  using assms
  by (cases "refuse_event ts (te_trigger e) reason None (take 2000 (raw_text lib (te_raw e))) (w\<lparr>tw_limiter := l\<rparr>)")
    (use refuse_event_frame [of ts "te_trigger e" reason None "take 2000 (raw_text lib (te_raw e))" "w\<lparr>tw_limiter := l\<rparr>"]
      in \<open>auto simp: decide_trigger_def prepare_event_def Let_def\<close>)

section \<open>An executable schedule\<close>

text \<open>Moves of the system, with the positions of waiting events and flights; \<open>None\<close> when not enabled.\<close>

datatype move = Arrive string rat trigger_event | Claim string rat nat | Return string rat nat start_outcome

fun perform :: "trigger_lib \<Rightarrow> string \<Rightarrow> trigger_spec list \<Rightarrow> move \<Rightarrow> trigger_sys \<Rightarrow> trigger_sys option" where
  "perform lib wfn triggers (Arrive ts now e) s =
     (if now < sys_clock s then None
      else Some (case prepare_event lib wfn triggers ts now e (sys_world s) of
        (Inl d, w) \<Rightarrow> s\<lparr>sys_world := w, sys_clock := now\<rparr>
      | (Inr p, w) \<Rightarrow> s\<lparr>sys_world := w, sys_waiting := sys_waiting s @ [p], sys_clock := now\<rparr>))"
| "perform lib wfn triggers (Claim ts now i) s =
     (if now < sys_clock s \<or> length (sys_waiting s) \<le> i \<or>
         list_ex (\<lambda>f. flight_key f = pp_key (sys_waiting s ! i)) (sys_flights s) then None
      else (let p = sys_waiting s ! i in
        Some (case claim_start lib ts now p (sys_world s) of
          (Inl d, w) \<Rightarrow> s\<lparr>sys_world := w, sys_waiting := remove1 p (sys_waiting s), sys_clock := now\<rparr>
        | (Inr caps, w) \<Rightarrow> s\<lparr>sys_world := w, sys_waiting := remove1 p (sys_waiting s),
            sys_flights := sys_flights s @ [\<lparr>fl_event = p, fl_claimed = now, fl_caps = caps\<rparr>], sys_clock := now\<rparr>)))"
| "perform lib wfn triggers (Return ts now i outcome) s =
     (if now < sys_clock s \<or> length (sys_flights s) \<le> i then None
      else (let f = sys_flights s ! i; w = snd (finish_start lib ts now (fl_event f) outcome (sys_world s)) in
        case outcome of
          StartRaised \<Rightarrow> Some (s\<lparr>sys_world := w, sys_flights := remove1 f (sys_flights s), sys_clock := now\<rparr>)
        | StartReturned run usage \<Rightarrow>
            if run = [] then None
            else Some (s\<lparr>sys_world := w, sys_flights := remove1 f (sys_flights s),
              sys_starts := sys_starts s @ [\<lparr>fs_event = fl_event f, fs_claimed = fl_claimed f, fs_finished = now, fs_run = run\<rparr>],
              sys_clock := now\<rparr>)))"

lemma perform_step: "perform lib wfn triggers m s = Some s' \<Longrightarrow> trigger_step lib wfn triggers s s'"
proof (induction m)
  case (Arrive ts now e)
  then show ?case
    by (cases "prepare_event lib wfn triggers ts now e (sys_world s)"; cases "fst (prepare_event lib wfn triggers ts now e (sys_world s))")
      (auto split: if_splits intro: trigger_step.refused trigger_step.arrived)
next
  case (Claim ts now i)
  let ?p = "sys_waiting s ! i"
  have en: "?p \<in> set (sys_waiting s)" "pp_key ?p \<notin> (pp_key \<circ> fl_event) ` set (sys_flights s)" "sys_clock s \<le> now"
    using Claim by (auto simp: list_ex_iff split: if_splits)
  show ?case
  proof (cases "claim_start lib ts now ?p (sys_world s)")
    case (Pair r w)
    then show ?thesis
      using Claim trigger_step.decided [OF en(1,2) _ en(3)] trigger_step.started [OF en(1,2) _ en(3)]
      by (cases r) (auto simp: Let_def split: if_splits)
  qed
next
  case (Return ts now i outcome)
  let ?f = "sys_flights s ! i"
  have en: "?f \<in> set (sys_flights s)" "sys_clock s \<le> now" using Return by (auto split: if_splits)
  obtain d w where fin: "finish_start lib ts now (fl_event ?f) outcome (sys_world s) = (d, w)"
    by (cases "finish_start lib ts now (fl_event ?f) outcome (sys_world s)")
  show ?case
  proof (cases outcome)
    case StartRaised
    then show ?thesis
      using Return fin trigger_step.failed [OF en(1) fin [unfolded StartRaised] en(2)] by (auto simp: Let_def split: if_splits)
  next
    case (StartReturned run usage)
    then show ?thesis
      using Return fin trigger_step.finished [OF en(1) fin [unfolded StartReturned] en(2)] by (auto simp: Let_def split: if_splits)
  qed
qed

fun schedule :: "trigger_lib \<Rightarrow> string \<Rightarrow> trigger_spec list \<Rightarrow> move list \<Rightarrow> trigger_sys \<Rightarrow> trigger_sys option" where
  "schedule lib wfn triggers [] s = Some s"
| "schedule lib wfn triggers (m # ms) s = Option.bind (perform lib wfn triggers m s) (schedule lib wfn triggers ms)"

lemma schedule_reach:
  "schedule lib wfn triggers ms s = Some s' \<Longrightarrow> trigger_reach lib wfn triggers s \<Longrightarrow> trigger_reach lib wfn triggers s'"
  by (induction ms arbitrary: s) (auto simp: bind_eq_Some_conv dest: perform_step intro: trigger_reach.step)

end
