(* ===== verification/TriggerSafety.thy ===== *)
theory TriggerSafety
  imports TriggerLaws FirewallSafety EngineSafety
begin

text \<open>
  The properties of triggers: the concurrency ceiling, at most one start per key and window, the
  rate bound, the dead letter of every refused event, what a budget does not stop, and the
  provenance of the inputs an event brings.
\<close>

text \<open>
  C33. In every reachable state of the concurrent decisions, a trigger has no more runs in flight than
  its declared concurrency, its gate counts exactly those runs, and its queue of deferred events
  is no longer than its bound.
\<close>

theorem trigger_concurrency_ceiling:
  assumes "trigger_reach lib wfn triggers s" "find_trigger triggers name = Some t"
  shows "slots_used name (tw_gate (sys_world s)) = in_flight name s \<and> in_flight name s \<le> tg_concurrency t \<and>
    deferred_count name (tw_gate (sys_world s)) \<le> sg_max_defer (tw_gate (sys_world s))"
  using slots_inv_reach [OF assms(1)] assms(2) by (simp add: slots_inv_def)


text \<open>
  In every reachable state no two runs of one idempotency key are in flight, and an event
  answered with an existing run is answered with the run of the last start of its key.
\<close>

theorem existing_run_is_last_start:
  assumes "trigger_reach lib wfn triggers s" "iso_faithful lib"
    and "claim_start lib ts now p (sys_world s) = (Inl (Some d), w)" "td_action d = ''existing''"
  shows "distinct (List.map flight_key (sys_flights s)) \<and>
    (\<exists>st. last_start (pp_key p) (sys_starts s) = Some st \<and> td_run_id d = Some (fs_run st))"
proof -
  note inv = keys_inv_reach [OF assms(1,2)]
  obtain window run where r: "td_run_id d = Some run"
    "idem_lookup (tb_float_text lib) (tb_time lib) now (pp_key p) window (tw_rows (sys_world s)) = Some run"
    using assms(3,4) by (rule claim_existing)
  have rows: "map_of (tw_rows (sys_world s)) (pp_key p) = map_option (start_row lib) (last_start (pp_key p) (sys_starts s))"
    using inv by (simp add: keys_inv_def)
  obtain st where st: "last_start (pp_key p) (sys_starts s) = Some st"
    using r(2) rows by (cases "last_start (pp_key p) (sys_starts s)") (auto simp: idem_lookup_def)
  then have "st \<in> set (sys_starts s)" by (rule last_start_in)
  then have "fs_run st \<noteq> []" using inv by (simp add: keys_inv_def)
  then have "run = fs_run st"
    using r(2) rows st lookup_start_row [OF assms(2), of "tw_rows (sys_world s)" "pp_key p" st] by (simp split: if_splits)
  with st r(1) inv show ?thesis by (simp add: keys_inv_def)
qed

text \<open>
  Whatever events arrive in the order of time, the rate limiter lets at most its limit of
  events of one trigger through in any window of its length.
\<close>

theorem rate_window_bound:
  assumes "sorted (List.map snd evs)" "rl_hits l = []"
  shows "in_window (rl_window l) x (times_of name (admitted evs l)) \<le> rl_limit l"
proof (cases evs)
  case (Cons e rest)
  have "rate_inv name [] l (snd e)"
    using assms(2) by (simp add: rate_inv_def recent_hits_def dget_or_def)
  moreover have "\<forall>(n, t) \<in> set evs. snd e \<le> t" using assms(1) Cons by auto
  ultimately show ?thesis
    using admitted_inv [of name "[]" l "snd e" evs x] assms(1) by simp
qed simp

text \<open>
  C35. No event is lost silently: every decision that is not a start, an existing run or a test
  leaves exactly one dead letter, with the id the decision reports, the name of the trigger and
  the text of the event, of which a refusal before the parse keeps 2000 characters.
\<close>

theorem refused_event_leaves_letter:
  assumes "decide_trigger lib wfn triggers ts now later starter e w = (Some d, w')"
    and "td_action d \<notin> {''start'', ''existing'', ''test''}"
  shows "\<exists>row lid text. tw_letters w' = tw_letters w @ [row] \<and> td_letter d = Some lid \<and>
    vget row ''id'' = PStr lid \<and> vget row ''trigger'' = PStr (te_trigger e) \<and> vget row ''raw'' = PStr text \<and>
    text \<in> {event_body lib (te_raw e), take 2000 (raw_text lib (te_raw e))}"
  using decision_letter [OF assms(1)] assms(2) unfolding lettered_def by blast

text \<open>
  The queue of deferred events is never emptied: once it has filled for a trigger, no event of
  that trigger is deferred again, whatever happens in between; at the ceiling it is dropped.
\<close>

theorem deferred_queue_never_drains:
  assumes "(trigger_step lib wfn triggers)\<^sup>*\<^sup>* s s'"
    and "sg_max_defer (tw_gate (sys_world s)) \<le> deferred_count (tg_name (pp_trigger p)) (tw_gate (sys_world s))"
    and "claim_start lib ts now p (sys_world s') = (Inl (Some d), w)"
  shows "td_action d \<noteq> ''defer''"
proof -
  let ?n = "tg_name (pp_trigger p)"
  have "deferred_count ?n (tw_gate (sys_world s)) \<le> deferred_count ?n (tw_gate (sys_world s')) \<and>
      sg_max_defer (tw_gate (sys_world s')) = sg_max_defer (tw_gate (sys_world s))"
    using assms(1) by (induction rule: rtranclp_induct) (auto dest: trigger_step_deferred [where n = ?n])
  then have "sg_max_defer (tw_gate (sys_world s')) \<le> deferred_count ?n (tw_gate (sys_world s'))"
    using assms(2) by simp
  with claim_defers [OF assms(3)] show ?thesis by fastforce
qed

text \<open>
  An event refused for its rate whose text is longer than 2000 characters and does not parse when
  cut there can never be replayed: its dead letter holds the cut text, and replaying it is refused
  again, whatever the clock, the limiter, the signature and the starter.
\<close>

theorem cut_letter_never_replays:
  assumes "find_trigger triggers (te_trigger e) = Some t" "te_trigger e \<noteq> []" "tg_kind t \<noteq> []"
    and "te_raw e = RawText raw" "int (length raw) \<le> MAX_EVENT_BYTES" "json_nesting_depth raw \<le> MAX_JSON_DEPTH"
    and "rl_limit (tw_limiter w) \<le> length (recent_hits (tw_limiter w) (te_trigger e) now)"
    and "tb_loads lib (take 2000 raw) = None"
    and "letter_id ts None None \<noteq> []" "get_letter (tb_float_text lib) (letter_id ts None None) (tw_letters w) = None"
  shows "\<exists>d w'. decide_trigger lib wfn triggers ts now later starter e w = (Some d, w') \<and>
    td_reason d = ''rate'' \<and> td_letter d = Some (letter_id ts None None) \<and>
    (\<forall>l ts' now' later' starter' e'. \<exists>d' w''.
       replay_dead_letter lib wfn triggers ts' now' later' starter' (letter_id ts None None) None e'
         (w'\<lparr>tw_limiter := l\<rparr>) = Inr (Some d', w'') \<and> td_action d' = ''refuse'')"
proof -
  let ?name = "te_trigger e" and ?lid = "letter_id ts None None" and ?cut = "take 2000 raw"
  obtain l where "rate_allow ?name now (tw_limiter w) = (False, l)"
    using assms(7) by (simp add: rate_allow_def Let_def)
  then have "parse_event lib (te_raw e) ?name now (tw_limiter w) = (Inl ''rate'', l)"
    using assms(4-6) by (simp add: parse_event_def refuse_before_parse_def)
  from decide_unparsed [OF assms(1) this, of wfn ts later starter] obtain d v where d:
    "decide_trigger lib wfn triggers ts now later starter e w = (Some d, v)" "d = refusal ''refuse'' ''rate'' ?name None None ?lid"
    "tw_letters v = tw_letters w @ [letter_row ts ''rate'' (Some ?name) None None ?cut []]"
    using assms(4) by (auto simp: raw_text_def)
  have got: "get_letter (tb_float_text lib) ?lid (tw_letters v) = Some (letter_row ts ''rate'' (Some ?name) None None ?cut [])"
    using assms(9,10) d(3) by (simp add: get_letter_def find_append)
  have kind: "vget (letter_row ts ''rate'' (Some ?name) None None ?cut []) ''source_kind'' = PNone"
    by (simp add: letter_row_def)
  have again: "\<exists>d' w''. replay_dead_letter lib wfn triggers ts' now' later' starter' ?lid None e' (v\<lparr>tw_limiter := l'\<rparr>) =
      Inr (Some d', w'') \<and> td_action d' = ''refuse''" for l' ts' now' later' starter' e'
  proof -
    let ?e = "e'\<lparr>te_trigger := ?name, te_raw := RawText ?cut, te_source := tg_kind t\<rparr>"
    obtain reason l'' where "parse_event lib (te_raw ?e) ?name now' (tw_limiter (v\<lparr>tw_limiter := l'\<rparr>)) = (Inl reason, l'')"
      using unreadable_text [OF assms(8), of ?name now' l'] by auto
    with decide_unparsed [of triggers ?e t lib now' "v\<lparr>tw_limiter := l'\<rparr>" reason l'' wfn ts' later' starter'] assms(1)
    obtain d' w'' where "decide_trigger lib wfn triggers ts' now' later' starter' ?e (v\<lparr>tw_limiter := l'\<rparr>) = (Some d', w'')"
      "td_action d' = ''refuse''" by (auto simp: refusal_def)
    then show ?thesis
      using got assms(1,2) kind by (cases "raw = []") (simp_all add: replay_dead_letter_def Let_def text_or_def)
  qed
  show ?thesis using d again by (auto simp: refusal_def)
qed

text \<open>
  A budget does not stop concurrent starts: when two events of one trigger are claimed before
  either run returned, both runs get all that is left of the trigger's budget, and when each spends
  what it was given the trigger has spent more than its budget.
\<close>

theorem concurrent_starts_overspend:
  assumes "claim_start lib ts now p w = (Inr caps, w1)" "claim_start lib ts' now' q w1 = (Inr caps', w2)"
    and "pp_trigger q = pp_trigger p" "tg_budget (pp_trigger p) = Some (Some cap, tokens)"
    and "finish_start lib t3 n3 p (StartReturned run usage) w2 = (d, w3)" "usage_from_state usage = Some (the (fst caps), k)"
    and "finish_start lib t4 n4 q (StartReturned run' usage') w3 = (d', w4)" "usage_from_state usage' = Some (the (fst caps'), k')"
  shows "caps' = caps \<and> cap < used_usd (tg_name (pp_trigger p)) (tw_spend w4)"
proof -
  let ?n = "tg_name (pp_trigger p)"
  let ?u = "used_usd ?n (tw_spend w)"
  have caps: "caps = remaining_budget (pp_trigger p) (tw_spend w)" "caps' = remaining_budget (pp_trigger p) (tw_spend w)"
    "tw_spend w2 = tw_spend w" and room: "?u < cap"
    using claim_started(7,9,10) [OF assms(1)] claim_started(7,9) [OF assms(2)] assms(3,4)
    by (simp_all add: budget_left_def)
  have "the (fst caps) = cap - ?u" "the (fst caps') = cap - ?u"
    using room assms(4) by (simp_all add: caps remaining_budget_def)
  then have "used_usd ?n (tw_spend w4) = ?u + (cap - ?u) + (cap - ?u)"
    using finish_spend [OF assms(5,6)] finish_spend [OF assms(7,8)] assms(3) room by (simp add: caps(3))
  with room caps show ?thesis by simp
qed

lemma untrusted_key_cong: "map_of (rs_provenance s) k = map_of (rs_provenance s') k \<Longrightarrow> untrusted_key fr s k = untrusted_key fr s' k"
  by (auto simp: untrusted_key_def provenance_of_def is_untrusted_def trusted_def split: option.split)

lemma set_provenance_empty: "set_provenance [] p s = s"
  by (simp add: set_provenance_def)

lemma triggered_state_fields [simp]:
  "rs_status (triggered_state run_id wfn now p) = ''running''"
  "rs_results (triggered_state run_id wfn now p) = []"
  "rs_pending_node (triggered_state run_id wfn now p) = None"
proof -
  have "rs_status (foldl (\<lambda>s key. set_provenance key q s) s keys) = rs_status s \<and>
      rs_results (foldl (\<lambda>s key. set_provenance key q s) s keys) = rs_results s \<and>
      rs_pending_node (foldl (\<lambda>s key. set_provenance key q s) s keys) = rs_pending_node s" for q s keys
    by (induction keys arbitrary: s) (simp_all add: set_provenance_def)
  then show "rs_status (triggered_state run_id wfn now p) = ''running''"
    "rs_results (triggered_state run_id wfn now p) = []"
    "rs_pending_node (triggered_state run_id wfn now p) = None"
    by (simp_all add: triggered_state_def start_run_def)
qed

lemma triggered_state_untrusted:
  assumes "key \<in> fst ` set (pp_inputs p)" "key \<noteq> []"
  shows "untrusted_key fr (triggered_state run_id wfn now p) key"
proof -
  have "key \<in> set keys \<Longrightarrow> untrusted_key fr (foldl (\<lambda>s key. set_provenance key (untrusted ''event'' None None) s) s keys) key"
    for s keys
  proof (induction keys rule: rev_induct)
    case (snoc k keys)
    then show ?case
      using assms(2) by (cases "k = []") (auto simp: untrusted_key_set set_provenance_empty)
  qed simp
  then show ?thesis using assms(1) by (simp add: triggered_state_def)
qed

lemma seed_keeps: "map_of (rs_provenance s) k = Some v \<Longrightarrow> map_of (rs_provenance (seed_input_provenance s)) k = Some v"
proof -
  have "map_of p k = Some v \<Longrightarrow> map_of (foldl (\<lambda>p key. setdefault key d p) p keys) k = Some v" for p d keys
    by (induction keys arbitrary: p) (auto simp: dget_or_def)
  then show "map_of (rs_provenance s) k = Some v \<Longrightarrow> map_of (rs_provenance (seed_input_provenance s)) k = Some v"
    by (simp add: seed_input_provenance_def)
qed

lemma persist_provenance [simp]: "rs_provenance (ew_run (persist c i w)) = rs_provenance (ew_run w)"
  by (simp add: persist_def Let_def store_spend_def settle_request_def finish_def split: option.split)

lemma untrusted_key_recorded: "untrusted_key fr s k \<Longrightarrow> \<exists>v. map_of (rs_provenance s) k = Some v"
  by (auto simp: untrusted_key_def provenance_of_def is_untrusted_def trusted_def split: option.splits if_splits)

text \<open>
  What an event brings stays untrusted: a run started by a trigger opens as a fresh run, and when
  it begins every input mapped from the event has an untrusted provenance.
\<close>

theorem event_inputs_untrusted:
  assumes "key \<in> fst ` set (pp_inputs p)" "key \<noteq> []"
  shows "\<exists>s. open_run c wfl run_id (pp_inputs p) meta (Some (triggered_state run_id wfn now p)) =
      Inr ((Some (start_of wfl), []), s) \<and>
    untrusted_key fr (ew_run (begin_run c (w\<lparr>ew_run := s\<rparr>))) key"
proof -
  let ?s = "triggered_state run_id wfn now p"
  have fresh: "is_fresh_start ?s" by (simp add: is_fresh_start_def)
  then obtain s where s: "open_run c wfl run_id (pp_inputs p) meta (Some ?s) = Inr ((Some (start_of wfl), []), s)"
    and prov: "rs_provenance s = rs_provenance ?s"
    by (auto simp: open_run_def with_inputs_def)
  have u: "untrusted_key fr ?s key" using assms by (rule triggered_state_untrusted)
  then obtain v where v: "map_of (rs_provenance ?s) key = Some v" using untrusted_key_recorded by blast
  have "map_of (rs_provenance (ew_run (begin_run c (w\<lparr>ew_run := s\<rparr>)))) key = map_of (rs_provenance ?s) key"
    using seed_keeps [of s key v] v prov by (simp add: begin_run_def on_run_def emit_def Let_def)
  from untrusted_key_cong [OF this] u s show ?thesis by blast
qed

section \<open>Instances\<close>

text \<open>A clock whose text is the fraction, a parser for one object, a digest that is the text itself.\<close>

definition fraction_clock :: time_lib where
  "fraction_clock = \<lparr>
     tl_parse = (\<lambda>s. case (py_int (before_char CHR ''/'' s), py_int (after_char CHR ''/'' s)) of
       (Some a, Some b) \<Rightarrow> Some (of_int a / of_int b) | _ \<Rightarrow> None),
     tl_format = (\<lambda>t. int_text (fst (quotient_of t)) @ ''/'' @ int_text (snd (quotient_of t)))\<rparr>"

definition sample_lib :: trigger_lib where
  "sample_lib = \<lparr>tb_time = fraction_clock, tb_float_text = (\<lambda>_. []),
     tb_loads = (\<lambda>s. if s = ''{}'' then Some (PDict []) else None),
     tb_dumps = (\<lambda>_. ''d''), tb_sha = id, tb_hmac = (\<lambda>k s. k @ s)\<rparr>"

lemma int_text_chars: "c \<in> set (int_text i) \<Longrightarrow> is_digit c \<or> c = CHR ''-''"
  using nat_text_digits by (auto simp: int_text_def split: if_splits)

lemma sample_iso: "iso_faithful sample_lib"
proof -
  have slash: "CHR ''/'' \<notin> set (int_text i)" "CHR ''Z'' \<notin> set (int_text i)" for i
    using int_text_chars [of "CHR ''/''" i] int_text_chars [of "CHR ''Z''" i] by (auto simp: is_digit_def)
  have zulu: "zulu s = s" if "CHR ''Z'' \<notin> set s" for s
    using that by (induction s) (auto simp: zulu_def)
  have parse: "tl_parse fraction_clock (int_text a @ ''/'' @ int_text b) = Some (of_int a / of_int b)" for a b
  proof -
    have "\<forall>c \<in> set (int_text a). c \<noteq> CHR ''/''" using slash(1) [of a] by metis
    then have "before_char CHR ''/'' (int_text a @ ''/'' @ int_text b) = int_text a"
      "after_char CHR ''/'' (int_text a @ ''/'' @ int_text b) = int_text b"
      by (simp_all add: before_char_def after_char_def takeWhile_append2 dropWhile_append2)
    then show ?thesis by (simp add: fraction_clock_def)
  qed
  show ?thesis
    unfolding iso_faithful_def
  proof
    fix t :: rat
    have "zulu (tl_format fraction_clock t) = tl_format fraction_clock t"
      by (rule zulu) (use slash in \<open>simp add: fraction_clock_def\<close>)
    moreover have "tl_format fraction_clock t = int_text (fst (quotient_of t)) @ ''/'' @ int_text (snd (quotient_of t))"
      by (simp add: fraction_clock_def)
    moreover have "of_int (fst (quotient_of t)) / of_int (snd (quotient_of t)) = t"
      by (rule quotient_of_div [symmetric]) simp
    ultimately show "tl_parse (tb_time sample_lib) (zulu (tl_format (tb_time sample_lib) t)) = Some t"
      by (simp add: sample_lib_def parse [simplified])
  qed
qed

definition sample_trigger :: trigger_spec where
  "sample_trigger = \<lparr>tg_name = ''t'', tg_kind = ''file'', tg_schema = None, tg_require_signature = False,
     tg_inputs = [(''q'', ''x'')], tg_idempotency_key = ''k'', tg_idempotency_window = ''1s'',
     tg_budget = Some (Some 1, None), tg_concurrency = 2, tg_on_ceiling = ''defer''\<rparr>"

definition sample_event :: trigger_event where
  "sample_event = \<lparr>te_trigger = ''t'', te_raw = RawText ''{}'', te_source = ''file'', te_signature = None,
     te_secret = None, te_dry_run = False\<rparr>"

definition sample_world :: trigger_world where
  "sample_world = \<lparr>tw_limiter = new_limiter, tw_rows = [], tw_gate = new_slot_gate,
     tw_spend = \<lparr>sp_usd = [], sp_tokens = []\<rparr>, tw_letters = [], tw_events = [], tw_audits = []\<rparr>"

text \<open>Two starts of one key, two seconds apart, and a third event inside the window.\<close>

definition sample_moves :: "move list" where
  "sample_moves = [Arrive ''a'' 0 sample_event, Claim ''a'' 0 0, Return ''a'' 1 0 (StartReturned ''r1'' []),
     Arrive ''b'' 3 sample_event, Claim ''b'' 3 0, Return ''b'' 4 0 (StartReturned ''r2'' []),
     Arrive ''c'' 5 sample_event]"

definition sample_sys :: trigger_sys where
  "sample_sys = the (schedule sample_lib ''w'' [sample_trigger] sample_moves (start_sys sample_world))"

lemma sample_reached: "trigger_reach sample_lib ''w'' [sample_trigger] sample_sys"
proof (rule schedule_reach)
  show "schedule sample_lib ''w'' [sample_trigger] sample_moves (start_sys sample_world) = Some sample_sys"
    unfolding sample_sys_def by code_simp
  show "trigger_reach sample_lib ''w'' [sample_trigger] (start_sys sample_world)"
    by (rule trigger_reach.start) (simp add: fresh_world_def sample_world_def new_slot_gate_def)
qed

lemma sample_facts:
  "length (sys_starts sample_sys) = 2" "pp_key (fs_event (sys_starts sample_sys ! 0)) = pp_key (fs_event (sys_starts sample_sys ! 1))"
  "parse_expires_in (tg_idempotency_window (pp_trigger (fs_event (sys_starts sample_sys ! 1)))) = Some 1"
  "sys_waiting sample_sys \<noteq> []"
  by code_simp+

theorem trigger_concurrency_ceiling_witness:
  "slots_used ''t'' (tw_gate (sys_world sample_sys)) = in_flight ''t'' sample_sys \<and>
   in_flight ''t'' sample_sys \<le> 2 \<and>
   deferred_count ''t'' (tw_gate (sys_world sample_sys)) \<le> sg_max_defer (tw_gate (sys_world sample_sys))"
  using trigger_concurrency_ceiling [OF sample_reached, of "''t''" sample_trigger]
  by (simp add: find_trigger_def sample_trigger_def)


lemma sample_existing:
  "(case fst (claim_start sample_lib ''c'' 5 (sys_waiting sample_sys ! 0) (sys_world sample_sys)) of
      Inl (Some d) \<Rightarrow> td_action d = ''existing'' | _ \<Rightarrow> False)"
  by code_simp

theorem existing_run_is_last_start_witness:
  "\<exists>st. last_start (pp_key (sys_waiting sample_sys ! 0)) (sys_starts sample_sys) = Some st"
proof -
  obtain d w where "claim_start sample_lib ''c'' 5 (sys_waiting sample_sys ! 0) (sys_world sample_sys) = (Inl (Some d), w)"
    "td_action d = ''existing''"
    using sample_existing
    by (cases "claim_start sample_lib ''c'' 5 (sys_waiting sample_sys ! 0) (sys_world sample_sys)")
      (auto split: sum.splits option.splits)
  from existing_run_is_last_start [OF sample_reached sample_iso this] show ?thesis by blast
qed

theorem rate_window_bound_witness:
  "in_window 60 61 (times_of ''t'' (admitted [(''t'', 0), (''u'', 1), (''t'', 2), (''t'', 61)] new_limiter)) \<le> 30"
  using rate_window_bound [of "[(''t'', 0), (''u'', 1), (''t'', 2), (''t'', 61)]" new_limiter 61 "''t''"]
  by (simp add: new_limiter_def DEFAULT_RATE_def DEFAULT_RATE_WINDOW_def)

theorem refused_event_leaves_letter_witness:
  "\<exists>d w'. decide_trigger sample_lib ''w'' [] ''now'' 0 0 (\<lambda>p caps. StartRaised) sample_event sample_world = (Some d, w') \<and>
     (\<exists>row. tw_letters w' = tw_letters sample_world @ [row] \<and> vget row ''trigger'' = PStr ''t'')"
proof -
  obtain d w' where d: "decide_trigger sample_lib ''w'' [] ''now'' 0 0 (\<lambda>p caps. StartRaised) sample_event sample_world = (Some d, w')"
    "td_action d \<notin> {''start'', ''existing'', ''test''}"
    by (simp add: decide_trigger_def prepare_event_def find_trigger_def trigger_frames refusal_def Let_def)
  from refused_event_leaves_letter [OF d] d(1) show ?thesis by (auto simp: sample_event_def)
qed

text \<open>Two events of one trigger with different keys, claimed one after the other.\<close>

definition sample_prepared :: "string \<Rightarrow> prepared" where
  "sample_prepared key = \<lparr>pp_trigger = sample_trigger, pp_key = key, pp_inputs = [(''q'', PStr ''x'')], pp_eid = ''e'',
     pp_digest = ''h'', pp_kind = ''file'', pp_raw = ''{}''\<rparr>"

theorem concurrent_starts_overspend_witness:
  "\<exists>caps w1 w2 w4. claim_start sample_lib ''a'' 0 (sample_prepared ''k1'') sample_world = (Inr caps, w1) \<and>
     claim_start sample_lib ''b'' 0 (sample_prepared ''k2'') w1 = (Inr caps, w2) \<and> 1 < used_usd ''t'' (tw_spend (w4 :: trigger_world))"
proof -
  let ?p = "sample_prepared ''k1''" and ?q = "sample_prepared ''k2''"
  let ?usage = "[(''cost_micros'', PInt 1000000)]"
  have window: "parse_expires_in ''1s'' = Some 1" by code_simp
  obtain w1 where c1: "claim_start sample_lib ''a'' 0 ?p sample_world = (Inr (Some 1, None), w1)"
    and g: "slots_used ''t'' (tw_gate w1) = 1" "tw_rows w1 = []" "tw_spend w1 = tw_spend sample_world"
    by (simp add: claim_start_def Let_def sample_prepared_def sample_trigger_def window idem_lookup_def sample_world_def
        budget_left_def used_usd_def used_tokens_def dget_or_def try_enter_def slots_used_def new_slot_gate_def
        remaining_budget_def)
  obtain w2 where c2: "claim_start sample_lib ''b'' 0 ?q w1 = (Inr (Some 1, None), w2)"
    using g by (simp add: claim_start_def Let_def sample_prepared_def sample_trigger_def window idem_lookup_def sample_world_def
        budget_left_def used_usd_def used_tokens_def dget_or_def try_enter_def remaining_budget_def)
  have usage: "usage_from_state ?usage = Some (1, 0)"
    by (simp add: usage_from_state_def or_val_def)
  obtain d w3 where f1: "finish_start sample_lib ''a'' 1 ?p (StartReturned ''r1'' ?usage) w2 = (d, w3)"
    by (cases "finish_start sample_lib ''a'' 1 ?p (StartReturned ''r1'' ?usage) w2")
  obtain d' w4 where f2: "finish_start sample_lib ''b'' 1 ?q (StartReturned ''r2'' ?usage) w3 = (d', w4)"
    by (cases "finish_start sample_lib ''b'' 1 ?q (StartReturned ''r2'' ?usage) w3")
  have "1 < used_usd (tg_name (pp_trigger ?p)) (tw_spend w4)"
    using concurrent_starts_overspend [OF c1 c2 _ _ f1 _ f2, of 1 None 0 0] usage
    by (simp add: sample_prepared_def sample_trigger_def)
  then have "1 < used_usd ''t'' (tw_spend w4)" by (simp add: sample_prepared_def sample_trigger_def)
  with c1 c2 show ?thesis by blast
qed

theorem event_inputs_untrusted_witness:
  "\<exists>s. open_run demo_ctx demo_workflow ''r1'' [(''q'', PStr ''x'')] [] (Some (triggered_state ''r1'' ''demo'' ''now'' (sample_prepared ''k''))) =
      Inr ((Some (start_of demo_workflow), []), s) \<and>
    untrusted_key (\<lambda>_. []) (ew_run (begin_run demo_ctx (demo_world\<lparr>ew_run := s\<rparr>))) ''q''"
  using event_inputs_untrusted [of "''q''" "sample_prepared ''k''" demo_ctx demo_workflow "''r1''" "[]" "''demo''" "''now''" "\<lambda>_. []" demo_world]
  by (simp add: sample_prepared_def)

text \<open>A gate without room for deferred events.\<close>

definition full_sys :: trigger_sys where
  "full_sys = start_sys (sample_world\<lparr>tw_gate := \<lparr>sg_max_defer = 0, sg_active = [(''t'', 2)], sg_deferred = []\<rparr>\<rparr>)"

theorem deferred_queue_never_drains_witness:
  "\<exists>d w. claim_start sample_lib ''a'' 0 (sample_prepared ''k'') (sys_world full_sys) = (Inl (Some d), w) \<and> td_action d \<noteq> ''defer''"
proof -
  have window: "parse_expires_in ''1s'' = Some 1" by code_simp
  obtain d w where c: "claim_start sample_lib ''a'' 0 (sample_prepared ''k'') (sys_world full_sys) = (Inl (Some d), w)"
    by (simp add: claim_start_def Let_def sample_prepared_def sample_trigger_def window idem_lookup_def sample_world_def
        budget_left_def used_usd_def used_tokens_def dget_or_def try_enter_def slots_used_def full_sys_def start_sys_def
        trigger_frames deferred_count_def)
  have "td_action d \<noteq> ''defer''"
    by (rule deferred_queue_never_drains [OF rtranclp.rtrancl_refl _ c])
      (simp add: full_sys_def start_sys_def)
  with c show ?thesis by blast
qed

theorem cut_letter_never_replays_witness:
  "\<exists>d w'. decide_trigger sample_lib ''w'' [sample_trigger] ''now'' 0 0 (\<lambda>p caps. StartRaised) (sample_event\<lparr>te_raw := RawText ''x''\<rparr>)
      (sample_world\<lparr>tw_limiter := new_limiter\<lparr>rl_limit := 0\<rparr>\<rparr>) = (Some d, w') \<and> td_reason d = ''rate''"
proof -
  have "json_nesting_depth ''x'' = 0" by (simp add: json_nesting_depth_def depth_step_def)
  then show ?thesis
    using cut_letter_never_replays [of "[sample_trigger]" "sample_event\<lparr>te_raw := RawText ''x''\<rparr>" sample_trigger "''x''"
        "sample_world\<lparr>tw_limiter := new_limiter\<lparr>rl_limit := 0\<rparr>\<rparr>" 0 sample_lib "''now''" "''w''" 0 "\<lambda>p caps. StartRaised"]
    by (simp add: find_trigger_def sample_trigger_def sample_event_def MAX_EVENT_BYTES_def sample_lib_def letter_id_def
        get_letter_def sample_world_def MAX_JSON_DEPTH_def) blast
qed

end
