(* ===== verification/Waits.thy ===== *)
theory Waits
  imports Gates Templates RunStates
begin

text \<open>
  Waits, \<open>wait/record.py\<close>, \<open>wait/evaluate.py\<close>, \<open>wait/compact.py\<close> and \<open>wait/events.py\<close>: the durable
  record of a wait, the evaluation against the time and an injected world, the compaction of old
  results, and the signed events. Times are rationals; the parser and printer of timestamps and
  the parser of numbers are arguments.
\<close>

section \<open>The record\<close>

definition WAIT_RECORD_VERSION :: int where
  "WAIT_RECORD_VERSION = 1"

definition ON_DEADLINE :: "string list" where
  "ON_DEADLINE = [''fail'', ''continue'', ''escalate'', ''branch'']"

definition WHICHEVER :: "string list" where
  "WHICHEVER = [''first'', ''all'']"

record wait_record =
  wr_node_id :: string
  wr_until :: string
  wr_deadline_at :: string
  wr_on_deadline :: string
  wr_whichever :: string
  wr_for_event :: "pydict option"
  wr_for_file :: "pydict option"
  wr_for_run :: "pydict option"
  wr_default :: pyval
  wr_escalate_to :: "string list"
  wr_created_at :: string
  wr_version :: int
  wr_dormant_since :: string
  wr_rebroker :: bool

text \<open>An optional dictionary that is true in Python: neither absent nor empty.\<close>

definition given_dict :: "pydict option \<Rightarrow> bool" where
  "given_dict d = (d \<noteq> None \<and> d \<noteq> Some [])"

definition spec_entry :: "string \<Rightarrow> pydict option \<Rightarrow> pydict" where
  "spec_entry key d = (if given_dict d then [(key, PDict (the d))] else [])"

definition wait_as_dict :: "wait_record \<Rightarrow> pydict" where
  "wait_as_dict r =
     [(''wait_record_version'', PInt (wr_version r)), (''node_id'', PStr (wr_node_id r)),
      (''until'', PStr (wr_until r)), (''deadline_at'', PStr (wr_deadline_at r)),
      (''on_deadline'', PStr (wr_on_deadline r)), (''whichever'', PStr (wr_whichever r)),
      (''created_at'', PStr (wr_created_at r)), (''dormant_since'', PStr (wr_dormant_since r)),
      (''rebroker'', PBool (wr_rebroker r))] @
     spec_entry ''for_event'' (wr_for_event r) @ spec_entry ''for_file'' (wr_for_file r) @
     spec_entry ''for_run'' (wr_for_run r) @
     (if wr_default r = PNone then [] else [(''default'', wr_default r)]) @
     (if wr_escalate_to r = [] then [] else [(''escalate_to'', PList (List.map PStr (wr_escalate_to r)))])"

definition dict_spec :: "pydict \<Rightarrow> string \<Rightarrow> pydict option" where
  "dict_spec data key = (case vget data key of PDict d \<Rightarrow> Some d | _ \<Rightarrow> None)"

definition known_word :: "string list \<Rightarrow> string \<Rightarrow> string \<Rightarrow> string" where
  "known_word words fallback w = (let t = lower (strip w) in if t \<in> set words then t else fallback)"

text \<open>\<open>from_dict\<close>; \<open>None\<close>: a version or an escalation list that cannot be read raises.\<close>

definition wait_from_dict :: "(rat \<Rightarrow> string) \<Rightarrow> pydict \<Rightarrow> wait_record option" where
  "wait_from_dict fr data =
     Option.bind (py_list (or_val (vget data ''escalate_to'') (PList []))) (\<lambda>people.
     Option.bind (to_int (or_val (vget data ''wait_record_version'') (PInt WAIT_RECORD_VERSION))) (\<lambda>version.
       Some \<lparr>wr_node_id = text_or fr (vget data ''node_id'') [], wr_until = text_or fr (vget data ''until'') [],
         wr_deadline_at = text_or fr (vget data ''deadline_at'') [],
         wr_on_deadline = known_word ON_DEADLINE ''fail'' (text_or fr (vget data ''on_deadline'') ''fail''),
         wr_whichever = known_word WHICHEVER ''first'' (text_or fr (vget data ''whichever'') ''first''),
         wr_for_event = dict_spec data ''for_event'', wr_for_file = dict_spec data ''for_file'',
         wr_for_run = dict_spec data ''for_run'', wr_default = vget data ''default'',
         wr_escalate_to = List.map (py_str fr) people, wr_created_at = text_or fr (vget data ''created_at'') [],
         wr_version = version, wr_dormant_since = text_or fr (vget data ''dormant_since'') [],
         wr_rebroker = (if map_of data ''rebroker'' = None then True else py_truth (vget data ''rebroker''))\<rparr>))"

text \<open>The deadline a text names: a timestamp or a duration from now; \<open>None\<close> is the \<open>WaitError\<close>.\<close>

definition resolve_deadline :: "time_lib \<Rightarrow> rat \<Rightarrow> string \<Rightarrow> rat option" where
  "resolve_deadline lib now until =
     (let text = strip until
      in if text = [] then None
         else (case parse_clock lib (Some text) of
                 Some t \<Rightarrow> Some t
               | None \<Rightarrow> map_option (\<lambda>s. now + s) (parse_expires_in text)))"

section \<open>Evaluation\<close>

record wait_world =
  ww_events :: "pydict list"
  ww_files :: "(string \<times> pydict) list"
  ww_runs :: "(string \<times> string) list"

record wait_outcome =
  wo_satisfied :: bool
  wo_deadline :: bool
  wo_reason :: string
  wo_payload :: pyval
  wo_waiting_for :: "string list"

definition sub_dict :: "pydict \<Rightarrow> string \<Rightarrow> pydict" where
  "sub_dict d key = (case vget d key of PDict e \<Rightarrow> e | _ \<Rightarrow> [])"

definition event_matches :: "(rat \<Rightarrow> string) \<Rightarrow> pydict \<Rightarrow> pydict \<Rightarrow> bool" where
  "event_matches fr spec item =
     (text_or fr (vget item ''name'') [] = strip (text_or fr (vget spec ''name'') []) \<and>
      list_all (\<lambda>(k, v). py_str fr (vget (sub_dict item ''payload'') k) = py_str fr v) (sub_dict spec ''match''))"

definition event_hit :: "(rat \<Rightarrow> string) \<Rightarrow> wait_record \<Rightarrow> wait_world \<Rightarrow> pyval option" where
  "event_hit fr r world =
     (if \<not> given_dict (wr_for_event r) then None
      else map_option PDict (find (event_matches fr (the (wr_for_event r))) (ww_events world)))"

text \<open>\<open>_as_instant\<close>: a number is an epoch time; \<open>pf\<close> parses the text of a float.\<close>

definition as_instant :: "time_lib \<Rightarrow> (string \<Rightarrow> rat option) \<Rightarrow> pyval \<Rightarrow> (rat \<Rightarrow> string) \<Rightarrow> rat option" where
  "as_instant lib pf v fr =
     (case v of
        PNone \<Rightarrow> None
      | PBool _ \<Rightarrow> None
      | PInt n \<Rightarrow> Some (of_int n)
      | PFloat x \<Rightarrow> Some x
      | _ \<Rightarrow>
          (let text = strip (py_str fr v)
           in if text = [] then None
              else (case parse_clock lib (Some text) of Some t \<Rightarrow> Some t | None \<Rightarrow> pf text)))"

definition file_hit :: "(rat \<Rightarrow> string) \<Rightarrow> time_lib \<Rightarrow> (string \<Rightarrow> rat option) \<Rightarrow> wait_record \<Rightarrow> wait_world \<Rightarrow>
    pyval option" where
  "file_hit fr lib pf r world =
     (if \<not> given_dict (wr_for_file r) then None
      else
        (let spec = the (wr_for_file r);
             path = strip (text_or fr (vget spec ''path'') []);
             kind = lower (strip (text_or fr (vget spec ''on'') ''created''));
             info = dget_or (ww_files world) path [];
             hit = Some (PDict [(''path'', PStr path), (''on'', PStr kind)])
         in if py_truth (vget info ''symlink'') \<or> \<not> py_truth (vget info ''exists'') then None
            else if kind = ''changed'' then
              (case as_instant lib pf (vget info ''mtime'') fr of
                 None \<Rightarrow> None
               | Some mtime \<Rightarrow>
                   (case as_instant lib pf (PStr (wr_created_at r)) fr of
                      Some created \<Rightarrow> if mtime \<le> created then None else hit
                    | None \<Rightarrow> hit))
            else hit))"

definition run_hit :: "(rat \<Rightarrow> string) \<Rightarrow> wait_record \<Rightarrow> wait_world \<Rightarrow> pyval option" where
  "run_hit fr r world =
     (if \<not> given_dict (wr_for_run r) then None
      else
        (let spec = the (wr_for_run r);
             run_id = strip (text_or fr (or_val (vget spec ''run_id'') (vget spec ''id'')) []);
             wanted = lower (strip (text_or fr (vget spec ''status'') ''succeeded''));
             status = dget_or (ww_runs world) run_id []
         in if status = wanted then Some (PDict [(''run_id'', PStr run_id), (''status'', PStr status)]) else None))"

text \<open>The declared conditions in their order, with what each of them found.\<close>

definition wait_probes :: "(rat \<Rightarrow> string) \<Rightarrow> time_lib \<Rightarrow> (string \<Rightarrow> rat option) \<Rightarrow> wait_record \<Rightarrow> wait_world \<Rightarrow>
    (string \<times> pyval option) list" where
  "wait_probes fr lib pf r world =
     (if given_dict (wr_for_event r) then [(''event'', event_hit fr r world)] else []) @
     (if given_dict (wr_for_file r) then [(''file'', file_hit fr lib pf r world)] else []) @
     (if given_dict (wr_for_run r) then [(''run'', run_hit fr r world)] else [])"

definition probe_hits :: "(string \<times> pyval option) list \<Rightarrow> pydict" where
  "probe_hits probes = concat (List.map (\<lambda>(k, v). case v of None \<Rightarrow> [] | Some x \<Rightarrow> [(k, x)]) probes)"

definition deadline_passed :: "time_lib \<Rightarrow> rat \<Rightarrow> wait_record \<Rightarrow> bool" where
  "deadline_passed lib now r =
     (case parse_clock lib (Some (wr_deadline_at r)) of None \<Rightarrow> False | Some d \<Rightarrow> d \<le> now)"

definition evaluate_wait :: "(rat \<Rightarrow> string) \<Rightarrow> time_lib \<Rightarrow> (string \<Rightarrow> rat option) \<Rightarrow> rat \<Rightarrow> wait_world \<Rightarrow> wait_record \<Rightarrow>
    wait_outcome" where
  "evaluate_wait fr lib pf now world r =
     (let probes = wait_probes fr lib pf r world;
          hits = probe_hits probes;
          missing = List.map fst (filter (\<lambda>p. snd p = None) probes);
          ready = (if probes = [] then False
                   else if wr_whichever r = ''all'' then length hits = length probes else hits \<noteq> [])
      in if ready then
           \<lparr>wo_satisfied = True, wo_deadline = False,
            wo_reason = (if wr_whichever r = ''all'' then ''all'' else fst (hd hits)),
            wo_payload = (if wr_whichever r = ''all'' then PDict hits else snd (hd hits)), wo_waiting_for = []\<rparr>
         else if deadline_passed lib now r then
           \<lparr>wo_satisfied = False, wo_deadline = True, wo_reason = ''deadline'', wo_payload = wr_default r,
            wo_waiting_for = missing\<rparr>
         else
           \<lparr>wo_satisfied = False, wo_deadline = False, wo_reason = ''waiting'', wo_payload = PNone,
            wo_waiting_for = missing @ [''until'']\<rparr>)"

section \<open>Compaction\<close>

definition KEEP_TAIL :: nat where
  "KEEP_TAIL = 16"

definition MAX_OUTPUT_CHARS :: int where
  "MAX_OUTPUT_CHARS = 2048"

definition is_large :: "(rat \<Rightarrow> string) \<Rightarrow> pyval \<Rightarrow> bool" where
  "is_large fr v = (MAX_OUTPUT_CHARS < int (length (text_or fr v [])))"

text \<open>The fields a compacted row does not name get their defaults.\<close>

definition compact_row :: "(rat \<Rightarrow> string) \<Rightarrow> node_result \<Rightarrow> node_result" where
  "compact_row fr r =
     r\<lparr>nr_output := (if is_large fr (nr_output r)
                     then PDict [(''_compacted'', PBool True), (''node_id'', PStr (nr_node_id r)), (''type'', PStr (nr_type r))]
                     else nr_output r),
       nr_tool_rounds := [], nr_ttft_ms := None, nr_total_ms := None, nr_inter_token_ms := None, nr_route := None\<rparr>"

definition compact_results :: "(rat \<Rightarrow> string) \<Rightarrow> run_state \<Rightarrow> run_state" where
  "compact_results fr s =
     (let n = length (rs_results s)
      in if n \<le> KEEP_TAIL then s
         else s\<lparr>rs_results := List.map (compact_row fr) (take (n - KEEP_TAIL) (rs_results s)) @
                drop (n - KEEP_TAIL) (rs_results s)\<rparr>)"

end
