(* ===== verification/WaitNodes.thy ===== *)
theory WaitNodes
  imports Waits Nodes TriggerStarts
begin

text \<open>
  The wait node, \<open>wait/node.py\<close>, as a body of the engine, lazy wake-up, \<open>wait/wake.py\<close>, and the
  signed events, \<open>wait/events.py\<close>. The world of a wait (events, files, runs), the number of other
  waiting runs and the clock are arguments.
\<close>

section \<open>Nodes\<close>

record wait_spec =
  wn_until :: string
  wn_for_event :: "pydict option"
  wn_for_file :: "pydict option"
  wn_for_run :: "pydict option"
  wn_on_deadline :: string
  wn_whichever :: string
  wn_default :: pyval
  wn_escalate_to :: "string list"

record wait_ctx =
  wc_time :: time_lib
  wc_float_text :: "rat \<Rightarrow> string"
  wc_number :: "string \<Rightarrow> rat option"
  wc_dry_run :: bool
  wc_max_waiting :: "int option"

definition DEFAULT_MAX_WAITING :: int where
  "DEFAULT_MAX_WAITING = 64"

definition wait_error :: "string \<Rightarrow> failure" where
  "wait_error message = Raised WaitErr ''WaitError'' message"

definition render_failure :: "template_error \<Rightarrow> failure" where
  "render_failure e = template_failure (template_message e)"

text \<open>The text values of a specification are interpolated, and those of its \<open>match\<close>.\<close>

fun render_values :: "(rat \<Rightarrow> string) \<Rightarrow> pydict \<Rightarrow> pydict \<Rightarrow> template_error + pydict" where
  "render_values fr ns [] = Inr []"
| "render_values fr ns ((k, v) # d) =
     rbind (case v of PStr s \<Rightarrow> rbind (interpolate fr s ns) (\<lambda>t. Inr (PStr t)) | _ \<Rightarrow> Inr v)
       (\<lambda>v. rbind (render_values fr ns d) (\<lambda>d. Inr ((k, v) # d)))"

definition render_spec :: "(rat \<Rightarrow> string) \<Rightarrow> pydict \<Rightarrow> pydict option \<Rightarrow> template_error + pydict option" where
  "render_spec fr ns spec =
     (case spec of None \<Rightarrow> Inr None | Some d \<Rightarrow> rbind (render_values fr ns d) (\<lambda>d. Inr (Some d)))"

definition render_event :: "(rat \<Rightarrow> string) \<Rightarrow> pydict \<Rightarrow> pydict option \<Rightarrow> template_error + pydict option" where
  "render_event fr ns spec =
     rbind (render_spec fr ns spec)
       (\<lambda>spec. case spec of
          None \<Rightarrow> Inr None
        | Some d \<Rightarrow>
            (case vget d ''match'' of
               PDict m \<Rightarrow> rbind (render_values fr ns m) (\<lambda>m. Inr (Some (dset ''match'' (PDict m) d)))
             | _ \<Rightarrow> Inr (Some d)))"

definition build_record :: "wait_ctx \<Rightarrow> string \<Rightarrow> wait_spec \<Rightarrow> rat \<Rightarrow> run_state \<Rightarrow> failure + wait_record" where
  "build_record c node n now s =
     (let fr = wc_float_text c; ns = mapping s; created = tl_format (wc_time c) now in
      case interpolate fr (wn_until n) ns of
        Inl e \<Rightarrow> Inl (render_failure e)
      | Inr text \<Rightarrow>
          (let until = strip text in
           if until = [] then Inl (wait_error (''wait node '' @ in_quotes node @ '' requires until''))
           else
             (case resolve_deadline (wc_time c) now until of
                None \<Rightarrow> Inl (wait_error (''until must be a duration like 72h or an ISO timestamp, not '' @ repr_str until))
              | Some deadline \<Rightarrow>
                  map_sum render_failure id
                    (rbind (render_event fr ns (wn_for_event n)) (\<lambda>event.
                     rbind (render_spec fr ns (wn_for_file n)) (\<lambda>file.
                     rbind (render_spec fr ns (wn_for_run n)) (\<lambda>run.
                       Inr \<lparr>wr_node_id = node, wr_until = until,
                         wr_deadline_at = tl_format (wc_time c) deadline,
                         wr_on_deadline = lower (strip (wn_on_deadline n)), wr_whichever = lower (strip (wn_whichever n)),
                         wr_for_event = event, wr_for_file = file, wr_for_run = run, wr_default = wn_default n,
                         wr_escalate_to = wn_escalate_to n, wr_created_at = created, wr_version = WAIT_RECORD_VERSION,
                         wr_dormant_since = created, wr_rebroker = True\<rparr>)))))))"

text \<open>
  \<open>_record_from_state\<close>: the record of the pending wait, else the one kept in the metadata.
  \<open>Inl\<close>: a stored record that cannot be read raises.
\<close>

definition stored_record :: "string \<Rightarrow> run_state \<Rightarrow> pyval" where
  "stored_record node s =
     (let pending = (case rs_pending s of Some d \<Rightarrow> d | None \<Rightarrow> []);
          raw = (if vget pending ''type'' = PStr ''wait'' then vget pending ''wait'' else PNone)
      in if raw = PNone then vget (sub_dict (rs_metadata s) ''_wait'') node else raw)"

definition record_from_state :: "(rat \<Rightarrow> string) \<Rightarrow> string \<Rightarrow> run_state \<Rightarrow> failure + wait_record option" where
  "record_from_state fr node s =
     (case stored_record node s of
        PDict raw \<Rightarrow>
          (case wait_from_dict fr raw of
             None \<Rightarrow> Inl (Raised ForeignErr ''ValueError'' [])
           | Some r \<Rightarrow> Inr (Some (if wr_node_id r = [] then r\<lparr>wr_node_id := node\<rparr> else r)))
      | _ \<Rightarrow> Inr None)"

section \<open>Parking and waking\<close>

definition clear_wait :: "run_state \<Rightarrow> run_state" where
  "clear_wait s = s\<lparr>rs_metadata := AList.delete ''_wait'' (rs_metadata s)\<rparr>"

text \<open>\<open>_rebroker\<close> on the state; the credentials of the context are no part of it.\<close>

definition rebroker :: "wait_record \<Rightarrow> run_state \<Rightarrow> run_state" where
  "rebroker r s =
     (if \<not> wr_rebroker r then s
      else s\<lparr>rs_metadata :=
        dset ''credentials_epoch'' (PStr (if wr_dormant_since r = [] then wr_created_at r else wr_dormant_since r))
          (dset ''_wait_rebroker'' (PBool True) (rs_metadata s))\<rparr>)"

definition wait_pending_of :: "string \<Rightarrow> wait_record \<Rightarrow> string list \<Rightarrow> pydict" where
  "wait_pending_of run_id r waiting =
     [(''node_id'', PStr (wr_node_id r)), (''type'', PStr ''wait''), (''wait'', PDict (wait_as_dict r)),
      (''waiting_for'', PList (List.map PStr waiting)), (''expires_at'', PStr (wr_deadline_at r)),
      (''wake'', PStr (''readyagents wake '' @ run_id))]"

definition park :: "wait_ctx \<Rightarrow> int \<Rightarrow> wait_record \<Rightarrow> string list \<Rightarrow> run_state \<Rightarrow> failure option \<times> run_state" where
  "park c others r waiting s =
     (let limit = (case wc_max_waiting c of None \<Rightarrow> DEFAULT_MAX_WAITING | Some n \<Rightarrow> n) in
      if limit \<le> others then
        (Some (Raised WaitErr ''WaitCapExceeded''
           (''Waiting-run cap exceeded: used='' @ int_text others @ '' limit='' @ int_text limit)), s)
      else
        (let s = compact_results (wc_float_text c) s;
             meta = dset ''_wait'' (PDict (dset (wr_node_id r) (PDict (wait_as_dict r)) (sub_dict (rs_metadata s) ''_wait'')))
               (rs_metadata s);
             meta = AList.delete ''granted_secrets'' (AList.delete ''credential_env''
               (dset ''_wait_rebroker'' (PBool True) meta))
         in (None, s\<lparr>rs_metadata := meta, rs_pending_node := Some (wr_node_id r),
                     rs_pending := Some (wait_pending_of (rs_run_id s) r waiting)\<rparr>)))"

definition wait_deadline :: "graph_node \<Rightarrow> wait_record \<Rightarrow> run_state \<Rightarrow> (failure + pyval) \<times> run_state" where
  "wait_deadline g r s =
     (let s = rebroker r (clear_wait s); node = gn_id g; action = wr_on_deadline r in
      if action = ''fail'' then (Inl (wait_error (''wait '' @ in_quotes node @ '' deadline reached'')), s)
      else if action = ''escalate'' then
        (Inl (NeedsApproval node (''Wait '' @ in_quotes node @ '' deadline reached; escalate'')
           (Some [(''on_expire'', PStr ''fail''), (''escalate_to'', PList (List.map PStr (wr_escalate_to r))),
                  (''from_wait'', PBool True)])), s)
      else if action = ''branch'' then
        (Inr (PDict [(''reason'', PStr ''deadline''), (''action'', PStr ''branch''),
           (''next'', of_opt_str (if truthy (gn_else g) then gn_else g else gn_then g)), (''payload'', wr_default r)]), s)
      else
        (Inr (PDict [(''reason'', PStr ''deadline''), (''action'', PStr ''continue''),
           (''next'', of_opt_str (gn_next g)), (''payload'', wr_default r)]), s))"

definition wait_payload :: "graph_node \<Rightarrow> wait_record \<Rightarrow> wait_outcome \<Rightarrow> pyval" where
  "wait_payload g r o' =
     PDict [(''reason'', PStr (wo_reason o')), (''payload'', wo_payload o'), (''deadline_at'', PStr (wr_deadline_at r)),
       (''next'', of_opt_str (gn_next g))]"

text \<open>The record a visit works with: the stored one, or a new one from the node.\<close>

definition wait_record_for :: "wait_ctx \<Rightarrow> string \<Rightarrow> wait_spec \<Rightarrow> rat \<Rightarrow> run_state \<Rightarrow> failure + wait_record" where
  "wait_record_for c node n now s =
     rbind (record_from_state (wc_float_text c) node s)
       (\<lambda>r. case r of Some r \<Rightarrow> Inr r | None \<Rightarrow> build_record c node n now s)"

definition run_wait_node :: "wait_ctx \<Rightarrow> graph_node \<Rightarrow> wait_spec \<Rightarrow> rat \<Rightarrow> wait_world \<Rightarrow> int \<Rightarrow> run_state \<Rightarrow>
    (failure + pyval) \<times> run_state" where
  "run_wait_node c g n now world others s =
     (if wc_dry_run c then (Inr (PDict [(''dry_run'', PBool True), (''type'', PStr ''wait'')]), s)
      else
        (case wait_record_for c (gn_id g) n now s of
           Inl f \<Rightarrow> (Inl f, s)
         | Inr r \<Rightarrow>
             (let o' = evaluate_wait (wc_float_text c) (wc_time c) (wc_number c) now world r in
              if wo_satisfied o' then (Inr (wait_payload g r o'), rebroker r (clear_wait s))
              else if wo_deadline o' then wait_deadline g r s
              else (case park c others r (wo_waiting_for o') s of
                      (Some f, s) \<Rightarrow> (Inl f, s)
                    | (None, s) \<Rightarrow> (Inl (Parked (gn_id g) (wait_as_dict r) (rs_pending s)), s)))))"

text \<open>The node as a body of the engine, with what the outside shows at the moment.\<close>

definition wait_body :: "wait_ctx \<Rightarrow> (string \<Rightarrow> wait_spec) \<Rightarrow> (engine_world \<Rightarrow> rat \<times> wait_world \<times> int) \<Rightarrow> node_body" where
  "wait_body c spec outside g k w =
     (case outside w of (now, world, others) \<Rightarrow>
        (case run_wait_node c g (spec (gn_id g)) now world others (ew_run w) of
           (r, s) \<Rightarrow> (r, w\<lparr>ew_run := s\<rparr>)))"

text \<open>\<open>wait_record_of\<close> and the test of \<open>wake_one\<close> whether a stored run is resumed.\<close>

definition wait_record_of :: "(rat \<Rightarrow> string) \<Rightarrow> run_state \<Rightarrow> wait_record option" where
  "wait_record_of fr s =
     (let pending = (case rs_pending s of Some d \<Rightarrow> d | None \<Rightarrow> []) in
      case (vget pending ''type'' = PStr ''wait'', vget pending ''wait'') of
        (True, PDict raw) \<Rightarrow> wait_from_dict fr raw
      | _ \<Rightarrow>
          (case sub_dict (rs_metadata s) ''_wait'' of
             (_, PDict raw) # _ \<Rightarrow> wait_from_dict fr raw
           | _ \<Rightarrow> None))"

definition wakes :: "wait_ctx \<Rightarrow> rat \<Rightarrow> wait_world \<Rightarrow> run_state \<Rightarrow> bool" where
  "wakes c now world s =
     (rs_status s = ''waiting'' \<and>
      (case wait_record_of (wc_float_text c) s of
         None \<Rightarrow> False
       | Some r \<Rightarrow>
           (let o' = evaluate_wait (wc_float_text c) (wc_time c) (wc_number c) now world r
            in wo_satisfied o' \<or> wo_deadline o')))"

section \<open>Events\<close>

definition wait_event_body :: "trigger_lib \<Rightarrow> string \<Rightarrow> pydict \<Rightarrow> string" where
  "wait_event_body lib name payload = tb_dumps lib [(''name'', PStr name), (''payload'', PDict payload)]"

definition wait_event_id :: "trigger_lib \<Rightarrow> string \<Rightarrow> pydict \<Rightarrow> string" where
  "wait_event_id lib name payload = tb_sha lib (wait_event_body lib name payload)"

datatype event_answer = EventRefused string | EventKnown string | EventAccepted string

text \<open>\<open>accept_event\<close> at the time \<open>ts\<close> on the rows of the event file.\<close>

definition accept_event :: "trigger_lib \<Rightarrow> string \<Rightarrow> string \<Rightarrow> pydict \<Rightarrow> string option \<Rightarrow> string option \<Rightarrow> string option \<Rightarrow>
    pydict list \<Rightarrow> event_answer \<times> pydict list" where
  "accept_event lib ts name payload secret signature actor rows =
     (let body = wait_event_body lib name payload; eid = wait_event_id lib name payload in
      if MAX_EVENT_BYTES < int (length body) then (EventRefused ''too_large'', rows)
      else if \<not> truthy secret \<or> \<not> verify_signed_body lib (the secret) body signature then (EventRefused ''unsigned'', rows)
      else if list_ex (\<lambda>row. vget row ''event_id'' = PStr eid) rows then (EventKnown eid, rows)
      else (EventAccepted eid,
        rows @ [[(''event_id'', PStr eid), (''name'', PStr name), (''payload'', PDict payload),
                 (''actor'', of_opt_str actor), (''ts'', PStr ts)]]))"

end
