(* ===== verification/WaitSafety.thy ===== *)
theory WaitSafety
  imports WaitNodes EngineSafety
begin

text \<open>
  The properties of waits: when a wait is over, that nothing that happened is missed, the record
  and its round trip, the deadline a parked run keeps, the wait that escalates and starts over,
  and the signed events.
\<close>

section \<open>Evaluation\<close>

lemma probe_hits_length: "length (probe_hits probes) \<le> length probes \<and>
    (length (probe_hits probes) = length probes \<longleftrightarrow> (\<forall>p \<in> set probes. snd p \<noteq> None))"
  by (induction probes) (auto simp: probe_hits_def split: option.splits)

lemma probe_hits_Nil: "probe_hits probes = [] \<longleftrightarrow> (\<forall>p \<in> set probes. snd p = None)"
  by (induction probes) (auto simp: probe_hits_def split: option.splits)

text \<open>The declared conditions hold: all of them, or one, as the wait asks; a bare wait has none.\<close>

definition conditions_hold :: "wait_record \<Rightarrow> (string \<times> pyval option) list \<Rightarrow> bool" where
  "conditions_hold r probes =
     (probes \<noteq> [] \<and>
      (if wr_whichever r = ''all'' then list_all (\<lambda>p. snd p \<noteq> None) probes else list_ex (\<lambda>p. snd p \<noteq> None) probes))"

lemma evaluate_satisfied:
  "wo_satisfied (evaluate_wait fr lib pf now world r) = conditions_hold r (wait_probes fr lib pf r world)"
  using probe_hits_length [of "wait_probes fr lib pf r world"] probe_hits_Nil [of "wait_probes fr lib pf r world"]
  by (auto simp: evaluate_wait_def Let_def conditions_hold_def list_all_iff list_ex_iff)

text \<open>
  C37. A wait is over exactly when its declared conditions hold (all of them, or the first, as it
  says), whatever the deadline; its deadline takes effect exactly when they do not and the time has
  come; otherwise it goes on, and reports the conditions that are missing and the deadline.
\<close>

theorem wait_outcome_exact:
  "let o' = evaluate_wait fr lib pf now world r; probes = wait_probes fr lib pf r world in
     wo_satisfied o' = conditions_hold r probes \<and>
     wo_deadline o' = (\<not> conditions_hold r probes \<and> deadline_passed lib now r) \<and>
     (if conditions_hold r probes then wo_waiting_for o' = []
      else if deadline_passed lib now r then wo_payload o' = wr_default r
      else wo_waiting_for o' = List.map fst (filter (\<lambda>p. snd p = None) probes) @ [''until''])"
proof -
  have s: "conditions_hold r (wait_probes fr lib pf r world) =
    (wait_probes fr lib pf r world \<noteq> [] \<and>
     (if wr_whichever r = ''all'' then length (probe_hits (wait_probes fr lib pf r world)) = length (wait_probes fr lib pf r world)
      else probe_hits (wait_probes fr lib pf r world) \<noteq> []))"
    using probe_hits_length [of "wait_probes fr lib pf r world"] probe_hits_Nil [of "wait_probes fr lib pf r world"]
    by (auto simp: conditions_hold_def list_all_iff list_ex_iff)
  show ?thesis
    unfolding Let_def s by (simp add: evaluate_wait_def Let_def)
qed

lemma more_event_hits:
  "event_hit fr r world = Some v \<Longrightarrow> event_hit fr r (world\<lparr>ww_events := ww_events world @ later\<rparr>) = Some v"
  by (auto simp: event_hit_def find_append split: if_splits)

lemma hits_frame [simp]:
  "file_hit fr lib pf r (world\<lparr>ww_events := evs\<rparr>) = file_hit fr lib pf r world"
  "run_hit fr r (world\<lparr>ww_events := evs\<rparr>) = run_hit fr r world"
  by (simp_all add: file_hit_def run_hit_def)

lemma conditions_hold_more:
  assumes "conditions_hold r (wait_probes fr lib pf r world)"
  shows "conditions_hold r (wait_probes fr lib pf r (world\<lparr>ww_events := ww_events world @ later\<rparr>))"
  using assms more_event_hits [of fr r world _ later]
  by (cases "event_hit fr r world") (auto simp: conditions_hold_def wait_probes_def split: if_splits)

lemma deadline_passed_later: "deadline_passed lib now r \<Longrightarrow> now \<le> now' \<Longrightarrow> deadline_passed lib now' r"
  by (auto simp: deadline_passed_def split: option.splits)

lemma evaluate_deadline:
  "wo_deadline (evaluate_wait fr lib pf now world r) =
     (\<not> conditions_hold r (wait_probes fr lib pf r world) \<and> deadline_passed lib now r)"
  by (subst evaluate_satisfied [symmetric, where now = now]) (simp add: evaluate_wait_def Let_def)

lemma wakes_iff:
  "wakes c now world s =
     (rs_status s = ''waiting'' \<and>
      (case wait_record_of (wc_float_text c) s of
         None \<Rightarrow> False
       | Some r \<Rightarrow>
           conditions_hold r (wait_probes (wc_float_text c) (wc_time c) (wc_number c) r world) \<or> deadline_passed (wc_time c) now r))"
  by (auto simp: wakes_def Let_def evaluate_satisfied evaluate_deadline split: option.split)

text \<open>
  C38. No event is missed: a run that would wake now wakes at any later time with more events, since
  conditions that hold keep holding and a deadline that has passed has passed.
\<close>

theorem wake_up_is_stable:
  assumes "wakes c now world s" "now \<le> now'"
  shows "wakes c now' (world\<lparr>ww_events := ww_events world @ later\<rparr>) s"
  using assms conditions_hold_more deadline_passed_later by (auto simp: wakes_iff split: option.splits)

section \<open>The record\<close>

definition wait_valid :: "wait_record \<Rightarrow> bool" where
  "wait_valid r =
     (wr_on_deadline r \<in> set ON_DEADLINE \<and> wr_whichever r \<in> set WHICHEVER \<and> wr_version r \<noteq> 0 \<and>
      wr_for_event r \<noteq> Some [] \<and> wr_for_file r \<noteq> Some [] \<and> wr_for_run r \<noteq> Some [])"

lemma vget_app: "vget (xs @ ys) k = (if map_of xs k = None then vget ys k else vget xs k)"
  by (auto simp: vget_def map_add_def split: option.split)

lemma vget_spec_entry:
  "vget (spec_entry key d) k = (if k = key \<and> given_dict d then PDict (the d) else PNone)"
  "map_of (spec_entry key d) k = (if k = key \<and> given_dict d then Some (PDict (the d)) else None)"
  by (simp_all add: spec_entry_def)

lemma known_word_id: "w \<in> set words \<Longrightarrow> set words \<subseteq> set (ON_DEADLINE @ WHICHEVER) \<Longrightarrow> known_word words d w = w"
proof -
  assume w: "w \<in> set words" and sub: "set words \<subseteq> set (ON_DEADLINE @ WHICHEVER)"
  have "lower (strip x) = x" if "x \<in> set (ON_DEADLINE @ WHICHEVER)" for x
    using that by (auto simp: ON_DEADLINE_def WHICHEVER_def lower_def lower_char_def is_upper_def strip_def lstrip_def
        rstrip_def is_space_def)
  with w sub show ?thesis by (auto simp: known_word_def Let_def)
qed

lemma dict_spec_entry: "d \<noteq> Some [] \<Longrightarrow> (case (if given_dict d then PDict (the d) else PNone) of PDict e \<Rightarrow> Some e | _ \<Rightarrow> None) = d"
  by (cases d) (auto simp: given_dict_def)

lemma wait_dict_fields:
  "vget (wait_as_dict r) ''wait_record_version'' = PInt (wr_version r)"
  "vget (wait_as_dict r) ''node_id'' = PStr (wr_node_id r)"
  "vget (wait_as_dict r) ''until'' = PStr (wr_until r)"
  "vget (wait_as_dict r) ''deadline_at'' = PStr (wr_deadline_at r)"
  "vget (wait_as_dict r) ''on_deadline'' = PStr (wr_on_deadline r)"
  "vget (wait_as_dict r) ''whichever'' = PStr (wr_whichever r)"
  "vget (wait_as_dict r) ''created_at'' = PStr (wr_created_at r)"
  "vget (wait_as_dict r) ''dormant_since'' = PStr (wr_dormant_since r)"
  "map_of (wait_as_dict r) ''rebroker'' = Some (PBool (wr_rebroker r))"
  "vget (wait_as_dict r) ''rebroker'' = PBool (wr_rebroker r)"
  "vget (wait_as_dict r) ''for_event'' = (if given_dict (wr_for_event r) then PDict (the (wr_for_event r)) else PNone)"
  "vget (wait_as_dict r) ''for_file'' = (if given_dict (wr_for_file r) then PDict (the (wr_for_file r)) else PNone)"
  "vget (wait_as_dict r) ''for_run'' = (if given_dict (wr_for_run r) then PDict (the (wr_for_run r)) else PNone)"
  "vget (wait_as_dict r) ''default'' = wr_default r"
  "vget (wait_as_dict r) ''escalate_to'' = (if wr_escalate_to r = [] then PNone else PList (List.map PStr (wr_escalate_to r)))"
  by (simp_all add: wait_as_dict_def vget_app vget_spec_entry)

text \<open>
  A valid record is read back from its dictionary as it was, so a parked wait survives the record
  of its run.
\<close>

theorem wait_record_roundtrip:
  assumes "wait_valid r"
  shows "wait_from_dict fr (wait_as_dict r) = Some r"
proof -
  have words: "known_word ON_DEADLINE ''fail'' (wr_on_deadline r) = wr_on_deadline r"
    "known_word WHICHEVER ''first'' (wr_whichever r) = wr_whichever r"
    "wr_on_deadline r \<noteq> []" "wr_whichever r \<noteq> []"
    using assms known_word_id [of "wr_on_deadline r" ON_DEADLINE] known_word_id [of "wr_whichever r" WHICHEVER]
    by (auto simp: wait_valid_def ON_DEADLINE_def WHICHEVER_def)
  have people: "py_list (or_val (vget (wait_as_dict r) ''escalate_to'') (PList [])) = Some (List.map PStr (wr_escalate_to r))"
    by (simp add: wait_dict_fields or_val_def)
  have version: "to_int (or_val (vget (wait_as_dict r) ''wait_record_version'') (PInt WAIT_RECORD_VERSION)) = Some (wr_version r)"
    using assms by (simp add: wait_dict_fields or_val_def wait_valid_def)
  show ?thesis
    unfolding wait_from_dict_def people version dict_spec_def
    using assms words by (simp add: wait_dict_fields dict_spec_entry wait_valid_def comp_def)
qed

section \<open>Through the engine\<close>

text \<open>What the end of a run leaves of the pending record and the metadata.\<close>

lemma end_with_pending:
  "d \<noteq> [] \<Longrightarrow> rs_pending (ew_run (end_with ec st cur d w)) = Some d"
  "key \<noteq> ''spend'' \<Longrightarrow> vget (rs_metadata (ew_run (end_with ec st cur d w))) key = vget (rs_metadata (ew_run w)) key"
  by (simp_all add: end_with_def persist_def settle_request_def store_spend_def no_pending_def finish_def on_run_def
      emit_def Let_def split: option.split)

lemma reopen_fields [simp]:
  "rs_pending (reopen cur s) = keeps_pending cur s"
  "rs_metadata (reopen cur s) = rs_metadata s"
  by (simp_all add: reopen_def Let_def)

lemma keeps_own_pending:
  "rs_pending s = Some d \<Longrightarrow> vget d ''type'' \<in> {PStr ''approval'', PStr ''wait''} \<Longrightarrow> vget d ''node_id'' = PStr node \<Longrightarrow>
     node \<noteq> [] \<Longrightarrow> keeps_pending (Some node) s = Some d"
  by (auto simp: keeps_pending_def)

lemma read_parked:
  assumes "rs_pending s = Some (wait_pending_of run_id r waiting)" "wait_valid r" "wr_node_id r \<noteq> []"
  shows "record_from_state fr node s = Inr (Some r)"
  using assms wait_record_roundtrip [OF assms(2), of fr]
  by (simp add: record_from_state_def stored_record_def wait_pending_of_def)

text \<open>
  C36. A parked run keeps its wait: after the engine has stored a parked run and a resume has opened it
  again, the node goes on with the very same record, with the deadline and the conditions it
  had, whatever the time, and even if the node was edited meanwhile.
\<close>

theorem parked_wait_keeps_deadline:
  assumes "wait_record_for c (gn_id g) n now s = Inr r" "wait_valid r" "wr_node_id r = gn_id g" "gn_id g \<noteq> []"
    and "run_wait_node c g n now world others s = (Inl (Parked node rec pend), s1)"
    and "s2 = ew_run (handle_failure ec wfl (Parked node rec pend) cur (w\<lparr>ew_run := s1\<rparr>))"
  shows "wait_record_for c (gn_id g) n' now' (reopen (Some (gn_id g)) s2) = Inr r"
proof -
  obtain waiting where pend: "pend = Some (wait_pending_of (rs_run_id s1) r waiting)"
    using assms(1,5)
    by (auto simp: run_wait_node_def Let_def park_def wait_deadline_def compact_results_def wait_error_def
        split: if_splits prod.splits option.splits)
  let ?d = "wait_pending_of (rs_run_id s1) r waiting"
  have "rs_pending s2 = Some ?d"
    using assms(6) end_with_pending(1) [of ?d]
    by (simp add: handle_failure_def Let_def emit_def pend wait_pending_def wait_pending_of_def)
  then have "rs_pending (reopen (Some (gn_id g)) s2) = Some ?d"
    using assms(3,4) by (simp add: keeps_own_pending wait_pending_of_def)
  from read_parked [OF this assms(2)] assms(3,4) show ?thesis
    by (simp add: wait_record_for_def)
qed

text \<open>
  A wait that escalates can not be answered: the pause it raises is stored as an approval, and when
  the run is resumed, with whatever decision, the node no longer has a record: it builds a new
  one, with a deadline counted from the time of the resume.
\<close>

theorem escalated_wait_starts_over:
  assumes "wait_record_for c (gn_id g) n now s = Inr r" "wr_on_deadline r = ''escalate''" "\<not> wc_dry_run c" "gn_id g \<noteq> []"
    and "wo_deadline (evaluate_wait (wc_float_text c) (wc_time c) (wc_number c) now world r)"
  shows "\<exists>prompt pause s1. run_wait_node c g n now world others s = (Inl (NeedsApproval (gn_id g) prompt pause), s1) \<and>
     (let s2 = ew_run (handle_failure ec wfl (NeedsApproval (gn_id g) prompt pause) (Some (gn_id g)) (w\<lparr>ew_run := s1\<rparr>));
          s3 = reopen (Some (gn_id g)) s2
      in wait_record_for c (gn_id g) n' now' s3 = build_record c (gn_id g) n' now' s3)"
proof -
  let ?prompt = "''Wait '' @ in_quotes (gn_id g) @ '' deadline reached; escalate''"
  let ?pause = "Some [(''on_expire'', PStr ''fail''), (''escalate_to'', PList (List.map PStr (wr_escalate_to r))), (''from_wait'', PBool True)]"
  let ?s1 = "rebroker r (clear_wait s)"
  have "\<not> wo_satisfied (evaluate_wait (wc_float_text c) (wc_time c) (wc_number c) now world r)"
    using assms(5) by (simp add: evaluate_satisfied evaluate_deadline)
  then have run: "run_wait_node c g n now world others s = (Inl (NeedsApproval (gn_id g) ?prompt ?pause), ?s1)"
    using assms(1-3,5) by (simp add: run_wait_node_def wait_deadline_def Let_def)
  let ?s2 = "ew_run (handle_failure ec wfl (NeedsApproval (gn_id g) ?prompt ?pause) (Some (gn_id g)) (w\<lparr>ew_run := ?s1\<rparr>))"
  let ?d = "approval_pending ec (node_at wfl (Some (gn_id g))) (rs_run_id ?s1) (gn_id g) ?prompt ?pause"
  have s2: "?s2 = ew_run (end_with ec ''paused'' (Some (gn_id g)) ?d (w\<lparr>ew_run := ?s1\<rparr>))"
    by (simp add: handle_failure_def Let_def emit_def)
  have d: "vget ?d ''type'' = PStr ''approval''" "?d \<noteq> []"
    by (simp_all add: approval_pending_def with_pause_def)
  have "vget (rs_metadata ?s1) ''_wait'' = PNone"
    by (auto simp: clear_wait_def rebroker_def vget_def AList.delete_conv' split: option.split)
  then have meta: "vget (rs_metadata ?s2) ''_wait'' = PNone"
    unfolding s2 by (simp add: end_with_pending(2))
  have "rs_pending ?s2 = Some ?d" unfolding s2 by (rule end_with_pending(1) [OF d(2)])
  then have "rs_pending (reopen (Some (gn_id g)) ?s2) = Some ?d \<or> rs_pending (reopen (Some (gn_id g)) ?s2) = None"
    by (auto simp: keeps_pending_def)
  then have "stored_record (gn_id g) (reopen (Some (gn_id g)) ?s2) = PNone"
    using d meta by (auto simp: stored_record_def sub_dict_def Let_def)
  then have "wait_record_for c (gn_id g) n' now' (reopen (Some (gn_id g)) ?s2) =
      build_record c (gn_id g) n' now' (reopen (Some (gn_id g)) ?s2)"
    by (simp add: wait_record_for_def record_from_state_def)
  with run show ?thesis by (auto simp: Let_def)
qed

section \<open>Events\<close>

fun accept_events :: "trigger_lib \<Rightarrow> string \<Rightarrow> (string \<times> string \<times> pydict \<times> string option \<times> string option) list \<Rightarrow>
    pydict list \<Rightarrow> pydict list" where
  "accept_events lib secret [] rows = rows"
| "accept_events lib secret ((ts, name, payload, signature, actor) # reqs) rows =
     accept_events lib secret reqs (snd (accept_event lib ts name payload (Some secret) signature actor rows))"

text \<open>A row of the event file that a signed request brought.\<close>

definition signed_row :: "trigger_lib \<Rightarrow> string \<Rightarrow> pydict \<Rightarrow> bool" where
  "signed_row lib secret row =
     (\<exists>name payload signature. vget row ''event_id'' = PStr (wait_event_id lib name payload) \<and>
        vget row ''name'' = PStr name \<and> vget row ''payload'' = PDict payload \<and>
        parse_signature_header signature = Some (tb_hmac lib secret (wait_event_body lib name payload)) \<and>
        int (length (wait_event_body lib name payload)) \<le> MAX_EVENT_BYTES)"

lemma accept_event_row:
  "snd (accept_event lib ts name payload (Some secret) signature actor rows) = rows \<or>
   (\<exists>row. snd (accept_event lib ts name payload (Some secret) signature actor rows) = rows @ [row] \<and> signed_row lib secret row \<and>
      vget row ''event_id'' \<notin> (\<lambda>row. vget row ''event_id'') ` set rows)"
  by (auto simp: accept_event_def Let_def signed_row_def verify_signed_body_def list_ex_iff)

text \<open>
  The events a wait can see are signed, bounded and distinct: whatever requests arrive, every row of
  the event file comes from a request whose signature is the code of its very name and payload,
  within the size limit, and no event id is there twice.
\<close>

theorem event_file_signed_once:
  "(\<forall>row \<in> set (accept_events lib secret reqs []). signed_row lib secret row) \<and>
   distinct (List.map (\<lambda>row. vget row ''event_id'') (accept_events lib secret reqs []))"
proof -
  have "(\<forall>row \<in> set rows. signed_row lib secret row) \<Longrightarrow> distinct (List.map (\<lambda>row. vget row ''event_id'') rows) \<Longrightarrow>
      (\<forall>row \<in> set (accept_events lib secret reqs rows). signed_row lib secret row) \<and>
      distinct (List.map (\<lambda>row. vget row ''event_id'') (accept_events lib secret reqs rows))" for rows
  proof (induction reqs arbitrary: rows)
    case (Cons req reqs)
    obtain ts name payload signature actor where req: "req = (ts, name, payload, signature, actor)" by (cases req)
    let ?rows = "snd (accept_event lib ts name payload (Some secret) signature actor rows)"
    have "(\<forall>row \<in> set ?rows. signed_row lib secret row) \<and> distinct (List.map (\<lambda>row. vget row ''event_id'') ?rows)"
      using accept_event_row [of lib ts name payload secret signature actor rows] Cons.prems by auto
    with Cons.IH [of ?rows] show ?case by (simp add: req)
  qed simp
  from this [of "[]"] show ?thesis by simp
qed

section \<open>Instances\<close>

text \<open>A clock that knows one time, ten seconds after the start, and a wait until then.\<close>

definition ten_clock :: time_lib where
  "ten_clock = \<lparr>tl_parse = (\<lambda>s. if s = ''d'' then Some 10 else None), tl_format = (\<lambda>t. ''d'')\<rparr>"

definition ten_ctx :: wait_ctx where
  "ten_ctx = \<lparr>wc_time = ten_clock, wc_float_text = (\<lambda>_. []), wc_number = (\<lambda>_. None), wc_dry_run = False,
     wc_max_waiting = None\<rparr>"

definition ten_spec :: wait_spec where
  "ten_spec = \<lparr>wn_until = ''d'', wn_for_event = Some [(''name'', PStr ''signed'')], wn_for_file = None, wn_for_run = None,
     wn_on_deadline = ''escalate'', wn_whichever = ''first'', wn_default = PNone, wn_escalate_to = [''boss'']\<rparr>"

definition ten_record :: wait_record where
  "ten_record = \<lparr>wr_node_id = ''a'', wr_until = ''d'', wr_deadline_at = ''d'', wr_on_deadline = ''escalate'',
     wr_whichever = ''first'', wr_for_event = Some [(''name'', PStr ''signed'')], wr_for_file = None, wr_for_run = None,
     wr_default = PNone, wr_escalate_to = [''boss''], wr_created_at = ''d'', wr_version = 1, wr_dormant_since = ''d'',
     wr_rebroker = True\<rparr>"

definition ten_state :: run_state where
  "ten_state = start_run ''r1'' ''demo'' [] [] ''d''"

definition ten_node :: graph_node where
  "ten_node = demo_node ''wait'' ''a'' None None"

abbreviation no_world :: wait_world where
  "no_world \<equiv> \<lparr>ww_events = [], ww_files = [], ww_runs = []\<rparr>"

lemma ten_valid: "wait_valid ten_record"
  by (simp add: wait_valid_def ten_record_def ON_DEADLINE_def WHICHEVER_def)

lemma ten_builds: "wait_record_for ten_ctx ''a'' ten_spec 0 ten_state = Inr ten_record"
  by code_simp

lemma ten_id: "gn_id ten_node = ''a''"
  by (simp add: ten_node_def demo_node_def demo_flow_def)

definition ten_waiting :: run_state where
  "ten_waiting = ten_state\<lparr>rs_status := ''waiting'', rs_pending := Some (wait_pending_of ''r1'' ten_record [])\<rparr>"

theorem wake_up_is_stable_witness:
  "wakes ten_ctx 12 (no_world\<lparr>ww_events := ww_events no_world @ [[(''name'', PStr ''other'')]]\<rparr>) ten_waiting"
proof -
  have "wakes ten_ctx 11 no_world ten_waiting" by code_simp
  then show ?thesis by (rule wake_up_is_stable) simp
qed

theorem wait_record_roundtrip_witness:
  "wait_from_dict (\<lambda>_. []) (wait_as_dict ten_record) = Some ten_record"
  by (rule wait_record_roundtrip [OF ten_valid])

lemma ten_parks:
  "(case run_wait_node ten_ctx ten_node ten_spec 0 no_world 0 ten_state of (Inl (Parked _ _ _), _) \<Rightarrow> True | _ \<Rightarrow> False)"
  by code_simp

theorem parked_wait_keeps_deadline_witness:
  "\<exists>node rec pend s1. run_wait_node ten_ctx ten_node ten_spec 0 no_world 0 ten_state = (Inl (Parked node rec pend), s1) \<and>
     wait_record_for ten_ctx ''a'' (ten_spec\<lparr>wn_until := ''72h''\<rparr>) 9
       (reopen (Some ''a'') (ew_run (handle_failure demo_ctx demo_workflow (Parked node rec pend) (Some ''a'') (demo_world\<lparr>ew_run := s1\<rparr>)))) =
     Inr ten_record"
proof -
  obtain node rec pend s1 where p: "run_wait_node ten_ctx ten_node ten_spec 0 no_world 0 ten_state = (Inl (Parked node rec pend), s1)"
    using ten_parks
    by (cases "run_wait_node ten_ctx ten_node ten_spec 0 no_world 0 ten_state") (auto split: sum.splits failure.splits)
  have b: "wait_record_for ten_ctx (gn_id ten_node) ten_spec 0 ten_state = Inr ten_record" by (simp add: ten_id ten_builds)
  have i: "gn_id ten_node \<noteq> []" "wr_node_id ten_record = gn_id ten_node" by (simp_all add: ten_id ten_record_def)
  note kept = parked_wait_keeps_deadline [OF b ten_valid i(2,1) p refl,
      of "ten_spec\<lparr>wn_until := ''72h''\<rparr>" 9 demo_ctx demo_workflow "Some ''a''" demo_world, unfolded ten_id]
  show ?thesis by (intro exI conjI) (rule p, rule kept)
qed

theorem escalated_wait_starts_over_witness:
  "\<exists>prompt pause s1. run_wait_node ten_ctx ten_node ten_spec 10 no_world 0 ten_state = (Inl (NeedsApproval ''a'' prompt pause), s1) \<and>
     (let s2 = ew_run (handle_failure demo_ctx demo_workflow (NeedsApproval ''a'' prompt pause) (Some ''a'') (demo_world\<lparr>ew_run := s1\<rparr>));
          s3 = reopen (Some ''a'') s2
      in wait_record_for ten_ctx ''a'' ten_spec 11 s3 = build_record ten_ctx ''a'' ten_spec 11 s3)"
proof -
  have "wait_record_for ten_ctx ''a'' ten_spec 10 ten_state = Inr ten_record" by code_simp
  then have b: "wait_record_for ten_ctx (gn_id ten_node) ten_spec 10 ten_state = Inr ten_record" by (simp add: ten_id)
  have d: "wo_deadline (evaluate_wait (wc_float_text ten_ctx) (wc_time ten_ctx) (wc_number ten_ctx) 10 no_world ten_record)"
    by code_simp
  have "wr_on_deadline ten_record = ''escalate''" "\<not> wc_dry_run ten_ctx" "gn_id ten_node \<noteq> []"
    by (simp_all add: ten_record_def ten_ctx_def ten_id)
  note over = escalated_wait_starts_over [OF b this d, of 0 demo_ctx demo_workflow demo_world ten_spec 11,
      unfolded ten_id]
  show ?thesis by (rule over)
qed

text \<open>A library that signs with the key and the body.\<close>

definition plain_lib :: trigger_lib where
  "plain_lib = \<lparr>tb_time = ten_clock, tb_float_text = (\<lambda>_. []), tb_loads = (\<lambda>_. None), tb_dumps = (\<lambda>d. ''body''),
     tb_sha = id, tb_hmac = (\<lambda>k s. k @ s)\<rparr>"

theorem event_file_signed_once_witness:
  "\<exists>row. accept_events plain_lib ''k'' [(''t'', ''signed'', [], Some ''kbody'', None), (''t'', ''signed'', [], Some ''kbody'', None)] [] = [row] \<and>
     signed_row plain_lib ''k'' row"
proof -
  have "length (accept_events plain_lib ''k'' [(''t'', ''signed'', [], Some ''kbody'', None), (''t'', ''signed'', [], Some ''kbody'', None)] []) = 1"
    by code_simp
  then obtain row where row: "accept_events plain_lib ''k'' [(''t'', ''signed'', [], Some ''kbody'', None), (''t'', ''signed'', [], Some ''kbody'', None)] [] = [row]"
    by (auto simp: length_Suc_conv)
  with event_file_signed_once [of plain_lib "''k''" "[(''t'', ''signed'', [], Some ''kbody'', None), (''t'', ''signed'', [], Some ''kbody'', None)]"]
  show ?thesis by simp
qed

end
