(* ===== verification/Fanout.thy ===== *)
theory Fanout
  imports Nodes
begin

text \<open>
  The nodes that run other nodes, \<open>_run_foreach\<close> and \<open>_run_parallel\<close> in
  \<open>workflow/nodes.py\<close>. Threads appear as the order in which their results come
  back; the buckets in the metadata of a run are Python dictionaries that a child run shares with
  its parent when the parent already has them, so what a child writes there is written back.
\<close>

section \<open>Buckets\<close>

definition DEFAULT_MAX_FOREACH :: int where
  "DEFAULT_MAX_FOREACH = 32"

definition HARD_MAX_FOREACH :: int where
  "HARD_MAX_FOREACH = 100"

definition HARD_SCALE_FOREACH :: int where
  "HARD_SCALE_FOREACH = 100000"

definition FOREACH_META :: string where "FOREACH_META = ''_foreach''"
definition PARALLEL_META :: string where "PARALLEL_META = ''_parallel''"
definition INCLUDE_META :: string where "INCLUDE_META = ''_include''"

text \<open>\<open>_meta_bucket\<close> followed by the assignment of one entry.\<close>

definition bucket_of :: "string \<Rightarrow> run_state \<Rightarrow> pydict" where
  "bucket_of key s = (case vget (rs_metadata s) key of PDict d \<Rightarrow> d | _ \<Rightarrow> [])"

definition put_bucket :: "string \<Rightarrow> string \<Rightarrow> pyval \<Rightarrow> run_state \<Rightarrow> run_state" where
  "put_bucket key node v s =
     s\<lparr>rs_metadata := dset key (PDict (dset node v (bucket_of key s))) (rs_metadata s)\<rparr>"

text \<open>
  A child started with \<open>metadata=state.metadata\<close> copies the outer dictionary only: a bucket the
  parent has is the same object in both, and one the child creates is its own.
\<close>

definition share_bucket :: "run_state \<Rightarrow> string \<Rightarrow> run_state \<Rightarrow> run_state" where
  "share_bucket child key parent =
     (if is_dict (vget (rs_metadata parent) key)
      then parent\<lparr>rs_metadata := dset key (PDict (bucket_of key child)) (rs_metadata parent)\<rparr> else parent)"

definition write_back :: "run_state \<Rightarrow> run_state \<Rightarrow> run_state" where
  "write_back child parent =
     share_bucket child INCLUDE_META (share_bucket child PARALLEL_META (share_bucket child FOREACH_META parent))"

definition store_run :: "engine_world \<Rightarrow> engine_world" where
  "store_run w = emit (Persisted (ew_run w)) w"

section \<open>Foreach\<close>

record foreach_spec =
  fe_items :: string
  fe_max_items :: "int option"
  fe_scale_items :: "int option"
  fe_concurrency :: "int option"

definition foreach_cap :: "foreach_spec \<Rightarrow> int" where
  "foreach_cap f =
     (case fe_scale_items f of
        Some n \<Rightarrow> max 1 (min n HARD_SCALE_FOREACH)
      | None \<Rightarrow> max 1 (min (case fe_max_items f of Some n \<Rightarrow> n | None \<Rightarrow> DEFAULT_MAX_FOREACH) HARD_MAX_FOREACH))"

definition type_name :: "pyval \<Rightarrow> string" where
  "type_name v =
     (case v of PNone \<Rightarrow> ''NoneType'' | PBool _ \<Rightarrow> ''bool'' | PInt _ \<Rightarrow> ''int'' | PFloat _ \<Rightarrow> ''float''
      | PStr _ \<Rightarrow> ''str'' | PList _ \<Rightarrow> ''list'' | PDict _ \<Rightarrow> ''dict'')"

definition loads_or :: "(string \<Rightarrow> string + pyval) \<Rightarrow> string \<Rightarrow> pyval \<Rightarrow> pyval" where
  "loads_or loads text v = (case loads text of Inl _ \<Rightarrow> v | Inr x \<Rightarrow> x)"

definition foreach_items :: "(rat \<Rightarrow> string) \<Rightarrow> body_ctx \<Rightarrow> graph_node \<Rightarrow> foreach_spec \<Rightarrow> run_state \<Rightarrow>
    failure + pyval list" where
  "foreach_items fr b n f s =
     (let ns = mapping s in
      rbind (case lookup_path ns (fe_items f) of
               Some v \<Rightarrow> Inr v
             | None \<Rightarrow>
                 (case interpolate fr (fe_items f) ns of
                    Inl e \<Rightarrow> Inl (template_failure (template_message e))
                  | Inr text \<Rightarrow> Inr (loads_or (bd_loads b) text (PStr text))))
        (\<lambda>raw.
          let raw = (case raw of
                PStr text \<Rightarrow>
                  (let stripped = strip text
                   in if starts_with stripped ''['' \<or> starts_with stripped ''{''
                      then loads_or (bd_loads b) stripped raw else raw)
              | _ \<Rightarrow> raw)
          in case raw of
               PList xs \<Rightarrow> Inr xs
             | _ \<Rightarrow> Inl (node_error n (''foreach items must be a list (got '' @ type_name raw @ '')''))))"

text \<open>The outputs of an earlier visit, and the rows that keep the outputs of this one.\<close>

definition prior_outputs :: "pyval \<Rightarrow> pyval list" where
  "prior_outputs v =
     (case v of
        PList rows \<Rightarrow>
          concat (List.map (\<lambda>row. case row of
              PDict d \<Rightarrow> if vget d ''status'' = PStr ''ok'' then [vget d ''output''] else []
            | _ \<Rightarrow> []) rows)
      | _ \<Rightarrow> [])"

definition output_rows :: "pyval list \<Rightarrow> pyval" where
  "output_rows outputs =
     PList (List.map (\<lambda>(i, v). PDict [(''index'', PInt (int i)), (''status'', PStr ''ok''), (''output'', v)])
       (zip [0..<length outputs] outputs))"

text \<open>\<open>_foreach_one\<close>: the child run of an item, and the body on it under its policy.\<close>

definition foreach_child :: "(rat \<Rightarrow> string) \<Rightarrow> string \<Rightarrow> foreach_spec \<Rightarrow> string \<Rightarrow> pyval \<Rightarrow> nat \<Rightarrow> run_state \<Rightarrow> run_state" where
  "foreach_child fr now f node item index s =
     (let i = PInt (int index);
          child = start_run (rs_run_id s) (rs_workflow_name s) (dset ''index'' i (dset ''item'' item (rs_inputs s)))
                    (rs_metadata s) now
      in seed_foreach_item_provenance fr s (fe_items f) node
           (child\<lparr>rs_node_outputs := dset ''index'' i (dset ''item'' item (rs_node_outputs s)),
                  rs_output_keys := dset ''index'' i (dset ''item'' item (rs_output_keys s))\<rparr>))"

text \<open>\<open>exec\<close> is \<open>execute_node_with_policy\<close> on the body, in a world whose run is the child.\<close>

type_synonym item_runner = "engine_world \<Rightarrow> (failure + pyval) \<times> engine_world"

definition foreach_one :: "engine_ctx \<Rightarrow> item_runner \<Rightarrow> foreach_spec \<Rightarrow> string \<Rightarrow> pyval \<Rightarrow> nat \<Rightarrow> engine_world \<Rightarrow>
    (failure + pyval) \<times> engine_world" where
  "foreach_one c exec f node item index w =
     (let parent = ew_run w;
          child = foreach_child (ec_text c) (now_of c w) f node item index parent
      in case exec (w\<lparr>ew_run := child, ew_tool_rounds := []\<rparr>) of
           (r, v) \<Rightarrow> (r, v\<lparr>ew_run := write_back (ew_run v) parent, ew_tool_rounds := ew_tool_rounds w\<rparr>))"

definition keep_outputs :: "string \<Rightarrow> pyval list \<Rightarrow> engine_world \<Rightarrow> engine_world" where
  "keep_outputs node outputs w = store_run (on_run (put_bucket FOREACH_META node (output_rows outputs)) w)"

text \<open>One worker: item after item, each stored before the next.\<close>

fun foreach_loop :: "(pyval \<Rightarrow> nat \<Rightarrow> item_runner) \<Rightarrow> string \<Rightarrow> (nat \<times> pyval) list \<Rightarrow> pyval list \<Rightarrow> engine_world \<Rightarrow>
    (failure + pyval list) \<times> engine_world" where
  "foreach_loop one node [] outputs w = (Inr outputs, w)"
| "foreach_loop one node ((i, item) # rest) outputs w =
     (case one item i w of
        (Inl e, w) \<Rightarrow> (Inl e, w)
      | (Inr v, w) \<Rightarrow> foreach_loop one node rest (outputs @ [v]) (keep_outputs node (outputs @ [v]) w))"

text \<open>\<open>_foreach_contiguous_prefix\<close>; the gap comes at the latest after all that was collected.\<close>

fun contiguous :: "nat \<Rightarrow> nat \<Rightarrow> (nat \<times> pyval) list \<Rightarrow> pyval list" where
  "contiguous 0 i collected = []"
| "contiguous (Suc left) i collected =
     (case map_of collected i of None \<Rightarrow> [] | Some v \<Rightarrow> v # contiguous left (Suc i) collected)"

definition contiguous_prefix :: "pyval list \<Rightarrow> (nat \<times> pyval) list \<Rightarrow> pyval list" where
  "contiguous_prefix outputs collected = outputs @ contiguous (length collected) (length outputs) collected"

text \<open>
  Several workers: the results in the order in which they come back. A failure is kept, the first
  one wins; every success stores the items that are complete from the start.
\<close>

fun foreach_gather :: "string \<Rightarrow> pyval list \<Rightarrow> (nat \<times> (failure + pyval)) list \<Rightarrow> (nat \<times> pyval) list \<Rightarrow>
    failure option \<Rightarrow> engine_world \<Rightarrow> (failure + pyval list) \<times> engine_world" where
  "foreach_gather node outputs [] collected err w =
     (let prefix = contiguous_prefix outputs collected
      in (case err of None \<Rightarrow> Inr prefix | Some e \<Rightarrow> Inl e, keep_outputs node prefix w))"
| "foreach_gather node outputs ((i, Inl e) # rest) collected err w =
     foreach_gather node outputs rest collected (if err = None then Some e else err) w"
| "foreach_gather node outputs ((i, Inr v) # rest) collected err w =
     (let collected = dset i v collected
      in foreach_gather node outputs rest collected err (keep_outputs node (contiguous_prefix outputs collected) w))"

text \<open>The results of the workers, in the order of their completion, and the world after them.\<close>

type_synonym item_pool = "(nat \<times> pyval) list \<Rightarrow> engine_world \<Rightarrow> (nat \<times> (failure + pyval)) list \<times> engine_world"

definition run_foreach :: "engine_ctx \<Rightarrow> body_ctx \<Rightarrow> (pyval \<Rightarrow> nat \<Rightarrow> item_runner) \<Rightarrow> item_pool \<Rightarrow> foreach_spec \<Rightarrow>
    graph_node \<Rightarrow> engine_world \<Rightarrow> (failure + pyval) \<times> engine_world" where
  "run_foreach c b one pool f n w =
     (case foreach_items (ec_text c) b n f (ew_run w) of
        Inl e \<Rightarrow> (Inl e, w)
      | Inr items \<Rightarrow>
          if foreach_cap f < int (length items)
          then (Inl (node_error n (''foreach exceeded max_items='' @ int_text (foreach_cap f))), w)
          else
            (let outputs = prior_outputs (vget (bucket_of FOREACH_META (ew_run w)) (gn_id n));
                 w = on_run (\<lambda>s. s\<lparr>rs_metadata := dset FOREACH_META (PDict (bucket_of FOREACH_META s)) (rs_metadata s)\<rparr>) w;
                 remaining = filter (\<lambda>(i, x). length outputs \<le> i) (zip [0..<length items] items);
                 workers = (case fe_concurrency f of None \<Rightarrow> 1 | Some k \<Rightarrow> if k = 0 then 1 else k)
             in map_prod (map_sum id PList) id
                  (if workers \<le> 1 \<or> length remaining \<le> 1 then foreach_loop one (gn_id n) remaining outputs w
                   else (case pool remaining w of
                           (results, w) \<Rightarrow> foreach_gather (gn_id n) outputs results [] None w))))"

section \<open>Parallel\<close>

text \<open>\<open>_one\<close>: errors that are no verdict of their own become a \<open>NodeError\<close> of the branch.\<close>

definition BRANCH_RAISES :: "error_class list" where
  "BRANCH_RAISES = [BudgetErr, RouteBudgetErr, AuthorizationErr, CircuitErr, RunawayErr, CassetteMissErr, PolicyDeniedErr]"

definition branch_failure :: "graph_node \<Rightarrow> failure \<Rightarrow> failure" where
  "branch_failure branch f =
     (case f of
        Raised k name message \<Rightarrow>
          if (case k of NodeErr i \<Rightarrow> True | _ \<Rightarrow> k \<in> set BRANCH_RAISES) then f
          else node_error branch (''parallel branch '' @ in_quotes (gn_id branch) @ '' failed: '' @ message)
      | _ \<Rightarrow> f)"

fun gather_branches :: "(graph_node \<times> (failure + pyval)) list \<Rightarrow> (string \<times> pyval) list \<Rightarrow> failure option \<Rightarrow>
    (string \<times> pyval) list \<times> failure option" where
  "gather_branches [] collected err = (collected, err)"
| "gather_branches ((branch, Inl f) # rest) collected err =
     gather_branches rest collected (if err = None then Some (branch_failure branch f) else err)"
| "gather_branches ((branch, Inr v) # rest) collected err = gather_branches rest (dset (gn_id branch) v collected) err"

text \<open>The branches of an earlier visit that are done, in the order of the declaration.\<close>

definition prior_branches :: "graph_node list \<Rightarrow> pydict \<Rightarrow> (string \<times> pyval) list" where
  "prior_branches branches prior =
     foldl (\<lambda>d branch. case map_of prior (gn_id branch) of None \<Rightarrow> d | Some v \<Rightarrow> dset (gn_id branch) v d) [] branches"

definition parallel_prior :: "string \<Rightarrow> run_state \<Rightarrow> pydict" where
  "parallel_prior node s = (case vget (bucket_of PARALLEL_META s) node of PDict d \<Rightarrow> d | _ \<Rightarrow> [])"

type_synonym branch_pool = "graph_node list \<Rightarrow> engine_world \<Rightarrow> (graph_node \<times> (failure + pyval)) list \<times> engine_world"

definition run_parallel :: "branch_pool \<Rightarrow> graph_node list \<Rightarrow> graph_node \<Rightarrow> engine_world \<Rightarrow>
    (failure + pyval) \<times> engine_world" where
  "run_parallel pool branches n w =
     (if branches = [] then (Inl (node_error n (''parallel nodes require '' @ in_quotes ''branches'')), w)
      else
        (let prior = parallel_prior (gn_id n) (ew_run w);
             remaining = filter (\<lambda>br. map_of prior (gn_id br) = None) branches;
             (results, w) = (if remaining = [] then ([], w) else pool remaining w);
             (collected, err) = gather_branches results (prior_branches branches prior) None;
             w = store_run (on_run (put_bucket PARALLEL_META (gn_id n) (PDict collected)) w)
         in case err of
              Some f \<Rightarrow> (Inl f, w)
            | None \<Rightarrow> (Inr (PDict (List.map (\<lambda>br. (gn_id br, dget_or collected (gn_id br) PNone)) branches)), w)))"

end
