(* ===== verification/FanoutSafety.thy ===== *)
theory FanoutSafety
  imports Fanout EngineSafety
begin

text \<open>
  What a foreach and a parallel node promise: a foreach gives the outputs of its items in the order
  of the items, however many workers it has and in whatever order they finish; a failed one keeps
  the items that are complete from the start and a later visit runs only the others; the result of
  a parallel node does not depend on the order in which its branches finish.
\<close>

section \<open>Buckets\<close>

lemma bucket_put_bucket [simp]:
  "bucket_of key (put_bucket key' node v s) = (if key = key' then dset node v (bucket_of key s) else bucket_of key s)"
  by (simp add: bucket_of_def put_bucket_def)

lemma bucket_setdefault [simp]:
  "bucket_of key (s\<lparr>rs_metadata := dset key (PDict (bucket_of key s)) (rs_metadata s)\<rparr>) = bucket_of key s"
  by (simp add: bucket_of_def)

lemma ew_run_store [simp]: "ew_run (store_run w) = ew_run w"
  by (simp add: store_run_def)

lemma ew_run_keep_outputs [simp]:
  "ew_run (keep_outputs node outputs w) = put_bucket FOREACH_META node (output_rows outputs) (ew_run w)"
  by (simp add: keep_outputs_def)

text \<open>The rows of a visit are read back as its outputs.\<close>

lemma concat_singletons: "concat (List.map (\<lambda>x. [f x]) xs) = List.map f xs"
  by (induction xs) auto

lemma prior_output_rows [simp]: "prior_outputs (output_rows xs) = xs"
proof -
  have "prior_outputs (output_rows xs) = concat (List.map (\<lambda>(i, v). [v]) (zip [0..<length xs] xs))"
    by (simp add: prior_outputs_def output_rows_def o_def split_def)
  also have "\<dots> = List.map snd (zip [0..<length xs] xs)"
    by (simp add: split_def concat_singletons)
  finally show ?thesis by simp
qed

section \<open>Items\<close>

definition outputs_of :: "(nat \<Rightarrow> pyval \<Rightarrow> pyval) \<Rightarrow> pyval list \<Rightarrow> nat \<Rightarrow> nat \<Rightarrow> pyval list" where
  "outputs_of g items a b = List.map (\<lambda>i. g i (items ! i)) [a..<b]"

lemma outputs_of_append: "a \<le> b \<Longrightarrow> b \<le> c \<Longrightarrow> outputs_of g items a b @ outputs_of g items b c = outputs_of g items a c"
  by (simp add: outputs_of_def map_append[symmetric] del: map_append)
    (metis le_add_diff_inverse upt_add_eq_append)

lemma length_outputs_of [simp]: "length (outputs_of g items a b) = b - a"
  by (simp add: outputs_of_def)

definition left_items :: "pyval list \<Rightarrow> nat \<Rightarrow> (nat \<times> pyval) list" where
  "left_items items k = List.map (\<lambda>i. (i, items ! i)) [k..<length items]"

lemma left_items_eq:
  "filter (\<lambda>(i, x). k \<le> i) (zip [0..<length items] items) = left_items items k"
proof -
  have "zip [0..<length items] items = List.map (\<lambda>i. (i, items ! i)) [0..<length items]"
    by (rule nth_equalityI) auto
  moreover have "filter ((\<le>) k) [0..<n] = [k..<n]" for n :: nat
    by (induction n) auto
  ultimately show ?thesis
    by (simp add: left_items_def filter_map o_def split_def)
qed

section \<open>One worker and several\<close>

lemma foreach_loop_completes:
  assumes "\<And>i x w. (i, x) \<in> set rest \<Longrightarrow> fst (one x i w) = Inr (g i x)"
  shows "fst (foreach_loop one node rest outputs w) = Inr (outputs @ List.map (\<lambda>(i, x). g i x) rest)"
  using assms
proof (induction one node rest outputs w rule: foreach_loop.induct)
  case (2 one node i item rest outputs w)
  have ok: "fst (one item i w) = Inr (g i item)" by (rule "2.prems") simp
  then obtain v where v: "one item i w = (Inr (g i item), v)" by (cases "one item i w") simp
  have "fst (foreach_loop one node rest (outputs @ [g i item]) (keep_outputs node (outputs @ [g i item]) v)) =
      Inr ((outputs @ [g i item]) @ List.map (\<lambda>(i, x). g i x) rest)"
    using "2.IH"[OF v[symmetric] refl] "2.prems" by simp
  then show ?case by (simp add: v)
qed simp

text \<open>What the results of a pool leave in \<open>collected\<close>.\<close>

fun collect_oks :: "(nat \<times> (failure + pyval)) list \<Rightarrow> (nat \<times> pyval) list \<Rightarrow> (nat \<times> pyval) list" where
  "collect_oks [] d = d"
| "collect_oks ((i, Inl e) # rest) d = collect_oks rest d"
| "collect_oks ((i, Inr v) # rest) d = collect_oks rest (dset i v d)"

fun first_failure :: "(nat \<times> (failure + pyval)) list \<Rightarrow> failure option" where
  "first_failure [] = None"
| "first_failure ((i, Inl e) # rest) = Some e"
| "first_failure ((i, Inr v) # rest) = first_failure rest"

lemma first_failure_None: "first_failure rs = None \<longleftrightarrow> (\<forall>(i, r) \<in> set rs. \<not> isl r)"
  by (induction rs rule: first_failure.induct) auto

lemma foreach_gather_result:
  "fst (foreach_gather node outputs rs d err w) =
     (case err of Some e \<Rightarrow> Inl e
      | None \<Rightarrow> (case first_failure rs of Some e \<Rightarrow> Inl e
                | None \<Rightarrow> Inr (contiguous_prefix outputs (collect_oks rs d))))"
  by (induction node outputs rs d err w rule: foreach_gather.induct) (auto simp: Let_def split: option.splits)

lemma foreach_gather_rows:
  "vget (bucket_of FOREACH_META (ew_run (snd (foreach_gather node outputs rs d err w)))) node =
     output_rows (contiguous_prefix outputs (collect_oks rs d))"
  by (induction node outputs rs d err w rule: foreach_gather.induct) (auto simp: Let_def)

lemma map_of_collect_oks:
  "distinct (List.map fst rs) \<Longrightarrow>
   map_of (collect_oks rs d) i =
     (case map_of rs i of Some (Inr v) \<Rightarrow> Some v | _ \<Rightarrow> map_of d i)"
  by (induction rs d rule: collect_oks.induct) (auto simp: map_of_eq_None_iff[THEN iffD2] split: option.splits sum.splits)

lemma length_collect_oks:
  "distinct (List.map fst rs) \<Longrightarrow> fst ` set rs \<inter> fst ` set d = {} \<Longrightarrow> \<forall>(i, r) \<in> set rs. \<not> isl r \<Longrightarrow>
   length (collect_oks rs d) = length rs + length d"
proof (induction rs d rule: collect_oks.induct)
  case (3 i v rest d)
  have "length (dset i v d) = Suc (length d)"
    using "3.prems"(2) by (induction d) auto
  moreover have "fst ` set rest \<inter> fst ` set (dset i v d) = {}"
    using "3.prems"(1,2) by (auto simp: dom_update[unfolded dom_map_of_conv_image_fst] image_iff)
  ultimately show ?case using 3 by auto
qed auto

lemma contiguous_full:
  "(\<And>j. a \<le> j \<Longrightarrow> j < a + k \<Longrightarrow> map_of d j = Some (f j)) \<Longrightarrow> contiguous k a d = List.map f [a..<a + k]"
  by (induction k arbitrary: a) (simp_all add: upt_conv_Cons del: upt_Suc)

lemma contiguous_part:
  assumes "\<And>j v. map_of d j = Some v \<Longrightarrow> v = f j"
  obtains k' where "k' \<le> k" "contiguous k a d = List.map f [a..<a + k']"
    "\<And>j. j < k' \<Longrightarrow> map_of d (a + j) \<noteq> None" "k' < k \<Longrightarrow> map_of d (a + k') = None"
proof -
  have "\<exists>k' \<le> k. contiguous k a d = List.map f [a..<a + k'] \<and> (\<forall>j < k'. map_of d (a + j) \<noteq> None) \<and>
      (k' < k \<longrightarrow> map_of d (a + k') = None)"
  proof (induction k arbitrary: a)
    case (Suc k)
    show ?case
    proof (cases "map_of d a")
      case (Some v)
      obtain k' where k': "k' \<le> k" "contiguous k (Suc a) d = List.map f [Suc a..<Suc a + k']"
        "\<forall>j < k'. map_of d (Suc a + j) \<noteq> None" "k' < k \<longrightarrow> map_of d (Suc a + k') = None"
        using Suc.IH by blast
      have "contiguous (Suc k) a d = List.map f [a..<a + Suc k']"
        using assms[OF Some] k'(2) by (simp add: Some upt_conv_Cons del: upt_Suc)
      moreover have "\<forall>j < Suc k'. map_of d (a + j) \<noteq> None"
        using k'(3) Some by (auto simp: less_Suc_eq_0_disj)
      ultimately show ?thesis using k'(1,4) by (intro exI[of _ "Suc k'"]) simp
    qed (auto intro: exI[of _ 0])
  qed simp
  then show ?thesis using that by blast
qed

section \<open>A visit from a stored prefix\<close>

abbreviation kept :: "graph_node \<Rightarrow> engine_world \<Rightarrow> pyval list" where
  "kept n w \<equiv> prior_outputs (vget (bucket_of FOREACH_META (ew_run w)) (gn_id n))"

text \<open>The results of a pool: one for each item it was given, those that are values being right.\<close>

definition fair_pool :: "(nat \<Rightarrow> pyval \<Rightarrow> pyval) \<Rightarrow> pyval list \<Rightarrow> nat \<Rightarrow> item_pool \<Rightarrow> bool" where
  "fair_pool g items k pool \<longleftrightarrow>
     (\<forall>w. mset (List.map fst (fst (pool (left_items items k) w))) = mset [k..<length items] \<and>
          (\<forall>(i, r) \<in> set (fst (pool (left_items items k) w)). isl r \<or> r = Inr (g i (items ! i))))"

lemma fair_pool_distinct: "fair_pool g items k pool \<Longrightarrow> distinct (List.map fst (fst (pool (left_items items k) w)))"
  unfolding fair_pool_def using mset_eq_imp_distinct_iff[of _ "[k..<length items]"] by (metis distinct_upt)

lemma fair_pool_indices: "fair_pool g items k pool \<Longrightarrow> fst ` set (fst (pool (left_items items k) w)) = {k..<length items}"
  unfolding fair_pool_def using mset_eq_setD[of _ "[k..<length items]"] by (metis list.set_map set_upt)

lemma fair_pool_value:
  "fair_pool g items k pool \<Longrightarrow> (i, Inr v) \<in> set (fst (pool (left_items items k) w)) \<Longrightarrow> v = g i (items ! i)"
  unfolding fair_pool_def by fastforce

lemmas fair_pool_facts = fair_pool_distinct fair_pool_indices fair_pool_value

text \<open>What is complete from the start, after the results of a fair pool.\<close>

lemma fair_prefix:
  assumes "fair_pool g items k pool" "k \<le> length items"
  obtains j where "k \<le> j" "j \<le> length items"
    "contiguous_prefix (outputs_of g items 0 k) (collect_oks (fst (pool (left_items items k) w)) []) = outputs_of g items 0 j"
proof -
  let ?rs = "fst (pool (left_items items k) w)"
  let ?d = "collect_oks ?rs []"
  note facts = fair_pool_facts[OF assms(1), where w = w]
  have right: "v = g i (items ! i)" if "map_of ?d i = Some v" for i v
    using that facts(1) by (auto simp: map_of_collect_oks split: option.splits sum.splits dest: map_of_SomeD facts(3))
  obtain k' where k': "contiguous (length ?d) k ?d = List.map (\<lambda>i. g i (items ! i)) [k..<k + k']"
    "\<And>j. j < k' \<Longrightarrow> map_of ?d (k + j) \<noteq> None"
    using contiguous_part[where d = ?d and f = "\<lambda>i. g i (items ! i)" and k = "length ?d" and a = k, OF right] by blast
  have "k + k' \<le> length items"
  proof (cases k')
    case (Suc m)
    then have "map_of ?d (k + m) \<noteq> None" using k'(2) by blast
    then have "k + m \<in> fst ` set ?rs"
      using facts(1) by (auto simp: map_of_collect_oks image_iff split: option.splits sum.splits dest!: map_of_SomeD) force
    then show ?thesis using Suc facts(2) by simp
  qed (use assms(2) in simp)
  then show ?thesis
    using that[of "k + k'"] k'(1) outputs_of_append[of 0 k "k + k'" g items]
    by (simp add: contiguous_prefix_def outputs_of_def)
qed

lemma fair_prefix_all:
  assumes "fair_pool g items k pool" "k \<le> length items" "first_failure (fst (pool (left_items items k) w)) = None"
  shows "contiguous_prefix (outputs_of g items 0 k) (collect_oks (fst (pool (left_items items k) w)) []) =
    outputs_of g items 0 (length items)"
proof -
  let ?rs = "fst (pool (left_items items k) w)"
  let ?d = "collect_oks ?rs []"
  note facts = fair_pool_facts[OF assms(1), where w = w]
  have ok: "\<forall>(i, r) \<in> set ?rs. \<not> isl r" using assms(3) by (simp add: first_failure_None)
  have "length ?d = length ?rs" using length_collect_oks[of ?rs "[]"] facts(1) ok by simp
  also have "\<dots> = length items - k"
    using distinct_card[OF facts(1)] facts(2) by simp
  finally have len: "k + length ?d = length items" using assms(2) by simp
  have "map_of ?d j = Some (g j (items ! j))" if "k \<le> j" "j < k + length ?d" for j
  proof -
    have "j \<in> fst ` set ?rs" using that len facts(2) by simp
    then obtain r where r: "(j, r) \<in> set ?rs" by auto
    then obtain v where v: "r = Inr v" using ok by (cases r) auto
    show ?thesis using r v facts(1,3) by (simp add: map_of_collect_oks)
  qed
  then have "contiguous (length ?d) k ?d = outputs_of g items k (length items)"
    using contiguous_full[of k "length ?d" ?d "\<lambda>j. g j (items ! j)"] by (simp add: outputs_of_def len)
  then show ?thesis using assms(2) by (simp add: contiguous_prefix_def outputs_of_append)
qed

section \<open>The node\<close>

definition item_workers :: "foreach_spec \<Rightarrow> int" where
  "item_workers f = (case fe_concurrency f of None \<Rightarrow> 1 | Some k \<Rightarrow> if k = 0 then 1 else k)"

definition open_bucket :: "engine_world \<Rightarrow> engine_world" where
  "open_bucket w = on_run (\<lambda>s. s\<lparr>rs_metadata := dset FOREACH_META (PDict (bucket_of FOREACH_META s)) (rs_metadata s)\<rparr>) w"

lemma kept_open_bucket [simp]: "bucket_of FOREACH_META (ew_run (open_bucket w)) = bucket_of FOREACH_META (ew_run w)"
  by (simp add: open_bucket_def)

lemma run_foreach_eq:
  assumes "foreach_items (ec_text c) b n f (ew_run w) = Inr items" "int (length items) \<le> foreach_cap f"
    "kept n w = outputs_of g items 0 k" "k \<le> length items"
  shows "run_foreach c b one pool f n w = map_prod (map_sum id PList) id
    (if item_workers f \<le> 1 \<or> length items - k \<le> 1
     then foreach_loop one (gn_id n) (left_items items k) (outputs_of g items 0 k) (open_bucket w)
     else foreach_gather (gn_id n) (outputs_of g items 0 k) (fst (pool (left_items items k) (open_bucket w))) [] None
       (snd (pool (left_items items k) (open_bucket w))))"
  using assms left_items_eq[of k items]
  by (simp add: run_foreach_def item_workers_def open_bucket_def Let_def split_def left_items_def)

lemma foreach_completes:
  assumes "foreach_items (ec_text c) b n f (ew_run w) = Inr items" "int (length items) \<le> foreach_cap f"
    "kept n w = outputs_of g items 0 k" "k \<le> length items"
    "\<And>i v. k \<le> i \<Longrightarrow> i < length items \<Longrightarrow> fst (one (items ! i) i v) = Inr (g i (items ! i))"
    "fair_pool g items k pool"
    "\<And>v. first_failure (fst (pool (left_items items k) v)) = None"
  shows "fst (run_foreach c b one pool f n w) = Inr (PList (outputs_of g items 0 (length items)))"
proof -
  have "fst (foreach_loop one (gn_id n) (left_items items k) (outputs_of g items 0 k) (open_bucket w)) =
      Inr (outputs_of g items 0 k @ List.map (\<lambda>(i, x). g i x) (left_items items k))"
    using assms(5) by (intro foreach_loop_completes) (auto simp: left_items_def)
  also have "List.map (\<lambda>(i, x). g i x) (left_items items k) = outputs_of g items k (length items)"
    by (simp add: left_items_def outputs_of_def)
  finally have loop: "fst (foreach_loop one (gn_id n) (left_items items k) (outputs_of g items 0 k) (open_bucket w)) =
      Inr (outputs_of g items 0 (length items))"
    using assms(4) by (simp add: outputs_of_append)
  show ?thesis
    using run_foreach_eq[OF assms(1-4)] loop fair_prefix_all[OF assms(6,4,7)]
    by (simp add: foreach_gather_result assms(7))
qed

text \<open>A failed visit leaves the outputs of a prefix of the items.\<close>

lemma foreach_loop_keeps:
  assumes "\<And>i x v. vget (bucket_of FOREACH_META (ew_run (snd (one x i v)))) (gn_id n) =
      vget (bucket_of FOREACH_META (ew_run v)) (gn_id n)"
    "\<And>i v r. i < length items \<Longrightarrow> fst (one (items ! i) i v) = Inr r \<Longrightarrow> r = g i (items ! i)"
    "kept n w = outputs_of g items 0 k" "k \<le> length items"
  obtains j where "k \<le> j" "j \<le> length items"
    "kept n (snd (foreach_loop one (gn_id n) (left_items items k) (outputs_of g items 0 k) w)) = outputs_of g items 0 j"
proof -
  have "\<exists>j. k \<le> j \<and> j \<le> length items \<and>
    kept n (snd (foreach_loop one (gn_id n) (left_items items k) (outputs_of g items 0 k) w)) = outputs_of g items 0 j"
    using assms(3,4)
  proof (induction "length items - k" arbitrary: k w)
    case 0
    then show ?case by (intro exI[of _ k]) (simp add: left_items_def)
  next
    case (Suc m)
    then have lt: "k < length items" by simp
    have left: "left_items items k = (k, items ! k) # left_items items (Suc k)"
      using lt by (simp add: left_items_def upt_conv_Cons)
    obtain r v where one: "one (items ! k) k w = (r, v)" by force
    have kept_v: "vget (bucket_of FOREACH_META (ew_run v)) (gn_id n) = vget (bucket_of FOREACH_META (ew_run w)) (gn_id n)"
      using assms(1)[of "items ! k" k w] one by simp
    show ?case
    proof (cases r)
      case (Inl e)
      then show ?thesis using Suc.prems lt kept_v by (intro exI[of _ k]) (simp add: left one)
    next
      case (Inr x)
      then have "x = g k (items ! k)" using assms(2)[OF lt, of w] one by simp
      then have more_outputs: "outputs_of g items 0 k @ [x] = outputs_of g items 0 (Suc k)"
        by (simp add: outputs_of_def)
      have "m = length items - Suc k" using Suc.hyps(2) by simp
      then obtain j where "Suc k \<le> j" "j \<le> length items"
        "kept n (snd (foreach_loop one (gn_id n) (left_items items (Suc k)) (outputs_of g items 0 (Suc k))
           (keep_outputs (gn_id n) (outputs_of g items 0 (Suc k)) v))) = outputs_of g items 0 j"
        using Suc.hyps(1)[of "Suc k" "keep_outputs (gn_id n) (outputs_of g items 0 (Suc k)) v"] lt by auto
      then show ?thesis by (intro exI[of _ j]) (simp add: left one Inr more_outputs)
    qed
  qed
  then show ?thesis using that by blast
qed

section \<open>Properties of foreach\<close>

text \<open>
  C10. A foreach whose body gives an output for every item returns the outputs in the order of the
  items, for one worker and for several, whatever the order in which the workers come back, and
  whatever was kept by an earlier visit is not run again.
\<close>

theorem foreach_outputs_in_order:
  assumes "foreach_items (ec_text c) b n f (ew_run w) = Inr items" "int (length items) \<le> foreach_cap f"
    "kept n w = outputs_of g items 0 k" "k \<le> length items"
    "\<forall>i v. k \<le> i \<and> i < length items \<longrightarrow> fst (one (items ! i) i v) = Inr (g i (items ! i))"
    "fair_pool g items k pool" "\<forall>v. first_failure (fst (pool (left_items items k) v)) = None"
  shows "fst (run_foreach c b one pool f n w) = Inr (PList (List.map (\<lambda>i. g i (items ! i)) [0..<length items]))"
  using foreach_completes[OF assms(1-4) _ assms(6)] assms(5,7) by (simp add: outputs_of_def)

definition three_items :: engine_world where
  "three_items = demo_world\<lparr>ew_run := start_run ''r'' ''w'' [(''xs'', PList [PNone, PNone, PNone])] [] ''t''\<rparr>"

definition three_spec :: foreach_spec where
  "three_spec = \<lparr>fe_items = ''xs'', fe_max_items = None, fe_scale_items = None, fe_concurrency = Some 4\<rparr>"

text \<open>Every item gives its index; the workers of \<open>last_first\<close> finish in the opposite order.\<close>

definition last_first :: item_pool where
  "last_first rest w = (rev (List.map (\<lambda>(i, x). (i, Inr (PInt (int i)))) rest), w)"

lemma three_facts:
  "foreach_items (ec_text demo_ctx) demo_bodies failing_node three_spec (ew_run three_items) = Inr [PNone, PNone, PNone]"
  "kept failing_node three_items = []" "foreach_cap three_spec = 32"
  by (code_simp, code_simp, code_simp)

lemma fair_last_first:
  "fair_pool (\<lambda>i x. PInt (int i)) items k last_first" "first_failure (fst (last_first (left_items items k) v)) = None"
  by (auto simp: fair_pool_def last_first_def left_items_def first_failure_None rev_map[symmetric] o_def)

theorem foreach_outputs_in_order_witness:
  "fst (run_foreach demo_ctx demo_bodies (\<lambda>x i w. (Inr (PInt (int i)), w)) last_first three_spec failing_node three_items) =
     Inr (PList [PInt 0, PInt 1, PInt 2])"
  using foreach_outputs_in_order [of demo_ctx demo_bodies failing_node three_spec three_items "[PNone, PNone, PNone]"
      "\<lambda>i x. PInt (int i)" 0 "\<lambda>x i w. (Inr (PInt (int i)), w)" last_first]
  by (simp add: three_facts fair_last_first outputs_of_def upt_rec)

text \<open>
  C11. A foreach that fails, with one worker or with several, loses no output that is complete from
  the start: a later visit of the node, with the kept rows and the same items, runs the body only on
  the items after them (the body may do anything on the others) and returns what a visit without the
  failure would have.
\<close>

theorem foreach_resume_completes:
  assumes "foreach_items (ec_text c) b n f (ew_run w) = Inr items" "int (length items) \<le> foreach_cap f"
    "kept n w = outputs_of g items 0 k" "k \<le> length items"
    "\<forall>x i v. vget (bucket_of FOREACH_META (ew_run (snd (one x i v)))) (gn_id n) =
      vget (bucket_of FOREACH_META (ew_run v)) (gn_id n)"
    "\<forall>i v r. i < length items \<and> fst (one (items ! i) i v) = Inr r \<longrightarrow> r = g i (items ! i)"
    "fair_pool g items k pool"
    "run_foreach c b one pool f n w = (Inl e, w')"
    "kept n w2 = kept n w'" "foreach_items (ec_text c) b n f (ew_run w2) = Inr items"
    "\<forall>i v. length (kept n w') \<le> i \<and> i < length items \<longrightarrow> fst (again (items ! i) i v) = Inr (g i (items ! i))"
    "fair_pool g items (length (kept n w')) pool2"
    "\<forall>v. first_failure (fst (pool2 (left_items items (length (kept n w'))) v)) = None"
  shows "k \<le> length (kept n w') \<and>
    fst (run_foreach c b again pool2 f n w2) = Inr (PList (List.map (\<lambda>i. g i (items ! i)) [0..<length items]))"
proof -
  let ?loop = "foreach_loop one (gn_id n) (left_items items k) (outputs_of g items 0 k) (open_bucket w)"
  let ?rs = "fst (pool (left_items items k) (open_bucket w))"
  let ?gather = "foreach_gather (gn_id n) (outputs_of g items 0 k) ?rs [] None (snd (pool (left_items items k) (open_bucket w)))"
  have final: "w' = (if item_workers f \<le> 1 \<or> length items - k \<le> 1 then snd ?loop else snd ?gather)"
    using arg_cong[OF run_foreach_eq[OF assms(1-4), of one pool], of snd] assms(8) by simp
  have "\<exists>j. k \<le> j \<and> j \<le> length items \<and> kept n w' = outputs_of g items 0 j"
  proof (cases "item_workers f \<le> 1 \<or> length items - k \<le> 1")
    case True
    have "kept n (open_bucket w) = outputs_of g items 0 k" using assms(3) by simp
    then obtain j where "k \<le> j" "j \<le> length items" "kept n (snd ?loop) = outputs_of g items 0 j"
      using foreach_loop_keeps[of one n items g "open_bucket w" k] assms(4-6) by blast
    then show ?thesis using final True by auto
  next
    case False
    obtain j where "k \<le> j" "j \<le> length items"
      "contiguous_prefix (outputs_of g items 0 k) (collect_oks ?rs []) = outputs_of g items 0 j"
      using fair_prefix[OF assms(7,4)] by blast
    moreover have "kept n w' = contiguous_prefix (outputs_of g items 0 k) (collect_oks ?rs [])"
      using final False by (simp add: foreach_gather_rows)
    ultimately show ?thesis by auto
  qed
  then obtain j where j: "k \<le> j" "j \<le> length items" "kept n w' = outputs_of g items 0 j" by blast
  have "fst (run_foreach c b again pool2 f n w2) = Inr (PList (outputs_of g items 0 (length items)))"
    using foreach_completes[OF assms(10,2) _ j(2), of g again pool2] assms(9,11-13) j by simp
  then show ?thesis using j by (simp add: outputs_of_def)
qed

text \<open>The second of the three items fails, the others come back.\<close>

definition second_fails :: item_pool where
  "second_fails rest w =
     (List.map (\<lambda>(i, x). (i, if i = 1 then Inl (node_error failing_node ''no'') else Inr (PInt (int i)))) rest, w)"

abbreviation first_visit :: "(failure + pyval) \<times> engine_world" where
  "first_visit \<equiv> run_foreach demo_ctx demo_bodies (\<lambda>x i w. (Inr (PInt (int i)), w)) second_fails three_spec
     failing_node three_items"

lemma first_visit_eq: "first_visit = (Inl (node_error failing_node ''no''), snd first_visit)"
  by (subst prod_eq_iff) (simp, code_simp)

lemma first_visit_facts:
  "kept failing_node (snd first_visit) = [PInt 0]"
  "foreach_items (ec_text demo_ctx) demo_bodies failing_node three_spec (ew_run (snd first_visit)) = Inr [PNone, PNone, PNone]"
  by (code_simp, code_simp)

lemma fair_second_fails: "fair_pool (\<lambda>i x. PInt (int i)) items k second_fails"
  by (auto simp: fair_pool_def second_fails_def left_items_def o_def)

theorem foreach_resume_completes_witness:
  "fst (run_foreach demo_ctx demo_bodies
     (\<lambda>x i w. (if i = 0 then Inl (node_error failing_node ''ran again'') else Inr (PInt (int i)), w)) last_first
     three_spec failing_node (snd first_visit)) = Inr (PList [PInt 0, PInt 1, PInt 2])"
  using foreach_resume_completes [of demo_ctx demo_bodies failing_node three_spec three_items "[PNone, PNone, PNone]"
      "\<lambda>i x. PInt (int i)" 0 "\<lambda>x i w. (Inr (PInt (int i)), w)" second_fails
      "node_error failing_node ''no''" "snd first_visit" "snd first_visit"
      "\<lambda>x i w. (if i = 0 then Inl (node_error failing_node ''ran again'') else Inr (PInt (int i)), w)" last_first,
      OF three_facts(1) _ _ _ _ _ fair_second_fails first_visit_eq refl first_visit_facts(2) _ fair_last_first(1)]
  by (simp add: three_facts fair_last_first first_visit_facts outputs_of_def upt_rec)

section \<open>Parallel\<close>

definition by_id :: "(graph_node \<times> (failure + pyval)) list \<Rightarrow> (string \<times> (failure + pyval)) list" where
  "by_id rs = List.map (\<lambda>(br, r). (gn_id br, r)) rs"

lemma gather_branches_error:
  "snd (gather_branches rs d err) = None \<longleftrightarrow> err = None \<and> (\<forall>(br, r) \<in> set rs. \<not> isl r)"
  by (induction rs d err rule: gather_branches.induct) auto

lemma gather_branches_collected:
  "distinct (List.map fst (by_id rs)) \<Longrightarrow>
   map_of (fst (gather_branches rs d err)) k =
     (case map_of (by_id rs) k of Some (Inr v) \<Rightarrow> Some v | _ \<Rightarrow> map_of d k)"
  by (induction rs d err rule: gather_branches.induct)
    (auto simp: by_id_def map_of_eq_None_iff[THEN iffD2] image_iff split: option.splits sum.splits)

lemma prior_branches_lookup:
  "map_of (prior_branches branches prior) k = (if k \<in> gn_id ` set branches then map_of prior k else None)"
proof -
  have "map_of (foldl (\<lambda>d branch. case map_of prior (gn_id branch) of None \<Rightarrow> d | Some v \<Rightarrow> dset (gn_id branch) v d) d branches) k =
      (if k \<in> gn_id ` set branches \<and> map_of prior k \<noteq> None then map_of prior k else map_of d k)" for d
    by (induction branches arbitrary: d) (auto split: option.splits)
  then show ?thesis by (auto simp: prior_branches_def)
qed

definition remaining_branches :: "graph_node list \<Rightarrow> graph_node \<Rightarrow> engine_world \<Rightarrow> graph_node list" where
  "remaining_branches branches n w =
     filter (\<lambda>br. map_of (parallel_prior (gn_id n) (ew_run w)) (gn_id br) = None) branches"

text \<open>The results of the branches that are left, and what the node collects from them.\<close>

definition branch_results :: "branch_pool \<Rightarrow> graph_node list \<Rightarrow> graph_node \<Rightarrow> engine_world \<Rightarrow>
    (graph_node \<times> (failure + pyval)) list \<times> engine_world" where
  "branch_results pool branches n w =
     (let rest = remaining_branches branches n w in if rest = [] then ([], w) else pool rest w)"

definition branch_collected :: "branch_pool \<Rightarrow> graph_node list \<Rightarrow> graph_node \<Rightarrow> engine_world \<Rightarrow> (string \<times> pyval) list \<times> failure option" where
  "branch_collected pool branches n w =
     gather_branches (fst (branch_results pool branches n w)) (prior_branches branches (parallel_prior (gn_id n) (ew_run w))) None"

lemma run_parallel_eq:
  assumes "branches \<noteq> []"
  shows "run_parallel pool branches n w =
    (case snd (branch_collected pool branches n w) of Some f \<Rightarrow> Inl f
     | None \<Rightarrow> Inr (PDict (List.map (\<lambda>br. (gn_id br, dget_or (fst (branch_collected pool branches n w)) (gn_id br) PNone)) branches)),
     store_run (on_run (put_bucket PARALLEL_META (gn_id n) (PDict (fst (branch_collected pool branches n w))))
       (snd (branch_results pool branches n w))))"
  using assms
  by (simp add: run_parallel_def branch_collected_def branch_results_def remaining_branches_def Let_def split_def
      split: option.split)

lemma parallel_prior_stored [simp]:
  "parallel_prior node (put_bucket PARALLEL_META node (PDict d) s) = d"
  by (simp add: parallel_prior_def)

text \<open>
  C12. Whatever the order in which the branches of a parallel node finish: it fails for all orders or
  for none, when it does not fail its output is the same, and the branches that are kept for a later
  visit, with their outputs, are the same in any case.
\<close>

theorem parallel_order_free:
  assumes "distinct (List.map gn_id branches)"
    "\<forall>v. set (fst (pool (remaining_branches branches n w) v)) = set (fst (pool' (remaining_branches branches n w) v))"
    "\<forall>v. mset (List.map fst (fst (pool (remaining_branches branches n w) v))) = mset (remaining_branches branches n w)"
    "\<forall>v. mset (List.map fst (fst (pool' (remaining_branches branches n w) v))) = mset (remaining_branches branches n w)"
  shows "isl (fst (run_parallel pool branches n w)) = isl (fst (run_parallel pool' branches n w)) \<and>
    (\<not> isl (fst (run_parallel pool branches n w)) \<longrightarrow>
       fst (run_parallel pool branches n w) = fst (run_parallel pool' branches n w)) \<and>
    (branches \<noteq> [] \<longrightarrow>
       map_of (parallel_prior (gn_id n) (ew_run (snd (run_parallel pool branches n w)))) =
       map_of (parallel_prior (gn_id n) (ew_run (snd (run_parallel pool' branches n w)))))"
proof (cases "branches = []")
  case False
  let ?rs = "\<lambda>p. fst (branch_results p branches n w)"
  have same: "set (?rs pool) = set (?rs pool')"
    using assms(2) by (simp add: branch_results_def Let_def)
  have ids: "distinct (List.map fst (by_id (?rs p)))"
    if "\<forall>v. mset (List.map fst (fst (p (remaining_branches branches n w) v))) = mset (remaining_branches branches n w)" for p
  proof -
    have "mset (List.map fst (?rs p)) = mset (remaining_branches branches n w)"
      using that by (simp add: branch_results_def Let_def)
    then have "mset (List.map gn_id (List.map fst (?rs p))) = mset (List.map gn_id (remaining_branches branches n w))"
      by (metis mset_map)
    moreover have "distinct (List.map gn_id (remaining_branches branches n w))"
      using assms(1) by (simp add: remaining_branches_def distinct_map_filter)
    ultimately have "distinct (List.map gn_id (List.map fst (?rs p)))" using mset_eq_imp_distinct_iff by blast
    then show ?thesis by (simp add: by_id_def o_def split_def)
  qed
  have "set (by_id (?rs pool)) = set (by_id (?rs pool'))" using same by (simp add: by_id_def)
  then have rows: "map_of (by_id (?rs pool)) = map_of (by_id (?rs pool'))"
    using ids[of pool, OF assms(3)] ids[of pool', OF assms(4)] map_of_inject_set by blast
  have kept: "map_of (fst (branch_collected pool branches n w)) = map_of (fst (branch_collected pool' branches n w))"
    using gather_branches_collected[OF ids[of pool, OF assms(3)]] gather_branches_collected[OF ids[of pool', OF assms(4)]] rows
    by (auto simp: branch_collected_def)
  have fails: "(snd (branch_collected pool branches n w) = None) = (snd (branch_collected pool' branches n w) = None)"
    using same by (simp add: branch_collected_def gather_branches_error)
  show ?thesis
    using kept fails False by (auto simp: run_parallel_eq dget_or_def split: option.split)
qed (simp add: run_parallel_def)

definition two_branches :: "graph_node list" where
  "two_branches = [demo_node ''transform'' ''b1'' None None, demo_node ''transform'' ''b2'' None None]"

definition in_order :: branch_pool where
  "in_order rest w = (List.map (\<lambda>br. (br, Inr (PStr (gn_id br)))) rest, w)"

definition in_reverse :: branch_pool where
  "in_reverse rest w = (rev (List.map (\<lambda>br. (br, Inr (PStr (gn_id br)))) rest), w)"

lemma order_facts:
  "set (fst (in_order rest v)) = set (fst (in_reverse rest v))"
  "mset (List.map fst (fst (in_order rest v))) = mset rest" "mset (List.map fst (fst (in_reverse rest v))) = mset rest"
  by (simp_all add: in_order_def in_reverse_def rev_map[symmetric] o_def)

lemma two_branches_distinct: "distinct (List.map gn_id two_branches)"
  by code_simp

lemma in_order_value: "fst (run_parallel in_order two_branches failing_node demo_world) =
    Inr (PDict [(''b1'', PStr ''b1''), (''b2'', PStr ''b2'')])"
  by code_simp

theorem parallel_order_free_witness:
  "fst (run_parallel in_reverse two_branches failing_node demo_world) =
     Inr (PDict [(''b1'', PStr ''b1''), (''b2'', PStr ''b2'')])"
  using parallel_order_free [of two_branches in_order failing_node demo_world in_reverse, OF two_branches_distinct]
  by (simp add: in_order_value order_facts order_facts[simplified])

lemma metadata_foreach_child [simp]: "rs_metadata (foreach_child fr now f node item i s) = rs_metadata s"
  by (simp add: foreach_child_def seed_foreach_item_provenance_def set_provenance_def start_run_def Let_def)

lemma parallel_prior_metadata: "rs_metadata s = rs_metadata t \<Longrightarrow> parallel_prior node s = parallel_prior node t"
  by (simp add: parallel_prior_def bucket_of_def)

lemma parallel_prior_write_back:
  assumes "is_dict (vget (rs_metadata parent) PARALLEL_META)"
  shows "parallel_prior node (write_back child parent) = parallel_prior node child"
  using assms
  by (auto simp: write_back_def share_bucket_def parallel_prior_def bucket_of_def
      FOREACH_META_def PARALLEL_META_def INCLUDE_META_def split: pyval.splits)

lemma map_of_by_id: "map_of (by_id rs) k = None \<longleftrightarrow> k \<notin> gn_id ` fst ` set rs"
  by (induction rs) (auto simp: by_id_def)

lemma gather_branches_known:
  "snd (gather_branches rs d err) = None \<Longrightarrow> k \<in> gn_id ` fst ` set rs \<or> map_of d k \<noteq> None \<Longrightarrow>
   map_of (fst (gather_branches rs d err)) k \<noteq> None"
  by (induction rs d err rule: gather_branches.induct) (fastforce simp: gather_branches_error split: if_splits)+

text \<open>
  A foreach whose body is a parallel node, in a run whose metadata has a bucket of parallel
  branches already: once an item has gone through, every later item gets the output of that item,
  and no branch runs for it, whatever the branches would do.
\<close>

theorem parallel_body_repeats_first_item:
  assumes "is_dict (vget (rs_metadata (ew_run w)) PARALLEL_META)"
    "\<forall>rest v. gn_id ` fst ` set (fst (pool rest v)) = gn_id ` set rest"
    "foreach_one c (run_parallel pool branches body) f node item i w = (Inr v, w')"
  shows "fst (foreach_one c (run_parallel pool' branches body) f node item' i' w') = Inr v"
proof -
  let ?child = "w\<lparr>ew_run := foreach_child (ec_text c) (now_of c w) f node item i (ew_run w), ew_tool_rounds := []\<rparr>"
  let ?next = "w'\<lparr>ew_run := foreach_child (ec_text c) (now_of c w') f node item' i' (ew_run w'), ew_tool_rounds := []\<rparr>"
  let ?d = "fst (branch_collected pool branches body ?child)"
  obtain u where u: "run_parallel pool branches body ?child = (Inr v, u)"
    and w': "w' = u\<lparr>ew_run := write_back (ew_run u) (ew_run w), ew_tool_rounds := ew_tool_rounds w\<rparr>"
    using assms(3) by (auto simp: foreach_one_def Let_def split: prod.splits)
  have some: "branches \<noteq> []" using u by (auto simp: run_parallel_def)
  have eq: "(Inr v, u) = (case snd (branch_collected pool branches body ?child) of Some f \<Rightarrow> Inl f
     | None \<Rightarrow> Inr (PDict (List.map (\<lambda>br. (gn_id br, dget_or ?d (gn_id br) PNone)) branches)),
     store_run (on_run (put_bucket PARALLEL_META (gn_id body) (PDict ?d)) (snd (branch_results pool branches body ?child))))"
    using run_parallel_eq[OF some, of pool body ?child] u by simp
  then have ok: "snd (branch_collected pool branches body ?child) = None"
    and v: "v = PDict (List.map (\<lambda>br. (gn_id br, dget_or ?d (gn_id br) PNone)) branches)"
    and prior_u: "parallel_prior (gn_id body) (ew_run u) = ?d"
    by (auto split: option.splits)
  have prior: "parallel_prior (gn_id body) (ew_run ?next) = ?d"
    using parallel_prior_metadata[of "ew_run ?next" "ew_run w'"] prior_u
    by (simp add: w' parallel_prior_write_back[OF assms(1)])
  have known: "map_of ?d (gn_id br) \<noteq> None" if "br \<in> set branches" for br
  proof -
    have "gn_id br \<in> gn_id ` fst ` set (fst (branch_results pool branches body ?child)) \<or>
        map_of (prior_branches branches (parallel_prior (gn_id body) (ew_run ?child))) (gn_id br) \<noteq> None"
      using that assms(2) by (auto simp: branch_results_def remaining_branches_def prior_branches_lookup filter_empty_conv Let_def)
    then show ?thesis using ok gather_branches_known unfolding branch_collected_def by blast
  qed
  have rest: "remaining_branches branches body ?next = []"
    using known prior by (auto simp: remaining_branches_def filter_empty_conv)
  have "branch_collected pool' branches body ?next = (prior_branches branches ?d, None)"
    using rest prior by (simp add: branch_collected_def branch_results_def)
  then have "fst (run_parallel pool' branches body ?next) = Inr v"
    using run_parallel_eq[OF some, of pool' body ?next]
    by (simp add: v dget_or_def prior_branches_lookup)
  then show ?thesis by (simp add: foreach_one_def Let_def split: prod.splits) (metis fst_conv)
qed

text \<open>The branches of the second item would give its index.\<close>

definition gives :: "string \<Rightarrow> branch_pool" where
  "gives text rest w = (List.map (\<lambda>br. (br, Inr (PStr text))) rest, w)"

definition after_parallel :: engine_world where
  "after_parallel = demo_world\<lparr>ew_run := start_run ''r'' ''w'' [] [(PARALLEL_META, PDict [])] ''t''\<rparr>"

abbreviation first_item :: "(failure + pyval) \<times> engine_world" where
  "first_item \<equiv> foreach_one demo_ctx (run_parallel (gives ''first'') two_branches failing_node) three_spec ''f'' PNone 0 after_parallel"

lemma after_parallel_bucket: "is_dict (vget (rs_metadata (ew_run after_parallel)) PARALLEL_META)"
  by code_simp

lemma gives_all: "gn_id ` fst ` set (fst (gives text rest v)) = gn_id ` set rest"
  by (simp add: gives_def image_image)

lemma first_item_value: "fst first_item = Inr (PDict [(''b1'', PStr ''first''), (''b2'', PStr ''first'')])"
  by code_simp

theorem parallel_body_repeats_first_item_witness:
  "fst (foreach_one demo_ctx (run_parallel (gives ''second'') two_branches failing_node) three_spec ''f'' (PInt 1) 1
     (snd first_item)) = Inr (PDict [(''b1'', PStr ''first''), (''b2'', PStr ''first'')])"
  using parallel_body_repeats_first_item [of after_parallel "gives ''first''" demo_ctx two_branches failing_node three_spec
      "''f''" PNone 0 "PDict [(''b1'', PStr ''first''), (''b2'', PStr ''first'')]" "snd first_item",
      OF after_parallel_bucket]
  by (simp only: prod_eq_iff first_item_value gives_all fst_conv snd_conv simp_thms)

end
