(* ===== verification/Contracts.thy ===== *)
theory Contracts
  imports Enforcement
begin

text \<open>
  Output contracts: their declaration (\<open>contracts/spec.py\<close>, \<open>contracts/regex.py\<close>), the rules
  (\<open>contracts/rules.py\<close>), the repairs that need no model (\<open>contracts/repair.py\<close>), the structured output
  (\<open>workflow/structured.py\<close>) and the redactor (\<open>policy.py\<close>). Compiled patterns of a user, \<open>json.loads\<close>
  and the validation of a pydantic model are arguments.
\<close>

section \<open>Declaration\<close>

definition ACTIONS :: "string list" where
  "ACTIONS = [''fail'', ''repair'', ''fallback'', ''gate'', ''redact_and_continue'']"

definition STRUCTURAL_REPAIR :: string where "STRUCTURAL_REPAIR = ''repair''"

definition MAX_REPAIRS :: int where "MAX_REPAIRS = 5"

record judge_spec =
  jg_model :: string
  jg_rubric :: string
  jg_min_score :: rat

record contract_rule =
  cr_name :: "string option"
  cr_deny_regex :: "string option"
  cr_deny :: "string option"
  cr_citation :: pyval
  cr_language :: "string option"
  cr_max_chars :: pyval
  cr_pii :: pyval
  cr_judge :: "judge_spec option"
  cr_on_fail :: string

record contract_spec =
  ct_schema :: "pydict option"
  ct_rules :: "contract_rule list"
  ct_on_invalid :: string
  ct_max_repairs :: "int option"
  ct_on_exhausted :: "string option"
  ct_on_refusal :: "string option"

datatype contract_defect =
    ActionMissing string
  | ActionUnknown string string
  | RepairNotAllowed string
  | OneKindOnly
  | PatternRefused string
  | MaxCharsInvalid
  | CitationInvalid
  | NothingDeclared
  | RepairsOutOfRange int
  | MaxRepairsRequired
  | OnExhaustedRequired
  | MaxRepairsMisplaced
  | JudgeAlone

definition check_action :: "string \<Rightarrow> string \<Rightarrow> contract_defect + string" where
  "check_action field v =
     (let cleaned = lower (strip v) in
      if strip v = [] then Inl (ActionMissing field)
      else if cleaned \<notin> set ACTIONS then Inl (ActionUnknown field v)
      else Inr cleaned)"

definition check_terminal :: "string \<Rightarrow> string \<Rightarrow> contract_defect + string" where
  "check_terminal field v =
     rbind (check_action field v)
       (\<lambda>a. if a = STRUCTURAL_REPAIR then Inl (RepairNotAllowed field) else Inr a)"

text \<open>\<open>v not in (None, False)\<close>; the number zero equals \<open>False\<close>.\<close>

definition is_given :: "pyval \<Rightarrow> bool" where
  "is_given v = (v \<noteq> PNone \<and> \<not> py_eq v (PBool False))"

definition present_kinds :: "contract_rule \<Rightarrow> string list" where
  "present_kinds r =
     List.map fst (filter snd
       [(''deny_regex'', cr_deny_regex r \<noteq> None), (''deny'', cr_deny r \<noteq> None),
        (''require_citation'', is_given (cr_citation r)), (''language'', cr_language r \<noteq> None),
        (''max_chars'', is_given (cr_max_chars r)), (''pii'', is_given (cr_pii r)), (''judge'', cr_judge r \<noteq> None)])"

definition rule_kind :: "contract_rule \<Rightarrow> string" where
  "rule_kind r = (case present_kinds r of [] \<Rightarrow> ''rule'' | k # ks \<Rightarrow> k)"

definition recorded_name :: "contract_rule \<Rightarrow> string" where
  "recorded_name r =
     (let name = strip (if truthy (cr_name r) then the (cr_name r) else rule_kind r)
      in if name = [] then rule_kind r else name)"

section \<open>Patterns of a user\<close>

definition MAX_PATTERN_CHARS :: int where "MAX_PATTERN_CHARS = 200"
definition MAX_QUANTIFIERS :: int where "MAX_QUANTIFIERS = 8"

definition not_close :: re where
  "not_close = Many (Chars (\<lambda>c. c \<noteq> CHR '')''))"

definition NESTED_QUANTIFIER :: re where
  "NESTED_QUANTIFIER =
     cats [Chars (\<lambda>c. c = CHR ''(''), not_close, Chars (\<lambda>c. c \<in> set ''+*''), not_close,
           Chars (\<lambda>c. c = CHR '')''), Chars (\<lambda>c. c \<in> set ''+*?'')]"

definition LARGE_BOUND :: re where
  "LARGE_BOUND = Cat (Chars (\<lambda>c. c = CHR ''{'')) (at_least 4 (Chars is_digit))"

text \<open>\<open>compiles\<close> says whether \<open>re.compile\<close> accepts the pattern.\<close>

definition compile_bounded :: "(string \<Rightarrow> bool) \<Rightarrow> string \<Rightarrow> contract_defect + string" where
  "compile_bounded compiles text =
     (if text = [] then Inl (PatternRefused ''deny_regex is empty'')
      else if MAX_PATTERN_CHARS < int (length text) then Inl (PatternRefused ''deny_regex longer than 200 characters'')
      else if re_search NESTED_QUANTIFIER text
        then Inl (PatternRefused ''deny_regex nested quantifiers are not allowed'')
      else if MAX_QUANTIFIERS < int (length (filter (\<lambda>c. c \<in> set ''*+?'') text))
        then Inl (PatternRefused ''deny_regex has too many quantifiers'')
      else if re_search LARGE_BOUND text then Inl (PatternRefused ''deny_regex repetition bound is too large'')
      else if compiles text then Inr text else Inl (PatternRefused ''deny_regex is not a valid pattern''))"

section \<open>Validation\<close>

text \<open>\<open>_normalize_max_chars\<close>: the bound and the field; a \<open>bool\<close> is an \<open>int\<close>.\<close>

definition as_number :: "pyval \<Rightarrow> int option" where
  "as_number v = (case v of PInt n \<Rightarrow> Some n | PBool b \<Rightarrow> Some (if b then 1 else 0) | _ \<Rightarrow> None)"

definition normalize_max_chars :: "pyval \<Rightarrow> (int \<times> pyval) option" where
  "normalize_max_chars v =
     (case v of
        PDict d \<Rightarrow>
          (case as_number (vget d ''value'') of
             Some n \<Rightarrow>
               if n < 1 \<or> \<not> set (List.map fst d) \<subseteq> {''value'', ''field''} then None
               else Some (n, vget d ''field'')
           | None \<Rightarrow> None)
      | _ \<Rightarrow> (case as_number v of Some n \<Rightarrow> if n < 1 then None else Some (n, PNone) | None \<Rightarrow> None))"

definition normalize_citation :: "(rat \<Rightarrow> string) \<Rightarrow> pyval \<Rightarrow> string option" where
  "normalize_citation fr v =
     (case v of
        PStr s \<Rightarrow> if strip s = [] then None else Some (strip s)
      | PDict d \<Rightarrow>
          (let source = (if py_truth (vget d ''from'') then vget d ''from'' else vget d ''field'')
           in if \<not> py_truth source \<or> \<not> set (List.map fst d) \<subseteq> {''from'', ''field''} then None
              else Some (py_str fr source))
      | _ \<Rightarrow> None)"

definition check_rule :: "(rat \<Rightarrow> string) \<Rightarrow> (string \<Rightarrow> bool) \<Rightarrow> contract_rule \<Rightarrow> contract_defect + contract_rule" where
  "check_rule fr compiles r =
     rbind (check_terminal ''on_fail'' (cr_on_fail r))
       (\<lambda>a. if length (present_kinds r) \<noteq> 1 then Inl OneKindOnly
            else rbind (case cr_deny_regex r of None \<Rightarrow> Inr [] | Some p \<Rightarrow> compile_bounded compiles p)
              (\<lambda>p. if cr_max_chars r \<noteq> PNone \<and> normalize_max_chars (cr_max_chars r) = None then Inl MaxCharsInvalid
                   else if cr_citation r \<noteq> PNone \<and> normalize_citation fr (cr_citation r) = None then Inl CitationInvalid
                   else Inr (r\<lparr>cr_on_fail := a\<rparr>)))"

fun check_rules :: "(rat \<Rightarrow> string) \<Rightarrow> (string \<Rightarrow> bool) \<Rightarrow> contract_rule list \<Rightarrow>
    contract_defect + contract_rule list" where
  "check_rules fr compiles [] = Inr []"
| "check_rules fr compiles (r # rs) =
     rbind (check_rule fr compiles r) (\<lambda>r. rbind (check_rules fr compiles rs) (\<lambda>rs. Inr (r # rs)))"

definition check_optional :: "string \<Rightarrow> string option \<Rightarrow> contract_defect + string option" where
  "check_optional field v =
     (case v of None \<Rightarrow> Inr None | Some a \<Rightarrow> rbind (check_terminal field a) (\<lambda>a. Inr (Some a)))"

definition closed_contract :: "contract_spec \<Rightarrow> contract_defect + contract_spec" where
  "closed_contract s =
     (if ct_schema s = None \<and> ct_rules s = [] then Inl NothingDeclared
      else if ct_on_invalid s = STRUCTURAL_REPAIR \<and> ct_max_repairs s = None then Inl MaxRepairsRequired
      else if ct_on_invalid s = STRUCTURAL_REPAIR \<and> ct_on_exhausted s = None then Inl OnExhaustedRequired
      else if ct_on_invalid s \<noteq> STRUCTURAL_REPAIR \<and> ct_max_repairs s \<noteq> None then Inl MaxRepairsMisplaced
      else if (\<exists>r \<in> set (ct_rules s). cr_judge r \<noteq> None) \<and> (\<forall>r \<in> set (ct_rules s). cr_judge r \<noteq> None) \<and>
          ct_schema s = None then Inl JudgeAlone
      else Inr s)"

definition validate_contract :: "(rat \<Rightarrow> string) \<Rightarrow> (string \<Rightarrow> bool) \<Rightarrow> contract_spec \<Rightarrow>
    contract_defect + contract_spec" where
  "validate_contract fr compiles s =
     rbind (check_rules fr compiles (ct_rules s)) (\<lambda>rules.
     rbind (check_action ''on_invalid'' (ct_on_invalid s)) (\<lambda>invalid.
     rbind (case ct_max_repairs s of
              None \<Rightarrow> Inr None
            | Some k \<Rightarrow> if k < 1 \<or> MAX_REPAIRS < k then Inl (RepairsOutOfRange k) else Inr (Some k)) (\<lambda>repairs.
     rbind (check_optional ''on_exhausted'' (ct_on_exhausted s)) (\<lambda>exhausted.
     rbind (check_optional ''on_refusal'' (ct_on_refusal s)) (\<lambda>refusal.
       closed_contract
         \<lparr>ct_schema = ct_schema s, ct_rules = rules, ct_on_invalid = invalid, ct_max_repairs = repairs,
          ct_on_exhausted = exhausted, ct_on_refusal = refusal\<rparr>)))))"

end
