(* ===== verification/ContractRules.thy ===== *)
theory ContractRules
  imports Contracts Nodes
begin

text \<open>
  The checks of an output contract: structured output (\<open>workflow/structured.py\<close>), repairs without
  a model (\<open>contracts/repair.py\<close>), redaction (\<open>policy.py\<close>), content rules (\<open>contracts/rules.py\<close>) and
  the documents an answer may cite (\<open>collect_retrieved_citations\<close> in \<open>knowledge/cite.py\<close>).
\<close>

section \<open>Text\<close>

definition payload_text :: "(rat \<Rightarrow> string) \<Rightarrow> pyval \<Rightarrow> string" where
  "payload_text fr v = (case v of PStr s \<Rightarrow> s | _ \<Rightarrow> json_text fr v)"

definition field_text :: "(rat \<Rightarrow> string) \<Rightarrow> pyval \<Rightarrow> pyval \<Rightarrow> string" where
  "field_text fr v field =
     (if \<not> py_truth field then payload_text fr v
      else case (v, field) of
             (PDict d, PStr key) \<Rightarrow> (case map_of d key of None \<Rightarrow> [] | Some x \<Rightarrow> payload_text fr x)
           | _ \<Rightarrow> [])"

text \<open>\<open>text.replace(needle, new)\<close> for a needle that is not empty.\<close>

function replace_text :: "string \<Rightarrow> string \<Rightarrow> string \<Rightarrow> string" where
  "replace_text needle new t =
     (if needle = [] \<or> t = [] then t
      else if starts_with t needle then new @ replace_text needle new (drop (length needle) t)
      else hd t # replace_text needle new (tl t))"
  by auto
termination by (relation "measure (length \<circ> snd \<circ> snd)") auto

declare replace_text.simps [simp del]

text \<open>
  \<open>pattern.sub(new, text)\<close> for patterns whose matches are not empty and whose greedy match is the
  longest one, which holds for the three patterns of \<open>policy.py\<close>.
\<close>

definition longest_end :: "nat list \<Rightarrow> nat" where
  "longest_end js = foldr max js 0"

lemma longest_end_ge: "j \<in> set js \<Longrightarrow> j \<le> longest_end js"
  by (induction js) (auto simp: longest_end_def)

function re_sub :: "re \<Rightarrow> string \<Rightarrow> string \<Rightarrow> nat \<Rightarrow> string" where
  "re_sub r new t i =
     (if length t \<le> i then []
      else (let js = filter ((<) i) (ends r t i)
            in if js = [] then t ! i # re_sub r new t (Suc i) else new @ re_sub r new t (longest_end js)))"
  by auto
termination
proof (relation "measure (\<lambda>(r, new, t, i). length t - i)", goal_cases)
  case (3 r new t i js)
  then have "hd js \<in> set js" by (intro hd_in_set) simp
  then obtain j where "j \<in> set js" by blast
  then have "i < j" "j \<le> longest_end js" using 3(2) longest_end_ge by auto
  then show ?case using 3(1) by auto
qed auto

declare re_sub.simps [simp del]

section \<open>Redaction\<close>

definition REDACTED :: string where "REDACTED = ''[redacted]''"

definition one_of :: "string \<Rightarrow> re" where
  "one_of s = Chars (\<lambda>c. c \<in> set s)"

definition alnum_or :: "string \<Rightarrow> re" where
  "alnum_or s = Chars (\<lambda>c. is_alnum c \<or> c \<in> set s)"

definition EMAIL :: re where
  "EMAIL =
     cats [Boundary, one_or_more (alnum_or ''._%+-''), one_of ''@'', one_or_more (alnum_or ''.-''), one_of ''.'',
           at_least 2 (Chars is_alpha), Boundary]"

definition SK_KEY :: re where
  "SK_KEY = cats [one_of ''s'', one_of ''k'', one_of ''-'', at_least 8 (Chars is_alnum)]"

definition ASSIGNED_SECRET :: re where
  "ASSIGNED_SECRET =
     cats [Boundary,
           Alt (cats [word_ci ''api'', optional (one_of ''_-''), word_ci ''key''])
             (Alt (word_ci ''secret'') (Alt (word_ci ''token'') (Alt (word_ci ''password'') (word_ci ''passwd'')))),
           Many (Chars is_space), one_of ''=:'', Many (Chars is_space), one_or_more (Chars (Not \<circ> is_space))]"

definition DEFAULT_REDACT_PATTERNS :: "re list" where
  "DEFAULT_REDACT_PATTERNS = [EMAIL, SK_KEY, ASSIGNED_SECRET]"

text \<open>The patterns a configuration adds are compiled by \<open>re\<close>; they are given by what \<open>sub\<close> does.\<close>

record redactor =
  ra_literals :: "string list"
  ra_extra :: "(string \<Rightarrow> string \<Rightarrow> string) list"
  ra_replacement :: string

definition default_redactor :: redactor where
  "default_redactor = \<lparr>ra_literals = [], ra_extra = [], ra_replacement = REDACTED\<rparr>"

definition redact_text :: "redactor \<Rightarrow> string \<Rightarrow> string" where
  "redact_text r text =
     (let out = foldl (\<lambda>out lit. replace_text lit (ra_replacement r) out) text (filter (\<lambda>l. l \<noteq> []) (ra_literals r));
          out = foldl (\<lambda>out pat. re_sub pat (ra_replacement r) out 0) out DEFAULT_REDACT_PATTERNS
      in foldl (\<lambda>out sub. sub (ra_replacement r) out) out (ra_extra r))"

fun map_strings :: "(string \<Rightarrow> string) \<Rightarrow> pyval \<Rightarrow> pyval" where
  "map_strings f (PStr s) = PStr (f s)"
| "map_strings f (PDict d) = PDict (List.map (\<lambda>(k, v). (k, map_strings f v)) d)"
| "map_strings f (PList xs) = PList (List.map (map_strings f) xs)"
| "map_strings f v = v"

definition redact :: "redactor \<Rightarrow> pyval \<Rightarrow> pyval" where
  "redact r = map_strings (redact_text r)"

definition pii_hit :: "string \<Rightarrow> bool" where
  "pii_hit text = list_ex (\<lambda>pat. re_search pat text) DEFAULT_REDACT_PATTERNS"

section \<open>Repairs without a model\<close>

fun line_end :: "char \<Rightarrow> bool" where
  "line_end c = (of_char c \<in> {10, 11, 12, 13, 28, 29, 30 :: nat})"

text \<open>\<open>str.splitlines\<close>: a carriage return and a line feed end one line, a last empty line is none.\<close>

fun split_lines :: "string \<Rightarrow> string \<Rightarrow> string list" where
  "split_lines cur [] = (if cur = [] then [] else [rev cur])"
| "split_lines cur [c] = (if line_end c then [rev cur] else [rev (c # cur)])"
| "split_lines cur (c # d # cs) =
     (if of_char c = (13 :: nat) \<and> of_char d = (10 :: nat) then rev cur # split_lines [] cs
      else if line_end c then rev cur # split_lines [] (d # cs) else split_lines (c # cur) (d # cs))"

definition FENCE :: string where "FENCE = ''```''"

definition strip_fences :: "string \<Rightarrow> string" where
  "strip_fences text =
     (let stripped = strip text in
      if \<not> starts_with stripped FENCE then stripped
      else
        (let ls = split_lines [] stripped;
             ls = (if ls \<noteq> [] \<and> starts_with (lstrip (hd ls)) FENCE then tl ls else ls);
             ls = (if ls \<noteq> [] \<and> strip (last ls) = FENCE then butlast ls else ls)
         in strip (join_with newline ls)))"

text \<open>\<open>_TRAILING_COMMA.sub\<close>: a comma, white space and a closing bracket lose the comma.\<close>

function drop_commas :: "string \<Rightarrow> string" where
  "drop_commas t =
     (case t of
        [] \<Rightarrow> []
      | c # cs \<Rightarrow>
          (let rest = dropWhile is_space cs in
           if c = CHR '','' \<and> rest \<noteq> [] \<and> hd rest \<in> set ''}]''
           then takeWhile is_space cs @ hd rest # drop_commas (tl rest) else c # drop_commas cs))"
  by auto
termination
proof (relation "measure length", goal_cases)
  case (2 t c cs rest)
  then have "length rest \<le> length cs" by (simp add: length_dropWhile_le)
  then show ?case using 2 by (simp add: less_Suc_eq_le)
qed auto

declare drop_commas.simps [simp del]

fun comma_rounds :: "nat \<Rightarrow> string \<Rightarrow> string" where
  "comma_rounds 0 t = t"
| "comma_rounds (Suc k) t = (let t' = drop_commas t in if t' = t then t' else comma_rounds k t')"

definition strip_trailing_commas :: "string \<Rightarrow> string" where
  "strip_trailing_commas = comma_rounds 8"

text \<open>\<open>[str(item) for item in (schema.get("required") or []) if item]\<close>; \<open>None\<close> is a \<open>TypeError\<close>.\<close>

definition required_names :: "(rat \<Rightarrow> string) \<Rightarrow> pydict \<Rightarrow> string list option" where
  "required_names fr schema =
     (let v = vget schema ''required'' in
      if \<not> py_truth v then Some []
      else case v of
             PList xs \<Rightarrow> Some (List.map (py_str fr) (filter py_truth xs))
           | PStr s \<Rightarrow> Some (List.map (\<lambda>c. [c]) s)
           | PDict d \<Rightarrow> Some (filter (\<lambda>k. k \<noteq> []) (List.map fst d))
           | _ \<Rightarrow> None)"

definition type_error :: "string \<Rightarrow> failure" where
  "type_error message = Raised ForeignErr ''TypeError'' message"

definition wrap_object :: "(rat \<Rightarrow> string) \<Rightarrow> (string \<Rightarrow> string + pyval) \<Rightarrow> string \<Rightarrow> pydict \<Rightarrow> failure + string" where
  "wrap_object fr loads text schema =
     (if schema = [] \<or> vget schema ''type'' \<noteq> PStr ''object'' then Inr text
      else case loads text of
             Inl e \<Rightarrow> Inr text
           | Inr (PDict d) \<Rightarrow> Inr text
           | Inr v \<Rightarrow>
               (case required_names fr schema of
                  None \<Rightarrow> Inl (type_error ''not iterable'')
                | Some [name] \<Rightarrow> Inr (json_text fr (PDict [(name, v)]))
                | Some names \<Rightarrow> Inr (json_text fr (PDict [(''value'', v)]))))"

definition deterministic_repair :: "(rat \<Rightarrow> string) \<Rightarrow> (string \<Rightarrow> string + pyval) \<Rightarrow> string \<Rightarrow> pydict \<Rightarrow>
    failure + string" where
  "deterministic_repair fr loads text schema =
     wrap_object fr loads (strip_trailing_commas (strip_fences text)) schema"

section \<open>Structured output\<close>

definition parse_json_payload :: "(string \<Rightarrow> string + pyval) \<Rightarrow> string \<Rightarrow> string + pyval" where
  "parse_json_payload loads text =
     (let stripped = strip text in
      if stripped = [] then Inl ''empty LLM output''
      else case loads stripped of
             Inr v \<Rightarrow> Inr v
           | Inl e \<Rightarrow>
               (case Option.bind (between CHR ''{'' CHR ''}'' stripped)
                       (\<lambda>t. case loads t of Inl e \<Rightarrow> None | Inr v \<Rightarrow> Some v) of
                  Some v \<Rightarrow> Inr v
                | None \<Rightarrow>
                    (case between CHR ''['' CHR '']'' stripped of
                       None \<Rightarrow> Inl ''LLM output is not JSON''
                     | Some t \<Rightarrow> loads t)))"

datatype json_kind = KString | KNumber | KInteger | KBoolean | KArray | KObject | KNull | KAny

definition simple_kind :: "pyval \<Rightarrow> json_kind" where
  "simple_kind v =
     (if v = PStr ''string'' then KString else if v = PStr ''number'' then KNumber
      else if v = PStr ''integer'' then KInteger else if v = PStr ''boolean'' then KBoolean
      else if v = PStr ''array'' then KArray else if v = PStr ''object'' then KObject
      else if v = PStr ''null'' then KNull else KAny)"

text \<open>\<open>_annotation\<close>: the alternatives of a field.\<close>

definition field_kinds :: "pyval \<Rightarrow> json_kind list" where
  "field_kinds spec =
     (let raw = (case spec of PDict d \<Rightarrow> vget d ''type'' | _ \<Rightarrow> PNone) in
      case raw of
        PList xs \<Rightarrow> if xs = [] then [KAny] else List.map simple_kind xs
      | _ \<Rightarrow> [simple_kind (if py_truth raw then raw else PStr ''string'')])"

text \<open>The class \<open>model_from_schema\<close> creates: no fields when the schema has no properties.\<close>

record struct_model =
  sm_extra :: bool
  sm_fields :: "(string \<times> json_kind list \<times> bool) list"

definition model_from_schema :: "(rat \<Rightarrow> string) \<Rightarrow> pydict \<Rightarrow> failure + struct_model" where
  "model_from_schema fr schema =
     (let extra = (case map_of schema ''additionalProperties'' of None \<Rightarrow> True | Some v \<Rightarrow> py_truth v) in
      case vget schema ''properties'' of
        PDict props \<Rightarrow>
          (case required_names fr schema of
             None \<Rightarrow> Inl (type_error ''not iterable'')
           | Some names \<Rightarrow>
               Inr \<lparr>sm_extra = extra,
                 sm_fields = List.map (\<lambda>(name, spec). (name, field_kinds spec, name \<in> set names)) props\<rparr>)
      | _ \<Rightarrow> Inr \<lparr>sm_extra = extra, sm_fields = []\<rparr>)"

text \<open>\<open>validates\<close> is \<open>model_validate\<close> followed by \<open>model_dump\<close>.\<close>

definition structured_error :: "graph_node \<Rightarrow> string \<Rightarrow> failure" where
  "structured_error n message =
     Raised (NodeErr (gn_id n)) ''StructuredOutputError'' (''Node '' @ in_quotes (gn_id n) @ '': '' @ message)"

definition validate_structured_output :: "(rat \<Rightarrow> string) \<Rightarrow> (string \<Rightarrow> string + pyval) \<Rightarrow>
    (struct_model \<Rightarrow> pyval \<Rightarrow> string + pyval) \<Rightarrow> graph_node \<Rightarrow> string \<Rightarrow> pydict \<Rightarrow> failure + pyval" where
  "validate_structured_output fr loads validates n text schema =
     (case parse_json_payload loads text of
        Inl e \<Rightarrow> Inl (structured_error n (''structured output is not JSON: '' @ e))
      | Inr v \<Rightarrow>
          if schema = [] then Inl (structured_error n ''output_schema must be a JSON Schema object'')
          else rbind (model_from_schema fr schema)
            (\<lambda>m. case validates m v of
               Inl e \<Rightarrow> Inl (structured_error n (''structured output failed schema validation: '' @ e))
             | Inr x \<Rightarrow> Inr x))"

section \<open>Content rules\<close>

text \<open>\<open>collect_retrieved_citations\<close>; metadata that is no dictionary is an \<open>AttributeError\<close>.\<close>

definition note_doc :: "string \<Rightarrow> string list \<Rightarrow> string list" where
  "note_doc doc found = (if doc \<in> set found then found else found @ [doc])"

definition cited_here :: "(rat \<Rightarrow> string) \<Rightarrow> pydict \<Rightarrow> string list \<Rightarrow> string list option" where
  "cited_here fr d found =
     (let found =
          (case vget d ''citation'' of
             PDict cite \<Rightarrow>
               if py_truth (vget cite ''document_id'') then note_doc (py_str fr (vget cite ''document_id'')) found
               else found
           | _ \<Rightarrow> found);
          meta = (if py_truth (vget d ''metadata'')
                  then (case vget d ''metadata'' of PDict m \<Rightarrow> Some m | _ \<Rightarrow> None) else Some []);
          doc = (if py_truth (vget d ''document_id'') then Some (vget d ''document_id'')
                 else map_option (\<lambda>m. vget m ''document_id'') meta)
      in map_option (\<lambda>doc. if py_truth doc \<and> map_of d ''text'' \<noteq> None then note_doc (py_str fr doc) found else found) doc)"

fun cites :: "(rat \<Rightarrow> string) \<Rightarrow> pyval \<Rightarrow> string list \<Rightarrow> string list option"
and cites_list :: "(rat \<Rightarrow> string) \<Rightarrow> pyval list \<Rightarrow> string list \<Rightarrow> string list option"
and cites_dict :: "(rat \<Rightarrow> string) \<Rightarrow> pydict \<Rightarrow> string list \<Rightarrow> string list option" where
  "cites fr (PDict d) found = Option.bind (cited_here fr d found) (cites_dict fr d)"
| "cites fr (PList xs) found = cites_list fr xs found"
| "cites fr v found = Some found"
| "cites_list fr [] found = Some found"
| "cites_list fr (x # xs) found = Option.bind (cites fr x found) (cites_list fr xs)"
| "cites_dict fr [] found = Some found"
| "cites_dict fr ((k, x) # d) found = Option.bind (cites fr x found) (cites_dict fr d)"

definition language_ok :: "string \<Rightarrow> string \<Rightarrow> bool" where
  "language_ok text expected =
     (let code = lower (strip expected);
          letters = filter is_alpha text;
          share = (\<lambda>p. (of_nat (length (filter p letters)) :: rat) / of_nat (length letters))
      in if letters = [] then True
         else if code \<in> {''en'', ''eng'', ''english'', ''latin''} then 8 / 10 \<le> share (\<lambda>c. of_char c < (128 :: nat))
         else if code \<in> {''zh'', ''ja'', ''ko'', ''cjk'', ''chinese'', ''japanese'', ''korean''}
           then 3 / 10 \<le> share (\<lambda>c. let k = of_char c :: nat in
                  0x4E00 \<le> k \<and> k \<le> 0x9FFF \<or> 0x3040 \<le> k \<and> k \<le> 0x30FF \<or> 0xAC00 \<le> k \<and> k \<le> 0xD7AF)
         else False)"

definition strip_quotes :: "string \<Rightarrow> string" where
  "strip_quotes s = (let q = (\<lambda>c. c = CHR 0x22) in rev (dropWhile q (rev (dropWhile q s))))"

definition retrieved_citation :: "(rat \<Rightarrow> string) \<Rightarrow> string \<Rightarrow> pydict \<Rightarrow> string \<Rightarrow> failure + bool \<times> string" where
  "retrieved_citation fr name ns text =
     (case cites fr (PDict ns) [] of
        None \<Rightarrow> Inl (Raised ForeignErr ''AttributeError'' ''get'')
      | Some docs \<Rightarrow>
          if docs = [] then Inr (True, name @ '' missing citation source retrieved'')
          else if \<not> list_ex (\<lambda>doc. has_infix doc text) docs
            then Inr (True, name @ '' uncited answer; expected a retrieved document'')
          else Inr (False, []))"

definition field_citation :: "(rat \<Rightarrow> string) \<Rightarrow> string \<Rightarrow> string \<Rightarrow> pydict \<Rightarrow> string \<Rightarrow> bool \<times> string" where
  "field_citation fr name source ns text =
     (let token = strip_quotes (strip (payload_text fr (vget ns source))) in
      if vget ns source = PNone \<or> token = [] \<or> token \<in> {''null'', ''None''}
      then (True, name @ '' missing citation source '' @ source)
      else if \<not> has_infix token text then (True, name @ '' fabricated or missing citation of '' @ source)
      else (False, []))"

text \<open>
  \<open>search\<close> is \<open>search_bounded\<close> on a pattern of the user, whose timeout counts as a match. The citation
  and the bound of a rule that passed the validation are there.
\<close>

definition eval_rule :: "(rat \<Rightarrow> string) \<Rightarrow> (string \<Rightarrow> string \<Rightarrow> bool) \<Rightarrow> contract_rule \<Rightarrow> pyval \<Rightarrow> pydict \<Rightarrow>
    failure + bool \<times> string" where
  "eval_rule fr search r v ns =
     (let text = payload_text fr v; kind = rule_kind r; name = recorded_name r in
      if kind = ''deny_regex'' then
        Inr (if search (or_empty (cr_deny_regex r)) text then (True, name @ '' matched deny_regex'') else (False, []))
      else if kind = ''deny'' then
        Inr (if or_empty (cr_deny r) \<noteq> [] \<and> has_infix (or_empty (cr_deny r)) text
             then (True, name @ '' matched literal deny'') else (False, []))
      else if kind = ''require_citation'' then
        (case normalize_citation fr (cr_citation r) of
           None \<Rightarrow> Inl (Raised ForeignErr ''ValueError'' ''require_citation'')
         | Some source \<Rightarrow>
             if source = ''retrieved'' then retrieved_citation fr name ns text
             else Inr (field_citation fr name source ns text))
      else if kind = ''language'' then
        Inr (if language_ok text (or_empty (cr_language r)) then (False, [])
             else (True, name @ '' language is not '' @ or_empty (cr_language r)))
      else if kind = ''max_chars'' then
        (case normalize_max_chars (cr_max_chars r) of
           None \<Rightarrow> Inl (Raised ForeignErr ''ValueError'' ''max_chars'')
         | Some (bound, field) \<Rightarrow>
             Inr (if bound < int (length (field_text fr v field))
                  then (True, name @ '' exceeded max_chars '' @ int_text bound) else (False, [])))
      else if kind = ''pii'' then Inr (if pii_hit text then (True, name @ '' matched PII detector'') else (False, []))
      else Inr (False, []))"

text \<open>\<open>sub\<close> replaces the matches of a pattern of the user.\<close>

definition mask_firing_match :: "(string \<Rightarrow> string \<Rightarrow> string \<Rightarrow> string) \<Rightarrow> pyval \<Rightarrow> contract_rule option \<Rightarrow> pyval" where
  "mask_firing_match sub v rule =
     (case rule of
        None \<Rightarrow> v
      | Some r \<Rightarrow>
          (let kind = rule_kind r in
           if kind = ''deny'' then
             (if or_empty (cr_deny r) = [] then v else map_strings (replace_text (or_empty (cr_deny r)) REDACTED) v)
           else if kind = ''deny_regex'' then map_strings (sub (or_empty (cr_deny_regex r)) REDACTED) v
           else if kind = ''pii'' then redact default_redactor v
           else v))"

end
