(* ===== verification/ContractSafety.thy ===== *)
theory ContractSafety
  imports ContractRuns EngineSafety
begin

text \<open>
  What an output contract lets through, how many model calls it makes, and where its actions fall
  short: a redaction ends the rules, a decision on another gate of the node opens the contract gate,
  and a consumed decision never does.
\<close>

section \<open>Frames\<close>

lemma consume_decision_run [simp]: "ew_run (snd (consume_decision node w)) = ew_run w"
  by (simp add: consume_decision_def Let_def)

lemma consume_decision_some:
  assumes "consume_decision node w = (Some d, w')"
  shows "map_of (ew_decisions w) node = Some d"
  using assms by (cases "map_of (ew_decisions w) node") (auto simp: consume_decision_def Let_def split: if_splits)

lemma consume_decision_decisions:
  "map_of (ew_decisions (snd (consume_decision node w))) node = Some d \<Longrightarrow> map_of (ew_decisions w) node = Some d"
  by (auto simp: consume_decision_def Let_def delete_conv split: if_splits)

text \<open>What a contract reads of the world besides the model: the decisions and the pending record.\<close>

definition seen :: "engine_world \<Rightarrow> (string \<times> string) list \<times> pydict option" where
  "seen w = (ew_decisions w, rs_pending (ew_run w))"

lemma seen_frames [simp]:
  "seen (emit e w) = seen w"
  "seen (store_report n report w) = seen w"
  "seen (record_signal c n action reason refused report w) = seen w"
  by (simp_all add: seen_def emit_def on_run_def store_report_def record_signal_def Let_def split: option.split)

definition disposition :: "graph_node \<Rightarrow> engine_world \<Rightarrow> pyval" where
  "disposition n w =
     (case vget (rs_metadata (ew_run w)) ''contracts'' of
        PDict bucket \<Rightarrow> (case vget bucket (gn_id n) of PDict d \<Rightarrow> vget d ''disposition'' | _ \<Rightarrow> PNone)
      | _ \<Rightarrow> PNone)"

lemma disposition_store [simp]: "disposition n (store_report n report w) = vget report ''disposition''"
  by (simp add: disposition_def store_report_def Let_def)

lemma final_report_disposition [simp]: "vget (final_report action shown reason rule report) ''disposition'' = PStr action"
  by (simp add: final_report_def Let_def split: option.split)

text \<open>Model calls touch neither.\<close>

definition asks_only :: "contract_ctx \<Rightarrow> bool" where
  "asks_only x \<longleftrightarrow>
     (\<forall>m w. seen (snd (cx_complete x m w)) = seen w) \<and>
     (\<forall>ref m w. seen (snd (cx_ask x ref m w)) = seen w) \<and>
     (\<forall>ref w. seen (cx_meter x ref w) = seen w)"

lemma asks_only_facts:
  assumes "asks_only x"
  shows "cx_complete x m w = (r, w') \<Longrightarrow> seen w' = seen w"
    "cx_ask x ref m w = (r, w') \<Longrightarrow> seen w' = seen w"
    "seen (cx_meter x ref w) = seen w"
  using assms unfolding asks_only_def by (metis snd_conv)+

lemma repair_loop_decisions:
  "asks_only x \<Longrightarrow> repair_loop c x n schema k messages v err report w = (r, w') \<Longrightarrow> seen w' = seen w"
proof (induction c x n schema k messages v err report w rule: repair_loop.induct)
  case (2 c x n schema k messages parsed err report w)
  obtain a u where a: "cx_complete x (messages @ [(''user'', err)]) w = (a, u)" by force
  then have "seen u = seen w" using asks_only_facts(1)[OF "2.prems"(1)] by blast
  then show ?case
    using "2.prems" "2.IH" a by (auto simp: Let_def split: sum.splits prod.splits option.splits)
qed simp

lemma check_schema_decisions:
  "asks_only x \<Longrightarrow> check_schema c x n spec schema v report w = (r, w') \<Longrightarrow> seen w' = seen w"
  by (auto simp: check_schema_def model_repairs_def Let_def split: sum.splits prod.splits option.splits if_splits
      dest: repair_loop_decisions)

lemma run_rules_decisions:
  "asks_only x \<Longrightarrow> run_rules c x v ns rs report w = (r, w') \<Longrightarrow> seen w' = seen w"
proof (induction c x v ns rs report w rule: run_rules.induct)
  case (2 c x v ns r rs report w)
  obtain a u where a: "rule_outcome c x r v ns w = (a, u)" by force
  then have "seen u = seen w"
    using asks_only_facts[OF "2.prems"(1)]
    by (auto simp: rule_outcome_def split: option.splits if_splits prod.splits sum.splits)
  then show ?case
    using "2.prems" "2.IH" a by (auto simp: Let_def split: sum.splits prod.splits if_splits)
qed simp

lemma try_fallbacks_decisions:
  "asks_only x \<Longrightarrow> try_fallbacks c x n schema refs w = (r, w') \<Longrightarrow> seen w' = seen w"
proof (induction c x n schema refs w rule: try_fallbacks.induct)
  case (2 c x n schema ref refs w)
  obtain a u where a: "cx_ask x ref (cx_messages x) w = (a, u)" by force
  then have "seen u = seen w" using asks_only_facts(2)[OF "2.prems"(1)] by blast
  then show ?case
    using "2.prems" "2.IH" a by (auto simp: Let_def split: sum.splits prod.splits option.splits if_splits)
qed simp

section \<open>The schema\<close>

definition fits_schema :: "engine_ctx \<Rightarrow> contract_ctx \<Rightarrow> graph_node \<Rightarrow> pydict \<Rightarrow> pyval \<Rightarrow> bool" where
  "fits_schema c x n schema u \<longleftrightarrow>
     (\<exists>text. validate_structured_output (ec_text c) (cx_loads x) (cx_validates x) n text schema = Inr u)"

lemma try_schema_fits: "try_schema c x n schema v = Inr (u, None) \<Longrightarrow> fits_schema c x n schema u"
  by (auto simp: try_schema_def fits_schema_def split: sum.splits failure.splits error_class.splits)

lemma repair_loop_fits:
  "repair_loop c x n schema k messages v err report w = (Inr ((u, None), report'), w') \<Longrightarrow> fits_schema c x n schema u"
proof (induction c x n schema k messages v err report w rule: repair_loop.induct)
  case (2 c x n schema k messages parsed err report w)
  then show ?case
    by (auto simp: Let_def split: sum.splits prod.splits option.splits dest: try_schema_fits)
qed simp

lemma check_schema_fits:
  "check_schema c x n spec schema v report w = (Inr ((u, None), report'), w') \<Longrightarrow> fits_schema c x n schema u"
  by (auto simp: check_schema_def model_repairs_def Let_def split: sum.splits prod.splits option.splits if_splits
      dest: try_schema_fits repair_loop_fits)

text \<open>The rules that need no model, on the value that comes out.\<close>

definition no_rule_fires :: "engine_ctx \<Rightarrow> contract_ctx \<Rightarrow> contract_rule list \<Rightarrow> pydict \<Rightarrow> pyval \<Rightarrow> bool" where
  "no_rule_fires c x rs ns u \<longleftrightarrow>
     (\<forall>r \<in> set rs. cr_judge r = None \<longrightarrow> (\<exists>reason. eval_rule (ec_text c) (cx_search x) r u ns = Inr (False, reason)))"

lemma run_rules_pass:
  "run_rules c x v ns rs report w = (Inr (None, report'), w') \<Longrightarrow> no_rule_fires c x rs ns v"
proof (induction c x v ns rs report w rule: run_rules.induct)
  case (2 c x v ns r rs report w)
  obtain a u where a: "rule_outcome c x r v ns w = (a, u)" by force
  then obtain reason score where ok: "a = Inr (False, reason, score)"
    and rest: "run_rules c x v ns rs (add_row ''rules'' (rule_row r (False, reason, score)) report) u = (Inr (None, report'), w')"
    using "2.prems" by (auto simp: Let_def split: sum.splits prod.splits if_splits)
  have "cr_judge r = None \<Longrightarrow> eval_rule (ec_text c) (cx_search x) r v ns = Inr (False, reason)"
    using a ok by (cases "eval_rule (ec_text c) (cx_search x) r v ns") (auto simp: rule_outcome_def)
  moreover have "no_rule_fires c x rs ns v"
    using "2.IH"[OF a[symmetric] ok refl refl refl _ rest] by simp
  ultimately show ?case by (auto simp: no_rule_fires_def)
qed (simp add: no_rule_fires_def)

section \<open>What comes out\<close>

definition meets :: "engine_ctx \<Rightarrow> contract_ctx \<Rightarrow> graph_node \<Rightarrow> contract_spec \<Rightarrow> pyval \<Rightarrow> bool" where
  "meets c x n spec u \<longleftrightarrow>
     (case ct_schema spec of None \<Rightarrow> True | Some schema \<Rightarrow> schema = [] \<or> fits_schema c x n schema u) \<and>
     (\<exists>ns. no_rule_fires c x (ct_rules spec) ns u)"

definition let_through :: "engine_ctx \<Rightarrow> contract_ctx \<Rightarrow> graph_node \<Rightarrow> contract_spec \<Rightarrow> engine_world \<Rightarrow> pyval \<Rightarrow>
    engine_world \<Rightarrow> bool" where
  "let_through c x n spec w u w' \<longleftrightarrow>
     disposition n w' \<in> {PStr ''ok'', PStr ''fallback''} \<and> meets c x n spec u \<or>
     disposition n w' = PStr ''redact_and_continue'' \<and>
       (\<exists>v rule. u = redact (the_redactor x) (mask_firing_match (cx_sub x) v rule)) \<or>
     disposition n w' = PStr ''gate_approved'' \<and>
       (\<exists>d \<in> set CONTRACT_APPROVE. map_of (ew_decisions w) (gn_id n) = Some d)"

lemma let_through_earlier:
  "let_through c x n spec w u w' \<Longrightarrow>
   (\<And>d. map_of (ew_decisions w) (gn_id n) = Some d \<Longrightarrow> map_of (ew_decisions w0) (gn_id n) = Some d) \<Longrightarrow>
   let_through c x n spec w0 u w'"
  unfolding let_through_def by blast

lemma contract_gate_through:
  "contract_gate n v prompt reason report w = (Inr u, w') \<Longrightarrow> let_through c x n spec w u w'"
  by (auto simp: contract_gate_def let_through_def split: prod.splits option.splits if_splits dest: consume_decision_some)

text \<open>The ways in which a failed check still gives a value.\<close>

lemma finish_cases:
  assumes "finish_contract c x n spec again allow v r report w = (Inr u, w')"
  obtains (redacted) rep w2 where "u = redact (the_redactor x) (mask_firing_match (cx_sub x) v (vc_rule r))"
      "w' = store_report n rep w2" "vget rep ''disposition'' = PStr ''redact_and_continue''"
      "vc_action r = ''redact_and_continue''"
    | (gated) prompt reason rep w2 where "contract_gate n v prompt reason rep w2 = (Inr u, w')"
      "seen w2 = seen w" "vc_action r = ''gate''"
    | (recovered) v2 w2 w3 where "fallback_once c x n spec w2 = (Inr (Some v2), w3)" "again v2 w3 = (Inr u, w')"
      "seen w2 = seen w" "vc_action r = ''fallback''" allow
proof -
  let ?shown = "sanitize_rejected c x (vc_rule r) v"
  let ?reason = "if vc_reason r = [] then [] else sanitize_rejected c x (vc_rule r) (PStr (vc_reason r))"
  let ?rep = "final_report (vc_action r) ?shown ?reason (vc_rule r) report"
  let ?w = "record_signal c n (vc_action r) (if ?reason = [] then vc_reason r else ?reason) (vc_refused r) ?rep (store_report n ?rep w)"
  have keep: "seen ?w = seen w" by simp
  have "vc_action r = ''redact_and_continue'' \<and> u = redact (the_redactor x) (mask_firing_match (cx_sub x) v (vc_rule r)) \<and>
        w' = store_report n ?rep ?w \<or>
      vc_action r = ''gate'' \<and> contract_gate n v (gate_prompt (vc_rule r) ?reason ?shown) ?reason ?rep ?w = (Inr u, w') \<or>
      vc_action r = ''fallback'' \<and> allow \<and>
        (\<exists>v2 w3. fallback_once c x n spec ?w = (Inr (Some v2), w3) \<and> again v2 w3 = (Inr u, w'))"
    using assms unfolding finish_contract_def Let_def
    by (simp split: if_split_asm) (auto split: prod.splits sum.splits option.splits)
  then show ?thesis
    using redacted[of ?rep ?w] gated[of _ _ ?rep ?w] recovered[of ?w] keep by (elim disjE conjE exE) simp_all
qed

lemma fallback_decisions:
  "asks_only x \<Longrightarrow> fallback_once c x n spec w = (r, w') \<Longrightarrow> seen w' = seen w"
  by (auto simp: fallback_once_def split: if_splits dest: try_fallbacks_decisions)

lemma finish_through:
  assumes "finish_contract c x n spec again allow v r report w = (Inr u, w')" "asks_only x"
    "\<And>v w2. allow \<Longrightarrow> seen w2 = seen w \<Longrightarrow> again v w2 = (Inr u, w') \<Longrightarrow> let_through c x n spec w u w'"
  shows "let_through c x n spec w u w'"
  using assms(1)
proof (cases rule: finish_cases)
  case (redacted rep w2)
  then show ?thesis by (auto simp: let_through_def)
next
  case (gated prompt reason rep w2)
  then have "let_through c x n spec w2 u w'" by (intro contract_gate_through)
  then show ?thesis using gated(2) let_through_earlier[of c x n spec w2 u w' w] by (simp add: seen_def)
next
  case (recovered v2 w2 w3)
  then show ?thesis using assms(3)[of w3 v2] fallback_decisions[OF assms(2)] by simp
qed

lemma finish_through_later:
  assumes "finish_contract c x n spec again allow v r report w2 = (Inr u, w')" "asks_only x" "seen w2 = seen w"
    "\<And>v w2. allow \<Longrightarrow> seen w2 = seen w \<Longrightarrow> again v w2 = (Inr u, w') \<Longrightarrow> let_through c x n spec w u w'"
  shows "let_through c x n spec w u w'"
proof -
  have same: "let_through c x n spec w2 u w' \<longleftrightarrow> let_through c x n spec w u w'"
    using assms(3) by (simp add: let_through_def seen_def)
  show ?thesis
    using finish_through[OF assms(1,2)] assms(3,4) unfolding same by simp
qed

lemma shape_stage_fits:
  assumes "shape_stage c x n spec v w = (Inr ((u, None), report), w')"
  shows "case ct_schema spec of None \<Rightarrow> True | Some schema \<Rightarrow> schema = [] \<or> fits_schema c x n schema u"
  using assms by (auto simp: shape_stage_def split: if_splits option.splits dest: check_schema_fits)

lemma shape_stage_seen: "asks_only x \<Longrightarrow> shape_stage c x n spec v w = (r, w') \<Longrightarrow> seen w' = seen w"
  by (auto simp: shape_stage_def split: if_splits dest: check_schema_decisions)

lemma rules_stage_through:
  assumes "rules_stage c x n spec again allow from ns v report w2 = (Inr u, w')" "asks_only x" "seen w2 = seen w"
    "\<And>v w2. allow \<Longrightarrow> seen w2 = seen w \<Longrightarrow> again v w2 = (Inr u, w') \<Longrightarrow> let_through c x n spec w u w'"
    "case ct_schema spec of None \<Rightarrow> True | Some schema \<Rightarrow> schema = [] \<or> fits_schema c x n schema v"
  shows "let_through c x n spec w u w'"
proof -
  obtain q w3 where q: "run_rules c x v ns (ct_rules spec) report w2 = (q, w3)" by force
  have w3: "seen w3 = seen w" using run_rules_decisions[OF assms(2) q] assms(3) by simp
  obtain fired rep where fired: "q = Inr (fired, rep)"
    using assms(1) q by (cases q) (auto simp: rules_stage_def)
  show ?thesis
  proof (cases fired)
    case (Some rr)
    then have "finish_contract c x n spec again allow v (rejects_value (fst rr) (snd rr)) rep w3 = (Inr u, w')"
      using assms(1) q fired by (simp add: rules_stage_def split_def)
    then show ?thesis by (rule finish_through_later[OF _ assms(2) w3 assms(4)])
  next
    case None
    then have "v = u" "w' = store_report n (dset ''disposition'' (PStr (if from then ''fallback'' else ''ok'')) rep) w3"
      using assms(1) q fired by (simp_all add: rules_stage_def)
    moreover have "no_rule_fires c x (ct_rules spec) ns v"
      using run_rules_pass[of c x v ns "ct_rules spec" report w2 rep w3] q fired None by simp
    ultimately show ?thesis using assms(5) by (auto simp: let_through_def meets_def)
  qed
qed

lemma check_output_through:
  assumes "check_output c x n spec again allow from v w = (Inr u, w')" "asks_only x"
    "\<And>v w2. allow \<Longrightarrow> seen w2 = seen w \<Longrightarrow> again v w2 = (Inr u, w') \<Longrightarrow> let_through c x n spec w u w'"
  shows "let_through c x n spec w u w'"
proof (cases "is_refusal (payload_text (ec_text c) v)")
  case True
  then have "finish_contract c x n spec again allow v (refuses spec) blank_report w = (Inr u, w')"
    using assms(1) by (simp add: check_output_def Let_def)
  then show ?thesis by (rule finish_through[OF _ assms(2,3)])
next
  case False
  obtain r w2 where r: "shape_stage c x n spec v w = (r, w2)" by force
  note w2 = shape_stage_seen[OF assms(2) r]
  obtain v2 err report where v2: "r = Inr ((v2, err), report)"
    using assms(1) r False by (cases r) (auto simp: check_output_def Let_def)
  show ?thesis
  proof (cases err)
    case (Some e)
    then have "finish_contract c x n spec again allow v2 (rejects_shape spec e) report w2 = (Inr u, w')"
      using assms(1) r v2 False by (simp add: check_output_def Let_def)
    then show ?thesis by (rule finish_through_later[OF _ assms(2) w2 assms(3)])
  next
    case None
    then have "rules_stage c x n spec again allow from (mapping (ew_run w)) v2 report w2 = (Inr u, w')"
      using assms(1) r v2 False by (simp add: check_output_def Let_def)
    then show ?thesis
      by (rule rules_stage_through[OF _ assms(2) w2 assms(3) shape_stage_fits[OF r[unfolded v2 None]]])
  qed
qed

definition no_stored :: "engine_world \<Rightarrow> bool" where
  "no_stored w \<longleftrightarrow> (case rs_pending (ew_run w) of None \<Rightarrow> True | Some p \<Rightarrow> vget p ''contract_output'' = PNone)"

lemma enforce_pass_through:
  assumes "enforce_pass c x n spec again allow from v w = (Inr u, w')" "asks_only x" "cx_offline x = None" "no_stored w"
    "\<And>v w2. allow \<Longrightarrow> no_stored w2 \<Longrightarrow>
      (\<And>d. map_of (ew_decisions w2) (gn_id n) = Some d \<Longrightarrow> map_of (ew_decisions w) (gn_id n) = Some d) \<Longrightarrow>
      again v w2 = (Inr u, w') \<Longrightarrow> let_through c x n spec w2 u w'"
  shows "let_through c x n spec w u w'"
proof -
  obtain d w1 where d: "consume_decision (gn_id n) w = (d, w1)" by force
  have run: "ew_run w1 = ew_run w" using consume_decision_run[of "gn_id n" w] d by simp
  have less: "map_of (ew_decisions w1) (gn_id n) = Some d' \<Longrightarrow> map_of (ew_decisions w) (gn_id n) = Some d'" for d'
    using consume_decision_decisions[of "gn_id n" w d'] d by simp
  have "check_output c x n spec again allow from v w1 = (Inr u, w')"
    using assms(1,3,4) d run by (auto simp: enforce_pass_def Let_def no_stored_def split: option.splits if_splits)
  then have "let_through c x n spec w1 u w'"
  proof (rule check_output_through[OF _ assms(2)])
    fix v2 w2 assume again: "allow" "seen w2 = seen w1" "again v2 w2 = (Inr u, w')"
    have "let_through c x n spec w2 u w'"
      by (rule assms(5)[OF again(1) _ _ again(3)]) (use again(2) assms(4) run less in \<open>auto simp: seen_def no_stored_def\<close>)
    then show "let_through c x n spec w1 u w'" using again(2) by (simp add: let_through_def seen_def)
  qed
  then show ?thesis using less let_through_earlier by blast
qed

section \<open>Properties\<close>


definition plain_contract :: contract_ctx where
  "plain_contract =
     \<lparr>cx_loads = Inl, cx_search = has_infix, cx_sub = replace_text, cx_validates = \<lambda>m v. Inr v,
      cx_redactor = None, cx_offline = None, cx_llm = True, cx_messages = [(''user'', ''hi'')],
      cx_complete = \<lambda>m w. (Inr ''no'', w\<lparr>ew_polls := Suc (ew_polls w)\<rparr>),
      cx_ask = \<lambda>ref m w. (Inr ''no'', w\<lparr>ew_polls := Suc (ew_polls w)\<rparr>),
      cx_meter = \<lambda>ref w. w, cx_fallbacks = [''m2'']\<rparr>"

definition denies :: "string \<Rightarrow> string \<Rightarrow> contract_rule" where
  "denies text action =
     \<lparr>cr_name = None, cr_deny_regex = None, cr_deny = Some text, cr_citation = PNone, cr_language = None,
      cr_max_chars = PNone, cr_pii = PNone, cr_judge = None, cr_on_fail = action\<rparr>"

definition rules_only :: "contract_rule list \<Rightarrow> contract_spec" where
  "rules_only rs =
     \<lparr>ct_schema = None, ct_rules = rs, ct_on_invalid = ''fail'', ct_max_repairs = None, ct_on_exhausted = None,
      ct_on_refusal = None\<rparr>"

lemma plain_contract_facts:
  "asks_only plain_contract" "cx_offline plain_contract = None" "no_stored demo_world"
  by (simp_all add: asks_only_def plain_contract_def seen_def no_stored_def demo_world_def start_run_def)

abbreviation fine_run :: "(failure + pyval) \<times> engine_world" where
  "fine_run \<equiv> enforce_contract demo_ctx plain_contract failing_node (rules_only [denies ''bad'' ''fail'']) (PStr ''fine'') demo_world"

lemma fine_run_eq: "fine_run = (Inr (PStr ''fine''), snd fine_run)" "disposition failing_node (snd fine_run) = PStr ''ok''"
  by (subst prod_eq_iff, simp, code_simp) code_simp


text \<open>A rule at the head of the list that fires on an output without a schema.\<close>

definition first_rule_fires :: "engine_ctx \<Rightarrow> contract_ctx \<Rightarrow> contract_rule \<Rightarrow> pyval \<Rightarrow> string \<Rightarrow> engine_world \<Rightarrow> bool" where
  "first_rule_fires c x r v reason w \<longleftrightarrow>
     cx_offline x = None \<and> \<not> is_refusal (payload_text (ec_text c) v) \<and> cr_judge r = None \<and>
     eval_rule (ec_text c) (cx_search x) r v (mapping (ew_run w)) = Inr (True, reason)"

lemma check_output_first_rule:
  assumes "first_rule_fires c x r v reason w" "ct_schema spec = None" "ct_rules spec = r # rs"
  shows "\<exists>report. check_output c x n spec again allow from v w =
    finish_contract c x n spec again allow v (rejects_value r reason) report w"
  using assms
  by (auto simp: check_output_def shape_stage_def rules_stage_def rule_outcome_def first_rule_fires_def Let_def)

lemma enforce_first_rule:
  assumes "first_rule_fires c x r v reason w1" "ct_schema spec = None" "ct_rules spec = r # rs"
    "consume_decision (gn_id n) w = (d, w1)" "d = None \<or> the d \<notin> set CONTRACT_REJECT" "d = None \<or> no_stored w1"
  obtains again report where
    "enforce_contract c x n spec v w = finish_contract c x n spec again True v (rejects_value r reason) report w1"
proof -
  let ?again = "enforce_pass c x n spec (\<lambda>v w. (Inr v, w)) False True"
  have "enforce_contract c x n spec v w = check_output c x n spec ?again True False v w1"
    using assms(1,4-6)
    by (auto simp: enforce_contract_def enforce_pass_def first_rule_fires_def no_stored_def Let_def split: option.splits)
  moreover obtain report where
    "check_output c x n spec ?again True False v w1 = finish_contract c x n spec ?again True v (rejects_value r reason) report w1"
    using check_output_first_rule[OF assms(1-3), of n ?again True False] by blast
  ultimately show ?thesis using that by simp
qed

lemma finish_redacts:
  "vc_action r = ''redact_and_continue'' \<Longrightarrow>
   fst (finish_contract c x n spec again allow v r report w) = Inr (redact (the_redactor x) (mask_firing_match (cx_sub x) v (vc_rule r)))"
  by (simp add: finish_contract_def Let_def ACTIONS_def)

text \<open>Whether the decision on a node is taken away by the reader.\<close>

definition consumes :: "engine_world \<Rightarrow> bool" where
  "consumes w = py_truth (vget (rs_metadata (ew_run w)) ''mcp_consume_decisions'')"

lemma consume_decision_eq:
  "consume_decision node w =
     (if \<not> truthy (map_of (ew_decisions w) node) then (None, w)
      else (map_of (ew_decisions w) node,
            if consumes w then w\<lparr>ew_decisions := AList.delete node (ew_decisions w)\<rparr> else w))"
  by (simp add: consume_decision_def consumes_def Let_def)

lemma consumes_frames [simp]:
  "consumes (store_report n report w) = consumes w"
  "consumes (record_signal c n action reason refused report w) = consumes w"
  by (simp_all add: consumes_def emit_def on_run_def store_report_def record_signal_def record_implicit_def
      append_correction_def record_consent_def Let_def split: option.split)

lemma finish_gates:
  assumes "vc_action r = ''gate''"
  obtains prompt reason rep w2 where
    "finish_contract c x n spec again allow v r report w = contract_gate n v prompt reason rep w2"
    "seen w2 = seen w" "consumes w2 = consumes w"
proof -
  let ?shown = "sanitize_rejected c x (vc_rule r) v"
  let ?reason = "if vc_reason r = [] then [] else sanitize_rejected c x (vc_rule r) (PStr (vc_reason r))"
  let ?rep = "final_report ''gate'' ?shown ?reason (vc_rule r) report"
  let ?w = "record_signal c n ''gate'' (if ?reason = [] then vc_reason r else ?reason) (vc_refused r) ?rep (store_report n ?rep w)"
  have "finish_contract c x n spec again allow v r report w = contract_gate n v (gate_prompt (vc_rule r) ?reason ?shown) ?reason ?rep ?w"
    using assms by (simp add: finish_contract_def Let_def ACTIONS_def)
  then show ?thesis using that[of _ _ ?rep ?w] by simp
qed

text \<open>
  A rule with the action redact_and_continue ends the rules: when it fires, the redacted value is
  the output of the node whatever the rules after it say, although the output may break them all.
\<close>

theorem redaction_ends_rules:
  assumes "first_rule_fires c x r v reason w" "ct_schema spec = None" "ct_rules spec = r # rs"
    "cr_on_fail r = ''redact_and_continue''" "map_of (ew_decisions w) (gn_id n) = None"
  shows "fst (enforce_contract c x n spec v w) = Inr (redact (the_redactor x) (mask_firing_match (cx_sub x) v (Some r)))"
proof -
  have "consume_decision (gn_id n) w = (None, w)" using assms(5) by (simp add: consume_decision_def)
  then obtain again report where
    "enforce_contract c x n spec v w = finish_contract c x n spec again True v (rejects_value r reason) report w"
    using enforce_first_rule[OF assms(1-3)] by blast
  then show ?thesis using assms(4) finish_redacts[of "rejects_value r reason"] by (simp add: rejects_value_def)
qed

lemma demo_contract_simps [simp]:
  "ct_schema (rules_only rs) = None" "ct_rules (rules_only rs) = rs" "cr_on_fail (denies text action) = action"
  "ew_decisions demo_world = []"
  by (simp_all add: rules_only_def denies_def demo_world_def)

abbreviation leaky :: contract_spec where
  "leaky \<equiv> rules_only [denies ''key'' ''redact_and_continue'', denies ''bad'' ''fail'']"

lemma leaky_fires: "first_rule_fires demo_ctx plain_contract (denies ''key'' ''redact_and_continue'') (PStr ''bad key'')
    ''deny matched literal deny'' demo_world"
  by (simp add: first_rule_fires_def) code_simp

lemma leaky_redacted: "redact (the_redactor plain_contract) (mask_firing_match (cx_sub plain_contract) (PStr ''bad key'')
    (Some (denies ''key'' ''redact_and_continue''))) = PStr ''bad [redacted]''"
  by code_simp

theorem redaction_ends_rules_witness:
  "fst (enforce_contract demo_ctx plain_contract failing_node leaky (PStr ''bad key'') demo_world) = Inr (PStr ''bad [redacted]'')"
  using redaction_ends_rules [OF leaky_fires, of leaky "[denies ''bad'' ''fail'']" failing_node]
  by (simp add: leaky_redacted)

text \<open>
  The decision that approves the policy gate of a node also opens the gate of its contract: the run
  that was resumed to execute the node publishes an output that fails the contract, which nobody has
  seen, instead of pausing for it.
\<close>

theorem policy_approval_opens_contract_gate:
  assumes "bd_gated b (gn_id n)" "gn_type n \<noteq> ''code''" "map_of (ew_decisions w) (gn_id n) = Some ''approve''"
    "\<not> consumes w" "no_stored w"
    "run_handler c b n k w = (Inr v, w1)" "seen w1 = seen w" "consumes w1 = consumes w"
    "bd_contract b (gn_id n) = Some (enforce_contract c x n spec)"
    "first_rule_fires c x r v reason w1" "ct_schema spec = None" "ct_rules spec = r # rs" "cr_on_fail r = ''gate''"
  shows "\<exists>w'. execute_node c b n k w = (Inr v, w') \<and> disposition n w' = PStr ''gate_approved''"
proof -
  have gate: "body_gate b n w = (None, w)"
    using assms(1-4) by (simp add: body_gate_def consume_decision_eq APPROVE_VALUES_def)
  have d: "consume_decision (gn_id n) w1 = (Some ''approve'', w1)"
    using assms(3,4,7,8) by (simp add: consume_decision_eq seen_def)
  have "no_stored w1" using assms(5,7) by (simp add: no_stored_def seen_def)
  then obtain again report where
    eq: "enforce_contract c x n spec v w1 = finish_contract c x n spec again True v (rejects_value r reason) report w1"
    using enforce_first_rule[OF assms(10-12) d] by (auto simp: CONTRACT_REJECT_def)
  obtain prompt why rep w2 where
    "finish_contract c x n spec again True v (rejects_value r reason) report w1 = contract_gate n v prompt why rep w2"
    and w2: "seen w2 = seen w1" "consumes w2 = consumes w1"
    using finish_gates[of "rejects_value r reason"] assms(13) by (metis rejects_value_def verdict_of_contract.select_convs(1))
  moreover have "consume_decision (gn_id n) w2 = (Some ''approve'', w2)"
    using w2 assms(3,4,7,8) by (simp add: consume_decision_eq seen_def)
  ultimately show ?thesis
    using assms(6,9) gate eq by (simp add: execute_node_def contract_gate_def CONTRACT_APPROVE_def)
qed

definition approved_world :: engine_world where
  "approved_world = demo_world\<lparr>ew_decisions := [(''x'', ''approve'')]\<rparr>"

definition gated_bodies :: body_ctx where
  "gated_bodies = demo_bodies\<lparr>bd_gated := \<lambda>i. True,
     bd_runner := \<lambda>ty. Some (\<lambda>n k w. (Inr (PStr ''bad''), w)),
     bd_contract := \<lambda>i. Some (enforce_contract demo_ctx plain_contract failing_node (rules_only [denies ''bad'' ''gate'']))\<rparr>"

lemma gated_fires: "first_rule_fires demo_ctx plain_contract (denies ''bad'' ''gate'') (PStr ''bad'')
    ''deny matched literal deny'' approved_world"
  by (simp add: first_rule_fires_def) code_simp

lemma gated_facts:
  "gn_id failing_node = ''x''" "gn_type failing_node = ''nope''" "\<not> consumes approved_world" "no_stored approved_world"
  "run_handler demo_ctx gated_bodies failing_node 1 approved_world = (Inr (PStr ''bad''), approved_world)"
  "map_of (ew_decisions approved_world) (gn_id failing_node) = Some ''approve''"
  by (simp_all add: failing_node_def demo_node_def demo_flow_def approved_world_def demo_world_def consumes_def no_stored_def
      start_run_def gated_bodies_def run_handler_def demo_bodies_def)

theorem policy_approval_opens_contract_gate_witness:
  "\<exists>w'. execute_node demo_ctx gated_bodies failing_node 1 approved_world = (Inr (PStr ''bad''), w') \<and>
     disposition failing_node w' = PStr ''gate_approved''"
  by (rule policy_approval_opens_contract_gate [OF _ _ gated_facts(6,3,4,5) refl refl _ gated_fires,
      where rs = "[]" and spec = "rules_only [denies ''bad'' ''gate'']"])
    (simp_all add: gated_facts gated_bodies_def)

text \<open>
  A decision that is consumed when it is read, as in a run driven over MCP, never opens the gate of
  a contract: the contract reads it once before it checks the output, and asks for approval again.
\<close>

theorem consumed_decision_never_opens:
  assumes "consumes w" "map_of (ew_decisions w) (gn_id n) = Some ''approve''" "no_stored w"
    "first_rule_fires c x r v reason w" "ct_schema spec = None" "ct_rules spec = r # rs" "cr_on_fail r = ''gate''"
  shows "\<exists>prompt pause. fst (enforce_contract c x n spec v w) = Inl (NeedsApproval (gn_id n) prompt (Some pause))"
proof -
  let ?w1 = "w\<lparr>ew_decisions := AList.delete (gn_id n) (ew_decisions w)\<rparr>"
  have d: "consume_decision (gn_id n) w = (Some ''approve'', ?w1)"
    using assms(1,2) by (simp add: consume_decision_eq)
  have fires: "first_rule_fires c x r v reason ?w1" "no_stored ?w1"
    using assms(3,4) by (simp_all add: first_rule_fires_def no_stored_def)
  obtain again report where
    eq: "enforce_contract c x n spec v w = finish_contract c x n spec again True v (rejects_value r reason) report ?w1"
    using enforce_first_rule[OF fires(1) assms(5,6) d] fires(2) by (auto simp: CONTRACT_REJECT_def)
  obtain prompt why rep w2 where
    "finish_contract c x n spec again True v (rejects_value r reason) report ?w1 = contract_gate n v prompt why rep w2"
    and w2: "seen w2 = seen ?w1"
    using finish_gates[of "rejects_value r reason"] assms(7) by (metis rejects_value_def verdict_of_contract.select_convs(1))
  moreover have "consume_decision (gn_id n) w2 = (None, w2)"
    using w2 by (simp add: consume_decision_eq seen_def delete_conv)
  ultimately show ?thesis using eq by (simp add: contract_gate_def)
qed

definition mcp_world :: engine_world where
  "mcp_world = approved_world\<lparr>ew_run := start_run ''r'' ''w'' [] [(''mcp_consume_decisions'', PBool True)] ''t''\<rparr>"

lemma mcp_facts:
  "consumes mcp_world" "map_of (ew_decisions mcp_world) (gn_id failing_node) = Some ''approve''" "no_stored mcp_world"
  by (simp_all add: mcp_world_def approved_world_def consumes_def no_stored_def start_run_def gated_facts)

lemma mcp_fires: "first_rule_fires demo_ctx plain_contract (denies ''bad'' ''gate'') (PStr ''bad'')
    ''deny matched literal deny'' mcp_world"
  by (simp add: first_rule_fires_def) code_simp

theorem consumed_decision_never_opens_witness:
  "\<exists>prompt pause. fst (enforce_contract demo_ctx plain_contract failing_node (rules_only [denies ''bad'' ''gate''])
     (PStr ''bad'') mcp_world) = Inl (NeedsApproval ''x'' prompt (Some pause))"
  using consumed_decision_never_opens [OF mcp_facts mcp_fires, of "rules_only [denies ''bad'' ''gate'']" "[]"]
  by (simp add: gated_facts)

section \<open>Model calls\<close>

text \<open>A measure of the world that only model calls raise, each by one at most.\<close>

definition counts_calls :: "contract_ctx \<Rightarrow> (engine_world \<Rightarrow> nat) \<Rightarrow> bool" where
  "counts_calls x cost \<longleftrightarrow>
     (\<forall>m w. cost (snd (cx_complete x m w)) \<le> cost w + 1) \<and> (\<forall>ref m w. cost (snd (cx_ask x ref m w)) \<le> cost w + 1) \<and>
     (\<forall>ref w. cost (cx_meter x ref w) \<le> cost w) \<and> (\<forall>f w. cost (on_run f w) \<le> cost w) \<and>
     (\<forall>e w. cost (emit e w) \<le> cost w) \<and> (\<forall>ds w. cost (w\<lparr>ew_decisions := ds\<rparr>) \<le> cost w)"

lemma counts_calls_facts:
  assumes "counts_calls x cost"
  shows cost_complete: "cx_complete x m w = (r, w') \<Longrightarrow> cost w' \<le> cost w + 1"
    and cost_ask: "cx_ask x ref m w = (r, w') \<Longrightarrow> cost w' \<le> cost w + 1"
    and cost_meter: "cost (cx_meter x ref w) \<le> cost w"
    and cost_store: "cost (store_report n report w) \<le> cost w"
    and cost_record: "cost (record_signal c n action reason refused report w) \<le> cost w"
    and cost_consume: "consume_decision node w = (d, w') \<Longrightarrow> cost w' \<le> cost w"
proof -
  have calls: "\<And>m w. cost (snd (cx_complete x m w)) \<le> cost w + 1" "\<And>ref m w. cost (snd (cx_ask x ref m w)) \<le> cost w + 1"
    "\<And>ref w. cost (cx_meter x ref w) \<le> cost w" "\<And>f w. cost (on_run f w) \<le> cost w" "\<And>e w. cost (emit e w) \<le> cost w"
    "\<And>ds w. cost (w\<lparr>ew_decisions := ds\<rparr>) \<le> cost w"
    using assms unfolding counts_calls_def by blast+
  show "cx_complete x m w = (r, w') \<Longrightarrow> cost w' \<le> cost w + 1" using calls(1)[of m w] by simp
  show "cx_ask x ref m w = (r, w') \<Longrightarrow> cost w' \<le> cost w + 1" using calls(2)[of ref m w] by simp
  show "cost (cx_meter x ref w) \<le> cost w" by (rule calls(3))
  show "cost (store_report n report w) \<le> cost w"
    unfolding store_report_def by (rule order_trans[OF calls(5) calls(4)])
  show "cost (record_signal c n action reason refused report w) \<le> cost w"
    unfolding record_signal_def by (simp add: calls(4) split: option.split)
  show "consume_decision node w = (d, w') \<Longrightarrow> cost w' \<le> cost w"
    using calls(6)[where w = w and ds = "AList.delete node (ew_decisions w)"] by (auto simp: consume_decision_def Let_def split: if_splits)
qed

lemma repair_loop_cost:
  "counts_calls x cost \<Longrightarrow> repair_loop c x n schema k messages v err report w = (r, w') \<Longrightarrow> cost w' \<le> cost w + k"
proof (induction c x n schema k messages v err report w rule: repair_loop.induct)
  case (2 c x n schema k messages parsed err report w)
  obtain a u where a: "cx_complete x (messages @ [(''user'', err)]) w = (a, u)" by force
  have u: "cost u \<le> cost w + 1" by (rule cost_complete[OF "2.prems"(1) a])
  show ?case
  proof (cases "\<exists>t e v. a = Inr t \<and> try_schema c x n schema (PStr t) = Inr (v, Some e)")
    case True
    then obtain t e v where *: "a = Inr t" "try_schema c x n schema (PStr t) = Inr (v, Some e)" by blast
    have "cost w' \<le> cost u + k"
      using "2.IH"[OF refl a[symmetric] *(1) refl *(2) refl refl "2.prems"(1)] "2.prems"(2) a * by (simp add: Let_def)
    then show ?thesis using u by simp
  next
    case False
    then have "w' = u" using "2.prems"(2) a by (auto simp: Let_def split: sum.splits option.splits)
    then show ?thesis using u by simp
  qed
qed simp

definition repair_bound :: "contract_spec \<Rightarrow> nat" where
  "repair_bound spec = nat (case ct_max_repairs spec of None \<Rightarrow> 0 | Some k \<Rightarrow> k)"

lemma shape_stage_cost:
  "counts_calls x cost \<Longrightarrow> shape_stage c x n spec v w = (r, w') \<Longrightarrow> cost w' \<le> cost w + repair_bound spec"
  by (auto simp: shape_stage_def check_schema_def model_repairs_def repair_bound_def Let_def
      split: sum.splits prod.splits option.splits if_splits dest: repair_loop_cost)

abbreviation judged :: "contract_rule list \<Rightarrow> nat" where
  "judged rs \<equiv> length (filter (\<lambda>r. cr_judge r \<noteq> None) rs)"

lemma rule_outcome_cost:
  assumes "counts_calls x cost" "rule_outcome c x r v ns w = (a, w')"
  shows "cost w' \<le> cost w + judged [r]"
proof (cases "cr_judge r")
  case (Some j)
  obtain b u where b: "cx_ask x (jg_model j) [(''user'', judge_prompt c j v)] w = (b, u)" by force
  have "w' = w \<or> w' = u \<or> w' = cx_meter x (jg_model j) u"
    using assms(2) Some b by (auto simp: rule_outcome_def split: if_splits sum.splits)
  then show ?thesis
    using cost_ask[OF assms(1) b] cost_meter[OF assms(1), of "jg_model j" u] Some by auto
qed (use assms(2) in \<open>simp add: rule_outcome_def\<close>)

lemma run_rules_cost:
  "counts_calls x cost \<Longrightarrow> run_rules c x v ns rs report w = (r, w') \<Longrightarrow> cost w' \<le> cost w + judged rs"
proof (induction c x v ns rs report w rule: run_rules.induct)
  case (2 c x v ns r rs report w)
  obtain a u where a: "rule_outcome c x r v ns w = (a, u)" by force
  have u: "cost u \<le> cost w + judged [r]" by (rule rule_outcome_cost[OF "2.prems"(1) a])
  show ?case
  proof (cases "\<exists>reason score. a = Inr (False, reason, score)")
    case True
    then obtain reason score where ok: "a = Inr (False, reason, score)" by blast
    have "cost w' \<le> cost u + judged rs"
      using "2.IH"[OF a[symmetric] ok refl refl refl _ "2.prems"(1)] "2.prems"(2) a ok by (simp add: Let_def)
    then show ?thesis using u by (simp split: if_splits)
  next
    case False
    then have "w' = u" using "2.prems"(2) a by (auto simp: Let_def split: sum.splits if_splits)
    then show ?thesis using u by (simp split: if_splits)
  qed
qed simp

lemma try_fallbacks_cost:
  "counts_calls x cost \<Longrightarrow> try_fallbacks c x n schema refs w = (r, w') \<Longrightarrow> cost w' \<le> cost w + length refs"
proof (induction c x n schema refs w rule: try_fallbacks.induct)
  case (2 c x n schema ref refs w)
  obtain a u where a: "cx_ask x ref (cx_messages x) w = (a, u)" by force
  have u: "cost u \<le> cost w + 1" by (rule cost_ask[OF "2.prems"(1) a])
  show ?case
  proof (cases "try_fallbacks c x n schema refs u = (r, w')")
    case True
    show ?thesis
    proof (cases "w' = u")
      case False
      then obtain t sch v e where *: "a = Inr t" "schema = Some sch" "sch \<noteq> []" "try_schema c x n sch (PStr t) = Inr (v, Some e)"
        using "2.prems"(2) a by (auto split: sum.splits option.splits if_splits)
      have "cost w' \<le> cost u + length refs"
        using "2.IH"[OF a[symmetric] *(1,2) _ *(4) refl refl "2.prems"(1) True] *(3) by simp
      then show ?thesis using u by simp
    qed (use u in simp)
  next
    case False
    then have "w' = u" using "2.prems"(2) a by (auto split: sum.splits option.splits if_splits)
    then show ?thesis using u by simp
  qed
qed simp

lemma fallback_cost:
  "counts_calls x cost \<Longrightarrow> fallback_once c x n spec w = (r, w') \<Longrightarrow> cost w' \<le> cost w + length (cx_fallbacks x)"
  by (auto simp: fallback_once_def split: if_splits dest: try_fallbacks_cost)

lemma contract_gate_cost:
  assumes "counts_calls x cost" "contract_gate n v prompt reason report w = (r, w')"
  shows "cost w' \<le> cost w"
proof -
  obtain d u where d: "consume_decision (gn_id n) w = (d, u)" by force
  have "w' = u \<or> (\<exists>rep. w' = store_report n rep u)"
    using assms(2) d by (auto simp: contract_gate_def split: option.splits if_splits)
  then show ?thesis
    using cost_consume[OF assms(1) d] cost_store[OF assms(1)] by (auto intro: order_trans)
qed

text \<open>What the second pass of a fallback adds.\<close>

definition adds_at_most :: "(engine_world \<Rightarrow> nat) \<Rightarrow> nat \<Rightarrow> (pyval \<Rightarrow> engine_world \<Rightarrow> 'r \<times> engine_world) \<Rightarrow> bool" where
  "adds_at_most cost k again \<longleftrightarrow> (\<forall>v w. cost (snd (again v w)) \<le> cost w + k)"

lemma adds_at_mostD: "adds_at_most cost k again \<Longrightarrow> again v w = (q, w') \<Longrightarrow> cost w' \<le> cost w + k"
  unfolding adds_at_most_def by (metis snd_conv)

lemma finish_cost:
  assumes "counts_calls x cost" "finish_contract c x n spec again allow v r report w = (q, w')"
    "allow \<Longrightarrow> adds_at_most cost more_calls again"
  shows "cost w' \<le> cost w + (if allow then length (cx_fallbacks x) + more_calls else 0)"
proof -
  let ?action = "if vc_action r \<notin> set ACTIONS \<or> vc_action r = ''fallback'' \<and> \<not> allow then ''fail'' else vc_action r"
  let ?shown = "sanitize_rejected c x (vc_rule r) v"
  let ?reason = "if vc_reason r = [] then [] else sanitize_rejected c x (vc_rule r) (PStr (vc_reason r))"
  let ?rep = "final_report ?action ?shown ?reason (vc_rule r) report"
  let ?w = "record_signal c n ?action (if ?reason = [] then vc_reason r else ?reason) (vc_refused r) ?rep (store_report n ?rep w)"
  have w: "cost ?w \<le> cost w"
    by (rule order_trans[OF cost_record[OF assms(1)] cost_store[OF assms(1)]])
  have "w' = store_report n ?rep ?w \<or> w' = ?w \<or>
      contract_gate n v (gate_prompt (vc_rule r) ?reason ?shown) ?reason ?rep ?w = (q, w') \<or>
      allow \<and> (\<exists>a w3. fallback_once c x n spec ?w = (a, w3) \<and> (w' = w3 \<or> (\<exists>v2. again v2 w3 = (q, w'))))"
    using assms(2) unfolding finish_contract_def Let_def
    by (simp split: if_split_asm) (auto split: prod.splits sum.splits option.splits)
  then consider "w' = store_report n ?rep ?w" | "w' = ?w"
    | "contract_gate n v (gate_prompt (vc_rule r) ?reason ?shown) ?reason ?rep ?w = (q, w')"
    | a w3 where allow "fallback_once c x n spec ?w = (a, w3)" "w' = w3 \<or> (\<exists>v2. again v2 w3 = (q, w'))"
    by blast
  then show ?thesis
  proof cases
    case 1
    then show ?thesis using order_trans[OF cost_store[OF assms(1), of n ?rep ?w] w] by simp
  next
    case 3
    show ?thesis by (rule trans_le_add1[OF order_trans[OF contract_gate_cost[OF assms(1) 3] w]])
  next
    case (4 a w3)
    have "cost w3 \<le> cost w + length (cx_fallbacks x)" using fallback_cost[OF assms(1) 4(2)] w by simp
    moreover have "cost w' \<le> cost w3 + more_calls" using 4(3) adds_at_mostD[OF assms(3)[OF 4(1)]] by (auto intro: le_add1)
    ultimately show ?thesis using 4(1) by simp
  qed (use w in simp)
qed

lemma rules_stage_cost:
  assumes "counts_calls x cost" "rules_stage c x n spec again allow from ns v report w = (q, w')"
    "allow \<Longrightarrow> adds_at_most cost more_calls again"
  shows "cost w' \<le> cost w + judged (ct_rules spec) + (if allow then length (cx_fallbacks x) + more_calls else 0)"
proof -
  obtain a u where a: "run_rules c x v ns (ct_rules spec) report w = (a, u)" by force
  have "w' = u \<or> (\<exists>rep. w' = store_report n rep u) \<or>
      (\<exists>r rep. finish_contract c x n spec again allow v r rep u = (q, w'))"
    using assms(2) a by (auto simp: rules_stage_def split: sum.splits option.splits prod.splits)
  then have "cost w' \<le> cost u + (if allow then length (cx_fallbacks x) + more_calls else 0)"
    using cost_store[OF assms(1)] finish_cost[OF assms(1) _ assms(3), where w' = w' and w = u] by (elim disjE exE) (auto intro: trans_le_add1)
  then show ?thesis using run_rules_cost[OF assms(1) a] by simp
qed

lemma enforce_pass_cost:
  assumes "counts_calls x cost" "enforce_pass c x n spec again allow from v w = (q, w')"
    "allow \<Longrightarrow> adds_at_most cost more_calls again"
  shows "cost w' \<le> cost w + (repair_bound spec + judged (ct_rules spec)) +
    (if allow then length (cx_fallbacks x) + more_calls else 0)"
proof -
  let ?f = "if allow then length (cx_fallbacks x) + more_calls else 0"
  obtain d u where d: "consume_decision (gn_id n) w = (d, u)" by force
  have u: "cost u \<le> cost w" by (rule cost_consume[OF assms(1) d])
  have "w' = u \<or> check_output c x n spec again allow from v u = (q, w')"
    using assms(2) d by (auto simp: enforce_pass_def Let_def split: if_splits option.splits)
  moreover have "cost w' \<le> cost u + (repair_bound spec + judged (ct_rules spec)) + ?f"
    if out: "check_output c x n spec again allow from v u = (q, w')"
  proof -
    obtain a u2 where a: "shape_stage c x n spec v u = (a, u2)" by force
    note u2 = shape_stage_cost[OF assms(1) a]
    consider "finish_contract c x n spec again allow v (refuses spec) blank_report u = (q, w')" | "w' = u2"
      | v2 r rep where "finish_contract c x n spec again allow v2 r rep u2 = (q, w')"
      | v2 rep where "rules_stage c x n spec again allow from (mapping (ew_run u)) v2 rep u2 = (q, w')"
      using out a by (auto simp: check_output_def Let_def split: if_splits sum.splits prod.splits option.splits)
    then show ?thesis
    proof cases
      case 1
      then show ?thesis using finish_cost[OF assms(1) 1 assms(3)] by simp
    next
      case (3 v2 r rep)
      then show ?thesis using finish_cost[OF assms(1) 3 assms(3)] u2 by simp
    next
      case (4 v2 rep)
      then show ?thesis using rules_stage_cost[OF assms(1) 4 assms(3)] u2 by simp
    qed (use u2 in simp)
  qed
  ultimately show ?thesis using u by auto
qed

lemma validated_repairs: "validate_contract fr compiles raw = Inr spec \<Longrightarrow> repair_bound spec \<le> 5"
  by (auto simp: validate_contract_def closed_contract_def repair_bound_def MAX_REPAIRS_def split: option.splits if_splits)

text \<open>
  C9. A contract that passed the validation makes a bounded number of model calls, counted by any measure
  that a model call raises by one at most: five repairs and one call per judging rule, in at most two
  passes, and one call per fallback model.
\<close>

theorem contract_calls_bounded:
  assumes "counts_calls x cost" "validate_contract fr compiles raw = Inr spec"
  shows "cost (snd (enforce_contract c x n spec v w)) \<le>
    cost w + 2 * (5 + length (filter (\<lambda>r. cr_judge r \<noteq> None) (ct_rules spec))) + length (cx_fallbacks x)"
proof -
  let ?again = "enforce_pass c x n spec (\<lambda>v w. (Inr v, w)) False True"
  let ?k = "repair_bound spec + judged (ct_rules spec)"
  have again: "adds_at_most cost ?k ?again"
    using enforce_pass_cost[OF assms(1) surjective_pairing, where allow = False and more_calls = 0]
    by (simp add: adds_at_most_def)
  obtain q w' where q: "enforce_contract c x n spec v w = (q, w')" by force
  have "cost w' \<le> cost w + ?k + (length (cx_fallbacks x) + ?k)"
    using enforce_pass_cost[OF assms(1) q[unfolded enforce_contract_def] again] by simp
  then show ?thesis using validated_repairs[OF assms(2)] q by simp
qed

lemma counts_plain: "counts_calls plain_contract ew_polls"
  by (simp add: counts_calls_def plain_contract_def on_run_def emit_def)

definition repairing :: contract_spec where
  "repairing =
     \<lparr>ct_schema = Some [(''type'', PStr ''object'')], ct_rules = [], ct_on_invalid = ''Repair'', ct_max_repairs = Some 2,
      ct_on_exhausted = Some ''fallback'', ct_on_refusal = None\<rparr>"

lemma repairing_valid:
  "validate_contract (\<lambda>x. []) (\<lambda>p. True) repairing = Inr (repairing\<lparr>ct_on_invalid := ''repair''\<rparr>)"
  by code_simp

theorem contract_calls_bounded_witness:
  "ew_polls (snd (enforce_contract demo_ctx plain_contract failing_node (repairing\<lparr>ct_on_invalid := ''repair''\<rparr>)
     (PStr ''x'') demo_world)) \<le> 11"
  using contract_calls_bounded [OF counts_plain repairing_valid, of demo_ctx failing_node "PStr ''x''" demo_world]
  by (simp add: repairing_def plain_contract_def demo_world_def)

end
