(* ===== verification/Environments.thy ===== *)
theory Environments
  imports RunStates "HOL-Library.List_Lexorder" "HOL-Library.Char_ord"
begin

text \<open>
  Environments, \<open>env/\<close>: the slots of an environment and its history (\<open>env/store.py\<close>), pinned releases
  (\<open>env/release.py\<close>), promotion gates (\<open>env/promote.py\<close>), and the choice of a release with the guards
  of a run (\<open>env/run.py\<close>). Hashes, signatures and clocks are arguments; the snapshot of a release is
  represented by the pins that \<open>_pins_from_snapshot\<close> computes from it.
\<close>

section \<open>Slots\<close>

record env_slots =
  es_current :: "pydict option"
  es_previous :: "pydict option"
  es_candidate :: "pydict option"
  es_history :: "pydict list"
  es_runs :: "run_state list"

type_synonym env_store = "(string \<times> env_slots) list"

definition no_slots :: env_slots where
  "no_slots = \<lparr>es_current = None, es_previous = None, es_candidate = None, es_history = [], es_runs = []\<rparr>"

datatype env_error =
    EnvRefused string
  | EnvGate string
  | EnvApproval string pydict
  | EnvCrash string

fun has_dots :: "string \<Rightarrow> bool" where
  "has_dots (a # b # cs) = (a = CHR ''.'' \<and> b = CHR ''.'' \<or> has_dots (b # cs))"
| "has_dots _ = False"

definition env_name :: "string \<Rightarrow> env_error + string" where
  "env_name name =
     (let token = strip name
      in if token = [] \<or> CHR ''/'' \<in> set token \<or> has_dots token then Inl (EnvRefused ''name'') else Inr token)"

definition slots_of :: "env_store \<Rightarrow> string \<Rightarrow> env_slots" where
  "slots_of st token = (case map_of st token of None \<Rightarrow> no_slots | Some s \<Rightarrow> s)"

text \<open>A JSON file that is missing or holds no dictionary reads as \<open>None\<close>; an empty dictionary is false.\<close>

definition filled :: "pydict option \<Rightarrow> bool" where
  "filled p = (p \<noteq> None \<and> p \<noteq> Some [])"

definition append_history :: "string \<Rightarrow> pydict \<Rightarrow> env_slots \<Rightarrow> env_slots" where
  "append_history now event s = s\<lparr>es_history := es_history s @ [setdefault ''ts'' (PStr now) event]\<rparr>"

definition event_row :: "string \<Rightarrow> pydict \<Rightarrow> pydict" where
  "event_row name pointer = update_all [(''event'', PStr name)] pointer"

definition set_current :: "string \<Rightarrow> pydict \<Rightarrow> env_slots \<Rightarrow> env_slots" where
  "set_current now pointer s =
     (let s = (if filled (es_current s) then s\<lparr>es_previous := es_current s\<rparr> else s);
          pointer = setdefault ''deployed_at'' (PStr now) pointer
      in append_history now (event_row ''deploy'' pointer) (s\<lparr>es_current := Some pointer\<rparr>))"

definition set_candidate :: "pydict option \<Rightarrow> env_slots \<Rightarrow> env_slots" where
  "set_candidate pointer s = s\<lparr>es_candidate := pointer\<rparr>"

definition digest_of :: "pydict option \<Rightarrow> pyval" where
  "digest_of p = (case p of None \<Rightarrow> PNone | Some d \<Rightarrow> vget d ''digest'')"

definition rollback_slots :: "string \<Rightarrow> string option \<Rightarrow> string \<Rightarrow> bool \<Rightarrow> env_slots \<Rightarrow> env_error + pydict \<times> env_slots" where
  "rollback_slots now actor reason retain s =
     (if \<not> filled (es_previous s) then Inl (EnvRefused ''rollback'')
      else
        (let prev = the (es_previous s);
             current = es_current s;
             s = (if retain \<and> filled current then s\<lparr>es_previous := current\<rparr> else s);
             pointer = dset ''rollback_actor'' (of_opt_str actor)
                         (dset ''rollback_reason'' (PStr reason) (dset ''rolled_back_at'' (PStr now) prev));
             s = set_candidate None (s\<lparr>es_current := Some pointer\<rparr>)
         in Inr (pointer, append_history now
              [(''event'', PStr ''rollback''), (''reason'', PStr reason), (''actor'', of_opt_str actor),
               (''release'', vget pointer ''digest''), (''from'', digest_of current), (''retain_failed'', PBool retain)] s)))"

definition pointer_named :: "string \<Rightarrow> env_slots \<Rightarrow> env_error + pydict option" where
  "pointer_named slot s =
     (let token = lower (strip (if slot = [] then ''current'' else slot)) in
      if token = ''current'' then Inr (es_current s)
      else if token = ''previous'' then Inr (es_previous s)
      else if token = ''candidate'' then Inr (es_candidate s)
      else Inl (EnvRefused ''pointer''))"

section \<open>Releases\<close>

text \<open>A folder of \<open>releases/\<close>: the manifest, its detached signature, the pins of the snapshot beside it.\<close>

record release_dir =
  rf_manifest :: "pydict option"
  rf_signature :: "string option"
  rf_live :: "pydict option"

type_synonym releases = "string \<Rightarrow> release_dir"

record env_lib =
  el_digest :: "pyval \<Rightarrow> string"
  el_sign :: "pydict \<Rightarrow> string"
  el_trusted :: "pydict \<Rightarrow> string \<Rightarrow> bool"
  el_hash :: "string \<Rightarrow> string"
  el_root :: string

definition no_release :: release_dir where
  "no_release = \<lparr>rf_manifest = None, rf_signature = None, rf_live = None\<rparr>"

definition folder_name :: "string \<Rightarrow> string" where
  "folder_name digest = List.map (\<lambda>c. if c = CHR '':'' then CHR ''_'' else c) digest"

definition release_path :: "env_lib \<Rightarrow> string \<Rightarrow> string" where
  "release_path l digest = el_root l @ CHR ''/'' # folder_name digest"

definition base_name :: "string \<Rightarrow> string" where
  "base_name path = last (split_char CHR ''/'' path)"

text \<open>
  \<open>pin_release\<close> on the pins of the working copy; \<open>signed\<close> says whether a key is given. The snapshot is
  written over the folder of its digest, the signature file of an earlier manifest stays.
\<close>

definition pin_release :: "env_lib \<Rightarrow> string \<Rightarrow> string \<Rightarrow> string \<Rightarrow> string option \<Rightarrow> bool \<Rightarrow> pydict \<Rightarrow> releases \<Rightarrow>
    pydict \<times> releases" where
  "pin_release l now env workflow actor signed pins fs =
     (let digest = el_digest l (PDict pins);
          path = release_path l digest;
          manifest =
            [(''digest'', PStr digest), (''pins'', PDict pins), (''env'', PStr env), (''workflow'', PStr workflow),
             (''created_at'', PStr now), (''actor'', of_opt_str actor)] @ (if signed then [(''signed'', PBool True)] else []);
          dir = \<lparr>rf_manifest = Some manifest,
                 rf_signature = (if signed then Some (el_sign l manifest) else rf_signature (fs path)),
                 rf_live = Some pins\<rparr>;
          pointer =
            [(''digest'', PStr digest), (''path'', PStr path), (''workflow'', PStr workflow),
             (''actor'', of_opt_str actor), (''pins'', PDict pins)] @ (if signed then [(''signed'', PBool True)] else [])
      in (pointer, fs(path := dir)))"

definition truthy_text :: "pyval \<Rightarrow> string" where
  "truthy_text v = (case v of PStr s \<Rightarrow> s | _ \<Rightarrow> [])"

definition verify_release :: "env_lib \<Rightarrow> bool \<Rightarrow> pydict \<Rightarrow> releases \<Rightarrow> env_error + pydict" where
  "verify_release l require pointer fs =
     (let path = truthy_text (vget pointer ''path''); dir = fs path in
      case rf_manifest dir of
        None \<Rightarrow> Inl (EnvRefused ''missing'')
      | Some m \<Rightarrow>
          if py_truth (vget pointer ''signed'') \<and> rf_signature dir = None then Inl (EnvRefused ''tamper'')
          else if require \<and> rf_signature dir = None then Inl (EnvRefused ''unsigned'')
          else if (case rf_signature dir of None \<Rightarrow> False | Some s \<Rightarrow> \<not> el_trusted l m s) then Inl (EnvRefused ''tamper'')
          else
            (let pins = (if py_truth (vget m ''pins'') then vget m ''pins'' else PDict []);
                 digest = vget m ''digest'';
                 expected = truthy_text (if py_truth (vget pointer ''digest'') then vget pointer ''digest'' else digest)
             in if PStr (el_digest l pins) \<noteq> digest then Inl (EnvRefused ''tamper'')
                else if py_truth (vget pointer ''digest'') \<and> digest \<noteq> vget pointer ''digest'' then Inl (EnvRefused ''tamper'')
                else if expected \<noteq> [] \<and> base_name path \<noteq> folder_name expected then Inl (EnvRefused ''tamper'')
                else case rf_live dir of
                       None \<Rightarrow> Inl (EnvRefused ''missing'')
                     | Some live \<Rightarrow> if \<not> py_eq (PDict live) pins then Inl (EnvRefused ''tamper'') else Inr m))"

definition deploy :: "env_lib \<Rightarrow> string \<Rightarrow> string \<Rightarrow> string \<Rightarrow> string option \<Rightarrow> bool \<Rightarrow> bool \<Rightarrow> pydict \<Rightarrow>
    env_slots \<times> releases \<Rightarrow> pydict \<times> env_slots \<times> releases" where
  "deploy l now env workflow actor signed as_candidate pins = (\<lambda>(s, fs).
     (case pin_release l now env workflow actor signed pins fs of
        (pointer, fs) \<Rightarrow>
          (pointer,
           if as_candidate
           then append_history now (event_row ''candidate'' pointer) (set_candidate (Some pointer) s)
           else set_current now pointer s,
           fs)))"

text \<open>\<open>diff_releases\<close>; a release that does not verify is shown with what its manifest says.\<close>

definition manifest_or_empty :: "env_lib \<Rightarrow> pydict option \<Rightarrow> releases \<Rightarrow> pydict" where
  "manifest_or_empty l pointer fs =
     (case pointer of
        None \<Rightarrow> []
      | Some p \<Rightarrow>
          if p = [] then []
          else case rf_manifest (fs (truthy_text (vget p ''path''))) of
                 None \<Rightarrow> [(''digest'', vget p ''digest''), (''pins'', if py_truth (vget p ''pins'') then vget p ''pins'' else PDict [])]
               | Some m \<Rightarrow> (case verify_release l False p fs of Inr d \<Rightarrow> d | Inl e \<Rightarrow> m))"

definition pins_in :: "pydict \<Rightarrow> pydict" where
  "pins_in m = (case vget m ''pins'' of PDict d \<Rightarrow> d | _ \<Rightarrow> [])"

definition diff_releases :: "env_lib \<Rightarrow> pydict option \<Rightarrow> pydict option \<Rightarrow> releases \<Rightarrow> pydict" where
  "diff_releases l left right fs =
     (let a = manifest_or_empty l left fs; b = manifest_or_empty l right fs;
          keys = sort (remdups (List.map fst (pins_in a) @ List.map fst (pins_in b)))
      in [(''from'', vget a ''digest''), (''to'', vget b ''digest''),
          (''pins'', PDict (List.map (\<lambda>k. (k, PDict [(''from'', vget (pins_in a) k), (''to'', vget (pins_in b) k)])) keys)),
          (''complete'', PBool True)])"

end
