(* ===== verification/EnvRuns.thy ===== *)
theory EnvRuns
  imports Environments Taint
begin

text \<open>
  Promotion with its gates (\<open>env/promote.py\<close>) and runs in an environment (\<open>env/run.py\<close>): the choice
  between the current release and the canary, the shadow, the guards that roll back. The evaluations
  behind a gate, the workflow engine and the policies, budgets and paths it is started with are
  arguments.
\<close>

section \<open>Gates\<close>

record gate_specs =
  gs_eval :: "pydict option"
  gs_fixtures :: "pydict option"
  gs_benchmark :: "pydict option"
  gs_health :: "pydict option"
  gs_approval :: "pydict option"

record env_spec =
  en_gates :: "gate_specs option"
  en_guard :: "pydict option"
  en_canary :: "int option"
  en_shadow :: bool
  en_secrets :: "string option"
  en_runs_dir :: string

text \<open>What the gates find: hooks, the suite at a path (failed or passed cases), the benchmark, the health.\<close>

record gate_world =
  gt_eval :: "bool option"
  gt_fixtures :: "bool option"
  gt_benchmark :: "bool option"
  gt_health :: "rat option"
  gt_suite :: "string \<Rightarrow> int + int"
  gt_compare :: "pydict \<Rightarrow> bool"
  gt_success_rate :: rat
  gt_number :: "string \<Rightarrow> rat option"

definition flag_or_true :: "pydict \<Rightarrow> string \<Rightarrow> bool" where
  "flag_or_true d k = (case map_of d k of None \<Rightarrow> True | Some v \<Rightarrow> py_truth v)"

definition gate_ok :: "(string \<times> pyval) list \<Rightarrow> pyval" where
  "gate_ok extra = PDict ((''ok'', PBool True) # extra)"

definition eval_gate :: "gate_world \<Rightarrow> bool option \<Rightarrow> pydict \<Rightarrow> env_error + pyval" where
  "eval_gate g hook spec =
     (case hook of
        Some ok \<Rightarrow> if ok then Inr (gate_ok [(''hook'', PBool True)]) else Inl (EnvGate ''eval'')
      | None \<Rightarrow>
          if \<not> flag_or_true spec ''must_pass'' then Inr (gate_ok [(''skipped'', PBool True)])
          else if \<not> py_truth (vget spec ''suite'') then Inl (EnvGate ''eval'')
          else (case gt_suite g (truthy_text (vget spec ''suite'')) of
                  Inl failed \<Rightarrow> Inl (EnvGate ''eval'') | Inr passed \<Rightarrow> Inr (gate_ok [(''passed'', PInt passed)])))"

definition fixtures_gate :: "gate_world \<Rightarrow> pydict \<Rightarrow> env_error + pyval" where
  "fixtures_gate g spec =
     (case gt_fixtures g of
        Some ok \<Rightarrow> if ok then Inr (gate_ok [(''hook'', PBool True)]) else Inl (EnvGate ''fixtures'')
      | None \<Rightarrow>
          if \<not> flag_or_true spec ''no_regression'' then Inr (gate_ok [(''skipped'', PBool True)])
          else if py_truth (vget spec ''suite'') then
            (case eval_gate g None [(''suite'', vget spec ''suite''), (''must_pass'', PBool True)] of
               Inl (EnvGate _) \<Rightarrow> Inl (EnvGate ''fixtures'') | r \<Rightarrow> r)
          else Inr (gate_ok [(''no_suite'', PBool True)]))"

definition bench_gate :: "gate_world \<Rightarrow> pydict \<Rightarrow> env_error + pyval" where
  "bench_gate g spec =
     (case gt_benchmark g of
        Some ok \<Rightarrow> if ok then Inr (gate_ok [(''hook'', PBool True)]) else Inl (EnvGate ''benchmark'')
      | None \<Rightarrow>
          if \<not> py_truth (vget spec ''current'') \<or> \<not> py_truth (vget spec ''baseline'') then Inl (EnvGate ''benchmark'')
          else if gt_compare g spec then Inr (gate_ok []) else Inl (EnvGate ''benchmark''))"

definition float_or_zero :: "(string \<Rightarrow> rat option) \<Rightarrow> pyval \<Rightarrow> env_error + rat" where
  "float_or_zero pf v =
     (if \<not> py_truth v then Inr 0
      else case to_float pf v of None \<Rightarrow> Inl (EnvCrash ''ValueError'') | Some x \<Rightarrow> Inr x)"

definition env_health_gate :: "gate_world \<Rightarrow> pydict \<Rightarrow> env_error + pyval" where
  "env_health_gate g spec =
     rbind (float_or_zero (gt_number g) (vget spec ''min_score''))
       (\<lambda>minimum. case gt_health g of
          Some score \<Rightarrow>
            if score < minimum then Inl (EnvGate ''health'')
            else Inr (gate_ok [(''score'', PFloat score), (''hook'', PBool True)])
        | None \<Rightarrow>
            if gt_success_rate g < minimum then Inl (EnvGate ''health'')
            else Inr (gate_ok [(''score'', PFloat (gt_success_rate g))]))"

definition env_approves :: "(string \<times> string) list \<Rightarrow> string \<Rightarrow> bool" where
  "env_approves decisions node =
     (lower (strip (or_empty (map_of decisions node))) \<in> {''approve'', ''approved'', ''yes''})"

definition approval_gate :: "env_lib \<Rightarrow> pydict \<Rightarrow> pydict option \<Rightarrow> pydict option \<Rightarrow> string option \<Rightarrow>
    (string \<times> string) list \<Rightarrow> string \<Rightarrow> releases \<Rightarrow> env_error option" where
  "approval_gate l spec candidate current actor decisions node fs =
     (if \<not> py_truth (vget spec ''roles'') \<or> env_approves decisions node then None
      else Some (EnvApproval node
        [(''untrusted'', PBool True), (''diff'', PDict (diff_releases l current candidate fs)),
         (''roles'', vget spec ''roles''), (''actor'', of_opt_str actor)]))"

text \<open>One declared gate; an empty declaration is none.\<close>

definition gate_step :: "string \<Rightarrow> pydict option \<Rightarrow> (pydict \<Rightarrow> env_error + pyval) \<Rightarrow> pydict \<Rightarrow> env_error + pydict" where
  "gate_step name spec gate evidence =
     (if \<not> filled spec then Inr evidence else rbind (gate (the spec)) (\<lambda>v. Inr (dset name v evidence)))"

definition evaluate_gates :: "env_lib \<Rightarrow> gate_world \<Rightarrow> gate_specs option \<Rightarrow> pydict \<Rightarrow> pydict option \<Rightarrow>
    string option \<Rightarrow> (string \<times> string) list \<Rightarrow> releases \<Rightarrow> env_error + pydict" where
  "evaluate_gates l g gates candidate current actor decisions fs =
     (case gates of
        None \<Rightarrow> Inr []
      | Some s \<Rightarrow>
          rbind (gate_step ''eval'' (gs_eval s) (eval_gate g (gt_eval g)) []) (\<lambda>ev.
          rbind (gate_step ''fixtures'' (gs_fixtures s) (fixtures_gate g) ev) (\<lambda>ev.
          rbind (gate_step ''benchmark'' (gs_benchmark s) (bench_gate g) ev) (\<lambda>ev.
          rbind (gate_step ''health'' (gs_health s) (env_health_gate g) ev) (\<lambda>ev.
          gate_step ''approval'' (gs_approval s)
            (\<lambda>spec. case approval_gate l spec (Some candidate) current actor decisions ''promote'' fs of
               Some e \<Rightarrow> Inl e
             | None \<Rightarrow> Inr (PDict [(''actor'', of_opt_str actor), (''ok'', PBool True)])) ev)))))"

definition promote :: "env_lib \<Rightarrow> gate_world \<Rightarrow> string \<Rightarrow> string \<Rightarrow> string \<Rightarrow> gate_specs option \<Rightarrow> string option \<Rightarrow>
    (string \<times> string) list \<Rightarrow> releases \<Rightarrow> env_store \<Rightarrow> env_error + pydict \<times> env_store" where
  "promote l g now source target gates actor decisions fs st =
     rbind (env_name source) (\<lambda>src.
       case es_current (slots_of st src) of
         None \<Rightarrow> Inl (EnvRefused ''undeployed'')
       | Some candidate \<Rightarrow>
           rbind (verify_release l False candidate fs) (\<lambda>m.
           rbind (env_name target) (\<lambda>dst.
           rbind (evaluate_gates l g gates candidate (es_current (slots_of st dst)) actor decisions fs) (\<lambda>evidence.
             let pointer = dset ''actor'' (of_opt_str actor)
                             (dset ''evidence'' (PDict evidence) (dset ''from'' (PStr source) candidate))
             in Inr (pointer,
                  dset dst (append_history now (event_row ''promote'' pointer) (set_current now pointer (slots_of st dst))) st)))))"

definition rollback_env :: "env_lib \<Rightarrow> string \<Rightarrow> string \<Rightarrow> gate_specs option \<Rightarrow> string option \<Rightarrow>
    (string \<times> string) list \<Rightarrow> string \<Rightarrow> releases \<Rightarrow> env_store \<Rightarrow> env_error + pydict \<times> env_store" where
  "rollback_env l now env gates actor decisions reason fs st =
     rbind (env_name env) (\<lambda>token.
       let s = slots_of st token;
           gate = (case gates of None \<Rightarrow> None
                   | Some gs \<Rightarrow> if \<not> filled (gs_approval gs) then None
                       else approval_gate l (the (gs_approval gs)) (es_previous s) (es_current s) actor decisions ''rollback'' fs)
       in case gate of
            Some e \<Rightarrow> Inl e
          | None \<Rightarrow> rbind (rollback_slots now actor reason True s) (\<lambda>(pointer, s). Inr (pointer, dset token s st)))"

section \<open>Canary\<close>

definition hex_digit :: "char \<Rightarrow> nat" where
  "hex_digit c = (if is_digit c then of_char c - 48 else of_char (lower_char c) - 87)"

definition hex_number :: "string \<Rightarrow> nat" where
  "hex_number s = foldl (\<lambda>n c. 16 * n + hex_digit c) 0 s"

definition canary_hit :: "(string \<Rightarrow> string) \<Rightarrow> string \<Rightarrow> int \<Rightarrow> bool" where
  "canary_hit hash run percent = (int (hex_number (take 8 (hash run)) mod 100) < percent)"

definition select_pointer :: "env_lib \<Rightarrow> env_spec \<Rightarrow> string \<Rightarrow> env_slots \<Rightarrow> env_error + pydict \<times> string" where
  "select_pointer l spec run s =
     (case es_current s of
        None \<Rightarrow> Inl (EnvRefused ''undeployed'')
      | Some current \<Rightarrow>
          (let percent = (case en_canary spec of None \<Rightarrow> 0 | Some p \<Rightarrow> p) in
           if filled (es_candidate s) \<and> 0 < percent \<and> canary_hit (el_hash l) run percent
           then Inr (the (es_candidate s), ''canary'') else Inr (current, ''current'')))"

section \<open>Guards\<close>

definition later_run :: "run_state \<Rightarrow> run_state \<Rightarrow> bool" where
  "later_run a b =
     (text_less (rs_started_at b) (rs_started_at a) \<or>
      rs_started_at a = rs_started_at b \<and> text_less (rs_run_id b) (rs_run_id a))"

fun insert_run :: "run_state \<Rightarrow> run_state list \<Rightarrow> run_state list" where
  "insert_run s [] = [s]"
| "insert_run s (t # ts) = (if later_run t s then t # insert_run s ts else s # t # ts)"

text \<open>\<open>JsonRunStore.list\<close> and \<open>save\<close>.\<close>

definition recent_runs :: "int \<Rightarrow> run_state list \<Rightarrow> run_state list" where
  "recent_runs limit runs = (let ordered = foldr insert_run runs [] in if 0 < limit then take (nat limit) ordered else ordered)"

fun put_run :: "run_state \<Rightarrow> run_state list \<Rightarrow> run_state list" where
  "put_run s [] = [s]"
| "put_run s (t # ts) = (if rs_run_id t = rs_run_id s then s # ts else t # put_run s ts)"

record guard_lib =
  gl_number :: "string \<Rightarrow> rat option"
  gl_text :: "rat \<Rightarrow> string"
  gl_fixed :: "nat \<Rightarrow> rat \<Rightarrow> string"
  gl_instant :: "string \<Rightarrow> rat option"

definition exceeds :: "guard_lib \<Rightarrow> pyval \<Rightarrow> (rat \<Rightarrow> bool) \<Rightarrow> env_error + bool" where
  "exceeds g v p =
     (if v = PNone then Inr False
      else case to_float (gl_number g) v of None \<Rightarrow> Inl (EnvCrash ''ValueError'') | Some t \<Rightarrow> Inr (p t))"

definition wall_ms :: "guard_lib \<Rightarrow> run_state \<Rightarrow> rat option" where
  "wall_ms g s =
     (case rs_finished_at s of
        None \<Rightarrow> None
      | Some stop \<Rightarrow>
          if rs_started_at s = [] \<or> stop = [] then None
          else (case (gl_instant g (rs_started_at s), gl_instant g stop) of
                  (Some a, Some b) \<Rightarrow> Some ((b - a) * 1000) | _ \<Rightarrow> None))"

definition average :: "rat list \<Rightarrow> rat" where
  "average xs = sum_list xs / of_nat (length xs)"

definition guard_window :: "pydict \<Rightarrow> env_error + int" where
  "guard_window guards =
     (if \<not> py_truth (vget guards ''window'') then Inr 50
      else case to_int (vget guards ''window'') of None \<Rightarrow> Inl (EnvCrash ''ValueError'') | Some n \<Rightarrow> Inr n)"

definition failed_share :: "run_state list \<Rightarrow> rat" where
  "failed_share rows = of_nat (length (filter (\<lambda>s. rs_status s = ''failed'') rows)) / of_nat (length rows)"

definition cost_per_run :: "run_state list \<Rightarrow> rat" where
  "cost_per_run rows = average (List.map (\<lambda>s. of_int (dget_or (rs_usage s) ''cost_micros'' 0) / 1000000) rows)"

text \<open>The first guard that is exceeded on the rows of the window, if there is any.\<close>

definition guard_reason :: "guard_lib \<Rightarrow> pydict \<Rightarrow> run_state list \<Rightarrow> env_error + string option" where
  "guard_reason g guards rows =
     (let rate = failed_share rows; present = List.map_filter (wall_ms g) rows;
          shown = (\<lambda>k. py_str (gl_text g) (vget guards k))
      in
      rbind (exceeds g (vget guards ''error_rate_above'') (\<lambda>t. t < rate)) (\<lambda>hit.
      if hit then Inr (Some (''error_rate '' @ gl_fixed g 3 rate @ '' > '' @ shown ''error_rate_above'')) else
      rbind (exceeds g (vget guards ''health_below'') (\<lambda>t. 1 - rate < t)) (\<lambda>hit.
      if hit then Inr (Some (''health '' @ gl_fixed g 3 (1 - rate) @ '' < '' @ shown ''health_below'')) else
      rbind (exceeds g (vget guards ''cost_per_run_above'') (\<lambda>t. t < cost_per_run rows)) (\<lambda>hit.
      if hit then Inr (Some (''cost_per_run '' @ gl_fixed g 4 (cost_per_run rows) @ '' > '' @ shown ''cost_per_run_above'')) else
      if present = [] then Inr None else
      rbind (exceeds g (vget guards ''latency_ms_above'') (\<lambda>t. t < average present)) (\<lambda>hit.
      if hit then Inr (Some (''latency_ms '' @ gl_fixed g 1 (average present) @ '' > '' @ shown ''latency_ms_above''))
      else Inr None)))))"

definition maybe_rollback :: "guard_lib \<Rightarrow> env_spec \<Rightarrow> string \<Rightarrow> string option \<Rightarrow> env_slots \<Rightarrow>
    env_error + pydict option \<times> env_slots" where
  "maybe_rollback g spec now actor s =
     (if \<not> filled (en_guard spec) then Inr (None, s)
      else if (case es_current s of None \<Rightarrow> False | Some p \<Rightarrow> py_truth (vget p ''rollback_reason'')) then Inr (None, s)
      else rbind (guard_window (the (en_guard spec))) (\<lambda>window.
        let rows = recent_runs window (es_runs s) in
        if rows = [] then Inr (None, s)
        else rbind (guard_reason g (the (en_guard spec)) rows) (\<lambda>reason.
          case reason of
            None \<Rightarrow> Inr (None, s)
          | Some r \<Rightarrow> rbind (rollback_slots now actor r False s) (\<lambda>(p, s). Inr (Some p, s)))))"

section \<open>Runs\<close>

datatype run_end = RunRaised run_state | RunReturned run_state

definition on_metadata :: "string \<Rightarrow> pyval \<Rightarrow> run_state \<Rightarrow> run_state" where
  "on_metadata k v s = s\<lparr>rs_metadata := dset k v (rs_metadata s)\<rparr>"

text \<open>The shadow of a run: its cost, or the text of what it raised.\<close>

definition maybe_shadow :: "env_lib \<Rightarrow> env_spec \<Rightarrow> string \<Rightarrow> (pydict \<Rightarrow> string + int) \<Rightarrow> pydict \<Rightarrow> releases \<Rightarrow> env_slots \<Rightarrow>
    env_error + int option \<times> env_slots" where
  "maybe_shadow l spec now shadow serving fs s =
     (if \<not> en_shadow spec \<or> \<not> filled (es_candidate s) \<or>
         py_eq (vget (the (es_candidate s)) ''digest'') (vget serving ''digest'') then Inr (None, s)
      else rbind (verify_release l False (the (es_candidate s)) fs) (\<lambda>m.
        case shadow (the (es_candidate s)) of
          Inl e \<Rightarrow> Inr (None, append_history now [(''event'', PStr ''shadow_error''), (''error'', PStr e)] s)
        | Inr cost \<Rightarrow>
            Inr (Some cost, append_history now
              [(''event'', PStr ''shadow''), (''release'', digest_of (es_candidate s)),
               (''shadow_cost_micros'', PInt cost), (''unused'', PBool True)] s)))"

text \<open>
  \<open>run_in_environment\<close>: \<open>execute\<close> is the engine on a pinned workflow; a run that fails is stored in its
  failed state and the exception leaves the function. A run that returns is stored, then shadowed, then guarded.
\<close>

definition run_mark :: "env_spec \<Rightarrow> string \<Rightarrow> pydict \<Rightarrow> string \<Rightarrow> run_state \<Rightarrow> run_state" where
  "run_mark spec env pointer channel r =
     on_metadata ''env_store'' (PStr (en_runs_dir spec)) (on_metadata ''secret_scope'' (of_opt_str (en_secrets spec))
       (on_metadata ''release_channel'' (PStr channel) (on_metadata ''release'' (vget pointer ''digest'')
         (on_metadata ''environment'' (PStr env) r))))"

definition shadow_mark :: "int option \<Rightarrow> run_state \<Rightarrow> run_state" where
  "shadow_mark cost r =
     (case cost of None \<Rightarrow> r
      | Some n \<Rightarrow> on_metadata ''shadow_unused'' (PBool True) (on_metadata ''shadow_cost_micros'' (PInt n) r))"

definition save_env_run :: "run_state \<Rightarrow> env_slots \<Rightarrow> env_slots" where
  "save_env_run r s = s\<lparr>es_runs := put_run r (es_runs s)\<rparr>"

definition guarded_run :: "guard_lib \<Rightarrow> env_spec \<Rightarrow> string \<Rightarrow> string option \<Rightarrow> run_state \<Rightarrow> env_slots \<Rightarrow>
    (env_error + run_state) \<times> env_slots" where
  "guarded_run g spec now actor r s =
     (case maybe_rollback g spec now actor s of
        Inl e \<Rightarrow> (Inl e, s)
      | Inr (None, s) \<Rightarrow> (Inr r, s)
      | Inr (Some p, s) \<Rightarrow>
          (let r = on_metadata ''rollback'' (vget p ''rollback_reason'') r in (Inr r, save_env_run r s)))"

definition after_run :: "env_lib \<Rightarrow> guard_lib \<Rightarrow> env_spec \<Rightarrow> (pydict \<Rightarrow> string + int) \<Rightarrow> string \<Rightarrow> string option \<Rightarrow>
    pydict \<Rightarrow> releases \<Rightarrow> run_state \<Rightarrow> env_slots \<Rightarrow> (env_error + run_state) \<times> env_slots" where
  "after_run l g spec shadow now actor pointer fs r s =
     (case maybe_shadow l spec now shadow pointer fs s of
        Inl e \<Rightarrow> (Inl e, s)
      | Inr (cost, s) \<Rightarrow> guarded_run g spec now actor (shadow_mark cost r) (save_env_run (shadow_mark cost r) s))"

definition chosen_release :: "env_lib \<Rightarrow> env_spec \<Rightarrow> bool \<Rightarrow> string \<Rightarrow> releases \<Rightarrow> env_slots \<Rightarrow>
    env_error + pydict \<times> string" where
  "chosen_release l spec require run fs s =
     rbind (select_pointer l spec run s) (\<lambda>(p, channel). rbind (verify_release l require p fs) (\<lambda>m. Inr (p, channel)))"

definition run_in_environment :: "env_lib \<Rightarrow> guard_lib \<Rightarrow> env_spec \<Rightarrow> string \<Rightarrow> bool \<Rightarrow> (pydict \<Rightarrow> run_end) \<Rightarrow>
    (pydict \<Rightarrow> string + int) \<Rightarrow> string \<Rightarrow> string \<Rightarrow> string option \<Rightarrow> releases \<Rightarrow> env_slots \<Rightarrow>
    (env_error + run_state) \<times> env_slots" where
  "run_in_environment l g spec env require execute shadow now run actor fs s =
     (case chosen_release l spec require run fs s of
        Inl e \<Rightarrow> (Inl e, s)
      | Inr (pointer, channel) \<Rightarrow>
          (case execute pointer of
             RunRaised r \<Rightarrow> (Inl (EnvCrash ''run failed''), save_env_run r s)
           | RunReturned r \<Rightarrow>
               (let r = run_mark spec env pointer channel r
                in after_run l g spec shadow now actor pointer fs r (save_env_run r s))))"

end
