(* ===== verification/EnvSafety.thy ===== *)
theory EnvSafety
  imports EnvRuns
begin

text \<open>
  What environments promise: runs alone never move an environment forward, a promotion has passed its
  gates, a run executes what was pinned, a run id keeps its side of a canary; and where they fall short:
  a release whose runs all fail is never rolled back, a promoted revert switches the guards of its target
  off, an unsigned deployment breaks the signature of the same content.
\<close>

section \<open>Rollback\<close>

lemma digest_of_dset [simp]: "k \<noteq> ''digest'' \<Longrightarrow> vget (dset k v p) ''digest'' = vget p ''digest''"
  by simp

lemma rollback_slots_cases:
  assumes "rollback_slots now actor reason retain s = Inr (p, s')"
  shows "filled (es_previous s)" "es_current s' = Some p" "vget p ''digest'' = digest_of (es_previous s)"
    "vget p ''rollback_reason'' = PStr reason" "es_candidate s' = None" "es_runs s' = es_runs s"
    "\<not> retain \<Longrightarrow> es_previous s' = es_previous s"
  using assms by (auto simp: rollback_slots_def Let_def set_candidate_def append_history_def filled_def digest_of_def split: if_splits)

lemma guard_reason_not_empty: "guard_reason g guards rows = Inr (Some r) \<Longrightarrow> r \<noteq> []"
  by (auto simp: guard_reason_def Let_def split: if_splits)

text \<open>On a revert the guards do nothing; otherwise they leave the slots or install the previous release.\<close>

definition reverted :: "env_slots \<Rightarrow> bool" where
  "reverted s = (case es_current s of None \<Rightarrow> False | Some p \<Rightarrow> py_truth (vget p ''rollback_reason''))"

lemma maybe_rollback_reverted: "reverted s \<Longrightarrow> maybe_rollback g spec now actor s = Inr (None, s)"
  by (auto simp: maybe_rollback_def reverted_def split: option.splits)

lemma maybe_rollback_none: "maybe_rollback g spec now actor s = Inr (None, s') \<Longrightarrow> s' = s"
  by (auto simp: maybe_rollback_def Let_def split: if_splits option.splits)

lemma maybe_rollback_some:
  assumes "maybe_rollback g spec now actor s = Inr (Some p, s')"
  shows "\<not> reverted s" "reverted s'" "digest_of (es_current s') = digest_of (es_previous s)" "es_candidate s' = None"
    "es_previous s' = es_previous s"
proof -
  show "\<not> reverted s" using assms maybe_rollback_reverted[of s g spec now actor] by auto
  obtain r window where r: "guard_reason g (the (en_guard spec)) (recent_runs window (es_runs s)) = Inr (Some r)"
    and undone: "rollback_slots now actor r False s = Inr (p, s')"
    using assms by (auto simp: maybe_rollback_def Let_def split: if_splits option.splits)
  note facts = rollback_slots_cases[OF undone] guard_reason_not_empty[OF r]
  show "reverted s'" using facts by (simp add: reverted_def)
  show "digest_of (es_current s') = digest_of (es_previous s)" using facts(2,3) by (simp add: digest_of_def)
  show "es_candidate s' = None" "es_previous s' = es_previous s" using facts by simp_all
qed

section \<open>Runs\<close>

text \<open>What a run does to the slots besides its own record and the history.\<close>

definition same_pins :: "env_slots \<Rightarrow> env_slots \<Rightarrow> bool" where
  "same_pins s t \<longleftrightarrow> es_current s = es_current t \<and> es_previous s = es_previous t \<and> es_candidate s = es_candidate t"

lemma same_pins_simps [simp]:
  "same_pins s s" "same_pins (save_env_run r s) t = same_pins s t" "same_pins (append_history now e s) t = same_pins s t"
  by (simp_all add: same_pins_def append_history_def save_env_run_def)

lemma same_pins_trans: "same_pins s t \<Longrightarrow> same_pins t u \<Longrightarrow> same_pins s u"
  by (simp add: same_pins_def)

lemma maybe_shadow_pins: "maybe_shadow l spec now shadow p fs s = Inr (c, s') \<Longrightarrow> same_pins s' s"
  by (auto simp: maybe_shadow_def split: if_splits sum.splits)

text \<open>The guards of a run keep the pins or undo the current release once.\<close>

definition undone :: "guard_lib \<Rightarrow> env_spec \<Rightarrow> string \<Rightarrow> string option \<Rightarrow> env_slots \<Rightarrow> env_slots \<Rightarrow> bool" where
  "undone g spec now actor s s' \<longleftrightarrow>
     (\<exists>t p u. same_pins t s \<and> maybe_rollback g spec now actor t = Inr (Some p, u) \<and> same_pins s' u)"

lemma guarded_run_pins:
  assumes "guarded_run g spec now actor r t = (v, s')" "same_pins t s"
  shows "same_pins s' s \<or> undone g spec now actor s s'"
proof (cases "maybe_rollback g spec now actor t")
  case (Inl e)
  then show ?thesis using assms by (simp add: guarded_run_def)
next
  case (Inr b)
  obtain p u where b: "b = (p, u)" by force
  show ?thesis
  proof (cases p)
    case None
    then show ?thesis using assms Inr b maybe_rollback_none[of g spec now actor t u] by (simp add: guarded_run_def)
  next
    case (Some q)
    then have "same_pins s' u" using assms(1) Inr b by (auto simp: guarded_run_def Let_def)
    then have "undone g spec now actor s s'" using assms(2) Inr b Some by (auto simp: undone_def)
    then show ?thesis by simp
  qed
qed

lemma after_run_pins:
  assumes "after_run l g spec shadow now actor p fs r t = (v, s')" "same_pins t s"
  shows "same_pins s' s \<or> undone g spec now actor s s'"
proof (cases "maybe_shadow l spec now shadow p fs t")
  case (Inl e)
  then show ?thesis using assms by (simp add: after_run_def)
next
  case (Inr m)
  obtain cost u where m: "maybe_shadow l spec now shadow p fs t = Inr (cost, u)" using Inr by (cases m) auto
  have "same_pins (save_env_run (shadow_mark cost r) u) s" using maybe_shadow_pins[OF m] assms(2) same_pins_trans by simp
  then show ?thesis using guarded_run_pins assms(1) m by (simp add: after_run_def)
qed

lemma run_pins:
  assumes "run_in_environment l g spec env require execute shadow now run actor fs s = (r, s')"
  shows "same_pins s' s \<or> undone g spec now actor s s'"
proof (cases "chosen_release l spec require run fs s")
  case (Inl e)
  then show ?thesis using assms by (simp add: run_in_environment_def)
next
  case (Inr q)
  obtain pointer channel where q: "q = (pointer, channel)" by force
  show ?thesis
  proof (cases "execute pointer")
    case (RunRaised r0)
    then have "s' = save_env_run r0 s" using assms Inr q by (simp add: run_in_environment_def)
    then show ?thesis by simp
  next
    case (RunReturned r0)
    then show ?thesis using assms Inr q after_run_pins by (simp add: run_in_environment_def Let_def)
  qed
qed

section \<open>Runs alone\<close>

inductive runs_from :: "env_lib \<Rightarrow> guard_lib \<Rightarrow> env_spec \<Rightarrow> env_slots \<Rightarrow> env_slots \<Rightarrow> bool" for l g spec s where
  no_run: "runs_from l g spec s s"
| one_more: "runs_from l g spec s t \<Longrightarrow>
    run_in_environment l g spec env require execute shadow now run actor fs t = (r, u) \<Longrightarrow> runs_from l g spec s u"

definition rolled_once :: "env_slots \<Rightarrow> env_slots \<Rightarrow> bool" where
  "rolled_once s t \<longleftrightarrow> \<not> reverted s \<and> reverted t \<and> digest_of (es_current t) = digest_of (es_previous s) \<and>
     es_previous t = es_previous s \<and> es_candidate t = None"

lemma same_pins_reverted: "same_pins s t \<Longrightarrow> reverted s = reverted t"
  by (simp add: same_pins_def reverted_def)

lemma undone_rolled:
  assumes "undone g spec now actor s s'"
  shows "rolled_once s s'"
proof -
  obtain t p u where t: "same_pins t s" and m: "maybe_rollback g spec now actor t = Inr (Some p, u)" and u: "same_pins s' u"
    using assms by (auto simp: undone_def)
  show ?thesis
    using maybe_rollback_some[OF m] same_pins_reverted[OF t] same_pins_reverted[OF u] t u
    by (simp add: rolled_once_def same_pins_def)
qed

lemma one_run_cases:
  "run_in_environment l g spec env require execute shadow now run actor fs s = (r, s') \<Longrightarrow> same_pins s' s \<or> rolled_once s s'"
  using run_pins undone_rolled by blast

lemma runs_once: "runs_from l g spec s t \<Longrightarrow> same_pins t s \<or> rolled_once s t"
proof (induction rule: runs_from.induct)
  case no_run
  then show ?case by simp
next
  case (one_more t env require execute shadow now run actor fs r u)
  then show ?case
    using one_run_cases[OF one_more.hyps(2)] by (auto simp: same_pins_def rolled_once_def reverted_def)
qed

text \<open>
  C20. Runs in an environment, however many and whatever they return, never move it forward: afterwards the
  current, previous and candidate releases are the ones of the start, or the guards have rolled back once, from
  a release that was no revert to the previous release, with the candidate dropped. In particular leftover
  failures in the window never make a second rollback bring the abandoned release back.
\<close>

theorem guard_never_rolls_forward:
  assumes "runs_from l g spec s t"
  shows "(es_current t = es_current s \<and> es_previous t = es_previous s \<and> es_candidate t = es_candidate s) \<or>
    (\<not> reverted s \<and> reverted t \<and> digest_of (es_current t) = digest_of (es_previous s) \<and>
     es_previous t = es_previous s \<and> es_candidate t = None)"
  using runs_once[OF assms] by (simp add: same_pins_def rolled_once_def)

section \<open>What runs do not undo\<close>

text \<open>Runs one after the other, each with its id and the engine's answer.\<close>

fun serve :: "env_lib \<Rightarrow> guard_lib \<Rightarrow> env_spec \<Rightarrow> string \<Rightarrow> (string \<times> (pydict \<Rightarrow> run_end)) list \<Rightarrow> releases \<Rightarrow>
    env_slots \<Rightarrow> env_slots" where
  "serve l g spec env [] fs s = s"
| "serve l g spec env ((run, execute) # rs) fs s =
     serve l g spec env rs fs (snd (run_in_environment l g spec env False execute (\<lambda>_. Inl []) [] run None fs s))"

definition always_fails :: "string \<times> (pydict \<Rightarrow> run_end) \<Rightarrow> bool" where
  "always_fails q \<longleftrightarrow> (\<forall>p. \<exists>r. snd q p = RunRaised r)"

lemma failing_run_pins:
  assumes "always_fails (run, execute)"
  shows "same_pins (snd (run_in_environment l g spec env require execute shadow now run actor fs s)) s \<and>
    es_history (snd (run_in_environment l g spec env require execute shadow now run actor fs s)) = es_history s"
proof -
  have "\<exists>r. execute p = RunRaised r" for p using assms by (simp add: always_fails_def)
  then show ?thesis
    by (auto simp: run_in_environment_def same_pins_def save_env_run_def split: sum.split run_end.split)
       (metis run_end.distinct(1))+
qed

text \<open>
  C21. The guards of an environment look at its runs only after a run that returned. A release whose runs all
  fail, which is the case the guards are for, is therefore never rolled back by them: after any number of
  failing runs the releases and the history of the environment are what they were, whatever the guards say.
\<close>

theorem failing_release_never_rolls_back:
  assumes "\<forall>q\<in>set rs. always_fails q"
  shows "es_current (serve l g spec env rs fs s) = es_current s \<and> es_previous (serve l g spec env rs fs s) = es_previous s \<and>
    es_candidate (serve l g spec env rs fs s) = es_candidate s \<and> es_history (serve l g spec env rs fs s) = es_history s"
proof -
  have "same_pins (serve l g spec env rs fs s) s \<and> es_history (serve l g spec env rs fs s) = es_history s"
    using assms
  proof (induction rs arbitrary: s)
    case (Cons q rs)
    obtain run execute where q: "q = (run, execute)" by force
    show ?case
      using Cons.IH[of "snd (run_in_environment l g spec env False execute (\<lambda>_. Inl []) [] run None fs s)"] Cons.prems
        failing_run_pins[of run execute l g spec env False "\<lambda>_. Inl []" "[]" None fs s]
      by (auto simp: q same_pins_def)
  qed simp
  then show ?thesis by (simp add: same_pins_def)
qed

section \<open>Promotion\<close>

lemma vget_setdefault: "k \<noteq> k' \<Longrightarrow> vget (setdefault k v d) k' = vget d k'"
  by (simp add: vget_def)

lemma set_current_slots:
  "es_current (set_current now p s) = Some (setdefault ''deployed_at'' (PStr now) p)"
  "es_previous (set_current now p s) = (if filled (es_current s) then es_current s else es_previous s)"
  "es_candidate (set_current now p s) = es_candidate s"
  by (simp_all add: set_current_def append_history_def Let_def)

lemma append_history_slots [simp]:
  "es_current (append_history now e s) = es_current s" "es_previous (append_history now e s) = es_previous s"
  "es_candidate (append_history now e s) = es_candidate s" "es_runs (append_history now e s) = es_runs s"
  by (simp_all add: append_history_def)

lemma promote_cases:
  assumes "promote l g now source target gates actor decisions fs st = Inr (p, st')"
  obtains candidate m evidence dst where
    "env_name source = Inr (strip source)" "env_name target = Inr (strip target)"
    "es_current (slots_of st (strip source)) = Some candidate" "verify_release l False candidate fs = Inr m"
    "evaluate_gates l g gates candidate (es_current (slots_of st (strip target))) actor decisions fs = Inr evidence"
    "p = dset ''actor'' (of_opt_str actor) (dset ''evidence'' (PDict evidence) (dset ''from'' (PStr source) candidate))"
    "st' = dset (strip target) (append_history now (event_row ''promote'' p)
        (set_current now p (slots_of st (strip target)))) st"
  using assms by (auto simp: promote_def env_name_def Let_def split: if_splits option.splits sum.splits)

lemma gate_step_passed:
  "gate_step name spec gate ev = Inr ev' \<Longrightarrow> filled spec \<Longrightarrow> \<exists>v. gate (the spec) = Inr v"
  by (auto simp: gate_step_def)

lemma approval_passed:
  "gate_step name spec (\<lambda>spec. case approval_gate l spec c cur actor decisions node fs of Some e \<Rightarrow> Inl e | None \<Rightarrow> Inr v) ev = Inr ev' \<Longrightarrow>
   filled spec \<Longrightarrow> py_truth (vget (the spec) ''roles'') \<Longrightarrow> env_approves decisions node"
  by (auto simp: gate_step_def approval_gate_def split: option.splits if_splits)

definition gates_passed :: "gate_world \<Rightarrow> gate_specs \<Rightarrow> (string \<times> string) list \<Rightarrow> bool" where
  "gates_passed g gs decisions \<longleftrightarrow>
     (filled (gs_eval gs) \<longrightarrow> (\<exists>v. eval_gate g (gt_eval g) (the (gs_eval gs)) = Inr v)) \<and>
     (filled (gs_fixtures gs) \<longrightarrow> (\<exists>v. fixtures_gate g (the (gs_fixtures gs)) = Inr v)) \<and>
     (filled (gs_benchmark gs) \<longrightarrow> (\<exists>v. bench_gate g (the (gs_benchmark gs)) = Inr v)) \<and>
     (filled (gs_health gs) \<longrightarrow> (\<exists>v. env_health_gate g (the (gs_health gs)) = Inr v)) \<and>
     (filled (gs_approval gs) \<and> py_truth (vget (the (gs_approval gs)) ''roles'') \<longrightarrow> env_approves decisions ''promote'')"

lemma evaluated_gates_passed:
  assumes "evaluate_gates l g (Some gs) c cur actor decisions fs = Inr ev"
  shows "gates_passed g gs decisions"
proof -
  obtain e1 e2 e3 e4 where
    "gate_step ''eval'' (gs_eval gs) (eval_gate g (gt_eval g)) [] = Inr e1"
    "gate_step ''fixtures'' (gs_fixtures gs) (fixtures_gate g) e1 = Inr e2"
    "gate_step ''benchmark'' (gs_benchmark gs) (bench_gate g) e2 = Inr e3"
    "gate_step ''health'' (gs_health gs) (env_health_gate g) e3 = Inr e4"
    and "gate_step ''approval'' (gs_approval gs)
            (\<lambda>spec. case approval_gate l spec (Some c) cur actor decisions ''promote'' fs of
               Some e \<Rightarrow> Inl e
             | None \<Rightarrow> Inr (PDict [(''actor'', of_opt_str actor), (''ok'', PBool True)])) e4 = Inr ev"
    using assms by (auto simp: evaluate_gates_def)
  then show ?thesis using gate_step_passed approval_passed by (auto simp: gates_passed_def)
qed

text \<open>
  C19. A promotion that succeeds has verified the release of its source and passed every declared gate of its
  target, an approval of the promotion included where roles are declared; the target then runs the release of
  the source, keeps its former release as the previous one, and no other environment changes.
\<close>

theorem promotion_passes_gates:
  assumes "promote l g now source target gates actor decisions fs st = Inr (p, st')"
  shows "(\<exists>candidate m. es_current (slots_of st (strip source)) = Some candidate \<and>
      verify_release l False candidate fs = Inr m \<and>
      digest_of (es_current (slots_of st' (strip target))) = vget candidate ''digest'') \<and>
    (\<forall>gs. gates = Some gs \<longrightarrow> gates_passed g gs decisions) \<and>
    (filled (es_current (slots_of st (strip target))) \<longrightarrow>
      es_previous (slots_of st' (strip target)) = es_current (slots_of st (strip target))) \<and>
    (\<forall>other. other \<noteq> strip target \<longrightarrow> slots_of st' other = slots_of st other)"
proof -
  obtain candidate m evidence where c: "es_current (slots_of st (strip source)) = Some candidate"
    and m: "verify_release l False candidate fs = Inr m"
    and ev: "evaluate_gates l g gates candidate (es_current (slots_of st (strip target))) actor decisions fs = Inr evidence"
    and p: "p = dset ''actor'' (of_opt_str actor) (dset ''evidence'' (PDict evidence) (dset ''from'' (PStr source) candidate))"
    and st': "st' = dset (strip target) (append_history now (event_row ''promote'' p)
        (set_current now p (slots_of st (strip target)))) st"
    using assms by (rule promote_cases)
  have t: "slots_of st' (strip target) =
      append_history now (event_row ''promote'' p) (set_current now p (slots_of st (strip target)))"
    by (simp add: st' slots_of_def)
  have d: "digest_of (es_current (slots_of st' (strip target))) = vget candidate ''digest''"
    by (simp add: t set_current_slots digest_of_def p vget_setdefault)
  have g: "\<forall>gs. gates = Some gs \<longrightarrow> gates_passed g gs decisions" using ev evaluated_gates_passed by blast
  have o: "\<forall>other. other \<noteq> strip target \<longrightarrow> slots_of st' other = slots_of st other" by (simp add: st' slots_of_def)
  show ?thesis using c m d g o by (auto simp: t set_current_slots)
qed

text \<open>
  A promotion copies the whole pointer of its source. When the source sits on a revert, the reason of that
  rollback comes with it, the target counts as a revert too, and its guards are off: whatever runs follow, the
  promoted release is never rolled back by them.
\<close>

theorem promoted_revert_disables_guards:
  assumes "promote l g now source target gates actor decisions fs st = Inr (p, st')"
    and "reverted (slots_of st (strip source))" and "runs_from l h spec (slots_of st' (strip target)) t"
  shows "es_current t = es_current (slots_of st' (strip target)) \<and> es_candidate t = es_candidate (slots_of st' (strip target))"
proof -
  obtain candidate where c: "es_current (slots_of st (strip source)) = Some candidate"
    and p: "\<exists>ev. p = dset ''actor'' (of_opt_str actor) (dset ''evidence'' ev (dset ''from'' (PStr source) candidate))"
    and st': "st' = dset (strip target) (append_history now (event_row ''promote'' p)
        (set_current now p (slots_of st (strip target)))) st"
    using assms(1) by (rule promote_cases) blast
  have "py_truth (vget candidate ''rollback_reason'')" using assms(2) c by (simp add: reverted_def)
  then have "reverted (slots_of st' (strip target))"
    using p by (auto simp: st' slots_of_def reverted_def set_current_slots vget_setdefault)
  then show ?thesis using runs_once[OF assms(3)] by (simp add: rolled_once_def same_pins_def)
qed

section \<open>Releases\<close>

lemma verified_cases:
  assumes "verify_release l require p fs = Inr m"
  defines "dir \<equiv> fs (truthy_text (vget p ''path''))"
  defines "pins \<equiv> (if py_truth (vget m ''pins'') then vget m ''pins'' else PDict [])"
  shows "rf_manifest dir = Some m" "PStr (el_digest l pins) = vget m ''digest''"
    "py_truth (vget p ''digest'') \<Longrightarrow> vget p ''digest'' = vget m ''digest''"
    "\<exists>live. rf_live dir = Some live \<and> py_eq (PDict live) pins"
    "require \<or> py_truth (vget p ''signed'') \<Longrightarrow> \<exists>sig. rf_signature dir = Some sig \<and> el_trusted l m sig"
  using assms(1) by (auto simp: verify_release_def dir_def pins_def Let_def split: option.splits if_splits)

lemma on_metadata_get:
  "vget (rs_metadata (on_metadata k v r)) k' = (if k = k' then v else vget (rs_metadata r) k')"
  by (simp add: on_metadata_def vget_def)

lemma marks_keep:
  "k \<noteq> ''shadow_unused'' \<Longrightarrow> k \<noteq> ''shadow_cost_micros'' \<Longrightarrow>
   vget (rs_metadata (shadow_mark c r)) k = vget (rs_metadata r) k"
  by (simp add: shadow_mark_def on_metadata_get split: option.split)

lemma guarded_run_marks:
  "guarded_run g spec now actor r s = (Inr r', s') \<Longrightarrow> k \<noteq> ''rollback'' \<Longrightarrow>
   vget (rs_metadata r') k = vget (rs_metadata r) k"
  by (auto simp: guarded_run_def Let_def on_metadata_get split: sum.splits option.splits)

lemma after_run_marks:
  "after_run l g spec shadow now actor p fs r s = (Inr r', s') \<Longrightarrow>
   k \<notin> {''rollback'', ''shadow_unused'', ''shadow_cost_micros''} \<Longrightarrow>
   vget (rs_metadata r') k = vget (rs_metadata r) k"
  by (auto simp: after_run_def marks_keep dest: guarded_run_marks split: sum.splits)

lemma selected_slot:
  "select_pointer l spec run s = Inr (p, channel) \<Longrightarrow>
   (es_current s = Some p \<and> channel = ''current'') \<or> (es_candidate s = Some p \<and> channel = ''canary'')"
  by (auto simp: select_pointer_def filled_def Let_def split: option.splits if_splits)

text \<open>
  C18. A run that returns from an environment has executed one of its two live releases, whose record it
  carries, and only after the release was verified: its manifest has the digest of its pins, the snapshot on
  disk has these pins, and a trusted signature covers the manifest where signatures are required or the release
  was signed.
\<close>

theorem runs_execute_pinned:
  assumes "run_in_environment l g spec env require execute shadow now run actor fs s = (Inr r, s')"
  shows "\<exists>p m live sigs. (es_current s = Some p \<or> es_candidate s = Some p) \<and> vget (rs_metadata r) ''release'' = vget p ''digest'' \<and>
    rf_manifest (fs (truthy_text (vget p ''path''))) = Some m \<and>
    PStr (el_digest l (if py_truth (vget m ''pins'') then vget m ''pins'' else PDict [])) = vget m ''digest'' \<and>
    (py_truth (vget p ''digest'') \<longrightarrow> vget p ''digest'' = vget m ''digest'') \<and>
    rf_live (fs (truthy_text (vget p ''path''))) = Some live \<and>
    py_eq (PDict live) (if py_truth (vget m ''pins'') then vget m ''pins'' else PDict []) \<and>
    (require \<or> py_truth (vget p ''signed'') \<longrightarrow>
      rf_signature (fs (truthy_text (vget p ''path''))) = Some sigs \<and> el_trusted l m sigs) \<and>
    (\<exists>r0. execute p = RunReturned r0)"
proof -
  obtain p channel where c: "chosen_release l spec require run fs s = Inr (p, channel)"
    using assms by (auto simp: run_in_environment_def split: sum.splits)
  obtain m where sel: "select_pointer l spec run s = Inr (p, channel)" and v: "verify_release l require p fs = Inr m"
    using c by (auto simp: chosen_release_def)
  obtain r0 where e: "execute p = RunReturned r0"
    using assms c by (cases "execute p") (simp_all add: run_in_environment_def)
  have "after_run l g spec shadow now actor p fs (run_mark spec env p channel r0) (save_env_run (run_mark spec env p channel r0) s) = (Inr r, s')"
    using assms c e by (simp add: run_in_environment_def Let_def)
  then have rel: "vget (rs_metadata r) ''release'' = vget p ''digest''"
    using after_run_marks[where k = "''release''"] by (simp add: run_mark_def on_metadata_get)
  show ?thesis using selected_slot[OF sel] rel verified_cases[OF v] e by blast
qed

text \<open>
  An unsigned deployment of content that is already deployed with a signature writes its manifest beside the
  old signature: when the key signs contents, both the signed and the new pointer are refused as tampered from
  then on, although nothing of the release changed.
\<close>

theorem redeploy_breaks_signature:
  assumes "pin_release l now env workflow actor True pins fs = (p1, fs1)"
    and "pin_release l now2 env2 workflow2 actor2 False pins fs1 = (p2, fs2)"
    and "\<forall>m m'. m \<noteq> m' \<longrightarrow> \<not> el_trusted l m' (el_sign l m)"
  shows "verify_release l r p1 fs2 = Inl (EnvRefused ''tamper'') \<and> verify_release l r p2 fs2 = Inl (EnvRefused ''tamper'')"
  using assms by (auto simp: pin_release_def verify_release_def Let_def truthy_text_def vget_def)

section \<open>Canary\<close>

text \<open>
  Raising the percentage of a canary never moves a run back to the current release; no run is a canary at
  zero per cent and every run is one at a hundred.
\<close>

theorem canary_assignment_stable:
  "(select_pointer l (spec\<lparr>en_canary := Some a\<rparr>) run s = Inr (p, ''canary'') \<and> a \<le> b \<longrightarrow>
      select_pointer l (spec\<lparr>en_canary := Some b\<rparr>) run s = Inr (p, ''canary'')) \<and>
   (a \<le> 0 \<longrightarrow> select_pointer l (spec\<lparr>en_canary := Some a\<rparr>) run s \<noteq> Inr (p, ''canary'')) \<and>
   (es_current s \<noteq> None \<and> filled (es_candidate s) \<and> 100 \<le> a \<longrightarrow>
      select_pointer l (spec\<lparr>en_canary := Some a\<rparr>) run s = Inr (the (es_candidate s), ''canary''))"
proof -
  have "canary_hit (el_hash l) run a \<Longrightarrow> a \<le> b \<Longrightarrow> canary_hit (el_hash l) run b" by (simp add: canary_hit_def)
  moreover have "100 \<le> a \<Longrightarrow> canary_hit (el_hash l) run a" by (simp add: canary_hit_def)
  ultimately show ?thesis by (auto simp: select_pointer_def Let_def split: option.splits if_splits)
qed

section \<open>Witnesses\<close>

definition demo_pins :: "string \<Rightarrow> pydict" where
  "demo_pins v = [(''workflow'', PStr v), (''includes'', PDict [])]"

definition demo_pointer :: "string \<Rightarrow> pydict" where
  "demo_pointer v = [(''digest'', PStr v), (''path'', PStr (''/r/'' @ v)), (''pins'', PDict (demo_pins v))]"

definition demo_manifest :: "pydict" where
  "demo_manifest = [(''digest'', PStr ''v2''), (''pins'', PDict (demo_pins ''v2'')), (''env'', PStr ''prod''),
     (''workflow'', PStr ''w.yaml''), (''created_at'', PStr ''t1''), (''actor'', PNone), (''signed'', PBool True)]"

definition demo_env_lib :: env_lib where
  "demo_env_lib = \<lparr>el_digest = (\<lambda>v. case v of PDict d \<Rightarrow> truthy_text (vget d ''workflow'') | _ \<Rightarrow> []),
     el_sign = (\<lambda>m. if m = demo_manifest then ''sig'' else []),
     el_trusted = (\<lambda>m s. m = demo_manifest \<and> s = ''sig''),
     el_hash = (\<lambda>run. ''00000020''), el_root = ''/r''\<rparr>"

definition demo_guard_lib :: guard_lib where
  "demo_guard_lib = \<lparr>gl_number = (\<lambda>_. None), gl_text = (\<lambda>_. []), gl_fixed = (\<lambda>_ _. ''1''), gl_instant = (\<lambda>_. None)\<rparr>"

definition demo_fs :: releases where
  "demo_fs = (\<lambda>_. no_release)(
     ''/r/v1'' := \<lparr>rf_manifest = Some [(''digest'', PStr ''v1''), (''pins'', PDict (demo_pins ''v1''))],
                  rf_signature = None, rf_live = Some (demo_pins ''v1'')\<rparr>,
     ''/r/v2'' := \<lparr>rf_manifest = Some [(''digest'', PStr ''v2''), (''pins'', PDict (demo_pins ''v2''))],
                  rf_signature = None, rf_live = Some (demo_pins ''v2'')\<rparr>)"

definition demo_slots :: env_slots where
  "demo_slots = \<lparr>es_current = Some (demo_pointer ''v2''), es_previous = Some (demo_pointer ''v1''),
     es_candidate = None, es_history = [], es_runs = []\<rparr>"

definition demo_spec :: env_spec where
  "demo_spec = \<lparr>en_gates = None, en_guard = Some [(''error_rate_above'', PInt 0), (''cost_per_run_above'', PInt 0)],
     en_canary = None, en_shadow = False, en_secrets = None, en_runs_dir = ''runs''\<rparr>"

definition failing_run :: run_state where
  "failing_run = (start_run ''r1'' ''w'' [] [] ''t1'')\<lparr>rs_status := ''failed''\<rparr>"

definition costly_run :: run_state where
  "costly_run = (start_run ''r2'' ''w'' [] [] ''t2'')\<lparr>rs_status := ''completed'', rs_usage := [(''cost_micros'', 5)]\<rparr>"

definition demo_run :: "run_end \<Rightarrow> env_slots \<Rightarrow> (env_error + run_state) \<times> env_slots" where
  "demo_run r s =
     run_in_environment demo_env_lib demo_guard_lib demo_spec ''prod'' False (\<lambda>_. r) (\<lambda>_. Inl []) ''t3'' ''r2'' None demo_fs s"

lemma demo_run_step:
  "runs_from demo_env_lib demo_guard_lib demo_spec s t \<Longrightarrow>
   runs_from demo_env_lib demo_guard_lib demo_spec s (snd (demo_run r t))"
  unfolding demo_run_def by (rule one_more[OF _ prod.collapse[symmetric]])

lemmas demo_runs = demo_run_step[OF demo_run_step[OF no_run]]

lemma guard_never_rolls_forward_witness:
  "\<exists>t. runs_from demo_env_lib demo_guard_lib demo_spec demo_slots t \<and>
    digest_of (es_current t) = PStr ''v1'' \<and> es_candidate t = None"
proof -
  let ?t = "snd (demo_run (RunReturned costly_run) (snd (demo_run (RunReturned costly_run) demo_slots)))"
  have "reverted ?t \<and> \<not> reverted demo_slots \<and> es_current ?t \<noteq> es_current demo_slots \<and>
      digest_of (es_previous demo_slots) = PStr ''v1''" by code_simp
  then show ?thesis 
    using guard_never_rolls_forward[OF demo_runs] demo_runs by (metis option.inject)
qed

lemma failing_release_never_rolls_back_witness:
  "es_current (serve demo_env_lib demo_guard_lib demo_spec ''prod''
      [(''r1'', \<lambda>_. RunRaised failing_run), (''r2'', \<lambda>_. RunRaised (failing_run\<lparr>rs_run_id := ''r2''\<rparr>))] demo_fs demo_slots) =
     Some (demo_pointer ''v2'') \<and>
   (\<exists>r. guard_reason demo_guard_lib (the (en_guard demo_spec)) (recent_runs 50
      (es_runs (serve demo_env_lib demo_guard_lib demo_spec ''prod''
      [(''r1'', \<lambda>_. RunRaised failing_run), (''r2'', \<lambda>_. RunRaised (failing_run\<lparr>rs_run_id := ''r2''\<rparr>))] demo_fs demo_slots))) =
     Inr (Some r))"
proof -
  let ?rs = "[(''r1'', \<lambda>_::pydict. RunRaised failing_run), (''r2'', \<lambda>_. RunRaised (failing_run\<lparr>rs_run_id := ''r2''\<rparr>))]"
  have "guard_reason demo_guard_lib (the (en_guard demo_spec)) (recent_runs 50
      (es_runs (serve demo_env_lib demo_guard_lib demo_spec ''prod'' ?rs demo_fs demo_slots))) =
     Inr (Some ''error_rate 1 > 0'')" by code_simp
  moreover have "\<forall>q\<in>set ?rs. always_fails q" by (simp add: always_fails_def)
  ultimately show ?thesis
    using failing_release_never_rolls_back[of ?rs demo_env_lib demo_guard_lib demo_spec "''prod''" demo_fs demo_slots]
    by (simp add: demo_slots_def)
qed

definition demo_gates :: gate_specs where
  "demo_gates = \<lparr>gs_eval = None, gs_fixtures = None, gs_benchmark = None, gs_health = Some [(''min_score'', PInt 1)],
     gs_approval = Some [(''roles'', PList [PStr ''release''])]\<rparr>"

definition demo_world :: gate_world where
  "demo_world = \<lparr>gt_eval = None, gt_fixtures = None, gt_benchmark = None, gt_health = None, gt_suite = (\<lambda>_. Inl 1),
     gt_compare = (\<lambda>_. False), gt_success_rate = 1, gt_number = (\<lambda>_. None)\<rparr>"

definition demo_promote :: "env_store \<Rightarrow> env_error + pydict \<times> env_store" where
  "demo_promote st = promote demo_env_lib demo_world ''t4'' ''staging'' ''prod'' (Some demo_gates) None
     [(''promote'', ''Yes'')] demo_fs st"

definition rolled_slots :: env_slots where
  "rolled_slots = (case rollback_slots ''t'' None ''manual'' True demo_slots of Inr (p, s) \<Rightarrow> s | Inl _ \<Rightarrow> no_slots)"

lemma demo_promotes: "\<exists>p st. demo_promote [(''staging'', demo_slots)] = Inr (p, st)"
  "\<exists>p st. demo_promote [(''staging'', rolled_slots), (''prod'', demo_slots)] = Inr (p, st)"
proof -
  have "(case demo_promote [(''staging'', demo_slots)] of Inr x \<Rightarrow> True | Inl _ \<Rightarrow> False)"
    "(case demo_promote [(''staging'', rolled_slots), (''prod'', demo_slots)] of Inr x \<Rightarrow> True | Inl _ \<Rightarrow> False)"
    by code_simp+
  then show "\<exists>p st. demo_promote [(''staging'', demo_slots)] = Inr (p, st)"
    "\<exists>p st. demo_promote [(''staging'', rolled_slots), (''prod'', demo_slots)] = Inr (p, st)"
    by (auto split: sum.splits)
qed

lemma promotion_passes_gates_witness:
  "\<exists>p st. demo_promote [(''staging'', demo_slots)] = Inr (p, st) \<and> gates_passed demo_world demo_gates [(''promote'', ''Yes'')]"
proof -
  obtain p st where d: "demo_promote [(''staging'', demo_slots)] = Inr (p, st)" using demo_promotes(1) by blast
  show ?thesis using promotion_passes_gates[OF d[unfolded demo_promote_def]] d by blast
qed

lemma promoted_revert_disables_guards_witness:
  "\<exists>p st t. demo_promote [(''staging'', rolled_slots), (''prod'', demo_slots)] = Inr (p, st) \<and>
     t = snd (demo_run (RunReturned costly_run) (slots_of st ''prod'')) \<and> es_current t = es_current (slots_of st ''prod'')"
proof -
  obtain p st where d: "demo_promote [(''staging'', rolled_slots), (''prod'', demo_slots)] = Inr (p, st)"
    using demo_promotes(2) by blast
  have n: "strip ''staging'' = ''staging''" "strip ''prod'' = ''prod''" by code_simp+
  have r: "reverted (slots_of [(''staging'', rolled_slots), (''prod'', demo_slots)] (strip ''staging''))" by code_simp
  show ?thesis
    using promoted_revert_disables_guards[OF d[unfolded demo_promote_def] r, unfolded n,
        OF demo_run_step[OF no_run], of "RunReturned costly_run"] d by blast
qed

lemma runs_execute_pinned_witness:
  "\<exists>r s. demo_run (RunReturned costly_run) demo_slots = (Inr r, s) \<and> vget (rs_metadata r) ''release'' = PStr ''v2''"
proof -
  have "(case demo_run (RunReturned costly_run) demo_slots of (Inr r, s) \<Rightarrow> True | _ \<Rightarrow> False)" by code_simp
  then obtain r s where d: "demo_run (RunReturned costly_run) demo_slots = (Inr r, s)" by (auto split: prod.splits sum.splits)
  have "vget (demo_pointer ''v2'') ''digest'' = PStr ''v2''" by code_simp
  then show ?thesis using runs_execute_pinned[OF d[unfolded demo_run_def]] d by (auto simp: demo_slots_def)
qed

lemma redeploy_breaks_signature_witness:
  "\<exists>p1 fs1 p2 fs2.
     pin_release demo_env_lib ''t1'' ''prod'' ''w.yaml'' None True (demo_pins ''v2'') (\<lambda>_. no_release) = (p1, fs1) \<and>
     verify_release demo_env_lib True p1 fs1 = Inr demo_manifest \<and>
     pin_release demo_env_lib ''t2'' ''staging'' ''w.yaml'' None False (demo_pins ''v2'') fs1 = (p2, fs2) \<and>
     verify_release demo_env_lib False p1 fs2 = Inl (EnvRefused ''tamper'')"
proof -
  let ?q = "pin_release demo_env_lib ''t1'' ''prod'' ''w.yaml'' None True (demo_pins ''v2'') (\<lambda>_. no_release)"
  have v: "verify_release demo_env_lib True (fst ?q) (snd ?q) = Inr demo_manifest" by code_simp
  have k: "\<forall>m m'. m \<noteq> m' \<longrightarrow> \<not> el_trusted demo_env_lib m' (el_sign demo_env_lib m)" by (simp add: demo_env_lib_def)
  obtain p1 fs1 where q: "?q = (p1, fs1)" by force
  obtain p2 fs2 where r: "pin_release demo_env_lib ''t2'' ''staging'' ''w.yaml'' None False (demo_pins ''v2'') fs1 = (p2, fs2)" by force
  show ?thesis using redeploy_breaks_signature[OF q r k, of False] v q r by auto
qed

lemma canary_assignment_stable_witness:
  "select_pointer demo_env_lib (demo_spec\<lparr>en_canary := Some 33\<rparr>) ''r''
     (demo_slots\<lparr>es_candidate := Some (demo_pointer ''v1'')\<rparr>) = Inr (demo_pointer ''v1'', ''canary'') \<and>
   select_pointer demo_env_lib (demo_spec\<lparr>en_canary := Some 40\<rparr>) ''r''
     (demo_slots\<lparr>es_candidate := Some (demo_pointer ''v1'')\<rparr>) = Inr (demo_pointer ''v1'', ''canary'')"
proof -
  have "select_pointer demo_env_lib (demo_spec\<lparr>en_canary := Some 33\<rparr>) ''r''
     (demo_slots\<lparr>es_candidate := Some (demo_pointer ''v1'')\<rparr>) = Inr (demo_pointer ''v1'', ''canary'')" by code_simp
  then show ?thesis
    using canary_assignment_stable[where l = demo_env_lib and spec = demo_spec and a = 33 and b = 40 and run = "''r''" and
        s = "demo_slots\<lparr>es_candidate := Some (demo_pointer ''v1'')\<rparr>" and p = "demo_pointer ''v1''"] by simp
qed

end
