(* ===== verification/Cassettes.thy ===== *)
theory Cassettes
  imports Enforcement
begin

text \<open>
  The cassette of a run, \<open>replay/cassette.py\<close>: a tape of the answers of models, tools, code, documents,
  transcriptions, tables, browsers and contracts, keyed by the digest of the call and the number of the
  occurrence, with the report of what is sealed, recomputed or missing, and the tape's document. The digest
  of a call (\<open>completion_key\<close>, \<open>tool_call_key\<close> of \<open>llm/cache.py\<close>) is a hash of its canonical payload;
  hash, sizes, the determinism of connectors and \<open>json.loads\<close> are arguments. Entries of decide nodes, media
  files beside a tape and the file itself are left out.
\<close>

section \<open>Calls and their digests\<close>

record tool_call =
  tc_id :: string
  tc_name :: string
  tc_arguments :: pydict

record chat_message =
  ms_role :: string
  ms_content :: string
  ms_calls :: "tool_call list"
  ms_call_id :: "string option"
  ms_name :: "string option"
  ms_media :: "pyval list"

record model_result =
  mr_text :: string
  mr_model :: string
  mr_usage :: pydict
  mr_calls :: "tool_call list"

record tape_lib =
  ta_key :: "pyval \<Rightarrow> string"
  ta_size :: "pyval \<Rightarrow> int"
  ta_float :: "rat \<Rightarrow> string"
  ta_loads :: "string \<Rightarrow> pyval option"
  ta_connector :: "string \<Rightarrow> string option"

definition tool_calls_to_json :: "tool_call list \<Rightarrow> pyval" where
  "tool_calls_to_json calls =
     PList (List.map (\<lambda>t. PDict [(''id'', PStr (tc_id t)), (''name'', PStr (tc_name t)), (''arguments'', PDict (tc_arguments t))]) calls)"

definition parse_json_arguments :: "tape_lib \<Rightarrow> pyval \<Rightarrow> pydict" where
  "parse_json_arguments l raw =
     (case raw of
        PNone \<Rightarrow> []
      | PDict d \<Rightarrow> d
      | PStr s \<Rightarrow>
          if strip s = [] then []
          else (case ta_loads l (strip s) of
                  None \<Rightarrow> [(''_raw'', raw)]
                | Some (PDict d) \<Rightarrow> d
                | Some v \<Rightarrow> [(''value'', v)])
      | v \<Rightarrow> [(''value'', v)])"

fun calls_from :: "tape_lib \<Rightarrow> nat \<Rightarrow> pyval list \<Rightarrow> tool_call list" where
  "calls_from l i [] = []"
| "calls_from l i (item # items) =
     (case item of
        PDict d \<Rightarrow>
          if text_or (ta_float l) (vget d ''name'') [] = [] then calls_from l (Suc i) items
          else \<lparr>tc_id = text_or (ta_float l) (vget d ''id'') (''call_'' @ nat_text i),
                tc_name = text_or (ta_float l) (vget d ''name'') [],
                tc_arguments = parse_json_arguments l (vget d ''arguments'')\<rparr> # calls_from l (Suc i) items
      | _ \<Rightarrow> calls_from l (Suc i) items)"

definition tool_calls_from_json :: "tape_lib \<Rightarrow> pyval \<Rightarrow> tool_call list" where
  "tool_calls_from_json l raw = (case raw of PList items \<Rightarrow> calls_from l 0 items | _ \<Rightarrow> [])"

definition media_hash :: "tape_lib \<Rightarrow> pyval \<Rightarrow> pyval" where
  "media_hash l item =
     (case item of
        PDict d \<Rightarrow> if py_truth (vget d ''sha256'') then PStr (py_str (ta_float l) (vget d ''sha256'')) else PStr (py_str (ta_float l) item)
      | _ \<Rightarrow> PStr (py_str (ta_float l) item))"

definition message_payload :: "tape_lib \<Rightarrow> chat_message \<Rightarrow> pyval" where
  "message_payload l m =
     PDict ([(''role'', PStr (ms_role m)), (''content'', PStr (ms_content m))] @
       (if truthy (ms_call_id m) then [(''tool_call_id'', of_opt_str (ms_call_id m))] else []) @
       (if truthy (ms_name m) then [(''name'', of_opt_str (ms_name m))] else []) @
       (if ms_calls m \<noteq> [] then [(''tool_calls'', tool_calls_to_json (ms_calls m))] else []) @
       (if ms_media m \<noteq> [] then [(''media'', PList (List.map (media_hash l) (ms_media m)))] else []))"

definition completion_key :: "tape_lib \<Rightarrow> string \<Rightarrow> chat_message list \<Rightarrow> pydict list \<Rightarrow> string" where
  "completion_key l model messages tools =
     ta_key l (PDict [(''model'', PStr model), (''messages'', PList (List.map (message_payload l) messages)),
                      (''tools'', PList (List.map PDict tools))])"

definition tool_call_key :: "tape_lib \<Rightarrow> string \<Rightarrow> pydict \<Rightarrow> string" where
  "tool_call_key l name arguments = ta_key l (PDict [(''name'', PStr name), (''arguments'', PDict arguments)])"

section \<open>Classes of tools\<close>

definition DETERMINISTIC_TOOLS :: "string list" where
  "DETERMINISTIC_TOOLS = [''calc'', ''json_get'', ''json_set'', ''json_merge'']"

definition SEALABLE_TOOLS :: "string list" where
  "SEALABLE_TOOLS = [''now'', ''http_get'', ''read_file'', ''list_dir'']"

definition CORE_BUILTIN_TOOLS :: "string list" where
  "CORE_BUILTIN_TOOLS = DETERMINISTIC_TOOLS @ SEALABLE_TOOLS @ [''write_file'']"

definition SEAL_CLASSES :: "string list" where
  "SEAL_CLASSES = [''recomputed'', ''sealable'', ''unsealable'']"

definition seal_class :: "string option \<Rightarrow> string option" where
  "seal_class c = (case c of None \<Rightarrow> None | Some s \<Rightarrow> if s \<in> set SEAL_CLASSES then Some s else None)"

definition classify_tool :: "tape_lib \<Rightarrow> (string \<times> string) list \<Rightarrow> string \<Rightarrow> string" where
  "classify_tool l seals name =
     (if name \<in> set DETERMINISTIC_TOOLS then ''recomputed''
      else if name \<in> set SEALABLE_TOOLS then ''sealable''
      else if name \<in> set CORE_BUILTIN_TOOLS then ''unsealable''
      else (case seal_class (ta_connector l name) of
              Some c \<Rightarrow> c
            | None \<Rightarrow> (case seal_class (map_of seals name) of Some c \<Rightarrow> c | None \<Rightarrow> ''unsealable'')))"

section \<open>The report\<close>

record det_report =
  dr_sealed :: "string list"
  dr_recomputed :: "string list"
  dr_unsealable :: "string list"
  dr_misses :: "pydict list"
  dr_positional :: bool
  dr_rank :: "(string \<times> nat) list"

definition no_determinism :: det_report where
  "no_determinism = \<lparr>dr_sealed = [], dr_recomputed = [], dr_unsealable = [], dr_misses = [], dr_positional = False, dr_rank = []\<rparr>"

definition bucket_rank :: "string \<Rightarrow> nat" where
  "bucket_rank b =
     (if b = ''recomputed'' then 1 else if b = ''sealed'' then 2 else if b = ''unsealable'' then 3
      else if b = ''miss'' then 4 else 0)"

definition without :: "string \<Rightarrow> det_report \<Rightarrow> det_report" where
  "without node r =
     r\<lparr>dr_sealed := remove1 node (dr_sealed r), dr_recomputed := remove1 node (dr_recomputed r),
       dr_unsealable := remove1 node (dr_unsealable r),
       dr_misses := filter (\<lambda>row. vget row ''node_id'' \<noteq> PStr node) (dr_misses r)\<rparr>"

definition note_node :: "string \<Rightarrow> string \<Rightarrow> pydict option \<Rightarrow> det_report \<Rightarrow> det_report" where
  "note_node node b miss r =
     (if node = [] \<or> bucket_rank b < dget_or (dr_rank r) node 0 then r
      else
        (let r = without node r; r = r\<lparr>dr_rank := dset node (bucket_rank b) (dr_rank r)\<rparr>
         in if b = ''sealed'' then r\<lparr>dr_sealed := dr_sealed r @ [node]\<rparr>
            else if b = ''recomputed'' then r\<lparr>dr_recomputed := dr_recomputed r @ [node]\<rparr>
            else if b = ''unsealable'' then r\<lparr>dr_unsealable := dr_unsealable r @ [node]\<rparr>
            else if b = ''miss'' then (case miss of None \<Rightarrow> r | Some m \<Rightarrow> r\<lparr>dr_misses := dr_misses r @ [m]\<rparr>)
            else r))"

definition report_dict :: "det_report \<Rightarrow> pydict" where
  "report_dict r =
     [(''sealed'', PList (List.map PStr (dr_sealed r))), (''recomputed'', PList (List.map PStr (dr_recomputed r))),
      (''unsealable'', PList (List.map PStr (dr_unsealable r))), (''misses'', PList (List.map PDict (dr_misses r))),
      (''positional_fallback'', PBool (dr_positional r))]"

section \<open>The tape\<close>

record cassette =
  ca_run_id :: string
  ca_workflow :: string
  ca_recorded_at :: string
  ca_version :: string
  ca_redacted :: bool
  ca_positional :: bool
  ca_entries :: "(string \<times> pydict) list"
  ca_max_entry :: int
  ca_max :: int
  ca_legacy :: "pydict list"
  ca_legacy_index :: nat
  ca_consume :: "(string \<times> nat) list"
  ca_record :: "(string \<times> nat) list"
  ca_blocked :: "string list"
  ca_report :: det_report
  ca_seals :: "(string \<times> string) list"
  ca_route :: "pydict option"

datatype tape_error =
    TooLarge string
  | Missed string string "string option"
  | BadTape string
  | NoTape

definition new_cassette :: "string \<Rightarrow> string \<Rightarrow> string \<Rightarrow> string \<Rightarrow> int \<Rightarrow> int \<Rightarrow> cassette" where
  "new_cassette version now run workflow max_entry max_bytes =
     \<lparr>ca_run_id = run, ca_workflow = workflow, ca_recorded_at = now, ca_version = version, ca_redacted = False,
      ca_positional = False, ca_entries = [], ca_max_entry = max_entry, ca_max = max_bytes, ca_legacy = [],
      ca_legacy_index = 0, ca_consume = [], ca_record = [], ca_blocked = [], ca_report = no_determinism, ca_seals = [],
      ca_route = None\<rparr>"

definition call_slot :: "string \<Rightarrow> string \<Rightarrow> string" where
  "call_slot kind digest = kind @ '':'' @ digest"

definition entry_storage_key :: "string \<Rightarrow> string \<Rightarrow> nat \<Rightarrow> string" where
  "entry_storage_key kind digest occ = call_slot kind digest @ ''#'' @ nat_text occ"

definition on_report :: "(det_report \<Rightarrow> det_report) \<Rightarrow> cassette \<Rightarrow> cassette" where
  "on_report f c = c\<lparr>ca_report := f (ca_report c)\<rparr>"

definition put_entry :: "tape_lib \<Rightarrow> string \<Rightarrow> pydict \<Rightarrow> cassette \<Rightarrow> (tape_error + string) \<times> cassette" where
  "put_entry l key entry c =
     (if ca_max_entry c < ta_size l (PDict entry) then (Inl (TooLarge key), c)
      else
        (let entries = dset key entry (ca_entries c)
         in if ca_max c < sum_list (List.map (\<lambda>(k, e). ta_size l (PDict e)) entries)
            then (Inl (TooLarge key), c\<lparr>ca_entries := AList.delete key entries\<rparr>)
            else (Inr key, c\<lparr>ca_entries := entries\<rparr>)))"

text \<open>The number of the occurrence a recorder takes; the counter is moved before the entry is stored.\<close>

definition record_count :: "cassette \<Rightarrow> string \<Rightarrow> nat" where
  "record_count c slot = dget_or (ca_record c) slot 0"

definition count_record :: "string \<Rightarrow> cassette \<Rightarrow> cassette" where
  "count_record slot c = c\<lparr>ca_record := dset slot (Suc (record_count c slot)) (ca_record c)\<rparr>"

definition entry_head :: "string \<Rightarrow> string \<Rightarrow> nat \<Rightarrow> string \<Rightarrow> pydict" where
  "entry_head kind node occ digest =
     [(''kind'', PStr kind), (''node_id'', PStr node), (''occurrence'', PInt (int occ)), (''digest'', PStr digest)]"

definition block_node :: "string \<Rightarrow> cassette \<Rightarrow> cassette" where
  "block_node node c =
     on_report (note_node node ''unsealable'' None) (c\<lparr>ca_blocked := add_new node (ca_blocked c)\<rparr>)"

definition BLOCKED :: pydict where
  "BLOCKED = [(''redacted_blocked'', PBool True), (''sealed'', PBool False)]"

definition take_route :: "pydict \<Rightarrow> cassette \<Rightarrow> pydict \<times> cassette" where
  "take_route entry c =
     (case ca_route c of
        None \<Rightarrow> (entry, c)
      | Some r \<Rightarrow> if r = [] then (entry, c) else (dset ''route'' (PDict r) entry, c\<lparr>ca_route := None\<rparr>))"

definition media_hashes :: "tape_lib \<Rightarrow> chat_message list \<Rightarrow> pyval list" where
  "media_hashes l messages =
     List.map_filter
       (\<lambda>item. case item of
          PDict d \<Rightarrow> if py_truth (vget d ''sha256'') then Some (PStr (py_str (ta_float l) (vget d ''sha256''))) else None
        | _ \<Rightarrow> None)
       (concat (List.map ms_media messages))"

definition llm_body :: "tape_lib \<Rightarrow> string \<Rightarrow> chat_message list \<Rightarrow> model_result \<Rightarrow> pydict" where
  "llm_body l model messages result =
     [(''text'', PStr (mr_text result)), (''model'', PStr (if mr_model result \<noteq> [] then mr_model result else model)),
      (''usage'', PDict (mr_usage result)), (''cost_micros'', vget (mr_usage result) ''cost_micros''),
      (''tool_calls'', tool_calls_to_json (mr_calls result)), (''sealed'', PBool True)] @
     (if media_hashes l messages \<noteq> [] then [(''media'', PList (media_hashes l messages))] else [])"

definition note_recorded :: "string \<Rightarrow> string \<Rightarrow> bool \<Rightarrow> cassette \<Rightarrow> cassette" where
  "note_recorded node b blocked c = (if blocked then block_node node c else on_report (note_node node b None) c)"

definition record_llm :: "tape_lib \<Rightarrow> string \<Rightarrow> string \<Rightarrow> chat_message list \<Rightarrow> pydict list \<Rightarrow> model_result \<Rightarrow> bool \<Rightarrow>
    cassette \<Rightarrow> (tape_error + string) \<times> cassette" where
  "record_llm l node model messages tools result blocked c =
     (let digest = completion_key l model messages tools; slot = call_slot ''llm'' digest; occ = record_count c slot;
          entry = entry_head ''llm'' node occ digest @ (if blocked then BLOCKED else llm_body l model messages result)
      in case take_route entry (note_recorded node ''sealed'' blocked (count_record slot c)) of
           (entry, c) \<Rightarrow> put_entry l (entry_storage_key ''llm'' digest occ) entry c)"

definition class_bucket :: "string \<Rightarrow> string" where
  "class_bucket c = (if c = ''sealable'' then ''sealed'' else if c = ''recomputed'' then ''recomputed'' else ''unsealable'')"

definition tool_body :: "string \<Rightarrow> pydict \<Rightarrow> pyval \<Rightarrow> pydict" where
  "tool_body klass arguments result =
     [(''arguments'', PDict arguments), (''result'', result), (''sealed'', PBool (klass = ''sealable''))]"

definition record_tool :: "tape_lib \<Rightarrow> string \<Rightarrow> string \<Rightarrow> pydict \<Rightarrow> pyval \<Rightarrow> bool \<Rightarrow> cassette \<Rightarrow>
    (tape_error + string) \<times> cassette" where
  "record_tool l node name arguments result blocked c =
     (let digest = tool_call_key l name arguments; slot = call_slot ''tool'' digest; occ = record_count c slot;
          klass = classify_tool l (ca_seals c) name;
          entry = entry_head ''tool'' node occ digest @ [(''name'', PStr name)] @
            (if blocked then BLOCKED else tool_body klass arguments result)
      in put_entry l (entry_storage_key ''tool'' digest occ) entry
           (note_recorded node (class_bucket klass) blocked (count_record slot c)))"

text \<open>The recorders of sealed nodes differ in the digest and the body.\<close>

definition record_sealed :: "tape_lib \<Rightarrow> string \<Rightarrow> string \<Rightarrow> string \<Rightarrow> pydict \<Rightarrow> cassette \<Rightarrow> (tape_error + string) \<times> cassette" where
  "record_sealed l kind digest node body c =
     (let slot = call_slot kind digest; occ = record_count c slot
      in put_entry l (entry_storage_key kind digest occ) (entry_head kind node occ digest @ body)
           (on_report (note_node node ''sealed'' None) (count_record slot c)))"

definition node_digest :: "tape_lib \<Rightarrow> string \<Rightarrow> string \<Rightarrow> string" where
  "node_digest l kind node = tool_call_key l kind [(''node'', PStr node)]"

definition code_digest :: "tape_lib \<Rightarrow> string \<Rightarrow> string \<Rightarrow> pydict \<Rightarrow> string" where
  "code_digest l node source inputs =
     tool_call_key l ''code'' [(''node'', PStr node), (''source'', PStr source), (''inputs'', PDict inputs)]"

definition record_code :: "tape_lib \<Rightarrow> string \<Rightarrow> string \<Rightarrow> pydict \<Rightarrow> string \<Rightarrow> string \<Rightarrow> int \<Rightarrow> string \<Rightarrow> pyval \<Rightarrow> cassette \<Rightarrow>
    (tape_error + string) \<times> cassette" where
  "record_code l node source inputs stdout stderr exit_status tier output c =
     record_sealed l ''code'' (code_digest l node source inputs) node
       [(''source'', PStr source), (''inputs'', PDict inputs), (''stdout'', PStr stdout), (''stderr'', PStr stderr),
        (''exit'', PInt exit_status), (''tier'', PStr tier), (''output'', output), (''sealed'', PBool True)] c"

fun collect_hashes :: "tape_lib \<Rightarrow> pyval \<Rightarrow> pyval list" where
  "collect_hashes l (PDict d) =
     (if py_truth (vget d ''sha256'') \<and> vget d ''_media'' = PBool True then [PStr (py_str (ta_float l) (vget d ''sha256''))] else [])
     @ concat (List.map (\<lambda>(k, v). collect_hashes l v) d)"
| "collect_hashes l (PList xs) = concat (List.map (collect_hashes l) xs)"
| "collect_hashes l _ = []"

definition record_document :: "tape_lib \<Rightarrow> string \<Rightarrow> pyval \<Rightarrow> cassette \<Rightarrow> (tape_error + string) \<times> cassette" where
  "record_document l node output c =
     record_sealed l ''document'' (node_digest l ''document'' node) node
       [(''output'', output), (''sealed'', PBool True), (''media'', PList (collect_hashes l output))] c"

definition record_table :: "tape_lib \<Rightarrow> string \<Rightarrow> pyval \<Rightarrow> cassette \<Rightarrow> (tape_error + string) \<times> cassette" where
  "record_table l node output c =
     record_sealed l ''table'' (node_digest l ''table'' node) node
       [(''output'', output), (''sealed'', PBool True),
        (''sha256'', case output of PDict d \<Rightarrow> vget d ''sha256'' | _ \<Rightarrow> PNone)] c"

definition record_transcribe :: "tape_lib \<Rightarrow> string \<Rightarrow> pyval \<Rightarrow> cassette \<Rightarrow> (tape_error + string) \<times> cassette" where
  "record_transcribe l node output c =
     record_sealed l ''transcribe'' (node_digest l ''transcribe'' node) node [(''output'', output), (''sealed'', PBool True)] c"

definition record_browser :: "tape_lib \<Rightarrow> string \<Rightarrow> pyval list \<Rightarrow> pyval \<Rightarrow> cassette \<Rightarrow> (tape_error + string) \<times> cassette" where
  "record_browser l node actions output c =
     record_sealed l ''browser'' (node_digest l ''browser'' node) node
       [(''actions'', PList actions), (''output'', output), (''sealed'', PBool True)] c"

definition record_contract :: "tape_lib \<Rightarrow> string \<Rightarrow> pyval \<Rightarrow> pydict \<Rightarrow> cassette \<Rightarrow> (tape_error + string) \<times> cassette" where
  "record_contract l node output report c =
     record_sealed l ''contract'' (node_digest l ''contract'' node) node
       [(''output'', output), (''report'', PDict report), (''sealed'', PBool True)] c"

section \<open>Replay\<close>

text \<open>The entry of the next occurrence; the first one may be stored without a number.\<close>

definition find_entry :: "string \<Rightarrow> string \<Rightarrow> cassette \<Rightarrow> pydict option" where
  "find_entry kind digest c =
     (let occ = dget_or (ca_consume c) (call_slot kind digest) 0
      in case map_of (ca_entries c) (entry_storage_key kind digest occ) of
           Some e \<Rightarrow> Some e
         | None \<Rightarrow> if occ = 0 then map_of (ca_entries c) (call_slot kind digest) else None)"

definition consume :: "string \<Rightarrow> string \<Rightarrow> cassette \<Rightarrow> cassette" where
  "consume kind digest c =
     (let slot = call_slot kind digest
      in c\<lparr>ca_consume := dset slot (Suc (dget_or (ca_consume c) slot 0)) (ca_consume c)\<rparr>)"

definition nearest_key :: "string \<Rightarrow> string \<Rightarrow> cassette \<Rightarrow> string option" where
  "nearest_key kind digest c =
     (case List.find (\<lambda>k. starts_with k (call_slot kind digest)) (List.map fst (ca_entries c)) of
        Some k \<Rightarrow> Some k
      | None \<Rightarrow> List.find (\<lambda>k. starts_with k (kind @ '':'')) (List.map fst (ca_entries c)))"

definition miss_row :: "string \<Rightarrow> string \<Rightarrow> string option \<Rightarrow> string \<Rightarrow> pydict \<Rightarrow> pydict" where
  "miss_row node reason nearest digest extra =
     [(''node_id'', PStr node), (''reason'', PStr reason), (''nearest_key'', of_opt_str nearest), (''digest'', PStr digest)] @ extra"

definition miss_entry :: "string \<Rightarrow> string \<Rightarrow> string \<Rightarrow> string \<Rightarrow> pydict \<Rightarrow> cassette \<Rightarrow> tape_error \<times> cassette" where
  "miss_entry kind digest node reason extra c =
     (let nearest = nearest_key kind digest c
      in (Missed node reason nearest,
          on_report (note_node node ''miss'' (Some (miss_row node reason nearest digest extra))) c))"

definition blocked_entry :: "pydict option \<Rightarrow> bool" where
  "blocked_entry e = (case e of None \<Rightarrow> False | Some d \<Rightarrow> py_truth (vget d ''redacted_blocked''))"

definition miss_reason :: "pydict option \<Rightarrow> string" where
  "miss_reason e = (if e \<noteq> Some [] \<and> blocked_entry e then ''redacted_blocked'' else ''missing'')"

definition dict_part :: "pyval \<Rightarrow> pydict" where
  "dict_part v = (case v of PDict d \<Rightarrow> d | _ \<Rightarrow> [])"

definition result_of_row :: "tape_lib \<Rightarrow> string \<Rightarrow> pydict \<Rightarrow> model_result" where
  "result_of_row l model row =
     \<lparr>mr_text = text_or (ta_float l) (vget row ''text'') [], mr_model = text_or (ta_float l) (vget row ''model'') model,
      mr_usage = dict_part (vget row ''usage''), mr_calls = tool_calls_from_json l (vget row ''tool_calls'')\<rparr>"

definition replay_llm :: "tape_lib \<Rightarrow> string \<Rightarrow> string \<Rightarrow> chat_message list \<Rightarrow> pydict list \<Rightarrow> cassette \<Rightarrow>
    (tape_error + model_result) \<times> cassette" where
  "replay_llm l node model messages tools c =
     (let digest = completion_key l model messages tools; entry = find_entry ''llm'' digest c in
      if entry = None \<and> ca_positional c \<and> ca_legacy_index c < length (ca_legacy c) then
        (Inr (result_of_row l model (ca_legacy c ! ca_legacy_index c)),
         on_report (\<lambda>r. note_node node ''sealed'' None (r\<lparr>dr_positional := True\<rparr>)) (c\<lparr>ca_legacy_index := Suc (ca_legacy_index c)\<rparr>))
      else if entry = None \<or> blocked_entry entry then
        (case miss_entry ''llm'' digest node (miss_reason entry) [] c of (e, c) \<Rightarrow> (Inl e, c))
      else
        (Inr (result_of_row l model (the entry)), on_report (note_node node ''sealed'' None) (consume ''llm'' digest c)))"

definition replay_tool :: "tape_lib \<Rightarrow> string \<Rightarrow> string \<Rightarrow> pydict \<Rightarrow> cassette \<Rightarrow> (tape_error + pyval) \<times> cassette" where
  "replay_tool l node name arguments c =
     (let digest = tool_call_key l name arguments; entry = find_entry ''tool'' digest c in
      if entry = None \<or> blocked_entry entry then
        (case miss_entry ''tool'' digest node (miss_reason entry) [(''tool'', PStr name)] c of (e, c) \<Rightarrow> (Inl e, c))
      else
        (Inr (vget (the entry) ''result''),
         on_report (note_node node (class_bucket (classify_tool l (ca_seals c) name)) None) (consume ''tool'' digest c)))"

text \<open>Documents, tables and transcriptions raise without a row in the report, code, browsers and contracts with one.\<close>

definition replay_sealed :: "string \<Rightarrow> string \<Rightarrow> string \<Rightarrow> bool \<Rightarrow> cassette \<Rightarrow> (tape_error + pyval) \<times> cassette" where
  "replay_sealed kind digest node reported c =
     (case find_entry kind digest c of
        None \<Rightarrow>
          if reported then (case miss_entry kind digest node ''missing'' [] c of (e, c) \<Rightarrow> (Inl e, c))
          else (Inl (Missed node ''missing'' None), c)
      | Some e \<Rightarrow> (Inr (vget e ''output''), on_report (note_node node ''sealed'' None) (consume kind digest c)))"

definition replay_document :: "tape_lib \<Rightarrow> string \<Rightarrow> cassette \<Rightarrow> (tape_error + pyval) \<times> cassette" where
  "replay_document l node = replay_sealed ''document'' (node_digest l ''document'' node) node False"

definition replay_table :: "tape_lib \<Rightarrow> string \<Rightarrow> cassette \<Rightarrow> (tape_error + pyval) \<times> cassette" where
  "replay_table l node = replay_sealed ''table'' (node_digest l ''table'' node) node False"

definition replay_transcribe :: "tape_lib \<Rightarrow> string \<Rightarrow> cassette \<Rightarrow> (tape_error + pyval) \<times> cassette" where
  "replay_transcribe l node = replay_sealed ''transcribe'' (node_digest l ''transcribe'' node) node False"

definition replay_browser :: "tape_lib \<Rightarrow> string \<Rightarrow> cassette \<Rightarrow> (tape_error + pyval) \<times> cassette" where
  "replay_browser l node = replay_sealed ''browser'' (node_digest l ''browser'' node) node True"

definition replay_code :: "tape_lib \<Rightarrow> string \<Rightarrow> string \<Rightarrow> pydict \<Rightarrow> cassette \<Rightarrow> (tape_error + pyval) \<times> cassette" where
  "replay_code l node source inputs = replay_sealed ''code'' (code_digest l node source inputs) node True"

definition replay_contract :: "tape_lib \<Rightarrow> string \<Rightarrow> cassette \<Rightarrow> (tape_error + pyval) \<times> cassette" where
  "replay_contract l node = replay_sealed ''contract'' (node_digest l ''contract'' node) node True"

fun recorded_route :: "tape_lib \<Rightarrow> string \<Rightarrow> pydict list \<Rightarrow> pydict option" where
  "recorded_route l node [] = None"
| "recorded_route l node (e # es) =
     (if node = [] then None
      else if vget e ''kind'' \<noteq> PStr ''llm'' \<or> text_or (ta_float l) (vget e ''node_id'') [] \<noteq> node
        \<or> py_truth (vget e ''redacted_blocked'') then recorded_route l node es
      else (case vget e ''route'' of
              PDict r \<Rightarrow> if strip (text_or (ta_float l) (vget r ''model'') []) \<noteq> [] then Some r else recorded_route l node es
            | _ \<Rightarrow> recorded_route l node es))"

section \<open>The document\<close>

definition to_document :: "cassette \<Rightarrow> pydict" where
  "to_document c =
     [(''cassette_version'', PInt 1), (''readyagents_version'', PStr (ca_version c)), (''run_id'', PStr (ca_run_id c)),
      (''workflow'', PStr (ca_workflow c)), (''recorded_at'', PStr (ca_recorded_at c)), (''redacted'', PBool (ca_redacted c)),
      (''positional_fallback'', PBool (ca_positional c)),
      (''entries'', PDict (List.map (\<lambda>(k, e). (k, PDict e)) (ca_entries c))),
      (''determinism'', PDict (report_dict (ca_report c))),
      (''blocked_nodes'', PList (List.map PStr (ca_blocked c)))]"

definition save_cassette :: "tape_lib \<Rightarrow> cassette \<Rightarrow> tape_error + pyval" where
  "save_cassette l c =
     (if ca_max c < ta_size l (PDict (to_document c)) then Inl (TooLarge ''cassette'') else Inr (PDict (to_document c)))"

definition ENTRY_KINDS :: "string list" where
  "ENTRY_KINDS = [''llm'', ''tool'', ''code'', ''contract'', ''document'', ''transcribe'', ''table'', ''media'', ''browser'', ''decide'']"

fun load_entries :: "pydict \<Rightarrow> tape_error + (string \<times> pydict) list" where
  "load_entries [] = Inr []"
| "load_entries ((k, v) # rest) =
     (case v of
        PDict row \<Rightarrow>
          if vget row ''kind'' \<in> set (List.map PStr ENTRY_KINDS) then rbind (load_entries rest) (\<lambda>es. Inr ((k, row) # es))
          else Inl (BadTape ''kind'')
      | _ \<Rightarrow> Inl (BadTape ''entry''))"

definition texts_in :: "tape_lib \<Rightarrow> pyval \<Rightarrow> string list" where
  "texts_in l v = (case v of PList xs \<Rightarrow> List.map (py_str (ta_float l)) xs | _ \<Rightarrow> [])"

definition load_report :: "tape_lib \<Rightarrow> pyval \<Rightarrow> det_report" where
  "load_report l det =
     (case det of
        PDict d \<Rightarrow>
          no_determinism\<lparr>dr_sealed := texts_in l (vget d ''sealed''), dr_recomputed := texts_in l (vget d ''recomputed''),
            dr_unsealable := texts_in l (vget d ''unsealable''),
            dr_misses := (case vget d ''misses'' of
                            PList xs \<Rightarrow> List.map_filter (\<lambda>x. case x of PDict m \<Rightarrow> Some m | _ \<Rightarrow> None) xs | _ \<Rightarrow> []),
            dr_positional := py_truth (vget d ''positional_fallback'')\<rparr>
      | _ \<Rightarrow> no_determinism)"

text \<open>\<open>Cassette.load\<close> after the file was parsed; a list is a tape of an older format, read by position.\<close>

definition load_cassette :: "tape_lib \<Rightarrow> string \<Rightarrow> string \<Rightarrow> int \<Rightarrow> int \<Rightarrow> pyval \<Rightarrow> tape_error + cassette" where
  "load_cassette l version now max_entry max_bytes loaded =
     (let tape = new_cassette version now [] [] max_entry max_bytes in
      if max_bytes < ta_size l loaded then Inl (TooLarge ''cassette'') else
      (case loaded of
         PList rows \<Rightarrow>
           Inr (tape\<lparr>ca_positional := True, ca_report := no_determinism\<lparr>dr_positional := True\<rparr>,
                  ca_legacy := List.map_filter (\<lambda>x. case x of PDict m \<Rightarrow> Some m | _ \<Rightarrow> None) rows\<rparr>)
       | PDict d \<Rightarrow>
           (case (case map_of d ''cassette_version'' of None \<Rightarrow> Some 1 | Some v \<Rightarrow> to_int v) of
              None \<Rightarrow> Inl (BadTape ''version'')
            | Some n \<Rightarrow>
                if n \<noteq> 1 then Inl (BadTape ''version'')
                else
                  rbind (case vget d ''entries'' of
                     PNone \<Rightarrow> Inr []
                   | PDict entries \<Rightarrow> load_entries entries
                   | _ \<Rightarrow> Inl (BadTape ''entries''))
                  (\<lambda>entries. Inr (tape\<lparr>ca_version := text_or (ta_float l) (vget d ''readyagents_version'') [],
                     ca_run_id := text_or (ta_float l) (vget d ''run_id'') [],
                     ca_workflow := text_or (ta_float l) (vget d ''workflow'') [],
                     ca_recorded_at := text_or (ta_float l) (vget d ''recorded_at'') [],
                     ca_redacted := py_truth (vget d ''redacted''),
                     ca_positional := py_truth (vget d ''positional_fallback''),
                     ca_entries := entries, ca_report := load_report l (vget d ''determinism''),
                     ca_blocked := texts_in l (vget d ''blocked_nodes'')\<rparr>)))
       | _ \<Rightarrow> Inl (BadTape ''document'')))"

end
