(* ===== verification/Replays.thy ===== *)
theory Replays
  imports Cassettes AgentCalls
begin

text \<open>
  Recording and offline replay, \<open>replay/record.py\<close> and \<open>replay/offline.py\<close>: the provider that writes every
  answer of a model to the tape, the seam of tool calls, the provider that reads the tape; and forks of a run,
  \<open>replay/fork.py\<close>. A live model and a live tool change a world of type \<open>'w\<close> and may raise. Firewall,
  credentials and connectors of the seam are left out here (the firewall has theories of its own), as are
  streaming, the workflow file of a fork and its start.
\<close>

section \<open>Secrets\<close>

definition as_text :: "(rat \<Rightarrow> string) \<Rightarrow> pyval \<Rightarrow> string" where
  "as_text fr v = (case v of PNone \<Rightarrow> [] | PStr s \<Rightarrow> s | _ \<Rightarrow> json_text fr v)"

definition value_has_secret :: "tape_lib \<Rightarrow> pyval \<Rightarrow> string list \<Rightarrow> bool" where
  "value_has_secret l v secrets = contains_secret (as_text (ta_float l) v) secrets"

text \<open>\<open>known_secret_values\<close> keeps values of eight characters and more.\<close>

definition kept_secrets :: "string list \<Rightarrow> string list" where
  "kept_secrets found = filter (\<lambda>s. 8 \<le> length s) found"

section \<open>Recording models\<close>

datatype 'e replay_error = LiveError 'e | TapeError tape_error

type_synonym ('w, 'e) live_model = "string \<Rightarrow> chat_message list \<Rightarrow> pydict list \<Rightarrow> 'w \<Rightarrow> ('e + model_result) \<times> 'w"
type_synonym ('w, 'e) live_tool = "string \<Rightarrow> pydict \<Rightarrow> 'w \<Rightarrow> ('e + pyval) \<times> 'w"

definition result_payload :: "chat_message list \<Rightarrow> model_result \<Rightarrow> pyval" where
  "result_payload messages r =
     PDict [(''messages'', PList (List.map (\<lambda>m. PDict [(''role'', PStr (ms_role m)), (''content'', PStr (ms_content m))]) messages)),
       (''text'', PStr (mr_text r)),
       (''tool_calls'', PList (List.map (\<lambda>t. PDict [(''name'', PStr (tc_name t)), (''arguments'', PDict (tc_arguments t))]) (mr_calls r)))]"

definition redact_value :: "(pyval \<Rightarrow> pyval) option \<Rightarrow> pyval \<Rightarrow> pyval" where
  "redact_value redactor v = (case redactor of None \<Rightarrow> v | Some f \<Rightarrow> f v)"

definition record_llm_result :: "tape_lib \<Rightarrow> (pyval \<Rightarrow> pyval) option \<Rightarrow> string list \<Rightarrow> string \<Rightarrow> string \<Rightarrow>
    chat_message list \<Rightarrow> pydict list \<Rightarrow> model_result \<Rightarrow> cassette \<Rightarrow> (tape_error + string) \<times> cassette" where
  "record_llm_result l redactor secrets node model messages tools r c =
     (if value_has_secret l (result_payload messages r) secrets then record_llm l node model messages tools r True c
      else record_llm l node model messages tools
             (r\<lparr>mr_text := py_str (ta_float l) (redact_value redactor (PStr (mr_text r)))\<rparr>) False
             (c\<lparr>ca_redacted := (ca_redacted c \<or> redactor \<noteq> None)\<rparr>))"

text \<open>\<open>RecordingProvider.complete\<close>: the caller gets the answer of the inner provider as it is.\<close>

definition recording_complete :: "tape_lib \<Rightarrow> (pyval \<Rightarrow> pyval) option \<Rightarrow> string list \<Rightarrow> ('w, 'e) live_model \<Rightarrow> string \<Rightarrow>
    string \<Rightarrow> chat_message list \<Rightarrow> pydict list \<Rightarrow> 'w \<times> cassette \<Rightarrow> ('e replay_error + model_result) \<times> 'w \<times> cassette" where
  "recording_complete l redactor secrets inner node model messages tools = (\<lambda>(w, c).
     (case inner model messages tools w of
        (Inl e, w) \<Rightarrow> (Inl (LiveError e), w, c)
      | (Inr r, w) \<Rightarrow>
          (case record_llm_result l redactor secrets node model messages tools r c of
             (Inl e, c) \<Rightarrow> (Inl (TapeError e), w, c)
           | (Inr k, c) \<Rightarrow> (Inr r, w, c))))"

definition cassette_complete :: "tape_lib \<Rightarrow> string \<Rightarrow> string \<Rightarrow> chat_message list \<Rightarrow> pydict list \<Rightarrow> 'w \<times> cassette \<Rightarrow>
    ('e replay_error + model_result) \<times> 'w \<times> cassette" where
  "cassette_complete l node model messages tools = (\<lambda>(w, c).
     (case replay_llm l node model messages tools c of
        (Inl e, c) \<Rightarrow> (Inl (TapeError e), w, c)
      | (Inr r, c) \<Rightarrow> (Inr r, w, c)))"

section \<open>The seam of tool calls\<close>

definition seal_note :: "string \<Rightarrow> string" where
  "seal_note klass = (if klass = ''recomputed'' then ''recomputed'' else ''unsealable'')"

definition dispatch_offline :: "tape_lib \<Rightarrow> ('w, 'e) live_tool \<Rightarrow> string \<Rightarrow> string \<Rightarrow> pydict \<Rightarrow> 'w \<times> cassette \<Rightarrow>
    ('e replay_error + pyval) \<times> 'w \<times> cassette" where
  "dispatch_offline l runner node name arguments = (\<lambda>(w, c).
     (if classify_tool l (ca_seals c) name = ''recomputed'' then
        (case runner name arguments w of
           (Inl e, w) \<Rightarrow> (Inl (LiveError e), w, c)
         | (Inr v, w) \<Rightarrow> (Inr v, w, on_report (note_node node ''recomputed'' None) c))
      else
        (case replay_tool l node name arguments c of
           (Inl e, c) \<Rightarrow> (Inl (TapeError e), w, c)
         | (Inr v, c) \<Rightarrow> (Inr v, w, c))))"

definition dispatch_recorded :: "tape_lib \<Rightarrow> (pyval \<Rightarrow> pyval) option \<Rightarrow> string list \<Rightarrow> ('w, 'e) live_tool \<Rightarrow> string \<Rightarrow> string \<Rightarrow>
    pydict \<Rightarrow> 'w \<times> cassette \<Rightarrow> ('e replay_error + pyval) \<times> 'w \<times> cassette" where
  "dispatch_recorded l redactor secrets runner node name arguments = (\<lambda>(w, c).
     (case runner name arguments w of
        (Inl e, w) \<Rightarrow> (Inl (LiveError e), w, c)
      | (Inr v, w) \<Rightarrow>
          (let blocked = value_has_secret l (PDict [(''name'', PStr name), (''arguments'', PDict arguments), (''result'', v)]) secrets;
               safe = (if blocked then v else redact_value redactor v)
           in case record_tool l node name arguments safe blocked c of
                (Inl e, c) \<Rightarrow> (Inl (TapeError e), w, c)
              | (Inr k, c) \<Rightarrow>
                  (Inr v, w,
                   on_report (note_node node (if blocked then ''unsealable'' else class_bucket (classify_tool l (ca_seals c) name)) None) c))))"

definition dispatch_tool :: "tape_lib \<Rightarrow> bool \<Rightarrow> bool \<Rightarrow> (pyval \<Rightarrow> pyval) option \<Rightarrow> string list \<Rightarrow> ('w, 'e) live_tool \<Rightarrow> string \<Rightarrow>
    string \<Rightarrow> pydict \<Rightarrow> 'w \<times> cassette option \<Rightarrow> ('e replay_error + pyval) \<times> 'w \<times> cassette option" where
  "dispatch_tool l offline recording redactor secrets runner node name arguments = (\<lambda>(w, tape).
     (case (offline, tape) of
        (True, None) \<Rightarrow> (Inl (TapeError NoTape), w, None)
      | (True, Some c) \<Rightarrow> (case dispatch_offline l runner node name arguments (w, c) of (r, w, c) \<Rightarrow> (r, w, Some c))
      | (False, Some c) \<Rightarrow>
          if recording then (case dispatch_recorded l redactor secrets runner node name arguments (w, c) of (r, w, c) \<Rightarrow> (r, w, Some c))
          else (case runner name arguments w of
                  (Inl e, w) \<Rightarrow> (Inl (LiveError e), w, Some c)
                | (Inr v, w) \<Rightarrow> (Inr v, w, Some (on_report (note_node node (seal_note (classify_tool l (ca_seals c) name)) None) c)))
      | (False, None) \<Rightarrow> (case runner name arguments w of (Inl e, w) \<Rightarrow> (Inl (LiveError e), w, None) | (Inr v, w) \<Rightarrow> (Inr v, w, None))))"

section \<open>Runs over a tape\<close>

text \<open>What the nodes of a run do between its calls, up to the result: the client of both seams.\<close>

datatype 'a calls =
    Finished 'a
  | AskModel string string "chat_message list" "pydict list" "model_result \<Rightarrow> 'a calls"
  | UseTool string string pydict "pyval \<Rightarrow> 'a calls"

primrec run_recording :: "tape_lib \<Rightarrow> (pyval \<Rightarrow> pyval) option \<Rightarrow> string list \<Rightarrow> ('w, 'e) live_model \<Rightarrow> ('w, 'e) live_tool \<Rightarrow>
    'a calls \<Rightarrow> 'w \<times> cassette \<Rightarrow> ('e replay_error + 'a) \<times> 'w \<times> cassette" where
  "run_recording l redactor secrets inner runner (Finished v) = (\<lambda>s. (Inr v, s))"
| "run_recording l redactor secrets inner runner (AskModel node model messages tools k) = (\<lambda>s.
     (case recording_complete l redactor secrets inner node model messages tools s of
        (Inl e, s) \<Rightarrow> (Inl e, s) | (Inr r, s) \<Rightarrow> run_recording l redactor secrets inner runner (k r) s))"
| "run_recording l redactor secrets inner runner (UseTool node name arguments k) = (\<lambda>s.
     (case dispatch_recorded l redactor secrets runner node name arguments s of
        (Inl e, s) \<Rightarrow> (Inl e, s) | (Inr v, s) \<Rightarrow> run_recording l redactor secrets inner runner (k v) s))"

primrec run_offline :: "tape_lib \<Rightarrow> ('w, 'e) live_tool \<Rightarrow> 'a calls \<Rightarrow> 'w \<times> cassette \<Rightarrow> ('e replay_error + 'a) \<times> 'w \<times> cassette" where
  "run_offline l runner (Finished v) = (\<lambda>s. (Inr v, s))"
| "run_offline l runner (AskModel node model messages tools k) = (\<lambda>s.
     (case cassette_complete l node model messages tools s of
        (Inl e, s) \<Rightarrow> (Inl e, s) | (Inr r, s) \<Rightarrow> run_offline l runner (k r) s))"
| "run_offline l runner (UseTool node name arguments k) = (\<lambda>s.
     (case dispatch_offline l runner node name arguments s of
        (Inl e, s) \<Rightarrow> (Inl e, s) | (Inr v, s) \<Rightarrow> run_offline l runner (k v) s))"

text \<open>
  The provider of \<open>_complete_agent\<close> offline: a miss is a \<open>CassetteError\<close>, which the loop over the candidates
  does not catch.
\<close>

definition offline_provider :: "tape_lib \<Rightarrow> string \<Rightarrow> chat_message list \<Rightarrow> pydict list \<Rightarrow> cassette \<Rightarrow> string \<Rightarrow> nat \<Rightarrow>
    provider_outcome" where
  "offline_provider l node messages tools c ref i =
     (case fst (replay_llm l node (or_empty (model_id_for ref)) messages tools c) of
        Inl e \<Rightarrow> OtherError ''cassette miss''
      | Inr r \<Rightarrow> Answered \<lparr>co_text = mr_text r, co_model = mr_model r, co_usage = mr_usage r\<rparr>)"

section \<open>Forks\<close>

datatype fork_error = InsideParallel string | NeverRan | SeveralTimes nat | OutOfRange nat

definition FORK_BUCKETS :: "string list" where
  "FORK_BUCKETS = [''_foreach'', ''_parallel'', ''_include'']"

fun output_key_for :: "pydict \<Rightarrow> string \<Rightarrow> pyval \<Rightarrow> string option" where
  "output_key_for [] node output = None"
| "output_key_for ((k, v) # keys) node output = (if k = node \<or> py_eq v output then Some k else output_key_for keys node output)"

definition lineage_metadata :: "run_state \<Rightarrow> string \<Rightarrow> pydict" where
  "lineage_metadata parent node =
     dset ''allow_http'' (vget (rs_metadata parent) ''allow_http'')
      (dset ''workspace'' (vget (rs_metadata parent) ''workspace'')
       (dset ''source'' (vget (rs_metadata parent) ''source'')
        (dset ''forked_at_node'' (PStr node)
         (dset ''forked_from'' (PStr (rs_run_id parent))
          (filter (\<lambda>(k, v). k \<notin> set FORK_BUCKETS \<and> k \<noteq> ''teams'') (rs_metadata parent))))))"

fun truncated_buckets :: "pydict \<Rightarrow> string list \<Rightarrow> string list \<Rightarrow> pydict" where
  "truncated_buckets metadata kept [] =
     (case vget metadata ''teams'' of PDict teams \<Rightarrow> if teams \<noteq> [] then [(''teams'', PDict teams)] else [] | _ \<Rightarrow> [])"
| "truncated_buckets metadata kept (key # keys) =
     (case vget metadata key of
        PDict b \<Rightarrow>
          (let trimmed = filter (\<lambda>(k, v). k \<in> set kept) b
           in if trimmed \<noteq> [] then (key, PDict trimmed) # truncated_buckets metadata kept keys
              else truncated_buckets metadata kept keys)
      | _ \<Rightarrow> truncated_buckets metadata kept keys)"

text \<open>A kept row is recorded again; \<open>record\<close> does not take times of streaming and routes from it.\<close>

definition replay_row :: "string \<Rightarrow> run_state \<Rightarrow> node_result \<Rightarrow> run_state \<Rightarrow> run_state" where
  "replay_row now parent row child =
     (if nr_status row \<noteq> ''ok'' then
        record_error (nr_node_id row) (nr_type row) (if truthy (nr_error row) then the (nr_error row) else ''error'') (nr_attempts row) now child
      else
        record_node (nr_node_id row) (nr_output row) (nr_type row)
          (output_key_for (rs_output_keys parent) (nr_node_id row) (nr_output row))
          (blank_result\<lparr>nr_attempts := nr_attempts row, nr_started_at := nr_started_at row, nr_finished_at := nr_finished_at row,
             nr_usage := nr_usage row, nr_tool_rounds := nr_tool_rounds row\<rparr>) child)"

definition fork_child :: "string \<Rightarrow> string \<Rightarrow> run_state \<Rightarrow> string \<Rightarrow> node_result list \<Rightarrow> pydict \<Rightarrow> string list \<Rightarrow> run_state" where
  "fork_child run now parent node kept overrides extra =
     (let child = start_run run (rs_workflow_name parent) (rs_inputs parent) (lineage_metadata parent node) now;
          child = child\<lparr>rs_inputs := update_all (rs_inputs child) overrides\<rparr>;
          child = foldl (\<lambda>c row. replay_row now parent row c) child kept;
          buckets = truncated_buckets (rs_metadata parent) (List.map nr_node_id kept @ extra) FORK_BUCKETS
      in child\<lparr>rs_metadata := update_all (rs_metadata child) buckets, rs_status := ''queued'', rs_pending_node := None,
           rs_pending := None, rs_finished_at := None, rs_started_at := now\<rparr>)"

definition matches_of :: "string \<Rightarrow> node_result list \<Rightarrow> nat list" where
  "matches_of node rows = filter (\<lambda>i. nr_node_id (rows ! i) = node) [0 ..< length rows]"

text \<open>\<open>parallels\<close> are the parallel nodes of the workflow, when it can be loaded, with the ids of their branches.\<close>

definition parallel_interior :: "(string \<times> string list) list \<Rightarrow> string \<Rightarrow> string option" where
  "parallel_interior parallels node =
     map_option fst (List.find (\<lambda>(p, branches). node \<in> set branches \<and> p \<noteq> node) parallels)"

definition reconstruct_after :: "string \<Rightarrow> string \<Rightarrow> (string \<times> string list) list \<Rightarrow> run_state \<Rightarrow> string \<Rightarrow> int option \<Rightarrow> pydict \<Rightarrow> fork_error + run_state" where
  "reconstruct_after run now parallels parent node occurrence overrides =
     (let matches = matches_of node (rs_results parent) in
      if parallel_interior parallels node \<noteq> None then Inl (InsideParallel (the (parallel_interior parallels node)))
      else if matches = [] then
        (case vget (rs_metadata parent) ''teams'' of
           PDict teams \<Rightarrow>
             if is_dict (vget teams node) then Inr (fork_child run now parent node (rs_results parent) overrides [node])
             else Inl NeverRan
         | _ \<Rightarrow> Inl NeverRan)
      else if 1 < length matches \<and> occurrence = None then Inl (SeveralTimes (length matches))
      else
        (case occurrence of
           None \<Rightarrow> Inr (fork_child run now parent node (take (Suc (hd matches)) (rs_results parent)) overrides [])
         | Some i \<Rightarrow>
             if i < 0 \<or> int (length matches) \<le> i then Inl (OutOfRange (length matches))
             else Inr (fork_child run now parent node (take (Suc (matches ! nat i)) (rs_results parent)) overrides [])))"

end
