(* ===== verification/ReplaySafety.thy ===== *)
theory ReplaySafety
  imports Replays AgentSafety FirewallSafety
begin

text \<open>
  What tapes and forks promise: a recorded run replays offline to its result without a live model and without
  touching the world, a known plain secret is on no tape, a fork keeps exactly the prefix it was taken at; and
  where they fall short: the answer of a fallback model is never found again, and a fork forgets which data of
  its parent is not trusted.
\<close>

section \<open>Keys\<close>

lemma append_sep_inj:
  assumes "xs @ c # ys = xs' @ c # ys'" "c \<notin> set ys" "c \<notin> set ys'"
  shows "xs = xs' \<and> ys = ys'"
proof -
  obtain us where us: "xs = xs' @ us \<and> us @ c # ys = c # ys' \<or> xs @ us = xs' \<and> c # ys = us @ c # ys'"
    using assms(1) by (auto simp: append_eq_append_conv2)
  have "us = []" using us assms(2,3) by (cases us) auto
  then show ?thesis using us by simp
qed

lemma no_hash_in_digits: "CHR ''#'' \<notin> set (nat_text n)"
proof
  assume "CHR ''#'' \<in> set (nat_text n)"
  then have "is_digit (CHR ''#'')" using nat_text_digits by blast
  then show False by (simp add: is_digit_def)
qed

lemma nat_text_inj:
  assumes "nat_text m = nat_text n"
  shows "m = n"
proof -
  have "m = foldl (\<lambda>a c. 10 * a + ((of_char c :: nat) - 48)) 0 (nat_text m)" by (rule nat_text_value[symmetric])
  also have "\<dots> = foldl (\<lambda>a c. 10 * a + ((of_char c :: nat) - 48)) 0 (nat_text n)" by (simp only: assms)
  also have "\<dots> = n" by (rule nat_text_value)
  finally show ?thesis .
qed

lemma storage_key_inj [simp]:
  "entry_storage_key k d i = entry_storage_key k' d' i' \<longleftrightarrow> call_slot k d = call_slot k' d' \<and> i = i'"
proof
  assume "entry_storage_key k d i = entry_storage_key k' d' i'"
  then have "call_slot k d @ CHR ''#'' # nat_text i = call_slot k' d' @ CHR ''#'' # nat_text i'"
    by (simp add: entry_storage_key_def)
  then have "call_slot k d = call_slot k' d' \<and> nat_text i = nat_text i'"
    by (rule append_sep_inj) (rule no_hash_in_digits)+
  then show "call_slot k d = call_slot k' d' \<and> i = i'" by (blast intro: nat_text_inj)
qed (simp add: entry_storage_key_def)

lemma call_slot_kinds [simp]: "call_slot ''llm'' d \<noteq> call_slot ''tool'' d'" "call_slot ''tool'' d' \<noteq> call_slot ''llm'' d"
  "call_slot k d = call_slot k d' \<longleftrightarrow> d = d'"
  by (simp_all add: call_slot_def)

section \<open>Recorders\<close>

definition consumed :: "cassette \<Rightarrow> string \<Rightarrow> nat" where
  "consumed c slot = dget_or (ca_consume c) slot 0"

lemma on_report_frame [simp]:
  "ca_entries (on_report f c) = ca_entries c" "ca_record (on_report f c) = ca_record c" "ca_consume (on_report f c) = ca_consume c"
  "ca_seals (on_report f c) = ca_seals c" "ca_blocked (on_report f c) = ca_blocked c" "ca_positional (on_report f c) = ca_positional c"
  "ca_max (on_report f c) = ca_max c"
  by (simp_all add: on_report_def)

lemma count_record_frame [simp]:
  "ca_entries (count_record slot c) = ca_entries c" "record_count (count_record slot c) t = record_count c t + (if t = slot then 1 else 0)"
  "ca_seals (count_record slot c) = ca_seals c" "ca_blocked (count_record slot c) = ca_blocked c" "ca_max (count_record slot c) = ca_max c"
  by (simp_all add: count_record_def record_count_def)

lemma note_recorded_frame [simp]:
  "ca_entries (note_recorded n b blocked c) = ca_entries c" "record_count (note_recorded n b blocked c) t = record_count c t"
  "ca_seals (note_recorded n b blocked c) = ca_seals c" "ca_max (note_recorded n b blocked c) = ca_max c"
  "set (ca_blocked (note_recorded n b blocked c)) = (if blocked then insert n (set (ca_blocked c)) else set (ca_blocked c))"
  by (simp_all add: note_recorded_def block_node_def record_count_def)

lemma take_route_frame:
  assumes "take_route e c = (e', c')"
  shows "ca_entries c' = ca_entries c" "record_count c' t = record_count c t" "ca_seals c' = ca_seals c" "ca_blocked c' = ca_blocked c"
    "ca_max c' = ca_max c" "k \<noteq> ''route'' \<Longrightarrow> vget e' k = vget e k"
  using assms by (auto simp: take_route_def record_count_def split: option.splits if_splits)

lemma put_entry_Inr:
  assumes "put_entry l key e c = (Inr k, c')"
  shows "c' = c\<lparr>ca_entries := dset key e (ca_entries c)\<rparr>"
  using assms by (auto simp: put_entry_def Let_def split: if_splits)

text \<open>A recorder that succeeds adds one entry under the next number of its slot and moves no other.\<close>

definition records :: "string \<Rightarrow> pydict \<Rightarrow> cassette \<Rightarrow> cassette \<Rightarrow> bool" where
  "records slot e c c' \<longleftrightarrow>
     ca_entries c' = dset (slot @ ''#'' @ nat_text (record_count c slot)) e (ca_entries c) \<and>
     (\<forall>t. record_count c' t = record_count c t + (if t = slot then 1 else 0)) \<and> ca_seals c' = ca_seals c \<and>
     set (ca_blocked c) \<subseteq> set (ca_blocked c') \<and> ca_max c' = ca_max c"

lemma record_count_entries [simp]: "record_count (c\<lparr>ca_entries := es\<rparr>) t = record_count c t"
  by (simp add: record_count_def)

text \<open>What an entry holds, blocked or not.\<close>

definition blocked_row :: "pydict \<Rightarrow> bool" where
  "blocked_row e \<longleftrightarrow> vget e ''text'' = PNone \<and> vget e ''result'' = PNone"

definition llm_row :: "string \<Rightarrow> model_result \<Rightarrow> pydict \<Rightarrow> bool" where
  "llm_row model r e \<longleftrightarrow> \<not> py_truth (vget e ''redacted_blocked'') \<and> vget e ''text'' = PStr (mr_text r) \<and> vget e ''result'' = PNone \<and>
     vget e ''model'' = PStr (if mr_model r \<noteq> [] then mr_model r else model) \<and> vget e ''usage'' = PDict (mr_usage r) \<and>
     vget e ''tool_calls'' = tool_calls_to_json (mr_calls r)"

definition tool_row :: "pyval \<Rightarrow> pydict \<Rightarrow> bool" where
  "tool_row v e \<longleftrightarrow> \<not> py_truth (vget e ''redacted_blocked'') \<and> vget e ''text'' = PNone \<and> vget e ''result'' = v"

lemma rows_built:
  "blocked_row (entry_head k n i d @ BLOCKED)" "llm_row m r (entry_head k n i d @ llm_body l m ms r)"
  "blocked_row (entry_head k n i d @ (''name'', PStr name) # BLOCKED)"
  "tool_row v (entry_head k n i d @ (''name'', PStr name) # tool_body c a v)"
  by (simp_all add: blocked_row_def llm_row_def tool_row_def entry_head_def BLOCKED_def llm_body_def tool_body_def)

lemma rows_routed:
  assumes "\<And>k. k \<noteq> ''route'' \<Longrightarrow> vget e' k = vget e k"
  shows "blocked_row e' = blocked_row e" "llm_row m r e' = llm_row m r e"
  by (simp_all add: blocked_row_def llm_row_def assms)

lemma record_llm_records:
  assumes "record_llm l node model messages tools r blocked c = (Inr k, c')"
  shows "\<exists>e. records (call_slot ''llm'' (completion_key l model messages tools)) e c c' \<and> vget e ''kind'' = PStr ''llm'' \<and>
    (if blocked then node \<in> set (ca_blocked c') \<and> blocked_row e else llm_row model r e)"
proof -
  let ?d = "completion_key l model messages tools"
  let ?s = "call_slot ''llm'' ?d"
  let ?e0 = "entry_head ''llm'' node (record_count c ?s) ?d @ (if blocked then BLOCKED else llm_body l model messages r)"
  obtain e c3 where tr: "take_route ?e0 (note_recorded node ''sealed'' blocked (count_record ?s c)) = (e, c3)" by force
  have put: "put_entry l (entry_storage_key ''llm'' ?d (record_count c ?s)) e c3 = (Inr k, c')"
    using assms tr by (simp add: record_llm_def Let_def)
  note frame = take_route_frame[OF tr]
  have "records ?s e c c'"
    using put_entry_Inr[OF put] frame(1-5) by (auto simp: records_def entry_storage_key_def)
  moreover have "blocked \<longrightarrow> node \<in> set (ca_blocked c')" using put_entry_Inr[OF put] frame(4) by simp
  moreover have "vget e ''kind'' = PStr ''llm''" by (simp add: frame(6) entry_head_def)
  moreover have "if blocked then blocked_row e else llm_row model r e"
    using rows_built(1,2) by (simp add: rows_routed[of e ?e0, OF frame(6)])
  ultimately show ?thesis by auto
qed

lemma record_tool_records:
  assumes "record_tool l node name args v blocked c = (Inr k, c')"
  shows "\<exists>e. records (call_slot ''tool'' (tool_call_key l name args)) e c c' \<and> vget e ''kind'' = PStr ''tool'' \<and>
    (if blocked then node \<in> set (ca_blocked c') \<and> blocked_row e else tool_row v e)"
proof -
  let ?d = "tool_call_key l name args"
  let ?s = "call_slot ''tool'' ?d" and ?k = "classify_tool l (ca_seals c) name"
  let ?e = "entry_head ''tool'' node (record_count c ?s) ?d @ [(''name'', PStr name)] @ (if blocked then BLOCKED else tool_body ?k args v)"
  have put: "put_entry l (entry_storage_key ''tool'' ?d (record_count c ?s)) ?e
      (note_recorded node (class_bucket ?k) blocked (count_record ?s c)) = (Inr k, c')"
    using assms by (simp add: record_tool_def Let_def)
  have "records ?s ?e c c'" using put_entry_Inr[OF put] by (auto simp: records_def entry_storage_key_def)
  moreover have "blocked \<longrightarrow> node \<in> set (ca_blocked c')" using put_entry_Inr[OF put] by simp
  moreover have "vget ?e ''kind'' = PStr ''tool''" by (simp add: entry_head_def)
  moreover have "if blocked then blocked_row ?e else tool_row v ?e" using rows_built(3,4) by simp
  ultimately show ?thesis by auto
qed

section \<open>Recording runs\<close>

definition extends :: "cassette \<Rightarrow> cassette \<Rightarrow> bool" where
  "extends c c' \<longleftrightarrow>
     (\<forall>t. record_count c t \<le> record_count c' t) \<and>
     (\<forall>k d i. i < record_count c (call_slot k d) \<longrightarrow>
        map_of (ca_entries c') (entry_storage_key k d i) = map_of (ca_entries c) (entry_storage_key k d i)) \<and>
     set (ca_blocked c) \<subseteq> set (ca_blocked c') \<and> ca_seals c' = ca_seals c \<and> ca_max c' = ca_max c"

lemma extends_refl [simp]: "extends c c"
  by (simp add: extends_def)

lemma extends_trans: "extends a b \<Longrightarrow> extends b c \<Longrightarrow> extends a c"
  unfolding extends_def by (metis order_trans order_less_le_trans subset_trans)

lemma records_entries:
  "records (call_slot k d) e c c' \<Longrightarrow> ca_entries c' = dset (entry_storage_key k d (record_count c (call_slot k d))) e (ca_entries c)"
  by (simp add: records_def entry_storage_key_def)

lemma records_extends:
  assumes "records (call_slot k d) e c c'"
  shows "extends c c'"
proof -
  have "map_of (ca_entries c') (entry_storage_key k' d' i) = map_of (ca_entries c) (entry_storage_key k' d' i)"
    if "i < record_count c (call_slot k' d')" for k' d' i
    using that by (auto simp: records_entries[OF assms])
  then show ?thesis using assms by (simp add: extends_def records_def)
qed

lemma extends_report [simp]: "extends c (on_report f c') = extends c c'" "extends (on_report f c) c' = extends c c'"
  by (simp_all add: extends_def record_count_def)

lemma records_redacted [simp]: "records slot e (c\<lparr>ca_redacted := b\<rparr>) c' = records slot e c c'"
  by (simp add: records_def record_count_def)

lemma records_report [simp]: "records slot e c (on_report f c') = records slot e c c'"
  by (simp add: records_def record_count_def)

lemma py_str_redact_None [simp]: "py_str fr (redact_value None (PStr t)) = t"
  by (simp add: redact_value_def)

lemma recording_complete_Inr:
  assumes "recording_complete l None secrets inner node model messages tools (w, c) = (Inr r, w', c')"
  shows "inner model messages tools w = (Inr r, w') \<and>
    (\<exists>e. records (call_slot ''llm'' (completion_key l model messages tools)) e c c' \<and> vget e ''kind'' = PStr ''llm'' \<and>
      (node \<in> set (ca_blocked c') \<and> blocked_row e \<or>
       llm_row model r e \<and> \<not> value_has_secret l (result_payload messages r) secrets))"
proof -
  obtain k where inner: "inner model messages tools w = (Inr r, w')"
    and rec: "record_llm_result l None secrets node model messages tools r c = (Inr k, c')"
    using assms by (auto simp: recording_complete_def split: prod.splits sum.splits)
  show ?thesis
  proof (cases "value_has_secret l (result_payload messages r) secrets")
    case True
    then show ?thesis using inner rec record_llm_records[where blocked = True] by (fastforce simp: record_llm_result_def)
  next
    case False
    then have "record_llm l node model messages tools r False (c\<lparr>ca_redacted := ca_redacted c\<rparr>) = (Inr k, c')"
      using rec by (simp add: record_llm_result_def)
    then show ?thesis using inner False record_llm_records[where blocked = False] by (fastforce simp del: cassette.surjective)
  qed
qed

lemma dispatch_recorded_Inr:
  assumes "dispatch_recorded l None secrets runner node name args (w, c) = (Inr v, w', c')"
  shows "runner name args w = (Inr v, w') \<and>
    (\<exists>e. records (call_slot ''tool'' (tool_call_key l name args)) e c c' \<and> vget e ''kind'' = PStr ''tool'' \<and>
      (node \<in> set (ca_blocked c') \<and> blocked_row e \<or> tool_row v e \<and>
       \<not> value_has_secret l (PDict [(''name'', PStr name), (''arguments'', PDict args), (''result'', v)]) secrets))"
proof -
  let ?b = "value_has_secret l (PDict [(''name'', PStr name), (''arguments'', PDict args), (''result'', v)]) secrets"
  obtain k c1 f where runner: "runner name args w = (Inr v, w')"
    and rec: "record_tool l node name args v ?b c = (Inr k, c1)" and c': "c' = on_report f c1"
    using assms by (auto simp: dispatch_recorded_def redact_value_def Let_def split: prod.splits sum.splits if_splits)
  show ?thesis using runner record_tool_records[OF rec] by (auto simp: c' split: if_splits)
qed

lemma run_recording_extends:
  "run_recording l None secrets inner runner p s = (Inr v, s') \<Longrightarrow> extends (snd s) (snd s')"
proof (induction p arbitrary: s)
  case (Finished x)
  then show ?case by simp
next
  case (AskModel node model messages tools k)
  obtain w c where s: "s = (w, c)" by force
  obtain r w1 c1 where step: "recording_complete l None secrets inner node model messages tools (w, c) = (Inr r, w1, c1)"
    and rest: "run_recording l None secrets inner runner (k r) (w1, c1) = (Inr v, s')"
    using AskModel.prems s by (auto split: prod.splits sum.splits)
  have "extends c c1" using recording_complete_Inr[OF step] records_extends by blast
  then show ?case using AskModel.IH[OF _ rest] s extends_trans by fastforce
next
  case (UseTool node name args k)
  obtain w c where s: "s = (w, c)" by force
  obtain x w1 c1 where step: "dispatch_recorded l None secrets runner node name args (w, c) = (Inr x, w1, c1)"
    and rest: "run_recording l None secrets inner runner (k x) (w1, c1) = (Inr v, s')"
    using UseTool.prems s by (auto split: prod.splits sum.splits)
  have "extends c c1" using dispatch_recorded_Inr[OF step] records_extends by blast
  then show ?case using UseTool.IH[OF _ rest] s extends_trans by fastforce
qed

section \<open>Offline runs\<close>

text \<open>An offline tape stands where the recording stood: it holds the final entries and has read what was written.\<close>

definition stands :: "tape_lib \<Rightarrow> cassette \<Rightarrow> cassette \<Rightarrow> cassette \<Rightarrow> bool" where
  "stands l final c tp \<longleftrightarrow>
     ca_entries tp = ca_entries final \<and> ca_seals tp = ca_seals c \<and>
     (\<forall>d. consumed tp (call_slot ''llm'' d) = record_count c (call_slot ''llm'' d)) \<and>
     (\<forall>name args. classify_tool l (ca_seals c) name \<noteq> ''recomputed'' \<longrightarrow>
        consumed tp (call_slot ''tool'' (tool_call_key l name args)) = record_count c (call_slot ''tool'' (tool_call_key l name args)))"

lemma consume_frame [simp]:
  "ca_entries (consume k d tp) = ca_entries tp" "ca_seals (consume k d tp) = ca_seals tp"
  "consumed (consume k d tp) t = consumed tp t + (if t = call_slot k d then 1 else 0)"
  by (simp_all add: consume_def consumed_def Let_def)

lemma consumed_report [simp]: "consumed (on_report f tp) t = consumed tp t"
  by (simp add: consumed_def)

lemma found_entry:
  assumes "ca_entries tp = ca_entries final" "consumed tp (call_slot k d) = record_count c (call_slot k d)"
    and "records (call_slot k d) e c c'" "extends c' final"
  shows "find_entry k d tp = Some e"
proof -
  let ?i = "record_count c (call_slot k d)"
  have "record_count c' (call_slot k d) = Suc ?i" using assms(3) by (simp add: records_def)
  then have "map_of (ca_entries final) (entry_storage_key k d ?i) = map_of (ca_entries c') (entry_storage_key k d ?i)"
    using assms(4) by (simp add: extends_def)
  also have "\<dots> = Some e" using records_entries[OF assms(3)] by simp
  finally show ?thesis using assms(1,2) by (simp add: find_entry_def consumed_def Let_def)
qed

text \<open>Answers that survive JSON: a model is named, and so is every tool call.\<close>

definition named_result :: "model_result \<Rightarrow> bool" where
  "named_result r \<longleftrightarrow> mr_model r \<noteq> [] \<and> (\<forall>t\<in>set (mr_calls r). tc_id t \<noteq> [] \<and> tc_name t \<noteq> [])"

lemma calls_roundtrip:
  "\<forall>t\<in>set ts. tc_id t \<noteq> [] \<and> tc_name t \<noteq> [] \<Longrightarrow>
   calls_from l i (List.map (\<lambda>t. PDict [(''id'', PStr (tc_id t)), (''name'', PStr (tc_name t)), (''arguments'', PDict (tc_arguments t))]) ts) = ts"
  by (induction ts arbitrary: i) (simp_all add: parse_json_arguments_def)

lemma llm_row_result:
  assumes "llm_row model r e" "named_result r"
  shows "result_of_row l model e = r"
  using assms calls_roundtrip[of "mr_calls r" l 0]
  by (simp add: llm_row_def named_result_def result_of_row_def dict_part_def tool_calls_from_json_def tool_calls_to_json_def)

lemma replay_llm_hit:
  assumes "find_entry ''llm'' (completion_key l model messages tools) tp = Some e" "llm_row model r e" "named_result r"
  shows "replay_llm l node model messages tools tp =
    (Inr r, on_report (note_node node ''sealed'' None) (consume ''llm'' (completion_key l model messages tools) tp))"
  using assms llm_row_result[OF assms(2,3)] by (simp add: replay_llm_def Let_def blocked_entry_def llm_row_def)

lemma replay_tool_hit:
  assumes "find_entry ''tool'' (tool_call_key l name args) tp = Some e" "tool_row v e"
  shows "replay_tool l node name args tp =
    (Inr v, on_report (note_node node (class_bucket (classify_tool l (ca_seals tp) name)) None) (consume ''tool'' (tool_call_key l name args) tp))"
  using assms by (simp add: replay_tool_def Let_def blocked_entry_def tool_row_def)

definition named_answers :: "('w, 'e) live_model \<Rightarrow> bool" where
  "named_answers inner \<longleftrightarrow> (\<forall>model messages tools w r w'. inner model messages tools w = (Inr r, w') \<longrightarrow> named_result r)"

text \<open>Recomputed tools are functions of their arguments, and digests tell tools apart.\<close>

definition pure_tools :: "tape_lib \<Rightarrow> (string \<times> string) list \<Rightarrow> ('w, 'e) live_tool \<Rightarrow> bool" where
  "pure_tools l seals runner \<longleftrightarrow>
     (\<forall>name args w v w' w2. classify_tool l seals name = ''recomputed'' \<longrightarrow> runner name args w = (Inr v, w') \<longrightarrow>
        runner name args w2 = (Inr v, w2))"

definition tools_told_apart :: "tape_lib \<Rightarrow> bool" where
  "tools_told_apart l \<longleftrightarrow> (\<forall>n a n' a'. tool_call_key l n a = tool_call_key l n' a' \<longrightarrow> n = n')"

lemma stands_model:
  assumes "stands l final c tp" "records (call_slot ''llm'' d) e c c'"
  shows "stands l final c' (on_report f (consume ''llm'' d tp))"
  using assms by (simp add: stands_def records_def)

lemma stands_tool:
  assumes "stands l final c tp" "records (call_slot ''tool'' (tool_call_key l name args)) e c c'"
  shows "stands l final c' (on_report f (consume ''tool'' (tool_call_key l name args) tp))"
  using assms by (simp add: stands_def records_def)

lemma stands_recomputed:
  assumes "stands l final c tp" "records (call_slot ''tool'' (tool_call_key l name args)) e c c'"
    and "classify_tool l (ca_seals c) name = ''recomputed''" "tools_told_apart l"
  shows "stands l final c' (on_report f tp)"
  using assms by (auto simp: stands_def records_def tools_told_apart_def)

lemma offline_follows:
  assumes "run_recording l None secrets inner runner p s = (Inr v, w', final)" "ca_blocked final = []"
    and "stands l final (snd s) tp"
    and "named_answers inner" "pure_tools l (ca_seals final) runner" "tools_told_apart l"
  shows "\<exists>tp'. run_offline l runner p (w2, tp) = (Inr v, w2, tp')"
  using assms(1,3)
proof (induction p arbitrary: s tp)
  case (Finished x)
  then show ?case by simp
next
  case (AskModel node model messages tools k)
  obtain w c where s: "s = (w, c)" by force
  obtain r w1 c1 where step: "recording_complete l None secrets inner node model messages tools (w, c) = (Inr r, w1, c1)"
    and rest: "run_recording l None secrets inner runner (k r) (w1, c1) = (Inr v, w', final)"
    using AskModel.prems(1) s by (auto split: prod.splits sum.splits)
  have ext: "extends c1 final" using run_recording_extends[OF rest] by simp
  obtain e where e: "records (call_slot ''llm'' (completion_key l model messages tools)) e c c1" "llm_row model r e"
    using recording_complete_Inr[OF step] ext assms(2) by (auto simp: extends_def)
  have named: "named_result r" using recording_complete_Inr[OF step] assms(4) unfolding named_answers_def by blast
  have st: "stands l final c tp" using AskModel.prems(2) s by simp
  have "find_entry ''llm'' (completion_key l model messages tools) tp = Some e"
    using found_entry[OF _ _ e(1) ext] st by (simp add: stands_def)
  from replay_llm_hit[OF this e(2) named] show ?case
    using AskModel.IH[OF _ rest, of "on_report (note_node node ''sealed'' None) (consume ''llm'' (completion_key l model messages tools) tp)"]
      stands_model[OF st e(1)] by (simp add: cassette_complete_def)
next
  case (UseTool node name args k)
  obtain w c where s: "s = (w, c)" by force
  obtain x w1 c1 where step: "dispatch_recorded l None secrets runner node name args (w, c) = (Inr x, w1, c1)"
    and rest: "run_recording l None secrets inner runner (k x) (w1, c1) = (Inr v, w', final)"
    using UseTool.prems(1) s by (auto split: prod.splits sum.splits)
  have ext: "extends c1 final" using run_recording_extends[OF rest] by simp
  obtain e where e: "records (call_slot ''tool'' (tool_call_key l name args)) e c c1" "tool_row x e"
    using dispatch_recorded_Inr[OF step] ext assms(2) by (auto simp: extends_def)
  have live: "runner name args w = (Inr x, w1)" using dispatch_recorded_Inr[OF step] by simp
  have st: "stands l final c tp" using UseTool.prems(2) s by simp
  have seals: "ca_seals tp = ca_seals c" "ca_seals final = ca_seals c"
    using st ext e(1) by (simp_all add: stands_def extends_def records_def)
  show ?case
  proof (cases "classify_tool l (ca_seals c) name = ''recomputed''")
    case True
    have "runner name args w2 = (Inr x, w2)" using live True assms(5) unfolding seals(2) pure_tools_def by blast
    then show ?thesis using True seals UseTool.IH[OF _ rest] stands_recomputed[OF st e(1) True assms(6)]
      by (simp add: dispatch_offline_def)
  next
    case False
    have "find_entry ''tool'' (tool_call_key l name args) tp = Some e"
      using found_entry[OF _ _ e(1) ext] st False by (simp add: stands_def)
    from replay_tool_hit[OF this e(2)] show ?thesis
      using False seals UseTool.IH[OF _ rest] stands_tool[OF st e(1)] by (simp add: dispatch_offline_def)
  qed
qed

section \<open>Saved tapes\<close>

definition kinds_ok :: "cassette \<Rightarrow> bool" where
  "kinds_ok c \<longleftrightarrow> (\<forall>(k, e)\<in>set (ca_entries c). vget e ''kind'' \<in> set (List.map PStr ENTRY_KINDS))"

lemma set_dset: "set (dset k v d) \<subseteq> insert (k, v) (set d)"
  by (induction d) auto

lemma records_kinds:
  assumes "records slot e c c'" "kinds_ok c" "vget e ''kind'' \<in> set (List.map PStr ENTRY_KINDS)"
  shows "kinds_ok c'"
proof -
  have "set (ca_entries c') \<subseteq> insert (slot @ ''#'' @ nat_text (record_count c slot), e) (set (ca_entries c))"
    using assms(1) set_dset unfolding records_def by metis
  then show ?thesis using assms(2,3) unfolding kinds_ok_def by blast
qed

lemma entry_kinds: "PStr ''llm'' \<in> set (List.map PStr ENTRY_KINDS)" "PStr ''tool'' \<in> set (List.map PStr ENTRY_KINDS)"
  by (simp_all add: ENTRY_KINDS_def)

lemma run_recording_kinds:
  "run_recording l None secrets inner runner p s = (Inr v, s') \<Longrightarrow> kinds_ok (snd s) \<Longrightarrow> kinds_ok (snd s')"
proof (induction p arbitrary: s)
  case (Finished x)
  then show ?case by simp
next
  case (AskModel node model messages tools k)
  obtain w c where s: "s = (w, c)" by force
  obtain r w1 c1 where step: "recording_complete l None secrets inner node model messages tools (w, c) = (Inr r, w1, c1)"
    and rest: "run_recording l None secrets inner runner (k r) (w1, c1) = (Inr v, s')"
    using AskModel.prems(1) s by (auto split: prod.splits sum.splits)
  have "kinds_ok c1" using recording_complete_Inr[OF step] AskModel.prems(2) s records_kinds entry_kinds(1) by (metis snd_conv)
  then show ?case using AskModel.IH[OF _ rest] by simp
next
  case (UseTool node name args k)
  obtain w c where s: "s = (w, c)" by force
  obtain x w1 c1 where step: "dispatch_recorded l None secrets runner node name args (w, c) = (Inr x, w1, c1)"
    and rest: "run_recording l None secrets inner runner (k x) (w1, c1) = (Inr v, s')"
    using UseTool.prems(1) s by (auto split: prod.splits sum.splits)
  have "kinds_ok c1" using dispatch_recorded_Inr[OF step] UseTool.prems(2) s records_kinds entry_kinds(2) by (metis snd_conv)
  then show ?case using UseTool.IH[OF _ rest] by simp
qed

lemma load_entries_saved:
  "\<forall>(k, e)\<in>set es. vget e ''kind'' \<in> set (List.map PStr ENTRY_KINDS) \<Longrightarrow>
   load_entries (List.map (\<lambda>(k, e). (k, PDict e)) es) = Inr es"
  by (induction es) auto

lemma saved_loads:
  assumes "save_cassette l c = Inr doc" "kinds_ok c"
  shows "\<exists>tp. load_cassette l version now max_entry (ca_max c) doc = Inr tp \<and> ca_entries tp = ca_entries c \<and>
    ca_consume tp = [] \<and> ca_positional tp = ca_positional c"
proof -
  have doc: "doc = PDict (to_document c)" "\<not> ca_max c < ta_size l doc"
    using assms(1) by (auto simp: save_cassette_def split: if_splits)
  have "vget (to_document c) ''entries'' = PDict (List.map (\<lambda>(k, e). (k, PDict e)) (ca_entries c))"
    "map_of (to_document c) ''cassette_version'' = Some (PInt 1)"
    "vget (to_document c) ''positional_fallback'' = PBool (ca_positional c)"
    by (simp_all add: to_document_def)
  then show ?thesis
    using doc load_entries_saved[of "ca_entries c"] assms(2) by (simp add: load_cassette_def kinds_ok_def new_cassette_def Let_def)
qed

definition fresh_tape :: "string \<Rightarrow> string \<Rightarrow> string \<Rightarrow> int \<Rightarrow> int \<Rightarrow> (string \<times> string) list \<Rightarrow> cassette" where
  "fresh_tape version now workflow max_entry max_bytes seals =
     (new_cassette version now [] workflow max_entry max_bytes)\<lparr>ca_seals := seals\<rparr>"

lemma fresh_tape_frame:
  "record_count (fresh_tape version now workflow max_entry max_bytes seals) t = 0"
  "ca_seals (fresh_tape version now workflow max_entry max_bytes seals) = seals"
  "ca_max (fresh_tape version now workflow max_entry max_bytes seals) = max_bytes"
  "kinds_ok (fresh_tape version now workflow max_entry max_bytes seals)"
  "ca_entries (fresh_tape version now workflow max_entry max_bytes seals) = []"
  by (simp_all add: fresh_tape_def new_cassette_def record_count_def dget_or_def kinds_ok_def)


section \<open>Secrets\<close>

lemma has_infix_iff: "has_infix p s \<longleftrightarrow> (\<exists>a b. s = a @ p @ b)"
proof (induction s)
  case Nil
  then show ?case by auto
next
  case (Cons c cs)
  have "has_infix p (c # cs) \<longleftrightarrow> (\<exists>b. c # cs = p @ b) \<or> (\<exists>a b. cs = a @ p @ b)"
    using Cons by (simp add: starts_with_iff)
  also have "\<dots> \<longleftrightarrow> (\<exists>a b. c # cs = a @ p @ b)"
    by (metis append_Cons append_Nil list.exhaust list.inject)
  finally show ?case .
qed

lemma has_infix_mid: "has_infix p s \<Longrightarrow> has_infix p (a @ s @ b)"
  unfolding has_infix_iff by (metis append.assoc)

lemma has_infix_app: "has_infix p a \<or> has_infix p b \<Longrightarrow> has_infix p (a @ b)"
  using has_infix_mid[of p a "[]" b] has_infix_mid[of p b a "[]"] by auto

lemma has_infix_Cons: "has_infix p a \<Longrightarrow> has_infix p (c # a)"
  by simp

lemma join_shows: "x \<in> set xs \<Longrightarrow> has_infix p x \<Longrightarrow> has_infix p (join_with sep xs)"
proof (induction sep xs rule: join_with.induct)
  case (3 sep y z zs)
  then show ?case by (auto intro!: has_infix_app simp: has_infix_app)
qed auto

lemma dict_shows:
  assumes "(k, v) \<in> set d" "has_infix p (json_text fr v)"
  shows "has_infix p (json_text fr (PDict d))"
proof -
  have "json_string k @ '': '' @ json_text fr v \<in> set (List.map (\<lambda>(k, v). json_string k @ '': '' @ json_text fr v) d)"
    using assms(1) by force
  moreover have "has_infix p (json_string k @ '': '' @ json_text fr v)" using assms(2) has_infix_app by blast
  ultimately have "has_infix p (join_with '', '' (List.map (\<lambda>(k, v). json_string k @ '': '' @ json_text fr v) d))"
    by (rule join_shows)
  then have "has_infix p (''{'' @ join_with '', '' (List.map (\<lambda>(k, v). json_string k @ '': '' @ json_text fr v) d) @ ''}'')"
    by (intro has_infix_mid)
  then show ?thesis by (simp only: json_text.simps)
qed

text \<open>What of an entry shows a secret in the JSON of the tape.\<close>

definition shows_secret :: "tape_lib \<Rightarrow> string \<Rightarrow> pydict \<Rightarrow> bool" where
  "shows_secret l secret e \<longleftrightarrow>
     (\<exists>k\<in>{''text'', ''result'', ''arguments''}. vget e k \<noteq> PNone \<and> has_infix secret (json_text (ta_float l) (vget e k)))"

lemma dict_value_shows:
  assumes "\<not> value_has_secret l (PDict d) secrets" "secret \<in> set secrets" "(k, v) \<in> set d"
  shows "\<not> has_infix secret (json_text (ta_float l) v)"
proof
  assume "has_infix secret (json_text (ta_float l) v)"
  then have "has_infix secret (as_text (ta_float l) (PDict d))"
    unfolding as_text_def pyval.case by (rule dict_shows[OF assms(3)])
  then show False using assms(1,2) unfolding value_has_secret_def contains_secret_def list_ex_iff by blast
qed

lemma put_entry_set: "set (ca_entries (snd (put_entry l key e c))) \<subseteq> insert (key, e) (set (ca_entries c))"
  using set_dset[of key e "ca_entries c"] by (auto simp: put_entry_def Let_def AList.delete_eq)

definition tape_clean :: "tape_lib \<Rightarrow> string list \<Rightarrow> cassette \<Rightarrow> bool" where
  "tape_clean l secrets c \<longleftrightarrow> (\<forall>(k, e)\<in>set (ca_entries c). \<forall>secret\<in>set secrets. \<not> shows_secret l secret e)"

lemma tape_clean_put:
  assumes "tape_clean l secrets c" "\<forall>secret\<in>set secrets. \<not> shows_secret l secret e" "put_entry l key e c = (x, c')"
  shows "tape_clean l secrets c'"
  using assms put_entry_set[of l key e c] unfolding tape_clean_def by fastforce

lemma tape_clean_frame [simp]:
  "tape_clean l secrets (on_report f c) = tape_clean l secrets c"
  "tape_clean l secrets (count_record slot c) = tape_clean l secrets c"
  "tape_clean l secrets (note_recorded n b blocked c) = tape_clean l secrets c"
  "tape_clean l secrets (c\<lparr>ca_redacted := x\<rparr>) = tape_clean l secrets c"
  by (simp_all add: tape_clean_def)

lemma shows_secret_built:
  "\<not> shows_secret l secret (entry_head k n i d @ BLOCKED)"
  "\<not> shows_secret l secret (entry_head k n i d @ (''name'', PStr name) # BLOCKED)"
  "shows_secret l secret (entry_head k n i d @ llm_body l m ms r) = has_infix secret (json_text (ta_float l) (PStr (mr_text r)))"
  "shows_secret l secret (entry_head k n i d @ (''name'', PStr name) # tool_body c a v) \<Longrightarrow>
    has_infix secret (json_text (ta_float l) v) \<or> has_infix secret (json_text (ta_float l) (PDict a))"
  by (auto simp: shows_secret_def entry_head_def BLOCKED_def llm_body_def tool_body_def simp del: json_text.simps)

lemma record_llm_clean:
  assumes "tape_clean l secrets c" "record_llm l node model messages tools r blocked c = (x, c')"
    and "\<not> blocked \<Longrightarrow> \<forall>secret\<in>set secrets. \<not> has_infix secret (json_text (ta_float l) (PStr (mr_text r)))"
  shows "tape_clean l secrets c'"
proof -
  let ?d = "completion_key l model messages tools"
  let ?s = "call_slot ''llm'' ?d"
  let ?e0 = "entry_head ''llm'' node (record_count c ?s) ?d @ (if blocked then BLOCKED else llm_body l model messages r)"
  obtain e c3 where tr: "take_route ?e0 (note_recorded node ''sealed'' blocked (count_record ?s c)) = (e, c3)" by force
  have put: "put_entry l (entry_storage_key ''llm'' ?d (record_count c ?s)) e c3 = (x, c')"
    using assms(2) tr by (simp add: record_llm_def Let_def)
  have "shows_secret l secret e = shows_secret l secret ?e0" for secret
    by (simp add: shows_secret_def take_route_frame(6)[OF tr])
  moreover have "\<forall>secret\<in>set secrets. \<not> shows_secret l secret ?e0" using assms(3) shows_secret_built(1,3) by simp
  ultimately have e: "\<forall>secret\<in>set secrets. \<not> shows_secret l secret e" by simp
  have "tape_clean l secrets c3" using assms(1) take_route_frame(1)[OF tr] by (simp add: tape_clean_def)
  then show ?thesis using tape_clean_put e put by blast
qed

lemma record_tool_clean:
  assumes "tape_clean l secrets c" "record_tool l node name args v blocked c = (x, c')"
    and "\<not> blocked \<Longrightarrow> \<forall>secret\<in>set secrets.
      \<not> has_infix secret (json_text (ta_float l) v) \<and> \<not> has_infix secret (json_text (ta_float l) (PDict args))"
  shows "tape_clean l secrets c'"
proof -
  let ?d = "tool_call_key l name args"
  let ?s = "call_slot ''tool'' ?d" and ?k = "classify_tool l (ca_seals c) name"
  let ?e = "entry_head ''tool'' node (record_count c ?s) ?d @ [(''name'', PStr name)] @ (if blocked then BLOCKED else tool_body ?k args v)"
  have put: "put_entry l (entry_storage_key ''tool'' ?d (record_count c ?s)) ?e
      (note_recorded node (class_bucket ?k) blocked (count_record ?s c)) = (x, c')"
    using assms(2) by (simp add: record_tool_def Let_def)
  have "\<forall>secret\<in>set secrets. \<not> shows_secret l secret ?e"
  proof (cases blocked)
    case True
    then show ?thesis using shows_secret_built(2) by simp
  next
    case False
    then have "?e = entry_head ''tool'' node (record_count c ?s) ?d @ (''name'', PStr name) # tool_body ?k args v" by simp
    then show ?thesis using assms(3)[OF False] shows_secret_built(4) by metis
  qed
  moreover have "tape_clean l secrets (note_recorded node (class_bucket ?k) blocked (count_record ?s c))" using assms(1) by simp
  ultimately show ?thesis using tape_clean_put put by blast
qed

lemma recording_complete_clean:
  assumes "recording_complete l None secrets inner node model messages tools (w, c) = (x, w', c')" "tape_clean l secrets c"
  shows "tape_clean l secrets c'"
proof (cases "inner model messages tools w")
  case (Pair y w1)
  show ?thesis
  proof (cases y)
    case (Inl e)
    then show ?thesis using assms Pair by (simp add: recording_complete_def)
  next
    case (Inr r)
    obtain z c1 where rec: "record_llm_result l None secrets node model messages tools r c = (z, c1)" by force
    have c': "c' = c1" using assms(1) Pair Inr rec by (auto simp: recording_complete_def split: sum.splits)
    have "\<not> value_has_secret l (result_payload messages r) secrets \<Longrightarrow>
        \<forall>secret\<in>set secrets. \<not> has_infix secret (json_text (ta_float l) (PStr (mr_text r)))"
      unfolding result_payload_def using dict_value_shows by fastforce
    then show ?thesis
      using rec assms(2) record_llm_clean[of l secrets _ node model messages tools r] unfolding c'
      by (auto simp: record_llm_result_def simp del: json_text.simps split: if_splits)
  qed
qed

lemma dispatch_recorded_clean:
  assumes "dispatch_recorded l None secrets runner node name args (w, c) = (x, w', c')" "tape_clean l secrets c"
  shows "tape_clean l secrets c'"
proof (cases "runner name args w")
  case (Pair y w1)
  show ?thesis
  proof (cases y)
    case (Inl e)
    then show ?thesis using assms Pair by (simp add: dispatch_recorded_def)
  next
    case (Inr v)
    let ?d = "[(''name'', PStr name), (''arguments'', PDict args), (''result'', v)]"
    let ?b = "value_has_secret l (PDict ?d) secrets"
    obtain z c1 where rec: "record_tool l node name args v ?b c = (z, c1)" by force
    have "\<exists>f. c' = c1 \<or> c' = on_report f c1"
      using assms(1) Pair Inr rec by (auto simp: dispatch_recorded_def redact_value_def Let_def split: sum.splits if_splits)
    moreover have "tape_clean l secrets c1"
      using record_tool_clean[OF assms(2) rec] dict_value_shows[of l ?d secrets] by (auto simp del: json_text.simps)
    ultimately show ?thesis by auto
  qed
qed


section \<open>Fallback models\<close>

lemma record_llm_positional:
  assumes "record_llm l node model messages tools r blocked c = (Inr k, c')"
  shows "ca_positional c' = ca_positional c"
proof -
  have "take_route e0 c0 = (e, c3) \<Longrightarrow> ca_positional c3 = ca_positional c0" for e0 c0 e c3
    by (auto simp: take_route_def split: option.splits if_splits)
  moreover have "ca_positional (note_recorded n b x (count_record slot c)) = ca_positional c" for n b x slot
    by (simp add: note_recorded_def block_node_def count_record_def)
  ultimately show ?thesis using assms
    by (auto simp: record_llm_def Let_def split: prod.splits dest!: put_entry_Inr)
qed

lemma record_llm_result_positional:
  "record_llm_result l None secrets node model messages tools r (fresh_tape version now workflow max_entry max_bytes seals) = (Inr k, tape) \<Longrightarrow>
   ca_positional tape = False"
  by (auto simp: record_llm_result_def fresh_tape_def new_cassette_def split: if_splits dest!: record_llm_positional)

text \<open>
  C15. A run whose first model failed and whose fallback answered is not replayed, although the answer is on its
  tape: offline the first candidate is asked first, its miss is no error of a model, and it ends the call. The
  node has no routing policy, breaker or cache; the call is admitted, digests are hexadecimal and differ by model.
\<close>

theorem fallback_answer_not_replayed:
  assumes "record_llm_result l None secrets node (or_empty (model_id_for second)) messages tools r
      (fresh_tape version now workflow max_entry max_bytes seals) = (Inr k, tape)"
    and "completion_key l (or_empty (model_id_for first)) messages tools \<noteq> completion_key l (or_empty (model_id_for second)) messages tools"
    and "\<forall>v. CHR ''#'' \<notin> set (ta_key l v)"
    and "gw_breaker w = None" "gw_cache w = None" "admit_call c n d first (note_miss c w) = (w1, None)"
  shows "(\<exists>e. map_of (ca_entries tape)
        (entry_storage_key ''llm'' (completion_key l (or_empty (model_id_for second)) messages tools) 0) = Some e) \<and>
    fst (try_models c n d (offline_provider l node messages tools tape) i (first # second # rest) tried skipped err w) =
      Inl (ProviderFailed ''cassette miss'')"
proof -
  let ?k1 = "completion_key l (or_empty (model_id_for first)) messages tools"
  let ?k2 = "completion_key l (or_empty (model_id_for second)) messages tools"
  let ?c = "fresh_tape version now workflow max_entry max_bytes seals"
  obtain e where e: "records (call_slot ''llm'' ?k2) e ?c tape"
    using assms(1) record_llm_records[where c = "?c"] record_llm_records[where c = "?c\<lparr>ca_redacted := ca_redacted ?c\<rparr>"]
    by (fastforce simp: record_llm_result_def split: if_splits)
  have entries: "ca_entries tape = [(entry_storage_key ''llm'' ?k2 0, e)]"
    using records_entries[OF e] by (simp add: fresh_tape_frame)
  have "CHR ''#'' \<notin> set (call_slot ''llm'' ?k1)" using assms(3) by (simp add: call_slot_def completion_key_def)
  moreover have "CHR ''#'' \<in> set (entry_storage_key ''llm'' ?k2 0)" by (simp add: entry_storage_key_def)
  ultimately have "call_slot ''llm'' ?k1 \<noteq> entry_storage_key ''llm'' ?k2 0" by metis
  then have "find_entry ''llm'' ?k1 tape = None" using assms(2) by (auto simp: find_entry_def entries Let_def)
  moreover have "ca_positional tape = False"
    using assms(1) by (rule record_llm_result_positional)
  ultimately have "offline_provider l node messages tools tape first i = OtherError ''cassette miss''" for i
    by (simp add: offline_provider_def replay_llm_def miss_entry_def Let_def)
  then have "fst (try_models c n d (offline_provider l node messages tools tape) i (first # second # rest) tried skipped err w) =
      Inl (ProviderFailed ''cassette miss'')"
    using assms(4-6) by (cases w) (simp add: ask_breaker_def cached_def Let_def)
  then show ?thesis using entries by simp
qed

section \<open>Forks\<close>

lemma replay_row_frame [simp]:
  "rs_provenance (replay_row now parent row c) = rs_provenance c" "rs_inputs (replay_row now parent row c) = rs_inputs c"
  "rs_metadata (replay_row now parent row c) = rs_metadata c"
  by (simp_all add: replay_row_def record_error_def record_node_def)

lemma replay_rows_frame [simp]:
  "rs_provenance (foldl (\<lambda>c row. replay_row now parent row c) c rows) = rs_provenance c"
  "rs_inputs (foldl (\<lambda>c row. replay_row now parent row c) c rows) = rs_inputs c"
  by (induction rows arbitrary: c) simp_all

lemma fork_child_provenance: "rs_provenance (fork_child run now parent node kept overrides extra) = []"
  by (simp add: fork_child_def start_run_def Let_def)

lemma reconstruct_cases:
  assumes "reconstruct_after run now parallels parent node occurrence overrides = Inr child"
  obtains kept extra where "child = fork_child run now parent node kept overrides extra"
  using assms by (auto simp: reconstruct_after_def Let_def split: if_splits option.splits pyval.splits)

lemma trusted_not_untrusted [simp]: "\<not> is_untrusted (from_mapping fr (provenance_dict (trusted src node detail)))"
  by (simp add: is_untrusted_def from_mapping_def provenance_dict_def trusted_def)

lemma seeded_rows_trusted:
  "\<forall>k raw. map_of p k = Some raw \<longrightarrow> \<not> is_untrusted (from_mapping fr raw) \<Longrightarrow>
   map_of (foldl (\<lambda>p key. setdefault key (provenance_dict (trusted src None None)) p) p keys) k = Some raw \<Longrightarrow>
   \<not> is_untrusted (from_mapping fr raw)"
proof (induction keys arbitrary: p)
  case Nil
  then show ?case by simp
next
  case (Cons key keys)
  have "\<forall>k raw. map_of (setdefault key (provenance_dict (trusted src None None)) p) k = Some raw \<longrightarrow> \<not> is_untrusted (from_mapping fr raw)"
    using Cons.prems(1) by (auto simp: dget_or_def split: option.splits)
  moreover have "map_of (foldl (\<lambda>p key. setdefault key (provenance_dict (trusted src None None)) p)
      (setdefault key (provenance_dict (trusted src None None)) p) keys) k = Some raw"
    using Cons.prems(2) by (simp only: foldl_Cons)
  ultimately show ?case by (rule Cons.IH)
qed

lemma all_trusted:
  assumes "rs_provenance s = []"
  shows "\<not> is_untrusted (provenance_of fr (seed_input_provenance s) key)"
  using seeded_rows_trusted[of "[]" fr "''input''" "List.map fst (rs_inputs s)" key] assms
  by (auto simp: provenance_of_def seed_input_provenance_def is_untrusted_def trusted_def split: option.split)

text \<open>
  C17. A fork forgets which data is not trusted: its child starts without provenance, so that no argument of a
  tool and no prompt is tainted when it starts, even those that interpolate outputs of the parent that are marked
  untrusted there: the firewall takes forked data for trusted.
\<close>

theorem fork_forgets_taint:
  assumes "reconstruct_after run now parallels parent node occurrence overrides = Inr child"
  shows "\<not> arguments_tainted fr (seed_input_provenance child) arguments \<and>
    \<not> prompt_tainted fr (seed_input_provenance child) prompt system"
proof -
  have none: "rs_provenance child = []" using assms by (rule reconstruct_cases) (simp add: fork_child_provenance)
  show ?thesis
    using all_trusted[OF none]
    by (auto simp: arguments_tainted_def prompt_tainted_def provenance_for_template_def list_ex_iff)
qed

lemma replay_row_state:
  "rs_node_outputs (replay_row now parent row c) =
     (if nr_status row = ''ok'' then dset (nr_node_id row) (nr_output row) (rs_node_outputs c) else rs_node_outputs c)"
  "List.map (\<lambda>r. (nr_node_id r, nr_status r = ''ok'')) (rs_results (replay_row now parent row c)) =
     List.map (\<lambda>r. (nr_node_id r, nr_status r = ''ok'')) (rs_results c) @ [(nr_node_id row, nr_status row = ''ok'')]"
  by (simp_all add: replay_row_def record_error_def record_node_def blank_result_def)

definition ok_outputs :: "node_result list \<Rightarrow> pydict" where
  "ok_outputs rows = List.map (\<lambda>r. (nr_node_id r, nr_output r)) (filter (\<lambda>r. nr_status r = ''ok'') rows)"

lemma replay_rows_state:
  "rs_node_outputs (foldl (\<lambda>c row. replay_row now parent row c) c rows) = update_all (rs_node_outputs c) (ok_outputs rows)"
  "List.map (\<lambda>r. (nr_node_id r, nr_status r = ''ok'')) (rs_results (foldl (\<lambda>c row. replay_row now parent row c) c rows)) =
     List.map (\<lambda>r. (nr_node_id r, nr_status r = ''ok'')) (rs_results c @ rows)"
  by (induction rows arbitrary: c) (simp_all add: replay_row_state ok_outputs_def)

lemma fork_child_state:
  "rs_node_outputs (fork_child run now parent node kept overrides extra) = update_all [] (ok_outputs kept)"
  "List.map (\<lambda>r. (nr_node_id r, nr_status r = ''ok'')) (rs_results (fork_child run now parent node kept overrides extra)) =
     List.map (\<lambda>r. (nr_node_id r, nr_status r = ''ok'')) kept"
  "rs_status (fork_child run now parent node kept overrides extra) = ''queued''"
  "rs_inputs (fork_child run now parent node kept overrides extra) = update_all (rs_inputs parent) overrides"
  by (simp_all add: fork_child_def Let_def replay_rows_state start_run_def)

lemma matches_of_set: "i \<in> set (matches_of node rows) \<longleftrightarrow> i < length rows \<and> nr_node_id (rows ! i) = node"
  by (auto simp: matches_of_def)


section \<open>Witnesses\<close>

lemma low_char: "(of_char c :: nat) < 32 \<longleftrightarrow> \<not> digit5 c \<and> \<not> digit6 c \<and> \<not> digit7 c"
  by (cases c) (auto simp: of_char_def)

lemma json_char_code [code]:
  "json_char c =
     (if c = CHR 0x22 \<or> c = CHR 0x5C then [CHR 0x5C, c]
      else if digit5 c \<or> digit6 c \<or> digit7 c then [c]
      else if c = CHR 0x0A then [CHR 0x5C, CHR ''n''] else if c = CHR 0x0D then [CHR 0x5C, CHR ''r'']
      else if c = CHR 0x09 then [CHR 0x5C, CHR ''t''] else if c = CHR 0x08 then [CHR 0x5C, CHR ''b'']
      else if c = CHR 0x0C then [CHR 0x5C, CHR ''f'']
      else CHR 0x5C # ''u00'' @ [hex_char (of_char c div 16), hex_char (of_char c mod 16)])"
proof -
  have n: "(of_char c :: nat) = 34 \<longleftrightarrow> c = CHR 0x22" "(of_char c :: nat) = 92 \<longleftrightarrow> c = CHR 0x5C" "(of_char c :: nat) = 10 \<longleftrightarrow> c = CHR 0x0A"
    "(of_char c :: nat) = 13 \<longleftrightarrow> c = CHR 0x0D" "(of_char c :: nat) = 9 \<longleftrightarrow> c = CHR 0x09" "(of_char c :: nat) = 8 \<longleftrightarrow> c = CHR 0x08"
    "(of_char c :: nat) = 12 \<longleftrightarrow> c = CHR 0x0C"
    using of_char_eq_iff[where ?'a = nat, of c "CHR 0x22"] of_char_eq_iff[where ?'a = nat, of c "CHR 0x5C"]
      of_char_eq_iff[where ?'a = nat, of c "CHR 0x0A"] of_char_eq_iff[where ?'a = nat, of c "CHR 0x0D"]
      of_char_eq_iff[where ?'a = nat, of c "CHR 0x09"] of_char_eq_iff[where ?'a = nat, of c "CHR 0x08"]
      of_char_eq_iff[where ?'a = nat, of c "CHR 0x0C"] by simp_all
  have b: "char_of (92 :: nat) = CHR 0x5C" by (simp flip: of_char_eq_iff [where ?'a = nat])
  show ?thesis unfolding json_char_def Let_def n b low_char by simp
qed

definition tape_demo :: tape_lib where
  "tape_demo = \<lparr>ta_key = (\<lambda>v. case v of PDict ((k, PStr s) # d) \<Rightarrow> filter (\<lambda>c. c \<noteq> CHR ''#'') s | _ \<Rightarrow> []), ta_size = (\<lambda>_. 1),
     ta_float = (\<lambda>_. ''0''), ta_loads = (\<lambda>_. None), ta_connector = (\<lambda>_. None)\<rparr>"

definition named_demo :: tape_lib where
  "named_demo = tape_demo\<lparr>ta_key := (\<lambda>v. case v of PDict ((k, PStr s) # d) \<Rightarrow> s | _ \<Rightarrow> [])\<rparr>"

definition demo_model :: "(nat, unit) live_model" where
  "demo_model model messages tools w =
     (Inr \<lparr>mr_text = ''hi'', mr_model = ''m'', mr_usage = [], mr_calls = []\<rparr>, Suc w)"

definition demo_tool :: "(nat, unit) live_tool" where
  "demo_tool name args w =
     (if name \<in> set DETERMINISTIC_TOOLS then (Inr (PInt 4), w) else (Inr (PInt (int w)), Suc w))"

definition demo_calls :: "(string \<times> pyval \<times> pyval) calls" where
  "demo_calls =
     AskModel ''a'' ''g'' [] [] (\<lambda>r. UseTool ''b'' ''calc'' [] (\<lambda>x. UseTool ''c'' ''now'' [] (\<lambda>y. Finished (mr_text r, x, y))))"

definition demo_recording :: "(unit replay_error + string \<times> pyval \<times> pyval) \<times> nat \<times> cassette" where
  "demo_recording = run_recording named_demo None [''password''] demo_model demo_tool demo_calls
     (0, fresh_tape ''1'' ''t'' ''w'' 100 100 [])"

lemma demo_recording_ends:
  "fst demo_recording = Inr (''hi'', PInt 4, PInt 1) \<and> ca_blocked (snd (snd demo_recording)) = [] \<and>
   save_cassette named_demo (snd (snd demo_recording)) = Inr (PDict (to_document (snd (snd demo_recording)))) \<and>
   length (ca_entries (snd (snd demo_recording))) = 3"
  by code_simp



definition fallback_tape :: "(tape_error + string) \<times> cassette" where
  "fallback_tape = record_llm_result tape_demo None [] ''draft'' (or_empty (model_id_for ''b'')) [] []
     \<lparr>mr_text = ''hi'', mr_model = ''b'', mr_usage = [], mr_calls = []\<rparr> (fresh_tape ''1'' ''t'' ''w'' 100 100 [])"

definition plain_world :: call_world where
  "plain_world = demo_world\<lparr>gw_breaker := None, gw_meter := None\<rparr>"

lemma fallback_answer_not_replayed_witness:
  "fst (try_models demo_ctx (ask_node ''sum'') demo_route (offline_provider tape_demo ''draft'' [] [] (snd fallback_tape)) 0
      [''a'', ''b''] [] [] None plain_world) = Inl (ProviderFailed ''cassette miss'')"
proof -
  have "(case fst fallback_tape of Inr k \<Rightarrow> True | Inl _ \<Rightarrow> False)" by code_simp
  then obtain k where "fst fallback_tape = Inr k" by (auto split: sum.splits)
  then have k: "fallback_tape = (Inr k, snd fallback_tape)" by (metis prod.collapse)
  have d: "completion_key tape_demo (or_empty (model_id_for ''a'')) [] [] \<noteq> completion_key tape_demo (or_empty (model_id_for ''b'')) [] []"
    by code_simp
  have h: "\<forall>v. CHR ''#'' \<notin> set (ta_key tape_demo v)" by (auto simp: tape_demo_def split: pyval.splits list.splits)
  have "snd (admit_call demo_ctx (ask_node ''sum'') demo_route ''a'' (note_miss demo_ctx plain_world)) = None" by code_simp
  then obtain w1 where a: "admit_call demo_ctx (ask_node ''sum'') demo_route ''a'' (note_miss demo_ctx plain_world) = (w1, None)"
    by (metis prod.collapse)
  have "gw_breaker plain_world = None" "gw_cache plain_world = None" by (simp_all add: plain_world_def demo_world_def)
  from fallback_answer_not_replayed[OF k[unfolded fallback_tape_def] d h this a,
      where i = 0 and tried = "[]" and skipped = "[]" and err = None and rest = "[]"] show ?thesis
    unfolding fallback_tape_def by (rule conjunct2)
qed

definition forked_parent :: run_state where
  "forked_parent =
     (let s = start_run ''r1'' ''w'' [] [] ''t'';
          s = record_node ''fetch'' (PStr ''page'') ''tool'' None blank_result s;
          s = record_node ''mail'' (PStr ''sent'') ''tool'' None blank_result s
      in s\<lparr>rs_provenance := [(''fetch'', provenance_dict (untrusted ''http_get'' (Some ''fetch'') None))]\<rparr>)"

definition forked_child :: "fork_error + run_state" where
  "forked_child = reconstruct_after ''r2'' ''u'' [] forked_parent ''fetch'' None []"

lemma forked_child_ok: "\<exists>child. forked_child = Inr child"
proof -
  have "(case forked_child of Inr c \<Rightarrow> True | Inl _ \<Rightarrow> False)" by code_simp
  then show ?thesis by (auto split: sum.splits)
qed

lemma fork_forgets_taint_witness:
  "\<exists>child. forked_child = Inr child \<and> arguments_tainted (\<lambda>_. []) forked_parent (PStr ''{{ fetch }}'') \<and>
    \<not> arguments_tainted (\<lambda>_. []) (seed_input_provenance child) (PStr ''{{ fetch }}'')"
proof -
  obtain child where c: "forked_child = Inr child" using forked_child_ok by blast
  have "arguments_tainted (\<lambda>_. []) forked_parent (PStr ''{{ fetch }}'')" by code_simp
  then show ?thesis using fork_forgets_taint[OF c[unfolded forked_child_def]] c by blast
qed


end
