(* ===== verification/Spec2Isabelle.thy ===== *)
theory Spec2Isabelle
  imports GovernorSafety MeterSafety ApprovalSafety DelegationSafety RunRecords GateSafety AgentSafety ConditionLaws EngineSafety AuditSafety TriggerSafety WaitSafety FanoutSafety ContractSafety EnvSafety ReplaySafety
begin

text \<open>
  The core of readyagents: the engine that runs declared workflows of agents and tools, and the safeguards
  around it. All paths below are relative to the package directory \<open>src/readyagents\<close> of the repository.

  \<^bold>\<open>The program.\<close> A workflow (\<open>workflow/schema.py\<close>) is a graph of nodes. The engine
  (\<open>workflow/engine.py\<close>) walks it, executes one node after the other under the policy of the node
  (\<open>workflow/nodes.py\<close>: gates, cache, retries, recovery), records every result in the state of the run
  (\<open>workflow/state.py\<close>) and persists the state after every node, so that a run that stopped, failed or waits
  for an approval or an event is resumed from its record. Around the loop stand a governor of concurrent calls, a
  meter of tokens and money, approval gates with votes and delegations, a firewall that follows the provenance of
  data into tool calls, the routing of model calls with circuit breakers and fallbacks, output contracts, triggers
  that start runs, waits that park them, an audit trail of hash-linked rows, and environments with pinned releases.

  \<^bold>\<open>Conventions.\<close> A Python string is a list of ASCII characters, a float an exact rational, an int an
  \<open>int\<close>, a dict an association list in insertion order (\<open>dset\<close> replaces in place or appends), a JSON value
  the datatype \<open>pyval\<close>. A class is a record, an enum a datatype. A function that may raise returns a sum with the
  error on the left. Mutable state is passed explicitly: \<open>engine_world\<close> holds the run, the stored decisions, the
  stores of health and feedback and the trace of what was emitted, persisted and audited. Clocks, hashes, random ids,
  parsers of numbers and dates, models, tools and the file system are arguments, so that no theorem depends on what
  they answer unless it says so as a hypothesis. Each critical section under a lock is one transformer; concurrency
  is the interleaving of such sections in an inductive relation (governor, meter, triggers) or a permutation of
  results (parallel and foreach nodes).

  \<^bold>\<open>Theories and code.\<close>
  \<^item> Vocabulary. \<open>Prelude\<close> (results, dictionaries, text), \<open>Values\<close> (JSON values, truth, equality and
    conversions of Python), \<open>Glob\<close> (\<open>fnmatch\<close>), \<open>Regex\<close> (the fragment of \<open>re\<close> that the sources use),
    \<open>Templates\<close> (\<open>workflow/templates.py\<close>).
  \<^item> Concurrency and money. \<open>Governor\<close> (\<open>workflow/governor.py\<close>), \<open>Prices\<close> (\<open>cost/prices.py\<close>),
    \<open>Meter\<close> (\<open>cost/meter.py\<close>); \<open>GovernorSafety\<close>: the counters agree with the slots held, no limit is passed
    in any reachable state, the token bucket bounds the rate; \<open>MeterSafety\<close>: with a token cap and a spend cap
    no interleaving of calls spends more than the cap, and without the token cap one does.
  \<^item> Approvals. \<open>Gates\<close> (\<open>approvals/gate.py\<close>), \<open>Delegations\<close> (\<open>approvals/delegate.py\<close>, the queue
    and its views), \<open>ApprovalNode\<close> (the approval node); \<open>ApprovalSafety\<close>: what an approval needs (quorum of
    distinct actors, roles, deadline, no rejection, the prompt that was seen); \<open>DelegationSafety\<close>: which
    delegation a decision may rest on.
  \<^item> Runs. \<open>RunStates\<close> (\<open>workflow/state.py\<close>, the garbage collection of \<open>run_store\<close>), \<open>RunRecords\<close>: the
    record of a run reads back as the run; \<open>Conditions\<close> (\<open>workflow/conditions.py\<close>), \<open>ConditionLaws\<close>: a
    condition is the boolean expression it spells; \<open>Workflows\<close> (the graph and its validators).
  \<^item> Provenance and firewall. \<open>Taint\<close> (\<open>firewall/taint.py\<close>, \<open>routing/taint.py\<close>), \<open>Firewall\<close> (policies,
    detectors, scopes, secrets), \<open>Enforcement\<close> (the tool gate of \<open>replay/record.py\<close>, pins of MCP tools);
    \<open>FirewallSafety\<close>: how provenance flows and what an allowed call has passed; \<open>GateSafety\<close>: what a decision
    on a tool gate or a pin allows.
  \<^item> Models. \<open>Capabilities\<close> and \<open>Resilience\<close> (\<open>llm/capabilities.py\<close>, \<open>llm/resilience.py\<close>: the
    breaker refines one two-state circuit per model), \<open>Routing\<close> (\<open>routing/select.py\<close>,
    \<open>routing/budgets.py\<close>), \<open>AgentCalls\<close> (the model call of an agent node); \<open>RoutingSafety\<close>,
    \<open>AgentSafety\<close>: untrusted data under a residency lock reaches local models only, every reservation is settled.
  \<^item> The engine. \<open>Health\<close>, \<open>Feedback\<close> (\<open>health/\<close>, \<open>feedback/\<close>: classes of failures, recovery,
    quarantine, recorded signals), \<open>NodePolicy\<close> (\<open>execute_node_with_policy\<close>), \<open>Engine\<close> (the loop),
    \<open>Nodes\<close> (the body of a node and its gate), \<open>Fanout\<close> (foreach and parallel nodes); \<open>EngineLaws\<close>,
    \<open>EngineRuns\<close>, \<open>EngineRouting\<close>, \<open>NodeAttempts\<close>: the loop over any body that keeps the interface of
    the locale \<open>node_runner\<close>; \<open>EngineSafety\<close>: how a run ends, what a crash loses, which nodes start;
    \<open>FanoutSafety\<close>: results do not depend on the order in which workers finish.
  \<^item> Contracts. \<open>Contracts\<close>, \<open>ContractRules\<close>, \<open>ContractRuns\<close> (\<open>contracts/\<close>,
    \<open>workflow/structured.py\<close>, the redactor of \<open>policy.py\<close>); \<open>ContractSafety\<close>: what leaves a contract meets it,
    is a recorded redaction or was approved, within a bounded number of model calls.
  \<^item> Starting and waiting. \<open>Triggers\<close>, \<open>TriggerStarts\<close> (\<open>triggers/\<close>, \<open>decisions/signing.py\<close>) and
    their laws in \<open>TriggerLaws\<close>, \<open>TriggerSafety\<close>: the ceiling of a trigger, one start per key and window, a dead
    letter for every refused event; \<open>Waits\<close>, \<open>WaitNodes\<close>, \<open>WaitSafety\<close> (\<open>wait/\<close>): when a wait is
    over, and that a parked run keeps its deadline.
  \<^item> \<open>AuditTrail\<close>, \<open>AuditLaws\<close>, \<open>AuditSafety\<close> (\<open>audit.py\<close>): what is appended verifies, and what
    verifies is fixed by its last hash.
  \<^item> \<open>Environments\<close>, \<open>EnvRuns\<close>, \<open>EnvSafety\<close> (\<open>env/\<close>): a promotion has passed its gates, a run executes
    what was pinned, runs never roll an environment forward.
  \<^item> \<open>Cassettes\<close> (\<open>replay/cassette.py\<close>), \<open>Replays\<close> (\<open>replay/record.py\<close>, \<open>replay/offline.py\<close>,
    \<open>replay/fork.py\<close>), \<open>ReplaySafety\<close>: a recorded run replays offline to its result, no tape shows a known
    secret, a fork keeps the prefix it was taken at. What the nodes do between their calls is the datatype
    \<open>calls\<close>, any client of the two seams.

  \<^bold>\<open>Interfaces.\<close> The meter sees prices through the locale \<open>pricing\<close>, interpreted on the bundled table. The
  loop sees the execution of a node through \<open>node_runner\<close> (no result recorded, no node started, no run ended by a
  body) and its routes through \<open>routed_runner\<close>; both are interpreted on \<open>execute_node\<close> with the bodies of
  \<open>Nodes\<close>. Bodies of other components (fan-out, contracts, waits) are arguments of the same shape.

  \<^bold>\<open>Bounds and termination.\<close> The loop counts steps up to \<open>MAX_STEPS\<close>, 500, as the code does; the attempts
  of a node end by a measure of the tries and the recovery left. A regular expression is matched with as many rounds
  per star as there are characters left, enough because a round that reads nothing adds no new position. Trailing
  commas are removed in the 8 rounds of the source; the repairs of a contract are at most 5; the walk over rotated
  audit files, the replacement loops and the drains of queues end by measures on the text or the list. Where
  other fuel appears it is the length of the input, and the theorems hold for the value a function is called with.

  \<^bold>\<open>What modelling showed.\<close> Some theorems state what the code does where it is not what its documents say: a run
  whose pending node is completed cannot be resumed; the approval of a policy gate also publishes an output that fails
  its contract; guards of an environment never see a release whose runs all fail, and are off after the promotion of a
  revert; a run that fell back to a second model is not replayed offline; a fork forgets which data is not trusted.
  Lemmas that are no numbered property show more of them: a meter without token cap overspends, a signature breaks under an unsigned redeployment, items of a foreach share the branches of an earlier parallel node.

  \<^bold>\<open>Not modelled.\<close> Transports and servers (\<open>mcp/\<close>, \<open>a2a/\<close>, the approval and studio applications), model
  and connector clients, operating system isolation (\<open>code/\<close>, \<open>sovereign/\<close>, \<open>browser/\<close>), cryptography
  (\<open>trust/\<close>, \<open>identity/\<close>), decoders (\<open>media/\<close>), file and SQLite storage, the command line, reports and
  importers: code that mostly calls libraries or the operating system. Of the modelled parts are left out the loading
  of YAML, include nodes and the bodies of agent, tool, code, memory and media nodes apart from the model call
  (arguments of the engine), asynchronous execution, streaming and batches, frozen runs and the tape entries of
  decide nodes, and characters outside ASCII. Components with their own data but without the weight of those above (sessions, memory,
  knowledge, tables, teams, registries) are not modelled either.
\<close>

end
